(* ===== verification/Prelude.thy ===== *)
theory Prelude
  imports Main "HOL-Library.Multiset"
begin

text \<open>
  What every component of the model shares: Go's error values, the result type of a
  fallible call, the sequencing of \<^verbatim>\<open>if err != nil { return ... }\<close>, nullable values with
  SQL's three-valued comparisons, and the small list lemmas the component proofs use.
\<close>

named_theorems inv_intros \<open>rules that push a state invariant through a sequence of calls\<close>
named_theorems ok_simps \<open>inversion of a call that returned a value\<close>

section \<open>Errors and results\<close>

text \<open>
  The gRPC status codes the handlers return, the errors a statement can end in, and Go's
  error values. A formatted error keeps its format string and the errors it wraps; the
  rendered text is never compared by the code. A run-time panic (a nil dereference) that
  unwinds a handler is the value \<open>Panic\<close>.
\<close>

datatype grpc_code = InvalidArgument | Internal | FailedPrecondition | Unauthenticated | Unimplemented

datatype sql_error =
    NoRows
  | UniqueViolation string
  | ForeignKeyViolation string
  | ValueTooLong
  | IntegerOutOfRange
  | DriverError string

datatype goerror =
    ErrSql sql_error
  | ErrRedisNil
  | ErrRedis string
  | ErrNew string
  | Errorf string "goerror list"
  | Status grpc_code string "goerror list"
  | Panic string

type_synonym 'a res = "goerror + 'a"

text \<open>
  \<open>check_err rs wrap k\<close> is the Go idiom
  \<^verbatim>\<open>x, err := call(); if err != nil { return nil, wrap(err) }; k(x)\<close>
  over an explicit state: the state after the call is kept on both paths.
\<close>

definition check_err ::
    "'a res \<times> 's \<Rightarrow> (goerror \<Rightarrow> goerror) \<Rightarrow> ('a \<Rightarrow> 's \<Rightarrow> 'b res \<times> 's) \<Rightarrow> 'b res \<times> 's" where
  "check_err rs wrap k =
     (case rs of (Inl e, s) \<Rightarrow> (Inl (wrap e), s) | (Inr x, s) \<Rightarrow> k x s)"

text \<open>The error handed on as it is: \<^verbatim>\<open>return nil, err\<close>.\<close>

abbreviation (input) same_err :: "goerror \<Rightarrow> goerror" where
  "same_err \<equiv> (\<lambda>e. e)"

lemma check_err_simps [simp]:
  "check_err (Inl e, s) w k = (Inl (w e), s)"
  "check_err (Inr x, s) w k = k x s"
  by (simp_all add: check_err_def)

lemma check_err_Inr [ok_simps]:
  "check_err rs w k = (Inr y, t) \<longleftrightarrow> (\<exists>x s. rs = (Inr x, s) \<and> k x s = (Inr y, t))"
  by (cases rs; cases "fst rs") auto

lemma check_err_Inl:
  "check_err rs w k = (Inl e, t) \<longleftrightarrow>
     (\<exists>e'. rs = (Inl e', t) \<and> e = w e') \<or> (\<exists>x s. rs = (Inr x, s) \<and> k x s = (Inl e, t))"
  by (cases rs; cases "fst rs") auto

lemma check_err_inv [inv_intros]:
  assumes "P (snd rs)"
    and "\<And>x s. rs = (Inr x, s) \<Longrightarrow> P s \<Longrightarrow> P (snd (k x s))"
  shows "P (snd (check_err rs w k))"
  using assms by (cases rs; cases "fst rs") auto

lemma if_inv [inv_intros]:
  "(b \<Longrightarrow> P (snd x)) \<Longrightarrow> (\<not> b \<Longrightarrow> P (snd y)) \<Longrightarrow> P (snd (if b then x else y))"
  by simp

lemma pair_inv [inv_intros]: "P s \<Longrightarrow> P (snd (r, s))"
  by simp

text \<open>The same for a value and a flag: \<^verbatim>\<open>x, ok := call(); if !ok { return nil, err }; k(x)\<close>.\<close>

definition check_ok :: "'a option \<Rightarrow> goerror \<Rightarrow> ('a \<Rightarrow> 's \<Rightarrow> 'b res \<times> 's) \<Rightarrow> 's \<Rightarrow> 'b res \<times> 's" where
  "check_ok x err k s = (case x of None \<Rightarrow> (Inl err, s) | Some y \<Rightarrow> k y s)"

lemma check_ok_simps [simp]:
  "check_ok None err k s = (Inl err, s)"
  "check_ok (Some y) err k s = k y s"
  by (simp_all add: check_ok_def)

lemma check_ok_Inr [ok_simps]:
  "check_ok x err k s = (Inr y, t) \<longleftrightarrow> (\<exists>z. x = Some z \<and> k z s = (Inr y, t))"
  by (cases x) auto

lemma check_ok_inv [inv_intros]:
  "P s \<Longrightarrow> (\<And>y. x = Some y \<Longrightarrow> P (snd (k y s))) \<Longrightarrow> P (snd (check_ok x err k s))"
  by (cases x) auto

section \<open>Nullable values\<close>

text \<open>
  \<^verbatim>\<open>sql.NullString\<close>, \<^verbatim>\<open>sql.NullTime\<close>, \<^verbatim>\<open>sql.NullInt32\<close>, \<^verbatim>\<open>sql.NullBool\<close> and a nullable SQL
  column: a value or NULL. Reading the value field of a NULL gives Go's zero value.
\<close>

datatype 'a nullable = Val 'a | Null

primrec null_or :: "'a \<Rightarrow> 'a nullable \<Rightarrow> 'a" where
  "null_or z (Val x) = x"
| "null_or z Null = z"

abbreviation null_string :: "string nullable \<Rightarrow> string" where
  "null_string \<equiv> null_or []"

abbreviation null_int :: "int nullable \<Rightarrow> int" where
  "null_int \<equiv> null_or 0"

abbreviation null_bool :: "bool nullable \<Rightarrow> bool" where
  "null_bool \<equiv> null_or False"

text \<open>ORDER BY treats NULL as larger than every value.\<close>

instantiation nullable :: (linorder) linorder
begin

fun less_eq_nullable :: "'a nullable \<Rightarrow> 'a nullable \<Rightarrow> bool" where
  "less_eq_nullable x Null = True"
| "less_eq_nullable Null (Val y) = False"
| "less_eq_nullable (Val x) (Val y) = (x \<le> y)"

definition less_nullable :: "'a nullable \<Rightarrow> 'a nullable \<Rightarrow> bool" where
  "less_nullable x y \<longleftrightarrow> x \<le> y \<and> \<not> y \<le> x"

instance
proof
  fix x y z :: "'a nullable"
  show "x < y \<longleftrightarrow> x \<le> y \<and> \<not> y \<le> x" by (rule less_nullable_def)
  show "x \<le> x" by (cases x) simp_all
  show "x \<le> z" if "x \<le> y" and "y \<le> z"
    using that by (cases x; cases y; cases z) auto
  show "x = y" if "x \<le> y" and "y \<le> x"
    using that by (cases x; cases y) auto
  show "x \<le> y \<or> y \<le> x" by (cases x; cases y) auto
qed

end

lemma Val_le_Val [simp]: "Val x \<le> Val y \<longleftrightarrow> x \<le> (y :: 'a :: linorder)"
  by simp

section \<open>Three-valued logic\<close>

text \<open>A WHERE clause keeps the rows for which its condition is TRUE, not NULL.\<close>

type_synonym tri = "bool nullable"

definition holds :: "tri \<Rightarrow> bool" where
  "holds t \<longleftrightarrow> t = Val True"

fun eq3 :: "'a nullable \<Rightarrow> 'a nullable \<Rightarrow> tri" where
  "eq3 (Val x) (Val y) = Val (x = y)"
| "eq3 _ _ = Null"

fun gt3 :: "'a::linorder nullable \<Rightarrow> 'a nullable \<Rightarrow> tri" where
  "gt3 (Val x) (Val y) = Val (y < x)"
| "gt3 _ _ = Null"

fun and3 :: "tri \<Rightarrow> tri \<Rightarrow> tri" where
  "and3 (Val False) _ = Val False"
| "and3 _ (Val False) = Val False"
| "and3 (Val True) (Val True) = Val True"
| "and3 _ _ = Null"

fun or3 :: "tri \<Rightarrow> tri \<Rightarrow> tri" where
  "or3 (Val True) _ = Val True"
| "or3 _ (Val True) = Val True"
| "or3 (Val False) (Val False) = Val False"
| "or3 _ _ = Null"

definition is_null :: "'a nullable \<Rightarrow> tri" where
  "is_null x = Val (x = Null)"

text \<open>\<open>x = ANY(xs)\<close>; a NULL array gives NULL.\<close>

fun any3 :: "'a \<Rightarrow> 'a list nullable \<Rightarrow> tri" where
  "any3 x (Val xs) = Val (x \<in> set xs)"
| "any3 x Null = Null"

lemma holds_Val [simp]: "holds (Val b) \<longleftrightarrow> b"
  by (simp add: holds_def)

lemma holds_Null [simp]: "\<not> holds Null"
  by (simp add: holds_def)

lemma holds_and3 [simp]: "holds (and3 s t) \<longleftrightarrow> holds s \<and> holds t"
  by (cases "(s, t)" rule: and3.cases) (auto simp: holds_def)

lemma holds_or3 [simp]: "holds (or3 s t) \<longleftrightarrow> holds s \<or> holds t"
  by (cases "(s, t)" rule: or3.cases) (auto simp: holds_def)

lemma holds_is_null [simp]: "holds (is_null x) \<longleftrightarrow> x = Null"
  by (simp add: is_null_def)

lemma holds_eq3 [simp]: "holds (eq3 x y) \<longleftrightarrow> (\<exists>a. x = Val a \<and> y = Val a)"
  by (cases "(x, y)" rule: eq3.cases) auto

lemma holds_any3 [simp]: "holds (any3 u v) \<longleftrightarrow> (\<exists>us. v = Val us \<and> u \<in> set us)"
  by (cases v) auto

lemma holds_gt3 [simp]: "holds (gt3 x y) \<longleftrightarrow> (\<exists>a b. x = Val a \<and> y = Val b \<and> b < a)"
  by (cases "(x, y)" rule: gt3.cases) auto

section \<open>Lists\<close>

text \<open>The keys of the rows that have one: a NULL in an indexed column has none.\<close>

fun keys_of :: "('r \<Rightarrow> 'k option) \<Rightarrow> 'r list \<Rightarrow> 'k list" where
  "keys_of f [] = []"
| "keys_of f (x # xs) = (case f x of None \<Rightarrow> keys_of f xs | Some k \<Rightarrow> k # keys_of f xs)"

lemma set_keys_of: "set (keys_of f xs) = {k. \<exists>x \<in> set xs. f x = Some k}"
  by (induction xs) (auto split: option.splits)

lemma keys_of_append [simp]: "keys_of f (xs @ ys) = keys_of f xs @ keys_of f ys"
  by (induction xs) (auto split: option.splits)

lemma keys_of_map_same:
  "(\<And>x. x \<in> set xs \<Longrightarrow> f (g x) = f x) \<Longrightarrow> keys_of f (map g xs) = keys_of f xs"
  by (induction xs) (auto split: option.splits)

lemma keys_of_total: "keys_of (\<lambda>x. Some (g x)) xs = map g xs"
  by (induction xs) auto

lemma distinct_keys_of_filter: "distinct (keys_of f xs) \<Longrightarrow> distinct (keys_of f (filter P xs))"
  by (induction xs) (auto simp: set_keys_of split: option.splits)

lemma distinct_keys_ofD:
  "distinct (keys_of f xs) \<Longrightarrow> x \<in> set xs \<Longrightarrow> y \<in> set xs \<Longrightarrow> f x = Some k \<Longrightarrow> f y = Some k
     \<Longrightarrow> x = y"
  by (induction xs) (auto simp: set_keys_of split: option.splits)

lemma filter_eq_single:
  assumes "distinct (map key xs)" and "x \<in> set xs"
  shows "filter (\<lambda>y. key y = key x) xs = [x]"
  using assms by (induction xs) (auto simp: filter_empty_conv image_iff)

lemma map_if_key_id:
  "k \<notin> key ` set xs \<Longrightarrow> map (\<lambda>y. if key y = k then f y else y) xs = xs"
  by (induction xs) auto

end
