(* ===== verification/Sql_Engine.thy ===== *)
theory Sql_Engine
  imports Prelude
begin

text \<open>
  How the statements embedded in the \<^verbatim>\<open>queries.sql.go\<close> files act on the tables of
  \<^verbatim>\<open>core/db/migrations\<close>: a table is the list of its rows, a schema names its row checks
  (column widths, integer ranges) and its unique indexes, and a statement either fails and
  leaves the tables alone or returns its rows and the changed tables. A connection adds what
  the driver does with each statement: answer it, refuse it, or lose the answer after the
  statement took effect. These outcomes are a parameter of the model, one per statement.
\<close>

section \<open>Tables with constraints\<close>

record 'r schema =
  row_check :: "'r \<Rightarrow> sql_error option"
  indexes :: "(string \<times> ('r \<Rightarrow> string list option)) list"

fun first_error :: "('r \<Rightarrow> sql_error option) \<Rightarrow> 'r list \<Rightarrow> sql_error option" where
  "first_error f [] = None"
| "first_error f (r # rs) = (case f r of None \<Rightarrow> first_error f rs | Some e \<Rightarrow> Some e)"

definition tbl_wf :: "'r schema \<Rightarrow> 'r list \<Rightarrow> bool" where
  "tbl_wf sch rs \<longleftrightarrow>
     (\<forall>r \<in> set rs. row_check sch r = None) \<and>
     (\<forall>ix \<in> set (indexes sch). distinct (keys_of (snd ix) rs))"

text \<open>
  Storing checks the rows a statement wrote and then the indexes of the table it leaves.
\<close>

definition tbl_store :: "'r schema \<Rightarrow> 'r list \<Rightarrow> 'r list \<Rightarrow> sql_error + 'r list" where
  "tbl_store sch written rs =
     (case first_error (row_check sch) written of
        Some e \<Rightarrow> Inl e
      | None \<Rightarrow>
         (case find (\<lambda>ix. \<not> distinct (keys_of (snd ix) rs)) (indexes sch) of
            Some ix \<Rightarrow> Inl (UniqueViolation (fst ix))
          | None \<Rightarrow> Inr rs))"

definition tbl_insert :: "'r schema \<Rightarrow> 'r \<Rightarrow> 'r list \<Rightarrow> sql_error + 'r list" where
  "tbl_insert sch r rs = tbl_store sch [r] (rs @ [r])"

definition tbl_update ::
    "'r schema \<Rightarrow> ('r \<Rightarrow> bool) \<Rightarrow> ('r \<Rightarrow> 'r) \<Rightarrow> 'r list \<Rightarrow> sql_error + 'r list" where
  "tbl_update sch p f rs =
     tbl_store sch (map f (filter p rs)) (map (\<lambda>r. if p r then f r else r) rs)"

definition tbl_delete :: "('r \<Rightarrow> bool) \<Rightarrow> 'r list \<Rightarrow> 'r list" where
  "tbl_delete p rs = filter (\<lambda>r. \<not> p r) rs"

text \<open>\<^verbatim>\<open>QueryRow(...).Scan\<close>: the first row, or \<^verbatim>\<open>sql.ErrNoRows\<close>.\<close>

definition one_row :: "'a list \<Rightarrow> sql_error + 'a" where
  "one_row rs = (case rs of [] \<Rightarrow> Inl NoRows | r # _ \<Rightarrow> Inr r)"

lemma one_row_Inr: "one_row rs = Inr r \<longleftrightarrow> (\<exists>rest. rs = r # rest)"
  by (auto simp: one_row_def split: list.splits)

lemma one_row_Cons [simp]: "one_row (r # rs) = Inr r"
  and one_row_Nil [simp]: "one_row [] = Inl NoRows"
  by (simp_all add: one_row_def)

lemma map_sum_Inr: "map_sum id f r = Inr y \<longleftrightarrow> (\<exists>x. r = Inr x \<and> y = f x)"
  by (cases r) auto

lemma first_error_None: "first_error f rs = None \<longleftrightarrow> (\<forall>r \<in> set rs. f r = None)"
  by (induction rs) (auto split: option.splits)

lemma tbl_store_Inr:
  "tbl_store sch ws rs = Inr ts \<longleftrightarrow>
     ts = rs \<and> (\<forall>r \<in> set ws. row_check sch r = None) \<and>
     (\<forall>ix \<in> set (indexes sch). distinct (keys_of (snd ix) rs))"
proof (cases "first_error (row_check sch) ws")
  case None
  have "find (\<lambda>ix. \<not> distinct (keys_of (snd ix) rs)) (indexes sch) = None \<longleftrightarrow>
      (\<forall>ix \<in> set (indexes sch). distinct (keys_of (snd ix) rs))"
    by (auto simp: find_None_iff)
  moreover have "\<forall>r \<in> set ws. row_check sch r = None"
    using None by (simp add: first_error_None)
  ultimately show ?thesis
    using None by (auto simp: tbl_store_def split: option.splits)
next
  case (Some e)
  then have "\<not> (\<forall>r \<in> set ws. row_check sch r = None)"
    by (metis first_error_None option.distinct(1))
  with Some show ?thesis by (auto simp: tbl_store_def)
qed

lemma tbl_insert_Inr:
  "tbl_insert sch r rs = Inr ts \<Longrightarrow> ts = rs @ [r]"
  by (simp add: tbl_insert_def tbl_store_Inr)

lemma tbl_update_Inr:
  "tbl_update sch p f rs = Inr ts \<Longrightarrow> ts = map (\<lambda>r. if p r then f r else r) rs"
  by (simp add: tbl_update_def tbl_store_Inr)

lemma tbl_wf_Nil [simp]: "tbl_wf sch []"
  by (simp add: tbl_wf_def)

lemma tbl_insert_wf: "tbl_wf sch rs \<Longrightarrow> tbl_insert sch r rs = Inr ts \<Longrightarrow> tbl_wf sch ts"
  by (auto simp: tbl_insert_def tbl_store_Inr tbl_wf_def)

lemma tbl_update_wf: "tbl_wf sch rs \<Longrightarrow> tbl_update sch p f rs = Inr ts \<Longrightarrow> tbl_wf sch ts"
  by (auto simp: tbl_update_def tbl_store_Inr tbl_wf_def)

lemma tbl_delete_wf: "tbl_wf sch rs \<Longrightarrow> tbl_wf sch (tbl_delete p rs)"
  by (auto simp: tbl_delete_def tbl_wf_def intro: distinct_keys_of_filter)

text \<open>An update that keeps every indexed column succeeds when the new rows pass their checks.\<close>

lemma tbl_update_ok:
  assumes "tbl_wf sch rs"
    and "\<And>r. r \<in> set rs \<Longrightarrow> p r \<Longrightarrow> row_check sch (f r) = None"
    and "\<And>r ix. ix \<in> set (indexes sch) \<Longrightarrow> r \<in> set rs \<Longrightarrow> p r \<Longrightarrow> snd ix (f r) = snd ix r"
  shows "tbl_update sch p f rs = Inr (map (\<lambda>r. if p r then f r else r) rs)"
proof -
  have "keys_of (snd ix) (map (\<lambda>r. if p r then f r else r) rs) = keys_of (snd ix) rs"
    if "ix \<in> set (indexes sch)" for ix
    using that assms(3) by (intro keys_of_map_same) auto
  with assms(1,2) show ?thesis
    by (auto simp: tbl_update_def tbl_store_Inr tbl_wf_def)
qed

section \<open>Insert or update\<close>

text \<open>
  \<^verbatim>\<open>INSERT ... ON CONFLICT (key) DO UPDATE SET ... RETURNING ...\<close>: the columns of the new row are
  checked first; \<open>merge new old\<close> is the row the update makes of the one that was there.
\<close>

definition tbl_upsert ::
    "'r schema \<Rightarrow> ('r \<Rightarrow> string list) \<Rightarrow> ('r \<Rightarrow> 'r \<Rightarrow> 'r) \<Rightarrow> 'r \<Rightarrow> 'r list \<Rightarrow> sql_error + ('r \<times> 'r list)" where
  "tbl_upsert sch key merge new rs =
     (case row_check sch new of
        Some e \<Rightarrow> Inl e
      | None \<Rightarrow>
          (case find (\<lambda>r. key r = key new) rs of
             None \<Rightarrow> map_sum id (Pair new) (tbl_insert sch new rs)
           | Some old \<Rightarrow> map_sum id (Pair (merge new old))
               (tbl_update sch (\<lambda>r. key r = key new) (merge new) rs)))"

locale upsert_table =
  fixes sch :: "'r schema" and key :: "'r \<Rightarrow> string list" and merge :: "'r \<Rightarrow> 'r \<Rightarrow> 'r"
  assumes key_index: "\<exists>n. (n, \<lambda>r. Some (key r)) \<in> set (indexes sch)"
    and merge_key: "key old = key new \<Longrightarrow> key (merge new old) = key new"
begin

lemma upsert_wf:
  "tbl_wf sch rs \<Longrightarrow> tbl_upsert sch key merge new rs = Inr (x, rs') \<Longrightarrow> tbl_wf sch rs'"
  by (auto simp: tbl_upsert_def map_sum_Inr intro: tbl_insert_wf tbl_update_wf split: option.splits)

lemma keys_distinct: "tbl_wf sch rs \<Longrightarrow> distinct (map key rs)"
  using key_index by (auto simp: tbl_wf_def simp flip: keys_of_total)

lemma upsert_new:
  assumes "tbl_upsert sch key merge new rs = Inr (x, rs')" and "key new \<notin> key ` set rs"
  shows "x = new" and "rs' = rs @ [new]"
proof -
  have "find (\<lambda>r. key r = key new) rs = None"
    using assms(2) by (auto simp: find_None_iff image_iff)
  with assms(1) show "x = new" "rs' = rs @ [new]"
    by (auto simp: tbl_upsert_def map_sum_Inr dest!: tbl_insert_Inr split: option.splits)
qed

lemma upsert_old:
  assumes "tbl_upsert sch key merge new rs = Inr (x, rs')" and "tbl_wf sch rs"
    and "old \<in> set rs" and "key old = key new"
  shows "x = merge new old" and "rs' = map (\<lambda>r. if key r = key new then merge new r else r) rs"
proof -
  have single: "r = old" if "r \<in> set rs" "key r = key new" for r
    using keys_distinct [OF assms(2)] assms(3,4) that by (auto simp: distinct_map inj_on_def)
  obtain r where "find (\<lambda>r. key r = key new) rs = Some r" "r \<in> set rs" "key r = key new"
    using assms(3,4) by (cases "find (\<lambda>r. key r = key new) rs") (auto simp: find_None_iff find_Some_iff)
  with single have "find (\<lambda>r. key r = key new) rs = Some old" by simp
  with assms(1) show "x = merge new old" "rs' = map (\<lambda>r. if key r = key new then merge new r else r) rs"
    by (auto simp: tbl_upsert_def map_sum_Inr dest!: tbl_update_Inr split: option.splits)
qed

text \<open>After it the row it returned is the one row with the key, and every other row is as it was.\<close>

lemma upsert_row:
  assumes "tbl_upsert sch key merge new rs = Inr (x, rs')" and "tbl_wf sch rs"
  shows "filter (\<lambda>r. key r = key new) rs' = [x]"
    and "filter (\<lambda>r. key r \<noteq> key new) rs' = filter (\<lambda>r. key r \<noteq> key new) rs"
proof -
  have "key x = key new \<and> x \<in> set rs' \<and> filter (\<lambda>r. key r \<noteq> key new) rs' = filter (\<lambda>r. key r \<noteq> key new) rs"
  proof (cases "key new \<in> key ` set rs")
    case False
    from upsert_new [OF assms(1) this] show ?thesis by simp
  next
    case True
    then obtain old where old: "old \<in> set rs" "key old = key new" by auto
    have "filter (\<lambda>r. key r \<noteq> k) (map (\<lambda>r. if key r = k then merge new r else r) rs) =
        filter (\<lambda>r. key r \<noteq> k) rs" if "k = key new" for k
      using merge_key that by (induction rs) auto
    with upsert_old [OF assms old] merge_key [OF old(2)] old show ?thesis by auto
  qed
  moreover from this have "filter (\<lambda>r. key r = key x) rs' = [x]"
    by (intro filter_eq_single keys_distinct upsert_wf [OF assms(2,1)]) simp
  ultimately show "filter (\<lambda>r. key r = key new) rs' = [x]"
    "filter (\<lambda>r. key r \<noteq> key new) rs' = filter (\<lambda>r. key r \<noteq> key new) rs" by simp_all
qed

end

section \<open>Connections\<close>

datatype outcome = Answered | Refused string | AnswerLost string

record 't conn =
  dbt :: 't
  outcomes :: "outcome list"

fun next_outcome :: "outcome list \<Rightarrow> outcome \<times> outcome list" where
  "next_outcome [] = (Answered, [])"
| "next_outcome (oc # ocs) = (oc, ocs)"

definition exec_stmt ::
    "('t \<Rightarrow> sql_error + ('a \<times> 't)) \<Rightarrow> 't conn \<Rightarrow> 'a res \<times> 't conn" where
  "exec_stmt f c =
     (let (oc, ocs) = next_outcome (outcomes c); c' = c\<lparr>outcomes := ocs\<rparr> in
      case oc of
        Refused m \<Rightarrow> (Inl (ErrSql (DriverError m)), c')
      | Answered \<Rightarrow>
          (case f (dbt c) of
             Inl e \<Rightarrow> (Inl (ErrSql e), c')
           | Inr (x, t) \<Rightarrow> (Inr x, c'\<lparr>dbt := t\<rparr>))
      | AnswerLost m \<Rightarrow>
          (case f (dbt c) of
             Inl e \<Rightarrow> (Inl (ErrSql (DriverError m)), c')
           | Inr (x, t) \<Rightarrow> (Inl (ErrSql (DriverError m)), c'\<lparr>dbt := t\<rparr>)))"

definition exec_query :: "('t \<Rightarrow> sql_error + 'a) \<Rightarrow> 't conn \<Rightarrow> 'a res \<times> 't conn" where
  "exec_query g = exec_stmt (\<lambda>t. case g t of Inl e \<Rightarrow> Inl e | Inr x \<Rightarrow> Inr (x, t))"

text \<open>A connection on which every statement is answered.\<close>

definition up :: "'t conn \<Rightarrow> bool" where
  "up c \<longleftrightarrow> outcomes c = []"

lemma exec_stmt_Inr [ok_simps]:
  "exec_stmt f c = (Inr x, c') \<Longrightarrow> f (dbt c) = Inr (x, dbt c')"
  by (cases "outcomes c")
     (auto simp: exec_stmt_def Let_def split: outcome.splits sum.splits prod.splits)

lemma exec_stmt_inv [inv_intros]:
  assumes "P (dbt c)" and "\<And>x t. f (dbt c) = Inr (x, t) \<Longrightarrow> P t"
  shows "P (dbt (snd (exec_stmt f c)))"
  using assms by (cases "outcomes c")
     (auto simp: exec_stmt_def Let_def split: outcome.splits sum.splits prod.splits)

lemma exec_stmt_up:
  "up c \<Longrightarrow> exec_stmt f c =
     (case f (dbt c) of Inl e \<Rightarrow> (Inl (ErrSql e), c) | Inr (x, t) \<Rightarrow> (Inr x, c\<lparr>dbt := t\<rparr>))"
  by (cases c) (simp add: exec_stmt_def up_def split: sum.splits)

lemma exec_query_tbl [simp]: "dbt (snd (exec_query g c)) = dbt c"
  unfolding exec_query_def
  by (rule exec_stmt_inv [where P = "\<lambda>t. t = dbt c"]) (auto split: sum.splits)

lemma exec_query_Inr:
  "exec_query g c = (Inr x, c') \<Longrightarrow> g (dbt c) = Inr x \<and> dbt c' = dbt c"
  unfolding exec_query_def by (drule exec_stmt_Inr) (auto split: sum.splits)

lemma exec_query_up:
  "up c \<Longrightarrow> exec_query g c = (case g (dbt c) of Inl e \<Rightarrow> (Inl (ErrSql e), c) | Inr x \<Rightarrow> (Inr x, c))"
  by (cases c) (simp add: exec_query_def exec_stmt_up split: sum.splits)

lemma exec_query_inv [inv_intros]: "P (dbt c) \<Longrightarrow> P (dbt (snd (exec_query g c)))"
  by simp

lemma up_tbl [simp]: "up (c\<lparr>dbt := t\<rparr>) \<longleftrightarrow> up c"
  by (simp add: up_def)

lemma up_exec_stmt: "up c \<Longrightarrow> up (snd (exec_stmt f c))"
  by (simp add: exec_stmt_up split: sum.split)

text \<open>
  A statement that is not answered with a value leaves the tables as they were or as the
  statement makes them: it never half-applies.
\<close>

lemma exec_stmt_atomic:
  "exec_stmt f c = (r, c') \<Longrightarrow> dbt c' = dbt c \<or> (\<exists>x. f (dbt c) = Inr (x, dbt c'))"
  by (cases "outcomes c")
     (auto simp: exec_stmt_def Let_def split: outcome.splits sum.splits prod.splits)

text \<open>Scanning the rows of a statement comes after its effect.\<close>

lemma scanned_tbl [simp]: "snd (check_err rc w (\<lambda>r c. (f r, c))) = snd rc"
  by (cases rc; cases "fst rc") auto

end
