(* ===== verification/Go_Lib.thy ===== *)
theory Go_Lib
  imports Prelude "HOL-Library.Word"
begin

text \<open>
  The parts of Go's standard library the program calls: package \<^verbatim>\<open>strings\<close> on byte strings
  (case folding and white space of the ASCII range), \<^verbatim>\<open>strconv.Itoa\<close>, \<^verbatim>\<open>encoding/base64\<close>
  with the standard alphabet and padding, and the values \<^verbatim>\<open>encoding/json\<close> reads and writes.
\<close>

section \<open>strings and strconv\<close>

definition lower_char :: "char \<Rightarrow> char" where
  "lower_char c = (let n = of_char c :: nat in if 65 \<le> n \<and> n \<le> 90 then char_of (n + 32) else c)"

definition to_lower :: "string \<Rightarrow> string" where
  "to_lower s = map lower_char s"

lemma lower_char_idem [simp]: "lower_char (lower_char c) = lower_char c"
proof (cases "65 \<le> (of_char c :: nat) \<and> (of_char c :: nat) \<le> 90")
  case True
  then have "of_char (lower_char c) = (of_char c :: nat) + 32"
    by (simp add: lower_char_def Let_def)
  with True show ?thesis by (simp add: lower_char_def [of "lower_char c"])
next
  case False
  then have "lower_char c = c" unfolding lower_char_def Let_def by (rule if_not_P)
  then show ?thesis by simp
qed

lemma to_lower_idem [simp]: "to_lower (to_lower s) = to_lower s"
  by (simp add: to_lower_def)

lemma length_to_lower [simp]: "length (to_lower s) = length s"
  by (simp add: to_lower_def)

text \<open>\<^verbatim>\<open>strings.Split\<close> with a one-byte separator.\<close>

fun split_on :: "char \<Rightarrow> string \<Rightarrow> string list" where
  "split_on c [] = [[]]"
| "split_on c (x # xs) =
     (if x = c then [] # split_on c xs
      else case split_on c xs of [] \<Rightarrow> [[x]] | y # ys \<Rightarrow> (x # y) # ys)"

text \<open>\<^verbatim>\<open>strings.Index\<close> of a one-byte separator, \<^verbatim>\<open>None\<close> for -1.\<close>

fun index_char :: "char \<Rightarrow> string \<Rightarrow> nat option" where
  "index_char c [] = None"
| "index_char c (x # xs) = (if x = c then Some 0 else map_option Suc (index_char c xs))"

fun contains_sub :: "string \<Rightarrow> string \<Rightarrow> bool" where
  "contains_sub sub [] \<longleftrightarrow> sub = []"
| "contains_sub sub (x # xs) \<longleftrightarrow> take (length sub) (x # xs) = sub \<or> contains_sub sub xs"

definition is_space :: "char \<Rightarrow> bool" where
  "is_space c = (let n = of_char c :: nat in n = 32 \<or> (9 \<le> n \<and> n \<le> 13))"

definition trim_space :: "string \<Rightarrow> string" where
  "trim_space s = rev (dropWhile is_space (rev (dropWhile is_space s)))"

text \<open>The decimal digits of a number that is not negative; the argument stays an integer.\<close>

function digits :: "int \<Rightarrow> string" where
  "digits n = (if n < 10 then [''0123456789'' ! nat n] else digits (n div 10) @ [''0123456789'' ! nat (n mod 10)])"
  by auto
termination by (relation "measure nat") simp_all

declare digits.simps [simp del]

definition itoa :: "int \<Rightarrow> string" where
  "itoa i = (if i < 0 then ''-'' @ digits (- i) else digits i)"

text \<open>\<^verbatim>\<open>strings.Replace(s, c, new, -1)\<close> for a one-byte pattern.\<close>

definition replace_char :: "char \<Rightarrow> string \<Rightarrow> string \<Rightarrow> string" where
  "replace_char c new s = concat (map (\<lambda>x. if x = c then new else [x]) s)"

lemma split_on_not_Nil [simp]: "split_on c s \<noteq> []"
  by (cases s) (auto split: list.splits)

lemma split_on_no_sep: "c \<notin> set s \<Longrightarrow> split_on c s = [s]"
  by (induction s) auto

lemma split_on_append_sep: "c \<notin> set s \<Longrightarrow> split_on c (s @ c # t) = s # split_on c t"
  by (induction s) (auto split: list.splits)

lemma length_split_on: "length (split_on c s) = Suc (length (filter (\<lambda>x. x = c) s))"
  by (induction s) (auto split: list.splits)

lemma index_char_append: "c \<notin> set s \<Longrightarrow> index_char c (s @ c # t) = Some (length s)"
  by (induction s) auto

lemma index_char_None: "index_char c s = None \<longleftrightarrow> c \<notin> set s"
  by (induction s) auto

lemma contains_sub_append: "contains_sub p (p @ s)"
proof (cases "p @ s")
  case Nil
  then show ?thesis by simp
next
  case (Cons x xs)
  have "take (length p) (p @ s) = p" by simp
  with Cons show ?thesis by simp
qed

lemma contains_subD: "contains_sub p s \<Longrightarrow> set p \<subseteq> set s"
proof (induction s)
  case Nil
  then show ?case by simp
next
  case (Cons x xs)
  have "set p \<subseteq> set (x # xs)" if "take (length p) (x # xs) = p"
    using that set_take_subset by metis
  with Cons show ?case by auto
qed

lemma dropWhile_none: "(\<forall>c \<in> set s. \<not> P c) \<Longrightarrow> dropWhile P s = s"
  by (cases s) auto

lemma trim_space_id: "(\<forall>c \<in> set s. \<not> is_space c) \<Longrightarrow> trim_space s = s"
  by (simp add: trim_space_def dropWhile_none)

lemma trim_space_Cons: "is_space c \<Longrightarrow> trim_space (c # s) = trim_space s"
  by (simp add: trim_space_def)

section \<open>encoding/base64, standard encoding\<close>

type_synonym byte = "8 word"

definition b64_alphabet :: string where
  "b64_alphabet = ''ABCDEFGHIJKLMNOPQRSTUVWXYZabcdefghijklmnopqrstuvwxyz0123456789+/''"

definition b64_char :: "nat \<Rightarrow> char" where
  "b64_char n = b64_alphabet ! n"

definition b64_pad :: char where
  "b64_pad = CHR ''=''"

fun b64_encode :: "byte list \<Rightarrow> string" where
  "b64_encode [] = []"
| "b64_encode [a] =
     [b64_char (unat a div 4), b64_char (unat a mod 4 * 16), b64_pad, b64_pad]"
| "b64_encode [a, b] =
     [b64_char (unat a div 4), b64_char (unat a mod 4 * 16 + unat b div 16),
      b64_char (unat b mod 16 * 4), b64_pad]"
| "b64_encode (a # b # c # r) =
     b64_char (unat a div 4) # b64_char (unat a mod 4 * 16 + unat b div 16) #
     b64_char (unat b mod 16 * 4 + unat c div 64) # b64_char (unat c mod 64) # b64_encode r"

definition b64_val :: "char \<Rightarrow> nat option" where
  "b64_val c = index_char c b64_alphabet"

definition b64_byte :: "nat \<Rightarrow> byte" where
  "b64_byte n = word_of_nat n"

text \<open>
  The decoder skips carriage returns and newlines, wants full groups of four characters and
  allows padding in the last group only.
\<close>

fun b64_quads :: "string \<Rightarrow> byte list option" where
  "b64_quads [] = Some []"
| "b64_quads (w # x # y # z # r) =
     (case (b64_val w, b64_val x) of
        (Some p, Some q) \<Rightarrow>
          (if y = b64_pad then
             (if z = b64_pad \<and> r = [] then Some [b64_byte (p * 4 + q div 16)] else None)
           else case b64_val y of
             None \<Rightarrow> None
           | Some s \<Rightarrow>
               (if z = b64_pad then
                  (if r = [] then Some [b64_byte (p * 4 + q div 16), b64_byte (q mod 16 * 16 + s div 4)]
                   else None)
                else case (b64_val z, b64_quads r) of
                  (Some t, Some bs) \<Rightarrow>
                    Some (b64_byte (p * 4 + q div 16) # b64_byte (q mod 16 * 16 + s div 4) #
                          b64_byte (s mod 4 * 64 + t) # bs)
                | _ \<Rightarrow> None))
      | _ \<Rightarrow> None)"
| "b64_quads _ = None"

definition b64_decode :: "string \<Rightarrow> byte list option" where
  "b64_decode s = b64_quads (filter (\<lambda>c. c \<noteq> CHR 0x0A \<and> c \<noteq> CHR 0x0D) s)"

lemma b64_char_table:
  "list_all (\<lambda>n. b64_val (b64_char n) = Some n \<and> b64_char n \<noteq> b64_pad \<and>
     b64_char n \<noteq> CHR 0x0A \<and> b64_char n \<noteq> CHR 0x0D) [0..<64]"
  by code_simp

lemma b64_char_facts:
  assumes "n < 64"
  shows "b64_val (b64_char n) = Some n" and "b64_char n \<noteq> b64_pad"
    and "b64_char n \<noteq> CHR 0x0A" and "b64_char n \<noteq> CHR 0x0D"
  using b64_char_table assms by (auto simp: list_all_iff)

lemma b64_char_in_alphabet: "n < 64 \<Longrightarrow> b64_char n \<in> set b64_alphabet"
  unfolding b64_char_def by (rule nth_mem) (simp add: b64_alphabet_def)

lemma unat_byte: "unat (a :: byte) < 256"
  using unsigned_less [of a, where ?'a = nat] by simp

lemma byte_div_bounds:
  fixes a :: byte
  shows "unat a div 4 < 64" and "unat a div 16 < 16" and "unat a div 64 < 4"
  using unat_byte [of a] by (simp_all add: less_mult_imp_div_less)

lemma unat_byte_bounds:
  fixes a :: byte
  shows "unat a div 4 < 64" "unat a mod 4 * 16 < 64" "unat a mod 16 * 4 < 64" "unat a mod 64 < 64"
    "unat a mod 4 * 16 + unat (b :: byte) div 16 < 64" "unat a mod 16 * 4 + unat b div 64 < 64"
proof -
  have "unat a mod 4 < 4" "unat a mod 16 < 16" by simp_all
  then show "unat a div 4 < 64" "unat a mod 4 * 16 < 64" "unat a mod 16 * 4 < 64"
    "unat a mod 64 < 64" "unat a mod 4 * 16 + unat (b :: byte) div 16 < 64"
    "unat a mod 16 * 4 + unat b div 64 < 64"
    using byte_div_bounds [of a] byte_div_bounds [of b] by (linarith | simp)+
qed

lemma split_digit:
  fixes x y k :: nat
  assumes "y < k"
  shows "(x * k + y) div k = x" and "(x * k + y) mod k = y"
  using assms by simp_all

lemma b64_bytes_back:
  fixes a b c :: byte
  shows "b64_byte (unat a div 4 * 4 + (unat a mod 4 * 16) div 16) = a"
    and "b64_byte (unat a div 4 * 4 + (unat a mod 4 * 16 + unat b div 16) div 16) = a"
    and "b64_byte ((unat a mod 4 * 16 + unat b div 16) mod 16 * 16 + (unat b mod 16 * 4) div 4) = b"
    and "b64_byte ((unat a mod 4 * 16 + unat b div 16) mod 16 * 16 +
           (unat b mod 16 * 4 + unat c div 64) div 4) = b"
    and "b64_byte ((unat b mod 16 * 4 + unat c div 64) mod 4 * 64 + unat c mod 64) = c"
  using split_digit [OF byte_div_bounds(2) [of b]] split_digit [OF byte_div_bounds(3) [of c]]
  by (simp_all add: b64_byte_def)

lemma b64_quads_encode: "b64_quads (b64_encode bs) = Some bs"
  by (induction bs rule: b64_encode.induct)
     (simp_all only: b64_encode.simps b64_quads.simps b64_char_facts unat_byte_bounds
        b64_bytes_back option.case prod.case if_True if_False simp_thms)

lemma b64_encode_set: "set (b64_encode bs) \<subseteq> set b64_alphabet \<union> {b64_pad}"
  by (induction bs rule: b64_encode.induct) (auto simp: b64_char_in_alphabet unat_byte_bounds)

lemma length_b64_encode: "length (b64_encode bs) = 4 * ((length bs + 2) div 3)"
proof (induction bs rule: b64_encode.induct)
  case (4 a b c r)
  have "(length (a # b # c # r) + 2) div 3 = Suc ((length r + 2) div 3)"
    using div_add_self2 [of 3 "length r + 2"] by (simp add: algebra_simps)
  with 4 show ?case by simp
qed simp_all

lemma b64_encode_no_newline:
  "filter (\<lambda>c. c \<noteq> CHR 0x0A \<and> c \<noteq> CHR 0x0D) (b64_encode bs) = b64_encode bs"
  by (induction bs rule: b64_encode.induct)
     (simp_all add: b64_char_facts unat_byte_bounds b64_pad_def)

theorem b64_decode_encode [simp]: "b64_decode (b64_encode bs) = Some bs"
  by (simp add: b64_decode_def b64_encode_no_newline b64_quads_encode)

section \<open>encoding/json values\<close>

text \<open>
  A \<^verbatim>\<open>json.RawMessage\<close> is kept as the value its text denotes; numbers are the integers the
  program writes. \<open>JNull\<close> is the text \<^verbatim>\<open>null\<close>, not an SQL NULL.
\<close>

datatype json =
    JNull
  | JBool bool
  | JNum int
  | JStr string
  | JArr "json list"
  | JObj "(string \<times> json) list"

definition int32_range :: "int \<Rightarrow> bool" where
  "int32_range i \<longleftrightarrow> - (2 ^ 31) \<le> i \<and> i < 2 ^ 31"

text \<open>\<^verbatim>\<open>time.Time.Unix\<close> of an instant counted in microseconds.\<close>

definition unix_seconds :: "int \<Rightarrow> int" where
  "unix_seconds t = t div 1000000"

end
