(* ===== verification/Schema.thy ===== *)
theory Schema
  imports Sql_Engine Go_Lib
begin

text \<open>
  The rows of the tables (the structs of \<^verbatim>\<open>models.go\<close>, the same file in every package of
  \<^verbatim>\<open>backend\<close>) and the constraints of \<^verbatim>\<open>core/db/migrations/01_fixtures.up.sql\<close>: column
  widths, integer ranges, primary keys, unique indexes and foreign keys. Times are integers
  (microseconds), a nullable column is a \<^verbatim>\<open>nullable\<close>.
\<close>

section \<open>Rows\<close>

record comment_row =
  c_likes :: "int nullable"
  c_audio :: json
  c_author :: string
  c_parent_id :: "string nullable"
  c_post_id :: string
  c_thread_type :: string
  c_id :: string
  c_thread_target_id :: "string nullable"
  c_message :: "string nullable"
  c_user_ids_who_likes :: "string list nullable"

record connected_account_row =
  ca_can_receive_payments :: bool
  ca_user_id :: string
  ca_customer_id :: string
  ca_account_id :: string

record connected_customer_row =
  cc_user_id :: string
  cc_customer_id :: string
  cc_connected_customer_id :: string
  cc_account_id :: string

record customer_row =
  cu_trial_used :: "bool nullable"
  cu_id :: string
  cu_customer_id :: string
  cu_first_name :: string
  cu_last_name :: string
  cu_account_id :: "string nullable"

record follow_row =
  f_follower_user_id :: string
  f_following_user_id :: string
  f_follow_date :: int
  f_unfollow_date :: "int nullable"

record list_row =
  l_allowed_users :: "json nullable"
  l_id :: string
  l_name :: string
  l_owner_user_id :: string

record mix_row =
  m_id :: string
  m_user_id :: string
  m_category :: string
  m_post_ids :: "string list"
  m_background :: json
  m_requested_at :: int
  m_title :: string

record notification_row =
  n_id :: string
  n_user_id_to_notify :: string
  n_user_id_who_fired_event :: string
  n_date :: int
  n_read :: bool
  n_trigger_id :: "string nullable"
  n_event_id :: string
  n_content :: "string nullable"

record post_row =
  p_likes :: "int nullable"
  p_audio :: json
  p_id :: string
  p_author :: string
  p_message :: string
  p_user_ids_who_likes :: "string list"
  p_created_at :: "int nullable"

record room_subscription_row =
  rs_latest_invoice :: "json nullable"
  rs_current_period_end :: "int nullable"
  rs_customer_id :: string
  rs_connected_customer_id :: string
  rs_account_id :: string
  rs_id :: string
  rs_status :: string
  rs_room_id :: string
  rs_room_subscription_type :: string
  rs_user_id :: string

record payment_method_row =
  pm_exp_month :: int
  pm_exp_year :: int
  pm_is_default :: "bool nullable"
  pm_id :: string
  pm_last_four :: string
  pm_user_id :: string
  pm_customer_id :: string

record stripe_price_row =
  sp_customer_id :: string
  sp_id :: string
  sp_user_id :: string
  sp_plan :: string
  sp_active :: bool

record stripe_subscription_row =
  ss_current_period_end :: int
  ss_latest_invoice :: "json nullable"
  ss_id :: string
  ss_user_id :: string
  ss_customer_id :: string
  ss_status :: string

record user_row =
  u_email_verified :: "bool nullable"
  u_password_changed_at :: "int nullable"
  u_email :: string
  u_password :: "string nullable"
  u_id :: string
  u_family_name :: "string nullable"
  u_type :: string
  u_given_name :: "string nullable"
  u_username :: "string nullable"

section \<open>Constraints\<close>

primrec vals :: "'a nullable \<Rightarrow> 'a list" where
  "vals (Val x) = [x]"
| "vals Null = []"

primrec key1 :: "string nullable \<Rightarrow> string list option" where
  "key1 (Val s) = Some [s]"
| "key1 Null = None"

text \<open>A \<^verbatim>\<open>character varying (100)\<close> refuses a longer value; a cast to it cuts the value instead.\<close>

definition varchar_check :: "string list \<Rightarrow> sql_error option" where
  "varchar_check ss = (if list_all (\<lambda>s. length s \<le> 100) ss then None else Some ValueTooLong)"

definition int4_check :: "int list \<Rightarrow> sql_error option" where
  "int4_check is = (if list_all int32_range is then None else Some IntegerOutOfRange)"

definition and_check :: "sql_error option \<Rightarrow> sql_error option \<Rightarrow> sql_error option" where
  "and_check a b = (case a of None \<Rightarrow> b | Some e \<Rightarrow> Some e)"

definition cast100 :: "string \<Rightarrow> string" where
  "cast100 s = take 100 s"

definition users_schema :: "user_row schema" where
  "users_schema = \<lparr>
     row_check = (\<lambda>r. varchar_check
        ([u_email r, u_id r, u_type r] @ vals (u_password r) @ vals (u_family_name r) @
         vals (u_given_name r) @ vals (u_username r))),
     indexes = [(''users_pkey'', \<lambda>r. Some [u_id r]),
                (''idx_users_username'', \<lambda>r. key1 (u_username r)),
                (''idx_users_email'', \<lambda>r. Some [u_email r])]\<rparr>"

definition comments_schema :: "comment_row schema" where
  "comments_schema = \<lparr>
     row_check = (\<lambda>r. and_check (int4_check (vals (c_likes r)))
        (varchar_check ([c_author r, c_post_id r, c_thread_type r, c_id r] @ vals (c_parent_id r) @
           vals (c_thread_target_id r) @ vals (c_message r) @
           concat (vals (c_user_ids_who_likes r))))),
     indexes = [(''comments_pkey'', \<lambda>r. Some [c_id r])]\<rparr>"

definition connected_accounts_schema :: "connected_account_row schema" where
  "connected_accounts_schema = \<lparr>
     row_check = (\<lambda>r. varchar_check [ca_user_id r, ca_customer_id r, ca_account_id r]),
     indexes = [(''connected_accounts_pkey'', \<lambda>r. Some [ca_account_id r]),
                (''idx_connected_accounts_user_id'', \<lambda>r. Some [ca_user_id r])]\<rparr>"

definition connected_customers_schema :: "connected_customer_row schema" where
  "connected_customers_schema = \<lparr>
     row_check = (\<lambda>r. varchar_check
        [cc_user_id r, cc_customer_id r, cc_connected_customer_id r, cc_account_id r]),
     indexes = [(''connected_customers_pkey'', \<lambda>r. Some [cc_user_id r])]\<rparr>"

definition customers_schema :: "customer_row schema" where
  "customers_schema = \<lparr>
     row_check = (\<lambda>r. varchar_check
        ([cu_id r, cu_customer_id r, cu_first_name r, cu_last_name r] @ vals (cu_account_id r))),
     indexes = [(''customers_pkey'', \<lambda>r. Some [cu_id r]),
                (''idx_customers_customer_id'', \<lambda>r. Some [cu_customer_id r])]\<rparr>"

definition follows_schema :: "follow_row schema" where
  "follows_schema = \<lparr>
     row_check = (\<lambda>r. varchar_check [f_follower_user_id r, f_following_user_id r]),
     indexes = [(''follows_pkey'', \<lambda>r. Some [f_follower_user_id r, f_following_user_id r])]\<rparr>"

definition lists_schema :: "list_row schema" where
  "lists_schema = \<lparr>
     row_check = (\<lambda>r. varchar_check [l_name r]),
     indexes = [(''lists_pkey'', \<lambda>r. Some [l_id r])]\<rparr>"

definition mixes_schema :: "mix_row schema" where
  "mixes_schema = \<lparr>
     row_check = (\<lambda>r. varchar_check ([m_id r, m_user_id r, m_category r, m_title r] @ m_post_ids r)),
     indexes = [(''mixes_pkey'', \<lambda>r. Some [m_id r])]\<rparr>"

definition notifications_schema :: "notification_row schema" where
  "notifications_schema = \<lparr>
     row_check = (\<lambda>r. varchar_check
        ([n_id r, n_user_id_to_notify r, n_user_id_who_fired_event r, n_event_id r] @
         vals (n_trigger_id r) @ vals (n_content r))),
     indexes = [(''notifications_pkey'', \<lambda>r. Some [n_id r])]\<rparr>"

definition posts_schema :: "post_row schema" where
  "posts_schema = \<lparr>
     row_check = (\<lambda>r. and_check (int4_check (vals (p_likes r)))
        (varchar_check ([p_id r, p_author r, p_message r] @ p_user_ids_who_likes r))),
     indexes = [(''posts_pkey'', \<lambda>r. Some [p_id r])]\<rparr>"

definition room_subscriptions_schema :: "room_subscription_row schema" where
  "room_subscriptions_schema = \<lparr>
     row_check = (\<lambda>r. varchar_check
        [rs_customer_id r, rs_connected_customer_id r, rs_account_id r, rs_id r, rs_status r,
         rs_room_id r, rs_room_subscription_type r, rs_user_id r]),
     indexes = [(''room_subscriptions_pkey'', \<lambda>r. Some [rs_id r]),
                (''idx_room_subscriptions_user_id_room_id'', \<lambda>r. Some [rs_user_id r, rs_room_id r])]\<rparr>"

definition payment_methods_schema :: "payment_method_row schema" where
  "payment_methods_schema = \<lparr>
     row_check = (\<lambda>r. and_check (int4_check [pm_exp_month r, pm_exp_year r])
        (and_check (if length (pm_last_four r) \<le> 4 then None else Some ValueTooLong)
           (varchar_check [pm_id r, pm_user_id r, pm_customer_id r]))),
     indexes = [(''stripe_default_payment_methods_pkey'', \<lambda>r. Some [pm_customer_id r]),
                (''idx_stripe_default_payment_methods_id'', \<lambda>r. Some [pm_id r]),
                (''idx_stripe_default_payment_methods_id_customer_id'',
                  \<lambda>r. Some [pm_id r, pm_customer_id r])]\<rparr>"

definition stripe_subscriptions_schema :: "stripe_subscription_row schema" where
  "stripe_subscriptions_schema = \<lparr>
     row_check = (\<lambda>r. varchar_check [ss_id r, ss_user_id r, ss_customer_id r, ss_status r]),
     indexes = [(''stripe_subscriptions_pkey'', \<lambda>r. Some [ss_id r]),
                (''idx_stripe_subscriptions_customer_id'', \<lambda>r. Some [ss_customer_id r])]\<rparr>"

definition stripe_prices_schema :: "stripe_price_row schema" where
  "stripe_prices_schema = \<lparr>
     row_check = (\<lambda>r. varchar_check [sp_customer_id r, sp_id r, sp_user_id r, sp_plan r]),
     indexes = [(''stripe_prices_pkey'', \<lambda>r. Some [sp_customer_id r])]\<rparr>"

section \<open>The tables\<close>

record tables =
  users :: "user_row list"
  comments :: "comment_row list"
  connected_accounts :: "connected_account_row list"
  connected_customers :: "connected_customer_row list"
  customers :: "customer_row list"
  follows :: "follow_row list"
  lists :: "list_row list"
  mixes :: "mix_row list"
  notifications :: "notification_row list"
  posts :: "post_row list"
  room_subscriptions :: "room_subscription_row list"
  payment_methods :: "payment_method_row list"
  stripe_subscriptions :: "stripe_subscription_row list"
  stripe_prices :: "stripe_price_row list"

definition no_rows :: tables where
  "no_rows = \<lparr>users = [], comments = [], connected_accounts = [], connected_customers = [],
     customers = [], follows = [], lists = [], mixes = [], notifications = [], posts = [],
     room_subscriptions = [], payment_methods = [], stripe_subscriptions = [], stripe_prices = []\<rparr>"

type_synonym db = "tables conn"

definition db_of :: "tables \<Rightarrow> db" where
  "db_of t = \<lparr>dbt = t, outcomes = []\<rparr>"

definition fk_violation :: "tables \<Rightarrow> string option" where
  "fk_violation t =
     (if \<not> list_all (\<lambda>c. list_all (\<lambda>p. p \<in> set (map c_id (comments t))) (vals (c_parent_id c))) (comments t)
      then Some ''comments_parent_id_fkey''
      else if \<not> list_all (\<lambda>f. f_follower_user_id f \<in> set (map u_id (users t))) (follows t)
      then Some ''users_follower_fkey''
      else if \<not> list_all (\<lambda>f. f_following_user_id f \<in> set (map u_id (users t))) (follows t)
      then Some ''users_following_fkey''
      else None)"

text \<open>
  The end of a statement: the foreign keys are NO ACTION, so they are checked on the tables
  the statement leaves.
\<close>

definition put :: "sql_error + 'rows \<Rightarrow> ('rows \<Rightarrow> tables) \<Rightarrow> sql_error + tables" where
  "put r k = (case r of
     Inl e \<Rightarrow> Inl e
   | Inr rs \<Rightarrow> (case fk_violation (k rs) of
       None \<Rightarrow> Inr (k rs)
     | Some n \<Rightarrow> Inl (ForeignKeyViolation n)))"

definition returning :: "'a \<Rightarrow> sql_error + tables \<Rightarrow> sql_error + ('a \<times> tables)" where
  "returning x r = map_sum id (Pair x) r"

definition returning_one :: "'a list \<Rightarrow> sql_error + tables \<Rightarrow> sql_error + ('a \<times> tables)" where
  "returning_one xs r =
     (case r of Inl e \<Rightarrow> Inl e | Inr t \<Rightarrow> (case one_row xs of Inl e \<Rightarrow> Inl e | Inr x \<Rightarrow> Inr (x, t)))"

definition tables_wf :: "tables \<Rightarrow> bool" where
  "tables_wf t \<longleftrightarrow>
     tbl_wf users_schema (users t) \<and> tbl_wf comments_schema (comments t) \<and>
     tbl_wf connected_accounts_schema (connected_accounts t) \<and>
     tbl_wf connected_customers_schema (connected_customers t) \<and>
     tbl_wf customers_schema (customers t) \<and> tbl_wf follows_schema (follows t) \<and>
     tbl_wf lists_schema (lists t) \<and> tbl_wf mixes_schema (mixes t) \<and>
     tbl_wf notifications_schema (notifications t) \<and> tbl_wf posts_schema (posts t) \<and>
     tbl_wf room_subscriptions_schema (room_subscriptions t) \<and>
     tbl_wf payment_methods_schema (payment_methods t) \<and>
     tbl_wf stripe_subscriptions_schema (stripe_subscriptions t) \<and>
     tbl_wf stripe_prices_schema (stripe_prices t) \<and>
     fk_violation t = None"

section \<open>Facts about statements\<close>

lemma put_Inr [ok_simps]: "put r k = Inr t \<longleftrightarrow> (\<exists>rs. r = Inr rs \<and> t = k rs \<and> fk_violation t = None)"
  by (auto simp: put_def split: sum.splits option.splits)

lemma returning_Inr [ok_simps]: "returning x r = Inr (y, t) \<longleftrightarrow> y = x \<and> r = Inr t"
  by (cases r) (auto simp: returning_def)

lemma returning_one_Inr [ok_simps]:
  "returning_one xs r = Inr (y, t) \<longleftrightarrow> (\<exists>rest. xs = y # rest) \<and> r = Inr t"
  by (auto simp: returning_one_def one_row_def split: sum.splits list.splits)

lemmas tbl_Inr = tbl_insert_Inr tbl_update_Inr

lemmas tbl_wf_steps = tbl_insert_wf tbl_update_wf tbl_delete_wf

lemma tables_wf_no_rows: "tables_wf no_rows"
  by (simp add: tables_wf_def no_rows_def fk_violation_def)

lemma tables_wf_fk: "tables_wf t \<Longrightarrow> fk_violation t = None"
  by (simp add: tables_wf_def)

lemma set_vals [simp]: "p \<in> set (vals x) \<longleftrightarrow> x = Val p"
  by (cases x) auto

lemma fk_violation_None:
  "fk_violation t = None \<longleftrightarrow>
     (\<forall>c \<in> set (comments t). \<forall>p. c_parent_id c = Val p \<longrightarrow> p \<in> c_id ` set (comments t)) \<and>
     (\<forall>f \<in> set (follows t). f_follower_user_id f \<in> u_id ` set (users t) \<and>
        f_following_user_id f \<in> u_id ` set (users t))"
proof -
  have "list_all (\<lambda>c. list_all (\<lambda>p. p \<in> set (map c_id (comments t))) (vals (c_parent_id c))) (comments t) \<longleftrightarrow>
      (\<forall>c \<in> set (comments t). \<forall>p. c_parent_id c = Val p \<longrightarrow> p \<in> c_id ` set (comments t))"
    by (simp add: list_all_iff Ball_def)
  moreover have "list_all (\<lambda>f. g f \<in> set (map u_id (users t))) (follows t) \<longleftrightarrow>
      (\<forall>f \<in> set (follows t). g f \<in> u_id ` set (users t))" for g :: "follow_row \<Rightarrow> string"
    by (simp add: list_all_iff)
  ultimately show ?thesis
    unfolding fk_violation_def ball_conj_distrib by (simp only: if_split_eq1 option.distinct) argo
qed

lemma fk_violation_cong:
  assumes "map (\<lambda>c. (c_id c, c_parent_id c)) (comments t) = map (\<lambda>c. (c_id c, c_parent_id c)) (comments s)"
    and "follows t = follows s" and "map u_id (users t) = map u_id (users s)"
  shows "fk_violation t = fk_violation s"
proof -
  have ids: "map c_id (comments t) = map c_id (comments s)"
    using arg_cong [OF assms(1), where f = "map fst"] by (simp add: comp_def)
  have "list_all (\<lambda>c. list_all (\<lambda>p. p \<in> A) (vals (c_parent_id c))) (comments x) \<longleftrightarrow>
      list_all (\<lambda>(i, c). list_all (\<lambda>p. p \<in> A) (vals c)) (map (\<lambda>c. (c_id c, c_parent_id c)) (comments x))"
    for x A
    by (simp add: list_all_iff)
  note key = this
  have parents: "list_all (\<lambda>c. list_all (\<lambda>p. p \<in> A) (vals (c_parent_id c))) (comments t) \<longleftrightarrow>
      list_all (\<lambda>c. list_all (\<lambda>p. p \<in> A) (vals (c_parent_id c))) (comments s)" for A
    using key [of A t] key [of A s] assms(1) by (simp only:)
  show ?thesis unfolding fk_violation_def by (simp only: ids assms(2,3) parents)
qed

lemma put_same_keys:
  assumes "fk_violation t = None"
    and "map (\<lambda>c. (c_id c, c_parent_id c)) (comments (k rs)) = map (\<lambda>c. (c_id c, c_parent_id c)) (comments t)"
    and "follows (k rs) = follows t" and "map u_id (users (k rs)) = map u_id (users t)"
  shows "put (Inr rs) k = Inr (k rs)"
  using assms fk_violation_cong [of "k rs" t] by (simp add: put_def)

lemma users_ids_distinct: "tables_wf t \<Longrightarrow> distinct (map u_id (users t))"
  by (auto simp: tables_wf_def tbl_wf_def users_schema_def keys_of_total distinct_map inj_on_def)

lemma posts_ids_distinct: "tables_wf t \<Longrightarrow> distinct (map p_id (posts t))"
  by (auto simp: tables_wf_def tbl_wf_def posts_schema_def keys_of_total distinct_map inj_on_def)

lemma comments_ids_distinct: "tables_wf t \<Longrightarrow> distinct (map c_id (comments t))"
  by (auto simp: tables_wf_def tbl_wf_def comments_schema_def keys_of_total distinct_map inj_on_def)

lemma notifications_ids_distinct: "tables_wf t \<Longrightarrow> distinct (map n_id (notifications t))"
  by (auto simp: tables_wf_def tbl_wf_def notifications_schema_def keys_of_total distinct_map inj_on_def)

lemma follows_keys_distinct:
  "tables_wf t \<Longrightarrow> distinct (map (\<lambda>f. (f_follower_user_id f, f_following_user_id f)) (follows t))"
  by (auto simp: tables_wf_def tbl_wf_def follows_schema_def keys_of_total distinct_map inj_on_def)

lemma varchar_check_None: "varchar_check ss = None \<longleftrightarrow> (\<forall>s \<in> set ss. length s \<le> 100)"
  by (auto simp: varchar_check_def list_all_iff)

lemma int4_check_None: "int4_check is = None \<longleftrightarrow> (\<forall>i \<in> set is. int32_range i)"
  by (auto simp: int4_check_def list_all_iff)

lemma and_check_None: "and_check a b = None \<longleftrightarrow> a = None \<and> b = None"
  by (cases a) (auto simp: and_check_def)

lemmas row_checks = varchar_check_None int4_check_None and_check_None

lemma length_cast100 [simp]: "length (cast100 s) \<le> 100"
  by (simp add: cast100_def)

lemma cast100_id: "length s \<le> 100 \<Longrightarrow> cast100 s = s"
  by (simp add: cast100_def)

end
