(* ===== verification/Users_Dir.thy ===== *)
theory Users_Dir
  imports Schema
begin

text \<open>
  Package \<^verbatim>\<open>backend/users\<close>: the statements of \<^verbatim>\<open>queries.sql.go\<close> (\<open>q_\<close> names) and the
  methods of \<^verbatim>\<open>users.Directory\<close> (\<open>dir_\<close> names), over the table \<^verbatim>\<open>users\<close>. The clock is the
  argument \<open>now\<close> of the method that reads it.
\<close>

section \<open>Messages of the API\<close>

datatype pb_user_type = UserType_MEMBER | UserType_CREATOR | UserType_other int

record pb_user =
  usr_api :: string
  usr_id :: string
  usr_email :: string
  usr_given_name :: string
  usr_family_name :: string
  usr_email_verified :: bool
  usr_type :: pb_user_type
  usr_username :: string

record pb_user_suggestion =
  sug_id :: string
  sug_username :: string

definition new_null_string :: "string \<Rightarrow> string nullable" where
  "new_null_string s = (if length s = 0 then Null else Val s)"

section \<open>Statements\<close>

record create_user_params =
  cup_id :: string
  cup_given_name :: "string nullable"
  cup_family_name :: "string nullable"
  cup_email :: string
  cup_password :: "string nullable"
  cup_username :: "string nullable"

text \<open>The inserted row; the columns the statement leaves out take their defaults.\<close>

definition created_user :: "create_user_params \<Rightarrow> user_row" where
  "created_user arg = \<lparr>
     u_email_verified = Val False, u_password_changed_at = Null, u_email = cup_email arg,
     u_password = cup_password arg, u_id = cup_id arg, u_family_name = cup_family_name arg,
     u_type = ''member'', u_given_name = cup_given_name arg, u_username = cup_username arg\<rparr>"

definition q_CreateUser :: "create_user_params \<Rightarrow> db \<Rightarrow> user_row res \<times> db" where
  "q_CreateUser arg = exec_stmt (\<lambda>t.
     returning (created_user arg)
       (put (tbl_insert users_schema (created_user arg) (users t)) (\<lambda>rs. t\<lparr>users := rs\<rparr>)))"

definition q_DeleteUser :: "string \<Rightarrow> db \<Rightarrow> unit res \<times> db" where
  "q_DeleteUser i = exec_stmt (\<lambda>t.
     returning () (put (Inr (tbl_delete (\<lambda>u. u_id u = i) (users t))) (\<lambda>rs. t\<lparr>users := rs\<rparr>)))"

definition q_EmailExists :: "string \<Rightarrow> db \<Rightarrow> bool res \<times> db" where
  "q_EmailExists email = exec_query (\<lambda>t. Inr (list_ex (\<lambda>u. to_lower (u_email u) = email) (users t)))"

definition q_GetEmail :: "string \<Rightarrow> db \<Rightarrow> string res \<times> db" where
  "q_GetEmail i = exec_query (\<lambda>t. one_row (map u_email (filter (\<lambda>u. u_id u = i) (users t))))"

definition q_GetEmailVerified :: "string \<Rightarrow> db \<Rightarrow> bool nullable res \<times> db" where
  "q_GetEmailVerified i = exec_query (\<lambda>t.
     one_row (map u_email_verified (filter (\<lambda>u. u_id u = i) (users t))))"

definition q_GetPassword :: "string \<Rightarrow> db \<Rightarrow> string nullable res \<times> db" where
  "q_GetPassword i = exec_query (\<lambda>t. one_row (map u_password (filter (\<lambda>u. u_id u = i) (users t))))"

definition q_GetUser :: "string \<Rightarrow> db \<Rightarrow> user_row res \<times> db" where
  "q_GetUser i = exec_query (\<lambda>t. one_row (filter (\<lambda>u. u_id u = i) (users t)))"

definition q_GetUserByUsername :: "string nullable \<Rightarrow> db \<Rightarrow> user_row res \<times> db" where
  "q_GetUserByUsername name = exec_query (\<lambda>t.
     one_row (filter (\<lambda>u. holds (eq3 (u_username u) name)) (users t)))"

definition q_GetUserIDFromEmail :: "string \<Rightarrow> db \<Rightarrow> string res \<times> db" where
  "q_GetUserIDFromEmail email = exec_query (\<lambda>t.
     one_row (map u_id (filter (\<lambda>u. u_email u = email) (users t))))"

text \<open>
  \<^verbatim>\<open>LIKE\<close>: percent stands for any characters, underscore for one, a backslash quotes the next
  one. A pattern that ends in a quoting backslash is an error in SQL; the only caller ends its
  patterns with percent.
\<close>

fun like :: "string \<Rightarrow> string \<Rightarrow> bool" where
  "like [] s \<longleftrightarrow> s = []"
| "like (p # ps) [] \<longleftrightarrow> p = CHR 0x25 \<and> like ps []"
| "like (p # ps) (x # s) \<longleftrightarrow>
     (if p = CHR 0x25 then like ps (x # s) \<or> like (p # ps) s
      else if p = CHR 0x5F then like ps s
      else if p = CHR 0x5C then
        (case ps of [] \<Rightarrow> False | q # qs \<Rightarrow> x = q \<and> like qs s)
      else x = p \<and> like ps s)"

definition q_GetUserSuggestions :: "string \<Rightarrow> db \<Rightarrow> user_row list res \<times> db" where
  "q_GetUserSuggestions pat = exec_query (\<lambda>t. Inr (take 4
     (filter (\<lambda>u. case u_username u of Null \<Rightarrow> False | Val n \<Rightarrow> like (to_lower pat) (to_lower n))
        (users t))))"

definition q_UpdatePassword :: "string \<Rightarrow> string nullable \<Rightarrow> db \<Rightarrow> unit res \<times> db" where
  "q_UpdatePassword i pw = exec_stmt (\<lambda>t.
     returning () (put (tbl_update users_schema (\<lambda>u. u_id u = i) (\<lambda>u. u\<lparr>u_password := pw\<rparr>) (users t))
       (\<lambda>rs. t\<lparr>users := rs\<rparr>)))"

definition q_UpdatePasswordChangedAt :: "int nullable \<Rightarrow> string \<Rightarrow> db \<Rightarrow> unit res \<times> db" where
  "q_UpdatePasswordChangedAt at i = exec_stmt (\<lambda>t.
     returning () (put (tbl_update users_schema (\<lambda>u. u_id u = i)
         (\<lambda>u. u\<lparr>u_password_changed_at := at\<rparr>) (users t))
       (\<lambda>rs. t\<lparr>users := rs\<rparr>)))"

definition q_UpdateUsername :: "string nullable \<Rightarrow> string \<Rightarrow> db \<Rightarrow> user_row res \<times> db" where
  "q_UpdateUsername name i = exec_stmt (\<lambda>t.
     returning_one (map (\<lambda>u. u\<lparr>u_username := name\<rparr>) (filter (\<lambda>u. u_id u = i) (users t)))
       (put (tbl_update users_schema (\<lambda>u. u_id u = i) (\<lambda>u. u\<lparr>u_username := name\<rparr>) (users t))
          (\<lambda>rs. t\<lparr>users := rs\<rparr>)))"

definition q_UserIDExists :: "string \<Rightarrow> db \<Rightarrow> bool res \<times> db" where
  "q_UserIDExists i = exec_query (\<lambda>t. Inr (list_ex (\<lambda>u. u_id u = i) (users t)))"

definition q_UsernameExists :: "string nullable \<Rightarrow> db \<Rightarrow> bool res \<times> db" where
  "q_UsernameExists name = exec_query (\<lambda>t. Inr (list_ex
     (\<lambda>u. case u_username u of Null \<Rightarrow> False | Val n \<Rightarrow> holds (eq3 (Val (to_lower n)) name))
     (users t)))"

definition q_VerifyEmail :: "string \<Rightarrow> db \<Rightarrow> unit res \<times> db" where
  "q_VerifyEmail i = exec_stmt (\<lambda>t.
     returning () (put (tbl_update users_schema (\<lambda>u. u_id u = i)
         (\<lambda>u. u\<lparr>u_email_verified := Val True\<rparr>) (users t))
       (\<lambda>rs. t\<lparr>users := rs\<rparr>)))"

section \<open>The directory\<close>

definition pgUserTypeToProto :: "string \<Rightarrow> pb_user_type res" where
  "pgUserTypeToProto t =
     (if t = ''creator'' then Inr UserType_CREATOR
      else if t = ''member'' then Inr UserType_MEMBER
      else Inl (Errorf ''unexpected userType'' []))"

definition userPostgresToProto :: "user_row \<Rightarrow> pb_user res" where
  "userPostgresToProto u =
     (case pgUserTypeToProto (u_type u) of
        Inl e \<Rightarrow> Inl e
      | Inr ty \<Rightarrow> Inr \<lparr>usr_api = ''v1'', usr_id = u_id u, usr_email = u_email u,
          usr_given_name = null_string (u_given_name u),
          usr_family_name = null_string (u_family_name u),
          usr_email_verified = null_bool (u_email_verified u), usr_type = ty,
          usr_username = null_string (u_username u)\<rparr>)"

definition dir_CreateUser :: "create_user_params \<Rightarrow> db \<Rightarrow> pb_user res \<times> db" where
  "dir_CreateUser arg c =
     check_err (q_CreateUser arg c) same_err (\<lambda>u c. (userPostgresToProto u, c))"

definition dir_GetUser :: "string \<Rightarrow> db \<Rightarrow> pb_user res \<times> db" where
  "dir_GetUser i c = check_err (q_GetUser i c) same_err (\<lambda>u c. (userPostgresToProto u, c))"

definition dir_GetUserByUsername :: "string \<Rightarrow> db \<Rightarrow> pb_user res \<times> db" where
  "dir_GetUserByUsername name c =
     check_err (q_GetUserByUsername (Val name) c) same_err (\<lambda>u c. (userPostgresToProto u, c))"

definition dir_DeleteUser :: "string \<Rightarrow> db \<Rightarrow> unit res \<times> db" where
  "dir_DeleteUser i c =
     check_err (q_UserIDExists i c) (\<lambda>e. Errorf ''error selecting userID from db'' [e]) (\<lambda>ok c.
       if \<not> ok then (Inl (Errorf ''user does not exist'' []), c)
       else q_DeleteUser i c)"

definition dir_VerifyEmail :: "string \<Rightarrow> db \<Rightarrow> unit res \<times> db" where
  "dir_VerifyEmail i c = q_VerifyEmail i c"

definition dir_GetPassword :: "string \<Rightarrow> db \<Rightarrow> string res \<times> db" where
  "dir_GetPassword i c =
     check_err (q_GetPassword i c) (\<lambda>e. Errorf ''failed to get user password'' [e]) (\<lambda>pw c.
       case pw of Null \<Rightarrow> (Inl (Errorf ''NULL user password'' []), c) | Val p \<Rightarrow> (Inr p, c))"

definition dir_GetEmail :: "string \<Rightarrow> db \<Rightarrow> string res \<times> db" where
  "dir_GetEmail i c =
     check_err (q_GetEmail i c) (\<lambda>e. Errorf ''failed to get user password'' [e]) (\<lambda>email c.
       if email = '''' then (Inl (Errorf ''email is empty'' []), c) else (Inr email, c))"

definition dir_GetUserIDFromEmail :: "string \<Rightarrow> db \<Rightarrow> string res \<times> db" where
  "dir_GetUserIDFromEmail email c =
     check_err (q_GetUserIDFromEmail email c) same_err (\<lambda>i c. (Inr i, c))"

definition dir_EmailExists :: "string \<Rightarrow> db \<Rightarrow> bool res \<times> db" where
  "dir_EmailExists email c =
     check_err (q_EmailExists (to_lower email) c) same_err (\<lambda>r c. (Inr r, c))"

definition dir_UsernameExists :: "string \<Rightarrow> db \<Rightarrow> bool res \<times> db" where
  "dir_UsernameExists name c =
     check_err (q_UsernameExists (if length name > 0 then Val (to_lower name) else Null) c)
       same_err (\<lambda>r c. (Inr r, c))"

definition dir_UpdatePassword :: "int \<Rightarrow> string \<Rightarrow> string \<Rightarrow> db \<Rightarrow> unit res \<times> db" where
  "dir_UpdatePassword now i pw c =
     check_err (q_UpdatePassword i (Val pw) c) same_err (\<lambda>_ c.
       q_UpdatePasswordChangedAt (Val now) i c)"

definition dir_GetEmailVerified :: "string \<Rightarrow> db \<Rightarrow> bool res \<times> db" where
  "dir_GetEmailVerified i c =
     check_err (q_GetEmailVerified i c) same_err (\<lambda>b c. (Inr (null_bool b), c))"

definition dir_UpdateUsername :: "string nullable \<Rightarrow> string \<Rightarrow> db \<Rightarrow> pb_user res \<times> db" where
  "dir_UpdateUsername name i c =
     check_err (q_UpdateUsername name i c) same_err (\<lambda>u c. (userPostgresToProto u, c))"

definition dir_GetUserSuggestions :: "string \<Rightarrow> db \<Rightarrow> pb_user_suggestion list res \<times> db" where
  "dir_GetUserSuggestions query c =
     check_err (q_GetUserSuggestions (query @ [CHR 0x25]) c) same_err (\<lambda>us c.
       (Inr (map (\<lambda>u. \<lparr>sug_id = u_id u, sug_username = null_string (u_username u)\<rparr>) us), c))"

section \<open>Every statement keeps the constraints\<close>

lemma q_CreateUser_wf [inv_intros]:
  "tables_wf (dbt c) \<Longrightarrow> tables_wf (dbt (snd (q_CreateUser arg c)))"
  unfolding q_CreateUser_def
  by (rule exec_stmt_inv) (auto simp: ok_simps tables_wf_def intro: tbl_wf_steps)

lemma q_DeleteUser_wf [inv_intros]:
  "tables_wf (dbt c) \<Longrightarrow> tables_wf (dbt (snd (q_DeleteUser i c)))"
  unfolding q_DeleteUser_def
  by (rule exec_stmt_inv) (auto simp: ok_simps tables_wf_def intro: tbl_wf_steps)

lemma q_UpdatePassword_wf [inv_intros]:
  "tables_wf (dbt c) \<Longrightarrow> tables_wf (dbt (snd (q_UpdatePassword i pw c)))"
  unfolding q_UpdatePassword_def
  by (rule exec_stmt_inv) (auto simp: ok_simps tables_wf_def intro: tbl_wf_steps)

lemma q_UpdatePasswordChangedAt_wf [inv_intros]:
  "tables_wf (dbt c) \<Longrightarrow> tables_wf (dbt (snd (q_UpdatePasswordChangedAt at i c)))"
  unfolding q_UpdatePasswordChangedAt_def
  by (rule exec_stmt_inv) (auto simp: ok_simps tables_wf_def intro: tbl_wf_steps)

lemma q_UpdateUsername_wf [inv_intros]:
  "tables_wf (dbt c) \<Longrightarrow> tables_wf (dbt (snd (q_UpdateUsername name i c)))"
  unfolding q_UpdateUsername_def
  by (rule exec_stmt_inv) (auto simp: ok_simps tables_wf_def intro: tbl_wf_steps)

lemma q_VerifyEmail_wf [inv_intros]:
  "tables_wf (dbt c) \<Longrightarrow> tables_wf (dbt (snd (q_VerifyEmail i c)))"
  unfolding q_VerifyEmail_def
  by (rule exec_stmt_inv) (auto simp: ok_simps tables_wf_def intro: tbl_wf_steps)

lemmas users_reads = q_EmailExists_def q_GetEmail_def q_GetEmailVerified_def q_GetPassword_def
  q_GetUser_def q_GetUserByUsername_def q_GetUserIDFromEmail_def q_GetUserSuggestions_def
  q_UserIDExists_def q_UsernameExists_def

text \<open>The reads leave the tables alone.\<close>

lemma users_reads_tbl [simp]:
  "dbt (snd (q_EmailExists email c)) = dbt c"
  "dbt (snd (q_GetEmail i c)) = dbt c"
  "dbt (snd (q_GetEmailVerified i c)) = dbt c"
  "dbt (snd (q_GetPassword i c)) = dbt c"
  "dbt (snd (q_GetUser i c)) = dbt c"
  "dbt (snd (q_GetUserByUsername name c)) = dbt c"
  "dbt (snd (q_GetUserIDFromEmail email c)) = dbt c"
  "dbt (snd (q_GetUserSuggestions pat c)) = dbt c"
  "dbt (snd (q_UserIDExists i c)) = dbt c"
  "dbt (snd (q_UsernameExists name' c)) = dbt c"
  by (simp_all add: users_reads)

section \<open>What a statement that succeeds did\<close>

lemma q_CreateUser_Inr:
  assumes "q_CreateUser arg c = (Inr u, c')"
  shows "u = created_user arg"
    and "dbt c' = (dbt c)\<lparr>users := users (dbt c) @ [created_user arg]\<rparr>"
    and "fk_violation (dbt c') = None"
    and "tbl_insert users_schema (created_user arg) (users (dbt c)) = Inr (users (dbt c'))"
proof -
  from assms have *: "returning (created_user arg) (put (tbl_insert users_schema (created_user arg)
      (users (dbt c))) (\<lambda>rs. (dbt c)\<lparr>users := rs\<rparr>)) = Inr (u, dbt c')"
    unfolding q_CreateUser_def by (rule exec_stmt_Inr)
  then obtain rs where rs: "tbl_insert users_schema (created_user arg) (users (dbt c)) = Inr rs"
    and c': "dbt c' = (dbt c)\<lparr>users := rs\<rparr>" and "fk_violation (dbt c') = None"
    and "u = created_user arg"
    by (auto simp: ok_simps)
  from tbl_insert_Inr [OF rs] rs this
  show "u = created_user arg" "dbt c' = (dbt c)\<lparr>users := users (dbt c) @ [created_user arg]\<rparr>"
    "fk_violation (dbt c') = None"
    "tbl_insert users_schema (created_user arg) (users (dbt c)) = Inr (users (dbt c'))"
    by simp_all
qed

text \<open>
  An update of columns no index and no foreign key mentions, whose new values fit their
  columns, goes through.
\<close>

lemma user_update_ok:
  assumes wf: "tables_wf t" and "up c" and t: "dbt c = t"
    and check: "\<And>u. u \<in> set (users t) \<Longrightarrow> u_id u = i \<Longrightarrow> row_check users_schema (f u) = None"
    and keys: "\<And>u. u_id (f u) = u_id u \<and> u_email (f u) = u_email u \<and> u_username (f u) = u_username u"
  shows "exec_stmt (\<lambda>t. returning () (put (tbl_update users_schema (\<lambda>u. u_id u = i) f (users t))
            (\<lambda>rs. t\<lparr>users := rs\<rparr>))) c =
         (Inr (), c\<lparr>dbt := t\<lparr>users := map (\<lambda>u. if u_id u = i then f u else u) (users t)\<rparr>\<rparr>)"
proof -
  let ?rs = "map (\<lambda>u. if u_id u = i then f u else u) (users t)"
  have upd: "tbl_update users_schema (\<lambda>u. u_id u = i) f (users t) = Inr ?rs"
    using wf check keys
    by (intro tbl_update_ok) (auto simp: tables_wf_def users_schema_def)
  have "put (Inr ?rs) (\<lambda>rs. t\<lparr>users := rs\<rparr>) = Inr (t\<lparr>users := ?rs\<rparr>)"
    using wf keys by (intro put_same_keys [of t]) (auto simp: tables_wf_fk)
  then show ?thesis
    using \<open>up c\<close> t upd by (simp add: exec_stmt_up returning_def)
qed

lemma user_with_id:
  assumes "distinct (map u_id us)" and "i \<in> u_id ` set us"
  obtains u where "u \<in> set us" "u_id u = i" "filter (\<lambda>u. i = u_id u) us = [u]"
proof -
  from assms(2) obtain u where u: "u \<in> set us" "u_id u = i" by blast
  with filter_eq_single [OF assms(1) u(1)] have "filter (\<lambda>u. i = u_id u) us = [u]"
    by (simp add: eq_commute)
  with u that show thesis by blast
qed

text \<open>A row whose type is one of the two there are; only such a row can be converted to its message.\<close>

definition user_readable :: "user_row \<Rightarrow> bool" where
  "user_readable u \<longleftrightarrow> u_type u = ''member'' \<or> u_type u = ''creator''"

lemma userPostgresToProto_Inr: "(\<exists>m. userPostgresToProto u = Inr m) \<longleftrightarrow> user_readable u"
  by (auto simp: userPostgresToProto_def pgUserTypeToProto_def user_readable_def)

lemma userPostgresToProto_columns:
  assumes "userPostgresToProto u = Inr m"
  shows "usr_id m = u_id u" "usr_email m = u_email u" "usr_username m = null_string (u_username u)"
    "usr_given_name m = null_string (u_given_name u)" "usr_family_name m = null_string (u_family_name u)"
    "usr_email_verified m = null_bool (u_email_verified u)"
  using assms by (auto simp: userPostgresToProto_def split: sum.splits)

lemma dir_GetUser_up:
  assumes "up c" and "tables_wf (dbt c)" and "u \<in> set (users (dbt c))"
  shows "dir_GetUser (u_id u) c = (userPostgresToProto u, c)"
proof -
  have "filter (\<lambda>r. u_id r = u_id u) (users (dbt c)) = [u]"
    by (rule filter_eq_single [OF users_ids_distinct [OF assms(2)] assms(3)])
  then show ?thesis by (simp add: dir_GetUser_def q_GetUser_def exec_query_up [OF assms(1)])
qed

lemma users_names_unique:
  assumes "tables_wf t" and "u \<in> set (users t)" and "v \<in> set (users t)" and "u_username u = Val n" and "u_username v = Val n"
  shows "u = v"
proof -
  have "distinct (keys_of (\<lambda>r. key1 (u_username r)) (users t))"
    using assms(1) by (simp add: tables_wf_def tbl_wf_def users_schema_def)
  from distinct_keys_ofD [OF this assms(2,3), of "[n]"] assms(4,5) show ?thesis by simp
qed

lemma dir_GetUserByUsername_up:
  assumes "up c" and "tables_wf (dbt c)" and "u \<in> set (users (dbt c))" and "u_username u = Val n"
  shows "dir_GetUserByUsername n c = (userPostgresToProto u, c)"
proof -
  let ?us = "filter (\<lambda>r. holds (eq3 (u_username r) (Val n))) (users (dbt c))"
  have "u \<in> set ?us" using assms(3,4) by simp
  then obtain r rs where us: "?us = r # rs" by (metis list.exhaust list.set_cases)
  then have "r \<in> set ?us" by (metis list.set_intros(1))
  then have "r = u" using users_names_unique [OF assms(2) _ assms(3) _ assms(4), of r] by simp
  with us show ?thesis
    by (simp add: dir_GetUserByUsername_def q_GetUserByUsername_def exec_query_up [OF assms(1)] del: holds_eq3)
qed

text \<open>A row for the examples.\<close>

definition sample_user :: "string \<Rightarrow> string \<Rightarrow> user_row" where
  "sample_user i name = \<lparr>u_email_verified = Val True, u_password_changed_at = Null,
     u_email = name @ ''@mail.com'', u_password = Val ''secret'', u_id = i, u_family_name = Null,
     u_type = ''member'', u_given_name = Null, u_username = Val name\<rparr>"

end
