(* ===== verification/Follows_Dir.thy ===== *)
theory Follows_Dir
  imports Users_Dir
begin

text \<open>
  Package \<^verbatim>\<open>backend/follows\<close>: the statements of \<^verbatim>\<open>queries.sql.go\<close>, the directory and the
  conversions of \<^verbatim>\<open>helpers.go\<close>. \<open>follow_graph\<close> is the abstract state: who follows whom. A
  follow is a row whose follow date is later than its unfollow date, or that was never undone.
\<close>

section \<open>Statements\<close>

text \<open>
  The rows the JOIN with \<^verbatim>\<open>users\<close> returns: \<^verbatim>\<open>FollowUserRow\<close>, \<^verbatim>\<open>GetFollowersRow\<close>,
  \<^verbatim>\<open>GetFollowingRow\<close> and \<^verbatim>\<open>UnfollowUserRow\<close> have the same fields.
\<close>

record follow_user_row =
  fr_follower_user_id :: string
  fr_following_user_id :: string
  fr_follow_date :: int
  fr_unfollow_date :: "int nullable"
  fr_email_verified :: "bool nullable"
  fr_password_changed_at :: "int nullable"
  fr_email :: string
  fr_password :: "string nullable"
  fr_id :: string
  fr_family_name :: "string nullable"
  fr_type :: string
  fr_given_name :: "string nullable"
  fr_username :: "string nullable"

definition join_row :: "follow_row \<Rightarrow> user_row \<Rightarrow> follow_user_row" where
  "join_row f u = \<lparr>
     fr_follower_user_id = f_follower_user_id f, fr_following_user_id = f_following_user_id f,
     fr_follow_date = f_follow_date f, fr_unfollow_date = f_unfollow_date f,
     fr_email_verified = u_email_verified u, fr_password_changed_at = u_password_changed_at u,
     fr_email = u_email u, fr_password = u_password u, fr_id = u_id u,
     fr_family_name = u_family_name u, fr_type = u_type u, fr_given_name = u_given_name u,
     fr_username = u_username u\<rparr>"

definition join_users :: "(follow_row \<Rightarrow> string) \<Rightarrow> follow_row list \<Rightarrow> user_row list \<Rightarrow> follow_user_row list" where
  "join_users on fs us = [join_row f u. f \<leftarrow> fs, u \<leftarrow> us, on f = u_id u]"

definition same_pair :: "string \<Rightarrow> string \<Rightarrow> follow_row \<Rightarrow> bool" where
  "same_pair a b f \<longleftrightarrow> f_follower_user_id f = a \<and> f_following_user_id f = b"

text \<open>\<^verbatim>\<open>follow_date > unfollow_date OR unfollow_date IS NULL\<close>\<close>

definition later_follow :: "follow_row \<Rightarrow> tri" where
  "later_follow f = gt3 (Val (f_follow_date f)) (f_unfollow_date f)"

definition never_undone :: "follow_row \<Rightarrow> tri" where
  "never_undone f = is_null (f_unfollow_date f)"

definition q_FollowUser :: "string \<Rightarrow> string \<Rightarrow> int \<Rightarrow> db \<Rightarrow> follow_user_row res \<times> db" where
  "q_FollowUser a b date = exec_stmt (\<lambda>t.
     if list_ex (same_pair a b) (follows t) then
       returning_one
         (join_users f_following_user_id
            (map (\<lambda>f. f\<lparr>f_follow_date := date\<rparr>) (filter (same_pair a b) (follows t))) (users t))
         (put (tbl_update follows_schema (same_pair a b) (\<lambda>f. f\<lparr>f_follow_date := date\<rparr>) (follows t))
            (\<lambda>rs. t\<lparr>follows := rs\<rparr>))
     else
       let f = \<lparr>f_follower_user_id = a, f_following_user_id = b, f_follow_date = date,
                f_unfollow_date = Null\<rparr> in
       returning_one (join_users f_following_user_id [f] (users t))
         (put (tbl_insert follows_schema f (follows t)) (\<lambda>rs. t\<lparr>follows := rs\<rparr>)))"

text \<open>AND binds tighter than OR in the WHERE clauses of the two lists and the two counts.\<close>

definition followers_where :: "string \<Rightarrow> follow_row \<Rightarrow> bool" where
  "followers_where b f \<longleftrightarrow>
     holds (or3 (and3 (eq3 (Val (f_following_user_id f)) (Val b)) (later_follow f)) (never_undone f))"

definition following_where :: "string \<Rightarrow> follow_row \<Rightarrow> bool" where
  "following_where a f \<longleftrightarrow>
     holds (or3 (and3 (eq3 (Val (f_follower_user_id f)) (Val a)) (later_follow f)) (never_undone f))"

definition q_GetFollowers :: "string \<Rightarrow> db \<Rightarrow> follow_user_row list res \<times> db" where
  "q_GetFollowers b = exec_query (\<lambda>t.
     Inr (join_users f_follower_user_id (filter (followers_where b) (follows t)) (users t)))"

definition q_GetFollowersCount :: "string \<Rightarrow> db \<Rightarrow> int res \<times> db" where
  "q_GetFollowersCount b = exec_query (\<lambda>t.
     Inr (int (length (filter (followers_where b) (follows t)))))"

definition q_GetFollowing :: "string \<Rightarrow> db \<Rightarrow> follow_user_row list res \<times> db" where
  "q_GetFollowing a = exec_query (\<lambda>t.
     Inr (join_users f_following_user_id (filter (following_where a) (follows t)) (users t)))"

definition q_GetFollowingCount :: "string \<Rightarrow> db \<Rightarrow> int res \<times> db" where
  "q_GetFollowingCount a = exec_query (\<lambda>t.
     Inr (int (length (filter (following_where a) (follows t)))))"

definition q_IsFollowingUser :: "string \<Rightarrow> string \<Rightarrow> db \<Rightarrow> bool res \<times> db" where
  "q_IsFollowingUser a b = exec_query (\<lambda>t. Inr (list_ex
     (\<lambda>f. holds (and3 (eq3 (Val (f_follower_user_id f)) (Val a))
                  (and3 (eq3 (Val (f_following_user_id f)) (Val b))
                     (or3 (later_follow f) (never_undone f)))))
     (follows t)))"

definition q_UnfollowUser :: "int nullable \<Rightarrow> string \<Rightarrow> string \<Rightarrow> db \<Rightarrow> follow_user_row res \<times> db" where
  "q_UnfollowUser date a b = exec_stmt (\<lambda>t.
     let p = (\<lambda>f. same_pair a b f \<and> f_following_user_id f \<in> set (map u_id (users t)));
         g = (\<lambda>f. f\<lparr>f_unfollow_date := date\<rparr>) in
     returning_one (join_users f_following_user_id (map g (filter p (follows t))) (users t))
       (put (tbl_update follows_schema p g (follows t)) (\<lambda>rs. t\<lparr>follows := rs\<rparr>)))"

section \<open>The directory\<close>

record pb_ext_user_info =
  eui_id :: string
  eui_email :: string
  eui_given_name :: string
  eui_family_name :: string
  eui_username :: string
  eui_is_followed :: bool

definition isFollowed :: "int \<Rightarrow> int nullable \<Rightarrow> bool" where
  "isFollowed follow_date unfollow_date =
     (case unfollow_date of Null \<Rightarrow> True | Val d \<Rightarrow> d < follow_date)"

definition pgFollowUserRowToPB :: "follow_user_row \<Rightarrow> pb_ext_user_info" where
  "pgFollowUserRowToPB f = \<lparr>
     eui_id = fr_id f, eui_email = fr_email f, eui_given_name = null_string (fr_given_name f),
     eui_family_name = null_string (fr_family_name f), eui_username = null_string (fr_username f),
     eui_is_followed = isFollowed (fr_follow_date f) (fr_unfollow_date f)\<rparr>"

definition pgUnfollowUserRowToPB :: "follow_user_row \<Rightarrow> pb_ext_user_info" where
  "pgUnfollowUserRowToPB f = \<lparr>
     eui_id = fr_id f, eui_email = fr_email f, eui_given_name = null_string (fr_given_name f),
     eui_family_name = null_string (fr_family_name f), eui_username = null_string (fr_username f),
     eui_is_followed = isFollowed (fr_follow_date f) (fr_unfollow_date f)\<rparr>"

definition pgFollowersListToPB :: "follow_user_row list \<Rightarrow> pb_ext_user_info list" where
  "pgFollowersListToPB fs = map pgFollowUserRowToPB fs"

definition pgFollowingListToPB :: "follow_user_row list \<Rightarrow> pb_ext_user_info list" where
  "pgFollowingListToPB fs = map pgFollowUserRowToPB fs"

definition dir_FollowUser :: "string \<Rightarrow> string \<Rightarrow> int \<Rightarrow> db \<Rightarrow> pb_ext_user_info res \<times> db" where
  "dir_FollowUser a b date c =
     check_err (q_FollowUser a b date c) same_err (\<lambda>r c. (Inr (pgFollowUserRowToPB r), c))"

definition dir_UnfollowUser :: "int nullable \<Rightarrow> string \<Rightarrow> string \<Rightarrow> db \<Rightarrow> pb_ext_user_info res \<times> db" where
  "dir_UnfollowUser date a b c =
     check_err (q_UnfollowUser date a b c) same_err (\<lambda>r c. (Inr (pgUnfollowUserRowToPB r), c))"

definition dir_IsFollowingUser :: "string \<Rightarrow> string \<Rightarrow> db \<Rightarrow> bool res \<times> db" where
  "dir_IsFollowingUser a b c = q_IsFollowingUser a b c"

definition dir_GetFollowers :: "string \<Rightarrow> db \<Rightarrow> pb_ext_user_info list res \<times> db" where
  "dir_GetFollowers i c =
     check_err (q_GetFollowers i c) same_err (\<lambda>rs c. (Inr (pgFollowersListToPB rs), c))"

definition dir_GetFollowing :: "string \<Rightarrow> db \<Rightarrow> pb_ext_user_info list res \<times> db" where
  "dir_GetFollowing i c =
     check_err (q_GetFollowing i c) same_err (\<lambda>rs c. (Inr (pgFollowingListToPB rs), c))"

definition dir_GetFollowingCount :: "string \<Rightarrow> db \<Rightarrow> int res \<times> db" where
  "dir_GetFollowingCount i c = q_GetFollowingCount i c"

definition dir_GetFollowersCount :: "string \<Rightarrow> db \<Rightarrow> int res \<times> db" where
  "dir_GetFollowersCount i c = q_GetFollowersCount i c"

section \<open>The follow graph\<close>

definition active_follow :: "follow_row \<Rightarrow> bool" where
  "active_follow f \<longleftrightarrow> isFollowed (f_follow_date f) (f_unfollow_date f)"

definition follow_graph :: "tables \<Rightarrow> (string \<times> string) set" where
  "follow_graph t = {(f_follower_user_id f, f_following_user_id f) | f.
     f \<in> set (follows t) \<and> active_follow f}"

lemma active_follow_where:
  "active_follow f \<longleftrightarrow> holds (or3 (later_follow f) (never_undone f))"
  by (cases "f_unfollow_date f") (simp_all add: active_follow_def isFollowed_def later_follow_def never_undone_def)

lemma followers_where_iff:
  "followers_where b f \<longleftrightarrow>
     f_following_user_id f = b \<and> active_follow f \<or> f_unfollow_date f = Null"
  by (cases "f_unfollow_date f")
     (auto simp: followers_where_def active_follow_def isFollowed_def later_follow_def never_undone_def)

lemma following_where_iff:
  "following_where a f \<longleftrightarrow>
     f_follower_user_id f = a \<and> active_follow f \<or> f_unfollow_date f = Null"
  by (cases "f_unfollow_date f")
     (auto simp: following_where_def active_follow_def isFollowed_def later_follow_def never_undone_def)

lemma in_follow_graph:
  "(a, b) \<in> follow_graph t \<longleftrightarrow> (\<exists>f \<in> set (follows t). same_pair a b f \<and> active_follow f)"
  by (auto simp: follow_graph_def same_pair_def)

lemma q_IsFollowingUser_graph:
  "q_IsFollowingUser a b = exec_query (\<lambda>t. Inr ((a, b) \<in> follow_graph t))"
  by (rule ext) (auto simp: q_IsFollowingUser_def in_follow_graph same_pair_def active_follow_where
      list_ex_iff intro!: arg_cong2 [where f = exec_query])

section \<open>Joins with the users\<close>

lemma join_users_concat:
  "join_users on fs us = concat (map (\<lambda>f. map (join_row f) (filter (\<lambda>u. on f = u_id u) us)) fs)"
proof -
  have "concat (map (\<lambda>u. if on f = u_id u then [join_row f u] else []) us) =
      map (join_row f) (filter (\<lambda>u. on f = u_id u) us)" for f
    by (induction us) auto
  then show ?thesis by (simp add: join_users_def)
qed

lemma length_join_users:
  assumes "distinct (map u_id us)" and "\<And>f. f \<in> set fs \<Longrightarrow> on f \<in> u_id ` set us"
  shows "length (join_users on fs us) = length fs"
  using assms(2)
proof (induction fs)
  case Nil
  then show ?case by (simp add: join_users_concat)
next
  case (Cons f fs)
  from user_with_id [OF assms(1)] Cons.prems obtain u
    where "filter (\<lambda>u. on f = u_id u) us = [u]" by (metis list.set_intros(1))
  with Cons show ?case by (simp add: join_users_concat)
qed

lemma set_join_users:
  "set (join_users on fs us) = {join_row f u | f u. f \<in> set fs \<and> u \<in> set us \<and> on f = u_id u}"
  by (auto simp: join_users_concat)

lemma follow_key_unique:
  assumes "tables_wf t" and "f \<in> set (follows t)" and "g \<in> set (follows t)"
    and "same_pair a b f" and "same_pair a b g"
  shows "f = g"
  using follows_keys_distinct [OF assms(1)] assms(2-) by (auto simp: distinct_map inj_on_def same_pair_def)

lemma filter_pair_single:
  assumes "tables_wf t" and "f \<in> set (follows t)" and "same_pair a b f"
  shows "filter (same_pair a b) (follows t) = [f]"
proof -
  have "filter (\<lambda>g. (f_follower_user_id g, f_following_user_id g) = (f_follower_user_id f, f_following_user_id f))
      (follows t) = [f]"
    using follows_keys_distinct [OF assms(1)] assms(2) by (rule filter_eq_single)
  moreover have "same_pair a b = (\<lambda>g. (f_follower_user_id g, f_following_user_id g) = (f_follower_user_id f, f_following_user_id f))"
    using assms(3) by (auto simp: same_pair_def fun_eq_iff)
  ultimately show ?thesis by simp
qed

section \<open>Following and unfollowing\<close>

definition followed_rows :: "string \<Rightarrow> string \<Rightarrow> int \<Rightarrow> follow_row list \<Rightarrow> follow_row list" where
  "followed_rows a b date fs =
     (if list_ex (same_pair a b) fs
      then map (\<lambda>f. if same_pair a b f then f\<lparr>f_follow_date := date\<rparr> else f) fs
      else fs @ [\<lparr>f_follower_user_id = a, f_following_user_id = b, f_follow_date = date,
                  f_unfollow_date = Null\<rparr>])"

definition unfollowed_rows :: "string \<Rightarrow> string \<Rightarrow> int nullable \<Rightarrow> follow_row list \<Rightarrow> follow_row list" where
  "unfollowed_rows a b date fs = map (\<lambda>f. if same_pair a b f then f\<lparr>f_unfollow_date := date\<rparr> else f) fs"

text \<open>The clock is past every time the table records.\<close>

definition clock_after :: "int \<Rightarrow> tables \<Rightarrow> bool" where
  "clock_after now t \<longleftrightarrow> list_all (\<lambda>f. f_follow_date f \<le> now \<and>
     (case f_unfollow_date f of Null \<Rightarrow> True | Val d \<Rightarrow> d < now)) (follows t)"

lemma same_pair_update [simp]:
  "same_pair a b (f\<lparr>f_follow_date := d\<rparr>) = same_pair a b f"
  "same_pair a b (f\<lparr>f_unfollow_date := u\<rparr>) = same_pair a b f"
  by (simp_all add: same_pair_def)

lemma follow_graph_followed:
  assumes "clock_after now t"
  shows "follow_graph (t\<lparr>follows := followed_rows a b now (follows t)\<rparr>) = insert (a, b) (follow_graph t)"
proof -
  have new: "active_follow (f\<lparr>f_follow_date := now\<rparr>)" if "f \<in> set (follows t)" for f
    using assms that by (auto simp: clock_after_def list_all_iff active_follow_def isFollowed_def split: nullable.splits)
  have "(x, y) \<in> follow_graph (t\<lparr>follows := followed_rows a b now (follows t)\<rparr>) \<longleftrightarrow>
      (x, y) = (a, b) \<or> (x, y) \<in> follow_graph t" for x y
  proof (cases "list_ex (same_pair a b) (follows t)")
    case True
    then obtain g where g: "g \<in> set (follows t)" "same_pair a b g" by (auto simp: list_ex_iff)
    show ?thesis
    proof (cases "(x, y) = (a, b)")
      case True
      have "g\<lparr>f_follow_date := now\<rparr> \<in> set (followed_rows a b now (follows t))"
        using g \<open>list_ex _ _\<close> by (force simp: followed_rows_def)
      moreover have "same_pair a b (g\<lparr>f_follow_date := now\<rparr>)" using g by simp
      ultimately have "(a, b) \<in> follow_graph (t\<lparr>follows := followed_rows a b now (follows t)\<rparr>)"
        unfolding in_follow_graph using new [OF g(1)]
        by (intro bexI [of _ "g\<lparr>f_follow_date := now\<rparr>"]) simp_all
      with True show ?thesis by simp
    next
      case False
      then have "\<not> same_pair x y f" if "same_pair a b f" for f
        using that by (auto simp: same_pair_def)
      with False \<open>list_ex _ _\<close> show ?thesis by (auto simp: in_follow_graph followed_rows_def)
    qed
  next
    case False
    then show ?thesis
      by (auto simp: in_follow_graph followed_rows_def list_ex_iff same_pair_def active_follow_def isFollowed_def)
  qed
  then show ?thesis by auto
qed

lemma follow_graph_unfollowed:
  assumes "clock_after now t"
  shows "follow_graph (t\<lparr>follows := unfollowed_rows a b (Val now) (follows t)\<rparr>) = follow_graph t - {(a, b)}"
proof -
  have old: "\<not> active_follow (f\<lparr>f_unfollow_date := Val now\<rparr>)" if "f \<in> set (follows t)" for f
    using assms that by (auto simp: clock_after_def list_all_iff active_follow_def isFollowed_def)
  have "(x, y) \<in> follow_graph (t\<lparr>follows := unfollowed_rows a b (Val now) (follows t)\<rparr>) \<longleftrightarrow>
      (x, y) \<noteq> (a, b) \<and> (x, y) \<in> follow_graph t" for x y
  proof (cases "(x, y) = (a, b)")
    case True
    with old show ?thesis by (auto simp: in_follow_graph unfollowed_rows_def)
  next
    case False
    then have "\<not> same_pair x y f" if "same_pair a b f" for f
      using that by (auto simp: same_pair_def)
    with False show ?thesis by (auto simp: in_follow_graph unfollowed_rows_def)
  qed
  then show ?thesis by auto
qed

lemma join_users_single:
  assumes "tables_wf t" and "on f \<in> u_id ` set (users t)"
  obtains u where "u \<in> set (users t)" "u_id u = on f" "join_users on [f] (users t) = [join_row f u]"
proof -
  obtain u where "u \<in> set (users t)" "u_id u = on f" "filter (\<lambda>u. on f = u_id u) (users t) = [u]"
    by (rule user_with_id [OF users_ids_distinct [OF assms(1)] assms(2)])
  then show thesis by (intro that) (simp_all add: join_users_concat)
qed

lemma follows_update_ok:
  assumes "tables_wf t" and "\<And>f. same_pair a b (g f) = same_pair a b f"
    and keys: "\<And>f. f_follower_user_id (g f) = f_follower_user_id f \<and> f_following_user_id (g f) = f_following_user_id f"
  shows "put (tbl_update follows_schema (same_pair a b) g (follows t)) (\<lambda>rs. t\<lparr>follows := rs\<rparr>) =
         Inr (t\<lparr>follows := map (\<lambda>f. if same_pair a b f then g f else f) (follows t)\<rparr>)"
proof -
  let ?rs = "map (\<lambda>f. if same_pair a b f then g f else f) (follows t)"
  have "tbl_update follows_schema (same_pair a b) g (follows t) = Inr ?rs"
    using assms(1) keys by (intro tbl_update_ok) (auto simp: tables_wf_def tbl_wf_def follows_schema_def)
  moreover have "fk_violation (t\<lparr>follows := ?rs\<rparr>) = None"
    using tables_wf_fk [OF assms(1)] keys by (auto simp: fk_violation_None)
  ultimately show ?thesis by (simp add: put_def)
qed


lemma q_FollowUser_up:
  assumes wf: "tables_wf t" and "up c" and t: "dbt c = t"
    and a: "a \<in> u_id ` set (users t)" and b: "b \<in> u_id ` set (users t)"
  obtains f u where "u \<in> set (users t)" "u_id u = b" "same_pair a b f" "f_follow_date f = now"
    "f \<in> set (followed_rows a b now (follows t))"
    "q_FollowUser a b now c = (Inr (join_row f u), c\<lparr>dbt := t\<lparr>follows := followed_rows a b now (follows t)\<rparr>\<rparr>)"
proof (cases "list_ex (same_pair a b) (follows t)")
  case True
  then obtain g where g: "g \<in> set (follows t)" "same_pair a b g" by (auto simp: list_ex_iff)
  let ?f = "g\<lparr>f_follow_date := now\<rparr>"
  obtain u where u: "u \<in> set (users t)" "u_id u = b"
    "join_users f_following_user_id [?f] (users t) = [join_row ?f u]"
    using join_users_single [OF wf, where on = f_following_user_id and f = ?f] g b
    by (auto simp: same_pair_def)
  have "q_FollowUser a b now c =
      (Inr (join_row ?f u), c\<lparr>dbt := t\<lparr>follows := followed_rows a b now (follows t)\<rparr>\<rparr>)"
    using True \<open>up c\<close> t u(3) filter_pair_single [OF wf g]
      follows_update_ok [OF wf, of a b "\<lambda>f. f\<lparr>f_follow_date := now\<rparr>"]
    by (simp add: q_FollowUser_def exec_stmt_up returning_one_def followed_rows_def)
  moreover have "?f \<in> set (followed_rows a b now (follows t))"
    using g True by (force simp: followed_rows_def)
  ultimately show thesis using that [of u ?f] u g by simp
next
  case False
  let ?f = "\<lparr>f_follower_user_id = a, f_following_user_id = b, f_follow_date = now, f_unfollow_date = Null\<rparr>"
  obtain u where u: "u \<in> set (users t)" "u_id u = b"
    "join_users f_following_user_id [?f] (users t) = [join_row ?f u]"
    using join_users_single [OF wf, where on = f_following_user_id and f = ?f] b by auto
  have "length a \<le> 100 \<and> length b \<le> 100"
    using wf a b by (auto simp: tables_wf_def tbl_wf_def users_schema_def row_checks)
  then have "tbl_insert follows_schema ?f (follows t) = Inr (follows t @ [?f])"
    using wf False
    by (auto simp: tbl_insert_def tbl_store_Inr tables_wf_def tbl_wf_def follows_schema_def row_checks
        set_keys_of list_ex_iff same_pair_def)
  moreover have "fk_violation (t\<lparr>follows := follows t @ [?f]\<rparr>) = None"
    using tables_wf_fk [OF wf] a b by (auto simp: fk_violation_None)
  ultimately have "q_FollowUser a b now c =
      (Inr (join_row ?f u), c\<lparr>dbt := t\<lparr>follows := followed_rows a b now (follows t)\<rparr>\<rparr>)"
    using False \<open>up c\<close> t u(3)
    by (simp add: q_FollowUser_def exec_stmt_up returning_one_def followed_rows_def put_def Let_def)
  then show thesis using that [of u ?f] u False by (simp add: same_pair_def followed_rows_def)
qed

lemma q_UnfollowUser_up:
  assumes wf: "tables_wf t" and "up c" and t: "dbt c = t"
    and g: "g \<in> set (follows t)" "same_pair a b g"
  obtains u where "u \<in> set (users t)" "u_id u = b"
    "q_UnfollowUser date a b c =
      (Inr (join_row (g\<lparr>f_unfollow_date := date\<rparr>) u), c\<lparr>dbt := t\<lparr>follows := unfollowed_rows a b date (follows t)\<rparr>\<rparr>)"
proof -
  let ?f = "g\<lparr>f_unfollow_date := date\<rparr>"
  have b: "b \<in> u_id ` set (users t)"
    using tables_wf_fk [OF wf] g by (auto simp: fk_violation_None same_pair_def)
  then have p: "(\<lambda>f. same_pair a b f \<and> f_following_user_id f \<in> u_id ` set (users t)) = same_pair a b"
    by (auto simp: same_pair_def fun_eq_iff)
  obtain u where u: "u \<in> set (users t)" "u_id u = b"
    "join_users f_following_user_id [?f] (users t) = [join_row ?f u]"
    using join_users_single [OF wf, where on = f_following_user_id and f = ?f] g b
    by (auto simp: same_pair_def)
  have "q_UnfollowUser date a b c =
      (Inr (join_row ?f u), c\<lparr>dbt := t\<lparr>follows := unfollowed_rows a b date (follows t)\<rparr>\<rparr>)"
    using \<open>up c\<close> t u(3) filter_pair_single [OF wf g]
      follows_update_ok [OF wf, of a b "\<lambda>f. f\<lparr>f_unfollow_date := date\<rparr>"]
    by (simp add: q_UnfollowUser_def exec_stmt_up returning_one_def unfollowed_rows_def Let_def p)
  with u that show thesis by blast
qed

lemma pg_info_join [simp]:
  "eui_id (pgFollowUserRowToPB (join_row f u)) = u_id u"
  "eui_is_followed (pgFollowUserRowToPB (join_row f u)) = active_follow f"
  "pgUnfollowUserRowToPB r = pgFollowUserRowToPB r"
  by (simp_all add: pgFollowUserRowToPB_def pgUnfollowUserRowToPB_def join_row_def active_follow_def)

lemma q_FollowUser_wf [inv_intros]:
  "tables_wf (dbt c) \<Longrightarrow> tables_wf (dbt (snd (q_FollowUser a b date c)))"
  unfolding q_FollowUser_def
  by (rule exec_stmt_inv) (auto simp: ok_simps tables_wf_def Let_def intro: tbl_wf_steps split: if_splits)

lemma q_UnfollowUser_wf [inv_intros]:
  "tables_wf (dbt c) \<Longrightarrow> tables_wf (dbt (snd (q_UnfollowUser date a b c)))"
  unfolding q_UnfollowUser_def
  by (rule exec_stmt_inv) (auto simp: ok_simps tables_wf_def Let_def intro: tbl_wf_steps)

lemma dir_FollowUser_up:
  assumes wf: "tables_wf t" and "up c" and t: "dbt c = t" and clock: "clock_after now t"
    and a: "a \<in> u_id ` set (users t)" and b: "b \<in> u_id ` set (users t)"
  obtains i t' where "dir_FollowUser a b now c = (Inr i, c\<lparr>dbt := t'\<rparr>)"
    "t' = t\<lparr>follows := follows t'\<rparr>" "tables_wf t'"
    "follow_graph t' = insert (a, b) (follow_graph t)" "eui_id i = b" "eui_is_followed i"
proof -
  let ?t' = "t\<lparr>follows := followed_rows a b now (follows t)\<rparr>"
  obtain f u where u: "u_id u = b" and f: "same_pair a b f" "f \<in> set (followed_rows a b now (follows t))"
    and q: "q_FollowUser a b now c = (Inr (join_row f u), c\<lparr>dbt := ?t'\<rparr>)"
    by (rule q_FollowUser_up [OF wf \<open>up c\<close> t a b]) blast
  have wf': "tables_wf ?t'"
    using q_FollowUser_wf [of c a b now] wf t q by simp
  have graph: "follow_graph ?t' = insert (a, b) (follow_graph t)"
    by (rule follow_graph_followed [OF clock])
  then obtain g where "g \<in> set (followed_rows a b now (follows t))" "same_pair a b g" "active_follow g"
    using in_follow_graph [of a b ?t'] by auto
  with follow_key_unique [OF wf', of f g a b] f have "active_follow f" by simp
  with q graph wf' u show thesis
    by (intro that [of "pgFollowUserRowToPB (join_row f u)" ?t']) (simp_all add: dir_FollowUser_def)
qed

lemma dir_UnfollowUser_up:
  assumes wf: "tables_wf t" and "up c" and t: "dbt c = t" and clock: "clock_after now t"
    and ab: "(a, b) \<in> follow_graph t"
  obtains i t' where "dir_UnfollowUser (Val now) a b c = (Inr i, c\<lparr>dbt := t'\<rparr>)"
    "t' = t\<lparr>follows := follows t'\<rparr>" "tables_wf t'"
    "follow_graph t' = follow_graph t - {(a, b)}" "eui_id i = b" "\<not> eui_is_followed i"
proof -
  let ?t' = "t\<lparr>follows := unfollowed_rows a b (Val now) (follows t)\<rparr>"
  from ab obtain g where g: "g \<in> set (follows t)" "same_pair a b g"
    by (auto simp: in_follow_graph)
  obtain u where u: "u_id u = b"
    and q: "q_UnfollowUser (Val now) a b c = (Inr (join_row (g\<lparr>f_unfollow_date := Val now\<rparr>) u), c\<lparr>dbt := ?t'\<rparr>)"
    by (rule q_UnfollowUser_up [OF wf \<open>up c\<close> t g]) blast
  have "tables_wf ?t'"
    using q_UnfollowUser_wf [of c "Val now" a b] wf t q by simp
  moreover have "\<not> active_follow (g\<lparr>f_unfollow_date := Val now\<rparr>)"
    using clock g(1) by (auto simp: clock_after_def list_all_iff active_follow_def isFollowed_def)
  ultimately show thesis
    using q u follow_graph_unfollowed [OF clock, of a b]
    by (intro that [of "pgFollowUserRowToPB (join_row (g\<lparr>f_unfollow_date := Val now\<rparr>) u)" ?t'])
       (simp_all add: dir_UnfollowUser_def)
qed

section \<open>Sample tables\<close>

text \<open>Three users: anna follows bruno, bruno followed carla and stopped.\<close>

definition sample_tables :: tables where
  "sample_tables = no_rows\<lparr>
     users := [sample_user ''1'' ''anna'', sample_user ''2'' ''bruno'', sample_user ''3'' ''carla''],
     follows := [\<lparr>f_follower_user_id = ''1'', f_following_user_id = ''2'', f_follow_date = 10,
                   f_unfollow_date = Null\<rparr>,
                 \<lparr>f_follower_user_id = ''2'', f_following_user_id = ''3'', f_follow_date = 10,
                   f_unfollow_date = Val 11\<rparr>]\<rparr>"

lemma sample_tables_wf: "tables_wf sample_tables"
  by code_simp

section \<open>The lists and the counts\<close>

lemma fk_follower: "tables_wf t \<Longrightarrow> f \<in> set (follows t) \<Longrightarrow> f_follower_user_id f \<in> u_id ` set (users t)"
  and fk_following: "tables_wf t \<Longrightarrow> f \<in> set (follows t) \<Longrightarrow> f_following_user_id f \<in> u_id ` set (users t)"
  using tables_wf_fk by (simp_all add: fk_violation_None)

text \<open>
  The counts of followers and of followed users are the lengths of the lists the same
  directory returns, as long as the constraints of the schema hold.
\<close>

theorem follow_counts_match_lists:
  assumes "tables_wf t"
  shows "\<exists>fs gs. dir_GetFollowers i (db_of t) = (Inr fs, db_of t) \<and>
      dir_GetFollowersCount i (db_of t) = (Inr (int (length fs)), db_of t) \<and>
      dir_GetFollowing i (db_of t) = (Inr gs, db_of t) \<and>
      dir_GetFollowingCount i (db_of t) = (Inr (int (length gs)), db_of t)"
proof -
  have "length (join_users f_follower_user_id (filter (followers_where i) (follows t)) (users t)) =
      length (filter (followers_where i) (follows t))"
    and "length (join_users f_following_user_id (filter (following_where i) (follows t)) (users t)) =
      length (filter (following_where i) (follows t))"
    using fk_follower [OF assms] fk_following [OF assms] users_ids_distinct [OF assms]
    by (auto intro!: length_join_users)
  then show ?thesis
    by (simp add: dir_GetFollowers_def q_GetFollowers_def dir_GetFollowersCount_def q_GetFollowersCount_def
        dir_GetFollowing_def q_GetFollowing_def dir_GetFollowingCount_def q_GetFollowingCount_def
        exec_query_up up_def db_of_def pgFollowersListToPB_def pgFollowingListToPB_def)
qed

lemma follow_counts_match_lists_witness:
  "tables_wf sample_tables \<and>
   (\<exists>fs gs. dir_GetFollowers ''2'' (db_of sample_tables) = (Inr fs, db_of sample_tables) \<and>
      dir_GetFollowersCount ''2'' (db_of sample_tables) = (Inr (int (length fs)), db_of sample_tables) \<and>
      dir_GetFollowing ''2'' (db_of sample_tables) = (Inr gs, db_of sample_tables) \<and>
      dir_GetFollowingCount ''2'' (db_of sample_tables) = (Inr (int (length gs)), db_of sample_tables))"
  using follow_counts_match_lists [OF sample_tables_wf, of "''2''"] sample_tables_wf by blast

lemma set_followers_list:
  assumes "tables_wf t"
  shows "eui_id ` set (pgFollowersListToPB (join_users f_follower_user_id (filter (followers_where b) (follows t)) (users t)))
    = f_follower_user_id ` {f \<in> set (follows t). f_following_user_id f = b \<and> active_follow f \<or> f_unfollow_date f = Null}"
proof -
  have "eui_id ` set (pgFollowersListToPB (join_users f_follower_user_id fs (users t))) = f_follower_user_id ` set fs"
    if "set fs \<subseteq> set (follows t)" for fs
    using fk_follower [OF assms] that by (force simp: pgFollowersListToPB_def set_join_users image_iff)
  then show ?thesis by (auto simp: followers_where_iff)
qed


text \<open>
  C28: the list of followers holds every follower, and it holds only followers exactly when
  every follow of another user that was never undone is also one of this user's: the WHERE clause
  lets any follow that was never undone in, whoever it is of.
\<close>

theorem followers_list_exact:
  assumes "tables_wf t"
  shows "\<exists>fs. dir_GetFollowers b (db_of t) = (Inr fs, db_of t) \<and>
      {a. (a, b) \<in> follow_graph t} \<subseteq> eui_id ` set fs \<and>
      (eui_id ` set fs = {a. (a, b) \<in> follow_graph t} \<longleftrightarrow>
       (\<forall>f \<in> set (follows t). f_unfollow_date f = Null \<longrightarrow> (f_follower_user_id f, b) \<in> follow_graph t))"
proof -
  let ?fs = "pgFollowersListToPB (join_users f_follower_user_id (filter (followers_where b) (follows t)) (users t))"
  have "dir_GetFollowers b (db_of t) = (Inr ?fs, db_of t)"
    by (simp add: dir_GetFollowers_def q_GetFollowers_def exec_query_up up_def db_of_def)
  moreover have "{a. (a, b) \<in> follow_graph t} = f_follower_user_id ` {f \<in> set (follows t). f_following_user_id f = b \<and> active_follow f}"
    by (auto simp: follow_graph_def)
  then have list: "eui_id ` set ?fs = {a. (a, b) \<in> follow_graph t} \<union> f_follower_user_id ` {f \<in> set (follows t). f_unfollow_date f = Null}"
    using set_followers_list [OF assms, of b] by auto
  moreover have "X = A \<union> g ` {f \<in> S. P f} \<Longrightarrow> A \<subseteq> X \<and> (X = A \<longleftrightarrow> (\<forall>f \<in> S. P f \<longrightarrow> g f \<in> A))"
    for X A :: "string set" and g and S :: "follow_row set" and P
    by blast
  from this [OF list] have "{a. (a, b) \<in> follow_graph t} \<subseteq> eui_id ` set ?fs \<and>
      (eui_id ` set ?fs = {a. (a, b) \<in> follow_graph t} \<longleftrightarrow>
       (\<forall>f \<in> set (follows t). f_unfollow_date f = Null \<longrightarrow> (f_follower_user_id f, b) \<in> follow_graph t))"
    by (simp only: mem_Collect_eq)
  ultimately show ?thesis by (intro exI [of _ ?fs]) simp
qed

lemma sample_not_following:
  "(''1'', ''2'') \<in> follow_graph sample_tables" "(''1'', ''3'') \<notin> follow_graph sample_tables"
  by (simp_all only: in_follow_graph, code_simp+)

text \<open>In the sample, anna is on the list of carla's followers and does not follow her.\<close>

lemma followers_list_exact_witness:
  "\<exists>fs. dir_GetFollowers ''3'' (db_of sample_tables) = (Inr fs, db_of sample_tables) \<and>
     eui_id ` set fs \<noteq> {a. (a, ''3'') \<in> follow_graph sample_tables}"
proof -
  have "\<exists>f \<in> set (follows sample_tables). f_unfollow_date f = Null \<and> f_follower_user_id f = ''1''"
    by code_simp
  with followers_list_exact [OF sample_tables_wf, of "''3''"] sample_not_following(2)
  show ?thesis by metis
qed

end
