(* ===== verification/Redis_Store.thy ===== *)
theory Redis_Store
  imports Prelude
begin

text \<open>
  The Redis server behind \<^verbatim>\<open>go-redis\<close>: not code of the repository, so the commands the program
  sends are a record of functions the model takes as an argument. The locale states what the
  command reference promises of them over two observers, the string a key holds and the
  members of the set it holds. A command that does not answer may have taken effect or not.
  Time stands still while one handler runs; a key whose time has passed is one that holds
  nothing. Durations are nanoseconds, as Go counts them.
\<close>

section \<open>The commands\<close>

record 'r redis =
  rd_get :: "string \<Rightarrow> 'r \<Rightarrow> string res \<times> 'r"
  rd_set :: "string \<Rightarrow> string \<Rightarrow> int \<Rightarrow> 'r \<Rightarrow> unit res \<times> 'r"
  rd_del :: "string \<Rightarrow> 'r \<Rightarrow> unit res \<times> 'r"
  rd_ttl :: "string \<Rightarrow> 'r \<Rightarrow> int res \<times> 'r"
  rd_sadd :: "string \<Rightarrow> string \<Rightarrow> 'r \<Rightarrow> unit res \<times> 'r"
  rd_srem :: "string \<Rightarrow> string \<Rightarrow> 'r \<Rightarrow> unit res \<times> 'r"
  rd_smembers :: "string \<Rightarrow> 'r \<Rightarrow> string list res \<times> 'r"
  rd_sismember :: "string \<Rightarrow> string \<Rightarrow> 'r \<Rightarrow> bool res \<times> 'r"
  rd_publish :: "string \<Rightarrow> string \<Rightarrow> 'r \<Rightarrow> unit res \<times> 'r"

definition answered :: "'a res \<Rightarrow> bool" where
  "answered r \<longleftrightarrow> (case r of Inl _ \<Rightarrow> False | Inr _ \<Rightarrow> True)"

lemma answered_simps [simp]: "\<not> answered (Inl e)" "answered (Inr x)"
  by (simp_all add: answered_def)

definition seconds :: "int \<Rightarrow> int" where
  "seconds n = n * 1000000000"

locale redis_store =
  fixes R :: "'r redis" and strs :: "'r \<Rightarrow> string \<Rightarrow> string option"
    and members :: "'r \<Rightarrow> string \<Rightarrow> string set"
  assumes one_type: "strs s k \<noteq> None \<Longrightarrow> members s k = {}"
    and get_frame: "rd_get R k s = (r, s') \<Longrightarrow> strs s' = strs s \<and> members s' = members s"
    and get_ok: "rd_get R k s = (Inr v, s') \<Longrightarrow> strs s k = Some v"
    and get_nil: "rd_get R k s = (Inl ErrRedisNil, s') \<Longrightarrow> strs s k = None"
    and set_ok: "rd_set R k v d s = (Inr x, s') \<Longrightarrow>
      strs s' = (strs s)(k \<mapsto> v) \<and> members s' = (members s)(k := {})"
    and set_err: "rd_set R k v d s = (Inl e, s') \<Longrightarrow>
      strs s' = strs s \<and> members s' = members s \<or>
      strs s' = (strs s)(k \<mapsto> v) \<and> members s' = (members s)(k := {})"
    and del_ok: "rd_del R k s = (Inr x, s') \<Longrightarrow>
      strs s' = (strs s)(k := None) \<and> members s' = (members s)(k := {})"
    and del_err: "rd_del R k s = (Inl e, s') \<Longrightarrow>
      strs s' = strs s \<and> members s' = members s \<or>
      strs s' = (strs s)(k := None) \<and> members s' = (members s)(k := {})"
    and ttl_frame: "rd_ttl R k s = (r2, s') \<Longrightarrow> strs s' = strs s \<and> members s' = members s"
    and sadd_ok: "rd_sadd R k m s = (Inr x, s') \<Longrightarrow>
      strs s' = strs s \<and> members s' = (members s)(k := insert m (members s k))"
    and sadd_err: "rd_sadd R k m s = (Inl e, s') \<Longrightarrow>
      strs s' = strs s \<and> (members s' = members s \<or> members s' = (members s)(k := insert m (members s k)))"
    and srem_ok: "rd_srem R k m s = (Inr x, s') \<Longrightarrow>
      strs s' = strs s \<and> members s' = (members s)(k := members s k - {m})"
    and srem_err: "rd_srem R k m s = (Inl e, s') \<Longrightarrow>
      strs s' = strs s \<and> (members s' = members s \<or> members s' = (members s)(k := members s k - {m}))"
    and smembers_frame: "rd_smembers R k s = (r3, s') \<Longrightarrow> strs s' = strs s \<and> members s' = members s"
    and smembers_ok: "rd_smembers R k s = (Inr ms, s') \<Longrightarrow> set ms = members s k"
    and sismember_frame: "rd_sismember R k m s = (r4, s') \<Longrightarrow> strs s' = strs s \<and> members s' = members s"
    and sismember_ok: "rd_sismember R k m s = (Inr b, s') \<Longrightarrow> b \<longleftrightarrow> m \<in> members s k"
    and publish_frame: "rd_publish R ch m s = (r5, s') \<Longrightarrow> strs s' = strs s \<and> members s' = members s"

section \<open>A server in memory\<close>

text \<open>
  The server the examples run on: keys with a value and an optional time of expiry, the clock,
  the messages published, and a list of the commands that will fail, before or after they
  took effect.
\<close>

datatype redis_value = RStr string | RSet "string list"

record mem_redis =
  mr_keys :: "(string \<times> redis_value \<times> int option) list"
  mr_clock :: int
  mr_published :: "(string \<times> string) list"
  mr_faults :: "bool option list"

definition mem_empty :: mem_redis where
  "mem_empty = \<lparr>mr_keys = [], mr_clock = 0, mr_published = [], mr_faults = []\<rparr>"

definition mem_find :: "string \<Rightarrow> mem_redis \<Rightarrow> (redis_value \<times> int option) option" where
  "mem_find k s = (case map_of (mr_keys s) k of
     None \<Rightarrow> None
   | Some (v, None) \<Rightarrow> Some (v, None)
   | Some (v, Some t) \<Rightarrow> if mr_clock s < t then Some (v, Some t) else None)"

definition mem_put :: "string \<Rightarrow> redis_value \<Rightarrow> int option \<Rightarrow> mem_redis \<Rightarrow> mem_redis" where
  "mem_put k v e s = s\<lparr>mr_keys := (k, v, e) # filter (\<lambda>x. fst x \<noteq> k) (mr_keys s)\<rparr>"

definition mem_drop :: "string \<Rightarrow> mem_redis \<Rightarrow> mem_redis" where
  "mem_drop k s = s\<lparr>mr_keys := filter (\<lambda>x. fst x \<noteq> k) (mr_keys s)\<rparr>"

definition mem_strs :: "mem_redis \<Rightarrow> string \<Rightarrow> string option" where
  "mem_strs s k = (case mem_find k s of Some (RStr v, _) \<Rightarrow> Some v | _ \<Rightarrow> None)"

definition mem_members :: "mem_redis \<Rightarrow> string \<Rightarrow> string set" where
  "mem_members s k = (case mem_find k s of Some (RSet ms, _) \<Rightarrow> set ms | _ \<Rightarrow> {})"

text \<open>One command: \<open>Some False\<close> fails before it acts, \<open>Some True\<close> after.\<close>

definition mem_run :: "(mem_redis \<Rightarrow> 'a res \<times> mem_redis) \<Rightarrow> mem_redis \<Rightarrow> 'a res \<times> mem_redis" where
  "mem_run f s = (case mr_faults s of
     [] \<Rightarrow> f s
   | None # fs \<Rightarrow> f (s\<lparr>mr_faults := fs\<rparr>)
   | Some acted # fs \<Rightarrow>
       (Inl (ErrRedis ''i/o timeout''), if acted then snd (f (s\<lparr>mr_faults := fs\<rparr>)) else s\<lparr>mr_faults := fs\<rparr>))"

definition wrong_type :: goerror where
  "wrong_type = ErrRedis ''WRONGTYPE''"

definition mem_sadd :: "string \<Rightarrow> string \<Rightarrow> mem_redis \<Rightarrow> unit res \<times> mem_redis" where
  "mem_sadd k m s = (case mem_find k s of
     None \<Rightarrow> (Inr (), mem_put k (RSet [m]) None s)
   | Some (RStr _, _) \<Rightarrow> (Inl wrong_type, s)
   | Some (RSet ms, e) \<Rightarrow> (Inr (), mem_put k (RSet (List.insert m ms)) e s))"

definition mem_srem :: "string \<Rightarrow> string \<Rightarrow> mem_redis \<Rightarrow> unit res \<times> mem_redis" where
  "mem_srem k m s = (case mem_find k s of
     None \<Rightarrow> (Inr (), s)
   | Some (RStr _, _) \<Rightarrow> (Inl wrong_type, s)
   | Some (RSet ms, e) \<Rightarrow> (Inr (), mem_put k (RSet (removeAll m ms)) e s))"

definition mem_redis_cmds :: "mem_redis redis" where
  "mem_redis_cmds = \<lparr>
     rd_get = (\<lambda>k. mem_run (\<lambda>s. (case mem_find k s of
        None \<Rightarrow> Inl ErrRedisNil | Some (RStr v, _) \<Rightarrow> Inr v | Some (RSet _, _) \<Rightarrow> Inl wrong_type, s))),
     rd_set = (\<lambda>k v d. mem_run (\<lambda>s.
        (Inr (), mem_put k (RStr v) (if d \<le> 0 then None else Some (mr_clock s + d)) s))),
     rd_del = (\<lambda>k. mem_run (\<lambda>s. (Inr (), mem_drop k s))),
     rd_ttl = (\<lambda>k. mem_run (\<lambda>s. (Inr (case mem_find k s of
        None \<Rightarrow> - 2 | Some (_, None) \<Rightarrow> - 1 | Some (_, Some t) \<Rightarrow> t - mr_clock s), s))),
     rd_sadd = (\<lambda>k m. mem_run (mem_sadd k m)),
     rd_srem = (\<lambda>k m. mem_run (mem_srem k m)),
     rd_smembers = (\<lambda>k. mem_run (\<lambda>s. (case mem_find k s of
        None \<Rightarrow> Inr [] | Some (RStr _, _) \<Rightarrow> Inl wrong_type | Some (RSet ms, _) \<Rightarrow> Inr ms, s))),
     rd_sismember = (\<lambda>k m. mem_run (\<lambda>s. (case mem_find k s of
        None \<Rightarrow> Inr False | Some (RStr _, _) \<Rightarrow> Inl wrong_type | Some (RSet ms, _) \<Rightarrow> Inr (m \<in> set ms), s))),
     rd_publish = (\<lambda>ch m. mem_run (\<lambda>s. (Inr (), s\<lparr>mr_published := mr_published s @ [(ch, m)]\<rparr>)))\<rparr>"

lemma map_of_filter_neq:
  "map_of (filter (\<lambda>x. fst x \<noteq> j) xs) k = (if k = j then None else map_of xs k)"
  by (induction xs) auto

lemma mem_find_put:
  "e = None \<or> (\<exists>t. e = Some t \<and> mr_clock s < t) \<Longrightarrow>
     mem_find k (mem_put j v e s) = (if k = j then Some (v, e) else mem_find k s)"
  by (auto simp: mem_find_def mem_put_def map_of_filter_neq split: option.split)

lemma mem_find_drop: "mem_find k (mem_drop j s) = (if k = j then None else mem_find k s)"
  by (auto simp: mem_find_def mem_drop_def map_of_filter_neq split: option.split)

lemma mem_find_other [simp]:
  "mem_find k (s\<lparr>mr_faults := fs\<rparr>) = mem_find k s" "mem_find k (s\<lparr>mr_published := ps\<rparr>) = mem_find k s"
  by (simp_all add: mem_find_def split: option.split)

lemma mem_find_alive: "mem_find k s = Some (v, e) \<Longrightarrow> e = None \<or> (\<exists>t. e = Some t \<and> mr_clock s < t)"
  by (auto simp: mem_find_def split: option.splits if_splits)

lemma mem_obs_other [simp]:
  "mem_strs (s\<lparr>mr_faults := fs\<rparr>) = mem_strs s" "mem_members (s\<lparr>mr_faults := fs\<rparr>) = mem_members s"
  "mem_strs (s\<lparr>mr_published := ps\<rparr>) = mem_strs s" "mem_members (s\<lparr>mr_published := ps\<rparr>) = mem_members s"
  by (simp_all add: mem_strs_def mem_members_def fun_eq_iff)

lemma mem_obs_put:
  assumes "e = None \<or> (\<exists>t. e = Some t \<and> mr_clock s < t)"
  shows "mem_strs (mem_put k (RStr v) e s) = (mem_strs s)(k \<mapsto> v)"
    "mem_members (mem_put k (RStr v) e s) = (mem_members s)(k := {})"
    "mem_strs (mem_put k (RSet ms) e s) = (mem_strs s)(k := None)"
    "mem_members (mem_put k (RSet ms) e s) = (mem_members s)(k := set ms)"
  using assms by (auto simp: mem_strs_def mem_members_def mem_find_put fun_eq_iff)

lemma mem_obs_drop:
  "mem_strs (mem_drop k s) = (mem_strs s)(k := None)" "mem_members (mem_drop k s) = (mem_members s)(k := {})"
  by (auto simp: mem_strs_def mem_members_def mem_find_drop fun_eq_iff)

text \<open>A command of the server in memory: what holds of the answered command holds of the call.\<close>

lemma mem_run_cases:
  assumes "mem_run f s = (r, s')"
  obtains fs where "f (s\<lparr>mr_faults := fs\<rparr>) = (r, s')"
    | fs e where "r = Inl (ErrRedis e)" "s' = s\<lparr>mr_faults := fs\<rparr>"
    | fs e where "r = Inl (ErrRedis e)" "s' = snd (f (s\<lparr>mr_faults := fs\<rparr>))"
proof (cases "mr_faults s")
  case Nil
  then have "s = s\<lparr>mr_faults := []\<rparr>" by simp
  with assms Nil that(1) [of "[]"] show thesis by (simp add: mem_run_def)
next
  case (Cons x fs)
  with assms that(1) [of fs] that(2,3) [of _ fs] show thesis
    by (cases x) (auto simp: mem_run_def split: if_splits)
qed

lemma mem_keys_alive: "0 < d \<Longrightarrow> mr_clock s < mr_clock s + (d :: int)"
  by simp

lemma mem_obs_set:
  assumes "mem_find k s = Some (RSet ms, e)"
  shows "mem_strs s k = None" "mem_members s k = set ms"
  using assms by (simp_all add: mem_strs_def mem_members_def)

lemma mem_obs_none:
  assumes "mem_find k s = None"
  shows "mem_strs s k = None" "mem_members s k = {}"
  using assms by (simp_all add: mem_strs_def mem_members_def)

lemma mem_sadd_obs:
  assumes "mem_sadd k m s = (r, s')"
  shows "mem_strs s' = mem_strs s"
    and "mem_members s' = (if answered r then (mem_members s)(k := insert m (mem_members s k)) else mem_members s)"
  using assms
  by (auto simp: mem_sadd_def mem_obs_put mem_obs_none mem_obs_set mem_find_alive fun_upd_idem
      split: option.splits redis_value.splits)

lemma mem_srem_obs:
  assumes "mem_srem k m s = (r, s')"
  shows "mem_strs s' = mem_strs s"
    and "mem_members s' = (if answered r then (mem_members s)(k := mem_members s k - {m}) else mem_members s)"
  using assms
  by (auto simp: mem_srem_def mem_obs_put mem_obs_none mem_obs_set mem_find_alive fun_upd_idem
      split: option.splits redis_value.splits)

lemma mem_run_obs:
  assumes "mem_run f s = (r, s')" and "\<And>s r s'. f s = (r, s') \<Longrightarrow> mem_strs s' = mem_strs s"
    and "\<And>s r s'. f s = (r, s') \<Longrightarrow> mem_members s' = (if answered r then F (mem_members s) else mem_members s)"
  shows "mem_strs s' = mem_strs s"
    and "if answered r then mem_members s' = F (mem_members s)
         else mem_members s' = mem_members s \<or> mem_members s' = F (mem_members s)"
proof -
  have f: "mem_strs (snd (f (s\<lparr>mr_faults := fs\<rparr>))) = mem_strs s"
    "mem_members (snd (f (s\<lparr>mr_faults := fs\<rparr>))) = mem_members s \<or>
     mem_members (snd (f (s\<lparr>mr_faults := fs\<rparr>))) = F (mem_members s)" for fs
    using assms(2,3) [of "s\<lparr>mr_faults := fs\<rparr>"] by (metis mem_obs_other prod.collapse)+
  from assms(1) show "mem_strs s' = mem_strs s"
    by (rule mem_run_cases) (use assms(2) f(1) in \<open>force+\<close>)
  from assms(1) show "if answered r then mem_members s' = F (mem_members s)
      else mem_members s' = mem_members s \<or> mem_members s' = F (mem_members s)"
    by (rule mem_run_cases) (use assms(3) f(2) in \<open>force+\<close>)
qed

lemmas mem_sadd_run = mem_run_obs
  [where f = "mem_sadd k m" and F = "\<lambda>M. M(k := insert m (M k))" for k m, OF _ mem_sadd_obs]
lemmas mem_srem_run = mem_run_obs
  [where f = "mem_srem k m" and F = "\<lambda>M. M(k := M k - {m})" for k m, OF _ mem_srem_obs]

interpretation mem: redis_store mem_redis_cmds mem_strs mem_members
proof
  fix s s' :: mem_redis and k m v ch :: string and d :: int and e :: goerror
  show "mem_members s k = {}" if "mem_strs s k \<noteq> None"
    using that by (auto simp: mem_strs_def mem_members_def split: option.splits redis_value.splits)
  show "mem_strs s' = mem_strs s \<and> mem_members s' = mem_members s"
    if "rd_get mem_redis_cmds k s = (r, s')" for r
    using that by (auto simp: mem_redis_cmds_def elim!: mem_run_cases)
  show "mem_strs s k = Some v" if "rd_get mem_redis_cmds k s = (Inr v, s')"
    using that by (auto simp: mem_redis_cmds_def mem_strs_def elim!: mem_run_cases split: option.splits redis_value.splits)
  show "mem_strs s k = None" if "rd_get mem_redis_cmds k s = (Inl ErrRedisNil, s')"
    using that by (auto simp: mem_redis_cmds_def mem_strs_def wrong_type_def elim!: mem_run_cases
        split: option.splits redis_value.splits)
  show "mem_strs s' = mem_strs s \<and> mem_members s' = mem_members s"
    if "rd_ttl mem_redis_cmds k s = (r, s')" for r
    using that by (auto simp: mem_redis_cmds_def elim!: mem_run_cases)
  show "mem_strs s' = mem_strs s \<and> mem_members s' = mem_members s"
    if "rd_smembers mem_redis_cmds k s = (r, s')" for r
    using that by (auto simp: mem_redis_cmds_def elim!: mem_run_cases)
  show "mem_strs s' = mem_strs s \<and> mem_members s' = mem_members s"
    if "rd_sismember mem_redis_cmds k m s = (r, s')" for r
    using that by (auto simp: mem_redis_cmds_def elim!: mem_run_cases)
  show "mem_strs s' = mem_strs s \<and> mem_members s' = mem_members s"
    if "rd_publish mem_redis_cmds ch m s = (r, s')" for r
    using that by (auto simp: mem_redis_cmds_def elim!: mem_run_cases)
  show "set ms = mem_members s k" if "rd_smembers mem_redis_cmds k s = (Inr ms, s')" for ms
    using that by (auto simp: mem_redis_cmds_def mem_members_def elim!: mem_run_cases
        split: option.splits redis_value.splits)
  show "b \<longleftrightarrow> m \<in> mem_members s k" if "rd_sismember mem_redis_cmds k m s = (Inr b, s')" for b
    using that by (auto simp: mem_redis_cmds_def mem_members_def elim!: mem_run_cases
        split: option.splits redis_value.splits)
  show "mem_strs s' = (mem_strs s)(k \<mapsto> v) \<and> mem_members s' = (mem_members s)(k := {})"
    if "rd_set mem_redis_cmds k v d s = (Inr x, s')" for x
    using that by (auto simp: mem_redis_cmds_def mem_obs_put elim!: mem_run_cases)
  show "mem_strs s' = mem_strs s \<and> mem_members s' = mem_members s \<or>
      mem_strs s' = (mem_strs s)(k \<mapsto> v) \<and> mem_members s' = (mem_members s)(k := {})"
    if "rd_set mem_redis_cmds k v d s = (Inl e, s')"
    using that by (auto simp: mem_redis_cmds_def mem_obs_put elim!: mem_run_cases)
  show "mem_strs s' = (mem_strs s)(k := None) \<and> mem_members s' = (mem_members s)(k := {})"
    if "rd_del mem_redis_cmds k s = (Inr x, s')" for x
    using that by (auto simp: mem_redis_cmds_def mem_obs_drop elim!: mem_run_cases)
  show "mem_strs s' = mem_strs s \<and> mem_members s' = mem_members s \<or>
      mem_strs s' = (mem_strs s)(k := None) \<and> mem_members s' = (mem_members s)(k := {})"
    if "rd_del mem_redis_cmds k s = (Inl e, s')"
    using that by (auto simp: mem_redis_cmds_def mem_obs_drop elim!: mem_run_cases)
  show "mem_strs s' = mem_strs s \<and> mem_members s' = (mem_members s)(k := insert m (mem_members s k))"
    if "rd_sadd mem_redis_cmds k m s = (Inr x, s')" for x
    using mem_sadd_run [of k m s "Inr x" s'] that
    by (simp add: mem_redis_cmds_def)
  show "mem_strs s' = mem_strs s \<and> (mem_members s' = mem_members s \<or>
      mem_members s' = (mem_members s)(k := insert m (mem_members s k)))"
    if "rd_sadd mem_redis_cmds k m s = (Inl e, s')"
    using mem_sadd_run [of k m s "Inl e" s'] that
    by (simp add: mem_redis_cmds_def)
  show "mem_strs s' = mem_strs s \<and> mem_members s' = (mem_members s)(k := mem_members s k - {m})"
    if "rd_srem mem_redis_cmds k m s = (Inr x, s')" for x
    using mem_srem_run [of k m s "Inr x" s'] that
    by (simp add: mem_redis_cmds_def)
  show "mem_strs s' = mem_strs s \<and> (mem_members s' = mem_members s \<or>
      mem_members s' = (mem_members s)(k := mem_members s k - {m}))"
    if "rd_srem mem_redis_cmds k m s = (Inl e, s')"
    using mem_srem_run [of k m s "Inl e" s'] that
    by (simp add: mem_redis_cmds_def)
qed

end
