(* ===== verification/Session_Manager.thy ===== *)
theory Session_Manager
  imports Redis_Store Go_Lib
begin

text \<open>
  Package \<^verbatim>\<open>core/session\<close>: a session id is a Redis key that holds the encoded user and
  expires; the set under a user id lists the session ids of the user. The gob codec and the
  value of \<^verbatim>\<open>ksuid.New()\<close> are arguments. The interface \<^verbatim>\<open>session.Session\<close> is a record of its
  methods, with a locale for what its clients rely on; \<open>session_manager\<close> is the
  implementation \<^verbatim>\<open>session.Manager\<close>.
\<close>

section \<open>The encoded user\<close>

record sess_user =
  su_id :: string

lemma sess_user_eta [simp]: "\<lparr>su_id = su_id u\<rparr> = u"
  by (cases u) simp

record gob_codec =
  gob_enc :: "sess_user \<Rightarrow> byte list res"
  gob_dec :: "byte list \<Rightarrow> sess_user res"

definition su_EncodeBinary :: "gob_codec \<Rightarrow> sess_user \<Rightarrow> string res" where
  "su_EncodeBinary gob u = (case gob_enc gob u of Inl e \<Rightarrow> Inl e | Inr bs \<Rightarrow> Inr (b64_encode bs))"

definition su_DecodeBinary :: "gob_codec \<Rightarrow> string \<Rightarrow> sess_user res" where
  "su_DecodeBinary gob str =
     (case b64_decode str of None \<Rightarrow> Inl (ErrNew ''illegal base64 data'') | Some p \<Rightarrow> gob_dec gob p)"

definition session_cookie_name :: string where "session_cookie_name = ''__unpaperSID''"
definition session_header_name :: string where "session_header_name = ''x-unpaper-sid''"
definition session_lifetime :: int where "session_lifetime = seconds (24 * 60 * 60)"
definition session_ttl_refresh :: int where "session_ttl_refresh = seconds 30"

section \<open>The manager\<close>

definition sm_SetNew ::
    "gob_codec \<Rightarrow> 'r redis \<Rightarrow> string \<Rightarrow> sess_user \<Rightarrow> int \<Rightarrow> 'r \<Rightarrow> string res \<times> 'r" where
  "sm_SetNew gob R sid u expiry s =
     check_err (su_EncodeBinary gob u, s) same_err (\<lambda>encoded s.
     check_err (rd_sadd R (su_id u) sid s) same_err (\<lambda>_ s.
     check_err (rd_set R sid encoded expiry s) same_err (\<lambda>_ s.
       (Inr sid, s))))"

definition sm_GetUserBySID :: "gob_codec \<Rightarrow> 'r redis \<Rightarrow> string \<Rightarrow> 'r \<Rightarrow> sess_user res \<times> 'r" where
  "sm_GetUserBySID gob R sid s =
     check_err (rd_get R sid s) same_err (\<lambda>encoded s.
     check_err (su_DecodeBinary gob encoded, s) same_err (\<lambda>u s. (Inr u, s)))"

definition sm_HasSession :: "'r redis \<Rightarrow> string \<Rightarrow> 'r \<Rightarrow> bool res \<times> 'r" where
  "sm_HasSession R sid s =
     (case rd_get R sid s of
        (Inl e, s') \<Rightarrow> if e = ErrRedisNil then (Inr False, s') else (Inl e, s')
      | (Inr _, s') \<Rightarrow> (Inr True, s'))"

fun sync_loop :: "'r redis \<Rightarrow> string \<Rightarrow> string list \<Rightarrow> 'r \<Rightarrow> unit res \<times> 'r" where
  "sync_loop R user_id [] s = (Inr (), s)"
| "sync_loop R user_id (sid # sids) s =
     (case rd_get R sid s of
        (Inl e, s') \<Rightarrow>
          if e = ErrRedisNil then sync_loop R user_id sids (snd (rd_srem R user_id sid s'))
          else (Inl e, s')
      | (Inr _, s') \<Rightarrow> sync_loop R user_id sids s')"

definition sm_Sync :: "'r redis \<Rightarrow> string \<Rightarrow> 'r \<Rightarrow> unit res \<times> 'r" where
  "sm_Sync R user_id s =
     check_err (rd_smembers R user_id s) same_err (\<lambda>sids s. sync_loop R user_id sids s)"

definition sm_Delete :: "gob_codec \<Rightarrow> 'r redis \<Rightarrow> string \<Rightarrow> 'r \<Rightarrow> unit res \<times> 'r" where
  "sm_Delete gob R sid s =
     check_err (sm_GetUserBySID gob R sid s) same_err (\<lambda>u s.
     check_err (rd_del R sid s) same_err (\<lambda>_ s.
       sm_Sync R (su_id u) s))"

definition sm_RenewSession ::
    "gob_codec \<Rightarrow> 'r redis \<Rightarrow> string \<Rightarrow> string \<Rightarrow> int \<Rightarrow> 'r \<Rightarrow> string res \<times> 'r" where
  "sm_RenewSession gob R new_sid sid expiry s =
     check_err (sm_GetUserBySID gob R sid s) same_err (\<lambda>u s.
     check_err (rd_del R sid s) same_err (\<lambda>_ s.
     check_err (rd_srem R (su_id u) sid s) same_err (\<lambda>_ s.
       sm_SetNew gob R new_sid \<lparr>su_id = su_id u\<rparr> expiry s)))"

section \<open>The interface\<close>

record 's session_iface =
  si_SetNew :: "sess_user \<Rightarrow> int \<Rightarrow> 's \<Rightarrow> string res \<times> 's"
  si_Delete :: "string \<Rightarrow> 's \<Rightarrow> unit res \<times> 's"
  si_GetUserBySID :: "string \<Rightarrow> 's \<Rightarrow> sess_user res \<times> 's"
  si_Sync :: "string \<Rightarrow> 's \<Rightarrow> unit res \<times> 's"
  si_RenewSession :: "string \<Rightarrow> int \<Rightarrow> 's \<Rightarrow> string res \<times> 's"
  si_HasSession :: "string \<Rightarrow> 's \<Rightarrow> bool res \<times> 's"

definition session_manager :: "gob_codec \<Rightarrow> 'r redis \<Rightarrow> string \<Rightarrow> 'r session_iface" where
  "session_manager gob R ksuid = \<lparr>
     si_SetNew = sm_SetNew gob R ksuid, si_Delete = sm_Delete gob R,
     si_GetUserBySID = sm_GetUserBySID gob R, si_Sync = sm_Sync R,
     si_RenewSession = sm_RenewSession gob R ksuid, si_HasSession = sm_HasSession R\<rparr>"

text \<open>
  What a client of the interface sees: the user each live session belongs to. \<open>fresh\<close> is the
  id the next new session will have.
\<close>

locale session_store =
  fixes SM :: "'s session_iface" and session_of :: "'s \<Rightarrow> string \<Rightarrow> sess_user option" and fresh :: string
  assumes has_frame: "si_HasSession SM sid s = (r, s') \<Longrightarrow> session_of s' = session_of s"
    and has_no: "si_HasSession SM sid s = (Inr False, s') \<Longrightarrow> session_of s sid = None"
    and get_user_frame: "si_GetUserBySID SM sid s = (r1, s') \<Longrightarrow> session_of s' = session_of s"
    and get_user_ok: "si_GetUserBySID SM sid s = (Inr u, s') \<Longrightarrow> session_of s sid = Some u"
    and set_new_ok: "si_SetNew SM u d s = (Inr n, s') \<Longrightarrow>
      n = fresh \<and> session_of s' = (session_of s)(fresh \<mapsto> u)"
    and renew_ok: "si_RenewSession SM sid d s = (Inr n, s') \<Longrightarrow>
      n = fresh \<and> (\<exists>u. session_of s sid = Some u \<and>
        session_of s' = (session_of s)(sid := None, fresh \<mapsto> \<lparr>su_id = su_id u\<rparr>))"
    and delete_ok: "si_Delete SM sid s = (Inr x, s') \<Longrightarrow> session_of s' = (session_of s)(sid := None)"
begin

lemma new_session_is_found:
  "si_SetNew SM u d s = (Inr n, s') \<Longrightarrow> si_GetUserBySID SM n s' = (Inr v, s'') \<Longrightarrow> v = u"
  using set_new_ok get_user_ok by fastforce

lemma renewed_session:
  assumes "si_RenewSession SM sid d s = (Inr n, s')" and "sid \<noteq> fresh"
  shows "session_of s' sid = None" and "session_of s' n = session_of s sid" and "session_of s sid \<noteq> None"
  using renew_ok [OF assms(1)] assms(2) by auto

lemma deleted_session_is_gone:
  "si_Delete SM sid s = (Inr x, s') \<Longrightarrow> si_GetUserBySID SM sid s' \<noteq> (Inr u, s'')"
  using delete_ok get_user_ok by fastforce

end

section \<open>The manager keeps the promises of the interface\<close>

definition session_user :: "gob_codec \<Rightarrow> ('r \<Rightarrow> string \<Rightarrow> string option) \<Rightarrow> 'r \<Rightarrow> string \<Rightarrow> sess_user option" where
  "session_user gob strs s sid = (case strs s sid of
     None \<Rightarrow> None
   | Some enc \<Rightarrow> (case su_DecodeBinary gob enc of Inl _ \<Rightarrow> None | Inr u \<Rightarrow> Some u))"

text \<open>Every live session is in the set of its user.\<close>

definition sessions_indexed ::
    "gob_codec \<Rightarrow> ('r \<Rightarrow> string \<Rightarrow> string option) \<Rightarrow> ('r \<Rightarrow> string \<Rightarrow> string set) \<Rightarrow> 'r \<Rightarrow> bool" where
  "sessions_indexed gob strs members s \<longleftrightarrow>
     (\<forall>sid u. session_user gob strs s sid = Some u \<longrightarrow> sid \<in> members s (su_id u))"

locale session_redis = redis_store R strs members
  for R :: "'r redis" and strs :: "'r \<Rightarrow> string \<Rightarrow> string option" and members :: "'r \<Rightarrow> string \<Rightarrow> string set" +
  fixes gob :: gob_codec
  assumes gob_round_trip: "gob_enc gob u = Inr bs \<Longrightarrow> gob_dec gob bs = Inr u"
begin

abbreviation user_of :: "'r \<Rightarrow> string \<Rightarrow> sess_user option" where
  "user_of \<equiv> session_user gob strs"

abbreviation indexed :: "'r \<Rightarrow> bool" where
  "indexed \<equiv> sessions_indexed gob strs members"

lemma user_of_cong: "strs s' = strs s \<Longrightarrow> user_of s' = user_of s"
  by (simp add: session_user_def fun_eq_iff)

lemma user_of_del: "strs s' = (strs s)(sid := None) \<Longrightarrow> user_of s' = (user_of s)(sid := None)"
  by (simp add: session_user_def fun_eq_iff)

lemma user_of_set:
  assumes "su_EncodeBinary gob u = Inr enc" and "strs s' = (strs s)(sid \<mapsto> enc)"
  shows "user_of s' = (user_of s)(sid \<mapsto> u)"
proof -
  from assms(1) obtain bs where "gob_enc gob u = Inr bs" "enc = b64_encode bs"
    by (auto simp: su_EncodeBinary_def split: sum.splits)
  then have "su_DecodeBinary gob enc = Inr u"
    by (simp add: su_DecodeBinary_def gob_round_trip)
  with assms(2) show ?thesis by (simp add: session_user_def fun_eq_iff)
qed

lemma get_user_frame': "sm_GetUserBySID gob R sid s = (r, s') \<Longrightarrow> strs s' = strs s \<and> members s' = members s"
  by (cases "rd_get R sid s"; cases "fst (rd_get R sid s)"; cases "su_DecodeBinary gob (projr (fst (rd_get R sid s)))")
     (auto simp: sm_GetUserBySID_def dest: get_frame)

lemma get_user_Inr: "sm_GetUserBySID gob R sid s = (Inr u, s') \<Longrightarrow> user_of s sid = Some u"
  by (auto simp: sm_GetUserBySID_def session_user_def ok_simps dest!: get_ok)

lemma has_session_frame: "sm_HasSession R sid s = (r, s') \<Longrightarrow> strs s' = strs s"
  by (cases "rd_get R sid s") (auto simp: sm_HasSession_def dest: get_frame split: sum.splits if_splits)

lemma has_session_False: "sm_HasSession R sid s = (Inr False, s') \<Longrightarrow> strs s sid = None"
  by (cases "rd_get R sid s") (auto simp: sm_HasSession_def dest: get_nil split: sum.splits if_splits)

lemma srem_strs: "rd_srem R k m s = (r, s') \<Longrightarrow> strs s' = strs s"
  by (cases r) (auto dest: srem_ok srem_err)

lemma sync_loop_strs: "sync_loop R uid sids s = (r, s') \<Longrightarrow> strs s' = strs s"
proof (induction sids arbitrary: s)
  case (Cons sid sids)
  obtain g t where g: "rd_get R sid s = (g, t)" by fastforce
  obtain x t' where rem: "rd_srem R uid sid t = (x, t')" by fastforce
  from get_frame [OF g] srem_strs [OF rem] have t: "strs t = strs s" "strs t' = strs s" by simp_all
  from Cons.prems g rem t show ?case
    using Cons.IH [of t] Cons.IH [of t'] by (auto split: sum.splits if_splits)
qed simp

lemma sync_strs: "sm_Sync R uid s = (r, s') \<Longrightarrow> strs s' = strs s"
proof -
  assume *: "sm_Sync R uid s = (r, s')"
  obtain m t where m: "rd_smembers R uid s = (m, t)" by fastforce
  with * smembers_frame [OF m] show ?thesis
    by (cases m) (auto simp: sm_Sync_def dest: sync_loop_strs)
qed

lemma set_new_Inr:
  assumes "sm_SetNew gob R sid u d s = (Inr n, s')"
  shows "n = sid" and "user_of s' = (user_of s)(sid \<mapsto> u)"
    and "members s' = (members s)(su_id u := insert sid (members s (su_id u)), sid := {})"
    and "x \<noteq> sid \<Longrightarrow> strs s' x = strs s x"
proof -
  from assms obtain enc t a y where enc: "su_EncodeBinary gob u = Inr enc"
    and add: "rd_sadd R (su_id u) sid s = (Inr a, t)" and st: "rd_set R sid enc d t = (Inr y, s')"
    and "n = sid"
    by (auto simp: sm_SetNew_def ok_simps)
  have t: "strs t = strs s" "members t = (members s)(su_id u := insert sid (members s (su_id u)))"
    using sadd_ok [OF add] by (rule conjunct1, rule conjunct2)
  have s': "strs s' = (strs t)(sid \<mapsto> enc)" "members s' = (members t)(sid := {})"
    using set_ok [OF st] by (rule conjunct1, rule conjunct2)
  show "n = sid" by fact
  show "user_of s' = (user_of s)(sid \<mapsto> u)"
    by (rule user_of_set [OF enc]) (simp only: s' t)
  show "members s' = (members s)(su_id u := insert sid (members s (su_id u)), sid := {})"
    by (simp only: s' t)
  show "strs s' x = strs s x" if "x \<noteq> sid" using that by (simp add: s' t)
qed

lemma renew_Inr:
  assumes "sm_RenewSession gob R new sid d s = (Inr n, s')"
  obtains u where "n = new" "user_of s sid = Some u"
    "user_of s' = (user_of s)(sid := None, new \<mapsto> \<lparr>su_id = su_id u\<rparr>)"
    "members s' = (members s)(sid := {}, su_id u := insert new (((members s)(sid := {})) (su_id u) - {sid}), new := {})"
    "sid \<noteq> new \<Longrightarrow> strs s' sid = None"
proof -
  from assms obtain u t t1 t2 x y where get: "sm_GetUserBySID gob R sid s = (Inr u, t)"
    and del: "rd_del R sid t = (Inr x, t1)" and rem: "rd_srem R (su_id u) sid t1 = (Inr y, t2)"
    and new: "sm_SetNew gob R new \<lparr>su_id = su_id u\<rparr> d t2 = (Inr n, s')"
    by (auto simp: sm_RenewSession_def ok_simps)
  note get' = get_user_frame' [OF get] and del' = del_ok [OF del] and rem' = srem_ok [OF rem]
  note new' = set_new_Inr [OF new, unfolded sess_user.simps]
  have u: "user_of t = user_of s" "user_of t1 = (user_of t)(sid := None)" "user_of t2 = user_of t1"
    using user_of_cong [OF conjunct1 [OF get']] user_of_del [OF conjunct1 [OF del']]
      user_of_cong [OF conjunct1 [OF rem']] by simp_all
  note m = conjunct2 [OF get'] conjunct2 [OF del'] conjunct2 [OF rem']
  show thesis
  proof (rule that)
    show "n = new" "user_of s sid = Some u" by (fact new'(1)) (rule get_user_Inr [OF get])
    show "user_of s' = (user_of s)(sid := None, new \<mapsto> \<lparr>su_id = su_id u\<rparr>)"
      by (simp only: new'(2) u)
    show "members s' = (members s)(sid := {},
        su_id u := insert new (((members s)(sid := {})) (su_id u) - {sid}), new := {})"
      by (simp only: new'(3) m fun_upd_same fun_upd_upd)
    show "strs s' sid = None" if "sid \<noteq> new"
      using new'(4) [OF that] rem' del' by simp
  qed
qed

lemma delete_Inr:
  assumes "sm_Delete gob R sid s = (Inr x, s')"
  shows "user_of s' = (user_of s)(sid := None)"
proof -
  from assms obtain u t t1 y where get: "sm_GetUserBySID gob R sid s = (Inr u, t)"
    and del: "rd_del R sid t = (Inr y, t1)" and sync: "sm_Sync R (su_id u) t1 = (Inr x, s')"
    by (auto simp: sm_Delete_def ok_simps)
  show ?thesis
    by (simp only: user_of_cong [OF sync_strs [OF sync]] user_of_del [OF conjunct1 [OF del_ok [OF del]]]
        user_of_cong [OF conjunct1 [OF get_user_frame' [OF get]]])
qed

end

sublocale session_redis \<subseteq> manager: session_store "session_manager gob R ksuid" "session_user gob strs" ksuid
  for ksuid
proof
  fix s s' sid u d x n and r :: "bool res" and r1 :: "sess_user res"
  show "user_of s' = user_of s" if "si_HasSession (session_manager gob R ksuid) sid s = (r, s')"
    using that by (intro user_of_cong has_session_frame) (simp add: session_manager_def)
  show "user_of s sid = None" if "si_HasSession (session_manager gob R ksuid) sid s = (Inr False, s')"
    using that by (auto simp: session_manager_def session_user_def dest: has_session_False)
  show "user_of s' = user_of s" if "si_GetUserBySID (session_manager gob R ksuid) sid s = (r1, s')"
    using that by (intro user_of_cong conjunct1 [OF get_user_frame']) (simp add: session_manager_def)
  show "user_of s sid = Some u" if "si_GetUserBySID (session_manager gob R ksuid) sid s = (Inr u, s')"
    using that by (simp add: session_manager_def get_user_Inr)
  show "n = ksuid \<and> user_of s' = (user_of s)(ksuid \<mapsto> u)"
    if "si_SetNew (session_manager gob R ksuid) u d s = (Inr n, s')"
    using that set_new_Inr by (simp add: session_manager_def)
  show "n = ksuid \<and> (\<exists>u. user_of s sid = Some u \<and>
      user_of s' = (user_of s)(sid := None, ksuid \<mapsto> \<lparr>su_id = su_id u\<rparr>))"
    if "si_RenewSession (session_manager gob R ksuid) sid d s = (Inr n, s')"
    using that by (auto simp: session_manager_def elim: renew_Inr)
  show "user_of s' = (user_of s)(sid := None)"
    if "si_Delete (session_manager gob R ksuid) sid s = (Inr x, s')"
    using that delete_Inr by (simp add: session_manager_def)
qed

section \<open>The index of sessions under any failures\<close>

context session_redis
begin

lemma indexed_step:
  assumes "indexed s" and "\<And>x. user_of s' x = user_of s x \<or> user_of s' x = None"
    and "\<And>k x. x \<in> members s k \<Longrightarrow> user_of s' x \<noteq> None \<Longrightarrow> x \<in> members s' k"
  shows "indexed s'"
  using assms unfolding sessions_indexed_def by (metis option.distinct(1))

lemma indexed_same: "indexed s \<Longrightarrow> strs s' = strs s \<and> members s' = members s \<Longrightarrow> indexed s'"
  by (simp add: sessions_indexed_def session_user_def)

lemma user_members: "user_of s sid = Some u \<Longrightarrow> members s sid = {}"
  by (rule one_type) (auto simp: session_user_def split: option.splits)

lemma indexed_srem:
  assumes "indexed s" and "user_of s sid = None" and "rd_srem R k sid s = (r, s')"
  shows "indexed s'"
proof (rule indexed_step [OF assms(1)])
  have "strs s' = strs s" using assms(3) by (rule srem_strs)
  then have same: "user_of s' = user_of s" by (rule user_of_cong)
  then show "user_of s' x = user_of s x \<or> user_of s' x = None" for x by simp
  have mem: "members s' = members s \<or> members s' = (members s)(k := members s k - {sid})"
    using srem_ok [of k sid s] srem_err [of k sid s] assms(3) by (cases r) auto
  show "x \<in> members s' j" if "x \<in> members s j" "user_of s' x \<noteq> None" for j x
    using mem that same assms(2) by auto
qed

lemma indexed_del:
  assumes "indexed s" and "user_of s sid = Some u" and "rd_del R sid s = (r, s')"
  shows "indexed s'" and "members s' = members s" and "answered r \<Longrightarrow> user_of s' sid = None"
    and "user_of s' = user_of s \<or> user_of s' = (user_of s)(sid := None)"
proof -
  have upd: "(members s)(sid := {}) = members s"
    using user_members [OF assms(2)] by (simp add: fun_upd_idem)
  show mem: "members s' = members s"
    using del_ok [of sid s] del_err [of sid s] assms(3) upd by (cases r) auto
  show user: "user_of s' = user_of s \<or> user_of s' = (user_of s)(sid := None)"
    using del_ok [of sid s] del_err [of sid s] assms(3) user_of_cong [of s' s] user_of_del [of s' s sid]
    by (cases r) auto
  show "user_of s' sid = None" if "answered r"
    using that assms(3) user_of_del [OF conjunct1 [OF del_ok]] by (cases r) fastforce+
  show "indexed s'"
    using mem user by (intro indexed_step [OF assms(1)]) (auto split: if_splits)
qed

lemma indexed_SetNew:
  assumes ix: "indexed s" and "members s sid = {}" and "sid \<noteq> su_id u"
    and "sm_SetNew gob R sid u d s = (r, s')"
  shows "indexed s'"
proof (cases "su_EncodeBinary gob u")
  case (Inl e)
  with assms show ?thesis by (simp add: sm_SetNew_def)
next
  case (Inr enc)
  obtain x t where add: "rd_sadd R (su_id u) sid s = (x, t)" by fastforce
  have t: "strs t = strs s" "members t = members s \<or> members t = (members s)(su_id u := insert sid (members s (su_id u)))"
    using add by (cases x; blast dest: sadd_ok sadd_err)+
  have "x \<in> members t k" if "x \<in> members s k" for x k
    using t(2) that by (cases "k = su_id u") auto
  then have "indexed t"
    by (intro indexed_step [OF ix]) (simp_all add: user_of_cong [OF t(1)])
  show ?thesis
  proof (cases x)
    case (Inl e)
    with assms(4) Inr add \<open>indexed t\<close> show ?thesis by (simp add: sm_SetNew_def)
  next
    case (Inr ok)
    then have listed: "sid \<in> members t (su_id u)"
      using sadd_ok [of "su_id u" sid s ok t] add by simp
    have empty: "members t sid = {}"
      using t(2) assms(2,3) by auto
    obtain y t' where st: "rd_set R sid enc d t = (y, t')" by fastforce
    have "s' = t'"
      using assms(4) \<open>su_EncodeBinary gob u = Inr enc\<close> add Inr st by (cases y) (simp_all add: sm_SetNew_def)
    moreover have "strs t' = strs t \<and> members t' = members t \<or>
        strs t' = (strs t)(sid \<mapsto> enc) \<and> members t' = members t"
      using set_ok [of sid enc d t] set_err [of sid enc d t] st fun_upd_idem [of "members t" sid, OF empty]
      by (cases y) auto
    moreover have "indexed t'" if "strs t' = (strs t)(sid \<mapsto> enc)" "members t' = members t"
      using \<open>indexed t\<close> listed that(2) user_of_set [OF \<open>su_EncodeBinary gob u = Inr enc\<close> that(1)]
      by (auto simp: sessions_indexed_def)
    ultimately show ?thesis using indexed_same [OF \<open>indexed t\<close>] by blast
  qed
qed

lemma indexed_sync_loop:
  assumes "indexed s" and "sync_loop R uid sids s = (r, s')"
  shows "indexed s'"
  using assms
proof (induction sids arbitrary: s)
  case (Cons sid sids)
  obtain g t where g: "rd_get R sid s = (g, t)" by fastforce
  have t: "indexed t" using indexed_same [OF Cons.prems(1) get_frame [OF g]] .
  show ?case
  proof (cases g)
    case (Inr v)
    with Cons.IH [OF t] Cons.prems(2) g show ?thesis by simp
  next
    case (Inl e)
    show ?thesis
    proof (cases "e = ErrRedisNil")
      case True
      obtain x t' where rem: "rd_srem R uid sid t = (x, t')" by fastforce
      have "user_of t sid = None"
        using get_nil [of sid s t] get_frame [OF g] g Inl True by (simp add: session_user_def)
      from indexed_srem [OF t this rem] Cons.IH [of t'] Cons.prems(2) g Inl True rem show ?thesis by simp
    next
      case False
      with Cons.prems(2) g Inl t show ?thesis by simp
    qed
  qed
qed simp

lemma indexed_Sync: "indexed s \<Longrightarrow> sm_Sync R uid s = (r, s') \<Longrightarrow> indexed s'"
proof -
  assume "indexed s" and *: "sm_Sync R uid s = (r, s')"
  obtain m t where m: "rd_smembers R uid s = (m, t)" by fastforce
  have "indexed t" using indexed_same [OF \<open>indexed s\<close> smembers_frame [OF m]] .
  with * m show ?thesis by (cases m) (auto simp: sm_Sync_def intro: indexed_sync_loop)
qed

lemma indexed_Delete:
  assumes "indexed s" and "sm_Delete gob R sid s = (r, s')"
  shows "indexed s'"
proof -
  obtain g t where g: "sm_GetUserBySID gob R sid s = (g, t)" by fastforce
  have t: "indexed t" using indexed_same [OF assms(1) get_user_frame' [OF g]] .
  show ?thesis
  proof (cases g)
    case (Inr u)
    then have u: "user_of t sid = Some u"
      using get_user_Inr [of sid s u t] g user_of_cong [OF conjunct1 [OF get_user_frame' [OF g]]] by simp
    obtain x t' where d: "rd_del R sid t = (x, t')" by fastforce
    from indexed_del(1) [OF t u d] indexed_Sync [of t' "su_id u"] assms(2) g Inr d show ?thesis
      by (cases x) (auto simp: sm_Delete_def)
  qed (use assms(2) g t in \<open>simp add: sm_Delete_def\<close>)
qed

lemma indexed_RenewSession:
  assumes "indexed s" and "members s new = {}" and "\<And>u. user_of s sid = Some u \<Longrightarrow> new \<noteq> su_id u"
    and "sm_RenewSession gob R new sid d s = (r, s')"
  shows "indexed s'"
proof -
  obtain g t where g: "sm_GetUserBySID gob R sid s = (g, t)" by fastforce
  note frame = get_user_frame' [OF g]
  have t: "indexed t" using indexed_same [OF assms(1) frame] .
  show ?thesis
  proof (cases g)
    case (Inr u)
    then have us: "user_of s sid = Some u" using get_user_Inr g by blast
    then have u: "user_of t sid = Some u" using user_of_cong [OF conjunct1 [OF frame]] by simp
    obtain x t' where d: "rd_del R sid t = (x, t')" by fastforce
    note del = indexed_del [OF t u d]
    show ?thesis
    proof (cases x)
      case x: (Inr ok)
      obtain y t'' where rem: "rd_srem R (su_id u) sid t' = (y, t'')" by fastforce
      have t'': "indexed t''"
        using indexed_srem [OF del(1) _ rem] del(3) x by simp
      have mem: "members t'' new = {}"
        using srem_ok [of "su_id u" sid t'] srem_err [of "su_id u" sid t'] rem del(2) frame assms(2)
        by (cases y) (auto split: if_splits)
      show ?thesis
      proof (cases y)
        case (Inr ok')
        with assms(4) g \<open>g = Inr u\<close> d x rem
        have "sm_SetNew gob R new \<lparr>su_id = su_id u\<rparr> d t'' = (r, s')" by (simp add: sm_RenewSession_def)
        with indexed_SetNew [OF t'' mem, of "\<lparr>su_id = su_id u\<rparr>"] assms(3) [OF us] show ?thesis by simp
      qed (use assms(4) g \<open>g = Inr u\<close> d x rem t'' in \<open>simp add: sm_RenewSession_def\<close>)
    qed (use assms(4) g \<open>g = Inr u\<close> d del(1) in \<open>simp add: sm_RenewSession_def\<close>)
  qed (use assms(4) g t in \<open>simp add: sm_RenewSession_def\<close>)
qed

end

section \<open>The server in memory and a codec for the examples\<close>

definition sample_gob :: gob_codec where
  "sample_gob = \<lparr>
     gob_enc = (\<lambda>u. Inr (map (\<lambda>c. word_of_nat (of_char c)) (su_id u))),
     gob_dec = (\<lambda>bs. Inr \<lparr>su_id = map (\<lambda>b. char_of (unat b)) bs\<rparr>)\<rparr>"

lemma sample_gob_round_trip: "gob_enc sample_gob u = Inr bs \<Longrightarrow> gob_dec sample_gob bs = Inr u"
proof -
  have "char_of (unat (word_of_nat (of_char c) :: byte)) = c" for c :: char
    by (simp add: unat_of_nat)
  then show "gob_enc sample_gob u = Inr bs \<Longrightarrow> gob_dec sample_gob bs = Inr u"
    by (auto simp: sample_gob_def comp_def)
qed

lemma mem_session_redis: "session_redis mem_redis_cmds mem_strs mem_members sample_gob"
  by unfold_locales (rule sample_gob_round_trip)

interpretation mem_sm: session_redis mem_redis_cmds mem_strs mem_members sample_gob
  by (rule mem_session_redis)

definition sample_session :: mem_redis where
  "sample_session = snd (sm_SetNew sample_gob mem_redis_cmds ''sid1'' \<lparr>su_id = ''1''\<rparr> session_lifetime mem_empty)"

section \<open>Properties of the manager\<close>

text \<open>
  C8: the session manager implements a map from session ids to users: a new session maps its id
  to the user, renewing moves the user from the old id to the new one, deleting removes the id,
  and a lookup that answers with a user answers with the one the map has.
\<close>

theorem session_manager_refines_map:
  assumes "session_redis R strs members gob"
  shows "(\<forall>u d n s s'. sm_SetNew gob R k u d s = (Inr n, s') \<longrightarrow>
        n = k \<and> session_user gob strs s' = (session_user gob strs s)(k \<mapsto> u)) \<and>
     (\<forall>sid d n s s'. sm_RenewSession gob R k sid d s = (Inr n, s') \<longrightarrow>
        n = k \<and> (\<exists>u. session_user gob strs s sid = Some u \<and>
          session_user gob strs s' = (session_user gob strs s)(sid := None, k \<mapsto> u))) \<and>
     (\<forall>sid x s s'. sm_Delete gob R sid s = (Inr x, s') \<longrightarrow>
        session_user gob strs s' = (session_user gob strs s)(sid := None)) \<and>
     (\<forall>sid u s s'. sm_GetUserBySID gob R sid s = (Inr u, s') \<longrightarrow>
        session_user gob strs s sid = Some u \<and> session_user gob strs s' = session_user gob strs s)"
proof (intro conjI allI impI)
  fix u :: sess_user and d n s s'
  assume "sm_SetNew gob R k u d s = (Inr n, s')"
  then show "n = k" "session_user gob strs s' = (session_user gob strs s)(k \<mapsto> u)"
    by (rule session_redis.set_new_Inr(1) [OF assms], rule session_redis.set_new_Inr(2) [OF assms])
next
  fix sid d n s s'
  assume renew: "sm_RenewSession gob R k sid d s = (Inr n, s')"
  obtain u where "n = k" "session_user gob strs s sid = Some u"
    "session_user gob strs s' = (session_user gob strs s)(sid := None, k \<mapsto> u)"
    by (rule session_redis.renew_Inr [OF assms renew]) simp
  then show "n = k" "\<exists>u. session_user gob strs s sid = Some u \<and>
      session_user gob strs s' = (session_user gob strs s)(sid := None, k \<mapsto> u)"
    by simp_all
next
  fix sid x s s'
  assume "sm_Delete gob R sid s = (Inr x, s')"
  then show "session_user gob strs s' = (session_user gob strs s)(sid := None)"
    by (rule session_redis.delete_Inr [OF assms])
next
  fix sid u s s'
  assume get: "sm_GetUserBySID gob R sid s = (Inr u, s')"
  then show "session_user gob strs s sid = Some u"
    by (rule session_redis.get_user_Inr [OF assms])
  show "session_user gob strs s' = session_user gob strs s"
    using session_redis.get_user_frame' [OF assms get] by (simp add: session_user_def fun_eq_iff)
qed

lemma sample_session_set:
  "sm_SetNew sample_gob mem_redis_cmds ''sid1'' \<lparr>su_id = ''1''\<rparr> session_lifetime mem_empty =
     (Inr ''sid1'', sample_session)"
  "mem_strs sample_session ''1'' = None" "mr_faults sample_session = []"
  by (simp_all add: sample_session_def, code_simp+)

lemma session_manager_refines_map_witness:
  "session_user sample_gob mem_strs sample_session ''sid1'' = Some \<lparr>su_id = ''1''\<rparr>"
  using session_manager_refines_map [OF mem_session_redis, of "''sid1''"] sample_session_set(1) by auto

text \<open>
  After a session was renewed its old id is dead: no lookup finds a user under it and no check
  reports it; the user's own list of sessions names the new id and not the old one.
\<close>

theorem renewed_session_is_dead:
  assumes "session_redis R strs members gob" and "sid \<noteq> new" and "new \<noteq> user_id" and "sid \<noteq> user_id"
    and user: "session_user gob strs s sid = Some \<lparr>su_id = user_id\<rparr>"
    and renew: "sm_RenewSession gob R new sid d s = (Inr n, s')"
  shows "(\<forall>u s''. sm_GetUserBySID gob R sid s' \<noteq> (Inr u, s'')) \<and>
    (\<forall>s''. sm_HasSession R sid s' \<noteq> (Inr True, s'')) \<and>
    session_user gob strs s' new = Some \<lparr>su_id = user_id\<rparr> \<and>
    members s' user_id = insert new (members s user_id - {sid})"
proof -
  obtain u where u: "session_user gob strs s sid = Some u"
    and s': "session_user gob strs s' = (session_user gob strs s)(sid := None, new \<mapsto> u)"
    and m: "members s' = (members s)(sid := {}, su_id u := insert new (((members s)(sid := {})) (su_id u) - {sid}), new := {})"
    and gone: "strs s' sid = None"
    by (rule session_redis.renew_Inr [OF assms(1) renew]) (use assms(2) in simp)
  have store: "redis_store R strs members" using assms(1) by (simp add: session_redis_def)
  have "sm_GetUserBySID gob R sid s' \<noteq> (Inr u, s'')" for u s''
    using session_redis.get_user_Inr [OF assms(1), of sid s' u s''] s' assms(2) by auto
  moreover have "sm_HasSession R sid s' \<noteq> (Inr True, s'')" for s''
  proof
    assume "sm_HasSession R sid s' = (Inr True, s'')"
    then obtain v t where "rd_get R sid s' = (Inr v, t)"
      by (cases "rd_get R sid s'") (auto simp: sm_HasSession_def split: sum.splits if_splits)
    with redis_store.get_ok [OF store] gone show False by fastforce
  qed
  moreover have "su_id u = user_id" "u = \<lparr>su_id = user_id\<rparr>" using u user by auto
  ultimately show ?thesis using s' m assms(2-4) by simp
qed

lemma renewed_session_is_dead_witness:
  "\<forall>s. sm_HasSession mem_redis_cmds ''sid1''
     (snd (sm_RenewSession sample_gob mem_redis_cmds ''sid2'' ''sid1'' session_lifetime sample_session)) \<noteq> (Inr True, s)"
proof -
  obtain s' where s': "sm_RenewSession sample_gob mem_redis_cmds ''sid2'' ''sid1'' session_lifetime sample_session = (Inr ''sid2'', s')"
  proof -
    have "fst (sm_RenewSession sample_gob mem_redis_cmds ''sid2'' ''sid1'' session_lifetime sample_session) = Inr ''sid2''"
      by code_simp
    then show thesis by (metis prod.collapse that)
  qed
  show ?thesis
    using renewed_session_is_dead [OF mem_session_redis _ _ _ session_manager_refines_map_witness s'] s' by simp
qed

text \<open>
  C29: whichever commands fail, and whether a failed command took effect or not, every live session
  stays in the set of its user, so that a user's sessions can always be found: the manager
  lists an id before it stores it and removes it after it deleted it.
\<close>

theorem sessions_stay_indexed:
  assumes "session_redis R strs members gob" and "sessions_indexed gob strs members s"
    and "members s new = {}"
  shows "(\<forall>u d. new \<noteq> su_id u \<longrightarrow> sessions_indexed gob strs members (snd (sm_SetNew gob R new u d s))) \<and>
    (\<forall>sid d. (\<forall>u. session_user gob strs s sid = Some u \<longrightarrow> new \<noteq> su_id u) \<longrightarrow>
       sessions_indexed gob strs members (snd (sm_RenewSession gob R new sid d s))) \<and>
    (\<forall>sid. sessions_indexed gob strs members (snd (sm_Delete gob R sid s))) \<and>
    (\<forall>uid. sessions_indexed gob strs members (snd (sm_Sync R uid s)))"
  using session_redis.indexed_SetNew [OF assms] session_redis.indexed_RenewSession [OF assms]
    session_redis.indexed_Delete [OF assms(1,2)] session_redis.indexed_Sync [OF assms(1,2)]
  by (metis prod.collapse)

text \<open>The witness makes the second command of a sign-in fail after it took effect.\<close>

lemma sessions_stay_indexed_witness:
  "sessions_indexed sample_gob mem_strs mem_members
     (snd (sm_SetNew sample_gob mem_redis_cmds ''sid1'' \<lparr>su_id = ''1''\<rparr> session_lifetime
        (mem_empty\<lparr>mr_faults := [None, Some True]\<rparr>)))"
proof -
  have "sessions_indexed sample_gob mem_strs mem_members (mem_empty\<lparr>mr_faults := [None, Some True]\<rparr>)"
    "mem_members (mem_empty\<lparr>mr_faults := [None, Some True]\<rparr>) ''sid1'' = {}"
    by (simp_all add: sessions_indexed_def session_user_def mem_strs_def mem_members_def mem_find_def mem_empty_def)
  from sessions_stay_indexed [OF mem_session_redis this] show ?thesis by simp
qed

context session_redis
begin

lemma sync_loop_effect:
  assumes srem: "\<And>s m. ok s \<Longrightarrow> \<exists>s'. rd_srem R uid m s = (Inr (), s') \<and> ok s'"
    and get: "\<And>s k. ok s \<Longrightarrow> ok (snd (rd_get R k s))"
    and "ok s" and "sync_loop R uid sids s = (Inr x, s')"
  shows "members s' = (members s)(uid := members s uid - {sid \<in> set sids. strs s sid = None})"
  using assms(3,4)
proof (induction sids arbitrary: s)
  case (Cons sid sids)
  obtain g t where g: "rd_get R sid s = (g, t)" by fastforce
  note frame = get_frame [OF g]
  have t: "ok t" using get [OF Cons.prems(1), of sid] g by simp
  show ?case
  proof (cases g)
    case (Inr v)
    have "sync_loop R uid sids t = (Inr x, s')" using Cons.prems(2) g Inr by simp
    note Cons.IH [OF t this]
    moreover have "strs s sid = Some v" using get_ok [of sid s v t] g Inr by simp
    then have "{x \<in> set sids. strs s x = None} = {x \<in> set (sid # sids). strs s x = None}" by auto
    ultimately show ?thesis by (simp only: frame)
  next
    case (Inl e)
    with Cons.prems(2) g have nil: "e = ErrRedisNil" by (auto split: if_splits)
    obtain t' where rem: "rd_srem R uid sid t = (Inr (), t')" "ok t'" using srem [OF t] by blast
    have "sync_loop R uid sids t' = (Inr x, s')" using Cons.prems(2) g Inl nil rem(1) by simp
    note * = Cons.IH [OF rem(2) this]
    have "strs s sid = None" using get_nil [of sid s t] g Inl nil by simp
    then have "members s uid - {sid} - {x \<in> set sids. strs s x = None} = members s uid - {x \<in> set (sid # sids). strs s x = None}"
      by auto
    moreover have "strs t' = strs s" "members t' = (members s)(uid := members s uid - {sid})"
      using srem_ok [OF rem(1)] frame by simp_all
    ultimately show ?thesis by (simp only: * fun_upd_same fun_upd_upd)
  qed
qed (simp add: fun_upd_idem)

lemma sync_effect:
  assumes srem: "\<And>s m. ok s \<Longrightarrow> \<exists>s'. rd_srem R uid m s = (Inr (), s') \<and> ok s'"
    and get: "\<And>s k. ok s \<Longrightarrow> ok (snd (rd_get R k s))" and smem: "\<And>s. ok s \<Longrightarrow> ok (snd (rd_smembers R uid s))"
    and "ok s" and "sm_Sync R uid s = (Inr x, s')"
  shows "members s' = (members s)(uid := {sid \<in> members s uid. strs s sid \<noteq> None}) \<and> strs s' = strs s"
proof -
  from assms(5) obtain sids t where m: "rd_smembers R uid s = (Inr sids, t)"
    and loop: "sync_loop R uid sids t = (Inr x, s')"
    by (auto simp: sm_Sync_def ok_simps)
  have "ok t" using smem [OF \<open>ok s\<close>] m by simp
  from sync_loop_effect [where ok = ok, OF srem get this loop] smembers_frame [OF m] smembers_ok [OF m]
  have "members s' = (members s)(uid := members s uid - {sid \<in> members s uid. strs s sid = None})" by simp
  moreover have "members s uid - {sid \<in> members s uid. strs s sid = None} = {sid \<in> members s uid. strs s sid \<noteq> None}"
    by auto
  ultimately show ?thesis using sync_strs [OF assms(5)] by simp
qed

end

text \<open>
  A synchronisation that returns leaves in the user's set exactly the sessions of the set that
  still live, as long as the server answers (\<open>ok\<close> names the states in which it does), and
  touches nothing else. The code drops the errors of the removals, hence the hypothesis.
\<close>

theorem sync_keeps_live_sessions:
  assumes "session_redis R strs members gob"
    and "\<And>s m. ok s \<Longrightarrow> \<exists>s'. rd_srem R uid m s = (Inr (), s') \<and> ok s'"
    and "\<And>s k. ok s \<Longrightarrow> ok (snd (rd_get R k s))" and "\<And>s. ok s \<Longrightarrow> ok (snd (rd_smembers R uid s))"
    and "ok s" and "sm_Sync R uid s = (Inr x, s')"
  shows "members s' = (members s)(uid := {sid \<in> members s uid. strs s sid \<noteq> None}) \<and> strs s' = strs s"
  by (rule session_redis.sync_effect [OF assms(1), where ok = ok]) (use assms(2-6) in auto)

definition mem_answers :: "string \<Rightarrow> mem_redis \<Rightarrow> bool" where
  "mem_answers uid s \<longleftrightarrow> mr_faults s = [] \<and> (case mem_find uid s of Some (RStr _, _) \<Rightarrow> False | _ \<Rightarrow> True)"

lemma mem_answers_srem: "mem_answers uid s \<Longrightarrow> \<exists>s'. rd_srem mem_redis_cmds uid m s = (Inr (), s') \<and> mem_answers uid s'"
proof -
  assume ok: "mem_answers uid s"
  have run: "rd_srem mem_redis_cmds uid m s = mem_srem uid m s"
    using ok by (simp add: mem_answers_def mem_redis_cmds_def mem_run_def)
  show ?thesis
  proof (cases "mem_find uid s")
    case None
    with ok run show ?thesis by (simp add: mem_srem_def)
  next
    case (Some p)
    then obtain ms e where p: "mem_find uid s = Some (RSet ms, e)"
      using ok by (cases p; cases "fst p") (auto simp: mem_answers_def)
    have "mem_answers uid (mem_put uid (RSet (removeAll m ms)) e s)"
      using ok by (simp add: mem_answers_def mem_find_put mem_find_alive [OF p]) (simp add: mem_put_def)
    with p run show ?thesis by (simp add: mem_srem_def)
  qed
qed

lemma mem_answers_reads:
  "mem_answers uid s \<Longrightarrow> mem_answers uid (snd (rd_get mem_redis_cmds k s))"
  "mem_answers uid s \<Longrightarrow> mem_answers uid (snd (rd_smembers mem_redis_cmds uid s))"
  by (auto simp: mem_answers_def mem_redis_cmds_def mem_run_def)

lemma sync_keeps_live_sessions_witness:
  "mem_members (snd (sm_Sync mem_redis_cmds ''1'' (snd (rd_sadd mem_redis_cmds ''1'' ''stale'' sample_session)))) ''1'' = {''sid1''}"
proof -
  let ?s = "snd (rd_sadd mem_redis_cmds ''1'' ''stale'' sample_session)"
  have "fst (sm_Sync mem_redis_cmds ''1'' ?s) = Inr ()" "mem_answers ''1'' ?s"
    by code_simp+
  then obtain s' where s': "sm_Sync mem_redis_cmds ''1'' ?s = (Inr (), s')" and ok: "mem_answers ''1'' ?s"
    by (metis prod.collapse)
  have "mem_members s' = (mem_members ?s)(''1'' := {sid \<in> mem_members ?s ''1''. mem_strs ?s sid \<noteq> None})"
    using sync_keeps_live_sessions [OF mem_session_redis, where ok = "mem_answers ''1''",
        OF mem_answers_srem mem_answers_reads ok s'] by simp
  then have found: "mem_members s' ''1'' = {sid \<in> mem_members ?s ''1''. mem_strs ?s sid \<noteq> None}"
    by (rule trans [OF fun_cong]) (rule fun_upd_same)
  have "mem_find ''1'' ?s = Some (RSet [''stale'', ''sid1''], None)" by code_simp
  then have two: "mem_members ?s ''1'' = {''stale'', ''sid1''}" by (simp add: mem_members_def)
  have one: "{x \<in> {a, b}. f x \<noteq> None} = {b}" if "f a = None" "f b = Some v"
    for a b :: string and f :: "string \<Rightarrow> string option" and v
    using that by auto
  have "mem_strs ?s ''stale'' = None" by code_simp
  moreover have "mem_strs ?s ''sid1'' = Some ''MQ==''" by code_simp
  ultimately have "mem_members s' ''1'' = {''sid1''}"
    unfolding found two by (rule one)
  then show ?thesis by (simp only: s' snd_conv)
qed

end
