(* ===== verification/Cookies.thy ===== *)
theory Cookies
  imports Go_Lib Prelude
begin

text \<open>
  Package \<^verbatim>\<open>core/cookies\<close>: the values of \<^verbatim>\<open>Set-Cookie\<close> headers and the lookup of a cookie
  in a request's \<^verbatim>\<open>Cookie\<close> header. \<^verbatim>\<open>Manager\<close> is its one field, the domain.
\<close>

text \<open>\<^verbatim>\<open>int(expiry.Seconds())\<close>: whole seconds, towards zero.\<close>

definition whole_seconds :: "int \<Rightarrow> int" where
  "whole_seconds d = (if 0 \<le> d then d div 1000000000 else - (- d div 1000000000))"

definition ck_GetValue :: "string \<Rightarrow> string \<Rightarrow> string \<Rightarrow> int \<Rightarrow> string res" where
  "ck_GetValue domain key val expiry =
     (if key = '''' \<or> val = '''' then Inl (Errorf ''missing cookie key or value'' [])
      else Inr (key @ ''='' @ val @ ''; Domain='' @ domain @ ''; Path=/; Max-Age='' @
             itoa (whole_seconds expiry) @ ''; Secure; HttpOnly''))"

definition ck_DeleteCookie :: "string \<Rightarrow> string \<Rightarrow> string res" where
  "ck_DeleteCookie domain key =
     (if key = '''' then Inl (Errorf ''missing cookie key'' [])
      else Inr (key @ ''=deleted; Domain='' @ domain @ ''; Path=/; Expires=Thu, 01 Jan 1970 00:00:00 GMT''))"

text \<open>The loop over the attributes; \<^verbatim>\<open>None\<close> is the result \<^verbatim>\<open>"", false\<close>.\<close>

fun find_attribute_loop :: "string list \<Rightarrow> string \<Rightarrow> string option" where
  "find_attribute_loop [] key = None"
| "find_attribute_loop (attr # attrs) key =
     (let attribute = trim_space attr in
      if contains_sub (to_lower key) (to_lower attribute) then
        (case index_char (CHR ''='') attribute of
           None \<Rightarrow> None
         | Some idx \<Rightarrow>
             let attr_val = drop (idx + 1) attribute in
             if attr_val = '''' then None else Some attr_val)
      else find_attribute_loop attrs key)"

definition ck_FindAttribute :: "string \<Rightarrow> string \<Rightarrow> string option" where
  "ck_FindAttribute cookie key =
     (if cookie = '''' then None else find_attribute_loop (split_on (CHR '';'') cookie) key)"

section \<open>White space around an attribute\<close>

definition trimmed :: "string \<Rightarrow> bool" where
  "trimmed s \<longleftrightarrow> s = [] \<or> \<not> is_space (hd s) \<and> \<not> is_space (last s)"

lemma trim_space_trimmed: "trimmed s \<Longrightarrow> trim_space s = s"
proof -
  assume "trimmed s"
  then have "dropWhile is_space s = s" and "dropWhile is_space (rev s) = rev s"
    by (auto simp: trimmed_def dropWhile_eq_self_iff hd_rev)
  then show ?thesis by (simp add: trim_space_def)
qed

text \<open>A pair of the \<^verbatim>\<open>Cookie\<close> header, and the header a browser sends.\<close>

definition cookie_text :: "string \<times> string \<Rightarrow> string" where
  "cookie_text p = fst p @ CHR ''='' # snd p"

definition cookie_ok :: "string \<times> string \<Rightarrow> bool" where
  "cookie_ok p \<longleftrightarrow> fst p \<noteq> [] \<and> CHR ''='' \<notin> set (fst p) \<and> CHR '';'' \<notin> set (fst p) \<and>
     CHR '';'' \<notin> set (snd p) \<and> \<not> is_space (hd (fst p)) \<and> (snd p = [] \<or> \<not> is_space (last (snd p)))"

fun cookie_header :: "(string \<times> string) list \<Rightarrow> string" where
  "cookie_header [] = []"
| "cookie_header [p] = cookie_text p"
| "cookie_header (p # q # ps) = cookie_text p @ CHR '';'' # CHR '' '' # cookie_header (q # ps)"

lemma is_space_facts [simp]: "\<not> is_space (CHR ''='')" "is_space (CHR '' '')"
  by (simp_all add: is_space_def)

lemma cookie_text_trimmed: "cookie_ok p \<Longrightarrow> trimmed (cookie_text p)"
  by (auto simp: cookie_ok_def cookie_text_def trimmed_def)

lemma cookie_text_step:
  assumes "cookie_ok p"
  shows "find_attribute_loop (cookie_text p # attrs) key =
     (if contains_sub (to_lower key) (to_lower (cookie_text p)) then
        (if snd p = [] then None else Some (snd p))
      else find_attribute_loop attrs key)"
    and "find_attribute_loop ((CHR '' '' # cookie_text p) # attrs) key =
       find_attribute_loop (cookie_text p # attrs) key"
proof -
  have "index_char (CHR ''='') (cookie_text p) = Some (length (fst p))"
    using assms by (simp add: cookie_ok_def cookie_text_def index_char_append)
  then show "find_attribute_loop (cookie_text p # attrs) key =
     (if contains_sub (to_lower key) (to_lower (cookie_text p)) then
        (if snd p = [] then None else Some (snd p)) else find_attribute_loop attrs key)"
    by (simp add: trim_space_trimmed [OF cookie_text_trimmed [OF assms]]) (simp add: cookie_text_def)
  show "find_attribute_loop ((CHR '' '' # cookie_text p) # attrs) key =
       find_attribute_loop (cookie_text p # attrs) key"
    by (simp add: trim_space_Cons)
qed

lemma cookie_text_no_sep: "cookie_ok p \<Longrightarrow> CHR '';'' \<notin> set (cookie_text p)"
  by (simp add: cookie_ok_def cookie_text_def)

lemma find_in_header:
  assumes "\<forall>p \<in> set (p # ps). cookie_ok p"
  shows "find_attribute_loop (split_on (CHR '';'') (cookie_header (p # ps))) key =
       find_attribute_loop (map cookie_text (p # ps)) key \<and>
     find_attribute_loop (split_on (CHR '';'') (CHR '' '' # cookie_header (p # ps))) key =
       find_attribute_loop (map cookie_text (p # ps)) key"
  using assms
proof (induction ps arbitrary: p)
  case Nil
  then have p: "CHR '';'' \<notin> set (cookie_text p)" "CHR '';'' \<notin> set (CHR '' '' # cookie_text p)" "cookie_ok p"
    by (simp_all add: cookie_text_no_sep)
  show ?case
    by (simp only: cookie_header.simps list.map split_on_no_sep [OF p(1)] split_on_no_sep [OF p(2)]
        cookie_text_step(2) [OF p(3)])
next
  case (Cons q qs)
  then have p: "CHR '';'' \<notin> set (cookie_text p)" "CHR '';'' \<notin> set (CHR '' '' # cookie_text p)" "cookie_ok p"
    by (simp_all add: cookie_text_no_sep)
  have split: "split_on (CHR '';'') (cookie_header (p # q # qs)) =
      cookie_text p # split_on (CHR '';'') (CHR '' '' # cookie_header (q # qs))"
    "split_on (CHR '';'') (CHR '' '' # cookie_header (p # q # qs)) =
      (CHR '' '' # cookie_text p) # split_on (CHR '';'') (CHR '' '' # cookie_header (q # qs))"
    using split_on_append_sep [OF p(1)] split_on_append_sep [OF p(2)] by simp_all
  have "find_attribute_loop (split_on (CHR '';'') (CHR '' '' # cookie_header (q # qs))) key =
      find_attribute_loop (map cookie_text (q # qs)) key"
    using Cons by simp
  then show ?case
    by (simp only: split list.map cookie_text_step [OF p(3)])
qed

section \<open>Properties\<close>

text \<open>
  On the header a browser sends, the lookup returns the value of the first cookie whose text,
  name or value, contains the key up to case; an empty value counts as not found and ends the
  search. So a cookie that merely mentions the key hides the one that has it as its name.
\<close>

theorem find_attribute_first_mention:
  assumes "\<forall>p \<in> set ps. cookie_ok p"
  shows "ck_FindAttribute (cookie_header ps) key =
    (case find (\<lambda>p. contains_sub (to_lower key) (to_lower (cookie_text p))) ps of
       None \<Rightarrow> None
     | Some p \<Rightarrow> if snd p = [] then None else Some (snd p))"
proof (cases ps)
  case Nil
  then show ?thesis by (simp add: ck_FindAttribute_def)
next
  case (Cons p qs)
  have "cookie_header ps \<noteq> []"
    using Cons by (cases qs) (simp_all add: cookie_text_def)
  moreover have "find_attribute_loop (map cookie_text ps) key =
      (case find (\<lambda>p. contains_sub (to_lower key) (to_lower (cookie_text p))) ps of
       None \<Rightarrow> None | Some p \<Rightarrow> if snd p = [] then None else Some (snd p))"
    using assms
  proof (induction ps)
    case (Cons q qs)
    then have "cookie_ok q" by simp
    from cookie_text_step(1) [OF this] Cons show ?case by (simp only: list.map find.simps) simp
  qed simp
  ultimately show ?thesis
    using find_in_header [of p qs key] assms Cons by (simp add: ck_FindAttribute_def)
qed

text \<open>The session cookie is hidden by a cookie that has its name as a value.\<close>

lemma find_attribute_first_mention_witness:
  "ck_FindAttribute (cookie_header [(''last'', ''__unpaperSID''), (''__unpaperSID'', ''s1'')]) ''__unpaperSID''
     = Some ''__unpaperSID''"
proof -
  have "\<forall>p \<in> set [(''last'', ''__unpaperSID''), (''__unpaperSID'', ''s1'')]. cookie_ok p"
    by (simp add: cookie_ok_def is_space_def)
  moreover have "contains_sub (to_lower ''__unpaperSID'') (to_lower (cookie_text (''last'', ''__unpaperSID'')))"
    by code_simp
  ultimately show ?thesis
    using find_attribute_first_mention [of "[(''last'', ''__unpaperSID''), (''__unpaperSID'', ''s1'')]"] by simp
qed

text \<open>
  The cookie text the server sets gives the value back when it is looked up by its key, for
  keys and values without separators and surrounding space; an empty key or value is refused.
\<close>

theorem set_cookie_round_trip:
  assumes "cookie_ok (key, val)" and "val \<noteq> []"
  shows "\<exists>text. ck_GetValue domain key val expiry = Inr text \<and> ck_FindAttribute text key = Some val"
proof -
  let ?rest = "'' Domain='' @ domain @ ''; Path=/; Max-Age='' @ itoa (whole_seconds expiry) @ ''; Secure; HttpOnly''"
  let ?text = "cookie_text (key, val) @ CHR '';'' # ?rest"
  have key: "key \<noteq> []" using assms(1) by (simp add: cookie_ok_def)
  then have "ck_GetValue domain key val expiry = Inr ?text"
    using assms(2) by (simp add: ck_GetValue_def cookie_text_def)
  moreover have "contains_sub (to_lower key) (to_lower (cookie_text (key, val)))"
    using contains_sub_append [of "to_lower key"] by (simp add: cookie_text_def to_lower_def)
  then have "find_attribute_loop (cookie_text (key, val) # attrs) key = Some val" for attrs
    using cookie_text_step(1) [OF assms(1), of attrs key] assms(2) by simp
  then have "ck_FindAttribute ?text key = Some val"
    using split_on_append_sep [OF cookie_text_no_sep [OF assms(1)], of ?rest]
    by (simp only: ck_FindAttribute_def) simp
  ultimately show ?thesis by blast
qed

lemma set_cookie_round_trip_witness:
  "\<exists>text. ck_GetValue ''unpaper.io'' ''__unpaperSID'' ''2ab'' 86400000000000 = Inr text \<and>
     ck_FindAttribute text ''__unpaperSID'' = Some ''2ab''"
  by (rule set_cookie_round_trip) (simp_all add: cookie_ok_def is_space_def)

end
