(* ===== verification/Code_Verifier.thy ===== *)
theory Code_Verifier
  imports Go_Lib Prelude
begin

text \<open>
  Package \<^verbatim>\<open>extauth/pkg/codeverifier\<close>: the PKCE code verifier and challenge of RFC 7636. The
  \<open>i\<close>-th read of the random source and SHA-256 are arguments. The loop of \<open>randomBytes\<close> may
  read forever, so it is a partial function; it returns when the source keeps giving bytes it
  can use.
\<close>

definition cv_min_length :: int where "cv_min_length = 32"
definition cv_max_length :: int where "cv_max_length = 96"
definition cv_default_length :: int where "cv_default_length = 32"

definition cv_encode :: "byte list \<Rightarrow> string" where
  "cv_encode msg =
     (let encoded = b64_encode msg;
          encoded = replace_char (CHR ''+'') ''-'' encoded;
          encoded = replace_char (CHR ''/'') ''_'' encoded;
          encoded = replace_char (CHR ''='') '''' encoded
      in encoded)"

definition cv_charset :: string where
  "cv_charset = ''ABCDEFGHIJKLMNOPQRSTUVWXYZabcdefghijklmnopqrstuvwxyz0123456789''"

text \<open>One pass over a buffer: \<open>Inl\<close> the finished output, \<open>Inr\<close> the output so far.\<close>

fun cv_pass :: "nat \<Rightarrow> string \<Rightarrow> byte list \<Rightarrow> string + string" where
  "cv_pass len out [] = Inr out"
| "cv_pass len out (b # bs) =
     (if unat b < length cv_charset * 4 then
        (let out' = out @ [cv_charset ! (unat b mod length cv_charset)] in
         if length out' = len then Inl out' else cv_pass len out' bs)
      else cv_pass len out bs)"

partial_function (option) cv_random_loop ::
    "(nat \<Rightarrow> byte list res) \<Rightarrow> nat \<Rightarrow> nat \<Rightarrow> string \<Rightarrow> string res option" where
  "cv_random_loop source len i out =
     (case source i of
        Inl e \<Rightarrow> Some (Inl (Errorf ''failed to read random bytes'' [e]))
      | Inr buf \<Rightarrow>
          (case cv_pass len out buf of
             Inl done \<Rightarrow> Some (Inr done)
           | Inr out' \<Rightarrow> cv_random_loop source len (i + 1) out'))"

definition cv_randomBytes :: "(nat \<Rightarrow> byte list res) \<Rightarrow> nat \<Rightarrow> string res option" where
  "cv_randomBytes source len = cv_random_loop source len 0 ''''"

definition cv_CreateFromBytes :: "byte list \<Rightarrow> string res" where
  "cv_CreateFromBytes b = Inr (cv_encode b)"

definition cv_CreateWithLength :: "(nat \<Rightarrow> byte list res) \<Rightarrow> int \<Rightarrow> string res option" where
  "cv_CreateWithLength source len =
     (if len < cv_min_length \<or> len > cv_max_length then Some (Inl (Errorf ''invalid length'' []))
      else case cv_randomBytes source (nat len) of
        None \<Rightarrow> None
      | Some (Inl e) \<Rightarrow> Some (Inl (Errorf ''failed to generate random bytes'' [e]))
      | Some (Inr buf) \<Rightarrow> Some (cv_CreateFromBytes (map (\<lambda>c. word_of_nat (of_char c)) buf)))"

definition cv_Create :: "(nat \<Rightarrow> byte list res) \<Rightarrow> string res option" where
  "cv_Create source = cv_CreateWithLength source cv_default_length"

definition cv_CodeChallengePlain :: "string \<Rightarrow> string" where
  "cv_CodeChallengePlain v = v"

definition cv_CodeChallengeS256 :: "(byte list \<Rightarrow> byte list) \<Rightarrow> string \<Rightarrow> string" where
  "cv_CodeChallengeS256 sha256 v = cv_encode (sha256 (map (\<lambda>c. word_of_nat (of_char c)) v))"

section \<open>The encoding\<close>

lemma replace_char_map: "replace_char c [d] s = map (\<lambda>x. if x = c then d else x) s"
  by (induction s) (simp_all add: replace_char_def)

lemma replace_char_drop: "replace_char c [] s = filter (\<lambda>x. x \<noteq> c) s"
  by (induction s) (simp_all add: replace_char_def)

definition url_char :: "char \<Rightarrow> char" where
  "url_char x = (if x = CHR ''+'' then CHR ''-'' else if x = CHR ''/'' then CHR ''_'' else x)"

lemma cv_encode_filter: "cv_encode msg = filter (\<lambda>x. x \<noteq> CHR ''='') (map url_char (b64_encode msg))"
proof -
  have "(\<lambda>x. if x = CHR ''/'' then CHR ''_'' else x) \<circ> (\<lambda>x. if x = CHR ''+'' then CHR ''-'' else x) = url_char"
    by (rule ext) (simp add: url_char_def)
  then show ?thesis
    by (simp only: cv_encode_def Let_def replace_char_map replace_char_drop map_map)
qed

definition verifier_chars :: string where
  "verifier_chars = cv_charset @ ''-_''"

lemma alphabet_to_verifier: "list_all (\<lambda>c. url_char c \<in> set verifier_chars) b64_alphabet"
  by code_simp

lemma cv_encode_chars: "set (cv_encode msg) \<subseteq> set verifier_chars"
proof
  fix c
  assume "c \<in> set (cv_encode msg)"
  then obtain x where x: "x \<in> set (b64_encode msg)" "c = url_char x" "c \<noteq> CHR ''=''"
    by (auto simp: cv_encode_filter)
  moreover have "x \<noteq> b64_pad"
    using x(2,3) by (auto simp: b64_pad_def url_char_def)
  ultimately have "x \<in> set b64_alphabet" using b64_encode_set [of msg] by auto
  with alphabet_to_verifier x(2) show "c \<in> set verifier_chars" by (simp add: list_all_iff)
qed

lemma url_b64_char [simp]: "n < 64 \<Longrightarrow> url_char (b64_char n) \<noteq> CHR ''=''"
  using b64_char_facts(2) [of n] by (auto simp: url_char_def b64_pad_def)

lemma url_pad [simp]: "url_char b64_pad = CHR ''=''"
  by (simp add: url_char_def b64_pad_def)

lemma length_cv_encode: "length (cv_encode msg) = (4 * length msg + 2) div 3"
  unfolding cv_encode_filter
proof (induction msg rule: b64_encode.induct)
  case (4 a b c r)
  have "(4 * length (a # b # c # r) + 2) div 3 = 4 + (4 * length r + 2) div 3"
    using div_mult_self2 [of 3 "4 * length r + 2" 4] by (simp add: algebra_simps)
  with 4 show ?case by (simp add: unat_byte_bounds)
qed (simp_all add: unat_byte_bounds)

section \<open>The random characters\<close>

lemma cv_charset_nth: "cv_charset ! (n mod length cv_charset) \<in> set cv_charset"
  by (intro nth_mem mod_less_divisor) (simp add: cv_charset_def)

lemma cv_pass_Inl:
  "cv_pass len out bs = Inl res \<Longrightarrow> set out \<subseteq> set cv_charset \<Longrightarrow>
     length res = len \<and> set res \<subseteq> set cv_charset"
proof (induction len out bs rule: cv_pass.induct)
  case (2 len out b bs)
  then show ?case using cv_charset_nth [of "unat b"] by (auto simp: Let_def split: if_splits)
qed simp

lemma cv_pass_Inr:
  "cv_pass len out bs = Inr out' \<Longrightarrow> set out \<subseteq> set cv_charset \<Longrightarrow> length out < len \<Longrightarrow>
     set out' \<subseteq> set cv_charset \<and> length out' < len \<and> length out \<le> length out' \<and>
     ((\<exists>b \<in> set bs. unat b < 248) \<longrightarrow> length out < length out')"
proof (induction len out bs rule: cv_pass.induct)
  case (2 len out b bs)
  have "length cv_charset * 4 = 248" by (simp add: cv_charset_def)
  with 2 show ?case using cv_charset_nth [of "unat b"]
    by (auto simp: Let_def split: if_splits)
qed simp

text \<open>The source gives buffers of the length it is asked for, and always some usable byte again.\<close>

definition fair_source :: "nat \<Rightarrow> (nat \<Rightarrow> byte list res) \<Rightarrow> bool" where
  "fair_source len source \<longleftrightarrow>
     (\<forall>i. \<exists>buf. source i = Inr buf \<and> length buf = len) \<and>
     (\<forall>i. \<exists>j \<ge> i. \<exists>buf. source j = Inr buf \<and> (\<exists>b \<in> set buf. unat b < 248))"

lemma cv_random_loop_step:
  assumes "source i = Inr buf" and "cv_pass len out buf = Inr out'"
  shows "cv_random_loop source len i out = cv_random_loop source len (i + 1) out'"
  using assms by (subst cv_random_loop.simps) simp

lemma cv_random_loop_returns:
  assumes fair: "fair_source len source" and "length out < len" and "set out \<subseteq> set cv_charset"
  shows "\<exists>res. cv_random_loop source len i out = Some (Inr res) \<and> length res = len \<and>
     set res \<subseteq> set cv_charset"
  using assms(2,3)
proof (induction "len - length out" arbitrary: i out rule: less_induct)
  case less
  obtain j where "i \<le> j" and j: "\<exists>buf. source j = Inr buf \<and> (\<exists>b \<in> set buf. unat b < 248)"
    using fair unfolding fair_source_def by blast
  show ?case
    using \<open>i \<le> j\<close> less.prems less.hyps
  proof (induction "j - i" arbitrary: i out rule: less_induct)
    case inner: less
    obtain buf where buf: "source i = Inr buf" using fair unfolding fair_source_def by blast
    show ?case
    proof (cases "cv_pass len out buf")
      case (Inl res)
      with buf cv_pass_Inl [OF Inl inner.prems(3)] show ?thesis by (subst cv_random_loop.simps) simp
    next
      case (Inr out')
      note step = cv_random_loop_step [of source i buf len out out', OF buf Inr]
      note out' = cv_pass_Inr [OF Inr inner.prems(3,2)]
      show ?thesis
      proof (cases "length out < length out'")
        case True
        then have "len - length out' < len - length out" using out' by linarith
        with out' inner.prems(4) [of out' "i + 1"] show ?thesis by (simp add: step)
      next
        case False
        with out' buf j have "i \<noteq> j" by auto
        with inner.prems(1) have "i + 1 \<le> j" "j - (i + 1) < j - i" by simp_all
        moreover have "length out' = length out" using False out' by simp
        ultimately show ?thesis
          using inner.hyps [of "i + 1" out'] out' inner.prems(4) by (simp add: step)
      qed
    qed
  qed
qed

section \<open>Properties\<close>

text \<open>
  C38: a code verifier of any allowed length is created as long as the random source keeps giving
  usable bytes; it has between 43 and 128 characters, all unreserved letters, digits, minus or
  underscore, as RFC 7636 demands, with no padding.
\<close>

theorem code_verifier_wellformed:
  assumes "fair_source (nat len) source" and "32 \<le> len" and "len \<le> 96"
  shows "\<exists>v. cv_CreateWithLength source len = Some (Inr v) \<and> 43 \<le> length v \<and> length v \<le> 128 \<and>
    set v \<subseteq> set verifier_chars"
proof -
  obtain buf where buf: "cv_randomBytes source (nat len) = Some (Inr buf)" "length buf = nat len"
    using cv_random_loop_returns [OF assms(1), of "''''" 0] assms(2) by (auto simp: cv_randomBytes_def)
  let ?v = "cv_encode (map (\<lambda>c. word_of_nat (of_char c)) buf)"
  have "cv_CreateWithLength source len = Some (Inr ?v)"
    using assms(2,3) buf by (simp add: cv_CreateWithLength_def cv_min_length_def cv_max_length_def cv_CreateFromBytes_def)
  moreover have "length ?v = (4 * nat len + 2) div 3" by (simp add: length_cv_encode buf)
  then have "43 \<le> length ?v" "length ?v \<le> 128" using assms(2,3) by simp_all
  ultimately show ?thesis using cv_encode_chars by blast
qed

lemma code_verifier_wellformed_witness:
  "\<exists>v. cv_CreateWithLength (\<lambda>i. Inr (replicate 40 (word_of_nat i))) 40 = Some (Inr v) \<and>
     43 \<le> length v \<and> length v \<le> 128 \<and> set v \<subseteq> set verifier_chars"
proof (rule code_verifier_wellformed)
  have "\<exists>j \<ge> i. unat (word_of_nat j :: byte) < 248" for i
  proof (intro exI conjI)
    show "i \<le> i * 256" by simp
    have "unat (word_of_nat (i * 256) :: byte) = 0" by (simp only: unat_of_nat) simp
    then show "unat (word_of_nat (i * 256) :: byte) < 248" by simp
  qed
  then show "fair_source (nat 40) (\<lambda>i. Inr (replicate 40 (word_of_nat i)))"
    by (simp add: fair_source_def)
qed simp_all

end
