(* ===== verification/Core_Config.thy ===== *)
theory Core_Config
  imports Go_Lib Prelude
begin

text \<open>
  Package \<^verbatim>\<open>core/config\<close>: the configuration both servers read. The environment, the flags of
  the command line and the secrets of the cluster are arguments: \<open>env\<close> gives \<^verbatim>\<open>""\<close> for a variable
  that is not set, as \<^verbatim>\<open>os.Getenv\<close> does, \<open>flags\<close> the value of a flag that was passed, and
  \<open>secrets\<close> the data of the object \<^verbatim>\<open>secrets\<close> (a missing key reads as empty).
\<close>

record config =
  cfg_APIPort :: string
  cfg_AuthServerPort :: string
  cfg_DatastoreDBHost :: string
  cfg_DatastoreDBUser :: string
  cfg_DatastoreDBPassword :: string
  cfg_DatastoreDBPort :: string
  cfg_DatastoreDBName :: string
  cfg_LogLevel :: int
  cfg_LogTimeFormat :: string
  cfg_GoogleClientID :: string
  cfg_GoogleClientSecret :: string
  cfg_UnpaperClientSecret :: string
  cfg_SMTPDomain :: string
  cfg_SMTPPort :: string
  cfg_SMTPUser :: string
  cfg_SMTPPass :: string
  cfg_Environment :: string
  cfg_StripeAPIKey :: string
  cfg_PriceIDFree :: string
  cfg_PriceIDPlusMonthly :: string
  cfg_PriceIDPlusYearly :: string
  cfg_ProductIDRoomSubscriptions :: string
  cfg_RedisHost :: string
  cfg_RedisPort :: string
  cfg_RedisPass :: string
  cfg_ApplicationFeePercent :: string
  cfg_EnableStripe :: bool
  cfg_ClientDomain :: string

definition isStringTrue :: "string \<Rightarrow> bool" where
  "isStringTrue s \<longleftrightarrow> s = ''true''"

text \<open>\<^verbatim>\<open>flag.StringVar\<close>: the value passed for the flag, or the default.\<close>

definition string_flag :: "(string \<Rightarrow> string option) \<Rightarrow> string \<Rightarrow> string \<Rightarrow> string" where
  "string_flag flags name dflt = (case flags name of None \<Rightarrow> dflt | Some v \<Rightarrow> v)"

text \<open>
  The initialisation of the package and \<^verbatim>\<open>flag.Parse\<close>: without \<^verbatim>\<open>API_PORT\<close> the process ends
  with \<^verbatim>\<open>log.Fatal\<close> (\<open>None\<close>). The integer and the boolean flag come parsed.
\<close>

definition config_flags ::
    "(string \<Rightarrow> string) \<Rightarrow> (string \<Rightarrow> string option) \<Rightarrow> int option \<Rightarrow> bool option \<Rightarrow> config option" where
  "config_flags env flags log_level enable_stripe =
     (if env ''API_PORT'' = '''' then None
      else Some \<lparr>
        cfg_APIPort = string_flag flags ''api-port'' (env ''API_PORT''),
        cfg_AuthServerPort = string_flag flags ''auth-port'' (env ''AUTH_SERVER_PORT''),
        cfg_DatastoreDBHost = string_flag flags ''db-host'' (env ''POSTGRES_HOST''),
        cfg_DatastoreDBUser = [],
        cfg_DatastoreDBPassword = [],
        cfg_DatastoreDBPort = string_flag flags ''db-port'' (env ''POSTGRES_PORT''),
        cfg_DatastoreDBName = string_flag flags ''db-name'' (env ''POSTGRES_DB''),
        cfg_LogLevel = (case log_level of None \<Rightarrow> - 1 | Some l \<Rightarrow> l),
        cfg_LogTimeFormat = string_flag flags ''log-time-format'' (env ''LOG_TIME_FORMAT''),
        cfg_GoogleClientID = [],
        cfg_GoogleClientSecret = [],
        cfg_UnpaperClientSecret = string_flag flags ''unpaper-client-secret'' (env ''UNPAPER_CLIENT_SECRET''),
        cfg_SMTPDomain = string_flag flags ''smtp-domain'' (env ''SMTP_DOMAIN''),
        cfg_SMTPPort = string_flag flags ''smtp-port'' (env ''SMTP_PORT''),
        cfg_SMTPUser = [],
        cfg_SMTPPass = [],
        cfg_Environment = string_flag flags ''environment'' (env ''ENVIRONMENT''),
        cfg_StripeAPIKey = [],
        cfg_PriceIDFree = string_flag flags ''price-id-free'' (env ''PRICE_ID_FREE''),
        cfg_PriceIDPlusMonthly = string_flag flags ''price-id-plus-monthly'' (env ''PRICE_ID_PLUS_MONTHLY''),
        cfg_PriceIDPlusYearly = string_flag flags ''price-id-plus-yearly'' (env ''PRICE_ID_PLUS_YEARLY''),
        cfg_ProductIDRoomSubscriptions =
          string_flag flags ''product-id-room-subscriptions'' (env ''PRODUCT_ID_ROOM_SUBSCRIPTIONS''),
        cfg_RedisHost = string_flag flags ''redis-host'' (env ''REDIS_HOST''),
        cfg_RedisPort = string_flag flags ''redis-port'' (env ''REDIS_PORT''),
        cfg_RedisPass = [],
        cfg_ApplicationFeePercent = string_flag flags ''app-fee-perc'' (env ''APPLICATION_FEE_PERCENT''),
        cfg_EnableStripe = (case enable_stripe of None \<Rightarrow> isStringTrue (env ''ENABLE_STRIPE'') | Some b \<Rightarrow> b),
        cfg_ClientDomain = []\<rparr>)"

definition addSecretsToCfg :: "(string \<Rightarrow> string) \<Rightarrow> config \<Rightarrow> config" where
  "addSecretsToCfg secrets c = c\<lparr>
     cfg_DatastoreDBUser := secrets ''postgres_user'',
     cfg_DatastoreDBPassword := secrets ''postgres_password'',
     cfg_GoogleClientID := secrets ''google_client_id'',
     cfg_GoogleClientSecret := secrets ''google_client_secret'',
     cfg_SMTPUser := secrets ''smtp_user'',
     cfg_SMTPPass := secrets ''smtp_pass'',
     cfg_StripeAPIKey := secrets ''stripe_api_key'',
     cfg_ClientDomain := secrets ''client_domain''\<rparr>"

text \<open>\<^verbatim>\<open>Get\<close>: the cluster that does not answer ends the process.\<close>

definition cfg_Get ::
    "(string \<Rightarrow> string) \<Rightarrow> (string \<Rightarrow> string option) \<Rightarrow> int option \<Rightarrow> bool option \<Rightarrow>
     (string \<Rightarrow> string) res \<Rightarrow> config option" where
  "cfg_Get env flags log_level enable_stripe k8s =
     (case config_flags env flags log_level enable_stripe of
        None \<Rightarrow> None
      | Some c \<Rightarrow> (case k8s of Inl _ \<Rightarrow> None | Inr secrets \<Rightarrow> Some (addSecretsToCfg secrets c)))"

text \<open>\<^verbatim>\<open>url.URL\<close> as the two functions fill it.\<close>

record conn_url =
  url_Scheme :: string
  url_User :: "string \<times> string"
  url_Host :: string
  url_Path :: string
  url_RawQuery :: string

definition cfg_GetDBConnURL :: "config \<Rightarrow> conn_url" where
  "cfg_GetDBConnURL c = \<lparr>url_Scheme = ''postgres'',
     url_User = (cfg_DatastoreDBUser c, cfg_DatastoreDBPassword c),
     url_Host = cfg_DatastoreDBHost c, url_Path = ''unpaper'', url_RawQuery = ''sslmode=disable''\<rparr>"

definition cfg_GetRDBConnURL :: "config \<Rightarrow> conn_url" where
  "cfg_GetRDBConnURL c = \<lparr>url_Scheme = ''redis'', url_User = ('''', cfg_RedisPass c),
     url_Host = cfg_RedisHost c, url_Path = ''0'', url_RawQuery = ''''\<rparr>"

lemma config_flags_Some:
  "config_flags env flags l b = Some c \<Longrightarrow> env ''API_PORT'' \<noteq> '''' \<and> cfg_RedisPass c = [] \<and>
     cfg_DatastoreDBHost c = string_flag flags ''db-host'' (env ''POSTGRES_HOST'') \<and>
     cfg_RedisHost c = string_flag flags ''redis-host'' (env ''REDIS_HOST'') \<and>
     cfg_EnableStripe c = (case b of None \<Rightarrow> env ''ENABLE_STRIPE'' = ''true'' | Some b \<Rightarrow> b)"
  by (auto simp: config_flags_def isStringTrue_def split: if_splits option.split)

text \<open>
  A configuration is only built when the environment names an API port and the cluster gives
  its secrets. The database and Redis are then reached under the hosts of the flags or the
  environment, the user of the database comes from the secrets, and Stripe is on only when the
  flag says so or the variable is the word true; the password for Redis is always empty,
  since nothing sets the field the connection URL reads.
\<close>

theorem config_sources:
  assumes "cfg_Get env flags log_level enable_stripe k8s = Some c"
  shows "env ''API_PORT'' \<noteq> '''' \<and>
    (\<exists>secrets. k8s = Inr secrets \<and>
       url_User (cfg_GetDBConnURL c) = (secrets ''postgres_user'', secrets ''postgres_password'') \<and>
       cfg_ClientDomain c = secrets ''client_domain'') \<and>
    url_Host (cfg_GetDBConnURL c) = string_flag flags ''db-host'' (env ''POSTGRES_HOST'') \<and>
    url_Host (cfg_GetRDBConnURL c) = string_flag flags ''redis-host'' (env ''REDIS_HOST'') \<and>
    cfg_EnableStripe c = (case enable_stripe of None \<Rightarrow> env ''ENABLE_STRIPE'' = ''true'' | Some b \<Rightarrow> b) \<and>
    url_User (cfg_GetRDBConnURL c) = ('''', '''')"
proof -
  obtain c0 secrets where "config_flags env flags log_level enable_stripe = Some c0" "k8s = Inr secrets"
    "c = addSecretsToCfg secrets c0"
    using assms by (auto simp: cfg_Get_def split: option.splits sum.splits)
  then show ?thesis
    using config_flags_Some [of env flags log_level enable_stripe c0]
    by (simp add: addSecretsToCfg_def cfg_GetDBConnURL_def cfg_GetRDBConnURL_def)
qed

lemma config_sources_witness:
  "\<exists>c. cfg_Get (\<lambda>_. ''8080'') (\<lambda>_. None) None None (Inr (\<lambda>k. k)) = Some c \<and>
     url_User (cfg_GetRDBConnURL c) = ('''', '''')"
proof -
  obtain c where c: "cfg_Get (\<lambda>_. ''8080'') (\<lambda>_. None) None None (Inr (\<lambda>k. k)) = Some c"
    by (simp add: cfg_Get_def config_flags_def)
  with config_sources [OF c] show ?thesis by simp
qed

end
