(* ===== verification/Ext_Auth.thy ===== *)
theory Ext_Auth
  imports Session_Manager Cookies Code_Verifier Core_Config "HOL-Library.AList"
begin

text \<open>
  Module \<^verbatim>\<open>extauth\<close>: the authorization server the gateway asks before it lets a request through.
  A header map is an association list; its order carries no meaning (Go's maps have none).
  The session manager is any implementation of the interface \<^verbatim>\<open>session.Session\<close>; Google's OpenID
  Connect library is a record of functions, as it is no code of the repository.
\<close>

section \<open>Requests and responses\<close>

type_synonym headers = "(string \<times> string) list"

record check_request =
  rq_Path :: string
  rq_Headers :: headers

datatype http_response = OkResponse headers | DeniedResponse int string

record check_response =
  cr_Code :: int
  cr_Message :: string
  cr_Http :: http_response

text \<open>\<^verbatim>\<open>headers[k]\<close>: a missing key reads as the empty string.\<close>

definition header :: "headers \<Rightarrow> string \<Rightarrow> string" where
  "header hs k = (case map_of hs k of None \<Rightarrow> [] | Some v \<Rightarrow> v)"

definition response_OK :: "headers \<Rightarrow> check_response" where
  "response_OK hs = \<lparr>cr_Code = 0, cr_Message = [], cr_Http = OkResponse hs\<rparr>"

definition response_KO :: "string \<Rightarrow> check_response" where
  "response_KO msg = \<lparr>cr_Code = 7, cr_Message = msg, cr_Http = DeniedResponse 403 msg\<rparr>"

fun GetHeaderValueOptions :: "headers \<Rightarrow> headers" where
  "GetHeaderValueOptions [] = []"
| "GetHeaderValueOptions ((k, v) # hs) = (k, v) # GetHeaderValueOptions hs"

lemma GetHeaderValueOptions_id [simp]: "GetHeaderValueOptions hs = hs"
  by (induction hs rule: GetHeaderValueOptions.induct) simp_all

text \<open>The request goes through to the service.\<close>

definition let_through :: "check_response \<Rightarrow> bool" where
  "let_through r \<longleftrightarrow> cr_Code r = 0 \<and> (case cr_Http r of OkResponse _ \<Rightarrow> True | _ \<Rightarrow> False)"

definition upstream :: "check_response \<Rightarrow> string \<Rightarrow> string option" where
  "upstream r k = (case cr_Http r of OkResponse hs \<Rightarrow> map_of hs k | DeniedResponse _ _ \<Rightarrow> None)"

lemma response_simps [simp]:
  "let_through (response_OK hs)" "\<not> let_through (response_KO m)"
  "upstream (response_OK hs) = map_of hs" "upstream (response_KO m) k = None"
  by (simp_all add: let_through_def upstream_def response_OK_def response_KO_def fun_eq_iff)

text \<open>
  The server: the Redis commands, the session manager over the same Redis, the configuration
  and the text an error renders to.
\<close>

record 'r authorization_server =
  as_RDB :: "'r redis"
  as_SM :: "'r session_iface"
  as_Cfg :: config
  as_error_text :: "goerror \<Rightarrow> string"

section \<open>The session check\<close>

type_synonym 'r handler = "check_request \<Rightarrow> headers \<Rightarrow> 'r \<Rightarrow> check_response res \<times> 'r"

text \<open>The renewal of a session that is about to expire; the flag is \<^verbatim>\<open>refreshOccurred\<close>.\<close>

definition renew_if_due ::
    "'r authorization_server \<Rightarrow> int \<Rightarrow> string \<Rightarrow> 'r \<Rightarrow> (string \<times> bool) res \<times> 'r" where
  "renew_if_due a remaining sid s =
     (if remaining \<le> session_ttl_refresh then
        check_err (si_RenewSession (as_SM a) sid session_lifetime s)
          (\<lambda>e. Errorf ''error renewing session: %v'' [e]) (\<lambda>new s. (Inr (new, True), s))
      else (Inr (sid, False), s))"

definition authorize :: "'r authorization_server \<Rightarrow> 'r handler \<Rightarrow> check_request \<Rightarrow> 'r \<Rightarrow> check_response res \<times> 'r" where
  "authorize a next req s =
     (case ck_FindAttribute (header (rq_Headers req) ''cookie'') session_cookie_name of
        None \<Rightarrow> (Inr (response_KO ''missing session in cookie''), s)
      | Some sid \<Rightarrow>
          (case si_HasSession (as_SM a) sid s of
             (Inl _, s) \<Rightarrow> (Inr (response_KO ''error retrieving session''), s)
           | (Inr False, s) \<Rightarrow> (Inr (response_KO ''missing session in in-memory store''), s)
           | (Inr True, s) \<Rightarrow>
               check_err (rd_ttl (as_RDB a) sid s) same_err (\<lambda>remaining s.
               check_err (renew_if_due a remaining sid s) same_err (\<lambda>p s.
               case p of (sid, refreshed) \<Rightarrow>
               check_err (si_GetUserBySID (as_SM a) sid s)
                 (\<lambda>e. Errorf ''error extracting user from session: %v'' [e]) (\<lambda>user s.
               let hs = [(session_header_name, sid), (''x-user-id'', su_id user)] in
               if refreshed then
                 (case ck_GetValue (cfg_ClientDomain (as_Cfg a)) session_cookie_name sid session_lifetime of
                    Inl e \<Rightarrow> (Inl e, s)
                  | Inr cookie \<Rightarrow> next req (AList.update ''Set-Cookie'' cookie hs) s)
               else next req hs s)))))"

section \<open>The handlers behind it\<close>

definition ea_Default :: "'r handler" where
  "ea_Default req hs s = (Inr (response_OK (GetHeaderValueOptions hs)), s)"

definition ea_StripeWebhook :: "check_request \<Rightarrow> check_response res" where
  "ea_StripeWebhook req =
     (let signature = header (rq_Headers req) ''stripe-signature'' in
      Inr (response_OK (GetHeaderValueOptions [(''Grpc-Metadata-stripe-signature'', signature)])))"

definition ea_SignOut :: "'r authorization_server \<Rightarrow> 'r handler" where
  "ea_SignOut a req hs s =
     (case map_of hs session_header_name of
        None \<Rightarrow> (Inr (response_KO ''missing session''), s)
      | Some sid \<Rightarrow>
          (case si_Delete (as_SM a) sid s of
             (Inl e, s) \<Rightarrow>
               (Inr (response_KO (''error deleting session from the in-memory db: '' @ as_error_text a e)), s)
           | (Inr _, s) \<Rightarrow>
               (case ck_DeleteCookie (cfg_ClientDomain (as_Cfg a)) session_cookie_name of
                  Inl e \<Rightarrow> (Inr (response_KO (''error deleting session cookie: '' @ as_error_text a e)), s)
                | Inr deleted \<Rightarrow>
                    (Inr (response_OK (GetHeaderValueOptions (AList.update ''Set-Cookie'' deleted hs))), s))))"

section \<open>Google\<close>

record google_claims =
  gc_Subject :: string
  gc_Email :: string
  gc_Verified :: bool
  gc_GivenName :: string
  gc_FamilyName :: string

record 'e oauth2_config =
  oc_ClientID :: string
  oc_ClientSecret :: string
  oc_RedirectURL :: string
  oc_Endpoint :: 'e
  oc_Scopes :: "string list"

text \<open>
  \<open>gg_NewProvider n\<close> is the n-th discovery a request makes; \<open>gg_Verify\<close> takes the client id the
  token must be for and whether its expiry is ignored; \<open>gg_IDToken\<close> is the string \<^verbatim>\<open>id_token\<close> of
  the token response, where it has one.
\<close>

record ('p, 'e, 't, 'i) google =
  gg_NewProvider :: "nat \<Rightarrow> 'p res"
  gg_Endpoint :: "'p \<Rightarrow> 'e"
  gg_AuthCodeURL :: "'e oauth2_config \<Rightarrow> string \<Rightarrow> (string \<times> string) list \<Rightarrow> string"
  gg_Exchange :: "'e oauth2_config \<Rightarrow> string \<Rightarrow> (string \<times> string) list \<Rightarrow> 't res"
  gg_IDToken :: "'t \<Rightarrow> string option"
  gg_Verify :: "'p \<Rightarrow> string \<Rightarrow> bool \<Rightarrow> string \<Rightarrow> 'i res"
  gg_Claims :: "'i \<Rightarrow> google_claims res"
  gg_sha256 :: "byte list \<Rightarrow> byte list"

definition ErrTokenExpired :: goerror where
  "ErrTokenExpired = ErrNew ''token is expired''"

definition ag_GetGoogleOauth2Conf ::
    "('p, 'e, 't, 'i) google \<Rightarrow> nat \<Rightarrow> string \<Rightarrow> string \<Rightarrow> 'e oauth2_config res" where
  "ag_GetGoogleOauth2Conf G n client_id client_secret =
     (case gg_NewProvider G n of
        Inl e \<Rightarrow> Inl e
      | Inr provider \<Rightarrow> Inr \<lparr>oc_ClientID = client_id, oc_ClientSecret = client_secret,
          oc_RedirectURL = ''https://localhost:3000/login/google/callback'',
          oc_Endpoint = gg_Endpoint G provider, oc_Scopes = [''openid'', ''profile'', ''email'']\<rparr>)"

definition ag_VerifyRawIDToken ::
    "('p, 'e, 't, 'i) google \<Rightarrow> (goerror \<Rightarrow> string) \<Rightarrow> nat \<Rightarrow> string \<Rightarrow> string \<Rightarrow> bool \<Rightarrow> 'i res" where
  "ag_VerifyRawIDToken G text n client_id raw skip_expiry =
     (case gg_NewProvider G n of
        Inl e \<Rightarrow> Inl e
      | Inr provider \<Rightarrow>
          (case gg_Verify G provider client_id skip_expiry raw of
             Inl e \<Rightarrow> Inl (if contains_sub ''token is expired'' (text e) then ErrTokenExpired else e)
           | Inr tok \<Rightarrow> Inr tok))"

text \<open>
  The random bytes of the state and of the code verifier are arguments; the verifier's loop
  over the random source may not end, hence the option.
\<close>

definition ea_GoogleLogin ::
    "'r authorization_server \<Rightarrow> ('p, 'e, 't, 'i) google \<Rightarrow> byte list \<Rightarrow> (nat \<Rightarrow> byte list res) \<Rightarrow>
     check_response res option" where
  "ea_GoogleLogin a G rand16 source =
     (case ag_GetGoogleOauth2Conf G 0 (cfg_GoogleClientID (as_Cfg a)) (cfg_GoogleClientSecret (as_Cfg a)) of
        Inl e \<Rightarrow> Some (Inr (response_KO ''Failed to get oauth2conf''))
      | Inr conf \<Rightarrow>
          let state = map url_char (b64_encode rand16) in
          (case cv_Create source of
             None \<Rightarrow> None
           | Some (Inl e) \<Rightarrow> Some (Inr (response_KO ''failed to create code verifier''))
           | Some (Inr verifier) \<Rightarrow>
               let challenge = cv_CodeChallengeS256 (gg_sha256 G) verifier;
                   u = gg_AuthCodeURL G conf state [(''access_type'', ''offline''),
                     (''code_challenge'', challenge), (''code_challenge_method'', ''S256'')] in
               Some (Inr (response_OK (GetHeaderValueOptions
                 [(''ConsentURL'', u), (''State'', state), (''Code-Verifier'', verifier)])))))"

definition exchangeCodeForToken ::
    "('p, 'e, 't, 'i) google \<Rightarrow> 'e oauth2_config \<Rightarrow> check_request \<Rightarrow> 't res" where
  "exchangeCodeForToken G conf req =
     (let code = header (rq_Headers req) ''x-code'';
          cookies = header (rq_Headers req) ''cookie'';
          verifier = (case ck_FindAttribute cookies ''x-code-verifier'' of None \<Rightarrow> [] | Some v \<Rightarrow> v) in
      if code = '''' then Inl (Errorf ''Failed to get code from request'' [])
      else if verifier = '''' then Inl (Errorf ''Failed to get codeVerifier from request'' [])
      else (case gg_Exchange G conf code [(''code_verifier'', verifier)] of
              Inl e \<Rightarrow> Inl (Errorf ''Failed to exchange code for token'' [])
            | Inr tok \<Rightarrow> Inr tok))"

definition parseGoogleToken ::
    "('p, 'e, 't, 'i) google \<Rightarrow> (goerror \<Rightarrow> string) \<Rightarrow> nat \<Rightarrow> 't \<Rightarrow> string \<Rightarrow> google_claims res" where
  "parseGoogleToken G text n tok client_id =
     (case gg_IDToken G tok of
        None \<Rightarrow> Inl (Errorf ''Failed to get id_token'' [])
      | Some raw \<Rightarrow>
          (case ag_VerifyRawIDToken G text n client_id raw False of
             Inl e \<Rightarrow> Inl (Errorf ''Failed to verify RawIDToken: %v'' [e])
           | Inr id_token \<Rightarrow>
               (case gg_Claims G id_token of
                  Inl e \<Rightarrow> Inl (Errorf ''Failed to unmarshal claims'' [])
                | Inr claims \<Rightarrow> Inr claims)))"

definition user_headers :: "google_claims \<Rightarrow> headers" where
  "user_headers c =
     [(''x-user-id'', gc_Subject c), (''x-user-name'', gc_GivenName c), (''x-user-email'', gc_Email c)]"

text \<open>The error of \<^verbatim>\<open>parseGoogleToken\<close> is dropped: its claims are then nil, and reading them panics.\<close>

definition ea_GoogleCallback ::
    "'r authorization_server \<Rightarrow> ('p, 'e, 't, 'i) google \<Rightarrow> check_request \<Rightarrow> check_response res" where
  "ea_GoogleCallback a G req =
     (case ag_GetGoogleOauth2Conf G 0 (cfg_GoogleClientID (as_Cfg a)) (cfg_GoogleClientSecret (as_Cfg a)) of
        Inl e \<Rightarrow> Inr (response_KO ''Failed to get oauth2conf'')
      | Inr conf \<Rightarrow>
          (case exchangeCodeForToken G conf req of
             Inl e \<Rightarrow> Inr (response_KO (as_error_text a e))
           | Inr tok \<Rightarrow>
               (case parseGoogleToken G (as_error_text a) 1 tok (cfg_GoogleClientID (as_Cfg a)) of
                  Inl e \<Rightarrow> Inl (Panic ''nil pointer dereference'')
                | Inr claims \<Rightarrow> Inr (response_OK (GetHeaderValueOptions (user_headers claims))))))"

definition ea_GoogleOneTap ::
    "'r authorization_server \<Rightarrow> ('p, 'e, 't, 'i) google \<Rightarrow> check_request \<Rightarrow> check_response res" where
  "ea_GoogleOneTap a G req =
     (case map_of (rq_Headers req) ''x-google-client-id'' of
        None \<Rightarrow> Inr (response_KO ''missing client id'')
      | Some client_id \<Rightarrow>
          (case map_of (rq_Headers req) ''x-google-id-token'' of
             None \<Rightarrow> Inr (response_KO ''missing id token'')
           | Some raw \<Rightarrow>
               (case ag_VerifyRawIDToken G (as_error_text a) 0 client_id raw False of
                  Inl e \<Rightarrow> Inl (Errorf ''Failed to verify RawIDToken: %v'' [e])
                | Inr id_token \<Rightarrow>
                    (case gg_Claims G id_token of
                       Inl e \<Rightarrow> Inl (Errorf ''Failed to unmarshal claims'' [])
                     | Inr claims \<Rightarrow> Inr (response_OK (GetHeaderValueOptions (user_headers claims)))))))"

section \<open>The check\<close>

definition unauthPaths :: "string list" where
  "unauthPaths = [
     ''/grpc.reflection.v1alpha.ServerReflection/ServerReflectionInfo'',
     ''/v1.UnpaperService/EmailCheck'',
     ''/v1.UnpaperService/SendResetLink'',
     ''/v1.UnpaperService/ResetPassword'',
     ''/v1.UnpaperService/EmailSignup'',
     ''/v1.UnpaperService/EmailSignin'',
     ''/v1.UnpaperService/Ping'',
     ''/h1/v1/Ping'']"

fun ea_contains :: "string list \<Rightarrow> string \<Rightarrow> bool" where
  "ea_contains [] e = False"
| "ea_contains (a # as) e = (if a = e then True else ea_contains as e)"

definition ea_Check ::
    "'r authorization_server \<Rightarrow> ('p, 'e, 't, 'i) google \<Rightarrow> byte list \<Rightarrow> (nat \<Rightarrow> byte list res) \<Rightarrow>
     check_request \<Rightarrow> 'r \<Rightarrow> (check_response res \<times> 'r) option" where
  "ea_Check a G rand16 source req s =
     (let path = rq_Path req in
      if ea_contains unauthPaths path then Some (Inr (response_OK []), s)
      else if path = ''/v1.UnpaperService/GoogleLogin'' then
        map_option (\<lambda>r. (r, s)) (ea_GoogleLogin a G rand16 source)
      else if path = ''/v1.UnpaperService/GoogleCallback'' then Some (ea_GoogleCallback a G req, s)
      else if path = ''/v1.UnpaperService/GoogleOneTap'' then Some (ea_GoogleOneTap a G req, s)
      else if path = ''/v1.UnpaperService/SignOut'' then Some (authorize a (ea_SignOut a) req s)
      else if path = ''/h1/v1/webhook:Stripe'' \<or> path = ''/h1/v1/webhook:Stripe:Connect'' then
        Some (ea_StripeWebhook req, s)
      else Some (authorize a ea_Default req s))"

lemma ea_contains_iff [simp]: "ea_contains ss e \<longleftrightarrow> e \<in> set ss"
  by (induction ss) auto


section \<open>What a session check that passes has seen\<close>

lemma response_inj [simp]:
  "response_OK hs \<noteq> response_KO m" "response_OK hs = response_OK hs' \<longleftrightarrow> hs = hs'"
  by (simp_all add: response_OK_def response_KO_def)

definition session_ttl :: "'r authorization_server \<Rightarrow> string \<Rightarrow> 'r \<Rightarrow> int res" where
  "session_ttl a sid s = fst (rd_ttl (as_RDB a) sid (snd (si_HasSession (as_SM a) sid s)))"

lemma get_value_session: "ck_GetValue domain session_cookie_name sid d = Inr cookie \<Longrightarrow> sid \<noteq> []"
  by (auto simp: ck_GetValue_def split: if_splits)

lemma authorize_through:
  assumes "authorize a next req s = (Inr r, s')" and "let_through r"
  obtains sid t0 t1 remaining p t2 user t3 hs
  where "ck_FindAttribute (header (rq_Headers req) ''cookie'') session_cookie_name = Some sid"
    "si_HasSession (as_SM a) sid s = (Inr True, t0)" "rd_ttl (as_RDB a) sid t0 = (Inr remaining, t1)"
    "renew_if_due a remaining sid t1 = (Inr p, t2)"
    "si_GetUserBySID (as_SM a) (fst p) t2 = (Inr user, t3)" "next req hs t3 = (Inr r, s')"
    "if snd p then (\<exists>cookie. ck_GetValue (cfg_ClientDomain (as_Cfg a)) session_cookie_name (fst p) session_lifetime = Inr cookie \<and>
         hs = [(session_header_name, fst p), (''x-user-id'', su_id user), (''Set-Cookie'', cookie)])
     else hs = [(session_header_name, fst p), (''x-user-id'', su_id user)]"
proof -
  obtain sid where sid: "ck_FindAttribute (header (rq_Headers req) ''cookie'') session_cookie_name = Some sid"
    using assms by (cases "ck_FindAttribute (header (rq_Headers req) ''cookie'') session_cookie_name")
      (auto simp: authorize_def)
  obtain t0 where has: "si_HasSession (as_SM a) sid s = (Inr True, t0)"
    using assms sid by (auto simp: authorize_def split: prod.splits sum.splits bool.splits)
  from assms(1) obtain remaining t1 cur b t2 user t3 where chain: "rd_ttl (as_RDB a) sid t0 = (Inr remaining, t1)"
    "renew_if_due a remaining sid t1 = (Inr (cur, b), t2)" "si_GetUserBySID (as_SM a) cur t2 = (Inr user, t3)"
    and fin: "(let hs = [(session_header_name, cur), (''x-user-id'', su_id user)] in
               if b then
                 (case ck_GetValue (cfg_ClientDomain (as_Cfg a)) session_cookie_name cur session_lifetime of
                    Inl e \<Rightarrow> (Inl e, t3)
                  | Inr cookie \<Rightarrow> next req (AList.update ''Set-Cookie'' cookie hs) t3)
               else next req hs t3) = (Inr r, s')"
    by (auto simp: authorize_def sid has ok_simps)
  have upd: "AList.update ''Set-Cookie'' cookie [(session_header_name, cur), (''x-user-id'', su_id user)] =
      [(session_header_name, cur), (''x-user-id'', su_id user), (''Set-Cookie'', cookie)]" for cookie
    by (simp add: session_header_name_def)
  show thesis
  proof (cases b)
    case False
    with fin have "next req [(session_header_name, cur), (''x-user-id'', su_id user)] t3 = (Inr r, s')"
      by (simp add: Let_def)
    with that [of sid t0 remaining t1 "(cur, b)" t2 user t3] sid has chain False show thesis by simp
  next
    case True
    with fin obtain cookie where c: "ck_GetValue (cfg_ClientDomain (as_Cfg a)) session_cookie_name cur session_lifetime = Inr cookie"
      and nx: "next req [(session_header_name, cur), (''x-user-id'', su_id user), (''Set-Cookie'', cookie)] t3 = (Inr r, s')"
      by (auto simp: Let_def upd simp del: AList.update.simps split: sum.splits)
    with that [of sid t0 remaining t1 "(cur, b)" t2 user t3] sid has chain True show thesis by simp
  qed
qed

lemma renew_if_due_Inr:
  "renew_if_due a remaining sid s = (Inr p, t) \<longleftrightarrow>
     (if remaining \<le> session_ttl_refresh then
        snd p \<and> si_RenewSession (as_SM a) sid session_lifetime s = (Inr (fst p), t)
      else p = (sid, False) \<and> t = s)"
  by (cases p) (auto simp: renew_if_due_def ok_simps)

definition ttl_keeps_sessions :: "'r authorization_server \<Rightarrow> ('r \<Rightarrow> string \<Rightarrow> sess_user option) \<Rightarrow> bool" where
  "ttl_keeps_sessions a session_of \<longleftrightarrow>
     (\<forall>sid s. session_of (snd (rd_ttl (as_RDB a) sid s)) = session_of s)"

context session_store
begin

lemma authorized_session:
  assumes "as_SM a = SM" and "ttl_keeps_sessions a session_of"
    and "authorize a next req s = (Inr r, s')" and "let_through r"
  obtains sid u cur hs t
  where "ck_FindAttribute (header (rq_Headers req) ''cookie'') session_cookie_name = Some sid"
    "session_of s sid = Some u" "session_of t cur = Some u" "next req hs t = (Inr r, s')"
    "map_of hs session_header_name = Some cur" "map_of hs ''x-user-id'' = Some (su_id u)"
    "(\<exists>remaining > session_ttl_refresh. session_ttl a sid s = Inr remaining) \<and> cur = sid \<and>
       session_of t = session_of s \<and> map_of hs ''Set-Cookie'' = None \<or>
     (\<exists>remaining \<le> session_ttl_refresh. session_ttl a sid s = Inr remaining) \<and> cur = fresh \<and>
       session_of t = (session_of s)(sid := None, fresh \<mapsto> u) \<and>
       (\<exists>cookie. map_of hs ''Set-Cookie'' = Some cookie \<and>
          ck_GetValue (cfg_ClientDomain (as_Cfg a)) session_cookie_name fresh session_lifetime = Inr cookie)"
proof -
  obtain sid t0 t1 remaining p t2 user t3 hs
    where sid: "ck_FindAttribute (header (rq_Headers req) ''cookie'') session_cookie_name = Some sid"
    and has: "si_HasSession SM sid s = (Inr True, t0)" and ttl: "rd_ttl (as_RDB a) sid t0 = (Inr remaining, t1)"
    and renew: "renew_if_due a remaining sid t1 = (Inr p, t2)"
    and get: "si_GetUserBySID SM (fst p) t2 = (Inr user, t3)" and nx: "next req hs t3 = (Inr r, s')"
    and hs: "if snd p then (\<exists>cookie. ck_GetValue (cfg_ClientDomain (as_Cfg a)) session_cookie_name (fst p) session_lifetime = Inr cookie \<and>
         hs = [(session_header_name, fst p), (''x-user-id'', su_id user), (''Set-Cookie'', cookie)])
       else hs = [(session_header_name, fst p), (''x-user-id'', su_id user)]"
    by (rule authorize_through [OF assms(3,4), unfolded assms(1)])
  have same: "session_of t1 = session_of s"
    using assms(2) has_frame [OF has] ttl unfolding ttl_keeps_sessions_def by (metis snd_conv)
  have seen: "session_ttl a sid s = Inr remaining"
    using assms(1) has ttl by (simp add: session_ttl_def)
  have user: "session_of t2 (fst p) = Some user" "session_of t3 = session_of t2"
    using get_user_ok [OF get] get_user_frame [OF get] .
  have names: "session_header_name \<noteq> ''x-user-id''" "session_header_name \<noteq> ''Set-Cookie''"
    by (simp_all add: session_header_name_def)
  show thesis
  proof (cases "remaining \<le> session_ttl_refresh")
    case True
    with renew have p: "snd p" and rn: "si_RenewSession SM sid session_lifetime t1 = (Inr (fst p), t2)"
      by (simp_all add: renew_if_due_Inr assms(1))
    from renew_ok [OF rn] same obtain v where v: "fst p = fresh" "session_of s sid = Some v"
      "session_of t2 = (session_of s)(sid := None, fresh \<mapsto> \<lparr>su_id = su_id v\<rparr>)"
      by auto
    with user have vu: "v = user" by simp
    obtain cookie where "ck_GetValue (cfg_ClientDomain (as_Cfg a)) session_cookie_name fresh session_lifetime = Inr cookie"
      and "hs = [(session_header_name, fresh), (''x-user-id'', su_id user), (''Set-Cookie'', cookie)]"
      using hs p v(1) by auto
    with that [OF sid, of user t3 fresh hs] v vu user nx names True seen show thesis by auto
  next
    case False
    with renew have p: "p = (sid, False)" "t2 = t1" by (simp_all add: renew_if_due_Inr)
    with that [OF sid, of user t3 sid hs] hs user nx names False seen same show thesis by auto
  qed
qed

lemma signed_out_session:
  assumes "as_SM a = SM" and "ttl_keeps_sessions a session_of"
    and "authorize a (ea_SignOut a) req s = (Inr r, s')" and "let_through r"
  obtains sid u where "ck_FindAttribute (header (rq_Headers req) ''cookie'') session_cookie_name = Some sid"
    "session_of s sid = Some u" "sid \<noteq> fresh \<Longrightarrow> session_of s fresh = None \<Longrightarrow> session_of s' = (session_of s)(sid := None)"
    "session_of s' sid = None" "upstream r ''x-user-id'' = Some (su_id u)"
    "\<exists>deleted. ck_DeleteCookie (cfg_ClientDomain (as_Cfg a)) session_cookie_name = Inr deleted \<and>
       upstream r ''Set-Cookie'' = Some deleted"
proof -
  obtain sid u cur hs t
    where sid: "ck_FindAttribute (header (rq_Headers req) ''cookie'') session_cookie_name = Some sid"
    and u: "session_of s sid = Some u" and nx: "ea_SignOut a req hs t = (Inr r, s')"
    and hs: "map_of hs session_header_name = Some cur" "map_of hs ''x-user-id'' = Some (su_id u)"
    and cases: "cur = sid \<and> session_of t = session_of s \<or>
       cur = fresh \<and> session_of t = (session_of s)(sid := None, fresh \<mapsto> u)"
    by (rule authorized_session [OF assms]) blast
  from nx hs(1) assms(1,4) obtain x deleted where del: "si_Delete SM cur t = (Inr x, s')"
    and ck: "ck_DeleteCookie (cfg_ClientDomain (as_Cfg a)) session_cookie_name = Inr deleted"
    and r: "r = response_OK (AList.update ''Set-Cookie'' deleted hs)"
    by (auto simp: ea_SignOut_def split: prod.splits sum.splits)
  have s': "session_of s' = (session_of t)(cur := None)" by (rule delete_ok [OF del])
  show thesis
  proof (rule that [OF sid u])
    show "session_of s' = (session_of s)(sid := None)" if "sid \<noteq> fresh" "session_of s fresh = None"
      using cases s' that by (auto simp: fun_eq_iff)
    show "session_of s' sid = None" using cases s' by auto
    show "upstream r ''x-user-id'' = Some (su_id u)" using r hs(2) by (simp add: update_conv)
    show "\<exists>deleted. ck_DeleteCookie (cfg_ClientDomain (as_Cfg a)) session_cookie_name = Inr deleted \<and>
       upstream r ''Set-Cookie'' = Some deleted"
      using ck r by (simp add: update_conv)
  qed
qed

end


context session_redis
begin

lemma manager_store: "session_store (session_manager gob R ksuid) (session_user gob strs) ksuid"
  by (rule manager.session_store_axioms)

lemma ttl_keeps: "as_RDB a = R \<Longrightarrow> ttl_keeps_sessions a (session_user gob strs)"
proof -
  assume "as_RDB a = R"
  then show ?thesis
    unfolding ttl_keeps_sessions_def by (metis prod.collapse ttl_frame user_of_cong)
qed

end

text \<open>\<^verbatim>\<open>NewAuthorizationServer\<close>: one Redis client under the session manager and the TTL query.\<close>

definition NewAuthorizationServer ::
    "'r redis \<Rightarrow> gob_codec \<Rightarrow> string \<Rightarrow> (goerror \<Rightarrow> string) \<Rightarrow> config \<Rightarrow> 'r authorization_server" where
  "NewAuthorizationServer R gob ksuid text cfg =
     \<lparr>as_RDB = R, as_SM = session_manager gob R ksuid, as_Cfg = cfg, as_error_text = text\<rparr>"

lemma NewAuthorizationServer_simps [simp]:
  "as_RDB (NewAuthorizationServer R gob ksuid text cfg) = R"
  "as_SM (NewAuthorizationServer R gob ksuid text cfg) = session_manager gob R ksuid"
  "as_Cfg (NewAuthorizationServer R gob ksuid text cfg) = cfg"
  by (simp_all add: NewAuthorizationServer_def)

definition public_paths :: "string list" where
  "public_paths = unauthPaths @ [''/v1.UnpaperService/GoogleLogin'', ''/v1.UnpaperService/GoogleCallback'',
     ''/v1.UnpaperService/GoogleOneTap'', ''/h1/v1/webhook:Stripe'', ''/h1/v1/webhook:Stripe:Connect'']"

lemma check_protected:
  assumes "rq_Path req \<notin> set public_paths"
  shows "ea_Check a G rand16 source req s =
    Some (authorize a (if rq_Path req = ''/v1.UnpaperService/SignOut'' then ea_SignOut a else ea_Default) req s)"
  using assms by (simp add: ea_Check_def public_paths_def)

lemma check_sign_out:
  "rq_Path req = ''/v1.UnpaperService/SignOut'' \<Longrightarrow>
     ea_Check a G rand16 source req s = Some (authorize a (ea_SignOut a) req s)"
  by (simp add: ea_Check_def unauthPaths_def)

section \<open>The example server\<close>

definition sample_config :: config where
  "sample_config = the (cfg_Get (\<lambda>k. k) (\<lambda>_. None) None None (Inr (\<lambda>k. ''unpaper'')))"

definition sample_server :: "mem_redis authorization_server" where
  "sample_server = NewAuthorizationServer mem_redis_cmds sample_gob ''sid2'' (\<lambda>_. ''error'') sample_config"

definition sample_request :: "string \<Rightarrow> check_request" where
  "sample_request path = \<lparr>rq_Path = path, rq_Headers = [(''cookie'', ''theme=dark; __unpaperSID=sid1'')]\<rparr>"

definition sample_google :: "(unit, unit, string, string) google" where
  "sample_google = \<lparr>gg_NewProvider = (\<lambda>_. Inr ()), gg_Endpoint = (\<lambda>p. p), gg_AuthCodeURL = (\<lambda>_ st _. st),
     gg_Exchange = (\<lambda>_ code _. Inr code), gg_IDToken = Some,
     gg_Verify = (\<lambda>_ client _ raw. if raw = client then Inr raw else Inl (ErrNew ''audience'')),
     gg_Claims = (\<lambda>t. Inr \<lparr>gc_Subject = t, gc_Email = ''a@b.it'', gc_Verified = True, gc_GivenName = ''Ann'', gc_FamilyName = ''Lee''\<rparr>),
     gg_sha256 = (\<lambda>b. b)\<rparr>"

section \<open>Properties\<close>

text \<open>
  C1: outside the public paths no request passes without a live session: when the check lets one
  through, its cookie names a session that Redis holds, and the user id handed to the service
  is that session's user.
\<close>

theorem protected_request_has_session:
  assumes "session_redis R strs members gob" and "rq_Path req \<notin> set public_paths"
    and "ea_Check (NewAuthorizationServer R gob ksuid text cfg) G rand16 source req s = Some (Inr r, s')"
    and "let_through r"
  shows "\<exists>sid u. ck_FindAttribute (header (rq_Headers req) ''cookie'') session_cookie_name = Some sid \<and>
    session_user gob strs s sid = Some u \<and> upstream r ''x-user-id'' = Some (su_id u)"
proof -
  note store = session_redis.manager_store [OF assms(1)]
  note ttl = session_redis.ttl_keeps [OF assms(1), of "NewAuthorizationServer R gob ksuid text cfg", simplified]
  show ?thesis
  proof (cases "rq_Path req = ''/v1.UnpaperService/SignOut''")
    case True
    then have "authorize (NewAuthorizationServer R gob ksuid text cfg)
        (ea_SignOut (NewAuthorizationServer R gob ksuid text cfg)) req s = (Inr r, s')"
      using assms(3) by (simp add: check_protected [OF assms(2)])
    then show ?thesis
      by (rule session_store.signed_out_session [OF store NewAuthorizationServer_simps(2) ttl _ assms(4)]) blast
  next
    case False
    then have "authorize (NewAuthorizationServer R gob ksuid text cfg) ea_Default req s = (Inr r, s')"
      using assms(3) by (simp add: check_protected [OF assms(2)])
    then obtain hs t sid u where "ea_Default req hs t = (Inr r, s')" "map_of hs ''x-user-id'' = Some (su_id u)"
      "session_user gob strs s sid = Some u"
      "ck_FindAttribute (header (rq_Headers req) ''cookie'') session_cookie_name = Some sid"
      by (rule session_store.authorized_session [OF store NewAuthorizationServer_simps(2) ttl _ assms(4)]) blast
    then show ?thesis by (auto simp: ea_Default_def)
  qed
qed

lemma protected_request_has_session_witness:
  "session_user sample_gob mem_strs sample_session ''sid1'' \<noteq> None"
proof -
  let ?check = "ea_Check sample_server sample_google [] (\<lambda>_. Inr []) (sample_request ''/v1.UnpaperService/GetPosts'') sample_session"
  have "map_option fst ?check = Some (Inr (response_OK [(''x-unpaper-sid'', ''sid1''), (''x-user-id'', ''1'')]))"
    by code_simp
  then obtain s' where "?check = Some (Inr (response_OK [(''x-unpaper-sid'', ''sid1''), (''x-user-id'', ''1'')]), s')"
    by auto
  note * = protected_request_has_session [OF mem_session_redis _ this [unfolded sample_server_def]]
  have "rq_Path (sample_request ''/v1.UnpaperService/GetPosts'') \<notin> set public_paths" by code_simp
  moreover have "ck_FindAttribute (header (rq_Headers (sample_request ''/v1.UnpaperService/GetPosts'')) ''cookie'') session_cookie_name = Some ''sid1''"
    by code_simp
  ultimately show ?thesis using * by auto
qed

text \<open>
  C27: a request let through on a protected path keeps its session when more than thirty seconds of
  it remain; otherwise the session moves to a new id, the old one is gone, and the response
  carries the cookie with the new id. The session header names the session that is live after
  the check, in either case.
\<close>

theorem session_renewed_when_due:
  assumes "session_redis R strs members gob" and "rq_Path req \<notin> set public_paths"
    and "rq_Path req \<noteq> ''/v1.UnpaperService/SignOut''"
    and "a = NewAuthorizationServer R gob ksuid text cfg"
    and "ea_Check a G rand16 source req s = Some (Inr r, s')"
    and "let_through r"
    and "ck_FindAttribute (header (rq_Headers req) ''cookie'') session_cookie_name = Some sid"
  shows "\<exists>remaining u. session_ttl a sid s = Inr remaining \<and> session_user gob strs s sid = Some u \<and>
    (if session_ttl_refresh < remaining
     then upstream r session_header_name = Some sid \<and> upstream r ''Set-Cookie'' = None \<and>
       session_user gob strs s' = session_user gob strs s
     else upstream r session_header_name = Some ksuid \<and>
       session_user gob strs s' = (session_user gob strs s)(sid := None, ksuid \<mapsto> u) \<and>
       (\<exists>cookie. upstream r ''Set-Cookie'' = Some cookie \<and>
          ck_GetValue (cfg_ClientDomain cfg) session_cookie_name ksuid session_lifetime = Inr cookie))"
proof -
  have auth: "authorize a ea_Default req s = (Inr r, s')"
    using assms(5,3) by (simp add: check_protected [OF assms(2)])
  have SM: "as_SM a = session_manager gob R ksuid" and RDB: "as_RDB a = R" by (simp_all add: assms(4))
  obtain x u cur hs t
    where x: "ck_FindAttribute (header (rq_Headers req) ''cookie'') session_cookie_name = Some x"
    and u: "session_user gob strs s x = Some u" and nx: "ea_Default req hs t = (Inr r, s')"
    and cur: "map_of hs session_header_name = Some cur"
    and cases: "(\<exists>remaining > session_ttl_refresh. session_ttl a x s = Inr remaining) \<and> cur = x \<and>
       session_user gob strs t = session_user gob strs s \<and> map_of hs ''Set-Cookie'' = None \<or>
     (\<exists>remaining \<le> session_ttl_refresh. session_ttl a x s = Inr remaining) \<and> cur = ksuid \<and>
       session_user gob strs t = (session_user gob strs s)(x := None, ksuid \<mapsto> u) \<and>
       (\<exists>cookie. map_of hs ''Set-Cookie'' = Some cookie \<and>
          ck_GetValue (cfg_ClientDomain (as_Cfg a)) session_cookie_name ksuid session_lifetime = Inr cookie)"
    by (rule session_store.authorized_session [OF session_redis.manager_store [OF assms(1)] SM
        session_redis.ttl_keeps [OF assms(1) RDB] auth assms(6)])
  have "x = sid" using x assms(7) by simp
  have r: "r = response_OK hs" "s' = t" using nx by (simp_all add: ea_Default_def)
  have cfg: "as_Cfg a = cfg" by (simp add: assms(4))
  from cases show ?thesis
  proof (elim disjE conjE exE)
    fix remaining
    assume "session_ttl_refresh < remaining" "session_ttl a x s = Inr remaining" "cur = x"
      "session_user gob strs t = session_user gob strs s" "map_of hs ''Set-Cookie'' = None"
    with u cur \<open>x = sid\<close> show ?thesis by (intro exI [of _ remaining] exI [of _ u]) (simp add: r)
  next
    fix remaining cookie
    assume "remaining \<le> session_ttl_refresh" "session_ttl a x s = Inr remaining" "cur = ksuid"
      "session_user gob strs t = (session_user gob strs s)(x := None, ksuid \<mapsto> u)"
      "map_of hs ''Set-Cookie'' = Some cookie"
      "ck_GetValue (cfg_ClientDomain (as_Cfg a)) session_cookie_name ksuid session_lifetime = Inr cookie"
    with u cur \<open>x = sid\<close> show ?thesis
      by (intro exI [of _ remaining] exI [of _ u]) (simp add: r cfg)
  qed
qed

lemma session_renewed_when_due_witness:
  "\<exists>r s'. ea_Check sample_server sample_google [] (\<lambda>_. Inr []) (sample_request ''/v1.UnpaperService/GetPosts'')
       (sample_session\<lparr>mr_clock := session_lifetime - seconds 10\<rparr>) = Some (Inr r, s') \<and>
     session_user sample_gob mem_strs s' ''sid1'' = None"
proof -
  let ?s = "sample_session\<lparr>mr_clock := session_lifetime - seconds 10\<rparr>"
  let ?req = "sample_request ''/v1.UnpaperService/GetPosts''"
  let ?check = "ea_Check sample_server sample_google [] (\<lambda>_. Inr []) ?req ?s"
  have "case ?check of Some (Inr r, _) \<Rightarrow> let_through r | _ \<Rightarrow> False" by code_simp
  then obtain r s' where check: "?check = Some (Inr r, s')" and r: "let_through r"
    by (auto split: option.splits prod.splits sum.splits)
  have "rq_Path ?req \<notin> set public_paths" "rq_Path ?req \<noteq> ''/v1.UnpaperService/SignOut''"
    "ck_FindAttribute (header (rq_Headers ?req) ''cookie'') session_cookie_name = Some ''sid1''"
    "session_ttl sample_server ''sid1'' ?s = Inr (seconds 10)"
    by code_simp+
  then have "session_user sample_gob mem_strs s' ''sid1'' = None"
    using session_renewed_when_due [OF mem_session_redis _ _ sample_server_def check r]
    by (auto simp: seconds_def session_ttl_refresh_def)
  with check show ?thesis by blast
qed

text \<open>
  C31: signing out ends the session: when the request is let through, the session of its cookie is
  gone, every other session is as it was, and the response deletes the cookie.
\<close>

theorem sign_out_ends_session:
  assumes "session_redis R strs members gob"
    and "rq_Path req = ''/v1.UnpaperService/SignOut''"
    and "ea_Check (NewAuthorizationServer R gob ksuid text cfg) G rand16 source req s = Some (Inr r, s')"
    and "let_through r"
    and "ck_FindAttribute (header (rq_Headers req) ''cookie'') session_cookie_name = Some sid"
  shows "session_user gob strs s sid \<noteq> None \<and> session_user gob strs s' sid = None \<and>
    (sid \<noteq> ksuid \<longrightarrow> session_user gob strs s ksuid = None \<longrightarrow>
       session_user gob strs s' = (session_user gob strs s)(sid := None)) \<and>
    (\<exists>deleted. ck_DeleteCookie (cfg_ClientDomain cfg) session_cookie_name = Inr deleted \<and>
       upstream r ''Set-Cookie'' = Some deleted)"
proof -
  let ?a = "NewAuthorizationServer R gob ksuid text cfg"
  have auth: "authorize ?a (ea_SignOut ?a) req s = (Inr r, s')"
    using assms(3) by (simp add: check_sign_out [OF assms(2)])
  show ?thesis
    by (rule session_store.signed_out_session [OF session_redis.manager_store [OF assms(1)] _ _ auth assms(4)])
      (use assms(5) session_redis.ttl_keeps [OF assms(1), of ?a] in auto)
qed

lemma sign_out_ends_session_witness:
  "\<exists>r s'. ea_Check sample_server sample_google [] (\<lambda>_. Inr []) (sample_request ''/v1.UnpaperService/SignOut'')
       sample_session = Some (Inr r, s') \<and> session_user sample_gob mem_strs s' ''sid1'' = None"
proof -
  let ?req = "sample_request ''/v1.UnpaperService/SignOut''"
  let ?check = "ea_Check sample_server sample_google [] (\<lambda>_. Inr []) ?req sample_session"
  have "case ?check of Some (Inr r, _) \<Rightarrow> let_through r | _ \<Rightarrow> False" by code_simp
  then obtain r s' where check: "?check = Some (Inr r, s')" and r: "let_through r"
    by (auto split: option.splits prod.splits sum.splits)
  have "rq_Path ?req = ''/v1.UnpaperService/SignOut''"
    "ck_FindAttribute (header (rq_Headers ?req) ''cookie'') session_cookie_name = Some ''sid1''"
    by code_simp+
  then have "session_user sample_gob mem_strs s' ''sid1'' = None"
    using sign_out_ends_session [OF mem_session_redis _ check [unfolded sample_server_def] r] by auto
  with check show ?thesis by blast
qed

text \<open>
  The callback of a Google sign-in lets a request through only for a token that was verified
  for the configured client, with the token's subject as the user; a token that fails to verify
  crashes the handler. The one-tap sign-in verifies for the client id the request itself
  names, whatever client is configured.
\<close>

theorem google_sign_in_audience:
  shows "(\<forall>r. ea_GoogleCallback a G req = Inr r \<longrightarrow> let_through r \<longrightarrow>
      (\<exists>p raw tok c. gg_Verify G p (cfg_GoogleClientID (as_Cfg a)) False raw = Inr tok \<and>
         gg_Claims G tok = Inr c \<and> upstream r ''x-user-id'' = Some (gc_Subject c))) \<and>
    (\<forall>conf tok e. ag_GetGoogleOauth2Conf G 0 (cfg_GoogleClientID (as_Cfg a)) (cfg_GoogleClientSecret (as_Cfg a)) = Inr conf \<longrightarrow>
      exchangeCodeForToken G conf req = Inr tok \<longrightarrow>
      parseGoogleToken G (as_error_text a) 1 tok (cfg_GoogleClientID (as_Cfg a)) = Inl e \<longrightarrow>
      (\<exists>m. ea_GoogleCallback a G req = Inl (Panic m))) \<and>
    (\<forall>r. ea_GoogleOneTap a G req = Inr r \<longrightarrow> let_through r \<longrightarrow>
      (\<exists>client p raw tok c. map_of (rq_Headers req) ''x-google-client-id'' = Some client \<and>
         gg_Verify G p client False raw = Inr tok \<and> gg_Claims G tok = Inr c \<and>
         upstream r ''x-user-id'' = Some (gc_Subject c))) \<and>
    (\<forall>cfg. ea_GoogleOneTap (a\<lparr>as_Cfg := cfg\<rparr>) G req = ea_GoogleOneTap a G req)"
proof (intro conjI allI impI)
  fix r assume "ea_GoogleCallback a G req = Inr r" "let_through r"
  then show "\<exists>p raw tok c. gg_Verify G p (cfg_GoogleClientID (as_Cfg a)) False raw = Inr tok \<and>
         gg_Claims G tok = Inr c \<and> upstream r ''x-user-id'' = Some (gc_Subject c)"
    by (fastforce simp: ea_GoogleCallback_def parseGoogleToken_def ag_VerifyRawIDToken_def user_headers_def
        split: sum.splits option.splits)
next
  fix r assume "ea_GoogleOneTap a G req = Inr r" "let_through r"
  then show "\<exists>client p raw tok c. map_of (rq_Headers req) ''x-google-client-id'' = Some client \<and>
         gg_Verify G p client False raw = Inr tok \<and> gg_Claims G tok = Inr c \<and>
         upstream r ''x-user-id'' = Some (gc_Subject c)"
    by (fastforce simp: ea_GoogleOneTap_def ag_VerifyRawIDToken_def user_headers_def
        split: sum.splits option.splits)
qed (simp_all add: ea_GoogleCallback_def ea_GoogleOneTap_def cong: option.case_cong sum.case_cong)

lemma google_sign_in_audience_witness:
  "\<exists>m. ea_GoogleCallback sample_server sample_google
     \<lparr>rq_Path = ''/v1.UnpaperService/GoogleCallback'',
      rq_Headers = [(''x-code'', ''bad''), (''cookie'', ''x-code-verifier=v'')]\<rparr> = Inl (Panic m)"
proof -
  let ?req = "\<lparr>rq_Path = ''/v1.UnpaperService/GoogleCallback'',
      rq_Headers = [(''x-code'', ''bad''), (''cookie'', ''x-code-verifier=v'')]\<rparr>"
  let ?id = "cfg_GoogleClientID (as_Cfg sample_server)"
  obtain conf where conf: "ag_GetGoogleOauth2Conf sample_google 0 ?id (cfg_GoogleClientSecret (as_Cfg sample_server)) = Inr conf"
    by (simp add: ag_GetGoogleOauth2Conf_def sample_google_def)
  have "exchangeCodeForToken sample_google conf ?req = Inr ''bad''"
    by (simp add: exchangeCodeForToken_def sample_google_def header_def ck_FindAttribute_def Let_def) code_simp
  moreover obtain e where "parseGoogleToken sample_google (as_error_text sample_server) 1 ''bad'' ?id = Inl e"
  proof -
    have "?id = ''unpaper''" by code_simp
    then show thesis using that by (simp add: parseGoogleToken_def ag_VerifyRawIDToken_def sample_google_def)
  qed
  ultimately show ?thesis
    using google_sign_in_audience [of sample_server sample_google ?req] conf by blast
qed

end
