(* ===== verification/Email_Check.thy ===== *)
theory Email_Check
  imports Go_Lib Prelude
begin

text \<open>
  The check of e-mail addresses in \<^verbatim>\<open>backend/helpers/validations.go\<close> (a copy is in
  \<^verbatim>\<open>pkg/service/v1/auth.go\<close>). The regular expression is translated construct by construct and
  matched by backtracking; the lookup of the mail exchangers of a domain is an argument.
\<close>

section \<open>Regular expressions\<close>

text \<open>Character class, sequence, option, \<^verbatim>\<open>{0,n}\<close> and \<^verbatim>\<open>*\<close>.\<close>

datatype rx =
    Cls string
  | Sq rx rx
  | UpTo nat rx
  | Many rx

abbreviation Optional :: "rx \<Rightarrow> rx" where
  "Optional a \<equiv> UpTo 1 a"

abbreviation Plus :: "rx \<Rightarrow> rx" where
  "Plus a \<equiv> Sq a (Many a)"

primrec rx_size :: "rx \<Rightarrow> nat" where
  "rx_size (Cls cs) = 1"
| "rx_size (Sq a b) = rx_size a + rx_size b + 1"
| "rx_size (UpTo n a) = n + rx_size a + 1"
| "rx_size (Many a) = rx_size a + 1"

text \<open>What can be left of the input after a match of a prefix.\<close>

function rests :: "rx \<Rightarrow> string \<Rightarrow> string list" where
  "rests (Cls cs) [] = []"
| "rests (Cls cs) (c # s) = (if c \<in> set cs then [s] else [])"
| "rests (Sq a b) s = concat (map (rests b) (rests a s))"
| "rests (UpTo 0 a) s = [s]"
| "rests (UpTo (Suc n) a) s = concat (map (rests (UpTo n a)) (rests a s)) @ [s]"
| "rests (Many a) s = concat (map (\<lambda>t. if length t < length s then rests (Many a) t else []) (rests a s)) @ [s]"
  by pat_completeness auto
termination
  by (relation "measures [\<lambda>p. rx_size (fst p), \<lambda>p. length (snd p)]") auto

definition rx_match :: "rx \<Rightarrow> string \<Rightarrow> bool" where
  "rx_match r s \<longleftrightarrow> [] \<in> set (rests r s)"

text \<open>The language of an expression, for the proofs.\<close>

primrec lang :: "rx \<Rightarrow> string set" where
  "lang (Cls cs) = {[c] | c. c \<in> set cs}"
| "lang (Sq a b) = {p @ q | p q. p \<in> lang a \<and> q \<in> lang b}"
| "lang (UpTo n a) = {concat ps | ps. length ps \<le> n \<and> set ps \<subseteq> lang a}"
| "lang (Many a) = {concat ps | ps. set ps \<subseteq> lang a}"

lemma lang_Cls [simp]: "p \<in> lang (Cls cs) \<longleftrightarrow> (\<exists>c \<in> set cs. p = [c])"
  by auto

lemma concat_no_Nil: "concat ps = concat (filter (\<lambda>p. p \<noteq> []) ps)"
  by (induction ps) auto

lemma lang_Many: "p \<in> lang (Many a) \<longleftrightarrow> p = [] \<or> (\<exists>q r. p = q @ r \<and> q \<noteq> [] \<and> q \<in> lang a \<and> r \<in> lang (Many a))"
proof
  assume "p \<in> lang (Many a)"
  then obtain ps where ps: "p = concat ps" "set ps \<subseteq> lang a" by auto
  let ?qs = "filter (\<lambda>p. p \<noteq> []) ps"
  have "p = concat ?qs" using ps(1) concat_no_Nil by simp
  moreover have "set ?qs \<subseteq> lang a" "[] \<notin> set ?qs" using ps(2) by auto
  ultimately show "p = [] \<or> (\<exists>q r. p = q @ r \<and> q \<noteq> [] \<and> q \<in> lang a \<and> r \<in> lang (Many a))"
    by (cases ?qs) fastforce+
next
  assume "p = [] \<or> (\<exists>q r. p = q @ r \<and> q \<noteq> [] \<and> q \<in> lang a \<and> r \<in> lang (Many a))"
  then show "p \<in> lang (Many a)"
  proof (elim disjE exE conjE)
    assume "p = []"
    then show ?thesis by (auto intro: exI [of _ "[]"])
  next
    fix q r assume "p = q @ r" "q \<in> lang a" "r \<in> lang (Many a)"
    then obtain ps where "p = concat (q # ps)" "set (q # ps) \<subseteq> lang a" by auto
    then show ?thesis unfolding lang.simps by blast
  qed
qed

lemma lang_UpTo_Suc: "p \<in> lang (UpTo (Suc n) a) \<longleftrightarrow>
  p = [] \<or> (\<exists>q r. p = q @ r \<and> q \<in> lang a \<and> r \<in> lang (UpTo n a))"
proof
  assume "p \<in> lang (UpTo (Suc n) a)"
  then obtain ps where "p = concat ps" "length ps \<le> Suc n" "set ps \<subseteq> lang a" by auto
  then show "p = [] \<or> (\<exists>q r. p = q @ r \<and> q \<in> lang a \<and> r \<in> lang (UpTo n a))"
    by (cases ps) auto
next
  assume "p = [] \<or> (\<exists>q r. p = q @ r \<and> q \<in> lang a \<and> r \<in> lang (UpTo n a))"
  then show "p \<in> lang (UpTo (Suc n) a)"
  proof (elim disjE exE conjE)
    assume "p = []"
    then show ?thesis by (auto intro: exI [of _ "[]"])
  next
    fix q r assume "p = q @ r" "q \<in> lang a" "r \<in> lang (UpTo n a)"
    then obtain ps where "p = concat (q # ps)" "length (q # ps) \<le> Suc n" "set (q # ps) \<subseteq> lang a" by auto
    then show ?thesis unfolding lang.simps by blast
  qed
qed

lemma lang_UpTo_0 [simp]: "p \<in> lang (UpTo 0 a) \<longleftrightarrow> p = []"
  by auto

lemma lang_Sq_rest: "(\<exists>p. s = p @ t \<and> p \<in> lang (Sq a b)) \<longleftrightarrow>
  (\<exists>u. (\<exists>p. s = p @ u \<and> p \<in> lang a) \<and> (\<exists>q. u = q @ t \<and> q \<in> lang b))"
proof
  assume "\<exists>p. s = p @ t \<and> p \<in> lang (Sq a b)"
  then obtain p q where "s = p @ (q @ t)" "p \<in> lang a" "q \<in> lang b" by auto
  then show "\<exists>u. (\<exists>p. s = p @ u \<and> p \<in> lang a) \<and> (\<exists>q. u = q @ t \<and> q \<in> lang b)" by blast
next
  assume "\<exists>u. (\<exists>p. s = p @ u \<and> p \<in> lang a) \<and> (\<exists>q. u = q @ t \<and> q \<in> lang b)"
  then obtain p q where "s = (p @ q) @ t" "p \<in> lang a" "q \<in> lang b" by auto
  then show "\<exists>p. s = p @ t \<and> p \<in> lang (Sq a b)" unfolding lang.simps by blast
qed

lemma first_rest:
  "(\<exists>p. s = p @ t \<and> (p = [] \<or> (\<exists>q r. p = q @ r \<and> P q \<and> R r))) \<longleftrightarrow>
     t = s \<or> (\<exists>u. (\<exists>q. s = q @ u \<and> P q) \<and> (\<exists>r. u = r @ t \<and> R r))"
proof
  assume "\<exists>p. s = p @ t \<and> (p = [] \<or> (\<exists>q r. p = q @ r \<and> P q \<and> R r))"
  then show "t = s \<or> (\<exists>u. (\<exists>q. s = q @ u \<and> P q) \<and> (\<exists>r. u = r @ t \<and> R r))"
  proof (elim exE conjE disjE)
    fix p q r assume "s = p @ t" "p = q @ r" "P q" "R r"
    then have "s = q @ (r @ t)" by simp
    with \<open>P q\<close> \<open>R r\<close> show ?thesis by blast
  qed simp
next
  assume "t = s \<or> (\<exists>u. (\<exists>q. s = q @ u \<and> P q) \<and> (\<exists>r. u = r @ t \<and> R r))"
  then show "\<exists>p. s = p @ t \<and> (p = [] \<or> (\<exists>q r. p = q @ r \<and> P q \<and> R r))"
  proof (elim disjE exE conjE)
    fix u q r assume "s = q @ u" "P q" "u = r @ t" "R r"
    then show ?thesis by (intro exI [of _ "q @ r"]) auto
  qed simp
qed

lemma rests_lang: "t \<in> set (rests r s) \<longleftrightarrow> (\<exists>p. s = p @ t \<and> p \<in> lang r)"
proof (induction r s arbitrary: t rule: rests.induct)
  case (3 a b s)
  have "t \<in> set (rests (Sq a b) s) \<longleftrightarrow> (\<exists>u \<in> set (rests a s). t \<in> set (rests b u))" by simp
  also have "\<dots> \<longleftrightarrow> (\<exists>u. (\<exists>p. s = p @ u \<and> p \<in> lang a) \<and> (\<exists>q. u = q @ t \<and> q \<in> lang b))"
    using 3 by blast
  finally show ?case by (simp only: lang_Sq_rest)
next
  case (5 n a s)
  have "t \<in> set (rests (UpTo (Suc n) a) s) \<longleftrightarrow> t = s \<or> (\<exists>u \<in> set (rests a s). t \<in> set (rests (UpTo n a) u))"
    by auto
  also have "\<dots> \<longleftrightarrow> t = s \<or> (\<exists>u. (\<exists>p. s = p @ u \<and> p \<in> lang a) \<and> (\<exists>q. u = q @ t \<and> q \<in> lang (UpTo n a)))"
    using 5 by blast
  finally show ?case by (simp only: lang_UpTo_Suc first_rest)
next
  case (6 a s)
  have "t \<in> set (rests (Many a) s) \<longleftrightarrow>
      t = s \<or> (\<exists>u \<in> set (rests a s). length u < length s \<and> t \<in> set (rests (Many a) u))"
    by (subst rests.simps) (auto split: if_splits simp del: rests.simps)
  also have "\<dots> \<longleftrightarrow> t = s \<or> (\<exists>u. (\<exists>q. s = q @ u \<and> q \<noteq> [] \<and> q \<in> lang a) \<and>
      (\<exists>p. u = p @ t \<and> p \<in> lang (Many a)))"
  proof -
    have "(u \<in> set (rests a s) \<and> length u < length s \<and> t \<in> set (rests (Many a) u)) \<longleftrightarrow>
       (\<exists>q. s = q @ u \<and> q \<noteq> [] \<and> q \<in> lang a) \<and> (\<exists>p. u = p @ t \<and> p \<in> lang (Many a))" for u
    proof (cases "u \<in> set (rests a s) \<and> length u < length s")
      case True
      then obtain q where q: "s = q @ u" "q \<in> lang a" using 6(1) [of u] by blast
      then have "q \<noteq> []" using True by auto
      with q True 6(2) [of u t] show ?thesis by blast
    next
      case False
      have "length u < length s" if "s = q @ u" "q \<noteq> []" for q using that by simp
      with False show ?thesis using 6(1) [of u] by blast
    qed
    then show ?thesis by blast
  qed
  also have "\<dots> \<longleftrightarrow> (\<exists>p. s = p @ t \<and> (p = [] \<or> (\<exists>q r. p = q @ r \<and> (q \<noteq> [] \<and> q \<in> lang a) \<and> r \<in> lang (Many a))))"
    by (simp only: first_rest)
  also have "\<dots> \<longleftrightarrow> (\<exists>p. s = p @ t \<and> p \<in> lang (Many a))"
    by (rule ex_cong1, rule conj_cong [OF refl], subst (2) lang_Many) (simp only: conj_assoc)
  finally show ?case .
qed (auto simp: lang_UpTo_0 simp del: lang.simps(3))

lemma rx_match_lang: "rx_match r s \<longleftrightarrow> s \<in> lang r"
  by (simp add: rx_match_def rests_lang)

section \<open>The check\<close>

definition letters_digits :: string where
  "letters_digits = ''abcdefghijklmnopqrstuvwxyzABCDEFGHIJKLMNOPQRSTUVWXYZ0123456789''"

definition local_chars :: string where
  "local_chars = letters_digits @ ''.!#$%&'' @ [CHR 0x27] @ ''*+/=?^_'' @ [CHR 0x60] @ ''{|}~-''"

definition label_rx :: rx where
  "label_rx = Sq (Cls letters_digits)
     (Optional (Sq (UpTo 61 (Cls (letters_digits @ ''-''))) (Cls letters_digits)))"

definition emailRegex :: rx where
  "emailRegex = Sq (Plus (Cls local_chars))
     (Sq (Cls ''@'') (Sq label_rx (Many (Sq (Cls ''.'') label_rx))))"

text \<open>\<^verbatim>\<open>net.LookupMX\<close>: the exchangers of a domain, in the order of their preference.\<close>

type_synonym mx_lookup = "string \<Rightarrow> string list res"

definition hp_IsEmailValid :: "mx_lookup \<Rightarrow> string \<Rightarrow> bool res" where
  "hp_IsEmailValid lookup e =
     (if length e < 3 \<and> length e > 254 then Inr False
      else if \<not> rx_match emailRegex e then Inr False
      else
        let parts = split_on (CHR ''@'') e in
        if length parts \<le> 1 then Inl (Panic ''index out of range'')
        else (case lookup (parts ! 1) of
                Inl err \<Rightarrow> Inl err
              | Inr mx \<Rightarrow> if length mx = 0 then Inr False else Inr True))"

definition sv_isEmailValid :: "mx_lookup \<Rightarrow> string \<Rightarrow> bool res" where
  "sv_isEmailValid lookup e =
     (if length e < 3 \<and> length e > 254 then Inr False
      else if \<not> rx_match emailRegex e then Inr False
      else
        let parts = split_on (CHR ''@'') e in
        if length parts \<le> 1 then Inl (Panic ''index out of range'')
        else (case lookup (parts ! 1) of
                Inl err \<Rightarrow> Inl err
              | Inr mx \<Rightarrow> if length mx = 0 then Inr False else Inr True))"

fun hp_StringSliceContains_loop :: "bool \<Rightarrow> string list \<Rightarrow> string \<Rightarrow> bool" where
  "hp_StringSliceContains_loop r [] v = r"
| "hp_StringSliceContains_loop r (x # xs) v = hp_StringSliceContains_loop (if x = v then True else r) xs v"

definition hp_StringSliceContains :: "string list \<Rightarrow> string \<Rightarrow> bool" where
  "hp_StringSliceContains s v = hp_StringSliceContains_loop False s v"

lemma hp_StringSliceContains_iff [simp]: "hp_StringSliceContains s v \<longleftrightarrow> v \<in> set s"
proof -
  have "hp_StringSliceContains_loop r s v \<longleftrightarrow> r \<or> v \<in> set s" for r
    by (induction s arbitrary: r) auto
  then show ?thesis by (simp add: hp_StringSliceContains_def)
qed

section \<open>What the expression accepts\<close>

text \<open>The shape of an address: a local part, and labels of 1 to 63 letters, digits and inner hyphens.\<close>

definition label_ok :: "string \<Rightarrow> bool" where
  "label_ok l \<longleftrightarrow> l \<noteq> [] \<and> length l \<le> 63 \<and> hd l \<in> set letters_digits \<and> last l \<in> set letters_digits \<and>
     set l \<subseteq> set (letters_digits @ ''-'')"

fun join_dots :: "string list \<Rightarrow> string" where
  "join_dots [] = []"
| "join_dots [l] = l"
| "join_dots (l # m # ls) = l @ CHR ''.'' # join_dots (m # ls)"

definition email_shape :: "string \<Rightarrow> string list \<Rightarrow> string \<Rightarrow> bool" where
  "email_shape loc labels e \<longleftrightarrow> e = loc @ CHR ''@'' # join_dots labels \<and> loc \<noteq> [] \<and>
     set loc \<subseteq> set local_chars \<and> labels \<noteq> [] \<and> list_all label_ok labels"

lemma split_single: "(\<exists>q r. s = q @ r \<and> q \<in> lang (Cls cs) \<and> P r) \<longleftrightarrow> (\<exists>c \<in> set cs. \<exists>r. s = c # r \<and> P r)"
proof
  assume "\<exists>c \<in> set cs. \<exists>r. s = c # r \<and> P r"
  then obtain c r where "c \<in> set cs" "s = [c] @ r" "P r" by auto
  then have "s = [c] @ r \<and> [c] \<in> lang (Cls cs) \<and> P r" by simp
  then show "\<exists>q r. s = q @ r \<and> q \<in> lang (Cls cs) \<and> P r" by blast
qed auto

lemma lang_Sq_Cls: "p \<in> lang (Sq (Cls cs) b) \<longleftrightarrow> (\<exists>c \<in> set cs. \<exists>q. p = c # q \<and> q \<in> lang b)"
  unfolding lang.simps(2) mem_Collect_eq by (rule split_single)

lemma lang_UpTo_Cls: "p \<in> lang (UpTo n (Cls cs)) \<longleftrightarrow> length p \<le> n \<and> set p \<subseteq> set cs"
proof (induction n arbitrary: p)
  case (Suc n)
  show ?case unfolding lang_UpTo_Suc split_single Suc by (cases p) auto
qed (simp only: lang_UpTo_0, auto)

lemma lang_Many_Cls: "p \<in> lang (Many (Cls cs)) \<longleftrightarrow> set p \<subseteq> set cs"
proof (induction p)
  case Nil
  then show ?case by (subst lang_Many) simp
next
  case (Cons c p)
  have "c # p \<in> lang (Many (Cls cs)) \<longleftrightarrow>
      (\<exists>q r. c # p = q @ r \<and> q \<in> lang (Cls cs) \<and> r \<in> lang (Many (Cls cs)))"
    by (subst lang_Many) (auto simp del: lang.simps(4))
  then show ?case unfolding split_single by (auto simp: Cons simp del: lang.simps)
qed

lemma lang_Optional: "p \<in> lang (Optional a) \<longleftrightarrow> p = [] \<or> p \<in> lang a"
  using lang_UpTo_Suc [of p 0 a] by (simp del: lang.simps)

lemma lang_label: "l \<in> lang label_rx \<longleftrightarrow> label_ok l"
proof -
  have "l \<in> lang label_rx \<longleftrightarrow>
     (\<exists>c \<in> set letters_digits. l = [c] \<or>
       (\<exists>m. \<exists>d \<in> set letters_digits. l = c # m @ [d] \<and> length m \<le> 61 \<and> set m \<subseteq> set (letters_digits @ ''-'')))"
  proof -
    have tail: "p \<in> lang (Sq a (Cls ds)) \<longleftrightarrow> (\<exists>m. \<exists>d \<in> set ds. p = m @ [d] \<and> m \<in> lang a)" for p a ds
      unfolding lang.simps(2) by auto
    show ?thesis
      unfolding label_rx_def lang_Sq_Cls lang_Optional tail lang_UpTo_Cls by blast
  qed
  also have "\<dots> \<longleftrightarrow> label_ok l"
  proof
    assume "label_ok l"
    then obtain c m where l: "l = c # m" and c: "c \<in> set letters_digits" by (cases l) (auto simp: label_ok_def)
    show "\<exists>c \<in> set letters_digits. l = [c] \<or>
       (\<exists>m. \<exists>d \<in> set letters_digits. l = c # m @ [d] \<and> length m \<le> 61 \<and> set m \<subseteq> set (letters_digits @ ''-''))"
    proof (cases m rule: rev_cases)
      case Nil
      with l c show ?thesis by blast
    next
      case (snoc m' d)
      with l \<open>label_ok l\<close> have "d \<in> set letters_digits" "length m' \<le> 61" "set m' \<subseteq> set (letters_digits @ ''-'')"
        by (auto simp: label_ok_def)
      with l c snoc show ?thesis by blast
    qed
  qed (auto simp: label_ok_def)
  finally show ?thesis .
qed

lemma lang_more_labels: "p \<in> lang (Many (Sq (Cls ''.'') label_rx)) \<longleftrightarrow>
  (\<exists>labels. list_all label_ok labels \<and> p = concat (map (\<lambda>l. CHR ''.'' # l) labels))"
proof -
  have step: "q \<in> lang (Sq (Cls ''.'') label_rx) \<longleftrightarrow> (\<exists>l. q = CHR ''.'' # l \<and> label_ok l)" for q
    unfolding lang_Sq_Cls lang_label by auto
  have "set ps \<subseteq> lang (Sq (Cls ''.'') label_rx) \<longleftrightarrow>
      (\<exists>labels. list_all label_ok labels \<and> ps = map (\<lambda>l. CHR ''.'' # l) labels)" for ps
  proof (induction ps)
    case (Cons q ps)
    show ?case
    proof
      assume "set (q # ps) \<subseteq> lang (Sq (Cls ''.'') label_rx)"
      then obtain l labels where "q = CHR ''.'' # l" "label_ok l" "list_all label_ok labels"
        "ps = map (\<lambda>l. CHR ''.'' # l) labels"
        using Cons step [of q] by auto
      then show "\<exists>labels. list_all label_ok labels \<and> q # ps = map (\<lambda>l. CHR ''.'' # l) labels"
        by (intro exI [of _ "l # labels"]) simp
    next
      assume "\<exists>labels. list_all label_ok labels \<and> q # ps = map (\<lambda>l. CHR ''.'' # l) labels"
      then show "set (q # ps) \<subseteq> lang (Sq (Cls ''.'') label_rx)"
        using Cons step [of q] by (auto simp: Cons_eq_map_conv)
    qed
  qed simp
  then have "(\<exists>ps. p = concat ps \<and> set ps \<subseteq> lang (Sq (Cls ''.'') label_rx)) \<longleftrightarrow>
      (\<exists>labels. list_all label_ok labels \<and> p = concat (map (\<lambda>l. CHR ''.'' # l) labels))"
    by (simp del: lang.simps) blast
  then show ?thesis unfolding lang.simps(4) by simp
qed

lemma join_dots_concat: "join_dots (l # ls) = l @ concat (map (\<lambda>l. CHR ''.'' # l) ls)"
  by (induction ls arbitrary: l) auto

lemma email_regex_shape: "rx_match emailRegex e \<longleftrightarrow> (\<exists>loc labels. email_shape loc labels e)"
proof -
  have loc: "p \<in> lang (Plus (Cls local_chars)) \<longleftrightarrow> p \<noteq> [] \<and> set p \<subseteq> set local_chars" for p
    unfolding lang_Sq_Cls lang_Many_Cls by (cases p) auto
  have dom: "p \<in> lang (Sq label_rx (Many (Sq (Cls ''.'') label_rx))) \<longleftrightarrow>
      (\<exists>labels. labels \<noteq> [] \<and> list_all label_ok labels \<and> p = join_dots labels)" for p
  proof -
    have "p \<in> lang (Sq label_rx (Many (Sq (Cls ''.'') label_rx))) \<longleftrightarrow>
       (\<exists>l ls. label_ok l \<and> list_all label_ok ls \<and> p = join_dots (l # ls))"
      unfolding lang.simps(2) [of label_rx] mem_Collect_eq lang_label lang_more_labels join_dots_concat by blast
    also have "\<dots> \<longleftrightarrow> (\<exists>labels. labels \<noteq> [] \<and> list_all label_ok labels \<and> p = join_dots labels)"
      by (metis list.distinct(1) list.exhaust list.pred_inject(2))
    finally show ?thesis .
  qed
  have at: "p \<in> lang (Sq (Cls ''@'') b) \<longleftrightarrow> (\<exists>q. p = CHR ''@'' # q \<and> q \<in> lang b)" for p b
    unfolding lang_Sq_Cls by auto
  have "rx_match emailRegex e \<longleftrightarrow> (\<exists>p q. e = p @ q \<and> p \<in> lang (Plus (Cls local_chars)) \<and>
      q \<in> lang (Sq (Cls ''@'') (Sq label_rx (Many (Sq (Cls ''.'') label_rx)))))"
    unfolding rx_match_lang emailRegex_def lang.simps(2) [of "Plus (Cls local_chars)"] by blast
  also have "\<dots> \<longleftrightarrow> (\<exists>loc labels. email_shape loc labels e)"
    unfolding loc at dom email_shape_def by blast
  finally show ?thesis .
qed

lemma at_not_in_parts: "CHR ''@'' \<notin> set local_chars" "CHR ''@'' \<notin> set (letters_digits @ ''-'')"
  by code_simp+

lemma join_dots_no_at: "list_all label_ok labels \<Longrightarrow> CHR ''@'' \<notin> set (join_dots labels)"
  using at_not_in_parts(2) by (induction labels rule: join_dots.induct) (auto simp: label_ok_def)

lemma email_parts:
  assumes "email_shape loc labels e"
  shows "split_on (CHR ''@'') e = [loc, join_dots labels]"
proof -
  have "CHR ''@'' \<notin> set loc" "CHR ''@'' \<notin> set (join_dots labels)"
    using assms at_not_in_parts(1) join_dots_no_at by (auto simp: email_shape_def)
  with assms show ?thesis
    by (simp add: email_shape_def split_on_append_sep split_on_no_sep)
qed

section \<open>Property\<close>

text \<open>
  C37: an address is found valid exactly when it is a non-empty local part of the allowed characters,
  one at sign and dot-separated labels of 1 to 63 letters, digits and inner hyphens, and the
  lookup of that domain finds a mail exchanger; the check never indexes out of range. No bound
  on the length of the whole address applies, whatever the guard before the match says.
\<close>

theorem email_valid_iff:
  "(hp_IsEmailValid lookup e = Inr True \<longleftrightarrow>
      (\<exists>loc labels m ms. email_shape loc labels e \<and> lookup (join_dots labels) = Inr (m # ms))) \<and>
   (\<nexists>m. hp_IsEmailValid (\<lambda>d. Inr (mx d)) e = Inl (Panic m)) \<and>
   sv_isEmailValid lookup e = hp_IsEmailValid lookup e"
proof (cases "\<exists>loc labels. email_shape loc labels e")
  case False
  then have "\<not> rx_match emailRegex e" by (simp add: email_regex_shape)
  with False show ?thesis by (simp add: hp_IsEmailValid_def sv_isEmailValid_def)
next
  case True
  then obtain loc labels where shape: "email_shape loc labels e" by blast
  then have match: "rx_match emailRegex e" unfolding email_regex_shape by blast
  have valid: "hp_IsEmailValid f e = (case f (join_dots labels) of Inl err \<Rightarrow> Inl err
      | Inr mx \<Rightarrow> if length mx = 0 then Inr False else Inr True)" for f
    using match email_parts [OF shape] by (auto simp: hp_IsEmailValid_def)
  have unique: "join_dots labels' = join_dots labels" if "email_shape loc' labels' e" for loc' labels'
    using email_parts [OF shape] email_parts [OF that] by simp
  have "hp_IsEmailValid lookup e = Inr True \<longleftrightarrow> (\<exists>m ms. lookup (join_dots labels) = Inr (m # ms))"
    by (auto simp: valid neq_Nil_conv split: sum.split)
  then have "hp_IsEmailValid lookup e = Inr True \<longleftrightarrow>
      (\<exists>loc labels m ms. email_shape loc labels e \<and> lookup (join_dots labels) = Inr (m # ms))"
    using shape unique by metis
  moreover have "\<nexists>m. hp_IsEmailValid (\<lambda>d. Inr (mx d)) e = Inl (Panic m)" by (simp add: valid)
  moreover have "sv_isEmailValid lookup e = hp_IsEmailValid lookup e"
    by (simp add: hp_IsEmailValid_def sv_isEmailValid_def)
  ultimately show ?thesis by blast
qed

text \<open>The expression runs.\<close>

lemma email_examples:
  "rx_match emailRegex ''ann@x.io''" "\<not> rx_match emailRegex ''ann@-x.io''" "\<not> rx_match emailRegex ''a@b@c''"
  by code_simp+

end
