(* ===== verification/Db_Entities.thy ===== *)
theory Db_Entities
  imports Schema "HOL-Library.AList"
begin

text \<open>
  Package \<^verbatim>\<open>backend/pkg/dbentities\<close>: the audio clip of a post or a comment is stored in a JSON
  column. \<open>NewAudioRawJSON\<close> is \<^verbatim>\<open>json.Marshal\<close> on the generated struct (fields with
  \<^verbatim>\<open>omitempty\<close>, bytes in base64), \<open>AudioRawJSONToPB\<close> is \<^verbatim>\<open>json.Unmarshal\<close> into an empty
  one. Strings are the valid UTF-8 the API decodes, which JSON carries unchanged.
\<close>

record pb_audio =
  au_id :: string
  au_bytes :: "byte list"
  au_format :: string
  au_duration_ms :: int

definition empty_audio :: pb_audio where
  "empty_audio = \<lparr>au_id = [], au_bytes = [], au_format = [], au_duration_ms = 0\<rparr>"

text \<open>\<^verbatim>\<open>None\<close> is the nil pointer, which marshals to null.\<close>

definition NewAudioRawJSON :: "pb_audio option \<Rightarrow> json res" where
  "NewAudioRawJSON ao = Inr (case ao of
     None \<Rightarrow> JNull
   | Some a \<Rightarrow> JObj (
       (if au_id a = [] then [] else [(''id'', JStr (au_id a))]) @
       (if au_bytes a = [] then [] else [(''bytes'', JStr (b64_encode (au_bytes a)))]) @
       (if au_format a = [] then [] else [(''format'', JStr (au_format a))]) @
       (if au_duration_ms a = 0 then [] else [(''duration_ms'', JNum (au_duration_ms a))])))"

definition unmarshal_err :: goerror where
  "unmarshal_err = ErrNew ''json: cannot unmarshal''"

text \<open>
  Decoding a value into a field of the struct. Null leaves a string or a number as it is and
  empties a byte slice; a byte slice also reads an array of small numbers.
\<close>

fun decode_string :: "json \<Rightarrow> string \<Rightarrow> string res" where
  "decode_string (JStr s) _ = Inr s"
| "decode_string JNull old = Inr old"
| "decode_string _ _ = Inl unmarshal_err"

fun decode_int32 :: "json \<Rightarrow> int \<Rightarrow> int res" where
  "decode_int32 (JNum n) _ = (if int32_range n then Inr n else Inl unmarshal_err)"
| "decode_int32 JNull old = Inr old"
| "decode_int32 _ _ = Inl unmarshal_err"

fun decode_byte :: "json \<Rightarrow> byte res" where
  "decode_byte (JNum n) = (if 0 \<le> n \<and> n < 256 then Inr (word_of_int n) else Inl unmarshal_err)"
| "decode_byte JNull = Inr 0"
| "decode_byte _ = Inl unmarshal_err"

fun decode_list :: "('a \<Rightarrow> 'b res) \<Rightarrow> 'a list \<Rightarrow> 'b list res" where
  "decode_list f [] = Inr []"
| "decode_list f (x # xs) =
     (case f x of Inl e \<Rightarrow> Inl e
      | Inr y \<Rightarrow> (case decode_list f xs of Inl e \<Rightarrow> Inl e | Inr ys \<Rightarrow> Inr (y # ys)))"

fun decode_bytes :: "json \<Rightarrow> byte list res" where
  "decode_bytes (JStr s) =
     (case b64_decode s of None \<Rightarrow> Inl (ErrNew ''illegal base64 data'') | Some bs \<Rightarrow> Inr bs)"
| "decode_bytes (JArr vs) = decode_list decode_byte vs"
| "decode_bytes JNull = Inr []"
| "decode_bytes _ = Inl unmarshal_err"

text \<open>Keys match field names up to case; other keys are skipped.\<close>

definition decode_audio_field :: "string \<Rightarrow> json \<Rightarrow> pb_audio \<Rightarrow> pb_audio res" where
  "decode_audio_field key v a =
     (if to_lower key = ''id'' then map_sum id (\<lambda>s. a\<lparr>au_id := s\<rparr>) (decode_string v (au_id a))
      else if to_lower key = ''bytes'' then map_sum id (\<lambda>bs. a\<lparr>au_bytes := bs\<rparr>) (decode_bytes v)
      else if to_lower key = ''format'' then map_sum id (\<lambda>s. a\<lparr>au_format := s\<rparr>) (decode_string v (au_format a))
      else if to_lower key = ''duration_ms''
        then map_sum id (\<lambda>n. a\<lparr>au_duration_ms := n\<rparr>) (decode_int32 v (au_duration_ms a))
      else Inr a)"

text \<open>
  \<^verbatim>\<open>json.Unmarshal\<close> into a struct: the fields of an object one after the other; null leaves the
  struct as it is.
\<close>

fun decode_fields :: "(string \<Rightarrow> json \<Rightarrow> 'a \<Rightarrow> 'a res) \<Rightarrow> (string \<times> json) list \<Rightarrow> 'a \<Rightarrow> 'a res" where
  "decode_fields f [] a = Inr a"
| "decode_fields f ((k, v) # kvs) a =
     (case f k v a of Inl e \<Rightarrow> Inl e | Inr a' \<Rightarrow> decode_fields f kvs a')"

fun decode_struct :: "(string \<Rightarrow> json \<Rightarrow> 'a \<Rightarrow> 'a res) \<Rightarrow> json \<Rightarrow> 'a \<Rightarrow> 'a res" where
  "decode_struct f JNull a = Inr a"
| "decode_struct f (JObj kvs) a = decode_fields f kvs a"
| "decode_struct f _ a = Inl unmarshal_err"

definition AudioRawJSONToPB :: "json \<Rightarrow> pb_audio res" where
  "AudioRawJSONToPB j = decode_struct decode_audio_field j empty_audio"

section \<open>Lists that convert element by element\<close>

lemma decode_list_Inr: "decode_list f xs = Inr ys \<longleftrightarrow> list_all2 (\<lambda>x y. f x = Inr y) xs ys"
proof (induction xs arbitrary: ys)
  case Nil
  then show ?case by auto
next
  case (Cons x xs)
  show ?case
    by (cases ys; cases "f x"; cases "decode_list f xs") (auto simp flip: Cons.IH)
qed

lemma decode_list_total: "(\<And>x. x \<in> set xs \<Longrightarrow> \<exists>y. f x = Inr y) \<Longrightarrow> \<exists>ys. decode_list f xs = Inr ys"
proof (induction xs)
  case (Cons x xs)
  then obtain y ys where "f x = Inr y" "decode_list f xs = Inr ys" by (meson list.set_intros)
  then show ?case by simp
qed simp

lemma list_all2_map_eq: "list_all2 P xs ys \<Longrightarrow> (\<And>x y. P x y \<Longrightarrow> g y = f x) \<Longrightarrow> map g ys = map f xs"
  by (induction rule: list_all2_induct) auto

lemma list_all2_source: "list_all2 P xs ys \<Longrightarrow> y \<in> set ys \<Longrightarrow> \<exists>x \<in> set xs. P x y"
  by (induction rule: list_all2_induct) auto

section \<open>The round trip\<close>

lemma decode_fields_append:
  "decode_fields f (xs @ ys) a =
     (case decode_fields f xs a of Inl e \<Rightarrow> Inl e | Inr b \<Rightarrow> decode_fields f ys b)"
  by (induction f xs a rule: decode_fields.induct) (auto split: sum.splits)

lemma field_names [simp]:
  "to_lower ''id'' = ''id''" "to_lower ''bytes'' = ''bytes''" "to_lower ''format'' = ''format''"
  "to_lower ''duration_ms'' = ''duration_ms''"
  by (simp_all add: to_lower_def lower_char_def)

lemma AudioRawJSONToPB_simps [simp]:
  "AudioRawJSONToPB JNull = Inr empty_audio"
  "AudioRawJSONToPB (JObj kvs) = decode_fields decode_audio_field kvs empty_audio"
  by (simp_all add: AudioRawJSONToPB_def)

lemma audio_decode_encode:
  "int32_range (au_duration_ms a) \<Longrightarrow> NewAudioRawJSON (Some a) = Inr j \<Longrightarrow> AudioRawJSONToPB j = Inr a"
  by (auto simp: NewAudioRawJSON_def AudioRawJSONToPB_def decode_fields_append decode_audio_field_def empty_audio_def)

text \<open>
  An audio clip written to a JSON column and read back is the same clip: identifier, bytes
  (through base64), format and duration, also where empty fields were left out of the text.
\<close>

theorem audio_json_round_trip:
  assumes "int32_range (au_duration_ms a)"
  shows "\<exists>j. NewAudioRawJSON (Some a) = Inr j \<and> AudioRawJSONToPB j = Inr a"
  using audio_decode_encode [OF assms] by (simp add: NewAudioRawJSON_def)

lemma audio_json_round_trip_witness:
  "\<exists>j. NewAudioRawJSON (Some \<lparr>au_id = ''a1'', au_bytes = [0, 255, 7, 66], au_format = [],
       au_duration_ms = 1500\<rparr>) = Inr j \<and>
     AudioRawJSONToPB j = Inr \<lparr>au_id = ''a1'', au_bytes = [0, 255, 7, 66], au_format = [],
       au_duration_ms = 1500\<rparr>"
  by (rule audio_json_round_trip) (simp add: int32_range_def)

section \<open>Lists of users\<close>

text \<open>
  A list is a map of user ids to names, kept as the pairs of the map in some order; \<^verbatim>\<open>None\<close> is the
  nil map. Marshalling writes the pairs in the order of their keys, which no reader observes. A
  null where a value is expected reads as the empty text.
\<close>

type_synonym string_map = "(string \<times> string) list"

definition NewList :: "string_map option" where
  "NewList = Some []"

definition NewListFromMap :: "string_map option \<Rightarrow> string_map option" where
  "NewListFromMap m = (case m of None \<Rightarrow> NewList | Some kvs \<Rightarrow> Some kvs)"

definition list_ToRawJSON :: "string_map option \<Rightarrow> json res" where
  "list_ToRawJSON l = Inr (case l of None \<Rightarrow> JNull | Some kvs \<Rightarrow> JObj (map (\<lambda>(k, v). (k, JStr v)) kvs))"

definition decode_entry :: "string \<Rightarrow> json \<Rightarrow> string_map \<Rightarrow> string_map res" where
  "decode_entry k v m = map_sum id (\<lambda>s. AList.update k s m) (decode_string v '''')"

fun list_UnmarshalJSON :: "json \<Rightarrow> string_map option \<Rightarrow> string_map option res" where
  "list_UnmarshalJSON JNull l = Inr None"
| "list_UnmarshalJSON (JObj kvs) l =
     map_sum id Some (decode_fields decode_entry kvs (case l of None \<Rightarrow> [] | Some m \<Rightarrow> m))"
| "list_UnmarshalJSON _ l = Inl unmarshal_err"

definition list_GetMap :: "string_map option \<Rightarrow> string_map option" where
  "list_GetMap l = l"

lemma decode_entry_string [simp]: "decode_entry k (JStr v) m = Inr (AList.update k v m)"
  by (simp add: decode_entry_def)

lemma decode_entries:
  assumes "distinct (map fst kvs)" and "fst ` set kvs \<inter> fst ` set m = {}"
  shows "decode_fields decode_entry (map (\<lambda>(k, v). (k, JStr v)) kvs) m = Inr (m @ kvs)"
  using assms
proof (induction kvs arbitrary: m)
  case (Cons kv kvs)
  obtain k v where kv: "kv = (k, v)" by (cases kv)
  have "AList.update k v m = m @ [(k, v)]"
    using Cons.prems(2) kv by (induction m) auto
  moreover have "decode_fields decode_entry (map (\<lambda>(k, v). (k, JStr v)) kvs) (m @ [(k, v)]) = Inr ((m @ [(k, v)]) @ kvs)"
    using Cons.prems kv by (intro Cons.IH) auto
  ultimately show ?case by (simp add: kv)
qed simp

lemma list_round_trip:
  assumes "distinct (map fst kvs)" and "list_ToRawJSON (Some kvs) = Inr j"
  shows "list_UnmarshalJSON j NewList = Inr (Some kvs)"
proof -
  have j: "j = JObj (map (\<lambda>(k, v). (k, JStr v)) kvs)"
    using assms(2) by (simp add: list_ToRawJSON_def)
  show ?thesis
    using decode_entries [OF assms(1), of "[]"] by (simp add: j NewList_def)
qed

section \<open>Backgrounds of mixes\<close>

record pb_background =
  bg_fallback :: string
  bg_image :: string

definition empty_background :: pb_background where
  "empty_background = \<lparr>bg_fallback = [], bg_image = []\<rparr>"

definition NewBackgroundRawJSON :: "pb_background option \<Rightarrow> json res" where
  "NewBackgroundRawJSON bo = Inr (case bo of
     None \<Rightarrow> JNull
   | Some b \<Rightarrow> JObj (
       (if bg_fallback b = [] then [] else [(''fallback'', JStr (bg_fallback b))]) @
       (if bg_image b = [] then [] else [(''background_image'', JStr (bg_image b))])))"

definition decode_background_field :: "string \<Rightarrow> json \<Rightarrow> pb_background \<Rightarrow> pb_background res" where
  "decode_background_field key v b =
     (if to_lower key = ''fallback'' then map_sum id (\<lambda>s. b\<lparr>bg_fallback := s\<rparr>) (decode_string v (bg_fallback b))
      else if to_lower key = ''background_image'' then map_sum id (\<lambda>s. b\<lparr>bg_image := s\<rparr>) (decode_string v (bg_image b))
      else Inr b)"

definition UnmarshalBackgroundJSON :: "json \<Rightarrow> pb_background res" where
  "UnmarshalBackgroundJSON j = decode_struct decode_background_field j empty_background"

lemma background_round_trip:
  "NewBackgroundRawJSON (Some b) = Inr j \<Longrightarrow> UnmarshalBackgroundJSON j = Inr b"
proof -
  have [simp]: "to_lower ''fallback'' = ''fallback''" "to_lower ''background_image'' = ''background_image''"
    by (simp_all add: to_lower_def lower_char_def)
  show "NewBackgroundRawJSON (Some b) = Inr j \<Longrightarrow> UnmarshalBackgroundJSON j = Inr b"
    by (auto simp: NewBackgroundRawJSON_def UnmarshalBackgroundJSON_def decode_fields_append
        decode_background_field_def empty_background_def)
qed

end
