(* ===== verification/Posts_Dir.thy ===== *)
theory Posts_Dir
  imports Schema Db_Entities
begin

text \<open>
  Package \<^verbatim>\<open>backend/posts\<close>: statements, directory and conversions, over the table
  \<^verbatim>\<open>posts\<close>; and what posts and comments share, a row with a like counter and the list of the
  users who liked it. \<^verbatim>\<open>current_timestamp\<close> and the order \<^verbatim>\<open>RANDOM()\<close> gives are arguments; a
  sort keeps the order of rows with equal keys.
\<close>

section \<open>Rows with likes\<close>

definition bump :: "int \<Rightarrow> int nullable \<Rightarrow> int nullable" where
  "bump d n = (case n of Val i \<Rightarrow> Val (i + d) | Null \<Rightarrow> Null)"

lemma bump_Val [simp]: "bump d (Val i) = Val (i + d)"
  by (simp add: bump_def)

text \<open>\<^verbatim>\<open>ORDER BY key DESC\<close>, NULL first.\<close>

definition sort_desc :: "('a \<Rightarrow> 'k::linorder) \<Rightarrow> 'a list \<Rightarrow> 'a list" where
  "sort_desc key xs = rev (sort_key key (rev xs))"

lemma mset_sort_desc [simp]: "mset (sort_desc key xs) = mset xs"
  by (simp add: sort_desc_def)

lemma set_sort_desc [simp]: "set (sort_desc key xs) = set xs"
  by (simp add: sort_desc_def)

lemma length_sort_desc [simp]: "length (sort_desc key xs) = length xs"
  by (simp add: sort_desc_def)

lemma sorted_sort_desc: "sorted_wrt (\<lambda>x y. key y \<le> key x) (sort_desc key xs)"
  using sorted_sort_key [of key "rev xs"]
  by (simp add: sort_desc_def sorted_wrt_rev sorted_map)

text \<open>
  The contract of the counter and the list: liking adds one to both, taking a like back
  subtracts one and removes the user from the list.
\<close>

locale liked_rows =
  fixes likes :: "'r \<Rightarrow> int nullable" and likers :: "'r \<Rightarrow> string list"
    and like_row :: "string \<Rightarrow> 'r \<Rightarrow> 'r" and unlike_row :: "string \<Rightarrow> 'r \<Rightarrow> 'r"
  assumes likes_like: "likes (like_row u r) = bump 1 (likes r)"
    and likers_like: "likers (like_row u r) = likers r @ [u]"
    and likes_unlike: "likes (unlike_row u r) = bump (- 1) (likes r)"
    and likers_unlike: "likers (unlike_row u r) = removeAll u (likers r)"
begin

definition balanced :: "'r \<Rightarrow> bool" where
  "balanced r \<longleftrightarrow> likes r = Val (int (length (likers r))) \<and> distinct (likers r)"

definition toggle :: "string \<Rightarrow> 'r \<Rightarrow> 'r" where
  "toggle u r = (if u \<in> set (likers r) then unlike_row u r else like_row u r)"

lemma likers_toggle:
  "set (likers (toggle u r)) = (if u \<in> set (likers r) then set (likers r) - {u} else insert u (set (likers r)))"
  by (auto simp: toggle_def likers_like likers_unlike)

lemma balanced_toggle:
  assumes "balanced r"
  shows "balanced (toggle u r)"
proof (cases "u \<in> set (likers r)")
  case True
  then have "length (remove1 u (likers r)) + 1 = length (likers r)"
    using length_pos_if_in_set [OF True] by (simp add: length_remove1)
  with True assms show ?thesis
    by (simp add: balanced_def toggle_def likes_unlike likers_unlike distinct_remove1_removeAll [symmetric])
next
  case False
  with assms show ?thesis by (simp add: balanced_def toggle_def likes_like likers_like)
qed

lemma toggle_twice: "set (likers (toggle u (toggle u r))) = set (likers r)"
  by (auto simp: likers_toggle)

lemma toggle_twice_likes: "balanced r \<Longrightarrow> likes (toggle u (toggle u r)) = likes r"
  using balanced_toggle [of r u] balanced_toggle [of "toggle u r" u] toggle_twice [of u r]
  by (simp add: balanced_def distinct_card [symmetric])

lemma like_again: "balanced r \<Longrightarrow> u \<in> set (likers r) \<Longrightarrow> \<not> balanced (like_row u r)"
  by (simp add: balanced_def likers_like)

end

section \<open>Statements\<close>

record create_post_params =
  cpp_id :: string
  cpp_author :: string
  cpp_message :: string
  cpp_audio :: json
  cpp_created_at :: "int nullable"

definition created_post :: "create_post_params \<Rightarrow> post_row" where
  "created_post arg = \<lparr>p_likes = Val 0, p_audio = cpp_audio arg, p_id = cpp_id arg,
     p_author = cpp_author arg, p_message = cpp_message arg, p_user_ids_who_likes = [],
     p_created_at = cpp_created_at arg\<rparr>"

definition q_CreatePost :: "create_post_params \<Rightarrow> db \<Rightarrow> post_row res \<times> db" where
  "q_CreatePost arg = exec_stmt (\<lambda>t.
     returning (created_post arg)
       (put (tbl_insert posts_schema (created_post arg) (posts t)) (\<lambda>rs. t\<lparr>posts := rs\<rparr>)))"

definition q_GetPost :: "string \<Rightarrow> db \<Rightarrow> post_row res \<times> db" where
  "q_GetPost i = exec_query (\<lambda>t. one_row (filter (\<lambda>p. p_id p = i) (posts t)))"

definition q_GetPosts :: "db \<Rightarrow> post_row list res \<times> db" where
  "q_GetPosts = exec_query (\<lambda>t. Inr (posts t))"

definition one_day :: int where
  "one_day = 86400000000"

definition trending_pool :: "int \<Rightarrow> post_row list \<Rightarrow> post_row list" where
  "trending_pool now ps = take 30 (sort_desc p_likes
     (filter (\<lambda>p. holds (gt3 (p_created_at p) (Val (now - one_day)))) ps))"

definition q_GetTrendingTodayPostIDs ::
    "int \<Rightarrow> (string list \<Rightarrow> string list) \<Rightarrow> db \<Rightarrow> string list res \<times> db" where
  "q_GetTrendingTodayPostIDs now shuffle = exec_query (\<lambda>t.
     Inr (take 10 (shuffle (map p_id (trending_pool now (posts t))))))"

definition q_GetTrendingTodayPosts ::
    "int \<Rightarrow> (post_row list \<Rightarrow> post_row list) \<Rightarrow> db \<Rightarrow> post_row list res \<times> db" where
  "q_GetTrendingTodayPosts now shuffle = exec_query (\<lambda>t.
     Inr (take 10 (shuffle (trending_pool now (posts t)))))"

definition q_HasUserLikedPost :: "string \<Rightarrow> string \<Rightarrow> db \<Rightarrow> bool res \<times> db" where
  "q_HasUserLikedPost i u = exec_query (\<lambda>t. Inr (list_ex
     (\<lambda>p. p_id p = i \<and> cast100 u \<in> set (map cast100 (p_user_ids_who_likes p))) (posts t)))"

definition like_post :: "string \<Rightarrow> post_row \<Rightarrow> post_row" where
  "like_post u p = p\<lparr>p_likes := bump 1 (p_likes p),
     p_user_ids_who_likes := p_user_ids_who_likes p @ [u]\<rparr>"

definition unlike_post :: "string \<Rightarrow> post_row \<Rightarrow> post_row" where
  "unlike_post u p = p\<lparr>p_likes := bump (- 1) (p_likes p),
     p_user_ids_who_likes := removeAll u (p_user_ids_who_likes p)\<rparr>"

definition q_LikePost :: "string \<Rightarrow> string \<Rightarrow> db \<Rightarrow> post_row res \<times> db" where
  "q_LikePost u i = exec_stmt (\<lambda>t.
     returning_one (map (like_post (cast100 u)) (filter (\<lambda>p. p_id p = i) (posts t)))
       (put (tbl_update posts_schema (\<lambda>p. p_id p = i) (like_post (cast100 u)) (posts t))
          (\<lambda>rs. t\<lparr>posts := rs\<rparr>)))"

definition q_RemoveLikeFromPost :: "string \<Rightarrow> string \<Rightarrow> db \<Rightarrow> post_row res \<times> db" where
  "q_RemoveLikeFromPost u i = exec_stmt (\<lambda>t.
     returning_one (map (unlike_post (cast100 u)) (filter (\<lambda>p. p_id p = i) (posts t)))
       (put (tbl_update posts_schema (\<lambda>p. p_id p = i) (unlike_post (cast100 u)) (posts t))
          (\<lambda>rs. t\<lparr>posts := rs\<rparr>)))"

interpretation post_likes: liked_rows p_likes p_user_ids_who_likes like_post unlike_post
  by unfold_locales (simp_all add: like_post_def unlike_post_def)

section \<open>Messages of the API\<close>

datatype pb_thread_type = ThreadType_POST | ThreadType_COMMENT | ThreadType_NONE | ThreadType_other int

datatype pb_comment = PbComment
    (cmt_id: string) (cmt_message: string) (cmt_audio: "pb_audio option") (cmt_author: string)
    (cmt_parent_id: string) (cmt_likes: int) (cmt_post_id: string) (cmt_thread: "pb_thread option")
    (cmt_has_already_liked: bool)
and pb_thread = PbThread
    (th_thread_type: pb_thread_type) (th_target_id: string) (th_comment: "pb_comment option")

record pb_post =
  pst_id :: string
  pst_message :: string
  pst_author :: string
  pst_audio :: "pb_audio option"
  pst_comments :: "pb_comment list"
  pst_has_already_liked :: bool
  pst_likes :: int

section \<open>The directory\<close>

definition pgPostToPB :: "post_row \<Rightarrow> pb_post res" where
  "pgPostToPB p =
     (case AudioRawJSONToPB (p_audio p) of
        Inl e \<Rightarrow> Inl (Errorf ''error converting audio to PB'' [e])
      | Inr audio \<Rightarrow> Inr \<lparr>pst_id = p_id p, pst_message = p_message p, pst_author = p_author p,
          pst_audio = Some audio, pst_comments = [], pst_has_already_liked = False,
          pst_likes = null_int (p_likes p)\<rparr>)"

definition trendingTodayPostsListToPB :: "post_row list \<Rightarrow> pb_post list res" where
  "trendingTodayPostsListToPB ps = decode_list pgPostToPB ps"

definition dir_CreatePost :: "create_post_params \<Rightarrow> db \<Rightarrow> pb_post res \<times> db" where
  "dir_CreatePost arg c =
     check_err (q_CreatePost arg c) (\<lambda>e. Errorf ''error creating postgres post'' [e]) (\<lambda>p c.
       (pgPostToPB p, c))"

definition dir_GetPost :: "string \<Rightarrow> db \<Rightarrow> pb_post res \<times> db" where
  "dir_GetPost i c = check_err (q_GetPost i c) same_err (\<lambda>p c. (pgPostToPB p, c))"

definition dir_GetPosts :: "db \<Rightarrow> pb_post list res \<times> db" where
  "dir_GetPosts c = check_err (q_GetPosts c) same_err (\<lambda>ps c. (decode_list pgPostToPB ps, c))"

definition dir_LikePost :: "string \<Rightarrow> string \<Rightarrow> db \<Rightarrow> pb_post res \<times> db" where
  "dir_LikePost u i c = check_err (q_LikePost u i c) same_err (\<lambda>p c. (pgPostToPB p, c))"

definition dir_RemoveLikeFromPost :: "string \<Rightarrow> string \<Rightarrow> db \<Rightarrow> pb_post res \<times> db" where
  "dir_RemoveLikeFromPost u i c =
     check_err (q_RemoveLikeFromPost u i c) same_err (\<lambda>p c. (pgPostToPB p, c))"

definition dir_HasUserLikedPost :: "string \<Rightarrow> string \<Rightarrow> db \<Rightarrow> bool res \<times> db" where
  "dir_HasUserLikedPost i u c = check_err (q_HasUserLikedPost i u c) same_err (\<lambda>ok c. (Inr ok, c))"

definition dir_GetTrendingTodayPosts ::
    "int \<Rightarrow> (post_row list \<Rightarrow> post_row list) \<Rightarrow> db \<Rightarrow> pb_post list res \<times> db" where
  "dir_GetTrendingTodayPosts now shuffle c =
     check_err (q_GetTrendingTodayPosts now shuffle c) same_err (\<lambda>ps c.
       (trendingTodayPostsListToPB ps, c))"

definition dir_GetTrendingTodayPostIDs ::
    "int \<Rightarrow> (string list \<Rightarrow> string list) \<Rightarrow> db \<Rightarrow> string list res \<times> db" where
  "dir_GetTrendingTodayPostIDs now shuffle c =
     check_err (q_GetTrendingTodayPostIDs now shuffle c) same_err (\<lambda>is c. (Inr is, c))"

section \<open>The statements keep the constraints\<close>

lemma q_CreatePost_wf [inv_intros]:
  "tables_wf (dbt c) \<Longrightarrow> tables_wf (dbt (snd (q_CreatePost arg c)))"
  unfolding q_CreatePost_def
  by (rule exec_stmt_inv) (auto simp: ok_simps tables_wf_def intro: tbl_wf_steps)

lemma q_LikePost_wf [inv_intros]:
  "tables_wf (dbt c) \<Longrightarrow> tables_wf (dbt (snd (q_LikePost u i c)))"
  unfolding q_LikePost_def
  by (rule exec_stmt_inv) (auto simp: ok_simps tables_wf_def intro: tbl_wf_steps)

lemma q_RemoveLikeFromPost_wf [inv_intros]:
  "tables_wf (dbt c) \<Longrightarrow> tables_wf (dbt (snd (q_RemoveLikeFromPost u i c)))"
  unfolding q_RemoveLikeFromPost_def
  by (rule exec_stmt_inv) (auto simp: ok_simps tables_wf_def intro: tbl_wf_steps)

lemma posts_reads_tbl [simp]:
  "dbt (snd (q_GetPost i c)) = dbt c"
  "dbt (snd (q_GetPosts c)) = dbt c"
  "dbt (snd (q_HasUserLikedPost i u c)) = dbt c"
  "dbt (snd (q_GetTrendingTodayPosts now shuffle c)) = dbt c"
  "dbt (snd (q_GetTrendingTodayPostIDs now shuffle' c)) = dbt c"
  by (simp_all add: q_GetPost_def q_GetPosts_def q_HasUserLikedPost_def
      q_GetTrendingTodayPosts_def q_GetTrendingTodayPostIDs_def)

text \<open>Every post's counter is the number of users on its list, and no user is on it twice.\<close>

definition posts_balanced :: "tables \<Rightarrow> bool" where
  "posts_balanced t \<longleftrightarrow> (\<forall>p \<in> set (posts t). post_likes.balanced p)"

lemma post_row_check_unlike:
  "row_check posts_schema p = None \<Longrightarrow> post_likes.balanced p \<Longrightarrow> u \<in> set (p_user_ids_who_likes p)
     \<Longrightarrow> row_check posts_schema (unlike_post u p) = None"
  using length_pos_if_in_set [of u "p_user_ids_who_likes p"]
  by (auto simp: posts_schema_def row_checks post_likes.balanced_def unlike_post_def int32_range_def)

lemma post_row_check_like:
  "row_check posts_schema p = None \<Longrightarrow> post_likes.balanced p \<Longrightarrow> length u \<le> 100
     \<Longrightarrow> int (length (p_user_ids_who_likes p)) < 2 ^ 31 - 1
     \<Longrightarrow> row_check posts_schema (like_post u p) = None"
  by (auto simp: posts_schema_def row_checks post_likes.balanced_def like_post_def int32_range_def)

lemma post_likers_short:
  "tables_wf t \<Longrightarrow> p \<in> set (posts t) \<Longrightarrow> map cast100 (p_user_ids_who_likes p) = p_user_ids_who_likes p"
  by (auto simp: tables_wf_def tbl_wf_def posts_schema_def row_checks cast100_id intro!: map_idI)

text \<open>An update of one post that keeps its key goes through when the new row fits its columns.\<close>

lemma post_update_ok:
  assumes wf: "tables_wf t" and "up c" and t: "dbt c = t" and p: "p \<in> set (posts t)"
    and check: "row_check posts_schema (f p) = None" and key: "\<And>q. p_id (f q) = p_id q"
  shows "exec_stmt (\<lambda>t. returning_one (map f (filter (\<lambda>q. p_id q = p_id p) (posts t)))
       (put (tbl_update posts_schema (\<lambda>q. p_id q = p_id p) f (posts t)) (\<lambda>rs. t\<lparr>posts := rs\<rparr>))) c =
     (Inr (f p), c\<lparr>dbt := t\<lparr>posts := map (\<lambda>q. if p_id q = p_id p then f q else q) (posts t)\<rparr>\<rparr>)"
proof -
  let ?rs = "map (\<lambda>q. if p_id q = p_id p then f q else q) (posts t)"
  have single: "filter (\<lambda>q. p_id q = p_id p) (posts t) = [p]"
    by (rule filter_eq_single [OF posts_ids_distinct [OF wf] p])
  have "q = p" if "q \<in> set (posts t)" "p_id q = p_id p" for q
    using posts_ids_distinct [OF wf] p that by (simp add: distinct_map inj_on_def)
  then have "tbl_update posts_schema (\<lambda>q. p_id q = p_id p) f (posts t) = Inr ?rs"
    using wf check key by (intro tbl_update_ok) (auto simp: tables_wf_def posts_schema_def)
  moreover have "put (Inr ?rs) (\<lambda>rs. t\<lparr>posts := rs\<rparr>) = Inr (t\<lparr>posts := ?rs\<rparr>)"
    using wf by (intro put_same_keys [of t]) (auto simp: tables_wf_fk)
  ultimately show ?thesis
    using \<open>up c\<close> t single by (simp add: exec_stmt_up returning_one_def)
qed

section \<open>Sample tables\<close>

definition sample_post :: "string \<Rightarrow> string list \<Rightarrow> post_row" where
  "sample_post i us = \<lparr>p_likes = Val (int (length us)), p_audio = JObj [(''id'', JStr ''clip'')],
     p_id = i, p_author = ''1'', p_message = ''hello'', p_user_ids_who_likes = us,
     p_created_at = Val 1\<rparr>"

definition sample_posts :: tables where
  "sample_posts = no_rows\<lparr>posts := [sample_post ''p'' [''2''], sample_post ''q'' []]\<rparr>"

lemma sample_posts_wf: "tables_wf sample_posts" "posts_balanced sample_posts"
  by (code_simp, simp add: posts_balanced_def post_likes.balanced_def sample_posts_def sample_post_def)

section \<open>Today's trending posts\<close>

lemma mset_take_le: "mset (take n xs) \<subseteq># mset xs"
  by (metis append_take_drop_id mset_append mset_subset_eq_add_left)

lemma filter_larger_take:
  assumes "sorted_wrt (\<lambda>x y. key y \<le> key x) xs" and "p \<in> set (take n xs)"
  shows "length (filter (\<lambda>q. (key p :: 'k::linorder) < key q) xs) < n"
  using assms
proof (induction xs arbitrary: n)
  case Nil
  then show ?case by simp
next
  case (Cons y ys)
  then obtain m where n: "n = Suc m" by (cases n) auto
  show ?case
  proof (cases "p \<in> set (take m ys)")
    case True
    with Cons.IH [of m] Cons.prems(1) have "length (filter (\<lambda>q. key p < key q) ys) < m" by simp
    with n show ?thesis by simp
  next
    case False
    with Cons.prems n have "p = y" by simp
    moreover have "filter (\<lambda>q. key y < key q) ys = []"
      using Cons.prems(1) by (auto simp: filter_empty_conv)
    ultimately show ?thesis using n by simp
  qed
qed

definition posts_today :: "int \<Rightarrow> tables \<Rightarrow> post_row list" where
  "posts_today now t = filter (\<lambda>p. holds (gt3 (p_created_at p) (Val (now - one_day)))) (posts t)"

text \<open>
  The trending posts are ten posts of the last day, or as many as there are of the thirty
  most liked; a post is shown only if fewer than thirty posts of the day have more likes,
  however the random order of the second query turns out.
\<close>

theorem trending_posts_rank:
  assumes "\<And>xs. mset (shuffle xs) = mset xs"
  shows "\<exists>ps. q_GetTrendingTodayPosts now shuffle (db_of t) = (Inr ps, db_of t) \<and>
      length ps = min 10 (length (posts_today now t)) \<and> mset ps \<subseteq># mset (posts_today now t) \<and>
      (\<forall>p \<in> set ps. length (filter (\<lambda>q. p_likes p < p_likes q) (posts_today now t)) < 30)"
proof -
  let ?day = "posts_today now t"
  let ?pool = "trending_pool now (posts t)"
  have pool: "?pool = take 30 (sort_desc p_likes ?day)"
    by (simp add: trending_pool_def posts_today_def)
  have "length (filter (\<lambda>q. p_likes p < p_likes q) ?day) < 30" if "p \<in> set ?pool" for p
  proof -
    have "length (filter (\<lambda>q. p_likes p < p_likes q) (sort_desc p_likes ?day)) < 30"
      using that pool by (intro filter_larger_take) (simp_all add: sorted_sort_desc)
    moreover have "mset (filter (\<lambda>q. p_likes p < p_likes q) (sort_desc p_likes ?day)) =
        mset (filter (\<lambda>q. p_likes p < p_likes q) ?day)" by simp
    ultimately show ?thesis by (metis size_mset)
  qed
  moreover have "mset (take 10 (shuffle ?pool)) \<subseteq># mset ?day"
    using mset_take_le [of 10 "shuffle ?pool"] mset_take_le [of 30 "sort_desc p_likes ?day"]
    by (simp only: assms pool mset_sort_desc)
  moreover have "length (shuffle ?pool) = length ?pool" "set (shuffle ?pool) = set ?pool"
    using assms [of ?pool] by (metis size_mset, metis set_mset_mset)
  ultimately show ?thesis
    by (intro exI [of _ "take 10 (shuffle ?pool)"])
       (auto simp: q_GetTrendingTodayPosts_def exec_query_up up_def db_of_def pool min_def dest: in_set_takeD)
qed

lemma trending_posts_rank_witness:
  "\<exists>ps. q_GetTrendingTodayPosts 5 rev (db_of sample_posts) = (Inr ps, db_of sample_posts) \<and>
      length ps = min 10 (length (posts_today 5 sample_posts)) \<and>
      mset ps \<subseteq># mset (posts_today 5 sample_posts) \<and>
      (\<forall>p \<in> set ps. length (filter (\<lambda>q. p_likes p < p_likes q) (posts_today 5 sample_posts)) < 30)"
  by (rule trending_posts_rank) simp

end
