(* ===== verification/Notifications_Dir.thy ===== *)
theory Notifications_Dir
  imports Users_Dir Posts_Dir
begin

text \<open>
  Package \<^verbatim>\<open>backend/notifications\<close>: statements, directory and conversions, over the table
  \<^verbatim>\<open>notifications\<close>. Every read joins the user who fired the event; the rows
  \<^verbatim>\<open>CreateNotificationRow\<close>, \<^verbatim>\<open>GetAllNotificationsRow\<close>, \<^verbatim>\<open>GetNotificationRow\<close>,
  \<^verbatim>\<open>GetNotificationByIDRow\<close>, \<^verbatim>\<open>GetUnreadNotificationsRow\<close> and \<^verbatim>\<open>ReadNotificationRow\<close> have
  the same fields. A date is an integer, as in the other tables.
\<close>

section \<open>Statements\<close>

record notification_user_row =
  nr_id :: string
  nr_user_id_to_notify :: string
  nr_user_id_who_fired_event :: string
  nr_date :: int
  nr_read :: bool
  nr_trigger_id :: "string nullable"
  nr_event_id :: string
  nr_content :: "string nullable"
  nr_username :: "string nullable"

definition notification_with_user :: "notification_row \<Rightarrow> user_row \<Rightarrow> notification_user_row" where
  "notification_with_user n u = \<lparr>
     nr_id = n_id n, nr_user_id_to_notify = n_user_id_to_notify n,
     nr_user_id_who_fired_event = n_user_id_who_fired_event n, nr_date = n_date n,
     nr_read = n_read n, nr_trigger_id = n_trigger_id n, nr_event_id = n_event_id n,
     nr_content = n_content n, nr_username = u_username u\<rparr>"

definition with_users :: "notification_row list \<Rightarrow> user_row list \<Rightarrow> notification_user_row list" where
  "with_users ns us =
     [notification_with_user n u. n \<leftarrow> ns, u \<leftarrow> us, u_id u = n_user_id_who_fired_event n]"

text \<open>
  A statement that writes and then selects through a JOIN: the rows written stay when the JOIN
  is empty, and \<^verbatim>\<open>QueryRow(...).Scan\<close> then gives \<^verbatim>\<open>sql.ErrNoRows\<close>.
\<close>

definition scan_one :: "'a list res \<times> 's \<Rightarrow> 'a res \<times> 's" where
  "scan_one rs = check_err rs same_err (\<lambda>xs s. (map_sum ErrSql id (one_row xs), s))"

record create_notification_params =
  cnp_id :: string
  cnp_user_id_to_notify :: string
  cnp_user_id_who_fired_event :: string
  cnp_trigger_id :: "string nullable"
  cnp_event_id :: string
  cnp_date :: int
  cnp_content :: "string nullable"

definition created_notification :: "create_notification_params \<Rightarrow> notification_row" where
  "created_notification arg = \<lparr>
     n_id = cnp_id arg, n_user_id_to_notify = cnp_user_id_to_notify arg,
     n_user_id_who_fired_event = cnp_user_id_who_fired_event arg, n_date = cnp_date arg,
     n_read = False, n_trigger_id = cnp_trigger_id arg, n_event_id = cnp_event_id arg,
     n_content = cnp_content arg\<rparr>"

definition q_CreateNotification ::
    "create_notification_params \<Rightarrow> db \<Rightarrow> notification_user_row res \<times> db" where
  "q_CreateNotification arg c = scan_one (exec_stmt (\<lambda>t.
     returning (with_users [created_notification arg] (users t))
       (put (tbl_insert notifications_schema (created_notification arg) (notifications t))
          (\<lambda>rs. t\<lparr>notifications := rs\<rparr>))) c)"

text \<open>The ORDER BY at the end of a UNION ALL sorts all of it.\<close>

definition q_GetAllNotifications :: "string \<Rightarrow> db \<Rightarrow> notification_user_row list res \<times> db" where
  "q_GetAllNotifications i = exec_query (\<lambda>t. Inr (sort_desc nr_date
     (with_users (filter (\<lambda>n. n_user_id_to_notify n = i \<and> n_read n) (notifications t)) (users t) @
      with_users (filter (\<lambda>n. n_user_id_to_notify n = i \<and> \<not> n_read n) (notifications t)) (users t))))"

definition same_event :: "string \<Rightarrow> string \<Rightarrow> string nullable \<Rightarrow> string \<Rightarrow> notification_row \<Rightarrow> bool" where
  "same_event notify fired trigger event n \<longleftrightarrow>
     n_user_id_to_notify n = notify \<and> n_user_id_who_fired_event n = fired \<and>
     holds (eq3 (n_trigger_id n) trigger) \<and> n_event_id n = event"

definition q_GetNotification ::
    "string \<Rightarrow> string \<Rightarrow> string nullable \<Rightarrow> string \<Rightarrow> db \<Rightarrow> notification_user_row res \<times> db" where
  "q_GetNotification notify fired trigger event = exec_query (\<lambda>t.
     one_row (with_users (filter (same_event notify fired trigger event) (notifications t)) (users t)))"

definition q_GetNotificationByID :: "string \<Rightarrow> db \<Rightarrow> notification_user_row res \<times> db" where
  "q_GetNotificationByID i = exec_query (\<lambda>t.
     one_row (with_users (filter (\<lambda>n. n_id n = i) (notifications t)) (users t)))"

definition q_GetUnreadNotifications :: "string \<Rightarrow> db \<Rightarrow> notification_user_row list res \<times> db" where
  "q_GetUnreadNotifications i = exec_query (\<lambda>t. Inr (sort_desc nr_date
     (with_users (filter (\<lambda>n. n_user_id_to_notify n = i \<and> \<not> n_read n) (notifications t)) (users t))))"

definition q_NotificationAlreadyExists ::
    "string \<Rightarrow> string \<Rightarrow> string nullable \<Rightarrow> string \<Rightarrow> db \<Rightarrow> bool res \<times> db" where
  "q_NotificationAlreadyExists notify fired trigger event = exec_query (\<lambda>t.
     Inr (list_ex (same_event notify fired trigger event) (notifications t)))"

definition q_ReadNotification :: "string \<Rightarrow> db \<Rightarrow> notification_user_row res \<times> db" where
  "q_ReadNotification i c = scan_one (exec_stmt (\<lambda>t.
     returning
       (with_users (map (\<lambda>n. n\<lparr>n_read := True\<rparr>) (filter (\<lambda>n. n_id n = i) (notifications t))) (users t))
       (put (tbl_update notifications_schema (\<lambda>n. n_id n = i) (\<lambda>n. n\<lparr>n_read := True\<rparr>) (notifications t))
          (\<lambda>rs. t\<lparr>notifications := rs\<rparr>))) c)"

section \<open>Messages and events\<close>

datatype pb_event_id = EventID_LIKE_POST | EventID_LIKE_COMMENT | EventID_COMMENT | EventID_FOLLOW
  | EventID_other int

record pb_event =
  evt_id :: pb_event_id
  evt_text :: string

record pb_user_who_fired =
  uwf_id :: string
  uwf_username :: string

record pb_notification =
  ntf_id :: string
  ntf_date :: int
  ntf_trigger_id :: string
  ntf_event :: "pb_event option"
  ntf_user_who_fired_event :: "pb_user_who_fired option"
  ntf_read :: bool
  ntf_content :: string

definition EventIDLikePost :: string where "EventIDLikePost = ''LIKE_POST''"
definition EventIDLikeComment :: string where "EventIDLikeComment = ''LIKE_COMMENT''"
definition EventIDComment :: string where "EventIDComment = ''COMMENT''"
definition EventIDFollow :: string where "EventIDFollow = ''FOLLOW''"

definition pgEventIDToPB :: "string \<Rightarrow> pb_event_id res" where
  "pgEventIDToPB e =
     (if e = EventIDLikePost then Inr EventID_LIKE_POST
      else if e = EventIDLikeComment then Inr EventID_LIKE_COMMENT
      else if e = EventIDComment then Inr EventID_COMMENT
      else if e = EventIDFollow then Inr EventID_FOLLOW
      else Inl (Errorf ''invalid event id received'' []))"

definition getEventTextByID :: "string \<Rightarrow> string res" where
  "getEventTextByID e =
     (if e = EventIDLikePost then Inr ''liked your post!''
      else if e = EventIDLikeComment then Inr ''liked your comment!''
      else if e = EventIDComment then Inr ''commented your post''
      else if e = EventIDFollow then Inr ''started following you!''
      else Inl (Errorf ''invalid event id received'' []))"

definition pgNotificationToPB :: "notification_user_row \<Rightarrow> pb_notification res" where
  "pgNotificationToPB n =
     (case pgEventIDToPB (nr_event_id n) of
        Inl e \<Rightarrow> Inl e
      | Inr ev \<Rightarrow> (case getEventTextByID (nr_event_id n) of
          Inl e \<Rightarrow> Inl e
        | Inr txt \<Rightarrow> Inr \<lparr>
            ntf_id = nr_id n, ntf_date = nr_date n, ntf_trigger_id = null_string (nr_trigger_id n),
            ntf_event = Some \<lparr>evt_id = ev, evt_text = txt\<rparr>,
            ntf_user_who_fired_event = Some \<lparr>uwf_id = nr_user_id_who_fired_event n,
              uwf_username = null_string (nr_username n)\<rparr>,
            ntf_read = nr_read n, ntf_content = null_string (nr_content n)\<rparr>))"

definition pgUnreadNotificationsListToPB :: "notification_user_row list \<Rightarrow> pb_notification list res" where
  "pgUnreadNotificationsListToPB ns = decode_list pgNotificationToPB ns"

definition pgGetAllNotificationsListToPB :: "notification_user_row list \<Rightarrow> pb_notification list res" where
  "pgGetAllNotificationsListToPB ns = decode_list pgNotificationToPB ns"

section \<open>The directory\<close>

definition dir_CreateNotification ::
    "create_notification_params \<Rightarrow> db \<Rightarrow> pb_notification res \<times> db" where
  "dir_CreateNotification arg c =
     check_err (q_CreateNotification arg c) same_err (\<lambda>n c. (pgNotificationToPB n, c))"

definition dir_GetUnreadNotifications :: "string \<Rightarrow> db \<Rightarrow> pb_notification list res \<times> db" where
  "dir_GetUnreadNotifications i c =
     check_err (q_GetUnreadNotifications i c) same_err (\<lambda>ns c. (pgUnreadNotificationsListToPB ns, c))"

definition dir_ReadNotification :: "string \<Rightarrow> db \<Rightarrow> pb_notification res \<times> db" where
  "dir_ReadNotification i c =
     check_err (q_ReadNotification i c) same_err (\<lambda>n c. (pgNotificationToPB n, c))"

definition dir_NotificationAlreadyExists ::
    "string \<Rightarrow> string \<Rightarrow> string nullable \<Rightarrow> string \<Rightarrow> db \<Rightarrow> bool res \<times> db" where
  "dir_NotificationAlreadyExists notify fired trigger event c =
     q_NotificationAlreadyExists notify fired trigger event c"

definition dir_GetNotification ::
    "string \<Rightarrow> string \<Rightarrow> string nullable \<Rightarrow> string \<Rightarrow> db \<Rightarrow> pb_notification res \<times> db" where
  "dir_GetNotification notify fired trigger event c =
     check_err (q_GetNotification notify fired trigger event c) same_err (\<lambda>n c. (pgNotificationToPB n, c))"

definition dir_GetAllNotifications :: "string \<Rightarrow> db \<Rightarrow> pb_notification list res \<times> db" where
  "dir_GetAllNotifications i c =
     check_err (q_GetAllNotifications i c) same_err (\<lambda>ns c. (pgGetAllNotificationsListToPB ns, c))"

section \<open>The statements keep the constraints\<close>

lemma scan_one_tbl [simp]: "snd (scan_one rs) = snd rs"
  by (cases rs; cases "fst rs") (auto simp: scan_one_def)

lemma scan_one_Inr: "scan_one rs = (Inr x, s) \<longleftrightarrow> (\<exists>rest. rs = (Inr (x # rest), s))"
proof (cases rs)
  case (Pair r s')
  then show ?thesis
    by (cases r) (auto simp: scan_one_def one_row_def split: list.splits)
qed

lemma q_CreateNotification_wf [inv_intros]:
  "tables_wf (dbt c) \<Longrightarrow> tables_wf (dbt (snd (q_CreateNotification arg c)))"
  unfolding q_CreateNotification_def scan_one_tbl
  by (rule exec_stmt_inv) (auto simp: ok_simps tables_wf_def intro: tbl_wf_steps)

lemma q_ReadNotification_wf [inv_intros]:
  "tables_wf (dbt c) \<Longrightarrow> tables_wf (dbt (snd (q_ReadNotification i c)))"
  unfolding q_ReadNotification_def scan_one_tbl
  by (rule exec_stmt_inv) (auto simp: ok_simps tables_wf_def intro: tbl_wf_steps)

lemma notifications_reads_tbl [simp]:
  "dbt (snd (q_GetAllNotifications i c)) = dbt c"
  "dbt (snd (q_GetNotification a b tr ev c)) = dbt c"
  "dbt (snd (q_GetNotificationByID i c)) = dbt c"
  "dbt (snd (q_GetUnreadNotifications i c)) = dbt c"
  "dbt (snd (q_NotificationAlreadyExists a b tr ev c)) = dbt c"
  by (simp_all add: q_GetAllNotifications_def q_GetNotification_def q_GetNotificationByID_def
      q_GetUnreadNotifications_def q_NotificationAlreadyExists_def)

section \<open>Joins and conversions\<close>

definition event_ids :: "string list" where
  "event_ids = [EventIDLikePost, EventIDLikeComment, EventIDComment, EventIDFollow]"

lemma pgNotificationToPB_valid:
  "nr_event_id n \<in> set event_ids \<Longrightarrow> \<exists>m. pgNotificationToPB n = Inr m"
  by (auto simp: event_ids_def pgNotificationToPB_def pgEventIDToPB_def getEventTextByID_def
      EventIDLikePost_def EventIDLikeComment_def EventIDComment_def EventIDFollow_def)

lemma pgNotificationToPB_Inr:
  assumes "pgNotificationToPB n = Inr m"
  shows "ntf_id m = nr_id n" "ntf_date m = nr_date n" "ntf_read m = nr_read n"
    "ntf_content m = null_string (nr_content n)"
  using assms by (auto simp: pgNotificationToPB_def split: sum.splits)

lemma with_users_concat:
  "with_users ns us = concat (map (\<lambda>n. map (notification_with_user n)
     (filter (\<lambda>u. n_user_id_who_fired_event n = u_id u) us)) ns)"
proof -
  have "concat (map (\<lambda>u. if u_id u = n_user_id_who_fired_event n then [notification_with_user n u] else []) us) =
      map (notification_with_user n) (filter (\<lambda>u. n_user_id_who_fired_event n = u_id u) us)" for n
    by (induction us) auto
  then show ?thesis by (simp add: with_users_def)
qed

lemma with_users_Nil [simp]: "with_users [] us = []"
  by (simp add: with_users_def)

text \<open>The JOIN keeps the rows whose sender exists, once each.\<close>

lemma with_users_ids:
  assumes "distinct (map u_id us)"
  shows "map nr_id (with_users ns us) = map n_id (filter (\<lambda>n. n_user_id_who_fired_event n \<in> u_id ` set us) ns)"
proof (induction ns)
  case Nil
  then show ?case by simp
next
  case (Cons n ns)
  have "map nr_id (map (notification_with_user n) (filter (\<lambda>u. n_user_id_who_fired_event n = u_id u) us)) =
      (if n_user_id_who_fired_event n \<in> u_id ` set us then [n_id n] else [])"
  proof (cases "n_user_id_who_fired_event n \<in> u_id ` set us")
    case True
    obtain u where "filter (\<lambda>u. n_user_id_who_fired_event n = u_id u) us = [u]"
      by (rule user_with_id [OF assms True])
    with True show ?thesis by (simp add: notification_with_user_def)
  next
    case False
    then have "filter (\<lambda>u. n_user_id_who_fired_event n = u_id u) us = []"
      by (auto simp: filter_empty_conv)
    with False show ?thesis by simp
  qed
  with Cons show ?case by (simp add: with_users_concat)
qed

lemma in_with_users:
  "r \<in> set (with_users ns us) \<Longrightarrow> \<exists>n u. n \<in> set ns \<and> u \<in> set us \<and> r = notification_with_user n u \<and>
     u_id u = n_user_id_who_fired_event n"
  unfolding with_users_concat by auto metis

lemma notification_with_user_simps [simp]:
  "nr_id (notification_with_user n u) = n_id n" "nr_date (notification_with_user n u) = n_date n"
  "nr_read (notification_with_user n u) = n_read n" "nr_event_id (notification_with_user n u) = n_event_id n"
  "nr_content (notification_with_user n u) = n_content n"
  by (simp_all add: notification_with_user_def)

definition valid_events :: "tables \<Rightarrow> bool" where
  "valid_events t \<longleftrightarrow> list_all (\<lambda>n. n_event_id n \<in> set event_ids) (notifications t)"

lemma mset_filter_split:
  "mset (map f (filter P (filter (\<lambda>x. A x \<and> R x) xs))) +
     mset (map f (filter P (filter (\<lambda>x. A x \<and> \<not> R x) xs))) = mset (map f (filter (\<lambda>x. A x \<and> P x) xs))"
  unfolding filter_filter by (induction xs) auto

definition notifications_for :: "string \<Rightarrow> tables \<Rightarrow> notification_row list" where
  "notifications_for i t = filter (\<lambda>n. n_user_id_to_notify n = i \<and>
     n_user_id_who_fired_event n \<in> u_id ` set (users t)) (notifications t)"

text \<open>
  Reading all notifications of a user returns each notification sent to it by an existing
  user once, newest first; whether a notification was read plays no part in the order.
\<close>

theorem all_notifications_by_date:
  assumes "tables_wf t" and "valid_events t"
  shows "\<exists>ms. dir_GetAllNotifications i (db_of t) = (Inr ms, db_of t) \<and>
      mset (map ntf_id ms) = mset (map n_id (notifications_for i t)) \<and>
      sorted_wrt (\<lambda>x y. ntf_date y \<le> ntf_date x) ms"
proof -
  let ?read = "filter (\<lambda>n. n_user_id_to_notify n = i \<and> n_read n) (notifications t)"
  let ?unread = "filter (\<lambda>n. n_user_id_to_notify n = i \<and> \<not> n_read n) (notifications t)"
  let ?rows = "sort_desc nr_date (with_users ?read (users t) @ with_users ?unread (users t))"
  have ev: "nr_event_id r \<in> set event_ids" if "r \<in> set ?rows" for r
    using assms(2) that by (auto simp: valid_events_def list_all_iff dest!: in_with_users)
  then obtain ms where "decode_list pgNotificationToPB ?rows = Inr ms"
    using decode_list_total [of ?rows pgNotificationToPB] pgNotificationToPB_valid by blast
  then have all2: "list_all2 (\<lambda>r m. pgNotificationToPB r = Inr m) ?rows ms"
    and get: "dir_GetAllNotifications i (db_of t) = (Inr ms, db_of t)"
    by (simp_all add: decode_list_Inr dir_GetAllNotifications_def q_GetAllNotifications_def exec_query_up
        up_def db_of_def pgGetAllNotificationsListToPB_def)
  have ids: "map ntf_id ms = map nr_id ?rows"
    by (rule list_all2_map_eq [OF all2]) (rule pgNotificationToPB_Inr(1))
  have dates: "map ntf_date ms = map nr_date ?rows"
    by (rule list_all2_map_eq [OF all2]) (rule pgNotificationToPB_Inr(2))
  have "mset (map nr_id ?rows) = mset (map nr_id (with_users ?read (users t))) + mset (map nr_id (with_users ?unread (users t)))"
    by simp
  also have "\<dots> = mset (map n_id (notifications_for i t))"
    unfolding with_users_ids [OF users_ids_distinct [OF assms(1)]] notifications_for_def
    by (rule mset_filter_split)
  finally have "mset (map ntf_id ms) = mset (map n_id (notifications_for i t))"
    by (simp only: ids)
  moreover have "sorted_wrt (\<lambda>x y. y \<le> x) (map ntf_date ms)"
    using sorted_sort_desc [of nr_date] by (simp only: dates sorted_wrt_map)
  then have "sorted_wrt (\<lambda>x y. ntf_date y \<le> ntf_date x) ms"
    by (simp only: sorted_wrt_map)
  ultimately show ?thesis using get by blast
qed

definition sample_notification :: "string \<Rightarrow> int \<Rightarrow> bool \<Rightarrow> notification_row" where
  "sample_notification i date rd = \<lparr>n_id = i, n_user_id_to_notify = ''1'',
     n_user_id_who_fired_event = ''2'', n_date = date, n_read = rd, n_trigger_id = Val ''p'',
     n_event_id = EventIDLikePost, n_content = Val ''hello''\<rparr>"

definition sample_notifications :: tables where
  "sample_notifications = no_rows\<lparr>users := [sample_user ''1'' ''anna'', sample_user ''2'' ''bruno''],
     notifications := [sample_notification ''n1'' 10 False, sample_notification ''n2'' 20 True]\<rparr>"

lemma sample_notifications_wf: "tables_wf sample_notifications" "valid_events sample_notifications"
  by code_simp+

text \<open>In the sample, the unread notification comes after the read one, which is newer.\<close>

lemma all_notifications_by_date_witness:
  "\<exists>ms. dir_GetAllNotifications ''1'' (db_of sample_notifications) = (Inr ms, db_of sample_notifications) \<and>
     mset (map ntf_id ms) = {#''n1'', ''n2''#} \<and> sorted_wrt (\<lambda>x y. ntf_date y \<le> ntf_date x) ms"
proof -
  have "mset (map n_id (notifications_for ''1'' sample_notifications)) = {#''n1'', ''n2''#}"
    by (simp add: notifications_for_def sample_notifications_def sample_notification_def sample_user_def)
  with all_notifications_by_date [OF sample_notifications_wf, of "''1''"] show ?thesis by simp
qed

lemma notification_update_ok:
  assumes wf: "tables_wf t" and n: "n \<in> set (notifications t)"
  shows "put (tbl_update notifications_schema (\<lambda>m. n_id m = i) (\<lambda>m. m\<lparr>n_read := True\<rparr>) (notifications t))
      (\<lambda>rs. t\<lparr>notifications := rs\<rparr>) =
    Inr (t\<lparr>notifications := map (\<lambda>m. if n_id m = i then m\<lparr>n_read := True\<rparr> else m) (notifications t)\<rparr>)"
proof -
  let ?rs = "map (\<lambda>m. if n_id m = i then m\<lparr>n_read := True\<rparr> else m) (notifications t)"
  have "tbl_update notifications_schema (\<lambda>m. n_id m = i) (\<lambda>m. m\<lparr>n_read := True\<rparr>) (notifications t) = Inr ?rs"
    using wf by (intro tbl_update_ok) (auto simp: tables_wf_def tbl_wf_def notifications_schema_def)
  moreover have "put (Inr ?rs) (\<lambda>rs. t\<lparr>notifications := rs\<rparr>) = Inr (t\<lparr>notifications := ?rs\<rparr>)"
    using wf by (intro put_same_keys [of t]) (simp_all add: tables_wf_fk)
  ultimately show ?thesis by simp
qed

definition marked_read :: "string \<Rightarrow> tables \<Rightarrow> tables" where
  "marked_read i t = t\<lparr>notifications :=
     map (\<lambda>m. if n_id m = i then m\<lparr>n_read := True\<rparr> else m) (notifications t)\<rparr>"

text \<open>
  Marking a notification as read returns it as read, changes nothing but its flag, and doing
  it twice is doing it once; the statement never asks whose notification it is.
\<close>

theorem read_notification_effect:
  assumes "tables_wf t" and "valid_events t" and n: "n \<in> set (notifications t)"
    and "n_user_id_who_fired_event n \<in> u_id ` set (users t)"
  shows "\<exists>m. dir_ReadNotification (n_id n) (db_of t) = (Inr m, db_of (marked_read (n_id n) t)) \<and>
      ntf_id m = n_id n \<and> ntf_read m \<and>
      marked_read (n_id n) (marked_read (n_id n) t) = marked_read (n_id n) t \<and>
      tables_wf (marked_read (n_id n) t)"
proof -
  let ?n = "n\<lparr>n_read := True\<rparr>"
  have single: "filter (\<lambda>m. n_id m = n_id n) (notifications t) = [n]"
    by (rule filter_eq_single [OF notifications_ids_distinct [OF assms(1)] n])
  obtain u where "filter (\<lambda>u. n_user_id_who_fired_event n = u_id u) (users t) = [u]"
    by (rule user_with_id [OF users_ids_distinct [OF assms(1)] assms(4)])
  then have join: "with_users [?n] (users t) = [notification_with_user ?n u]"
    by (simp add: with_users_concat)
  obtain m where m: "pgNotificationToPB (notification_with_user ?n u) = Inr m"
    using assms(2) n pgNotificationToPB_valid [of "notification_with_user ?n u"]
    by (auto simp: valid_events_def list_all_iff)
  have q: "q_ReadNotification (n_id n) (db_of t) = (Inr (notification_with_user ?n u), db_of (marked_read (n_id n) t))"
    using join notification_update_ok [OF assms(1) n, of "n_id n"]
    by (simp add: q_ReadNotification_def scan_one_def exec_stmt_up up_def db_of_def single returning_def marked_read_def)
  have "tables_wf (marked_read (n_id n) t)"
    using q_ReadNotification_wf [of "db_of t" "n_id n"] q assms(1) by (simp add: db_of_def)
  moreover have "marked_read (n_id n) (marked_read (n_id n) t) = marked_read (n_id n) t"
    by (simp add: marked_read_def)
  ultimately show ?thesis
    using q m pgNotificationToPB_Inr(1,3) [OF m] by (simp add: dir_ReadNotification_def)
qed

lemma read_notification_effect_witness:
  "\<exists>m. dir_ReadNotification ''n1'' (db_of sample_notifications) = (Inr m, db_of (marked_read ''n1'' sample_notifications)) \<and>
     ntf_read m"
proof -
  have "sample_notification ''n1'' 10 False \<in> set (notifications sample_notifications)"
    "n_user_id_who_fired_event (sample_notification ''n1'' 10 False) \<in> u_id ` set (users sample_notifications)"
    "n_id (sample_notification ''n1'' 10 False) = ''n1''"
    by (simp_all add: sample_notifications_def sample_notification_def sample_user_def)
  with read_notification_effect [OF sample_notifications_wf] show ?thesis by metis
qed

end
