(* ===== verification/Server_State.thy ===== *)
theory Server_State
  imports Schema Redis_Store
begin

text \<open>
  What a request of the backend works on: the connection to the database, the Redis server, and
  the headers sent back so far, with the error \<^verbatim>\<open>grpc.SendHeader\<close> answers with if it cannot
  send. The incoming metadata of the call comes as gRPC keeps it, under keys in lower case
  (\<^verbatim>\<open>backend/pkg/mdutils\<close>).
\<close>

record 'r world =
  wd_db :: db
  wd_rdb :: 'r
  wd_headers :: "(string \<times> string) list"
  wd_header_error :: "goerror option"

definition on_db :: "(db \<Rightarrow> 'a res \<times> db) \<Rightarrow> 'r world \<Rightarrow> 'a res \<times> 'r world" where
  "on_db f w = (case f (wd_db w) of (r, c) \<Rightarrow> (r, w\<lparr>wd_db := c\<rparr>))"

definition on_rdb :: "('r \<Rightarrow> 'a res \<times> 'r) \<Rightarrow> 'r world \<Rightarrow> 'a res \<times> 'r world" where
  "on_rdb f w = (case f (wd_rdb w) of (r, s) \<Rightarrow> (r, w\<lparr>wd_rdb := s\<rparr>))"

definition SendHeader :: "string \<Rightarrow> string \<Rightarrow> 'r world \<Rightarrow> unit res \<times> 'r world" where
  "SendHeader k v w = (case wd_header_error w of
     Some e \<Rightarrow> (Inl e, w)
   | None \<Rightarrow> (Inr (), w\<lparr>wd_headers := wd_headers w @ [(k, v)]\<rparr>))"

lemma on_db_Inr [ok_simps]: "on_db f w = (Inr x, w') \<longleftrightarrow> (\<exists>c. f (wd_db w) = (Inr x, c) \<and> w' = w\<lparr>wd_db := c\<rparr>)"
  by (auto simp: on_db_def split: prod.splits)

lemma on_rdb_Inr [ok_simps]: "on_rdb f w = (Inr x, w') \<longleftrightarrow> (\<exists>s. f (wd_rdb w) = (Inr x, s) \<and> w' = w\<lparr>wd_rdb := s\<rparr>)"
  by (auto simp: on_rdb_def split: prod.splits)

lemma SendHeader_Inr [ok_simps]:
  "SendHeader k v w = (Inr x, w') \<longleftrightarrow> wd_header_error w = None \<and> w' = w\<lparr>wd_headers := wd_headers w @ [(k, v)]\<rparr>"
  by (auto simp: SendHeader_def split: option.splits)

lemma on_db_eq: "f (wd_db w) = (r, c) \<Longrightarrow> on_db f w = (r, w\<lparr>wd_db := c\<rparr>)"
  by (simp add: on_db_def)

lemma on_db_same: "f (wd_db w) = (r, wd_db w) \<Longrightarrow> on_db f w = (r, w)"
  by (simp add: on_db_def)

lemma on_db_proj [simp]:
  "wd_db (snd (on_db f w)) = snd (f (wd_db w))" "wd_rdb (snd (on_db f w)) = wd_rdb w"
  "wd_headers (snd (on_db f w)) = wd_headers w" "fst (on_db f w) = fst (f (wd_db w))"
  by (simp_all add: on_db_def split: prod.split)

lemma on_rdb_proj [simp]:
  "wd_db (snd (on_rdb f w)) = wd_db w" "wd_rdb (snd (on_rdb f w)) = snd (f (wd_rdb w))"
  "wd_headers (snd (on_rdb f w)) = wd_headers w" "fst (on_rdb f w) = fst (f (wd_rdb w))"
  by (simp_all add: on_rdb_def split: prod.split)

lemma SendHeader_proj [simp]:
  "wd_db (snd (SendHeader k v w)) = wd_db w" "wd_rdb (snd (SendHeader k v w)) = wd_rdb w"
  by (simp_all add: SendHeader_def split: option.split)

text \<open>The tables of a world, and an invariant of them through a call on the database.\<close>

abbreviation wd_tables :: "'r world \<Rightarrow> tables" where
  "wd_tables w \<equiv> dbt (wd_db w)"

lemma on_db_inv [inv_intros]: "P (dbt (snd (f (wd_db w)))) \<Longrightarrow> P (dbt (wd_db (snd (on_db f w))))"
  by simp

lemma on_rdb_inv [inv_intros]: "P (wd_db w) \<Longrightarrow> P (wd_db (snd (on_rdb f w)))"
  by simp

lemma SendHeader_inv [inv_intros]: "P (wd_db w) \<Longrightarrow> P (wd_db (snd (SendHeader k v w)))"
  by simp

definition world_of :: "tables \<Rightarrow> 'r \<Rightarrow> 'r world" where
  "world_of t s = \<lparr>wd_db = db_of t, wd_rdb = s, wd_headers = [], wd_header_error = None\<rparr>"

lemma world_of_simps [simp]:
  "wd_db (world_of t s) = db_of t" "wd_rdb (world_of t s) = s" "wd_headers (world_of t s) = []"
  "wd_header_error (world_of t s) = None"
  by (simp_all add: world_of_def)

section \<open>Metadata\<close>

type_synonym metadata = "(string \<times> string list) list"

text \<open>The context of a call: \<^verbatim>\<open>None\<close> when it carries no incoming metadata.\<close>

type_synonym call_context = "metadata option"

definition md_Get :: "metadata \<Rightarrow> string \<Rightarrow> string list" where
  "md_Get md key = (case map_of md (to_lower key) of None \<Rightarrow> [] | Some vs \<Rightarrow> vs)"

definition md_getFirstMDValue :: "metadata \<Rightarrow> string \<Rightarrow> string option" where
  "md_getFirstMDValue md key = (case md_Get md key of [] \<Rightarrow> None | v # _ \<Rightarrow> Some v)"

definition md_GetFirstMDValue :: "metadata \<Rightarrow> string \<Rightarrow> string option" where
  "md_GetFirstMDValue md key = md_getFirstMDValue md key"

definition md_GetFirstServerMDValue :: "metadata \<Rightarrow> string \<Rightarrow> string option" where
  "md_GetFirstServerMDValue header_md key = (case md_Get header_md key of [] \<Rightarrow> None | v # _ \<Rightarrow> Some v)"

definition md_getMetadataFromCtx :: "call_context \<Rightarrow> metadata option" where
  "md_getMetadataFromCtx ctx = ctx"

definition md_GetUserIDFromMD :: "call_context \<Rightarrow> string option" where
  "md_GetUserIDFromMD ctx = (case md_getMetadataFromCtx ctx of
     None \<Rightarrow> None
   | Some md \<Rightarrow> md_getFirstMDValue md ''x-user-id'')"

text \<open>The context the gateway hands on for a user.\<close>

definition user_ctx :: "string \<Rightarrow> call_context" where
  "user_ctx u = Some [(''x-user-id'', [u])]"

lemma user_ctx_id [simp]: "md_GetUserIDFromMD (user_ctx u) = Some u"
proof -
  have "to_lower ''x-user-id'' = ''x-user-id''" by code_simp
  then show ?thesis
    by (simp add: md_GetUserIDFromMD_def md_getMetadataFromCtx_def md_getFirstMDValue_def md_Get_def user_ctx_def)
qed

text \<open>
  The handlers of the service start with it:
  \<^verbatim>\<open>userID, ok := mdutils.GetUserIDFromMD(ctx); if !ok { return nil, InvalidArgument }\<close>.
\<close>

definition with_user :: "call_context \<Rightarrow> (string \<Rightarrow> 'w \<Rightarrow> 'a res \<times> 'w) \<Rightarrow> 'w \<Rightarrow> 'a res \<times> 'w" where
  "with_user ctx k w = (case md_GetUserIDFromMD ctx of
     None \<Rightarrow> (Inl (Status InvalidArgument ''failed to retrieve userID from metadata'' []), w)
   | Some user_id \<Rightarrow> k user_id w)"

lemma with_user_Inr [ok_simps]:
  "with_user ctx k w = (Inr x, w') \<longleftrightarrow> (\<exists>u. md_GetUserIDFromMD ctx = Some u \<and> k u w = (Inr x, w'))"
  by (auto simp: with_user_def split: option.splits)

lemma with_user_ctx [simp]: "with_user (user_ctx u) k w = k u w"
  by (simp add: with_user_def)

lemma with_user_inv [inv_intros]:
  "P w \<Longrightarrow> (\<And>u. P (snd (k u w))) \<Longrightarrow> P (snd (with_user ctx k w))"
  by (simp add: with_user_def split: option.split)

end
