(* ===== verification/Notify_Manager.thy ===== *)
theory Notify_Manager
  imports Notifications_Dir Server_State Go_Lib
begin

text \<open>
  Packages \<^verbatim>\<open>backend/pkg/usersession\<close> and \<^verbatim>\<open>backend/pkg/notifications\<close>: who is online, and the
  manager that stores a notification and pushes it to a user who is. The gob codec of a
  notification is an argument. The identifier and the clock a call draws are arguments too.
\<close>

section \<open>Who is online\<close>

record 'r sessioner =
  us_Log :: "string \<Rightarrow> 'r \<Rightarrow> unit res \<times> 'r"
  us_Unlog :: "string \<Rightarrow> 'r \<Rightarrow> unit res \<times> 'r"
  us_IsOnline :: "string \<Rightarrow> 'r \<Rightarrow> bool res \<times> 'r"

definition prefixActiveUsers :: string where
  "prefixActiveUsers = ''user:online:''"

definition usr_Log :: "'r redis \<Rightarrow> string \<Rightarrow> 'r \<Rightarrow> unit res \<times> 'r" where
  "usr_Log R user_id s = rd_sadd R prefixActiveUsers user_id s"

definition usr_Unlog :: "'r redis \<Rightarrow> string \<Rightarrow> 'r \<Rightarrow> unit res \<times> 'r" where
  "usr_Unlog R user_id s = rd_srem R prefixActiveUsers user_id s"

definition usr_IsOnline :: "'r redis \<Rightarrow> string \<Rightarrow> 'r \<Rightarrow> bool res \<times> 'r" where
  "usr_IsOnline R user_id s = rd_sismember R prefixActiveUsers user_id s"

definition usersession_manager :: "'r redis \<Rightarrow> 'r sessioner" where
  "usersession_manager R =
     \<lparr>us_Log = usr_Log R, us_Unlog = usr_Unlog R, us_IsOnline = usr_IsOnline R\<rparr>"

locale online_users =
  fixes US :: "'s sessioner" and online :: "'s \<Rightarrow> string set"
  assumes log_ok: "us_Log US u s = (Inr x, s') \<Longrightarrow> online s' = insert u (online s)"
    and log_err: "us_Log US u s = (Inl e, s') \<Longrightarrow> online s' = online s \<or> online s' = insert u (online s)"
    and unlog_ok: "us_Unlog US u s = (Inr x, s') \<Longrightarrow> online s' = online s - {u}"
    and unlog_err: "us_Unlog US u s = (Inl e, s') \<Longrightarrow> online s' = online s \<or> online s' = online s - {u}"
    and is_online_frame: "us_IsOnline US u s = (r, s') \<Longrightarrow> online s' = online s"
    and is_online_ok: "us_IsOnline US u s = (Inr b, s') \<Longrightarrow> b \<longleftrightarrow> u \<in> online s"
begin

lemma logged_is_online:
  assumes "us_Log US u s = (Inr x, s1)" and "us_IsOnline US v s1 = (Inr b, s2)"
  shows "b \<longleftrightarrow> v = u \<or> v \<in> online s"
  using log_ok [OF assms(1)] is_online_ok [OF assms(2)] by auto

lemma unlogged_is_offline:
  assumes "us_Unlog US u s = (Inr x, s1)" and "us_IsOnline US v s1 = (Inr b, s2)"
  shows "b \<longleftrightarrow> v \<noteq> u \<and> v \<in> online s"
  using unlog_ok [OF assms(1)] is_online_ok [OF assms(2)] by auto

end

sublocale redis_store \<subseteq> presence: online_users "usersession_manager R" "\<lambda>s. members s prefixActiveUsers"
proof
  fix u s s' x e b and r :: "bool res"
  show "us_Log (usersession_manager R) u s = (Inr x, s') \<Longrightarrow> members s' prefixActiveUsers = insert u (members s prefixActiveUsers)"
    using sadd_ok by (simp add: usersession_manager_def usr_Log_def)
  show "us_Log (usersession_manager R) u s = (Inl e, s') \<Longrightarrow>
      members s' prefixActiveUsers = members s prefixActiveUsers \<or>
      members s' prefixActiveUsers = insert u (members s prefixActiveUsers)"
    using sadd_err [of prefixActiveUsers u s e s'] by (auto simp: usersession_manager_def usr_Log_def)
  show "us_Unlog (usersession_manager R) u s = (Inr x, s') \<Longrightarrow> members s' prefixActiveUsers = members s prefixActiveUsers - {u}"
    using srem_ok by (simp add: usersession_manager_def usr_Unlog_def)
  show "us_Unlog (usersession_manager R) u s = (Inl e, s') \<Longrightarrow>
      members s' prefixActiveUsers = members s prefixActiveUsers \<or>
      members s' prefixActiveUsers = members s prefixActiveUsers - {u}"
    using srem_err [of prefixActiveUsers u s e s'] by (auto simp: usersession_manager_def usr_Unlog_def)
  show "us_IsOnline (usersession_manager R) u s = (r, s') \<Longrightarrow> members s' prefixActiveUsers = members s prefixActiveUsers"
    using sismember_frame [of prefixActiveUsers u s r s'] by (simp add: usersession_manager_def usr_IsOnline_def)
  show "us_IsOnline (usersession_manager R) u s = (Inr b, s') \<Longrightarrow> b \<longleftrightarrow> u \<in> members s prefixActiveUsers"
    using sismember_ok [of prefixActiveUsers u s b s'] by (simp add: usersession_manager_def usr_IsOnline_def)
qed

section \<open>Push messages\<close>

record notification_codec =
  nc_enc :: "pb_notification \<Rightarrow> byte list res"
  nc_dec :: "byte list \<Rightarrow> pb_notification res"

text \<open>The encoder panics on a nil notification; any error it returns is dropped.\<close>

definition EncodeBinaryNotification :: "notification_codec \<Rightarrow> pb_notification option \<Rightarrow> string res" where
  "EncodeBinaryNotification C n = (case n of
     None \<Rightarrow> Inl (Panic ''gob: cannot encode nil pointer'')
   | Some n \<Rightarrow> (case nc_enc C n of Inl e \<Rightarrow> Inr '''' | Inr bs \<Rightarrow> Inr (b64_encode bs)))"

definition DecodeBinaryNotification :: "notification_codec \<Rightarrow> string \<Rightarrow> pb_notification res" where
  "DecodeBinaryNotification C s = (case b64_decode s of
     None \<Rightarrow> Inl (ErrNew ''illegal base64 data'')
   | Some bs \<Rightarrow> nc_dec C bs)"

definition channelPushSubscription :: string where
  "channelPushSubscription = ''push:user:''"

definition getPushChannel :: "string \<Rightarrow> string" where
  "getPushChannel user_id = channelPushSubscription @ user_id"

definition pm_Push ::
    "notification_codec \<Rightarrow> 'r redis \<Rightarrow> string \<Rightarrow> pb_notification option \<Rightarrow> 'r \<Rightarrow> unit res \<times> 'r" where
  "pm_Push C R user_id n s =
     (case EncodeBinaryNotification C n of
        Inl e \<Rightarrow> (Inl e, s)
      | Inr m \<Rightarrow> rd_publish R (getPushChannel user_id) m s)"

text \<open>
  What \<^verbatim>\<open>Subscribe\<close> hands to its reader of the messages its channel receives: the first one that
  does not decode ends the stream.
\<close>

fun pm_Subscribe :: "notification_codec \<Rightarrow> string list \<Rightarrow> pb_notification list" where
  "pm_Subscribe C [] = []"
| "pm_Subscribe C (m # ms) = (case DecodeBinaryNotification C m of
     Inl e \<Rightarrow> []
   | Inr n \<Rightarrow> n # pm_Subscribe C ms)"

section \<open>The manager\<close>

type_synonym resend_condition = "pb_notification \<Rightarrow> bool"

definition ResendConditionNever :: resend_condition where
  "ResendConditionNever n = False"

definition ResendConditionAfter :: "int \<Rightarrow> int \<Rightarrow> resend_condition" where
  "ResendConditionAfter now d n \<longleftrightarrow> now - ntf_date n > d"

record send_params =
  snp_ResendCondition :: "resend_condition option"
  snp_SenderUserID :: string
  snp_ReceiverUserID :: string
  snp_TriggerID :: string
  snp_EventID :: string
  snp_Content :: string

definition truncateString :: "string \<Rightarrow> nat \<Rightarrow> string" where
  "truncateString str num =
     (if length str > num then
        (let num = (if num > 3 then num - 3 else num) in take num str @ ''...'')
      else str)"

text \<open>\<^verbatim>\<open>sql.NullString{String: s, Valid: s != ""}\<close>.\<close>

definition string_or_null :: "string \<Rightarrow> string nullable" where
  "string_or_null s = (if s \<noteq> '''' then Val s else Null)"

definition shouldSendNotification :: "send_params \<Rightarrow> db \<Rightarrow> bool res \<times> db" where
  "shouldSendNotification p c =
     (case dir_GetNotification (snp_ReceiverUserID p) (snp_SenderUserID p)
             (string_or_null (snp_TriggerID p)) EventIDLikePost c of
        (r, c) \<Rightarrow>
          (case r of
             Inl e \<Rightarrow>
               if e \<noteq> ErrSql NoRows then (Inl e, c)
               else if snp_ReceiverUserID p = snp_SenderUserID p then (Inr False, c)
               else (Inr True, c)
           | Inr prev \<Rightarrow>
               if snp_ReceiverUserID p = snp_SenderUserID p then (Inr False, c)
               else (case snp_ResendCondition p of
                       None \<Rightarrow> (Inr True, c)
                     | Some cond \<Rightarrow> (Inr (cond prev), c))))"

definition notification_params :: "string \<Rightarrow> int \<Rightarrow> send_params \<Rightarrow> create_notification_params" where
  "notification_params uuid now p = \<lparr>
     cnp_id = uuid, cnp_user_id_to_notify = snp_ReceiverUserID p,
     cnp_user_id_who_fired_event = snp_SenderUserID p,
     cnp_trigger_id = string_or_null (snp_TriggerID p),
     cnp_event_id = snp_EventID p, cnp_date = now,
     cnp_content = (if snp_Content p \<noteq> '''' then Val (truncateString (snp_Content p) 64) else Null)\<rparr>"

definition createNotification :: "string \<Rightarrow> int \<Rightarrow> send_params \<Rightarrow> db \<Rightarrow> pb_notification res \<times> db" where
  "createNotification uuid now p c = dir_CreateNotification (notification_params uuid now p) c"

text \<open>
  \<^verbatim>\<open>Send\<close>: the error of \<^verbatim>\<open>createNotification\<close> is overwritten by the next call's, and the notification
  it returned with it is nil.
\<close>

definition nm_Send ::
    "notification_codec \<Rightarrow> 'r redis \<Rightarrow> 'r sessioner \<Rightarrow> string \<Rightarrow> int \<Rightarrow> send_params \<Rightarrow> 'r world \<Rightarrow>
     pb_notification option res \<times> 'r world" where
  "nm_Send C R US uuid now p w =
     check_err (on_db (shouldSendNotification p) w) same_err (\<lambda>ok w.
     if \<not> ok then (Inr None, w)
     else
       (case on_db (createNotification uuid now p) w of
          (created, w) \<Rightarrow>
            let n = (case created of Inl e \<Rightarrow> None | Inr n \<Rightarrow> Some n) in
            check_err (on_rdb (us_IsOnline US (snp_ReceiverUserID p)) w) same_err (\<lambda>online w.
            if online then
              check_err (on_rdb (pm_Push C R (snp_ReceiverUserID p) n) w) same_err (\<lambda>_ w. (Inr n, w))
            else (Inr n, w))))"

definition nm_Listen :: "notification_codec \<Rightarrow> string list \<Rightarrow> pb_notification list" where
  "nm_Listen C ms = pm_Subscribe C ms"

section \<open>What a send changes\<close>

text \<open>The part of the manager the handlers rely on: a send adds notifications and nothing else.\<close>

locale notifier =
  fixes send :: "string \<Rightarrow> int \<Rightarrow> send_params \<Rightarrow> 's world \<Rightarrow> pb_notification option res \<times> 's world"
  assumes send_tables: "\<exists>ns. wd_tables (snd (send i d p w)) =
      (wd_tables w)\<lparr>notifications := notifications (wd_tables w) @ ns\<rparr>"
    and send_headers: "wd_headers (snd (send i d p w)) = wd_headers w"
    and send_wf: "tables_wf (wd_tables w) \<Longrightarrow> tables_wf (wd_tables (snd (send i d p w)))"
begin

lemma send_frame:
  "users (wd_tables (snd (send i d p w))) = users (wd_tables w)"
  "posts (wd_tables (snd (send i d p w))) = posts (wd_tables w)"
  "comments (wd_tables (snd (send i d p w))) = comments (wd_tables w)"
  "follows (wd_tables (snd (send i d p w))) = follows (wd_tables w)"
  using send_tables [of i d p w] by auto

end

lemma dir_GetNotification_tbl [simp]: "dbt (snd (dir_GetNotification a b tr ev c)) = dbt c"
proof -
  have "dbt (snd (q_GetNotification a b tr ev c)) = dbt c" by simp
  then show ?thesis unfolding dir_GetNotification_def
    by (cases "q_GetNotification a b tr ev c"; cases "fst (q_GetNotification a b tr ev c)") auto
qed

lemma shouldSend_tbl [simp]: "dbt (snd (shouldSendNotification p c)) = dbt c"
proof -
  obtain r c' where get: "dir_GetNotification (snp_ReceiverUserID p) (snp_SenderUserID p)
      (string_or_null (snp_TriggerID p)) EventIDLikePost c = (r, c')" by fastforce
  then have "dbt c' = dbt c" by (metis dir_GetNotification_tbl snd_conv)
  with get show ?thesis
    by (auto simp: shouldSendNotification_def split: prod.splits sum.splits option.splits)
qed

definition notified :: "create_notification_params \<Rightarrow> tables \<Rightarrow> tables" where
  "notified arg t = t\<lparr>notifications := notifications t @ [created_notification arg]\<rparr>"

lemma q_CreateNotification_tables:
  "dbt (snd (q_CreateNotification arg c)) = dbt c \<or> dbt (snd (q_CreateNotification arg c)) = notified arg (dbt c)"
  unfolding q_CreateNotification_def scan_one_tbl
  by (rule exec_stmt_inv [where P = "\<lambda>t. t = dbt c \<or> t = notified arg (dbt c)"])
    (auto simp: ok_simps notified_def dest: tbl_insert_Inr)

lemma dir_CreateNotification_snd [simp]: "snd (dir_CreateNotification arg c) = snd (q_CreateNotification arg c)"
  unfolding dir_CreateNotification_def
  by (cases "q_CreateNotification arg c"; cases "fst (q_CreateNotification arg c)") auto

lemma nm_Send_db:
  "wd_db (snd (nm_Send C R US uuid now p w)) =
     (case shouldSendNotification p (wd_db w) of
        (Inr True, c) \<Rightarrow> snd (createNotification uuid now p c)
      | (_, c) \<Rightarrow> c)"
proof -
  obtain ok c where ok: "shouldSendNotification p (wd_db w) = (ok, c)" by fastforce
  show ?thesis
  proof (cases "ok = Inr True")
    case False
    with ok show ?thesis
      by (cases ok) (auto simp: nm_Send_def on_db_def)
  next
    case True
    obtain created c' where cr: "createNotification uuid now p c = (created, c')" by fastforce
    have push: "wd_db (snd (check_err (on_rdb f v) same_err (\<lambda>_ w. (Inr n, w)))) = wd_db v"
      for f :: "'a \<Rightarrow> unit res \<times> 'a" and v :: "'a world" and n :: "pb_notification option"
      by (cases "f (wd_rdb v)"; cases "fst (f (wd_rdb v))") (auto simp: on_rdb_def)
    have "wd_db (snd (check_err (on_rdb g v) same_err (\<lambda>b w.
        if b then check_err (on_rdb f w) same_err (\<lambda>_ w. (Inr n, w)) else (Inr n, w)))) = wd_db v"
      for f :: "'a \<Rightarrow> unit res \<times> 'a" and g :: "'a \<Rightarrow> bool res \<times> 'a" and v :: "'a world" and n :: "pb_notification option"
      by (cases "g (wd_rdb v)"; cases "fst (g (wd_rdb v))") (auto simp: on_rdb_def [of g] push)
    then show ?thesis
      using ok True cr by (simp add: nm_Send_def on_db_def Let_def)
  qed
qed

lemma nm_Send_headers: "wd_headers (snd (nm_Send C R US uuid now p w)) = wd_headers w"
proof -
  have frame: "wd_headers (snd (check_err (on_rdb g v) same_err k)) = wd_headers v"
    if "\<And>b s. wd_headers (snd (k b (v\<lparr>wd_rdb := s\<rparr>))) = wd_headers v"
    for g :: "'a \<Rightarrow> 'b res \<times> 'a" and v :: "'a world" and k :: "'b \<Rightarrow> 'a world \<Rightarrow> 'c res \<times> 'a world"
    using that by (cases "g (wd_rdb v)"; cases "fst (g (wd_rdb v))") (auto simp: on_rdb_def)
  obtain ok c where ok: "shouldSendNotification p (wd_db w) = (ok, c)" by fastforce
  obtain created c' where cr: "createNotification uuid now p c = (created, c')" by fastforce
  from ok cr show ?thesis
    by (cases ok) (auto simp: nm_Send_def on_db_def Let_def frame)
qed

lemma nm_Send_db_cases:
  obtains c where "dbt c = wd_tables w"
    "wd_db (snd (nm_Send C R US uuid now p w)) = c \<or>
     wd_db (snd (nm_Send C R US uuid now p w)) = snd (q_CreateNotification (notification_params uuid now p) c)"
proof -
  obtain ok c where ok: "shouldSendNotification p (wd_db w) = (ok, c)" by fastforce
  have "dbt c = wd_tables w" using shouldSend_tbl [of p "wd_db w"] ok by simp
  moreover have "wd_db (snd (nm_Send C R US uuid now p w)) = c \<or>
      wd_db (snd (nm_Send C R US uuid now p w)) = snd (q_CreateNotification (notification_params uuid now p) c)"
    by (simp add: nm_Send_db ok createNotification_def split: sum.split bool.split)
  ultimately show thesis by (rule that)
qed

lemma nm_Send_tables:
  "wd_tables (snd (nm_Send C R US uuid now p w)) \<in>
     {wd_tables w, notified (notification_params uuid now p) (wd_tables w)}"
  by (rule nm_Send_db_cases [of w C R US uuid now p])
    (use q_CreateNotification_tables [of "notification_params uuid now p"] in \<open>metis insertCI\<close>)

lemma nm_Send_wf:
  assumes "tables_wf (wd_tables w)"
  shows "tables_wf (wd_tables (snd (nm_Send C R US uuid now p w)))"
  by (rule nm_Send_db_cases [of w C R US uuid now p])
    (use assms q_CreateNotification_wf in \<open>metis\<close>)

interpretation nm: notifier "nm_Send C R US" for C R US
proof
  fix i d p and w :: "'a world"
  show "\<exists>ns. wd_tables (snd (nm_Send C R US i d p w)) = (wd_tables w)\<lparr>notifications := notifications (wd_tables w) @ ns\<rparr>"
  proof -
    have "wd_tables w = (wd_tables w)\<lparr>notifications := notifications (wd_tables w) @ []\<rparr>" by simp
    then show ?thesis
      using nm_Send_tables [of C R US i d p w] unfolding notified_def by (elim insertE emptyE) metis+
  qed
qed (rule nm_Send_headers, rule nm_Send_wf)

lemma length_truncateString: "3 < n \<Longrightarrow> length (truncateString s n) \<le> n"
  by (auto simp: truncateString_def Let_def min_def)

lemma truncateString_take: "3 < n \<Longrightarrow> take (n - 3) (truncateString s n) = take (n - 3) s"
  by (auto simp: truncateString_def Let_def)

section \<open>Properties\<close>

text \<open>
  A user is reported online after a log exactly until the next unlog: the other users of the
  set are unaffected.
\<close>

theorem presence_follows_log:
  assumes "redis_store R strs members"
    and "usr_Log R u s = (Inr x, s1)" and "usr_Unlog R v s1 = (Inr y, s2)"
    and "usr_IsOnline R a s2 = (Inr b, s3)"
  shows "b \<longleftrightarrow> a \<noteq> v \<and> (a = u \<or> a \<in> members s prefixActiveUsers)"
  using redis_store.sadd_ok [OF assms(1) assms(2) [unfolded usr_Log_def]]
    redis_store.srem_ok [OF assms(1) assms(3) [unfolded usr_Unlog_def]]
    redis_store.sismember_ok [OF assms(1) assms(4) [unfolded usr_IsOnline_def]]
  by auto

lemma mem_redis_store: "redis_store mem_redis_cmds mem_strs mem_members"
  by (rule mem.redis_store_axioms)

text \<open>
  C30: a subscriber receives the notifications published to it in their order, each equal to the
  one pushed, up to the first one that could not be encoded: that one is published as an empty
  message, which ends the stream.
\<close>

theorem notifications_delivered_in_order:
  assumes "\<And>n bs. nc_enc C n = Inr bs \<Longrightarrow> nc_dec C bs = Inr n" and "nc_dec C [] = Inl eof"
  shows "nm_Listen C (map (\<lambda>n. projr (EncodeBinaryNotification C (Some n))) ns) =
    takeWhile (\<lambda>n. \<exists>bs. nc_enc C n = Inr bs) ns"
  unfolding nm_Listen_def
proof (induction ns)
  case (Cons n ns)
  have empty: "b64_decode [] = Some []" by code_simp
  show ?case
  proof (cases "nc_enc C n")
    case (Inl e)
    then show ?thesis by (simp add: EncodeBinaryNotification_def DecodeBinaryNotification_def empty assms(2))
  next
    case (Inr bs)
    then show ?thesis using Cons
      by (simp add: EncodeBinaryNotification_def DecodeBinaryNotification_def assms(1) [OF Inr])
  qed
qed simp

text \<open>
  Whatever the database and Redis answer, sending a notification to oneself returns no
  notification, stores no row and publishes nothing.
\<close>

theorem never_notifies_self:
  assumes "snp_ReceiverUserID p = snp_SenderUserID p"
  shows "(fst (nm_Send C R US uuid now p w) = Inr None \<or> (\<exists>e. fst (nm_Send C R US uuid now p w) = Inl e)) \<and>
    wd_tables (snd (nm_Send C R US uuid now p w)) = wd_tables w \<and>
    wd_rdb (snd (nm_Send C R US uuid now p w)) = wd_rdb w"
proof -
  obtain ok c where ok: "shouldSendNotification p (wd_db w) = (ok, c)" by fastforce
  have "ok = Inr False \<or> (\<exists>e. ok = Inl e)"
    using ok assms by (auto simp: shouldSendNotification_def split: prod.splits sum.splits if_splits)
  moreover have "dbt c = wd_tables w" using shouldSend_tbl [of p "wd_db w"] ok by simp
  ultimately show ?thesis using ok by (auto simp: nm_Send_def on_db_def)
qed

text \<open>
  A send stores at most the one notification it was asked for, read by nobody, from the sender
  to the receiver, with the content cut to at most 64 bytes that keep its beginning; it changes
  no other table, whichever calls fail.
\<close>

theorem send_stores_at_most_one:
  "(wd_tables (snd (nm_Send C R US uuid now p w)) = wd_tables w \<or>
    (\<exists>n. wd_tables (snd (nm_Send C R US uuid now p w)) =
        (wd_tables w)\<lparr>notifications := notifications (wd_tables w) @ [n]\<rparr> \<and>
      n_id n = uuid \<and> n_date n = now \<and> \<not> n_read n \<and> n_event_id n = snp_EventID p \<and>
      n_user_id_to_notify n = snp_ReceiverUserID p \<and> n_user_id_who_fired_event n = snp_SenderUserID p \<and>
      length (null_string (n_content n)) \<le> 64 \<and>
      take 61 (null_string (n_content n)) = take 61 (snp_Content p)))"
proof -
  let ?n = "created_notification (notification_params uuid now p)"
  have "length (null_string (n_content ?n)) \<le> 64" "take 61 (null_string (n_content ?n)) = take 61 (snp_Content p)"
    using length_truncateString [of 64 "snp_Content p"] truncateString_take [of 64 "snp_Content p"]
    by (simp_all add: created_notification_def notification_params_def)
  moreover have "n_id ?n = uuid" "n_date ?n = now" "\<not> n_read ?n" "n_event_id ?n = snp_EventID p"
    "n_user_id_to_notify ?n = snp_ReceiverUserID p" "n_user_id_who_fired_event ?n = snp_SenderUserID p"
    by (simp_all add: created_notification_def notification_params_def)
  ultimately show ?thesis
    using nm_Send_tables [of C R US uuid now p w] unfolding notified_def by blast
qed

text \<open>
  The resend condition only guards against an earlier like of a post: when none by the same
  sender with the same trigger is stored, a notification of any event goes out whatever the
  condition says, also when the same event was notified before.
\<close>

theorem resend_condition_only_for_likes:
  assumes "snp_ReceiverUserID p \<noteq> snp_SenderUserID p" and "up c"
    and "list_all (\<lambda>n. \<not> same_event (snp_ReceiverUserID p) (snp_SenderUserID p)
        (string_or_null (snp_TriggerID p)) EventIDLikePost n) (notifications (dbt c))"
  shows "shouldSendNotification p c = (Inr True, c)"
proof -
  have "filter (same_event (snp_ReceiverUserID p) (snp_SenderUserID p)
      (string_or_null (snp_TriggerID p)) EventIDLikePost) (notifications (dbt c)) = []"
    using assms(3) by (auto simp: filter_empty_conv list_all_iff)
  then have "q_GetNotification (snp_ReceiverUserID p) (snp_SenderUserID p)
      (string_or_null (snp_TriggerID p)) EventIDLikePost c = (Inl (ErrSql NoRows), c)"
    by (simp add: q_GetNotification_def exec_query_up [OF assms(2)])
  then show ?thesis
    using assms(1) by (simp add: shouldSendNotification_def dir_GetNotification_def)
qed

section \<open>Examples\<close>

lemma presence_follows_log_witness:
  "fst (usr_IsOnline mem_redis_cmds ''1'' (snd (usr_Unlog mem_redis_cmds ''2''
     (snd (usr_Log mem_redis_cmds ''1'' mem_empty))))) = Inr True"
proof -
  let ?s1 = "snd (usr_Log mem_redis_cmds ''1'' mem_empty)"
  let ?s2 = "snd (usr_Unlog mem_redis_cmds ''2'' ?s1)"
  have "fst (usr_Log mem_redis_cmds ''1'' mem_empty) = Inr ()" "fst (usr_Unlog mem_redis_cmds ''2'' ?s1) = Inr ()"
    by code_simp+
  then have ops: "usr_Log mem_redis_cmds ''1'' mem_empty = (Inr (), ?s1)"
      "usr_Unlog mem_redis_cmds ''2'' ?s1 = (Inr (), ?s2)"
    by (metis prod.collapse)+
  obtain b s3 where b: "usr_IsOnline mem_redis_cmds ''1'' ?s2 = (Inr b, s3)"
  proof -
    have "case fst (usr_IsOnline mem_redis_cmds ''1'' ?s2) of Inr b \<Rightarrow> True | Inl _ \<Rightarrow> False" by code_simp
    then show thesis using that by (cases "usr_IsOnline mem_redis_cmds ''1'' ?s2") (auto split: sum.splits)
  qed
  show ?thesis using presence_follows_log [OF mem_redis_store ops b] b by simp
qed

definition sample_push :: "string \<Rightarrow> pb_notification" where
  "sample_push i = \<lparr>ntf_id = i, ntf_date = 0, ntf_trigger_id = [],
     ntf_event = None, ntf_user_who_fired_event = None, ntf_read = False, ntf_content = []\<rparr>"

definition sample_codec :: notification_codec where
  "sample_codec = \<lparr>
     nc_enc = (\<lambda>n. if ntf_id n = [] \<or> n \<noteq> sample_push (ntf_id n) then Inl (ErrNew ''cannot encode'')
       else Inr (map (\<lambda>c. word_of_nat (of_char c)) (ntf_id n))),
     nc_dec = (\<lambda>bs. if bs = [] then Inl (ErrNew ''EOF'')
       else Inr (sample_push (map (\<lambda>b. char_of (unat b)) bs)))\<rparr>"

lemma notifications_delivered_in_order_witness:
  "nm_Listen sample_codec (map (\<lambda>n. projr (EncodeBinaryNotification sample_codec (Some n)))
     [sample_push ''n1'', sample_push ''n2'', sample_push '''', sample_push ''n3'']) =
   [sample_push ''n1'', sample_push ''n2'']"
proof -
  have c: "char_of (unat (word_of_nat (of_char c) :: byte)) = c" for c :: char
    by (simp add: unat_of_nat)
  have "nc_dec sample_codec bs = Inr n" if "nc_enc sample_codec n = Inr bs" for n bs
  proof -
    from that have n: "ntf_id n \<noteq> []" "n = sample_push (ntf_id n)" "bs = map (\<lambda>c. word_of_nat (of_char c)) (ntf_id n)"
      by (auto simp: sample_codec_def split: if_splits)
    then have "nc_dec sample_codec bs = Inr (sample_push (ntf_id n))"
      by (simp add: sample_codec_def comp_def c)
    with n(2) show ?thesis by simp
  qed
  moreover have "nc_dec sample_codec [] = Inl (ErrNew ''EOF'')" by (simp add: sample_codec_def)
  ultimately show ?thesis
    by (subst notifications_delivered_in_order [of sample_codec "ErrNew ''EOF''"])
      (auto simp: sample_codec_def sample_push_def)
qed

definition sample_params :: "string \<Rightarrow> send_params" where
  "sample_params ev = \<lparr>snp_ResendCondition = Some ResendConditionNever, snp_SenderUserID = ''2'',
     snp_ReceiverUserID = ''1'', snp_TriggerID = ''q'', snp_EventID = ev, snp_Content = ''hello''\<rparr>"

lemma never_notifies_self_witness:
  "wd_tables (snd (nm_Send sample_codec mem_redis_cmds (usersession_manager mem_redis_cmds) ''n3'' 30
     ((sample_params EventIDFollow)\<lparr>snp_ReceiverUserID := ''2''\<rparr>) (world_of sample_notifications mem_empty))) =
   sample_notifications"
  using never_notifies_self [of "(sample_params EventIDFollow)\<lparr>snp_ReceiverUserID := ''2''\<rparr>"
      sample_codec mem_redis_cmds "usersession_manager mem_redis_cmds" "''n3''" 30 "world_of sample_notifications mem_empty"]
  by (simp add: sample_params_def db_of_def)

text \<open>A second follow goes out although its condition is never to send again.\<close>

lemma resend_condition_only_for_likes_witness:
  "fst (shouldSendNotification (sample_params EventIDFollow)
     (db_of (notified (notification_params ''n3'' 30 (sample_params EventIDFollow)) sample_notifications))) = Inr True"
proof -
  have "list_all (\<lambda>n. \<not> same_event (snp_ReceiverUserID (sample_params EventIDFollow)) (snp_SenderUserID (sample_params EventIDFollow))
        (string_or_null (snp_TriggerID (sample_params EventIDFollow))) EventIDLikePost n)
      (notifications (dbt (db_of (notified (notification_params ''n3'' 30 (sample_params EventIDFollow)) sample_notifications))))"
    by code_simp
  then show ?thesis
    using resend_condition_only_for_likes [of "sample_params EventIDFollow"]
    by (simp add: sample_params_def up_def db_of_def)
qed

end
