(* ===== verification/Comments_Dir.thy ===== *)
theory Comments_Dir
  imports Posts_Dir
begin

text \<open>
  Package \<^verbatim>\<open>backend/comments\<close>: statements, directory and conversions, over the table
  \<^verbatim>\<open>comments\<close>. The list of the users who liked a comment is NULL until the first like.
\<close>

section \<open>Statements\<close>

record create_comment_params =
  ccp_id :: string
  ccp_message :: "string nullable"
  ccp_audio :: json
  ccp_author :: string
  ccp_parent_id :: "string nullable"
  ccp_post_id :: string
  ccp_thread_type :: string
  ccp_thread_target_id :: "string nullable"

definition created_comment :: "create_comment_params \<Rightarrow> comment_row" where
  "created_comment arg = \<lparr>c_likes = Val 0, c_audio = ccp_audio arg, c_author = ccp_author arg,
     c_parent_id = ccp_parent_id arg, c_post_id = ccp_post_id arg,
     c_thread_type = ccp_thread_type arg, c_id = ccp_id arg,
     c_thread_target_id = ccp_thread_target_id arg, c_message = ccp_message arg,
     c_user_ids_who_likes = Null\<rparr>"

definition q_CreateComment :: "create_comment_params \<Rightarrow> db \<Rightarrow> comment_row res \<times> db" where
  "q_CreateComment arg = exec_stmt (\<lambda>t.
     returning (created_comment arg)
       (put (tbl_insert comments_schema (created_comment arg) (comments t)) (\<lambda>rs. t\<lparr>comments := rs\<rparr>)))"

definition q_GetComments :: "string \<Rightarrow> db \<Rightarrow> comment_row list res \<times> db" where
  "q_GetComments post_id = exec_query (\<lambda>t. Inr
     (filter (\<lambda>c. c_post_id c = post_id \<and> c_thread_type c = ''post'') (comments t) @
      sort_desc c_likes
        (filter (\<lambda>c. c_post_id c = post_id \<and> c_thread_type c \<noteq> ''post'') (comments t))))"

definition q_HasUserLikedComment :: "string \<Rightarrow> string \<Rightarrow> db \<Rightarrow> bool res \<times> db" where
  "q_HasUserLikedComment i u = exec_query (\<lambda>t. Inr (list_ex
     (\<lambda>c. c_id c = i \<and>
        holds (any3 (cast100 u) (case c_user_ids_who_likes c of Null \<Rightarrow> Null | Val us \<Rightarrow> Val (map cast100 us))))
     (comments t)))"

text \<open>\<^verbatim>\<open>array_append\<close> starts an array from NULL, \<^verbatim>\<open>array_remove\<close> keeps NULL.\<close>

definition like_comment :: "string \<Rightarrow> comment_row \<Rightarrow> comment_row" where
  "like_comment u c = c\<lparr>c_likes := bump 1 (c_likes c),
     c_user_ids_who_likes := Val (null_or [] (c_user_ids_who_likes c) @ [u])\<rparr>"

definition unlike_comment :: "string \<Rightarrow> comment_row \<Rightarrow> comment_row" where
  "unlike_comment u c = c\<lparr>c_likes := bump (- 1) (c_likes c),
     c_user_ids_who_likes :=
       (case c_user_ids_who_likes c of Null \<Rightarrow> Null | Val us \<Rightarrow> Val (removeAll u us))\<rparr>"

definition q_LikeComment :: "string \<Rightarrow> string \<Rightarrow> db \<Rightarrow> comment_row res \<times> db" where
  "q_LikeComment u i = exec_stmt (\<lambda>t.
     returning_one (map (like_comment (cast100 u)) (filter (\<lambda>c. c_id c = cast100 i) (comments t)))
       (put (tbl_update comments_schema (\<lambda>c. c_id c = cast100 i) (like_comment (cast100 u)) (comments t))
          (\<lambda>rs. t\<lparr>comments := rs\<rparr>)))"

definition q_RemoveLikeFromComment :: "string \<Rightarrow> string \<Rightarrow> db \<Rightarrow> comment_row res \<times> db" where
  "q_RemoveLikeFromComment u i = exec_stmt (\<lambda>t.
     returning_one (map (unlike_comment (cast100 u)) (filter (\<lambda>c. c_id c = cast100 i) (comments t)))
       (put (tbl_update comments_schema (\<lambda>c. c_id c = cast100 i) (unlike_comment (cast100 u)) (comments t))
          (\<lambda>rs. t\<lparr>comments := rs\<rparr>)))"

abbreviation comment_likers :: "comment_row \<Rightarrow> string list" where
  "comment_likers c \<equiv> null_or [] (c_user_ids_who_likes c)"

interpretation comment_likes: liked_rows c_likes comment_likers like_comment unlike_comment
  by unfold_locales (simp_all add: like_comment_def unlike_comment_def split: nullable.split)

section \<open>The directory\<close>

definition StringSliceContains :: "string list \<Rightarrow> string \<Rightarrow> bool" where
  "StringSliceContains s v = foldl (\<lambda>res el. if el = v then True else res) False s"

lemma StringSliceContains_iff [simp]: "StringSliceContains s v \<longleftrightarrow> v \<in> set s"
proof -
  have "foldl (\<lambda>res el. if el = v then True else res) b s \<longleftrightarrow> b \<or> v \<in> set s" for b
    by (induction s arbitrary: b) auto
  then show ?thesis by (simp add: StringSliceContains_def)
qed

definition hasAlreadyLiked :: "string list \<Rightarrow> string \<Rightarrow> bool" where
  "hasAlreadyLiked ids u = StringSliceContains ids u"

definition pgThreadTypeToPB :: "string \<Rightarrow> pb_thread_type res" where
  "pgThreadTypeToPB t =
     (if t = ''comment'' then Inr ThreadType_COMMENT
      else if t = ''post'' then Inr ThreadType_POST
      else if t = ''none'' then Inr ThreadType_NONE
      else Inl (Status Internal ''failed to convert pg thread_type to pb'' []))"

definition pgCommentToPB :: "comment_row \<Rightarrow> bool \<Rightarrow> pb_comment res" where
  "pgCommentToPB c liked =
     (case AudioRawJSONToPB (c_audio c) of
        Inl e \<Rightarrow> Inl e
      | Inr audio \<Rightarrow> (case pgThreadTypeToPB (c_thread_type c) of
          Inl e \<Rightarrow> Inl e
        | Inr ty \<Rightarrow> Inr (PbComment (c_id c) (null_string (c_message c)) (Some audio) (c_author c)
            (null_string (c_parent_id c)) (null_int (c_likes c)) (c_post_id c)
            (Some (PbThread ty (null_string (c_thread_target_id c)) None)) liked)))"

definition dir_CreateComment :: "create_comment_params \<Rightarrow> db \<Rightarrow> pb_comment res \<times> db" where
  "dir_CreateComment arg c =
     check_err (q_CreateComment arg c) same_err (\<lambda>r c. (pgCommentToPB r False, c))"

definition dir_GetComments :: "string \<Rightarrow> string \<Rightarrow> db \<Rightarrow> pb_comment list res \<times> db" where
  "dir_GetComments u post_id c =
     check_err (q_GetComments post_id c) same_err (\<lambda>rs c.
       (decode_list (\<lambda>r. pgCommentToPB r (hasAlreadyLiked (null_or [] (c_user_ids_who_likes r)) u)) rs, c))"

definition dir_LikeComment :: "string \<Rightarrow> string \<Rightarrow> db \<Rightarrow> pb_comment res \<times> db" where
  "dir_LikeComment u i c =
     check_err (q_LikeComment u i c) same_err (\<lambda>r c.
       (pgCommentToPB r (hasAlreadyLiked (null_or [] (c_user_ids_who_likes r)) u), c))"

definition dir_RemoveLikeFromComment :: "string \<Rightarrow> string \<Rightarrow> db \<Rightarrow> pb_comment res \<times> db" where
  "dir_RemoveLikeFromComment u i c =
     check_err (q_RemoveLikeFromComment u i c) same_err (\<lambda>r c.
       (pgCommentToPB r (hasAlreadyLiked (null_or [] (c_user_ids_who_likes r)) u), c))"

definition dir_HasUserLikedComment :: "string \<Rightarrow> string \<Rightarrow> db \<Rightarrow> bool res \<times> db" where
  "dir_HasUserLikedComment i u c =
     check_err (q_HasUserLikedComment i u c) same_err (\<lambda>ok c. (Inr ok, c))"

section \<open>The statements keep the constraints\<close>

lemma q_CreateComment_wf [inv_intros]:
  "tables_wf (dbt c) \<Longrightarrow> tables_wf (dbt (snd (q_CreateComment arg c)))"
  unfolding q_CreateComment_def
  by (rule exec_stmt_inv) (auto simp: ok_simps tables_wf_def intro: tbl_wf_steps)

lemma q_LikeComment_wf [inv_intros]:
  "tables_wf (dbt c) \<Longrightarrow> tables_wf (dbt (snd (q_LikeComment u i c)))"
  unfolding q_LikeComment_def
  by (rule exec_stmt_inv) (auto simp: ok_simps tables_wf_def intro: tbl_wf_steps)

lemma q_RemoveLikeFromComment_wf [inv_intros]:
  "tables_wf (dbt c) \<Longrightarrow> tables_wf (dbt (snd (q_RemoveLikeFromComment u i c)))"
  unfolding q_RemoveLikeFromComment_def
  by (rule exec_stmt_inv) (auto simp: ok_simps tables_wf_def intro: tbl_wf_steps)

lemma comments_reads_tbl [simp]:
  "dbt (snd (q_GetComments i c)) = dbt c"
  "dbt (snd (q_HasUserLikedComment i u c)) = dbt c"
  by (simp_all add: q_GetComments_def q_HasUserLikedComment_def)

section \<open>The comments of a post\<close>

text \<open>A row the service can have written: its clip and its thread type read back, and it has a counter.\<close>

definition comment_readable :: "comment_row \<Rightarrow> bool" where
  "comment_readable c \<longleftrightarrow>
     (case AudioRawJSONToPB (c_audio c) of Inl _ \<Rightarrow> False | Inr _ \<Rightarrow> True) \<and>
     c_thread_type c \<in> {''comment'', ''post'', ''none''} \<and> c_likes c \<noteq> Null"

lemma pgCommentToPB_readable: "comment_readable c \<Longrightarrow> \<exists>m. pgCommentToPB c b = Inr m"
  by (auto simp: comment_readable_def pgCommentToPB_def pgThreadTypeToPB_def split: sum.splits)

lemma pgCommentToPB_Inr:
  assumes "pgCommentToPB c b = Inr m"
  shows "cmt_id m = c_id c" "cmt_author m = c_author c" "cmt_message m = null_string (c_message c)"
    "cmt_post_id m = c_post_id c" "cmt_likes m = null_int (c_likes c)" "cmt_has_already_liked m = b"
    "\<exists>th. cmt_thread m = Some th \<and> (th_thread_type th = ThreadType_POST \<longleftrightarrow> c_thread_type c = ''post'')"
  using assms
  by (auto simp: pgCommentToPB_def pgThreadTypeToPB_def split: sum.splits if_splits)

lemma null_le_mono: "x \<le> y \<Longrightarrow> x \<noteq> Null \<Longrightarrow> y \<noteq> Null \<Longrightarrow> null_int x \<le> null_int y"
  by (cases x; cases y) auto

definition in_post_thread :: "pb_comment \<Rightarrow> bool" where
  "in_post_thread m \<longleftrightarrow> (case cmt_thread m of None \<Rightarrow> False | Some th \<Rightarrow> th_thread_type th = ThreadType_POST)"

text \<open>
  Reading the comments of a post returns each of its comments once; those of the author's own
  thread come first, in the order of the table, then the others by falling number of likes; and
  each comment says whether the reader has liked it.
\<close>

theorem post_comments_listed:
  assumes "\<forall>c \<in> set (comments t). comment_readable c"
  shows "\<exists>front rest. dir_GetComments u pid (db_of t) = (Inr (front @ rest), db_of t) \<and>
      map cmt_id front = map c_id (filter (\<lambda>c. c_post_id c = pid \<and> c_thread_type c = ''post'') (comments t)) \<and>
      mset (map cmt_id rest) = mset (map c_id (filter (\<lambda>c. c_post_id c = pid \<and> c_thread_type c \<noteq> ''post'') (comments t))) \<and>
      (\<forall>m \<in> set front. in_post_thread m) \<and> (\<forall>m \<in> set rest. \<not> in_post_thread m) \<and>
      sorted_wrt (\<lambda>m n. cmt_likes n \<le> cmt_likes m) rest \<and>
      (\<forall>m \<in> set (front @ rest). \<exists>c \<in> set (comments t). cmt_id m = c_id c \<and>
         (cmt_has_already_liked m \<longleftrightarrow> u \<in> set (comment_likers c)))"
proof -
  let ?f = "\<lambda>r. pgCommentToPB r (hasAlreadyLiked (comment_likers r) u)"
  let ?own = "filter (\<lambda>c. c_post_id c = pid \<and> c_thread_type c = ''post'') (comments t)"
  let ?others = "filter (\<lambda>c. c_post_id c = pid \<and> c_thread_type c \<noteq> ''post'') (comments t)"
  have read: "\<exists>m. ?f c = Inr m" if "c \<in> set (comments t)" for c
    using assms that pgCommentToPB_readable by blast
  obtain front where front: "decode_list ?f ?own = Inr front"
    using decode_list_total [of ?own ?f] read by auto
  obtain rest where rest: "decode_list ?f (sort_desc c_likes ?others) = Inr rest"
    using decode_list_total [of "sort_desc c_likes ?others" ?f] read by auto
  have all2: "list_all2 (\<lambda>c m. ?f c = Inr m) ?own front"
    "list_all2 (\<lambda>c m. ?f c = Inr m) (sort_desc c_likes ?others) rest"
    using front rest by (simp_all only: decode_list_Inr)
  have "decode_list ?f (?own @ sort_desc c_likes ?others) = Inr (front @ rest)"
    using all2 by (simp add: decode_list_Inr list_all2_appendI)
  then have "dir_GetComments u pid (db_of t) = (Inr (front @ rest), db_of t)"
    by (simp add: dir_GetComments_def q_GetComments_def exec_query_up up_def db_of_def)
  moreover have "map cmt_id front = map c_id ?own"
    by (rule list_all2_map_eq [OF all2(1)]) (rule pgCommentToPB_Inr(1))
  moreover have "map cmt_id rest = map c_id (sort_desc c_likes ?others)"
    by (rule list_all2_map_eq [OF all2(2)]) (rule pgCommentToPB_Inr(1))
  then have "mset (map cmt_id rest) = mset (map c_id ?others)" by simp
  moreover have "sorted_wrt (\<lambda>m n. cmt_likes n \<le> cmt_likes m) rest"
  proof -
    have "sorted_wrt (\<lambda>x y. null_int (c_likes y) \<le> null_int (c_likes x)) (sort_desc c_likes ?others)"
      by (rule sorted_wrt_mono_rel [OF _ sorted_sort_desc [of c_likes]])
         (use assms in \<open>auto simp: comment_readable_def elim!: null_le_mono\<close>)
    moreover have "map cmt_likes rest = map (\<lambda>c. null_int (c_likes c)) (sort_desc c_likes ?others)"
      by (rule list_all2_map_eq [OF all2(2)]) (rule pgCommentToPB_Inr(5))
    ultimately have "sorted_wrt (\<lambda>x y. y \<le> x) (map cmt_likes rest)"
      by (simp add: sorted_wrt_map)
    then show ?thesis by (simp add: sorted_wrt_map)
  qed
  moreover have "\<exists>c \<in> set (comments t). P c \<and> ?f c = Inr m"
    if "m \<in> set ms" "list_all2 (\<lambda>c m. ?f c = Inr m) cs ms" "\<And>c. c \<in> set cs \<Longrightarrow> c \<in> set (comments t) \<and> P c"
    for m ms cs P
    using list_all2_source [OF that(2,1)] that(3) by blast
  note from_row = this
  have "in_post_thread m" if "m \<in> set front" for m
    using from_row [OF that all2(1), where P = "\<lambda>c. c_thread_type c = ''post''"]
    by (auto simp: in_post_thread_def dest: pgCommentToPB_Inr(7))
  moreover have "\<not> in_post_thread m" if "m \<in> set rest" for m
    using from_row [OF that all2(2), where P = "\<lambda>c. c_thread_type c \<noteq> ''post''"]
    by (auto simp: in_post_thread_def dest: pgCommentToPB_Inr(7))
  moreover have "\<exists>c \<in> set (comments t). cmt_id m = c_id c \<and>
      (cmt_has_already_liked m \<longleftrightarrow> u \<in> set (comment_likers c))" if m: "m \<in> set (front @ rest)" for m
  proof -
    obtain c where "c \<in> set (comments t)" and c: "?f c = Inr m"
      using m from_row [OF _ all2(1), where P = "\<lambda>_. True"] from_row [OF _ all2(2), where P = "\<lambda>_. True"]
      by auto
    then show ?thesis
      using pgCommentToPB_Inr(1,6) [OF c] by (auto simp: hasAlreadyLiked_def)
  qed
  ultimately show ?thesis by blast
qed

definition sample_comment :: "string \<Rightarrow> string \<Rightarrow> string list nullable \<Rightarrow> comment_row" where
  "sample_comment i ty us = \<lparr>c_likes = Val (int (length (null_or [] us))), c_audio = JObj [],
     c_author = ''2'', c_parent_id = Null, c_post_id = ''p'', c_thread_type = ty, c_id = i,
     c_thread_target_id = Null, c_message = Val ''hi'', c_user_ids_who_likes = us\<rparr>"

definition sample_comments :: tables where
  "sample_comments = sample_posts\<lparr>comments :=
     [sample_comment ''c1'' ''none'' Null, sample_comment ''c2'' ''post'' Null,
      sample_comment ''c3'' ''none'' (Val [''1''])]\<rparr>"

lemma sample_comments_wf: "tables_wf sample_comments"
  and sample_comments_readable: "\<forall>c \<in> set (comments sample_comments). comment_readable c"
  by (code_simp, simp add: sample_comments_def sample_comment_def comment_readable_def)

lemma post_comments_listed_witness:
  "\<exists>cs. dir_GetComments ''1'' ''p'' (db_of sample_comments) = (Inr cs, db_of sample_comments) \<and>
     length cs = 3"
proof -
  have *: "filter (\<lambda>c. c_post_id c = ''p'' \<and> c_thread_type c = ''post'') (comments sample_comments) =
      [sample_comment ''c2'' ''post'' Null]"
    "length (filter (\<lambda>c. c_post_id c = ''p'' \<and> c_thread_type c \<noteq> ''post'') (comments sample_comments)) = 2"
    by (simp_all add: sample_comments_def sample_comment_def)
  from post_comments_listed [OF sample_comments_readable, of "''1''" "''p''"]
  obtain front rest where "dir_GetComments ''1'' ''p'' (db_of sample_comments) = (Inr (front @ rest), db_of sample_comments)"
    and f: "map cmt_id front = map c_id (filter (\<lambda>c. c_post_id c = ''p'' \<and> c_thread_type c = ''post'') (comments sample_comments))"
    and r: "mset (map cmt_id rest) = mset (map c_id (filter (\<lambda>c. c_post_id c = ''p'' \<and> c_thread_type c \<noteq> ''post'') (comments sample_comments)))"
    by blast
  moreover have "length front = 1" "length rest = 2"
    using arg_cong [OF f, of length] mset_eq_length [OF r] * by simp_all
  ultimately show ?thesis by auto
qed

end
