(* ===== verification/Service_Posts.thy ===== *)
theory Service_Posts
  imports Notify_Manager Comments_Dir Session_Manager Core_Config
begin

text \<open>
  The handlers of \<^verbatim>\<open>backend/pkg/service/v1/posts.go\<close> and \<^verbatim>\<open>notifications.go\<close> and the server they
  are methods of (\<^verbatim>\<open>v1.go\<close>). A request draws its identifiers from \<open>rq_uuid\<close> in the order of the
  calls; its clock stands still. A nil dereference is \<open>Panic\<close>: no middleware of the server
  recovers from one. Errors that are only logged have no effect here.
\<close>

section \<open>The server\<close>

record 'r server =
  sv_cfg :: config
  sv_sm :: "'r session_iface"
  sv_Send :: "string \<Rightarrow> int \<Rightarrow> send_params \<Rightarrow> 'r world \<Rightarrow> pb_notification option res \<times> 'r world"
  sv_Listen :: "string list \<Rightarrow> pb_notification list"
  sv_usersession :: "'r sessioner"

definition quoted :: "string \<Rightarrow> string" where
  "quoted s = [CHR 0x27] @ s @ [CHR 0x27]"

definition apiVersion :: string where
  "apiVersion = ''v1''"

definition checkAPI :: "string \<Rightarrow> unit res" where
  "checkAPI api =
     (if length api > 0 then
        if apiVersion \<noteq> api then Inl (Status Unimplemented
          (''unsupported API version: service implements API version '' @ quoted ''%s'' @
           '', but asked for '' @ quoted ''%s'') [])
        else Inr ()
      else Inr ())"

text \<open>\<^verbatim>\<open>NewUnpaperServiceServer\<close>, its connections made: one Redis client under all three managers.\<close>

definition NewUnpaperServiceServer ::
    "config \<Rightarrow> 'r redis \<Rightarrow> gob_codec \<Rightarrow> notification_codec \<Rightarrow> string \<Rightarrow> 'r server" where
  "NewUnpaperServiceServer cfg R gob C ksuid = \<lparr>
     sv_cfg = cfg, sv_sm = session_manager gob R ksuid,
     sv_Send = nm_Send C R (usersession_manager R), sv_Listen = nm_Listen C,
     sv_usersession = usersession_manager R\<rparr>"

record req_env =
  rq_now :: int
  rq_uuid :: "nat \<Rightarrow> string"
  rq_notification_id :: string

definition five_minutes :: int where
  "five_minutes = 5 * 60 * 1000000"

section \<open>Posts\<close>

record create_post_request =
  cpr_Message :: string
  cpr_AudioBytes :: "byte list"
  cpr_AudioFormat :: string
  cpr_AudioDurationMs :: int

definition sv_CreatePost ::
    "req_env \<Rightarrow> call_context \<Rightarrow> create_post_request \<Rightarrow> 'r world \<Rightarrow> pb_post res \<times> 'r world" where
  "sv_CreatePost env ctx req = with_user ctx (\<lambda>user_id w.
     case NewAudioRawJSON (Some \<lparr>au_id = rq_uuid env 0, au_bytes = cpr_AudioBytes req,
            au_format = cpr_AudioFormat req, au_duration_ms = cpr_AudioDurationMs req\<rparr>) of
       Inl e \<Rightarrow> (Inl (Status Internal ''could not convert request audio to raw json: %v'' [e]), w)
     | Inr raw \<Rightarrow>
         check_err (on_db (dir_CreatePost \<lparr>cpp_id = rq_uuid env 1, cpp_author = user_id,
             cpp_message = cpr_Message req, cpp_audio = raw, cpp_created_at = Val (rq_now env)\<rparr>) w)
           (\<lambda>e. Status Internal ''error inserting post on db: %v'' [e]) (\<lambda>p w. (Inr p, w)))"

text \<open>The error of \<^verbatim>\<open>HasUserLikedPost\<close> is dropped where a post is completed; its value is then false.\<close>

definition liked_or_false :: "string \<Rightarrow> string \<Rightarrow> 'r world \<Rightarrow> bool \<times> 'r world" where
  "liked_or_false post_id user_id w =
     (case on_db (dir_HasUserLikedPost post_id user_id) w of
        (Inl e, w) \<Rightarrow> (False, w)
      | (Inr b, w) \<Rightarrow> (b, w))"

definition complete_post :: "string \<Rightarrow> pb_post \<Rightarrow> 'r world \<Rightarrow> pb_post res \<times> 'r world" where
  "complete_post user_id p w =
     check_err (on_db (dir_GetComments user_id (pst_id p)) w)
       (\<lambda>e. Status Internal ''failed to retrieve comments for post id %q: %v'' [e]) (\<lambda>cs w.
     case liked_or_false (pst_id p) user_id w of
       (b, w) \<Rightarrow> (Inr (p\<lparr>pst_has_already_liked := b, pst_comments := cs\<rparr>), w))"

fun complete_posts :: "string \<Rightarrow> pb_post list \<Rightarrow> 'r world \<Rightarrow> pb_post list res \<times> 'r world" where
  "complete_posts user_id [] w = (Inr [], w)"
| "complete_posts user_id (p # ps) w =
     check_err (complete_post user_id p w) same_err (\<lambda>q w.
     check_err (complete_posts user_id ps w) same_err (\<lambda>qs w. (Inr (q # qs), w)))"

definition sv_GetPosts :: "call_context \<Rightarrow> 'r world \<Rightarrow> pb_post list res \<times> 'r world" where
  "sv_GetPosts ctx = with_user ctx (\<lambda>user_id w.
     check_err (on_db dir_GetPosts w) (\<lambda>e. Status Internal ''failed to retrieve posts: %v'' [e])
       (complete_posts user_id))"

definition fetchPost :: "string \<Rightarrow> string \<Rightarrow> 'r world \<Rightarrow> pb_post res \<times> 'r world" where
  "fetchPost post_id user_id w =
     check_err (on_db (dir_GetPost post_id) w) (\<lambda>e. Status Internal ''failed to retrieve post: %v'' [e])
       (complete_post user_id)"

definition sv_GetPost :: "call_context \<Rightarrow> string \<Rightarrow> 'r world \<Rightarrow> pb_post res \<times> 'r world" where
  "sv_GetPost ctx post_id = with_user ctx (\<lambda>user_id w.
     check_err (fetchPost post_id user_id w) same_err (\<lambda>p w. (Inr p, w)))"

definition likeOrDislikePost :: "string \<Rightarrow> string \<Rightarrow> bool \<Rightarrow> db \<Rightarrow> pb_post res \<times> db" where
  "likeOrDislikePost post_id user_id already c =
     (if already then dir_RemoveLikeFromPost user_id post_id c
      else dir_LikePost user_id post_id c)"

text \<open>The error of \<^verbatim>\<open>fetchPost\<close> is dropped, and the post it returned with it is nil.\<close>

definition sv_LikePost ::
    "'r server \<Rightarrow> req_env \<Rightarrow> call_context \<Rightarrow> string \<Rightarrow> 'r world \<Rightarrow> pb_post res \<times> 'r world" where
  "sv_LikePost srv env ctx post_id = with_user ctx (\<lambda>user_id w.
     check_err (on_db (dir_HasUserLikedPost post_id user_id) w)
       (\<lambda>e. Status Internal (''could not retrieve '' @ quoted ''user has already liked post'' @ '': %v'') [e]) (\<lambda>liked w.
     check_err (on_db (likeOrDislikePost post_id user_id liked) w)
       (\<lambda>e. Status Internal ''could not toggle like post: %v'' [e]) (\<lambda>_ w.
     case fetchPost post_id user_id w of
       (Inl e, w) \<Rightarrow> (Inl (Panic ''nil pointer dereference''), w)
     | (Inr post, w) \<Rightarrow>
         (case sv_Send srv (rq_notification_id env) (rq_now env) \<lparr>
              snp_ResendCondition = Some (ResendConditionAfter (rq_now env) five_minutes),
              snp_SenderUserID = user_id, snp_ReceiverUserID = pst_author post,
              snp_TriggerID = pst_id post, snp_EventID = EventIDLikePost,
              snp_Content = pst_message post\<rparr> w of
            (_, w) \<Rightarrow> (Inr post, w)))))"

section \<open>Comments\<close>

record thread_request =
  thr_ThreadType :: pb_thread_type
  thr_TargetId :: string

record create_comment_request =
  ccr_Message :: string
  ccr_AudioBytes :: "byte list"
  ccr_AudioDurationMs :: int
  ccr_ParentId :: string
  ccr_PostId :: string
  ccr_Thread :: "thread_request option"

definition ThreadTypeNone :: string where "ThreadTypeNone = ''none''"
definition ThreadTypeComment :: string where "ThreadTypeComment = ''comment''"
definition ThreadTypePost :: string where "ThreadTypePost = ''post''"

definition pbThreadTypeToPG :: "pb_thread_type \<Rightarrow> string res" where
  "pbThreadTypeToPG t = (case t of
     ThreadType_COMMENT \<Rightarrow> Inr ThreadTypeComment
   | ThreadType_POST \<Rightarrow> Inr ThreadTypePost
   | ThreadType_NONE \<Rightarrow> Inr ThreadTypeNone
   | ThreadType_other i \<Rightarrow> Inl (Status Internal ''invalid thread_type received: %v'' []))"

definition comment_params ::
    "req_env \<Rightarrow> string \<Rightarrow> json \<Rightarrow> create_comment_request \<Rightarrow> create_comment_params res" where
  "comment_params env user_id raw req =
     (let params = \<lparr>ccp_id = rq_uuid env 1, ccp_message = string_or_null (ccr_Message req),
        ccp_audio = raw, ccp_author = user_id, ccp_parent_id = string_or_null (ccr_ParentId req),
        ccp_post_id = ccr_PostId req, ccp_thread_type = ThreadTypeNone, ccp_thread_target_id = Null\<rparr> in
      case ccr_Thread req of
        None \<Rightarrow> Inr params
      | Some th \<Rightarrow>
          (case pbThreadTypeToPG (thr_ThreadType th) of
             Inl e \<Rightarrow> Inl e
           | Inr ty \<Rightarrow> Inr (params\<lparr>ccp_thread_target_id := string_or_null (thr_TargetId th),
               ccp_thread_type := ty\<rparr>)))"

definition sv_CreateComment ::
    "'r server \<Rightarrow> req_env \<Rightarrow> call_context \<Rightarrow> create_comment_request \<Rightarrow> 'r world \<Rightarrow> pb_comment res \<times> 'r world" where
  "sv_CreateComment srv env ctx req = with_user ctx (\<lambda>user_id w.
     check_err (on_db (dir_GetPost (ccr_PostId req)) w)
       (\<lambda>e. Status Internal ''failed to retrieve post for comment: %v'' [e]) (\<lambda>post w.
     if ccr_Thread req = None \<and> ccr_Message req = '''' then
       (Inl (Status Internal ''non threaded post must have a message'' []), w)
     else if (case ccr_Thread req of None \<Rightarrow> False
         | Some th \<Rightarrow> thr_ThreadType th = ThreadType_POST \<and> user_id \<noteq> pst_author post) then
       (Inl (Status Internal (''only post author can comment on a thread of type '' @ quoted ''post'') []), w)
     else
       (case NewAudioRawJSON (Some \<lparr>au_id = rq_uuid env 0, au_bytes = ccr_AudioBytes req,
              au_format = '''', au_duration_ms = ccr_AudioDurationMs req\<rparr>) of
          Inl e \<Rightarrow> (Inl (Status Internal ''could not convert request audio to raw json: %v'' [e]), w)
        | Inr raw \<Rightarrow>
            (case comment_params env user_id raw req of
               Inl e \<Rightarrow> (Inl e, w)
             | Inr params \<Rightarrow>
                 check_err (on_db (dir_CreateComment params) w)
                   (\<lambda>e. Status Internal ''failed to create comment: %v'' [e]) (\<lambda>c w.
                 case sv_Send srv (rq_notification_id env) (rq_now env) \<lparr>
                     snp_ResendCondition = None,
                     snp_SenderUserID = user_id, snp_ReceiverUserID = pst_author post,
                     snp_TriggerID = cmt_id c, snp_EventID = EventIDComment,
                     snp_Content = cmt_message c\<rparr> w of
                   (_, w) \<Rightarrow> (Inr c, w))))))"

definition sv_LikeComment ::
    "'r server \<Rightarrow> req_env \<Rightarrow> call_context \<Rightarrow> string \<Rightarrow> 'r world \<Rightarrow> pb_comment res \<times> 'r world" where
  "sv_LikeComment srv env ctx comment_id = with_user ctx (\<lambda>user_id w.
     check_err (on_db (dir_LikeComment user_id comment_id) w)
       (\<lambda>e. Status Internal ''could not like comment: %v'' [e]) (\<lambda>comment w.
     case sv_Send srv (rq_notification_id env) (rq_now env) \<lparr>
         snp_ResendCondition = Some (ResendConditionAfter (rq_now env) five_minutes),
         snp_SenderUserID = user_id, snp_ReceiverUserID = cmt_author comment,
         snp_TriggerID = cmt_id comment, snp_EventID = EventIDLikeComment,
         snp_Content = cmt_message comment\<rparr> w of
       (_, w) \<Rightarrow> (Inr comment, w)))"

section \<open>Notifications\<close>

definition sv_GetAllNotifications :: "call_context \<Rightarrow> 'r world \<Rightarrow> pb_notification list res \<times> 'r world" where
  "sv_GetAllNotifications ctx = with_user ctx (\<lambda>user_id w.
     check_err (on_db (dir_GetAllNotifications user_id) w)
       (\<lambda>e. Status Internal ''failed to retrieve notifications: %v'' [e]) (\<lambda>ns w. (Inr ns, w)))"

text \<open>This handler reads no metadata: any caller may read any notification.\<close>

definition sv_ReadNotification :: "call_context \<Rightarrow> string \<Rightarrow> 'r world \<Rightarrow> pb_notification res \<times> 'r world" where
  "sv_ReadNotification ctx notification_id w =
     check_err (on_db (dir_ReadNotification notification_id) w)
       (\<lambda>e. Status Internal ''failed to read notification: %v'' [e]) (\<lambda>n w. (Inr n, w))"

text \<open>
  The stream of \<^verbatim>\<open>ListenForNotifications\<close>: what the manager hands over is sent on, up to the first
  send that fails (\<open>send_err n\<close> is the error the stream gives for \<open>n\<close>), whose error it returns.
\<close>

fun send_stream :: "(pb_notification \<Rightarrow> goerror option) \<Rightarrow> pb_notification list \<Rightarrow> pb_notification list \<times> unit res" where
  "send_stream send_err [] = ([], Inr ())"
| "send_stream send_err (n # ns) = (case send_err n of
     Some e \<Rightarrow> ([], Inl e)
   | None \<Rightarrow> (case send_stream send_err ns of (sent, r) \<Rightarrow> (n # sent, r)))"

definition sv_ListenForNotifications ::
    "'r server \<Rightarrow> call_context \<Rightarrow> (pb_notification \<Rightarrow> goerror option) \<Rightarrow> string list \<Rightarrow>
     pb_notification list \<times> unit res" where
  "sv_ListenForNotifications srv ctx send_err messages =
     (case md_GetUserIDFromMD ctx of
        None \<Rightarrow> ([], Inl (Status InvalidArgument ''failed to retrieve userID from metadata'' []))
      | Some user_id \<Rightarrow> send_stream send_err (sv_Listen srv messages))"

section \<open>Reading posts on a connection that answers\<close>

lemma db_self [simp]: "c\<lparr>dbt := dbt c\<rparr> = (c :: 't conn)"
  by simp

lemma HasUserLikedPost_up:
  assumes "up c" and "tables_wf (dbt c)" and "p \<in> set (posts (dbt c))" and "length u \<le> 100"
  shows "dir_HasUserLikedPost (p_id p) u c = (Inr (u \<in> set (p_user_ids_who_likes p)), c)"
proof -
  have "q = p" if "q \<in> set (posts (dbt c))" "p_id q = p_id p" for q
    using posts_ids_distinct [OF assms(2)] assms(3) that by (simp add: distinct_map inj_on_def)
  then have "list_ex (\<lambda>q. p_id q = p_id p \<and> cast100 u \<in> set (map cast100 (p_user_ids_who_likes q))) (posts (dbt c)) \<longleftrightarrow>
      u \<in> set (p_user_ids_who_likes p)"
    unfolding list_ex_iff using assms(3) post_likers_short [OF assms(2,3)] cast100_id [OF assms(4)] by metis
  then show ?thesis
    by (simp add: dir_HasUserLikedPost_def q_HasUserLikedPost_def exec_query_up [OF assms(1)])
qed

lemma GetPost_up:
  assumes "up c" and "tables_wf (dbt c)" and "p \<in> set (posts (dbt c))"
  shows "dir_GetPost (p_id p) c = (pgPostToPB p, c)"
proof -
  have "filter (\<lambda>q. p_id q = p_id p) (posts (dbt c)) = [p]"
    by (rule filter_eq_single [OF posts_ids_distinct [OF assms(2)] assms(3)])
  then show ?thesis by (simp add: dir_GetPost_def q_GetPost_def exec_query_up [OF assms(1)])
qed

definition comments_readable :: "tables \<Rightarrow> bool" where
  "comments_readable t \<longleftrightarrow> (\<forall>c \<in> set (comments t). comment_readable c)"

lemma GetComments_up:
  assumes "up c" and "comments_readable (dbt c)"
  shows "\<exists>cs. dir_GetComments u pid c = (Inr cs, c)"
proof -
  let ?f = "\<lambda>r. pgCommentToPB r (hasAlreadyLiked (null_or [] (c_user_ids_who_likes r)) u)"
  have "\<exists>m. ?f r = Inr m" if "r \<in> set (comments (dbt c))" for r
    using assms(2) that pgCommentToPB_readable by (auto simp: comments_readable_def)
  then have "\<exists>cs. decode_list ?f (filter (\<lambda>c. c_post_id c = pid \<and> c_thread_type c = ''post'') (comments (dbt c)) @
      sort_desc c_likes (filter (\<lambda>c. c_post_id c = pid \<and> c_thread_type c \<noteq> ''post'') (comments (dbt c)))) = Inr cs"
    by (intro decode_list_total) auto
  then show ?thesis
    by (auto simp: dir_GetComments_def q_GetComments_def exec_query_up [OF assms(1)])
qed

lemma complete_post_up:
  assumes "up (wd_db w)" and "tables_wf (wd_tables w)" and "comments_readable (wd_tables w)"
    and "p \<in> set (posts (wd_tables w))" and "length u \<le> 100" and "pst_id m = p_id p"
  shows "\<exists>cs. complete_post u m w =
    (Inr (m\<lparr>pst_has_already_liked := u \<in> set (p_user_ids_who_likes p), pst_comments := cs\<rparr>), w)"
proof -
  obtain cs where cs: "dir_GetComments u (p_id p) (wd_db w) = (Inr cs, wd_db w)"
    using GetComments_up [OF assms(1,3)] by blast
  have liked: "liked_or_false (p_id p) u w = (u \<in> set (p_user_ids_who_likes p), w)"
    by (simp add: liked_or_false_def on_db_def HasUserLikedPost_up [OF assms(1,2,4,5)])
  show ?thesis
    by (intro exI [of _ cs]) (simp add: complete_post_def assms(6) on_db_def cs liked)
qed

lemma pgPostToPB_Inr:
  assumes "pgPostToPB p = Inr m"
  shows "pst_id m = p_id p" "pst_author m = p_author p" "pst_message m = p_message p"
    "pst_likes m = null_int (p_likes p)"
  using assms by (auto simp: pgPostToPB_def split: sum.splits)

definition post_readable :: "post_row \<Rightarrow> bool" where
  "post_readable p \<longleftrightarrow> (case AudioRawJSONToPB (p_audio p) of Inl _ \<Rightarrow> False | Inr _ \<Rightarrow> True)"

lemma pgPostToPB_readable: "post_readable p \<Longrightarrow> \<exists>m. pgPostToPB p = Inr m"
  by (auto simp: post_readable_def pgPostToPB_def split: sum.splits)

lemma fetchPost_up:
  assumes "up (wd_db w)" and "tables_wf (wd_tables w)" and "comments_readable (wd_tables w)"
    and "p \<in> set (posts (wd_tables w))" and "length u \<le> 100" and "post_readable p"
  shows "\<exists>m. fetchPost (p_id p) u w = (Inr m, w) \<and> pst_id m = p_id p \<and> pst_author m = p_author p \<and>
    pst_message m = p_message p \<and> pst_likes m = null_int (p_likes p) \<and>
    (pst_has_already_liked m \<longleftrightarrow> u \<in> set (p_user_ids_who_likes p)) \<and>
    (\<forall>a. AudioRawJSONToPB (p_audio p) = Inr a \<longrightarrow> pst_audio m = Some a)"
proof -
  obtain m where m: "pgPostToPB p = Inr m" using pgPostToPB_readable [OF assms(6)] by blast
  note id = pgPostToPB_Inr [OF m]
  obtain cs where cs: "complete_post u m w =
      (Inr (m\<lparr>pst_has_already_liked := u \<in> set (p_user_ids_who_likes p), pst_comments := cs\<rparr>), w)"
    using complete_post_up [OF assms(1-5) id(1)] by blast
  have "AudioRawJSONToPB (p_audio p) = Inr a \<Longrightarrow> pst_audio m = Some a" for a
    using m by (auto simp: pgPostToPB_def)
  then show ?thesis
    using id by (simp add: fetchPost_def on_db_def GetPost_up [OF assms(1,2,4)] m cs)
qed

section \<open>The toggle of a like\<close>

definition post_toggled :: "string \<Rightarrow> string \<Rightarrow> tables \<Rightarrow> tables" where
  "post_toggled u i t = t\<lparr>posts := map (\<lambda>q. if p_id q = i then post_likes.toggle u q else q) (posts t)\<rparr>"

lemma toggle_keeps_columns [simp]:
  "p_id (post_likes.toggle u q) = p_id q" "p_author (post_likes.toggle u q) = p_author q"
  "p_message (post_likes.toggle u q) = p_message q" "p_audio (post_likes.toggle u q) = p_audio q"
  by (simp_all add: post_likes.toggle_def like_post_def unlike_post_def)

definition likeable :: "string \<Rightarrow> post_row \<Rightarrow> bool" where
  "likeable u p \<longleftrightarrow> length u \<le> 100 \<and> int (length (p_user_ids_who_likes p)) < 2 ^ 31 - 1"

lemma likeOrDislikePost_up:
  assumes "up c" and "tables_wf (dbt c)" and "posts_balanced (dbt c)" and "p \<in> set (posts (dbt c))"
    and "likeable u p"
  shows "likeOrDislikePost (p_id p) u (u \<in> set (p_user_ids_who_likes p)) c =
    (pgPostToPB (post_likes.toggle u p), c\<lparr>dbt := post_toggled u (p_id p) (dbt c)\<rparr>)"
proof -
  have bal: "post_likes.balanced p" using assms(3,4) by (auto simp: posts_balanced_def)
  have chk: "row_check posts_schema p = None" using assms(2,4) by (auto simp: tables_wf_def tbl_wf_def)
  have cast: "cast100 u = u" using assms(5) by (intro cast100_id) (simp add: likeable_def)
  have rows: "map (\<lambda>q. if p_id q = p_id p then f q else q) (posts (dbt c)) =
      map (\<lambda>q. if p_id q = p_id p then post_likes.toggle u q else q) (posts (dbt c))"
    if "f p = post_likes.toggle u p" for f
    using that posts_ids_distinct [OF assms(2)] assms(4)
    by (intro map_cong refl) (auto simp: distinct_map inj_on_def)
  show ?thesis
  proof (cases "u \<in> set (p_user_ids_who_likes p)")
    case True
    then have f: "unlike_post u p = post_likes.toggle u p" by (simp add: post_likes.toggle_def)
    have "q_RemoveLikeFromPost u (p_id p) c = (Inr (unlike_post u p), c\<lparr>dbt := (dbt c)\<lparr>posts :=
        map (\<lambda>q. if p_id q = p_id p then unlike_post u q else q) (posts (dbt c))\<rparr>\<rparr>)"
      unfolding q_RemoveLikeFromPost_def cast
      by (rule post_update_ok [OF assms(2,1) refl assms(4)])
        (use post_row_check_unlike [OF chk bal True] in \<open>simp_all add: unlike_post_def\<close>)
    with True f show ?thesis
      by (simp add: likeOrDislikePost_def dir_RemoveLikeFromPost_def post_toggled_def rows [of "unlike_post u", OF f])
  next
    case False
    then have f: "like_post u p = post_likes.toggle u p" by (simp add: post_likes.toggle_def)
    have "row_check posts_schema (like_post u p) = None"
      using post_row_check_like [OF chk bal] assms(5) by (simp add: likeable_def)
    then have "q_LikePost u (p_id p) c = (Inr (like_post u p), c\<lparr>dbt := (dbt c)\<lparr>posts :=
        map (\<lambda>q. if p_id q = p_id p then like_post u q else q) (posts (dbt c))\<rparr>\<rparr>)"
      unfolding q_LikePost_def cast
      by (intro post_update_ok [OF assms(2,1) refl assms(4)]) (simp_all add: like_post_def)
    with False f show ?thesis
      by (simp add: likeOrDislikePost_def dir_LikePost_def post_toggled_def rows [of "like_post u", OF f])
  qed
qed

lemma likeOrDislikePost_wf:
  "tables_wf (dbt c) \<Longrightarrow> tables_wf (dbt (snd (likeOrDislikePost i u b c)))"
proof -
  assume wf: "tables_wf (dbt c)"
  have "snd (dir_LikePost u i c) = snd (q_LikePost u i c)"
    "snd (dir_RemoveLikeFromPost u i c) = snd (q_RemoveLikeFromPost u i c)"
    unfolding dir_LikePost_def dir_RemoveLikeFromPost_def
    by (cases "q_LikePost u i c"; cases "fst (q_LikePost u i c)", auto)
       (cases "q_RemoveLikeFromPost u i c"; cases "fst (q_RemoveLikeFromPost u i c)", auto)
  then show ?thesis
    using wf by (simp add: likeOrDislikePost_def q_LikePost_wf q_RemoveLikeFromPost_wf)
qed

lemma toggled_balanced: "posts_balanced t \<Longrightarrow> posts_balanced (post_toggled u i t)"
  by (auto simp: posts_balanced_def post_toggled_def post_likes.balanced_toggle)

lemma like_post_stored:
  assumes "notifier (sv_Send srv)" and "up (wd_db w)" and "tables_wf (wd_tables w)" and "posts_balanced (wd_tables w)"
    and "comments_readable (wd_tables w)" and "p \<in> set (posts (wd_tables w))" and "post_readable p" and "likeable u p"
  shows "\<exists>m w'. sv_LikePost srv env (user_ctx u) (p_id p) w = (Inr m, w') \<and>
    (\<exists>ns. wd_tables w' = (post_toggled u (p_id p) (wd_tables w))
        \<lparr>notifications := notifications (wd_tables w) @ ns\<rparr>) \<and>
    pst_id m = p_id p \<and> pst_likes m = null_int (p_likes (post_likes.toggle u p)) \<and>
    (pst_has_already_liked m \<longleftrightarrow> u \<notin> set (p_user_ids_who_likes p))"
proof -
  let ?t = "wd_tables w" and ?q = "post_likes.toggle u p"
  let ?c = "(wd_db w)\<lparr>dbt := post_toggled u (p_id p) ?t\<rparr>"
  let ?w = "w\<lparr>wd_db := ?c\<rparr>"
  have short: "length u \<le> 100" using assms(8) by (simp add: likeable_def)
  have readable: "post_readable ?q" using assms(7) by (simp add: post_readable_def)
  obtain m0 where m0: "pgPostToPB ?q = Inr m0" using pgPostToPB_readable [OF readable] by blast
  note toggle = likeOrDislikePost_up [OF assms(2,3,4,6,8), unfolded m0]
  have wf: "tables_wf (wd_tables ?w)"
    using likeOrDislikePost_wf [OF assms(3), of "p_id p" u "u \<in> set (p_user_ids_who_likes p)"] by (simp add: toggle)
  have "?q \<in> set (posts (wd_tables ?w))"
    using assms(6) by (auto simp: post_toggled_def intro: image_eqI [of _ _ p])
  then obtain m where m: "fetchPost (p_id p) u ?w = (Inr m, ?w)" "pst_id m = p_id p" "pst_author m = p_author p"
      "pst_likes m = null_int (p_likes ?q)" "pst_has_already_liked m \<longleftrightarrow> u \<in> set (p_user_ids_who_likes ?q)"
    using fetchPost_up [of ?w ?q u] assms(2,5) wf short readable
    by (auto simp: comments_readable_def post_toggled_def)
  let ?args = "\<lparr>snp_ResendCondition = Some (ResendConditionAfter (rq_now env) five_minutes),
      snp_SenderUserID = u, snp_ReceiverUserID = pst_author m, snp_TriggerID = pst_id m,
      snp_EventID = EventIDLikePost, snp_Content = pst_message m\<rparr>"
  obtain r w' where send: "sv_Send srv (rq_notification_id env) (rq_now env) ?args ?w = (r, w')" by fastforce
  have "\<exists>ns. wd_tables w' = (wd_tables ?w)\<lparr>notifications := notifications (wd_tables ?w) @ ns\<rparr>"
    using notifier.send_tables [OF assms(1), of "rq_notification_id env" "rq_now env" ?args ?w] send by simp
  moreover have "sv_LikePost srv env (user_ctx u) (p_id p) w = (Inr m, w')"
    using HasUserLikedPost_up [OF assms(2,3,6) short] toggle m(1) send
    by (simp add: sv_LikePost_def on_db_def)
  moreover have "u \<in> set (p_user_ids_who_likes ?q) \<longleftrightarrow> u \<notin> set (p_user_ids_who_likes p)"
    by (simp add: post_likes.likers_toggle)
  ultimately show ?thesis using m by (auto simp: post_toggled_def)
qed

section \<open>Likes that arrive together\<close>

text \<open>
  Every request is two statements: the query whether the user has liked the post, and the update
  it decides on. The steps of the requests of a list interleave.
\<close>

datatype like_phase = Arrived | Checked bool | Finished

record like_request =
  lr_user :: string
  lr_post :: string
  lr_phase :: like_phase

inductive like_step :: "tables \<times> like_request list \<Rightarrow> tables \<times> like_request list \<Rightarrow> bool" where
  check: "i < length rs \<Longrightarrow> lr_phase (rs ! i) = Arrived \<Longrightarrow>
    fst (dir_HasUserLikedPost (lr_post (rs ! i)) (lr_user (rs ! i)) (db_of t)) = Inr b \<Longrightarrow>
    like_step (t, rs) (t, rs[i := (rs ! i)\<lparr>lr_phase := Checked b\<rparr>])"
| change: "i < length rs \<Longrightarrow> lr_phase (rs ! i) = Checked b \<Longrightarrow>
    snd (likeOrDislikePost (lr_post (rs ! i)) (lr_user (rs ! i)) b (db_of t)) = c \<Longrightarrow>
    like_step (t, rs) (dbt c, rs[i := (rs ! i)\<lparr>lr_phase := Finished\<rparr>])"

inductive_cases like_stepE: "like_step (t, rs) (t', rs')"

lemma likeOrDislikePost_tables:
  assumes "cast100 u = u"
  shows "dbt (snd (likeOrDislikePost i u b c)) = dbt c \<or>
    dbt (snd (likeOrDislikePost i u b c)) = (dbt c)\<lparr>posts := map (\<lambda>q. if p_id q = i
      then (if b then unlike_post u q else like_post u q) else q) (posts (dbt c))\<rparr>"
proof -
  have snd: "snd (dir_LikePost u i c) = snd (q_LikePost u i c)"
    "snd (dir_RemoveLikeFromPost u i c) = snd (q_RemoveLikeFromPost u i c)"
    unfolding dir_LikePost_def dir_RemoveLikeFromPost_def
    by (cases "q_LikePost u i c"; cases "fst (q_LikePost u i c)", auto)
       (cases "q_RemoveLikeFromPost u i c"; cases "fst (q_RemoveLikeFromPost u i c)", auto)
  show ?thesis
  proof (cases b)
    case True
    have "dbt (snd (q_RemoveLikeFromPost u i c)) = dbt c \<or> dbt (snd (q_RemoveLikeFromPost u i c)) =
        (dbt c)\<lparr>posts := map (\<lambda>q. if p_id q = i then unlike_post u q else q) (posts (dbt c))\<rparr>"
      unfolding q_RemoveLikeFromPost_def assms
      by (rule exec_stmt_inv [where P = "\<lambda>t. t = dbt c \<or> t = (dbt c)\<lparr>posts :=
          map (\<lambda>q. if p_id q = i then unlike_post u q else q) (posts (dbt c))\<rparr>"])
        (auto simp: ok_simps dest: tbl_update_Inr)
    with True snd show ?thesis by (simp add: likeOrDislikePost_def cong: if_cong)
  next
    case False
    have "dbt (snd (q_LikePost u i c)) = dbt c \<or> dbt (snd (q_LikePost u i c)) =
        (dbt c)\<lparr>posts := map (\<lambda>q. if p_id q = i then like_post u q else q) (posts (dbt c))\<rparr>"
      unfolding q_LikePost_def assms
      by (rule exec_stmt_inv [where P = "\<lambda>t. t = dbt c \<or> t = (dbt c)\<lparr>posts :=
          map (\<lambda>q. if p_id q = i then like_post u q else q) (posts (dbt c))\<rparr>"])
        (auto simp: ok_simps dest: tbl_update_Inr)
    with False snd show ?thesis by (simp add: likeOrDislikePost_def cong: if_cong)
  qed
qed

text \<open>What a request has seen stays true until it acts.\<close>

definition checks_hold :: "tables \<times> like_request list \<Rightarrow> bool" where
  "checks_hold s \<longleftrightarrow> (\<forall>r \<in> set (snd s). \<forall>b. lr_phase r = Checked b \<longrightarrow>
     (\<forall>p \<in> set (posts (fst s)). p_id p = lr_post r \<longrightarrow> (b \<longleftrightarrow> lr_user r \<in> set (p_user_ids_who_likes p))))"

definition likes_inv :: "(string \<times> string) list \<Rightarrow> tables \<times> like_request list \<Rightarrow> bool" where
  "likes_inv keys s \<longleftrightarrow> tables_wf (fst s) \<and> posts_balanced (fst s) \<and> checks_hold s \<and>
     map (\<lambda>r. (lr_user r, lr_post r)) (snd s) = keys \<and> distinct keys \<and> (\<forall>k \<in> set keys. length (fst k) \<le> 100)"

lemma keys_update:
  "i < length rs \<Longrightarrow> map (\<lambda>r. (lr_user r, lr_post r)) (rs[i := (rs ! i)\<lparr>lr_phase := ph\<rparr>]) = map (\<lambda>r. (lr_user r, lr_post r)) rs"
  using list_update_id [of "map (\<lambda>r. (lr_user r, lr_post r)) rs" i] by (simp add: map_update)

lemma likes_inv_short:
  assumes "likes_inv keys (t, rs)" and "i < length rs"
  shows "length (lr_user (rs ! i)) \<le> 100"
proof -
  have "map (\<lambda>r. (lr_user r, lr_post r)) rs = keys" "\<forall>k \<in> set keys. length (fst k) \<le> 100"
    using assms(1) by (simp_all add: likes_inv_def)
  then show ?thesis using nth_mem [OF assms(2)] by auto
qed

lemma likes_inv_check:
  assumes inv: "likes_inv keys (t, rs)" and i: "i < length rs"
    and seen: "fst (dir_HasUserLikedPost (lr_post (rs ! i)) (lr_user (rs ! i)) (db_of t)) = Inr b"
  shows "likes_inv keys (t, rs[i := (rs ! i)\<lparr>lr_phase := Checked b\<rparr>])"
proof -
  let ?r = "rs ! i"
  have wf: "tables_wf (dbt (db_of t))" "up (db_of t)" using inv by (simp_all add: likes_inv_def db_of_def up_def)
  have "b \<longleftrightarrow> lr_user ?r \<in> set (p_user_ids_who_likes p)" if "p \<in> set (posts t)" "p_id p = lr_post ?r" for p
  proof -
    have "p \<in> set (posts (dbt (db_of t)))" using that(1) by (simp add: db_of_def)
    from HasUserLikedPost_up [OF wf(2,1) this likes_inv_short [OF inv i]] seen that(2) show ?thesis by simp
  qed
  moreover have "checks_hold (t, rs)" using inv by (simp add: likes_inv_def)
  ultimately have "checks_hold (t, rs[i := ?r\<lparr>lr_phase := Checked b\<rparr>])"
    unfolding checks_hold_def fst_conv snd_conv
    by (intro ballI allI impI) (drule set_mp [OF set_update_subset_insert], elim insertE; fastforce)
  with inv show ?thesis using keys_update [OF i] by (simp add: likes_inv_def)
qed

lemma likes_inv_change:
  assumes inv: "likes_inv keys (t, rs)" and i: "i < length rs" and phase: "lr_phase (rs ! i) = Checked b"
    and t'_def: "t' = dbt (snd (likeOrDislikePost (lr_post (rs ! i)) (lr_user (rs ! i)) b (db_of t)))"
  shows "likes_inv keys (t', rs[i := (rs ! i)\<lparr>lr_phase := Finished\<rparr>])"
proof -
  let ?r = "rs ! i" and ?f = "\<lambda>q. if b then unlike_post (lr_user (rs ! i)) q else like_post (lr_user (rs ! i)) q"
  have parts: "tables_wf t" "posts_balanced t" "checks_hold (t, rs)" "distinct (map (\<lambda>r. (lr_user r, lr_post r)) rs)"
    using inv by (auto simp: likes_inv_def)
  have wf: "tables_wf t'"
    using likeOrDislikePost_wf [of "db_of t"] parts(1) by (simp add: t'_def db_of_def)
  have saw: "b \<longleftrightarrow> lr_user ?r \<in> set (p_user_ids_who_likes p)" if "p \<in> set (posts t)" "p_id p = lr_post ?r" for p
    using parts(3) that phase nth_mem [OF i] unfolding checks_hold_def fst_conv snd_conv by blast
  have t': "t' = t \<or> t' = t\<lparr>posts := map (\<lambda>q. if p_id q = lr_post ?r then ?f q else q) (posts t)\<rparr>"
    using likeOrDislikePost_tables [OF cast100_id [OF likes_inv_short [OF inv i]], of "lr_post ?r" b "db_of t"]
    by (simp add: t'_def db_of_def)
  have "post_likes.balanced (?f q)" if "q \<in> set (posts t)" "p_id q = lr_post ?r" for q
  proof -
    have "?f q = post_likes.toggle (lr_user ?r) q" using saw [OF that] by (simp add: post_likes.toggle_def)
    then show ?thesis using parts(2) that(1) post_likes.balanced_toggle by (simp add: posts_balanced_def)
  qed
  then have bal: "posts_balanced t'"
    using t' parts(2) unfolding posts_balanced_def by (elim disjE) (auto split: if_splits)
  have "checks_hold (t', rs[i := ?r\<lparr>lr_phase := Finished\<rparr>])"
    unfolding checks_hold_def fst_conv snd_conv
  proof (intro ballI allI impI)
    fix r b' p'
    assume r: "r \<in> set (rs[i := ?r\<lparr>lr_phase := Finished\<rparr>])" "lr_phase r = Checked b'"
      and p': "p' \<in> set (posts t')" "p_id p' = lr_post r"
    obtain j where "j < length rs" "r = rs[i := ?r\<lparr>lr_phase := Finished\<rparr>] ! j"
      using r(1) by (auto simp: in_set_conv_nth)
    moreover from this have "j \<noteq> i" using r(2) i by auto
    ultimately have j: "j < length rs" "j \<noteq> i" "r = rs ! j" by simp_all
    have other: "lr_user r \<noteq> lr_user ?r \<or> lr_post r \<noteq> lr_post ?r"
      using nth_eq_iff_index_eq [OF parts(4), of j i] j i by auto
    have seen: "b' \<longleftrightarrow> lr_user r \<in> set (p_user_ids_who_likes p)" if "p \<in> set (posts t)" "p_id p = lr_post r" for p
      using parts(3) that j r(2) nth_mem [OF j(1)] unfolding checks_hold_def fst_conv snd_conv by blast
    obtain p where p: "p \<in> set (posts t)" "p' = p \<or> p' = ?f p \<and> p_id p = lr_post ?r"
      using t' p'(1) by (auto split: if_splits)
    then have "p_id p = lr_post r" using p'(2) by (auto simp: like_post_def unlike_post_def split: if_splits)
    moreover have "lr_user r \<in> set (p_user_ids_who_likes p') \<longleftrightarrow> lr_user r \<in> set (p_user_ids_who_likes p)"
      using p(2) other \<open>p_id p = lr_post r\<close> by (cases b) (auto simp: like_post_def unlike_post_def)
    ultimately show "b' \<longleftrightarrow> lr_user r \<in> set (p_user_ids_who_likes p')" using seen [OF p(1)] by simp
  qed
  with inv wf bal show ?thesis using keys_update [OF i] by (simp add: likes_inv_def)
qed

lemma likes_inv_step:
  assumes "like_step s s'" and inv: "likes_inv keys s"
  shows "likes_inv keys s'"
  using assms by (induction rule: like_step.induct) (auto intro: likes_inv_check likes_inv_change)

lemma likes_inv_reachable:
  assumes "rtranclp like_step s s'" and "likes_inv keys s"
  shows "likes_inv keys s'"
  using assms by induction (auto intro: likes_inv_step)

section \<open>Comments and notifications on a connection that answers\<close>

lemma bump_Some: "likes \<noteq> Null \<Longrightarrow> bump d likes \<noteq> Null"
  by (cases likes) simp_all

lemma comment_like_stored:
  assumes "up c" and "tables_wf (dbt c)" and "comments_readable (dbt c)" and "r \<in> set (comments (dbt c))"
    and "length u \<le> 100" and "row_check comments_schema (like_comment u r) = None"
  shows "\<exists>m. dir_LikeComment u (c_id r) c = (Inr m, c\<lparr>dbt := (dbt c)\<lparr>comments :=
       map (\<lambda>q. if c_id q = c_id r then like_comment u q else q) (comments (dbt c))\<rparr>\<rparr>) \<and>
     cmt_id m = c_id r \<and> cmt_likes m = null_int (bump 1 (c_likes r)) \<and> cmt_has_already_liked m"
proof -
  let ?t = "dbt c"
  let ?rs = "map (\<lambda>q. if c_id q = c_id r then like_comment u q else q) (comments ?t)"
  have short: "length (c_id r) \<le> 100"
    using assms(2,4) by (auto simp: tables_wf_def tbl_wf_def comments_schema_def row_checks)
  note casts = cast100_id [OF assms(5)] cast100_id [OF short]
  have single: "filter (\<lambda>q. c_id q = c_id r) (comments ?t) = [r]"
    by (rule filter_eq_single [OF comments_ids_distinct [OF assms(2)] assms(4)])
  have same: "q = r" if "q \<in> set (comments ?t)" "c_id q = c_id r" for q
    using comments_ids_distinct [OF assms(2)] assms(4) that by (simp add: distinct_map inj_on_def)
  have keys: "c_id (like_comment u q) = c_id q" "c_parent_id (like_comment u q) = c_parent_id q" for q
    by (simp_all add: like_comment_def)
  have "tbl_update comments_schema (\<lambda>q. c_id q = c_id r) (like_comment u) (comments ?t) = Inr ?rs"
    using assms(2,6) same by (intro tbl_update_ok) (auto simp: tables_wf_def comments_schema_def keys)
  moreover have "put (Inr ?rs) (\<lambda>rs. ?t\<lparr>comments := rs\<rparr>) = Inr (?t\<lparr>comments := ?rs\<rparr>)"
    using assms(2) by (intro put_same_keys [of ?t]) (auto simp: tables_wf_fk keys)
  ultimately have q: "q_LikeComment u (c_id r) c = (Inr (like_comment u r), c\<lparr>dbt := ?t\<lparr>comments := ?rs\<rparr>\<rparr>)"
    by (simp add: q_LikeComment_def casts exec_stmt_up [OF assms(1)] returning_one_def single)
  have "comment_readable r" using assms(3,4) by (simp add: comments_readable_def)
  then have "comment_readable (like_comment u r)"
    using bump_Some [of "c_likes r" 1] by (auto simp: comment_readable_def like_comment_def)
  from pgCommentToPB_readable [OF this, of True] obtain m where m: "pgCommentToPB (like_comment u r) True = Inr m" ..
  have "hasAlreadyLiked (null_or [] (c_user_ids_who_likes (like_comment u r))) u"
    by (simp add: hasAlreadyLiked_def like_comment_def)
  with q m pgCommentToPB_Inr(1,5,6) [OF m] show ?thesis
    by (simp add: dir_LikeComment_def keys like_comment_def)
qed

lemma dir_LikeComment_up_frame: "up c \<Longrightarrow> up (c\<lparr>dbt := t\<rparr>)"
  by simp

lemma sv_LikeComment_stored:
  assumes "notifier (sv_Send srv)" and "up (wd_db w)" and "tables_wf (wd_tables w)"
    and "comments_readable (wd_tables w)" and "r \<in> set (comments (wd_tables w))"
    and "length u \<le> 100" and "row_check comments_schema (like_comment u r) = None"
  shows "\<exists>m w'. sv_LikeComment srv env (user_ctx u) (c_id r) w = (Inr m, w') \<and>
    (\<exists>ns. wd_tables w' = (wd_tables w)\<lparr>comments :=
        map (\<lambda>q. if c_id q = c_id r then like_comment u q else q) (comments (wd_tables w)),
        notifications := notifications (wd_tables w) @ ns\<rparr>) \<and>
    cmt_likes m = null_int (bump 1 (c_likes r)) \<and> cmt_has_already_liked m"
proof -
  obtain m where m: "dir_LikeComment u (c_id r) (wd_db w) = (Inr m, (wd_db w)\<lparr>dbt := (wd_tables w)\<lparr>comments :=
       map (\<lambda>q. if c_id q = c_id r then like_comment u q else q) (comments (wd_tables w))\<rparr>\<rparr>)"
     "cmt_likes m = null_int (bump 1 (c_likes r))" "cmt_has_already_liked m"
    using comment_like_stored [OF assms(2-7)] by blast
  let ?w = "w\<lparr>wd_db := (wd_db w)\<lparr>dbt := (wd_tables w)\<lparr>comments :=
       map (\<lambda>q. if c_id q = c_id r then like_comment u q else q) (comments (wd_tables w))\<rparr>\<rparr>\<rparr>"
  let ?args = "\<lparr>snp_ResendCondition = Some (ResendConditionAfter (rq_now env) five_minutes),
      snp_SenderUserID = u, snp_ReceiverUserID = cmt_author m, snp_TriggerID = cmt_id m,
      snp_EventID = EventIDLikeComment, snp_Content = cmt_message m\<rparr>"
  obtain r' w' where send: "sv_Send srv (rq_notification_id env) (rq_now env) ?args ?w = (r', w')" by fastforce
  have "\<exists>ns. wd_tables w' = (wd_tables ?w)\<lparr>notifications := notifications (wd_tables ?w) @ ns\<rparr>"
    using notifier.send_tables [OF assms(1), of "rq_notification_id env" "rq_now env" ?args ?w] send by simp
  moreover have "sv_LikeComment srv env (user_ctx u) (c_id r) w = (Inr m, w')"
    using m(1) send by (simp add: sv_LikeComment_def on_db_def)
  ultimately show ?thesis using m(2,3) by auto
qed

section \<open>The example server\<close>

definition sample_service :: "mem_redis server" where
  "sample_service = NewUnpaperServiceServer (the (cfg_Get (\<lambda>k. k) (\<lambda>_. None) None None (Inr (\<lambda>k. ''unpaper''))))
     mem_redis_cmds sample_gob sample_codec ''sid1''"

definition sample_env :: req_env where
  "sample_env = \<lparr>rq_now = 100, rq_uuid = (\<lambda>n. if n = 0 then ''a0'' else ''a1''), rq_notification_id = ''n9''\<rparr>"

lemma NewUnpaperServiceServer_notifier: "notifier (sv_Send (NewUnpaperServiceServer cfg R gob C ksuid))"
  by (simp add: NewUnpaperServiceServer_def nm.notifier_axioms)

section \<open>Properties\<close>


lemma sample_posts_ready:
  "up (wd_db (world_of sample_posts mem_empty))" "tables_wf (wd_tables (world_of sample_posts mem_empty))"
  "posts_balanced (wd_tables (world_of sample_posts mem_empty))" "comments_readable (wd_tables (world_of sample_posts mem_empty))"
  "sample_post ''p'' [''2''] \<in> set (posts (wd_tables (world_of sample_posts mem_empty)))"
  "post_readable (sample_post ''p'' [''2''])" "likeable u (sample_post ''p'' [''2'']) \<longleftrightarrow> length u \<le> 100"
  using sample_posts_wf
  by (simp_all add: up_def db_of_def sample_posts_def sample_post_def comments_readable_def no_rows_def
      post_readable_def decode_audio_field_def likeable_def)


text \<open>
  When the database refuses the read after a like was stored, the handler dereferences the post
  it did not get: the request ends in a panic, which nothing recovers, while the like stays.
\<close>

theorem like_post_panics_after_the_like:
  assumes "tables_wf t" and "posts_balanced t" and "p \<in> set (posts t)" and "post_readable p" and "likeable u p"
    and "u \<notin> set (p_user_ids_who_likes p)"
  shows "\<exists>m w'. sv_LikePost srv env (user_ctx u) (p_id p)
      ((world_of t s)\<lparr>wd_db := \<lparr>dbt = t, outcomes = [Answered, Answered, Refused msg]\<rparr>\<rparr>) = (Inl (Panic m), w') \<and>
    wd_tables w' = post_toggled u (p_id p) t"
proof -
  let ?c = "\<lparr>dbt = t, outcomes = []\<rparr>"
  have t: "tables_wf (dbt ?c)" "posts_balanced (dbt ?c)" "p \<in> set (posts (dbt ?c))" "up ?c"
    using assms(1-3) by (simp_all add: up_def)
  have short: "length u \<le> 100" using assms(5) by (simp add: likeable_def)
  have answered: "exec_stmt f \<lparr>dbt = t', outcomes = Answered # ocs\<rparr> =
      (fst (exec_stmt f \<lparr>dbt = t', outcomes = []\<rparr>),
       \<lparr>dbt = dbt (snd (exec_stmt f \<lparr>dbt = t', outcomes = []\<rparr>)), outcomes = ocs\<rparr>)"
    for f :: "tables \<Rightarrow> sql_error + ('b \<times> tables)" and t' ocs
    by (auto simp: exec_stmt_def Let_def split: sum.split)
  have liked: "dir_HasUserLikedPost (p_id p) u \<lparr>dbt = t, outcomes = Answered # ocs\<rparr> = (Inr False, \<lparr>dbt = t, outcomes = ocs\<rparr>)" for ocs
  proof -
    have "q_HasUserLikedPost (p_id p) u ?c = (Inr False, ?c)"
      using HasUserLikedPost_up [OF t(4,1,3) short] assms(6)
      by (cases "q_HasUserLikedPost (p_id p) u ?c"; cases "fst (q_HasUserLikedPost (p_id p) u ?c)")
        (auto simp: dir_HasUserLikedPost_def)
    then have "q_HasUserLikedPost (p_id p) u \<lparr>dbt = t, outcomes = Answered # ocs\<rparr> = (Inr False, \<lparr>dbt = t, outcomes = ocs\<rparr>)"
      unfolding q_HasUserLikedPost_def exec_query_def by (subst answered) simp
    then show ?thesis by (simp add: dir_HasUserLikedPost_def)
  qed
  obtain m where m: "pgPostToPB (post_likes.toggle u p) = Inr m"
    using pgPostToPB_readable [of "post_likes.toggle u p"] assms(4) by (auto simp: post_readable_def)
  have like: "dir_LikePost u (p_id p) \<lparr>dbt = t, outcomes = Answered # ocs\<rparr> =
      (Inr m, \<lparr>dbt = post_toggled u (p_id p) t, outcomes = ocs\<rparr>)" for ocs
  proof -
    have "dir_LikePost u (p_id p) ?c = (Inr m, ?c\<lparr>dbt := post_toggled u (p_id p) t\<rparr>)"
      using likeOrDislikePost_up [OF t(4,1,2,3) assms(5)] assms(6) m by (simp add: likeOrDislikePost_def)
    then obtain x where "q_LikePost u (p_id p) ?c = (Inr x, ?c\<lparr>dbt := post_toggled u (p_id p) t\<rparr>)" "pgPostToPB x = Inr m"
      by (cases "q_LikePost u (p_id p) ?c"; cases "fst (q_LikePost u (p_id p) ?c)") (auto simp: dir_LikePost_def)
    then have "q_LikePost u (p_id p) \<lparr>dbt = t, outcomes = Answered # ocs\<rparr> =
        (Inr x, \<lparr>dbt = post_toggled u (p_id p) t, outcomes = ocs\<rparr>)"
      unfolding q_LikePost_def by (subst answered) simp
    with \<open>pgPostToPB x = Inr m\<close> show ?thesis by (simp add: dir_LikePost_def)
  qed
  have "dir_GetPost (p_id p) \<lparr>dbt = t', outcomes = [Refused msg]\<rparr> =
      (Inl (ErrSql (DriverError msg)), \<lparr>dbt = t', outcomes = []\<rparr>)" for t'
    by (simp add: dir_GetPost_def q_GetPost_def exec_query_def exec_stmt_def)
  then show ?thesis
    by (simp add: sv_LikePost_def on_db_def liked like likeOrDislikePost_def fetchPost_def)
qed

lemma like_post_panics_after_the_like_witness:
  "\<exists>m w'. sv_LikePost sample_service sample_env (user_ctx ''1'') ''p''
      ((world_of sample_posts mem_empty)\<lparr>wd_db := \<lparr>dbt = sample_posts, outcomes = [Answered, Answered, Refused ''gone'']\<rparr>\<rparr>)
      = (Inl (Panic m), w') \<and> post_likes.balanced (posts (wd_tables w') ! 0)"
proof -
  have p: "p_id (sample_post ''p'' [''2'']) = ''p''" "''1'' \<notin> set (p_user_ids_who_likes (sample_post ''p'' [''2'']))"
    by (simp_all add: sample_post_def)
  have "likeable ''1'' (sample_post ''p'' [''2''])" by (simp add: likeable_def sample_post_def)
  from like_post_panics_after_the_like [OF sample_posts_wf _ sample_posts_ready(6) this p(2),
      where srv = sample_service and env = sample_env and s = mem_empty and msg = "''gone''"]
  obtain m w' where run: "sv_LikePost sample_service sample_env (user_ctx ''1'') ''p''
      ((world_of sample_posts mem_empty)\<lparr>wd_db := \<lparr>dbt = sample_posts, outcomes = [Answered, Answered, Refused ''gone'']\<rparr>\<rparr>)
      = (Inl (Panic m), w')" and t: "wd_tables w' = post_toggled ''1'' ''p'' sample_posts"
    using sample_posts_ready(5) by (auto simp: p db_of_def)
  have "post_likes.balanced (posts (post_toggled ''1'' ''p'' sample_posts) ! 0)"
    using toggled_balanced [OF sample_posts_wf(2), of "''1''" "''p''"]
    by (simp add: posts_balanced_def post_toggled_def sample_posts_def)
  with run t show ?thesis by auto
qed

text \<open>
  C9: as long as no user has two requests in flight for the same post, the likes stay balanced under
  every interleaving of the requests' queries and updates: the count is the number of users on
  the list, and no user is on it twice.
\<close>

theorem likes_balanced_one_request_each:
  assumes "rtranclp like_step (t, rs) (t', rs')" and "tables_wf t" and "posts_balanced t"
    and "\<forall>r \<in> set rs. lr_phase r = Arrived \<and> length (lr_user r) \<le> 100"
    and "distinct (map (\<lambda>r. (lr_user r, lr_post r)) rs)"
  shows "posts_balanced t' \<and> tables_wf t'"
proof -
  have "likes_inv (map (\<lambda>r. (lr_user r, lr_post r)) rs) (t, rs)"
    using assms(2-5) by (auto simp: likes_inv_def checks_hold_def)
  from likes_inv_reachable [OF assms(1) this] show ?thesis by (simp add: likes_inv_def)
qed

definition sample_like :: "string \<Rightarrow> like_phase \<Rightarrow> like_request" where
  "sample_like u ph = \<lparr>lr_user = u, lr_post = ''q'', lr_phase = ph\<rparr>"

lemma sample_like_unseen:
  "fst (dir_HasUserLikedPost (lr_post (sample_like u ph)) (lr_user (sample_like u ph)) (db_of sample_posts)) = Inr False"
  by (simp add: dir_HasUserLikedPost_def q_HasUserLikedPost_def exec_query_def exec_stmt_def db_of_def
      sample_posts_def sample_post_def sample_like_def)

lemma likes_balanced_one_request_each_witness:
  "\<exists>rs'. rtranclp like_step (sample_posts, [sample_like ''1'' Arrived, sample_like ''2'' Arrived]) (sample_posts, rs') \<and>
     rs' ! 1 = sample_like ''2'' (Checked False) \<and> posts_balanced sample_posts"
proof -
  have "like_step (sample_posts, [sample_like ''1'' Arrived, sample_like ''2'' Arrived])
      (sample_posts, [sample_like ''1'' Arrived, sample_like ''2'' (Checked False)])"
    using like_step.check [of 1 "[sample_like ''1'' Arrived, sample_like ''2'' Arrived]" sample_posts False]
      sample_like_unseen [of "''2''" Arrived] by (simp add: sample_like_def)
  then have step: "rtranclp like_step (sample_posts, [sample_like ''1'' Arrived, sample_like ''2'' Arrived])
      (sample_posts, [sample_like ''1'' Arrived, sample_like ''2'' (Checked False)])" by simp
  have "posts_balanced sample_posts"
    by (rule likes_balanced_one_request_each [OF step sample_posts_wf, THEN conjunct1]) (simp_all add: sample_like_def)
  with step show ?thesis
    by (intro exI [of _ "[sample_like ''1'' Arrived, sample_like ''2'' (Checked False)]"]) simp
qed

text \<open>
  Two requests of the same user for the same post that both query before either updates store
  the like twice: a balanced table and an interleaving exist after which the list names the
  user twice.
\<close>

theorem double_click_likes_twice:
  "\<exists>t rs'. tables_wf sample_posts \<and> posts_balanced sample_posts \<and>
     rtranclp like_step (sample_posts, [sample_like ''1'' Arrived, sample_like ''1'' Arrived]) (t, rs') \<and>
     list_all (\<lambda>r. lr_phase r = Finished) rs' \<and> \<not> posts_balanced t \<and>
     map p_user_ids_who_likes (posts t) = [[''2''], [''1'', ''1'']]"
proof -
  define t1 where "t1 = dbt (snd (likeOrDislikePost ''q'' ''1'' False (db_of sample_posts)))"
  define t2 where "t2 = dbt (snd (likeOrDislikePost ''q'' ''1'' False (db_of t1)))"
  let ?rs = "\<lambda>a b. [sample_like ''1'' a, sample_like ''1'' b]"
  have "like_step (sample_posts, ?rs Arrived Arrived) (sample_posts, ?rs (Checked False) Arrived)"
    using like_step.check [of 0 "?rs Arrived Arrived" sample_posts False] sample_like_unseen [of "''1''" Arrived]
    by (simp add: sample_like_def)
  moreover have "like_step (sample_posts, ?rs (Checked False) Arrived) (sample_posts, ?rs (Checked False) (Checked False))"
    using like_step.check [of 1 "?rs (Checked False) Arrived" sample_posts False] sample_like_unseen [of "''1''" Arrived]
    by (simp add: sample_like_def)
  moreover have "like_step (sample_posts, ?rs (Checked False) (Checked False)) (t1, ?rs Finished (Checked False))"
    using like_step.change [of 0 "?rs (Checked False) (Checked False)" False sample_posts]
    by (simp add: sample_like_def t1_def)
  moreover have "like_step (t1, ?rs Finished (Checked False)) (t2, ?rs Finished Finished)"
    using like_step.change [of 1 "?rs Finished (Checked False)" False t1] by (simp add: sample_like_def t2_def)
  ultimately have "rtranclp like_step (sample_posts, ?rs Arrived Arrived) (t2, ?rs Finished Finished)"
    by (meson converse_rtranclp_into_rtranclp rtranclp.rtrancl_refl)
  moreover have likers: "map p_user_ids_who_likes (posts t2) = [[''2''], [''1'', ''1'']]"
    unfolding t2_def t1_def by code_simp
  moreover have "\<not> posts_balanced t2"
  proof
    assume "posts_balanced t2"
    then have "\<forall>us \<in> set (map p_user_ids_who_likes (posts t2)). distinct us"
      by (auto simp: posts_balanced_def post_likes.balanced_def)
    then show False by (simp add: likers)
  qed
  ultimately show ?thesis using sample_posts_wf by (intro exI [of _ t2]) (auto simp: sample_like_def)
qed

text \<open>
  Liking a comment never takes the like back: each request adds one to the count and the user
  to the list once more, also when they are on it already.
\<close>

theorem like_comment_always_adds:
  assumes "up (wd_db w)" and "tables_wf (wd_tables w)" and "comments_readable (wd_tables w)"
    and "r \<in> set (comments (wd_tables w))" and "length u \<le> 100"
    and "row_check comments_schema (like_comment u r) = None"
  shows "\<exists>m w'. sv_LikeComment (NewUnpaperServiceServer cfg R gob C ksuid) env (user_ctx u) (c_id r) w = (Inr m, w') \<and>
    cmt_likes m = null_int (c_likes r) + 1 \<and> cmt_has_already_liked m \<and>
    comments (wd_tables w') = map (\<lambda>q. if c_id q = c_id r then like_comment u q else q) (comments (wd_tables w)) \<and>
    (u \<in> set (comment_likers r) \<longrightarrow> (\<exists>q \<in> set (comments (wd_tables w')). c_id q = c_id r \<and> \<not> comment_likes.balanced q))"
proof -
  have "comment_readable r" using assms(3,4) by (simp add: comments_readable_def)
  then obtain n where n: "c_likes r = Val n" by (cases "c_likes r") (auto simp: comment_readable_def)
  obtain m w' ns where stored: "sv_LikeComment (NewUnpaperServiceServer cfg R gob C ksuid) env (user_ctx u) (c_id r) w = (Inr m, w')"
    "wd_tables w' = (wd_tables w)\<lparr>comments :=
        map (\<lambda>q. if c_id q = c_id r then like_comment u q else q) (comments (wd_tables w)),
        notifications := notifications (wd_tables w) @ ns\<rparr>"
    "cmt_likes m = null_int (bump 1 (c_likes r))" "cmt_has_already_liked m"
    using sv_LikeComment_stored [OF NewUnpaperServiceServer_notifier assms] by blast
  have "\<exists>q \<in> set (comments (wd_tables w')). c_id q = c_id r \<and> \<not> comment_likes.balanced q"
    if "u \<in> set (comment_likers r)"
  proof (rule bexI [of _ "like_comment u r"])
    show "like_comment u r \<in> set (comments (wd_tables w'))"
      using assms(4) by (auto simp: stored(2) intro: image_eqI [of _ _ r])
    show "c_id (like_comment u r) = c_id r \<and> \<not> comment_likes.balanced (like_comment u r)"
      using that by (simp add: comment_likes.balanced_def like_comment_def)
  qed
  with stored n show ?thesis by simp
qed

lemma like_comment_always_adds_witness:
  "\<exists>m w'. sv_LikeComment sample_service sample_env (user_ctx ''1'') ''c3'' (world_of sample_comments mem_empty) = (Inr m, w') \<and>
     cmt_likes m = 2 \<and> (\<exists>q \<in> set (comments (wd_tables w')). c_id q = ''c3'' \<and> \<not> comment_likes.balanced q)"
proof -
  let ?r = "sample_comment ''c3'' ''none'' (Val [''1''])"
  have "?r \<in> set (comments (wd_tables (world_of sample_comments mem_empty)))"
    by (simp add: sample_comments_def db_of_def)
  moreover have "row_check comments_schema (like_comment ''1'' ?r) = None" by code_simp
  moreover have "up (wd_db (world_of sample_comments mem_empty))" "tables_wf (wd_tables (world_of sample_comments mem_empty))"
    "comments_readable (wd_tables (world_of sample_comments mem_empty))"
    using sample_comments_wf sample_comments_readable by (simp_all add: up_def db_of_def comments_readable_def)
  ultimately show ?thesis
    using like_comment_always_adds [of "world_of sample_comments mem_empty" ?r "''1''"]
    unfolding sample_service_def by (fastforce simp: sample_comment_def)
qed

end
