(* ===== verification/Lists_Dir.thy ===== *)
theory Lists_Dir
  imports Db_Entities
begin

text \<open>
  Package \<^verbatim>\<open>backend/lists\<close>: named lists of users that may enter a room. The allowed users are a
  JSON column that \<^verbatim>\<open>dbentities.List\<close> reads and writes. As in the other packages, an SQL NULL in
  it is an error of \<^verbatim>\<open>Scan\<close> once the statement took effect.
\<close>

record pb_list =
  lst_id :: string
  lst_name :: string
  lst_owner_user_id :: string
  lst_allowed_users :: "string_map option"

record create_list_params =
  clp_id :: string
  clp_name :: string
  clp_allowed_users :: json
  clp_owner_user_id :: string

section \<open>Statements\<close>

definition scan_list :: "list_row \<Rightarrow> list_row res" where
  "scan_list r = (case l_allowed_users r of
     Null \<Rightarrow> Inl (ErrNew ''sql: Scan error on column allowed_users: unsupported Scan, storing driver.Value type <nil>'')
   | Val _ \<Rightarrow> Inr r)"

definition created_list :: "create_list_params \<Rightarrow> list_row" where
  "created_list arg = \<lparr>l_allowed_users = Val (clp_allowed_users arg), l_id = clp_id arg, l_name = clp_name arg,
     l_owner_user_id = clp_owner_user_id arg\<rparr>"

definition q_CreateList :: "create_list_params \<Rightarrow> db \<Rightarrow> list_row res \<times> db" where
  "q_CreateList arg c = check_err (exec_stmt (\<lambda>t.
     returning (created_list arg)
       (put (tbl_insert lists_schema (created_list arg) (lists t)) (\<lambda>rs. t\<lparr>lists := rs\<rparr>))) c) same_err
       (\<lambda>r c. (scan_list r, c))"

definition q_GetListByID :: "string \<Rightarrow> db \<Rightarrow> list_row res \<times> db" where
  "q_GetListByID i c = check_err (exec_query (\<lambda>t. one_row (filter (\<lambda>r. l_id r = i) (lists t))) c) same_err
     (\<lambda>r c. (scan_list r, c))"

definition q_GetListsByOwnerID :: "string \<Rightarrow> db \<Rightarrow> list_row list res \<times> db" where
  "q_GetListsByOwnerID u c = check_err (exec_query (\<lambda>t. Inr (filter (\<lambda>r. l_owner_user_id r = u) (lists t))) c) same_err
     (\<lambda>rs c. (decode_list scan_list rs, c))"

definition list_update :: "string \<Rightarrow> (list_row \<Rightarrow> list_row) \<Rightarrow> db \<Rightarrow> list_row res \<times> db" where
  "list_update i f c = check_err (exec_stmt (\<lambda>t.
     returning_one (map f (filter (\<lambda>r. l_id r = i) (lists t)))
       (put (tbl_update lists_schema (\<lambda>r. l_id r = i) f (lists t)) (\<lambda>rs. t\<lparr>lists := rs\<rparr>))) c) same_err
       (\<lambda>r c. (scan_list r, c))"

definition q_UpdateAllowedUsers :: "json \<Rightarrow> string \<Rightarrow> db \<Rightarrow> list_row res \<times> db" where
  "q_UpdateAllowedUsers raw i = list_update i (\<lambda>r. r\<lparr>l_allowed_users := Val raw\<rparr>)"

definition q_UpdateName :: "string \<Rightarrow> string \<Rightarrow> db \<Rightarrow> list_row res \<times> db" where
  "q_UpdateName name i = list_update i (\<lambda>r. r\<lparr>l_name := name\<rparr>)"

section \<open>The directory\<close>

definition pgListToPB :: "list_row \<Rightarrow> pb_list res" where
  "pgListToPB r =
     (case list_UnmarshalJSON (null_or JNull (l_allowed_users r)) NewList of
        Inl e \<Rightarrow> Inl e
      | Inr l \<Rightarrow> Inr \<lparr>lst_id = l_id r, lst_name = l_name r, lst_owner_user_id = l_owner_user_id r,
          lst_allowed_users = list_GetMap l\<rparr>)"

definition dir_CreateList :: "create_list_params \<Rightarrow> db \<Rightarrow> pb_list res \<times> db" where
  "dir_CreateList arg c = check_err (q_CreateList arg c) same_err (\<lambda>r c. (pgListToPB r, c))"

definition dir_UpdateAllowedUsers :: "json \<Rightarrow> string \<Rightarrow> db \<Rightarrow> pb_list res \<times> db" where
  "dir_UpdateAllowedUsers raw i c = check_err (q_UpdateAllowedUsers raw i c) same_err (\<lambda>r c. (pgListToPB r, c))"

definition dir_UpdateName :: "string \<Rightarrow> string \<Rightarrow> db \<Rightarrow> pb_list res \<times> db" where
  "dir_UpdateName name i c = check_err (q_UpdateName name i c) same_err (\<lambda>r c. (pgListToPB r, c))"

definition dir_GetListsByOwnerID :: "string \<Rightarrow> db \<Rightarrow> pb_list list res \<times> db" where
  "dir_GetListsByOwnerID u c =
     check_err (q_GetListsByOwnerID u c) same_err (\<lambda>rs c. (decode_list pgListToPB rs, c))"

definition dir_GetListByID :: "string \<Rightarrow> db \<Rightarrow> pb_list res \<times> db" where
  "dir_GetListByID i c = check_err (q_GetListByID i c) same_err (\<lambda>r c. (pgListToPB r, c))"

section \<open>Every statement keeps the constraints\<close>

lemma list_update_wf:
  "tables_wf (dbt c) \<Longrightarrow> tables_wf (dbt (snd (list_update i f c)))"
  unfolding list_update_def scanned_tbl
  by (rule exec_stmt_inv) (auto simp: ok_simps tables_wf_def intro: tbl_wf_steps)

lemma q_CreateList_wf [inv_intros]: "tables_wf (dbt c) \<Longrightarrow> tables_wf (dbt (snd (q_CreateList arg c)))"
  unfolding q_CreateList_def scanned_tbl
  by (rule exec_stmt_inv) (auto simp: ok_simps tables_wf_def intro: tbl_wf_steps)

lemma lists_updates_wf [inv_intros]:
  "tables_wf (dbt c) \<Longrightarrow> tables_wf (dbt (snd (q_UpdateAllowedUsers raw i c)))"
  "tables_wf (dbt c) \<Longrightarrow> tables_wf (dbt (snd (q_UpdateName name i c)))"
  by (simp_all add: q_UpdateAllowedUsers_def q_UpdateName_def list_update_wf)

lemma scan_list_Inr [ok_simps]: "scan_list r = Inr x \<longleftrightarrow> x = r \<and> l_allowed_users r \<noteq> Null"
  by (cases "l_allowed_users r") (auto simp: scan_list_def)

lemma lists_ids_distinct: "tables_wf t \<Longrightarrow> distinct (map l_id (lists t))"
  by (auto simp: tables_wf_def tbl_wf_def lists_schema_def keys_of_total distinct_map inj_on_def)

lemma pgListToPB_stored:
  assumes "distinct (map fst kvs)" and "list_ToRawJSON (Some kvs) = Inr raw" and "l_allowed_users r = Val raw"
  shows "pgListToPB r = Inr \<lparr>lst_id = l_id r, lst_name = l_name r, lst_owner_user_id = l_owner_user_id r,
    lst_allowed_users = Some kvs\<rparr>"
  using list_round_trip [OF assms(1,2)] assms(3) by (simp add: pgListToPB_def list_GetMap_def)

lemma q_CreateList_Inr:
  assumes "q_CreateList arg c = (Inr r, c')"
  shows "r = created_list arg" and "dbt c' = (dbt c)\<lparr>lists := lists (dbt c) @ [created_list arg]\<rparr>"
  using assms by (auto simp: q_CreateList_def ok_simps dest!: exec_stmt_Inr tbl_insert_Inr)

text \<open>
  A list created with a map of allowed users and replaced by another one later is read back
  with the second map, under its id and for its owner, whatever the maps hold.
\<close>

theorem list_users_read_back:
  assumes "tables_wf (dbt c)" and "distinct (map fst kvs')"
    and "list_ToRawJSON (NewListFromMap (Some kvs')) = Inr raw'"
    and create: "dir_CreateList arg c = (Inr m, c1)" and update: "dir_UpdateAllowedUsers raw' (clp_id arg) c1 = (Inr m', c2)"
    and read: "dir_GetListByID (clp_id arg) c2 = (Inr m'', c3)"
  shows "lst_allowed_users m'' = Some kvs' \<and> lst_id m'' = clp_id arg \<and> lst_owner_user_id m'' = clp_owner_user_id arg \<and>
    lst_name m'' = clp_name arg \<and> m'' = m'"
proof -
  from create have q: "q_CreateList arg c = (Inr (created_list arg), c1)"
    by (auto simp: dir_CreateList_def ok_simps dest: q_CreateList_Inr(1))
  from q_CreateList_Inr(2) [OF q] have c1: "lists (dbt c1) = lists (dbt c) @ [created_list arg]" by simp
  have wf1: "tables_wf (dbt c1)" using q_CreateList_wf [OF assms(1), of arg] q by simp
  have raw: "list_ToRawJSON (Some kvs') = Inr raw'" using assms(3) by (simp add: NewListFromMap_def)
  let ?f = "\<lambda>r. r\<lparr>l_allowed_users := Val raw'\<rparr>"
  have single: "filter (\<lambda>r. l_id r = clp_id arg) (lists (dbt c1)) = [created_list arg]"
    using filter_eq_single [OF lists_ids_distinct [OF wf1], of "created_list arg"] c1 by (simp add: created_list_def)
  have "clp_id arg \<notin> l_id ` set (lists (dbt c))"
    using lists_ids_distinct [OF wf1] c1 by (simp add: created_list_def)
  then have old: "r \<in> set (lists (dbt c)) \<Longrightarrow> l_id r \<noteq> clp_id arg" for r by (metis imageI)
  from update obtain c2: "lists (dbt c2) = lists (dbt c) @ [?f (created_list arg)]"
    and m': "pgListToPB (?f (created_list arg)) = Inr m'"
    using single c1 old
    by (fastforce simp: dir_UpdateAllowedUsers_def q_UpdateAllowedUsers_def list_update_def ok_simps created_list_def
        dest!: exec_stmt_Inr tbl_update_Inr intro!: map_idI)
  have "filter (\<lambda>r. l_id r = clp_id arg) (lists (dbt c2)) = [?f (created_list arg)]"
    using old by (auto simp: c2 created_list_def filter_empty_conv)
  with read have "pgListToPB (?f (created_list arg)) = Inr m''"
    by (auto simp: dir_GetListByID_def q_GetListByID_def ok_simps dest!: exec_query_Inr)
  with m' pgListToPB_stored [OF assms(2) raw, of "?f (created_list arg)"] show ?thesis
    by (auto simp: created_list_def)
qed

definition sample_list :: create_list_params where
  "sample_list = \<lparr>clp_id = ''l1'', clp_name = ''friends'', clp_allowed_users = JObj [], clp_owner_user_id = ''u1''\<rparr>"

lemma list_users_read_back_witness:
  "\<exists>m c1 m' c2 m'' c3. dir_CreateList sample_list (db_of no_rows) = (Inr m, c1) \<and>
     dir_UpdateAllowedUsers (JObj [(''u2'', JStr ''Bo'')]) ''l1'' c1 = (Inr m', c2) \<and>
     dir_GetListByID ''l1'' c2 = (Inr m'', c3) \<and> lst_allowed_users m'' = Some [(''u2'', ''Bo'')]"
proof -
  let ?row = "created_list sample_list"
  let ?c1 = "db_of (no_rows\<lparr>lists := [?row]\<rparr>)"
  let ?c2 = "db_of (no_rows\<lparr>lists := [?row\<lparr>l_allowed_users := Val (JObj [(''u2'', JStr ''Bo'')])\<rparr>]\<rparr>)"
  note defs = exec_stmt_def tbl_insert_def tbl_update_def tbl_store_def lists_schema_def varchar_check_def returning_def
    returning_one_def put_def fk_violation_def scan_list_def created_list_def sample_list_def no_rows_def db_of_def pgListToPB_def
  obtain m where m: "dir_CreateList sample_list (db_of no_rows) = (Inr m, ?c1)"
    by (simp add: dir_CreateList_def q_CreateList_def defs)
  obtain m' where m': "dir_UpdateAllowedUsers (JObj [(''u2'', JStr ''Bo'')]) ''l1'' ?c1 = (Inr m', ?c2)"
    by (simp add: dir_UpdateAllowedUsers_def q_UpdateAllowedUsers_def list_update_def defs)
  obtain m'' where m'': "dir_GetListByID ''l1'' ?c2 = (Inr m'', ?c2)"
    by (simp add: dir_GetListByID_def q_GetListByID_def exec_query_def defs)
  have raw: "list_ToRawJSON (NewListFromMap (Some [(''u2'', ''Bo'')])) = Inr (JObj [(''u2'', JStr ''Bo'')])"
    by (simp add: list_ToRawJSON_def NewListFromMap_def)
  have "lst_allowed_users m'' = Some [(''u2'', ''Bo'')]"
    by (rule list_users_read_back [OF _ _ raw m, of m' ?c2 m'' ?c2, THEN conjunct1])
      (use m' m'' tables_wf_no_rows in \<open>simp_all add: sample_list_def db_of_def\<close>)
  with m m' m'' show ?thesis by blast
qed

end
