(* ===== verification/Mixes_Dir.thy ===== *)
theory Mixes_Dir
  imports Db_Entities
begin

text \<open>
  Package \<^verbatim>\<open>backend/mixes\<close>: the mixes of posts made for a user, one per category, with a background
  kept as JSON.
\<close>

record pb_mix =
  mix_id :: string
  mix_category :: string
  mix_post_ids :: "string list"
  mix_background :: "pb_background option"
  mix_requested_at :: int
  mix_title :: string

record create_mix_params =
  cmx_id :: string
  cmx_user_id :: string
  cmx_post_ids :: "string list"
  cmx_background :: json
  cmx_requested_at :: int
  cmx_category :: string
  cmx_title :: string

definition created_mix :: "create_mix_params \<Rightarrow> mix_row" where
  "created_mix arg = \<lparr>m_id = cmx_id arg, m_user_id = cmx_user_id arg, m_category = cmx_category arg,
     m_post_ids = cmx_post_ids arg, m_background = cmx_background arg, m_requested_at = cmx_requested_at arg,
     m_title = cmx_title arg\<rparr>"

definition q_CreateUserMix :: "create_mix_params \<Rightarrow> db \<Rightarrow> mix_row res \<times> db" where
  "q_CreateUserMix arg = exec_stmt (\<lambda>t.
     returning (created_mix arg)
       (put (tbl_insert mixes_schema (created_mix arg) (mixes t)) (\<lambda>rs. t\<lparr>mixes := rs\<rparr>)))"

definition q_DeleteUserMixes :: "string \<Rightarrow> db \<Rightarrow> unit res \<times> db" where
  "q_DeleteUserMixes u = exec_stmt (\<lambda>t.
     returning () (put (Inr (tbl_delete (\<lambda>m. m_user_id m = u) (mixes t))) (\<lambda>rs. t\<lparr>mixes := rs\<rparr>)))"

definition q_GetUserMixes :: "string \<Rightarrow> db \<Rightarrow> mix_row list res \<times> db" where
  "q_GetUserMixes u = exec_query (\<lambda>t. Inr (filter (\<lambda>m. m_user_id m = u) (mixes t)))"

definition pgMixToPB :: "mix_row \<Rightarrow> pb_mix res" where
  "pgMixToPB m = (case UnmarshalBackgroundJSON (m_background m) of
     Inl e \<Rightarrow> Inl e
   | Inr b \<Rightarrow> Inr \<lparr>mix_id = m_id m, mix_category = m_category m, mix_post_ids = m_post_ids m,
       mix_background = Some b, mix_requested_at = m_requested_at m, mix_title = m_title m\<rparr>)"

definition pgMixListToPB :: "mix_row list \<Rightarrow> pb_mix list res" where
  "pgMixListToPB ms = decode_list pgMixToPB ms"

definition dir_CreateUserMix :: "create_mix_params \<Rightarrow> db \<Rightarrow> pb_mix res \<times> db" where
  "dir_CreateUserMix arg c = check_err (q_CreateUserMix arg c) same_err (\<lambda>m c. (pgMixToPB m, c))"

definition dir_GetUserMixes :: "string \<Rightarrow> db \<Rightarrow> pb_mix list res \<times> db" where
  "dir_GetUserMixes u c = check_err (q_GetUserMixes u c) same_err (\<lambda>ms c. (pgMixListToPB ms, c))"

definition dir_DeleteUserMixes :: "string \<Rightarrow> db \<Rightarrow> unit res \<times> db" where
  "dir_DeleteUserMixes u c = q_DeleteUserMixes u c"

lemma q_CreateUserMix_wf [inv_intros]: "tables_wf (dbt c) \<Longrightarrow> tables_wf (dbt (snd (q_CreateUserMix arg c)))"
  unfolding q_CreateUserMix_def
  by (rule exec_stmt_inv) (auto simp: ok_simps tables_wf_def intro: tbl_wf_steps)

lemma q_DeleteUserMixes_wf [inv_intros]: "tables_wf (dbt c) \<Longrightarrow> tables_wf (dbt (snd (q_DeleteUserMixes u c)))"
  unfolding q_DeleteUserMixes_def
  by (rule exec_stmt_inv) (auto simp: ok_simps tables_wf_def intro: tbl_wf_steps)

lemma q_GetUserMixes_tbl [simp]: "dbt (snd (q_GetUserMixes u c)) = dbt c"
  by (simp add: q_GetUserMixes_def)

section \<open>What the statements do\<close>

lemma dir_DeleteUserMixes_Inr:
  "dir_DeleteUserMixes u c = (Inr x, c') \<Longrightarrow>
     dbt c' = (dbt c)\<lparr>mixes := filter (\<lambda>m. m_user_id m \<noteq> u) (mixes (dbt c))\<rparr>"
  by (auto simp: dir_DeleteUserMixes_def q_DeleteUserMixes_def ok_simps tbl_delete_def dest!: exec_stmt_Inr)

lemma dir_CreateUserMix_Inr:
  assumes "dir_CreateUserMix arg c = (Inr m, c')" and "NewBackgroundRawJSON (Some b) = Inr (cmx_background arg)"
  shows "dbt c' = (dbt c)\<lparr>mixes := mixes (dbt c) @ [created_mix arg]\<rparr>"
    and "m = \<lparr>mix_id = cmx_id arg, mix_category = cmx_category arg, mix_post_ids = cmx_post_ids arg,
       mix_background = Some b, mix_requested_at = cmx_requested_at arg, mix_title = cmx_title arg\<rparr>"
  using assms(1) background_round_trip [OF assms(2)]
  by (auto simp: dir_CreateUserMix_def q_CreateUserMix_def ok_simps pgMixToPB_def created_mix_def
      dest!: exec_stmt_Inr tbl_insert_Inr)

end
