(* ===== verification/Service_Mixes.thy ===== *)
theory Service_Mixes
  imports Mixes_Dir Posts_Dir Server_State
begin

text \<open>
  The handlers of \<^verbatim>\<open>backend/pkg/service/v1/mixes.go\<close>: \<^verbatim>\<open>GetMixes\<close> throws the mixes of the user away
  and makes new ones from the trending posts of the day. The clock, the ids, the random order the
  database shuffles by and \<^verbatim>\<open>rand.Intn\<close> are arguments; the last two by the number of the category.
\<close>

definition FakeBackgroundImages :: "string list" where
  "FakeBackgroundImages = [
     ''linear-gradient(to top, #a18cd1 0%, #fbc2eb 100%);'',
     ''linear-gradient(45deg, #ff9a9e 0%, #fad0c4 99%, #fad0c4 100%);'',
     ''linear-gradient(to top, #ff9a9e 0%, #fecfef 99%, #fecfef 100%);'',
     ''linear-gradient(to top, #96fbc4 0%, #f9f586 100%);'',
     ''linear-gradient(to top, #cd9cf2 0%, #f6f3ff 100%);'',
     ''linear-gradient(to top, #accbee 0%, #e7f0fd 100%);'',
     ''linear-gradient(to top, #accbee 0%, #e7f0fd 100%);'']"

record mix_env =
  mx_now :: int
  mx_uuid :: "nat \<Rightarrow> string"
  mx_shuffle :: "nat \<Rightarrow> string list \<Rightarrow> string list"
  mx_Intn :: "nat \<Rightarrow> nat \<Rightarrow> nat"

definition mix_background_for :: "mix_env \<Rightarrow> nat \<Rightarrow> pb_background" where
  "mix_background_for env k = \<lparr>bg_fallback = ''#ffeb99'',
     bg_image = FakeBackgroundImages ! mx_Intn env k (length FakeBackgroundImages)\<rparr>"

text \<open>The loop over the categories; the number of the category goes up with each one.\<close>

fun create_mixes_loop :: "mix_env \<Rightarrow> string \<Rightarrow> nat \<Rightarrow> string list \<Rightarrow> db \<Rightarrow> pb_mix list res \<times> db" where
  "create_mixes_loop env user_id k [] c = (Inr [], c)"
| "create_mixes_loop env user_id k (category # categories) c =
     check_err (dir_GetTrendingTodayPostIDs (mx_now env) (mx_shuffle env k) c) same_err (\<lambda>ids c.
     if length ids = 0 then create_mixes_loop env user_id (Suc k) categories c
     else
       (case NewBackgroundRawJSON (Some (mix_background_for env k)) of
          Inl e \<Rightarrow> (Inl e, c)
        | Inr raw \<Rightarrow>
            check_err (dir_CreateUserMix \<lparr>cmx_id = mx_uuid env k, cmx_user_id = user_id, cmx_post_ids = ids,
                cmx_background = raw, cmx_requested_at = mx_now env, cmx_category = category, cmx_title = category\<rparr> c)
              same_err (\<lambda>m c.
            check_err (create_mixes_loop env user_id (Suc k) categories c) same_err (\<lambda>ms c. (Inr (m # ms), c)))))"

definition mix_categories :: "string list" where
  "mix_categories = [''Mindfulness'', ''Art'', ''Sports'']"

definition createMixes :: "mix_env \<Rightarrow> string \<Rightarrow> db \<Rightarrow> pb_mix list res \<times> db" where
  "createMixes env user_id = create_mixes_loop env user_id 0 mix_categories"

definition createAndReturnGetMixesRes :: "mix_env \<Rightarrow> string \<Rightarrow> db \<Rightarrow> pb_mix list res \<times> db" where
  "createAndReturnGetMixesRes env user_id c =
     check_err (dir_DeleteUserMixes user_id c) (\<lambda>e. Status Internal ''failed to delete mixes: %v'' [e]) (\<lambda>_ c.
     check_err (createMixes env user_id c) (\<lambda>e. Status Internal ''failed to create mixes: %v'' [e]) (\<lambda>ms c. (Inr ms, c)))"

text \<open>
  The test for the age of the mixes is commented out in the code, and a constant true stands in its
  place: the mixes that were read are never returned.
\<close>

definition get_mixes :: "mix_env \<Rightarrow> string \<Rightarrow> db \<Rightarrow> pb_mix list res \<times> db" where
  "get_mixes env user_id c =
     (case dir_GetUserMixes user_id c of
        (Inl e, c) \<Rightarrow>
          if e \<noteq> ErrSql NoRows then (Inl (Status Internal ''failed to retrieve user mixes: %v'' [e]), c)
          else createAndReturnGetMixesRes env user_id c
      | (Inr current, c) \<Rightarrow>
          if length current = 0 then createAndReturnGetMixesRes env user_id c
          else if True then createAndReturnGetMixesRes env user_id c
          else (Inr current, c))"

definition sv_GetMixes :: "mix_env \<Rightarrow> call_context \<Rightarrow> 'r world \<Rightarrow> pb_mix list res \<times> 'r world" where
  "sv_GetMixes env ctx = with_user ctx (\<lambda>user_id w. on_db (get_mixes env user_id) w)"

section \<open>The mixes made\<close>

text \<open>The row of a category, for the ids that were trending.\<close>

definition mix_for :: "mix_env \<Rightarrow> string \<Rightarrow> string list \<Rightarrow> nat \<Rightarrow> string \<Rightarrow> pb_mix" where
  "mix_for env user_id pool k category = \<lparr>mix_id = mx_uuid env k, mix_category = category,
     mix_post_ids = take 10 (mx_shuffle env k pool), mix_background = Some (mix_background_for env k),
     mix_requested_at = mx_now env, mix_title = category\<rparr>"

definition trending_ids :: "int \<Rightarrow> tables \<Rightarrow> string list" where
  "trending_ids now t = map p_id (trending_pool now (posts t))"

lemma trending_ids_Inr:
  "dir_GetTrendingTodayPostIDs now sh c = (Inr ids, c') \<Longrightarrow>
     ids = take 10 (sh (trending_ids now (dbt c))) \<and> dbt c' = dbt c"
  by (auto simp: dir_GetTrendingTodayPostIDs_def q_GetTrendingTodayPostIDs_def trending_ids_def ok_simps
      dest!: exec_query_Inr)

text \<open>A row holds what its message says.\<close>

definition mix_row_of :: "string \<Rightarrow> pb_mix \<Rightarrow> mix_row \<Rightarrow> bool" where
  "mix_row_of user_id m r \<longleftrightarrow> m_user_id r = user_id \<and> pgMixToPB r = Inr m"

lemma create_mixes_loop_Inr:
  assumes "create_mixes_loop env user_id k cats c = (Inr ms, c')"
    and "\<forall>k xs. mx_shuffle env k xs = [] \<longleftrightarrow> xs = []"
  shows "(if trending_ids (mx_now env) (dbt c) = [] then ms = []
      else ms = map (\<lambda>(k, cat). mix_for env user_id (trending_ids (mx_now env) (dbt c)) k cat) (zip [k..<k + length cats] cats)) \<and>
    (\<exists>rs. dbt c' = (dbt c)\<lparr>mixes := mixes (dbt c) @ rs\<rparr> \<and> list_all2 (mix_row_of user_id) ms rs)"
  using assms(1)
proof (induction cats arbitrary: k c ms)
  case Nil
  then show ?case by auto
next
  case (Cons cat cats)
  let ?pool = "trending_ids (mx_now env) (dbt c)"
  let ?b = "mix_background_for env k"
  from Cons.prems obtain ids c1 where
    "dir_GetTrendingTodayPostIDs (mx_now env) (mx_shuffle env k) c = (Inr ids, c1)"
    by (auto simp: ok_simps)
  note got = this trending_ids_Inr [OF this]
  show ?case
  proof (cases "?pool = []")
    case True
    with assms(2) got have ids: "ids = []" by simp
    then have "create_mixes_loop env user_id (Suc k) cats c1 = (Inr ms, c')"
      using Cons.prems got(1) by simp
    from Cons.IH [OF this] show ?thesis using got True by auto
  next
    case False
    with assms(2) got have "ids \<noteq> []" by simp
    obtain raw where raw: "NewBackgroundRawJSON (Some ?b) = Inr raw"
      by (simp add: NewBackgroundRawJSON_def)
    let ?arg = "\<lparr>cmx_id = mx_uuid env k, cmx_user_id = user_id, cmx_post_ids = ids,
                cmx_background = raw, cmx_requested_at = mx_now env, cmx_category = cat, cmx_title = cat\<rparr>"
    from Cons.prems got(1) \<open>ids \<noteq> []\<close> raw obtain m c2 ms2 where
      m: "dir_CreateUserMix ?arg c1 = (Inr m, c2)" and
      rest: "create_mixes_loop env user_id (Suc k) cats c2 = (Inr ms2, c')" and ms: "ms = m # ms2"
      by (auto simp: ok_simps)
    from dir_CreateUserMix_Inr [OF m, of ?b] raw
    have c2: "dbt c2 = (dbt c1)\<lparr>mixes := mixes (dbt c1) @ [created_mix ?arg]\<rparr>"
      and m': "m = mix_for env user_id ?pool k cat"
      by (simp_all add: mix_for_def got)
    have "pgMixToPB (created_mix ?arg) = Inr m"
      using background_round_trip [OF raw] by (simp add: pgMixToPB_def created_mix_def m' mix_for_def got)
    then have row: "mix_row_of user_id m (created_mix ?arg)"
      by (simp add: mix_row_of_def created_mix_def)
    have pool: "trending_ids (mx_now env) (dbt c2) = ?pool"
      by (simp add: c2 got trending_ids_def)
    from Cons.IH [OF rest] obtain rs where rs:
      "dbt c' = (dbt c2)\<lparr>mixes := mixes (dbt c2) @ rs\<rparr>" "list_all2 (mix_row_of user_id) ms2 rs"
      "ms2 = map (\<lambda>(k, cat). mix_for env user_id ?pool k cat) (zip [Suc k..<Suc k + length cats] cats)"
      unfolding pool using False by auto
    have "zip [k..<k + length (cat # cats)] (cat # cats) = (k, cat) # zip [Suc k..<Suc k + length cats] cats"
      by (simp add: upt_rec)
    with rs row False show ?thesis
      by (auto simp: ms m' c2 got intro!: exI [of _ "created_mix ?arg # rs"])
  qed
qed

lemma get_mixes_Inr:
  assumes "get_mixes env user_id c = (Inr ms, c')"
  obtains c1 where "dbt c1 = (dbt c)\<lparr>mixes := filter (\<lambda>m. m_user_id m \<noteq> user_id) (mixes (dbt c))\<rparr>"
    "createMixes env user_id c1 = (Inr ms, c')"
proof -
  obtain c0 where "dbt c0 = dbt c" "createAndReturnGetMixesRes env user_id c0 = (Inr ms, c')"
    using assms by (auto simp: get_mixes_def dir_GetUserMixes_def check_err_def q_GetUserMixes_def exec_query_tbl
        split: prod.splits sum.splits if_splits) (metis exec_query_tbl snd_conv)+
  then show thesis
    using that by (auto simp: createAndReturnGetMixesRes_def ok_simps dest!: dir_DeleteUserMixes_Inr)
qed

text \<open>
  Every request for mixes replaces those of the user: the mixes returned are one for each of the
  three categories, each of at most ten of the posts trending today, or none at all when no post
  was made today; the user's stored mixes are then exactly these, and the mixes of the other
  users are as they were. Mixes that were stored before are never returned.
\<close>

theorem mixes_made_anew:
  assumes "\<forall>k xs. mset (mx_shuffle env k xs) = mset xs"
    and "sv_GetMixes env (user_ctx u) w = (Inr ms, w')"
  shows "ms = (if trending_ids (mx_now env) (wd_tables w) = [] then []
      else map (\<lambda>(k, cat). mix_for env u (trending_ids (mx_now env) (wd_tables w)) k cat)
        [(0, ''Mindfulness''), (1, ''Art''), (2, ''Sports'')]) \<and>
    list_all2 (mix_row_of u) ms (filter (\<lambda>m. m_user_id m = u) (mixes (wd_tables w'))) \<and>
    filter (\<lambda>m. m_user_id m \<noteq> u) (mixes (wd_tables w')) = filter (\<lambda>m. m_user_id m \<noteq> u) (mixes (wd_tables w))"
proof -
  from assms(2) obtain c where g: "get_mixes env u (wd_db w) = (Inr ms, c)" and w': "wd_db w' = c"
    by (auto simp: sv_GetMixes_def ok_simps)
  obtain c1 where c1: "dbt c1 = (wd_tables w)\<lparr>mixes := filter (\<lambda>m. m_user_id m \<noteq> u) (mixes (wd_tables w))\<rparr>"
    and made: "create_mixes_loop env u 0 mix_categories c1 = (Inr ms, c)"
    by (rule get_mixes_Inr [OF g]) (simp add: createMixes_def)
  have empty: "\<forall>k xs. mx_shuffle env k xs = [] \<longleftrightarrow> xs = []"
    using assms(1) by (metis mset_zero_iff)
  have pool: "trending_ids (mx_now env) (dbt c1) = trending_ids (mx_now env) (wd_tables w)"
    by (simp add: c1 trending_ids_def)
  from create_mixes_loop_Inr [OF made empty] obtain rs where
    ms: "if trending_ids (mx_now env) (dbt c1) = [] then ms = []
      else ms = map (\<lambda>(k, cat). mix_for env u (trending_ids (mx_now env) (dbt c1)) k cat)
        (zip [0..<0 + length mix_categories] mix_categories)"
    and rs: "dbt c = (dbt c1)\<lparr>mixes := mixes (dbt c1) @ rs\<rparr>" "list_all2 (mix_row_of u) ms rs" by blast
  have "\<forall>r \<in> set rs. m_user_id r = u"
    using rs(2) by (auto simp: mix_row_of_def dest: list_all2_source)
  then have "filter (\<lambda>m. m_user_id m = u) rs = rs" "filter (\<lambda>m. m_user_id m \<noteq> u) rs = []"
    by (auto simp: filter_empty_conv)
  then have mine: "filter (\<lambda>m. m_user_id m = u) (mixes (dbt c)) = rs"
    and others: "filter (\<lambda>m. m_user_id m \<noteq> u) (mixes (dbt c)) = filter (\<lambda>m. m_user_id m \<noteq> u) (mixes (wd_tables w))"
    by (simp_all add: rs(1) c1 filter_empty_conv)
  have "zip [0..<0 + length mix_categories] mix_categories = [(0, ''Mindfulness''), (1, ''Art''), (2, ''Sports'')]"
    by (simp add: mix_categories_def upt_rec)
  with ms pool have "ms = (if trending_ids (mx_now env) (wd_tables w) = [] then []
      else map (\<lambda>(k, cat). mix_for env u (trending_ids (mx_now env) (wd_tables w)) k cat)
        [(0, ''Mindfulness''), (1, ''Art''), (2, ''Sports'')])"
    by (cases "trending_ids (mx_now env) (wd_tables w) = []") simp_all
  with mine others rs(2) w' show ?thesis by simp
qed

definition sample_mix_env :: mix_env where
  "sample_mix_env = \<lparr>mx_now = 5, mx_uuid = (\<lambda>k. ''m'' @ digits (int k)), mx_shuffle = (\<lambda>k xs. rev xs),
     mx_Intn = (\<lambda>k n. k)\<rparr>"

definition sample_mixes :: tables where
  "sample_mixes = sample_posts\<lparr>mixes := [\<lparr>m_id = ''old'', m_user_id = ''u'', m_category = ''Art'', m_post_ids = [],
     m_background = JObj [], m_requested_at = 1, m_title = ''Art''\<rparr>]\<rparr>"

lemma sample_mixes_made:
  "(case sv_GetMixes sample_mix_env (user_ctx ''u'') (world_of sample_mixes ()) of
      (Inr ms, w) \<Rightarrow> map mix_id ms = [''m0'', ''m1'', ''m2''] | _ \<Rightarrow> False)"
  by code_simp

lemma mixes_made_anew_witness:
  "\<exists>ms w'. sv_GetMixes sample_mix_env (user_ctx ''u'') (world_of sample_mixes ()) = (Inr ms, w') \<and>
     map mix_id ms = [''m0'', ''m1'', ''m2''] \<and>
     list_all2 (mix_row_of ''u'') ms (filter (\<lambda>m. m_user_id m = ''u'') (mixes (wd_tables w')))"
proof -
  obtain ms w' where made: "sv_GetMixes sample_mix_env (user_ctx ''u'') (world_of sample_mixes ()) = (Inr ms, w')"
    and ids: "map mix_id ms = [''m0'', ''m1'', ''m2'']"
    using sample_mixes_made by (auto split: prod.splits sum.splits)
  from mixes_made_anew [OF _ made] ids made show ?thesis by (auto simp: sample_mix_env_def)
qed

end
