(* ===== verification/Payment_Msgs.thy ===== *)
theory Payment_Msgs
  imports Db_Entities
begin

text \<open>
  The messages of \<^verbatim>\<open>backend/pkg/api/v1/payment.pb.go\<close> that the payment code builds and reads, and
  the invoice as \<^verbatim>\<open>encoding/json\<close> stores it with a subscription. An enumeration is an int32
  on the wire: values outside the declared ones are kept by \<open>_other\<close>.
\<close>

section \<open>Enumerations\<close>

datatype pb_plan = Plan_UNPAPER_FREE | Plan_UNPAPER_PLUS_MONTHLY | Plan_UNPAPER_PLUS_YEARLY | Plan_other int

datatype pb_subscription_status =
    SubscriptionStatus_ACTIVE
  | SubscriptionStatus_INCOMPLETE
  | SubscriptionStatus_INCOMPLETE_EXPIRED
  | SubscriptionStatus_TRIALING
  | SubscriptionStatus_PAST_DUE
  | SubscriptionStatus_CANCELED
  | SubscriptionStatus_UNPAID

datatype pb_room_subscription_type = RoomSubscriptionType_ONE_TIME | RoomSubscriptionType_SUBSCRIPTION_MONTHLY
  | RoomSubscriptionType_other int

datatype pb_payment_intent_status =
    PaymentIntentStatus_REQUIRES_PAYMENT_METHOD
  | PaymentIntentStatus_REQUIRES_CONFIRMATION
  | PaymentIntentStatus_REQUIRES_ACTION
  | PaymentIntentStatus_PROCESSING
  | PaymentIntentStatus_REQUIRES_CAPTURE
  | PaymentIntentStatus_CANCELED
  | PaymentIntentStatus_SUCCEEDED
  | PaymentIntentStatus_other int

fun plan_num :: "pb_plan \<Rightarrow> int" where
  "plan_num Plan_UNPAPER_FREE = 0"
| "plan_num Plan_UNPAPER_PLUS_MONTHLY = 1"
| "plan_num Plan_UNPAPER_PLUS_YEARLY = 2"
| "plan_num (Plan_other n) = n"

definition plan_of_num :: "int \<Rightarrow> pb_plan" where
  "plan_of_num n = (if n = 0 then Plan_UNPAPER_FREE else if n = 1 then Plan_UNPAPER_PLUS_MONTHLY
     else if n = 2 then Plan_UNPAPER_PLUS_YEARLY else Plan_other n)"

fun pi_status_num :: "pb_payment_intent_status \<Rightarrow> int" where
  "pi_status_num PaymentIntentStatus_REQUIRES_PAYMENT_METHOD = 0"
| "pi_status_num PaymentIntentStatus_REQUIRES_CONFIRMATION = 1"
| "pi_status_num PaymentIntentStatus_REQUIRES_ACTION = 2"
| "pi_status_num PaymentIntentStatus_PROCESSING = 3"
| "pi_status_num PaymentIntentStatus_REQUIRES_CAPTURE = 4"
| "pi_status_num PaymentIntentStatus_CANCELED = 5"
| "pi_status_num PaymentIntentStatus_SUCCEEDED = 6"
| "pi_status_num (PaymentIntentStatus_other n) = n"

definition pi_status_of_num :: "int \<Rightarrow> pb_payment_intent_status" where
  "pi_status_of_num n =
     (if n = 0 then PaymentIntentStatus_REQUIRES_PAYMENT_METHOD
      else if n = 1 then PaymentIntentStatus_REQUIRES_CONFIRMATION
      else if n = 2 then PaymentIntentStatus_REQUIRES_ACTION
      else if n = 3 then PaymentIntentStatus_PROCESSING
      else if n = 4 then PaymentIntentStatus_REQUIRES_CAPTURE
      else if n = 5 then PaymentIntentStatus_CANCELED
      else if n = 6 then PaymentIntentStatus_SUCCEEDED
      else PaymentIntentStatus_other n)"

text \<open>The message carries a declared value under its own name only.\<close>

definition plan_ok :: "pb_plan \<Rightarrow> bool" where
  "plan_ok p \<longleftrightarrow> plan_of_num (plan_num p) = p \<and> int32_range (plan_num p)"

definition pi_status_ok :: "pb_payment_intent_status \<Rightarrow> bool" where
  "pi_status_ok s \<longleftrightarrow> pi_status_of_num (pi_status_num s) = s \<and> int32_range (pi_status_num s)"

section \<open>Messages\<close>

record pb_payment_intent =
  pi_status :: pb_payment_intent_status
  pi_client_secret :: string
  pi_id :: string

record pb_invoice =
  inv_id :: string
  inv_amount_due :: int
  inv_payment_intent :: "pb_payment_intent option"
  inv_plan :: pb_plan
  inv_subtotal :: int

record pb_price =
  prc_id :: string
  prc_active :: bool
  prc_plan :: pb_plan

record pb_subscription_item =
  sit_id :: string

record pb_subscription =
  sub_id :: string
  sub_customer_id :: string
  sub_current_period_end :: int
  sub_status :: pb_subscription_status
  sub_price :: "pb_price option"
  sub_latest_invoice :: "pb_invoice option"
  sub_items :: "pb_subscription_item list"

record pb_room_subscription =
  rsb_id :: string
  rsb_customer_id :: string
  rsb_current_period_end :: int
  rsb_status :: pb_subscription_status
  rsb_latest_invoice :: "pb_invoice option"
  rsb_room_id :: string
  rsb_room_subscription_type :: pb_room_subscription_type

record pb_payment_method =
  pmd_id :: string
  pmd_user_id :: string
  pmd_last_four :: string
  pmd_exp_month :: int
  pmd_exp_year :: int
  pmd_is_default :: bool

record pb_customer =
  cst_id :: string
  cst_customer_id :: string
  cst_first_name :: string
  cst_last_name :: string
  cst_subscriptions :: "pb_subscription list"
  cst_default_payment_method :: "pb_payment_method option"
  cst_account_id :: string

record pb_connected_customer =
  ccu_user_id :: string
  ccu_customer_id :: string
  ccu_connected_customer_id :: string
  ccu_account_id :: string

record pb_connected_account =
  cac_user_id :: string
  cac_customer_id :: string
  cac_account_id :: string
  cac_can_receive_payments :: bool

section \<open>The invoice in a JSON column\<close>

definition empty_payment_intent :: pb_payment_intent where
  "empty_payment_intent = \<lparr>pi_status = PaymentIntentStatus_REQUIRES_PAYMENT_METHOD,
     pi_client_secret = [], pi_id = []\<rparr>"

definition empty_invoice :: pb_invoice where
  "empty_invoice = \<lparr>inv_id = [], inv_amount_due = 0, inv_payment_intent = None,
     inv_plan = Plan_UNPAPER_FREE, inv_subtotal = 0\<rparr>"

text \<open>\<^verbatim>\<open>omitempty\<close>: a field with its zero value is left out.\<close>

definition num_field :: "string \<Rightarrow> int \<Rightarrow> (string \<times> json) list" where
  "num_field k n = (if n = 0 then [] else [(k, JNum n)])"

definition str_field :: "string \<Rightarrow> string \<Rightarrow> (string \<times> json) list" where
  "str_field k s = (if s = [] then [] else [(k, JStr s)])"

definition marshal_payment_intent :: "pb_payment_intent \<Rightarrow> json" where
  "marshal_payment_intent p = JObj (
     num_field ''status'' (pi_status_num (pi_status p)) @
     str_field ''client_secret'' (pi_client_secret p) @ str_field ''id'' (pi_id p))"

definition marshal_invoice :: "pb_invoice option \<Rightarrow> json" where
  "marshal_invoice io = (case io of
     None \<Rightarrow> JNull
   | Some i \<Rightarrow> JObj (str_field ''id'' (inv_id i) @ num_field ''amount_due'' (inv_amount_due i) @
       (case inv_payment_intent i of None \<Rightarrow> [] | Some p \<Rightarrow> [(''payment_intent'', marshal_payment_intent p)]) @
       num_field ''plan'' (plan_num (inv_plan i)) @ num_field ''subtotal'' (inv_subtotal i)))"

definition int64_range :: "int \<Rightarrow> bool" where
  "int64_range i \<longleftrightarrow> - (2 ^ 63) \<le> i \<and> i < 2 ^ 63"

fun decode_int64 :: "json \<Rightarrow> int \<Rightarrow> int res" where
  "decode_int64 (JNum n) _ = (if int64_range n then Inr n else Inl unmarshal_err)"
| "decode_int64 JNull old = Inr old"
| "decode_int64 _ _ = Inl unmarshal_err"

definition decode_payment_intent_field :: "string \<Rightarrow> json \<Rightarrow> pb_payment_intent \<Rightarrow> pb_payment_intent res" where
  "decode_payment_intent_field key v p =
     (if to_lower key = ''status''
        then map_sum id (\<lambda>n. p\<lparr>pi_status := pi_status_of_num n\<rparr>) (decode_int32 v (pi_status_num (pi_status p)))
      else if to_lower key = ''client_secret''
        then map_sum id (\<lambda>s. p\<lparr>pi_client_secret := s\<rparr>) (decode_string v (pi_client_secret p))
      else if to_lower key = ''id'' then map_sum id (\<lambda>s. p\<lparr>pi_id := s\<rparr>) (decode_string v (pi_id p))
      else Inr p)"

text \<open>A pointer field: null makes it nil, an object is read into what it points to or a new struct.\<close>

definition decode_pointer :: "(json \<Rightarrow> 'a \<Rightarrow> 'a res) \<Rightarrow> 'a \<Rightarrow> json \<Rightarrow> 'a option \<Rightarrow> 'a option res" where
  "decode_pointer f zero v old =
     (if v = JNull then Inr None
      else map_sum id Some (f v (case old of None \<Rightarrow> zero | Some x \<Rightarrow> x)))"

definition decode_invoice_field :: "string \<Rightarrow> json \<Rightarrow> pb_invoice \<Rightarrow> pb_invoice res" where
  "decode_invoice_field key v i =
     (if to_lower key = ''id'' then map_sum id (\<lambda>s. i\<lparr>inv_id := s\<rparr>) (decode_string v (inv_id i))
      else if to_lower key = ''amount_due''
        then map_sum id (\<lambda>n. i\<lparr>inv_amount_due := n\<rparr>) (decode_int64 v (inv_amount_due i))
      else if to_lower key = ''payment_intent''
        then map_sum id (\<lambda>p. i\<lparr>inv_payment_intent := p\<rparr>)
          (decode_pointer (decode_struct decode_payment_intent_field) empty_payment_intent v (inv_payment_intent i))
      else if to_lower key = ''plan''
        then map_sum id (\<lambda>n. i\<lparr>inv_plan := plan_of_num n\<rparr>) (decode_int32 v (plan_num (inv_plan i)))
      else if to_lower key = ''subtotal''
        then map_sum id (\<lambda>n. i\<lparr>inv_subtotal := n\<rparr>) (decode_int64 v (inv_subtotal i))
      else Inr i)"

definition unmarshal_invoice :: "json \<Rightarrow> pb_invoice res" where
  "unmarshal_invoice j = decode_struct decode_invoice_field j empty_invoice"

section \<open>The round trip\<close>

definition invoice_ok :: "pb_invoice \<Rightarrow> bool" where
  "invoice_ok i \<longleftrightarrow> int64_range (inv_amount_due i) \<and> int64_range (inv_subtotal i) \<and> plan_ok (inv_plan i) \<and>
     (case inv_payment_intent i of None \<Rightarrow> True | Some p \<Rightarrow> pi_status_ok (pi_status p))"

lemma payment_field_names [simp]:
  "to_lower ''status'' = ''status''" "to_lower ''client_secret'' = ''client_secret''"
  "to_lower ''amount_due'' = ''amount_due''" "to_lower ''payment_intent'' = ''payment_intent''"
  "to_lower ''plan'' = ''plan''" "to_lower ''subtotal'' = ''subtotal''"
  by (simp_all add: to_lower_def lower_char_def)

lemma payment_intent_round_trip:
  assumes "pi_status_ok (pi_status p)"
  shows "decode_struct decode_payment_intent_field (marshal_payment_intent p) empty_payment_intent = Inr p"
  using assms
  by (cases p) (auto simp: marshal_payment_intent_def decode_fields_append num_field_def str_field_def
      decode_payment_intent_field_def empty_payment_intent_def pi_status_ok_def pi_status_of_num_def
      split: if_splits)

lemma invoice_decode_encode:
  assumes "invoice_ok i"
  shows "unmarshal_invoice (marshal_invoice (Some i)) = Inr i"
proof -
  have not_null: "marshal_payment_intent p \<noteq> JNull" for p
    by (simp add: marshal_payment_intent_def)
  have zero: "plan_num p = 0 \<Longrightarrow> plan_ok p \<Longrightarrow> p = Plan_UNPAPER_FREE" for p
    by (simp add: plan_ok_def plan_of_num_def)
  show ?thesis
    using assms
    by (cases i; cases "inv_payment_intent i")
      (auto simp: marshal_invoice_def unmarshal_invoice_def decode_fields_append num_field_def str_field_def
        decode_invoice_field_def empty_invoice_def invoice_ok_def decode_pointer_def payment_intent_round_trip
        not_null plan_ok_def dest: zero)
qed

text \<open>A missing invoice is stored as the JSON null and read back as an empty one.\<close>

lemma unmarshal_null_invoice [simp]: "unmarshal_invoice JNull = Inr empty_invoice"
  by (simp add: unmarshal_invoice_def)

end
