(* ===== verification/Customers_Dir.thy ===== *)
theory Customers_Dir
  imports Payment_Msgs Core_Config
begin

text \<open>
  Package \<^verbatim>\<open>backend/customers\<close>: the statements of \<^verbatim>\<open>queries.sql.go\<close> and the directory over the
  tables of customers, their platform subscription with its price, their default payment method,
  the connected accounts and customers of Stripe Connect, and the subscriptions to rooms.
  Times are microseconds; messages carry seconds. A nil \<^verbatim>\<open>json.RawMessage\<close> argument reaches the
  driver as the JSON null; reading an SQL NULL into a \<^verbatim>\<open>json.RawMessage\<close> is an error of
  \<^verbatim>\<open>Scan\<close>, after the statement took effect.
\<close>

section \<open>Statements: customers\<close>

record create_customer_params =
  crp_id :: string
  crp_customer_id :: string
  crp_first_name :: string
  crp_last_name :: string
  crp_account_id :: "string nullable"

definition created_customer :: "create_customer_params \<Rightarrow> customer_row" where
  "created_customer arg = \<lparr>cu_trial_used = Val False, cu_id = crp_id arg, cu_customer_id = crp_customer_id arg,
     cu_first_name = crp_first_name arg, cu_last_name = crp_last_name arg, cu_account_id = crp_account_id arg\<rparr>"

definition q_CreateCustomer :: "create_customer_params \<Rightarrow> db \<Rightarrow> customer_row res \<times> db" where
  "q_CreateCustomer arg = exec_stmt (\<lambda>t.
     returning (created_customer arg)
       (put (tbl_insert customers_schema (created_customer arg) (customers t)) (\<lambda>rs. t\<lparr>customers := rs\<rparr>)))"

definition q_DeleteCustomer :: "string \<Rightarrow> db \<Rightarrow> unit res \<times> db" where
  "q_DeleteCustomer i = exec_stmt (\<lambda>t.
     returning () (put (Inr (tbl_delete (\<lambda>c. cu_customer_id c = i) (customers t))) (\<lambda>rs. t\<lparr>customers := rs\<rparr>)))"

definition q_GetAccountIDFromUserID :: "string \<Rightarrow> db \<Rightarrow> string nullable res \<times> db" where
  "q_GetAccountIDFromUserID i = exec_query (\<lambda>t.
     one_row (map cu_account_id (filter (\<lambda>c. cu_id c = i) (customers t))))"

definition q_GetCustomerByUserID :: "string \<Rightarrow> db \<Rightarrow> customer_row res \<times> db" where
  "q_GetCustomerByUserID i = exec_query (\<lambda>t. one_row (filter (\<lambda>c. cu_id c = i) (customers t)))"

definition q_GetCustomerUserID :: "string \<Rightarrow> db \<Rightarrow> string res \<times> db" where
  "q_GetCustomerUserID i = exec_query (\<lambda>t. one_row (map cu_id (filter (\<lambda>c. cu_customer_id c = i) (customers t))))"

definition q_HasCustomerUsedTrial :: "string \<Rightarrow> db \<Rightarrow> bool nullable res \<times> db" where
  "q_HasCustomerUsedTrial i = exec_query (\<lambda>t.
     one_row (map cu_trial_used (filter (\<lambda>c. cu_customer_id c = i) (customers t))))"

definition q_SetAccountIDFromUserID :: "string nullable \<Rightarrow> string \<Rightarrow> db \<Rightarrow> customer_row res \<times> db" where
  "q_SetAccountIDFromUserID acct i = exec_stmt (\<lambda>t.
     returning_one (map (\<lambda>c. c\<lparr>cu_account_id := acct\<rparr>) (filter (\<lambda>c. cu_id c = i) (customers t)))
       (put (tbl_update customers_schema (\<lambda>c. cu_id c = i) (\<lambda>c. c\<lparr>cu_account_id := acct\<rparr>) (customers t))
          (\<lambda>rs. t\<lparr>customers := rs\<rparr>)))"

definition q_UseTrial :: "string \<Rightarrow> db \<Rightarrow> unit res \<times> db" where
  "q_UseTrial i = exec_stmt (\<lambda>t.
     returning () (put (tbl_update customers_schema (\<lambda>c. cu_customer_id c = i)
         (\<lambda>c. c\<lparr>cu_trial_used := Val True\<rparr>) (customers t))
       (\<lambda>rs. t\<lparr>customers := rs\<rparr>)))"

section \<open>Statements: connected accounts and customers\<close>

definition q_ConnectedAccountExists :: "string \<Rightarrow> db \<Rightarrow> bool res \<times> db" where
  "q_ConnectedAccountExists a = exec_query (\<lambda>t. Inr (list_ex (\<lambda>r. ca_account_id r = a) (connected_accounts t)))"

definition q_GetConnectedAccount :: "string \<Rightarrow> db \<Rightarrow> connected_account_row res \<times> db" where
  "q_GetConnectedAccount a = exec_query (\<lambda>t. one_row (filter (\<lambda>r. ca_account_id r = a) (connected_accounts t)))"

definition q_GetConnectedAccountByUserID :: "string \<Rightarrow> db \<Rightarrow> connected_account_row res \<times> db" where
  "q_GetConnectedAccountByUserID u = exec_query (\<lambda>t. one_row (filter (\<lambda>r. ca_user_id r = u) (connected_accounts t)))"

definition q_StoreConnectedAccount :: "connected_account_row \<Rightarrow> db \<Rightarrow> connected_account_row res \<times> db" where
  "q_StoreConnectedAccount arg = exec_stmt (\<lambda>t.
     returning arg (put (tbl_insert connected_accounts_schema arg (connected_accounts t))
       (\<lambda>rs. t\<lparr>connected_accounts := rs\<rparr>)))"

definition q_UpdateConnectedAccountCanReceivePayments ::
    "bool \<Rightarrow> string \<Rightarrow> db \<Rightarrow> connected_account_row res \<times> db" where
  "q_UpdateConnectedAccountCanReceivePayments b a = exec_stmt (\<lambda>t.
     returning_one (map (\<lambda>r. r\<lparr>ca_can_receive_payments := b\<rparr>)
         (filter (\<lambda>r. ca_account_id r = a) (connected_accounts t)))
       (put (tbl_update connected_accounts_schema (\<lambda>r. ca_account_id r = a)
            (\<lambda>r. r\<lparr>ca_can_receive_payments := b\<rparr>) (connected_accounts t))
          (\<lambda>rs. t\<lparr>connected_accounts := rs\<rparr>)))"

definition q_ConnectedCustomerExists :: "string \<Rightarrow> string \<Rightarrow> db \<Rightarrow> bool res \<times> db" where
  "q_ConnectedCustomerExists cus a = exec_query (\<lambda>t. Inr (list_ex
     (\<lambda>r. cc_customer_id r = cus \<and> cc_account_id r = a) (connected_customers t)))"

definition q_GetAllConnectCustomers :: "string \<Rightarrow> db \<Rightarrow> (string \<times> string) list res \<times> db" where
  "q_GetAllConnectCustomers cus = exec_query (\<lambda>t. Inr
     (map (\<lambda>r. (cc_account_id r, cc_connected_customer_id r))
        (filter (\<lambda>r. cc_customer_id r = cus) (connected_customers t))))"

definition q_GetConnectedCustomerByCustomerID :: "string \<Rightarrow> string \<Rightarrow> db \<Rightarrow> connected_customer_row res \<times> db" where
  "q_GetConnectedCustomerByCustomerID cus a = exec_query (\<lambda>t. one_row
     (filter (\<lambda>r. cc_customer_id r = cus \<and> cc_account_id r = a) (connected_customers t)))"

definition q_GetConnectedCustomerByUserID :: "string \<Rightarrow> string \<Rightarrow> db \<Rightarrow> connected_customer_row res \<times> db" where
  "q_GetConnectedCustomerByUserID u a = exec_query (\<lambda>t. one_row
     (filter (\<lambda>r. cc_user_id r = u \<and> cc_account_id r = a) (connected_customers t)))"

definition q_StoreConnectedCustomer :: "connected_customer_row \<Rightarrow> db \<Rightarrow> connected_customer_row res \<times> db" where
  "q_StoreConnectedCustomer arg = exec_stmt (\<lambda>t.
     returning arg (put (tbl_insert connected_customers_schema arg (connected_customers t))
       (\<lambda>rs. t\<lparr>connected_customers := rs\<rparr>)))"

section \<open>Statements: payment methods, prices and subscriptions\<close>

definition returning_row :: "sql_error + ('a \<times> 'r list) \<Rightarrow> ('r list \<Rightarrow> tables) \<Rightarrow> sql_error + ('a \<times> tables)" where
  "returning_row r k = (case r of Inl e \<Rightarrow> Inl e | Inr (x, rs) \<Rightarrow> returning x (put (Inr rs) k))"

definition q_ClearCustomerPaymentMethods :: "string \<Rightarrow> db \<Rightarrow> unit res \<times> db" where
  "q_ClearCustomerPaymentMethods cus = exec_stmt (\<lambda>t.
     returning () (put (Inr (tbl_delete (\<lambda>r. pm_customer_id r = cus) (payment_methods t)))
       (\<lambda>rs. t\<lparr>payment_methods := rs\<rparr>)))"

definition q_GetDefaultPMByUserID :: "string \<Rightarrow> db \<Rightarrow> payment_method_row res \<times> db" where
  "q_GetDefaultPMByUserID u = exec_query (\<lambda>t. one_row
     (filter (\<lambda>r. holds (and3 (Val (pm_user_id r = u)) (eq3 (pm_is_default r) (Val True)))) (payment_methods t)))"

record store_pm_params =
  spm_id :: string
  spm_user_id :: string
  spm_customer_id :: string
  spm_last_four :: string
  spm_exp_month :: int
  spm_exp_year :: int

definition new_payment_method :: "store_pm_params \<Rightarrow> payment_method_row" where
  "new_payment_method arg = \<lparr>pm_exp_month = spm_exp_month arg, pm_exp_year = spm_exp_year arg,
     pm_is_default = Val True, pm_id = spm_id arg, pm_last_four = spm_last_four arg,
     pm_user_id = spm_user_id arg, pm_customer_id = spm_customer_id arg\<rparr>"

definition merge_payment_method :: "payment_method_row \<Rightarrow> payment_method_row \<Rightarrow> payment_method_row" where
  "merge_payment_method new old = old\<lparr>pm_last_four := pm_last_four new, pm_exp_month := pm_exp_month new,
     pm_exp_year := pm_exp_year new, pm_id := pm_id new\<rparr>"

definition q_StoreDefaultPaymentMethod :: "store_pm_params \<Rightarrow> db \<Rightarrow> payment_method_row res \<times> db" where
  "q_StoreDefaultPaymentMethod arg = exec_stmt (\<lambda>t.
     returning_row (tbl_upsert payment_methods_schema (\<lambda>r. [pm_customer_id r]) merge_payment_method
         (new_payment_method arg) (payment_methods t))
       (\<lambda>rs. t\<lparr>payment_methods := rs\<rparr>))"

definition q_GetPriceByCustomerID :: "string \<Rightarrow> db \<Rightarrow> stripe_price_row res \<times> db" where
  "q_GetPriceByCustomerID cus = exec_query (\<lambda>t. one_row (filter (\<lambda>r. sp_customer_id r = cus) (stripe_prices t)))"

definition q_GetPriceByUserID :: "string \<Rightarrow> db \<Rightarrow> stripe_price_row res \<times> db" where
  "q_GetPriceByUserID u = exec_query (\<lambda>t. one_row (filter (\<lambda>r. sp_user_id r = u) (stripe_prices t)))"

definition merge_price :: "stripe_price_row \<Rightarrow> stripe_price_row \<Rightarrow> stripe_price_row" where
  "merge_price new old = old\<lparr>sp_active := sp_active new, sp_plan := sp_plan new, sp_id := sp_id new\<rparr>"

definition q_StorePrice :: "stripe_price_row \<Rightarrow> db \<Rightarrow> stripe_price_row res \<times> db" where
  "q_StorePrice arg = exec_stmt (\<lambda>t.
     returning_row (tbl_upsert stripe_prices_schema (\<lambda>r. [sp_customer_id r]) merge_price arg (stripe_prices t))
       (\<lambda>rs. t\<lparr>stripe_prices := rs\<rparr>))"

text \<open>Reading the row of a subscription: its invoice must not be NULL.\<close>

definition scan_err :: goerror where
  "scan_err = ErrNew ''sql: Scan error on column latest_invoice: unsupported Scan, storing driver.Value type <nil>''"

definition scan_subscription :: "stripe_subscription_row \<Rightarrow> stripe_subscription_row res" where
  "scan_subscription r = (case ss_latest_invoice r of Null \<Rightarrow> Inl scan_err | Val _ \<Rightarrow> Inr r)"

definition scan_room_subscription :: "room_subscription_row \<Rightarrow> room_subscription_row res" where
  "scan_room_subscription r = (case rs_latest_invoice r of Null \<Rightarrow> Inl scan_err | Val _ \<Rightarrow> Inr r)"

definition subscription_where :: "(stripe_subscription_row \<Rightarrow> bool) \<Rightarrow> db \<Rightarrow> stripe_subscription_row res \<times> db" where
  "subscription_where P c =
     check_err (exec_query (\<lambda>t. one_row (filter P (stripe_subscriptions t))) c) same_err
       (\<lambda>r c. (scan_subscription r, c))"

definition q_GetSubscription :: "string \<Rightarrow> db \<Rightarrow> stripe_subscription_row res \<times> db" where
  "q_GetSubscription i = subscription_where (\<lambda>r. ss_id r = i)"

definition q_GetSubscriptionByCustomerID :: "string \<Rightarrow> db \<Rightarrow> stripe_subscription_row res \<times> db" where
  "q_GetSubscriptionByCustomerID cus = subscription_where (\<lambda>r. ss_customer_id r = cus)"

definition q_GetSubscriptionByUserID :: "string \<Rightarrow> db \<Rightarrow> stripe_subscription_row res \<times> db" where
  "q_GetSubscriptionByUserID u = subscription_where (\<lambda>r. ss_user_id r = u)"

record store_subscription_params =
  stp_id :: string
  stp_user_id :: string
  stp_customer_id :: string
  stp_current_period_end :: int
  stp_status :: string
  stp_latest_invoice :: json

definition new_subscription :: "store_subscription_params \<Rightarrow> stripe_subscription_row" where
  "new_subscription arg = \<lparr>ss_current_period_end = stp_current_period_end arg,
     ss_latest_invoice = Val (stp_latest_invoice arg), ss_id = stp_id arg, ss_user_id = stp_user_id arg,
     ss_customer_id = stp_customer_id arg, ss_status = stp_status arg\<rparr>"

definition merge_subscription :: "stripe_subscription_row \<Rightarrow> stripe_subscription_row \<Rightarrow> stripe_subscription_row" where
  "merge_subscription new old = old\<lparr>ss_id := ss_id new, ss_customer_id := ss_customer_id new,
     ss_current_period_end := ss_current_period_end new, ss_status := ss_status new\<rparr>"

definition q_StoreSubscription :: "store_subscription_params \<Rightarrow> db \<Rightarrow> stripe_subscription_row res \<times> db" where
  "q_StoreSubscription arg c = check_err (exec_stmt (\<lambda>t.
     returning_row (tbl_upsert stripe_subscriptions_schema (\<lambda>r. [ss_customer_id r]) merge_subscription
         (new_subscription arg) (stripe_subscriptions t))
       (\<lambda>rs. t\<lparr>stripe_subscriptions := rs\<rparr>)) c) same_err (\<lambda>r c. (scan_subscription r, c))"

definition q_UpdateSubscriptionStatus :: "string \<Rightarrow> string \<Rightarrow> db \<Rightarrow> stripe_subscription_row res \<times> db" where
  "q_UpdateSubscriptionStatus st i c = check_err (exec_stmt (\<lambda>t.
     returning_one (map (\<lambda>r. r\<lparr>ss_status := st\<rparr>) (filter (\<lambda>r. ss_id r = i) (stripe_subscriptions t)))
       (put (tbl_update stripe_subscriptions_schema (\<lambda>r. ss_id r = i) (\<lambda>r. r\<lparr>ss_status := st\<rparr>)
            (stripe_subscriptions t))
          (\<lambda>rs. t\<lparr>stripe_subscriptions := rs\<rparr>))) c) same_err (\<lambda>r c. (scan_subscription r, c))"

section \<open>Statements: room subscriptions\<close>

definition q_GetRoomSubscriptionForUserID :: "string \<Rightarrow> string \<Rightarrow> db \<Rightarrow> room_subscription_row res \<times> db" where
  "q_GetRoomSubscriptionForUserID room u c =
     check_err (exec_query (\<lambda>t. one_row (filter (\<lambda>r. rs_room_id r = room \<and> rs_user_id r = u)
       (room_subscriptions t))) c) same_err (\<lambda>r c. (scan_room_subscription r, c))"

definition q_GetRoomSubscriptionsForUserID :: "string \<Rightarrow> db \<Rightarrow> room_subscription_row list res \<times> db" where
  "q_GetRoomSubscriptionsForUserID u c =
     check_err (exec_query (\<lambda>t. Inr (filter (\<lambda>r. rs_user_id r = u) (room_subscriptions t))) c) same_err
       (\<lambda>rs c. (decode_list scan_room_subscription rs, c))"

definition q_GetUserIDsSubscribedToRoom :: "string \<Rightarrow> db \<Rightarrow> string list res \<times> db" where
  "q_GetUserIDsSubscribedToRoom room = exec_query (\<lambda>t. Inr
     (map rs_user_id (filter (\<lambda>r. rs_room_id r = room) (room_subscriptions t))))"

record store_room_subscription_params =
  srp_id :: string
  srp_user_id :: string
  srp_customer_id :: string
  srp_connected_customer_id :: string
  srp_account_id :: string
  srp_current_period_end :: "int nullable"
  srp_status :: string
  srp_room_id :: string
  srp_room_subscription_type :: string
  srp_latest_invoice :: json

definition new_room_subscription :: "store_room_subscription_params \<Rightarrow> room_subscription_row" where
  "new_room_subscription arg = \<lparr>rs_latest_invoice = Val (srp_latest_invoice arg),
     rs_current_period_end = srp_current_period_end arg, rs_customer_id = srp_customer_id arg,
     rs_connected_customer_id = srp_connected_customer_id arg, rs_account_id = srp_account_id arg,
     rs_id = srp_id arg, rs_status = srp_status arg, rs_room_id = srp_room_id arg,
     rs_room_subscription_type = srp_room_subscription_type arg, rs_user_id = srp_user_id arg\<rparr>"

definition merge_room_subscription :: "room_subscription_row \<Rightarrow> room_subscription_row \<Rightarrow> room_subscription_row" where
  "merge_room_subscription new old = old\<lparr>rs_current_period_end := rs_current_period_end new,
     rs_status := rs_status new, rs_room_subscription_type := rs_room_subscription_type new,
     rs_latest_invoice := rs_latest_invoice new\<rparr>"

definition q_StoreRoomSubscription :: "store_room_subscription_params \<Rightarrow> db \<Rightarrow> room_subscription_row res \<times> db" where
  "q_StoreRoomSubscription arg c = check_err (exec_stmt (\<lambda>t.
     returning_row (tbl_upsert room_subscriptions_schema (\<lambda>r. [rs_user_id r, rs_room_id r]) merge_room_subscription
         (new_room_subscription arg) (room_subscriptions t))
       (\<lambda>rs. t\<lparr>room_subscriptions := rs\<rparr>)) c) same_err (\<lambda>r c. (scan_room_subscription r, c))"

section \<open>Conversions\<close>

definition ErrMissingUserID :: goerror where "ErrMissingUserID = Errorf ''missing userID'' []"
definition ErrMissingCustomerID :: goerror where "ErrMissingCustomerID = Errorf ''missing customerID'' []"
definition ErrNoCustomer :: goerror where "ErrNoCustomer = Errorf ''no customer found'' []"

definition SubscriptionStatusActive :: string where "SubscriptionStatusActive = ''active''"
definition SubscriptionStatusCanceled :: string where "SubscriptionStatusCanceled = ''canceled''"
definition SubscriptionStatusIncomplete :: string where "SubscriptionStatusIncomplete = ''incomplete''"
definition SubscriptionStatusIncompleteExpired :: string where
  "SubscriptionStatusIncompleteExpired = ''incomplete_expired''"
definition SubscriptionStatusPastDue :: string where "SubscriptionStatusPastDue = ''past_due''"
definition SubscriptionStatusTrialing :: string where "SubscriptionStatusTrialing = ''trialing''"
definition SubscriptionStatusUnpaid :: string where "SubscriptionStatusUnpaid = ''unpaid''"
definition RoomSubscriptionTypeOneTime :: string where "RoomSubscriptionTypeOneTime = ''one_time''"
definition RoomSubscriptionTypeSubscriptionMonthly :: string where
  "RoomSubscriptionTypeSubscriptionMonthly = ''subscription_monthly''"
definition SubscriptionPlanFree :: string where "SubscriptionPlanFree = ''free''"
definition SubscriptionPlanPlusMonthly :: string where "SubscriptionPlanPlusMonthly = ''plus_monthly''"
definition SubscriptionPlanPlusYearly :: string where "SubscriptionPlanPlusYearly = ''plus_yearly''"

lemmas customer_consts = SubscriptionStatusActive_def SubscriptionStatusCanceled_def
  SubscriptionStatusIncomplete_def SubscriptionStatusIncompleteExpired_def SubscriptionStatusPastDue_def
  SubscriptionStatusTrialing_def SubscriptionStatusUnpaid_def RoomSubscriptionTypeOneTime_def
  RoomSubscriptionTypeSubscriptionMonthly_def SubscriptionPlanFree_def SubscriptionPlanPlusMonthly_def
  SubscriptionPlanPlusYearly_def

definition pgCustomerToPB :: "customer_row \<Rightarrow> pb_customer res" where
  "pgCustomerToPB c = Inr \<lparr>cst_id = cu_id c, cst_customer_id = cu_customer_id c,
     cst_first_name = cu_first_name c, cst_last_name = cu_last_name c, cst_subscriptions = [],
     cst_default_payment_method = None, cst_account_id = null_string (cu_account_id c)\<rparr>"

definition pgSubscriptionStatusToPB :: "string \<Rightarrow> pb_subscription_status res" where
  "pgSubscriptionStatusToPB st =
     (if st = SubscriptionStatusActive then Inr SubscriptionStatus_ACTIVE
      else if st = SubscriptionStatusCanceled then Inr SubscriptionStatus_CANCELED
      else if st = SubscriptionStatusIncomplete then Inr SubscriptionStatus_INCOMPLETE
      else if st = SubscriptionStatusIncompleteExpired then Inr SubscriptionStatus_INCOMPLETE_EXPIRED
      else if st = SubscriptionStatusPastDue then Inr SubscriptionStatus_PAST_DUE
      else if st = SubscriptionStatusTrialing then Inr SubscriptionStatus_TRIALING
      else if st = SubscriptionStatusUnpaid then Inr SubscriptionStatus_UNPAID
      else Inl (Errorf ''could not parse subscription status from proto to pg'' []))"

text \<open>The column was scanned, so the invoice is a value here.\<close>

definition read_invoice :: "json nullable \<Rightarrow> pb_invoice res" where
  "read_invoice raw = (case raw of Null \<Rightarrow> Inl (ErrNew ''unexpected end of JSON input'') | Val j \<Rightarrow> unmarshal_invoice j)"

definition pgSubscriptionToPB :: "stripe_subscription_row \<Rightarrow> pb_subscription res" where
  "pgSubscriptionToPB r =
     (case pgSubscriptionStatusToPB (ss_status r) of
        Inl e \<Rightarrow> Inl e
      | Inr st \<Rightarrow>
          (case read_invoice (ss_latest_invoice r) of
             Inl e \<Rightarrow> Inl e
           | Inr invoice \<Rightarrow> Inr \<lparr>sub_id = ss_id r, sub_customer_id = ss_customer_id r,
               sub_current_period_end = unix_seconds (ss_current_period_end r), sub_status = st, sub_price = None,
               sub_latest_invoice = Some invoice, sub_items = []\<rparr>))"

definition pgRoomSubscriptionTypeToPB :: "string \<Rightarrow> pb_room_subscription_type res" where
  "pgRoomSubscriptionTypeToPB ty =
     (if ty = RoomSubscriptionTypeOneTime then Inr RoomSubscriptionType_ONE_TIME
      else if ty = RoomSubscriptionTypeSubscriptionMonthly then Inr RoomSubscriptionType_SUBSCRIPTION_MONTHLY
      else Inl (Errorf ''invalid subscription type received: %v'' []))"

definition pgRoomSubscriptionToPB :: "room_subscription_row \<Rightarrow> pb_room_subscription res" where
  "pgRoomSubscriptionToPB r =
     (case pgSubscriptionStatusToPB (rs_status r) of
        Inl e \<Rightarrow> Inl e
      | Inr st \<Rightarrow>
          (case pgRoomSubscriptionTypeToPB (rs_room_subscription_type r) of
             Inl e \<Rightarrow> Inl e
           | Inr ty \<Rightarrow>
               (case read_invoice (rs_latest_invoice r) of
                  Inl e \<Rightarrow> Inl e
                | Inr invoice \<Rightarrow> Inr \<lparr>rsb_id = rs_id r, rsb_customer_id = rs_customer_id r,
                    rsb_current_period_end = (case rs_current_period_end r of Null \<Rightarrow> 0 | Val t \<Rightarrow> unix_seconds t),
                    rsb_status = st, rsb_latest_invoice = Some invoice, rsb_room_id = rs_room_id r,
                    rsb_room_subscription_type = ty\<rparr>)))"

definition pgPlanToPB :: "string \<Rightarrow> pb_plan res" where
  "pgPlanToPB plan =
     (if plan = SubscriptionPlanFree then Inr Plan_UNPAPER_FREE
      else if plan = SubscriptionPlanPlusMonthly then Inr Plan_UNPAPER_PLUS_MONTHLY
      else if plan = SubscriptionPlanPlusYearly then Inr Plan_UNPAPER_PLUS_YEARLY
      else Inl (Errorf ''invalid plan received: %q'' []))"

fun getPriceIDByPlan :: "config \<Rightarrow> pb_plan \<Rightarrow> string res" where
  "getPriceIDByPlan cfg Plan_UNPAPER_FREE = Inr (cfg_PriceIDFree cfg)"
| "getPriceIDByPlan cfg Plan_UNPAPER_PLUS_MONTHLY = Inr (cfg_PriceIDPlusMonthly cfg)"
| "getPriceIDByPlan cfg Plan_UNPAPER_PLUS_YEARLY = Inr (cfg_PriceIDPlusYearly cfg)"
| "getPriceIDByPlan cfg (Plan_other n) = Inl (Errorf ''invalid plan: %q'' [])"

definition pgPriceToPB :: "stripe_price_row \<Rightarrow> pb_price res" where
  "pgPriceToPB r = (case pgPlanToPB (sp_plan r) of
     Inl e \<Rightarrow> Inl e
   | Inr plan \<Rightarrow> Inr \<lparr>prc_id = sp_id r, prc_active = sp_active r, prc_plan = plan\<rparr>)"

definition pgPaymentMethodToPB :: "payment_method_row \<Rightarrow> pb_payment_method res" where
  "pgPaymentMethodToPB r = Inr \<lparr>pmd_id = pm_id r, pmd_user_id = pm_user_id r, pmd_last_four = pm_last_four r,
     pmd_exp_month = pm_exp_month r, pmd_exp_year = pm_exp_year r, pmd_is_default = null_bool (pm_is_default r)\<rparr>"

definition pgConnectedCustomerToPB :: "connected_customer_row \<Rightarrow> pb_connected_customer" where
  "pgConnectedCustomerToPB r = \<lparr>ccu_user_id = cc_user_id r, ccu_customer_id = cc_customer_id r,
     ccu_connected_customer_id = cc_connected_customer_id r, ccu_account_id = cc_account_id r\<rparr>"

definition pgConnectedAccountToPB :: "connected_account_row \<Rightarrow> pb_connected_account" where
  "pgConnectedAccountToPB r = \<lparr>cac_user_id = ca_user_id r, cac_customer_id = ca_customer_id r,
     cac_account_id = ca_account_id r, cac_can_receive_payments = ca_can_receive_payments r\<rparr>"

section \<open>The directory\<close>

definition dir_CreateCustomer :: "create_customer_params \<Rightarrow> db \<Rightarrow> pb_customer res \<times> db" where
  "dir_CreateCustomer arg c =
     (if crp_id arg = '''' then (Inl ErrMissingUserID, c)
      else if crp_customer_id arg = '''' then (Inl ErrMissingCustomerID, c)
      else check_err (q_CreateCustomer arg c) (\<lambda>_. Errorf ''error inserting customer into db'' [])
        (\<lambda>r c. (pgCustomerToPB r, c)))"

definition dir_DeleteCustomer :: "string \<Rightarrow> db \<Rightarrow> unit res \<times> db" where
  "dir_DeleteCustomer i c = q_DeleteCustomer i c"

definition dir_GetCustomerUserID :: "string \<Rightarrow> db \<Rightarrow> string res \<times> db" where
  "dir_GetCustomerUserID i c = q_GetCustomerUserID i c"

definition dir_StoreConnectedCustomer :: "connected_customer_row \<Rightarrow> db \<Rightarrow> pb_connected_customer res \<times> db" where
  "dir_StoreConnectedCustomer arg c =
     check_err (q_StoreConnectedCustomer arg c) same_err (\<lambda>r c. (Inr (pgConnectedCustomerToPB r), c))"

definition dir_GetConnectedCustomerByUserID :: "string \<Rightarrow> string \<Rightarrow> db \<Rightarrow> pb_connected_customer res \<times> db" where
  "dir_GetConnectedCustomerByUserID u a c =
     check_err (q_GetConnectedCustomerByUserID u a c) same_err (\<lambda>r c. (Inr (pgConnectedCustomerToPB r), c))"

definition dir_GetConnectedCustomerByCustomerID :: "string \<Rightarrow> string \<Rightarrow> db \<Rightarrow> pb_connected_customer res \<times> db" where
  "dir_GetConnectedCustomerByCustomerID cus a c =
     check_err (q_GetConnectedCustomerByCustomerID cus a c) same_err (\<lambda>r c. (Inr (pgConnectedCustomerToPB r), c))"

definition dir_ConnectedCustomerExists :: "string \<Rightarrow> string \<Rightarrow> db \<Rightarrow> bool res \<times> db" where
  "dir_ConnectedCustomerExists cus a c = q_ConnectedCustomerExists cus a c"

definition dir_GetAllConnectCustomers :: "string \<Rightarrow> db \<Rightarrow> (string \<times> string) list res \<times> db" where
  "dir_GetAllConnectCustomers cus c = q_GetAllConnectCustomers cus c"

definition getPBPriceByCustomerID :: "string \<Rightarrow> db \<Rightarrow> pb_price res \<times> db" where
  "getPBPriceByCustomerID cus c =
     (if cus = '''' then (Inl ErrMissingCustomerID, c)
      else check_err (q_GetPriceByCustomerID cus c) (\<lambda>e. Errorf ''error retrieving price from db: %q'' [e]) (\<lambda>r c.
        (case pgPlanToPB (sp_plan r) of
           Inl e \<Rightarrow> (Inl e, c)
         | Inr plan \<Rightarrow> (Inr \<lparr>prc_id = sp_id r, prc_active = sp_active r, prc_plan = plan\<rparr>, c))))"

definition getPBSubscriptionByUserID :: "string \<Rightarrow> db \<Rightarrow> pb_subscription res \<times> db" where
  "getPBSubscriptionByUserID u c =
     check_err (q_GetSubscriptionByUserID u c)
       (\<lambda>e. if e = ErrSql NoRows then e else Errorf ''failed to retrieve subscription: %q'' [e]) (\<lambda>r c.
     check_err (q_GetPriceByUserID u c) (\<lambda>e. Errorf ''failed to retrieve price: %q'' [e]) (\<lambda>p c.
     check_err (pgSubscriptionToPB r, c) (\<lambda>e. Errorf ''failed to convert pg subscription to pb: %q'' [e]) (\<lambda>s c.
     check_err (pgPriceToPB p, c) (\<lambda>e. Errorf ''failed to convert pg price to pb: %q'' [e]) (\<lambda>price c.
       (Inr (s\<lparr>sub_price := Some price\<rparr>), c)))))"

definition getPBSubscriptionByCustomerID :: "string \<Rightarrow> db \<Rightarrow> pb_subscription res \<times> db" where
  "getPBSubscriptionByCustomerID cus c =
     check_err (q_GetSubscriptionByCustomerID cus c) same_err (\<lambda>r c. (pgSubscriptionToPB r, c))"

definition getPBDefaultPMByUserID :: "string \<Rightarrow> db \<Rightarrow> pb_payment_method res \<times> db" where
  "getPBDefaultPMByUserID u c =
     check_err (q_GetDefaultPMByUserID u c) same_err (\<lambda>r c. (pgPaymentMethodToPB r, c))"

text \<open>
  \<^verbatim>\<open>GetCustomerByUserID\<close>. A missing subscription or payment method is no error; the price of the
  subscription is looked up twice, by user and then by customer, and the second one is kept.
\<close>

definition attach_subscription :: "pb_subscription option \<Rightarrow> pb_customer \<Rightarrow> db \<Rightarrow> pb_customer res \<times> db" where
  "attach_subscription subs cus c = (case subs of
     None \<Rightarrow> (Inr cus, c)
   | Some s \<Rightarrow>
       check_err (getPBPriceByCustomerID (cst_customer_id cus) c)
         (\<lambda>e. Errorf ''failure retrieving price for customer on db: %q'' [e]) (\<lambda>price c.
         (Inr (cus\<lparr>cst_subscriptions := [s\<lparr>sub_price := Some price\<rparr>]\<rparr>), c)))"

definition optional_row :: "'a res \<times> db \<Rightarrow> (goerror \<Rightarrow> goerror) \<Rightarrow> 'a option res \<times> db" where
  "optional_row rc wrap = (case rc of
     (Inl e, c) \<Rightarrow> if e \<noteq> ErrSql NoRows then (Inl (wrap e), c) else (Inr None, c)
   | (Inr x, c) \<Rightarrow> (Inr (Some x), c))"

definition dir_GetCustomerByUserID :: "string \<Rightarrow> db \<Rightarrow> pb_customer res \<times> db" where
  "dir_GetCustomerByUserID u c =
     check_err (q_GetCustomerByUserID u c)
       (\<lambda>e. if e = ErrSql NoRows then ErrNoCustomer else Errorf ''error getting customer: %q'' [e]) (\<lambda>r c.
     check_err (optional_row (getPBSubscriptionByUserID u c)
         (\<lambda>e. Errorf ''failed to retrieve customer subscription: %q'' [e])) same_err (\<lambda>subs c.
     check_err (pgCustomerToPB r, c) (\<lambda>e. Errorf ''error converting PG customer to PB: %q'' [e]) (\<lambda>cus c.
     check_err (attach_subscription subs cus c) same_err (\<lambda>cus c.
     check_err (optional_row (getPBDefaultPMByUserID u c)
         (\<lambda>e. Errorf ''failure retrieving default payment method for customer on db: %q'' [e])) same_err (\<lambda>pm c.
       (Inr (case pm of None \<Rightarrow> cus | Some m \<Rightarrow> cus\<lparr>cst_default_payment_method := Some m\<rparr>), c))))))"

record store_subscription_with_price =
  swp_Subscription :: "store_subscription_params option"
  swp_Price :: "stripe_price_row option"
  swp_WithTrial :: bool

definition dir_StoreSubscriptionWithPrice :: "store_subscription_with_price \<Rightarrow> db \<Rightarrow> pb_subscription res \<times> db" where
  "dir_StoreSubscriptionWithPrice p c =
     (case swp_Subscription p of
        None \<Rightarrow> (Inl (Errorf ''subscription param is required'' []), c)
      | Some sp \<Rightarrow>
          (case swp_Price p of
             None \<Rightarrow> (Inl (Errorf ''price param is required'' []), c)
           | Some pp \<Rightarrow>
               check_err (q_StoreSubscription sp c) (\<lambda>e. Errorf ''failed to store subscription on db: %q'' [e]) (\<lambda>r c.
               check_err (pgSubscriptionToPB r, c)
                 (\<lambda>e. Errorf ''failed to convert postgres subscription to protobuf: %q'' [e]) (\<lambda>s c.
               check_err (q_StorePrice pp c) (\<lambda>e. Errorf ''failed to store price on db: %q'' [e]) (\<lambda>pr c.
               check_err (pgPriceToPB pr, c)
                 (\<lambda>e. Errorf ''failed to convert postgres price to protobuf: %q'' [e]) (\<lambda>price c.
               check_err (if swp_WithTrial p then q_UseTrial (stp_customer_id sp) c else (Inr (), c))
                 (\<lambda>e. Errorf ''failed to update trial_used: %q'' [e]) (\<lambda>_ c.
                 (Inr (s\<lparr>sub_price := Some price\<rparr>), c))))))))"

definition dir_GetSubscriptionByID :: "string \<Rightarrow> db \<Rightarrow> pb_subscription res \<times> db" where
  "dir_GetSubscriptionByID i c =
     check_err (q_GetSubscription i c) (\<lambda>e. Errorf ''failed to retrieve subscription: %q'' [e])
       (\<lambda>r c. (pgSubscriptionToPB r, c))"

definition dir_GetSubscriptionByUserID :: "string \<Rightarrow> db \<Rightarrow> pb_subscription res \<times> db" where
  "dir_GetSubscriptionByUserID u c = getPBSubscriptionByUserID u c"

definition dir_GetSubscriptionByCustomerID :: "string \<Rightarrow> db \<Rightarrow> pb_subscription res \<times> db" where
  "dir_GetSubscriptionByCustomerID cus c = getPBSubscriptionByCustomerID cus c"

definition dir_UpdateSubscriptionStatus :: "string \<Rightarrow> string \<Rightarrow> db \<Rightarrow> pb_subscription res \<times> db" where
  "dir_UpdateSubscriptionStatus st i c =
     check_err (q_UpdateSubscriptionStatus st i c) (\<lambda>e. Errorf ''failed to update subscription status: %q'' [e])
       (\<lambda>r c. (pgSubscriptionToPB r, c))"

definition dir_StoreDefaultPM :: "store_pm_params \<Rightarrow> db \<Rightarrow> pb_payment_method res \<times> db" where
  "dir_StoreDefaultPM arg c =
     check_err (q_StoreDefaultPaymentMethod arg c) (\<lambda>e. Errorf ''failed to store payment method: %q'' [e])
       (\<lambda>r c. (pgPaymentMethodToPB r, c))"

definition dir_ClearCustomerPaymentMethods :: "string \<Rightarrow> db \<Rightarrow> unit res \<times> db" where
  "dir_ClearCustomerPaymentMethods cus c = check_err (q_ClearCustomerPaymentMethods cus c) same_err (\<lambda>_ c. (Inr (), c))"

definition dir_HasCustomerUsedTrial :: "string \<Rightarrow> db \<Rightarrow> bool res \<times> db" where
  "dir_HasCustomerUsedTrial cus c =
     check_err (q_HasCustomerUsedTrial cus c) (\<lambda>e. Errorf ''error retrieving trial_used from customers: %v'' [e])
       (\<lambda>b c. (Inr (null_bool b), c))"

definition dir_StorePrice :: "stripe_price_row \<Rightarrow> db \<Rightarrow> pb_price res \<times> db" where
  "dir_StorePrice arg c =
     check_err (q_StorePrice arg c) (\<lambda>e. Errorf ''failed to store price on db: %q'' [e]) (\<lambda>r c. (pgPriceToPB r, c))"

definition dir_GetPriceByCustomerID :: "string \<Rightarrow> db \<Rightarrow> pb_price res \<times> db" where
  "dir_GetPriceByCustomerID cus c = getPBPriceByCustomerID cus c"

definition dir_GetConnectedAccount :: "string \<Rightarrow> db \<Rightarrow> pb_connected_account res \<times> db" where
  "dir_GetConnectedAccount a c =
     check_err (q_GetConnectedAccount a c) same_err (\<lambda>r c. (Inr (pgConnectedAccountToPB r), c))"

definition dir_GetConnectedAccountByUserID :: "string \<Rightarrow> db \<Rightarrow> pb_connected_account res \<times> db" where
  "dir_GetConnectedAccountByUserID u c =
     check_err (q_GetConnectedAccountByUserID u c) same_err (\<lambda>r c. (Inr (pgConnectedAccountToPB r), c))"

definition dir_StoreConnectedAccount :: "connected_account_row \<Rightarrow> db \<Rightarrow> pb_connected_account res \<times> db" where
  "dir_StoreConnectedAccount arg c =
     check_err (q_StoreConnectedAccount arg c) same_err (\<lambda>r c. (Inr (pgConnectedAccountToPB r), c))"

definition dir_ConnectedAccountExists :: "string \<Rightarrow> db \<Rightarrow> bool res \<times> db" where
  "dir_ConnectedAccountExists a c = q_ConnectedAccountExists a c"

definition dir_UpdateConnectedAccountCanReceivePayments :: "bool \<Rightarrow> string \<Rightarrow> db \<Rightarrow> pb_connected_account res \<times> db" where
  "dir_UpdateConnectedAccountCanReceivePayments b a c =
     check_err (q_UpdateConnectedAccountCanReceivePayments b a c) same_err (\<lambda>r c. (Inr (pgConnectedAccountToPB r), c))"

definition dir_GetAccountIDFromUserID :: "string \<Rightarrow> db \<Rightarrow> string res \<times> db" where
  "dir_GetAccountIDFromUserID u c =
     check_err (q_GetAccountIDFromUserID u c) same_err (\<lambda>r c. (Inr (null_string r), c))"

definition dir_SetAccountIDFromUserID :: "string nullable \<Rightarrow> string \<Rightarrow> db \<Rightarrow> pb_customer res \<times> db" where
  "dir_SetAccountIDFromUserID acct u c =
     check_err (q_SetAccountIDFromUserID acct u c) same_err (\<lambda>r c. (pgCustomerToPB r, c))"

definition dir_StoreRoomSubscription :: "store_room_subscription_params \<Rightarrow> db \<Rightarrow> pb_room_subscription res \<times> db" where
  "dir_StoreRoomSubscription arg c =
     check_err (q_StoreRoomSubscription arg c) same_err (\<lambda>r c. (pgRoomSubscriptionToPB r, c))"

definition dir_GetRoomSubscriptionForUserID :: "string \<Rightarrow> string \<Rightarrow> db \<Rightarrow> pb_room_subscription res \<times> db" where
  "dir_GetRoomSubscriptionForUserID room u c =
     check_err (q_GetRoomSubscriptionForUserID room u c) same_err (\<lambda>r c. (pgRoomSubscriptionToPB r, c))"

definition dir_GetRoomSubscriptionsForUserID :: "string \<Rightarrow> db \<Rightarrow> pb_room_subscription list res \<times> db" where
  "dir_GetRoomSubscriptionsForUserID u c =
     check_err (q_GetRoomSubscriptionsForUserID u c) same_err (\<lambda>rs c. (decode_list pgRoomSubscriptionToPB rs, c))"

definition dir_GetUserIDsSubscribedToRoom :: "string \<Rightarrow> db \<Rightarrow> string list res \<times> db" where
  "dir_GetUserIDsSubscribedToRoom room c = check_err (q_GetUserIDsSubscribedToRoom room c) same_err (\<lambda>us c. (Inr us, c))"

section \<open>Every statement keeps the constraints\<close>

interpretation pm_upsert: upsert_table payment_methods_schema "\<lambda>r. [pm_customer_id r]" merge_payment_method
proof
  show "\<exists>n. (n, \<lambda>r. Some [pm_customer_id r]) \<in> set (indexes payment_methods_schema)"
    by (rule exI [of _ "''stripe_default_payment_methods_pkey''"]) (simp add: payment_methods_schema_def)
qed (simp add: merge_payment_method_def)

interpretation price_upsert: upsert_table stripe_prices_schema "\<lambda>r. [sp_customer_id r]" merge_price
proof
  show "\<exists>n. (n, \<lambda>r. Some [sp_customer_id r]) \<in> set (indexes stripe_prices_schema)"
    by (rule exI [of _ "''stripe_prices_pkey''"]) (simp add: stripe_prices_schema_def)
qed (simp add: merge_price_def)

interpretation sub_upsert: upsert_table stripe_subscriptions_schema "\<lambda>r. [ss_customer_id r]" merge_subscription
proof
  show "\<exists>n. (n, \<lambda>r. Some [ss_customer_id r]) \<in> set (indexes stripe_subscriptions_schema)"
    by (rule exI [of _ "''idx_stripe_subscriptions_customer_id''"]) (simp add: stripe_subscriptions_schema_def)
qed (simp add: merge_subscription_def)

interpretation room_upsert: upsert_table room_subscriptions_schema "\<lambda>r. [rs_user_id r, rs_room_id r]" merge_room_subscription
proof
  show "\<exists>n. (n, \<lambda>r. Some [rs_user_id r, rs_room_id r]) \<in> set (indexes room_subscriptions_schema)"
    by (rule exI [of _ "''idx_room_subscriptions_user_id_room_id''"]) (simp add: room_subscriptions_schema_def)
qed (simp add: merge_room_subscription_def)

lemma returning_row_Inr [ok_simps]:
  "returning_row r k = Inr (x, t) \<longleftrightarrow> (\<exists>rs. r = Inr (x, rs) \<and> t = k rs \<and> fk_violation t = None)"
  by (auto simp: returning_row_def ok_simps split: sum.splits)

lemmas upsert_wfs = pm_upsert.upsert_wf price_upsert.upsert_wf sub_upsert.upsert_wf room_upsert.upsert_wf

lemma q_CreateCustomer_wf [inv_intros]: "tables_wf (dbt c) \<Longrightarrow> tables_wf (dbt (snd (q_CreateCustomer arg c)))"
  unfolding q_CreateCustomer_def
  by (rule exec_stmt_inv) (auto simp: ok_simps tables_wf_def intro: tbl_wf_steps)

lemma q_DeleteCustomer_wf [inv_intros]: "tables_wf (dbt c) \<Longrightarrow> tables_wf (dbt (snd (q_DeleteCustomer i c)))"
  unfolding q_DeleteCustomer_def
  by (rule exec_stmt_inv) (auto simp: ok_simps tables_wf_def intro: tbl_wf_steps)

lemma q_SetAccountIDFromUserID_wf [inv_intros]:
  "tables_wf (dbt c) \<Longrightarrow> tables_wf (dbt (snd (q_SetAccountIDFromUserID a i c)))"
  unfolding q_SetAccountIDFromUserID_def
  by (rule exec_stmt_inv) (auto simp: ok_simps tables_wf_def intro: tbl_wf_steps)

lemma q_UseTrial_wf [inv_intros]: "tables_wf (dbt c) \<Longrightarrow> tables_wf (dbt (snd (q_UseTrial i c)))"
  unfolding q_UseTrial_def
  by (rule exec_stmt_inv) (auto simp: ok_simps tables_wf_def intro: tbl_wf_steps)

lemma q_StoreConnectedAccount_wf [inv_intros]:
  "tables_wf (dbt c) \<Longrightarrow> tables_wf (dbt (snd (q_StoreConnectedAccount arg c)))"
  unfolding q_StoreConnectedAccount_def
  by (rule exec_stmt_inv) (auto simp: ok_simps tables_wf_def intro: tbl_wf_steps)

lemma q_UpdateConnectedAccountCanReceivePayments_wf [inv_intros]:
  "tables_wf (dbt c) \<Longrightarrow> tables_wf (dbt (snd (q_UpdateConnectedAccountCanReceivePayments b a c)))"
  unfolding q_UpdateConnectedAccountCanReceivePayments_def
  by (rule exec_stmt_inv) (auto simp: ok_simps tables_wf_def intro: tbl_wf_steps)

lemma q_StoreConnectedCustomer_wf [inv_intros]:
  "tables_wf (dbt c) \<Longrightarrow> tables_wf (dbt (snd (q_StoreConnectedCustomer arg c)))"
  unfolding q_StoreConnectedCustomer_def
  by (rule exec_stmt_inv) (auto simp: ok_simps tables_wf_def intro: tbl_wf_steps)

lemma q_ClearCustomerPaymentMethods_wf [inv_intros]:
  "tables_wf (dbt c) \<Longrightarrow> tables_wf (dbt (snd (q_ClearCustomerPaymentMethods cus c)))"
  unfolding q_ClearCustomerPaymentMethods_def
  by (rule exec_stmt_inv) (auto simp: ok_simps tables_wf_def intro: tbl_wf_steps)

lemma q_StoreDefaultPaymentMethod_wf [inv_intros]:
  "tables_wf (dbt c) \<Longrightarrow> tables_wf (dbt (snd (q_StoreDefaultPaymentMethod arg c)))"
  unfolding q_StoreDefaultPaymentMethod_def
  by (rule exec_stmt_inv) (auto simp: ok_simps tables_wf_def intro: upsert_wfs)

lemma q_StorePrice_wf [inv_intros]: "tables_wf (dbt c) \<Longrightarrow> tables_wf (dbt (snd (q_StorePrice arg c)))"
  unfolding q_StorePrice_def
  by (rule exec_stmt_inv) (auto simp: ok_simps tables_wf_def intro: upsert_wfs)

lemma q_StoreSubscription_wf [inv_intros]:
  "tables_wf (dbt c) \<Longrightarrow> tables_wf (dbt (snd (q_StoreSubscription arg c)))"
  unfolding q_StoreSubscription_def scanned_tbl
  by (rule exec_stmt_inv) (auto simp: ok_simps tables_wf_def intro: upsert_wfs)

lemma q_UpdateSubscriptionStatus_wf [inv_intros]:
  "tables_wf (dbt c) \<Longrightarrow> tables_wf (dbt (snd (q_UpdateSubscriptionStatus st i c)))"
  unfolding q_UpdateSubscriptionStatus_def scanned_tbl
  by (rule exec_stmt_inv) (auto simp: ok_simps tables_wf_def intro: tbl_wf_steps)

lemma q_StoreRoomSubscription_wf [inv_intros]:
  "tables_wf (dbt c) \<Longrightarrow> tables_wf (dbt (snd (q_StoreRoomSubscription arg c)))"
  unfolding q_StoreRoomSubscription_def scanned_tbl
  by (rule exec_stmt_inv) (auto simp: ok_simps tables_wf_def intro: upsert_wfs)

lemmas customers_reads = q_GetAccountIDFromUserID_def q_GetCustomerByUserID_def q_GetCustomerUserID_def
  q_HasCustomerUsedTrial_def q_ConnectedAccountExists_def q_GetConnectedAccount_def
  q_GetConnectedAccountByUserID_def q_ConnectedCustomerExists_def q_GetAllConnectCustomers_def
  q_GetConnectedCustomerByCustomerID_def q_GetConnectedCustomerByUserID_def q_GetDefaultPMByUserID_def
  q_GetPriceByCustomerID_def q_GetPriceByUserID_def subscription_where_def q_GetSubscription_def
  q_GetSubscriptionByCustomerID_def q_GetSubscriptionByUserID_def q_GetRoomSubscriptionForUserID_def
  q_GetRoomSubscriptionsForUserID_def q_GetUserIDsSubscribedToRoom_def

lemma customers_reads_tbl [simp]:
  "dbt (snd (q_GetAccountIDFromUserID i c)) = dbt c"
  "dbt (snd (q_GetCustomerByUserID i c)) = dbt c"
  "dbt (snd (q_GetCustomerUserID i c)) = dbt c"
  "dbt (snd (q_HasCustomerUsedTrial i c)) = dbt c"
  "dbt (snd (q_ConnectedAccountExists i c)) = dbt c"
  "dbt (snd (q_GetConnectedAccount i c)) = dbt c"
  "dbt (snd (q_GetConnectedAccountByUserID i c)) = dbt c"
  "dbt (snd (q_ConnectedCustomerExists i j c)) = dbt c"
  "dbt (snd (q_GetAllConnectCustomers i c)) = dbt c"
  "dbt (snd (q_GetConnectedCustomerByCustomerID i j c)) = dbt c"
  "dbt (snd (q_GetConnectedCustomerByUserID i j c)) = dbt c"
  "dbt (snd (q_GetDefaultPMByUserID i c)) = dbt c"
  "dbt (snd (q_GetPriceByCustomerID i c)) = dbt c"
  "dbt (snd (q_GetPriceByUserID i c)) = dbt c"
  "dbt (snd (q_GetSubscription i c)) = dbt c"
  "dbt (snd (q_GetSubscriptionByCustomerID i c)) = dbt c"
  "dbt (snd (q_GetSubscriptionByUserID i c)) = dbt c"
  "dbt (snd (q_GetRoomSubscriptionForUserID i j c)) = dbt c"
  "dbt (snd (q_GetRoomSubscriptionsForUserID i c)) = dbt c"
  "dbt (snd (q_GetUserIDsSubscribedToRoom i c)) = dbt c"
  by (simp_all add: customers_reads)

section \<open>What the stores do\<close>

lemma scan_subscription_Inr [ok_simps]: "scan_subscription r = Inr x \<longleftrightarrow> x = r \<and> ss_latest_invoice r \<noteq> Null"
  by (cases "ss_latest_invoice r") (auto simp: scan_subscription_def)

lemma scan_room_subscription_Inr [ok_simps]: "scan_room_subscription r = Inr x \<longleftrightarrow> x = r \<and> rs_latest_invoice r \<noteq> Null"
  by (cases "rs_latest_invoice r") (auto simp: scan_room_subscription_def)

lemma q_StoreSubscription_Inr:
  assumes "q_StoreSubscription arg c = (Inr r, c')"
  shows "\<exists>rs. tbl_upsert stripe_subscriptions_schema (\<lambda>r. [ss_customer_id r]) merge_subscription
      (new_subscription arg) (stripe_subscriptions (dbt c)) = Inr (r, rs) \<and>
    dbt c' = (dbt c)\<lparr>stripe_subscriptions := rs\<rparr> \<and> ss_latest_invoice r \<noteq> Null"
  using assms
  by (auto simp: q_StoreSubscription_def ok_simps dest!: exec_stmt_Inr)

lemma q_StorePrice_Inr:
  assumes "q_StorePrice arg c = (Inr r, c')"
  shows "\<exists>rs. tbl_upsert stripe_prices_schema (\<lambda>r. [sp_customer_id r]) merge_price arg (stripe_prices (dbt c)) = Inr (r, rs) \<and>
    dbt c' = (dbt c)\<lparr>stripe_prices := rs\<rparr>"
  using assms by (auto simp: q_StorePrice_def ok_simps dest!: exec_stmt_Inr)

lemma q_StoreRoomSubscription_Inr:
  assumes "q_StoreRoomSubscription arg c = (Inr r, c')"
  shows "\<exists>rs. tbl_upsert room_subscriptions_schema (\<lambda>r. [rs_user_id r, rs_room_id r]) merge_room_subscription
      (new_room_subscription arg) (room_subscriptions (dbt c)) = Inr (r, rs) \<and>
    dbt c' = (dbt c)\<lparr>room_subscriptions := rs\<rparr>"
  using assms
  by (auto simp: q_StoreRoomSubscription_def ok_simps dest!: exec_stmt_Inr)

lemma q_UseTrial_Inr:
  assumes "q_UseTrial i c = (Inr x, c')"
  shows "dbt c' = (dbt c)\<lparr>customers :=
    map (\<lambda>r. if cu_customer_id r = i then r\<lparr>cu_trial_used := Val True\<rparr> else r) (customers (dbt c))\<rparr>"
  using assms by (auto simp: q_UseTrial_def ok_simps dest!: exec_stmt_Inr tbl_update_Inr)

text \<open>The columns the update of a subscription or a price sets are the new ones in either case.\<close>

lemma sub_upsert_fields:
  assumes "tbl_upsert stripe_subscriptions_schema (\<lambda>r. [ss_customer_id r]) merge_subscription new rs = Inr (x, rs')"
    and "tbl_wf stripe_subscriptions_schema rs"
  shows "ss_id x = ss_id new \<and> ss_status x = ss_status new \<and> ss_customer_id x = ss_customer_id new \<and>
    ss_current_period_end x = ss_current_period_end new \<and>
    (\<forall>old \<in> set rs. ss_customer_id old = ss_customer_id new \<longrightarrow>
      ss_latest_invoice x = ss_latest_invoice old \<and> ss_user_id x = ss_user_id old) \<and>
    (ss_customer_id new \<notin> ss_customer_id ` set rs \<longrightarrow> x = new)"
proof (cases "ss_customer_id new \<in> ss_customer_id ` set rs")
  case True
  then obtain old where "old \<in> set rs" "ss_customer_id old = ss_customer_id new" by auto
  then have x: "x = merge_subscription new old" if "old \<in> set rs" "ss_customer_id old = ss_customer_id new" for old
    using sub_upsert.upsert_old(1) [OF assms, of old] that by simp
  from True obtain old where "old \<in> set rs" "ss_customer_id old = ss_customer_id new" by auto
  with x [OF this] x True show ?thesis by (auto simp: merge_subscription_def)
next
  case False
  then have "x = new" by (intro sub_upsert.upsert_new(1) [OF assms(1)]) auto
  moreover have "ss_customer_id old \<noteq> ss_customer_id new" if "old \<in> set rs" for old
    using False that by (metis imageI)
  ultimately show ?thesis by simp
qed

lemma price_upsert_fields:
  assumes "tbl_upsert stripe_prices_schema (\<lambda>r. [sp_customer_id r]) merge_price new rs = Inr (x, rs')"
    and "tbl_wf stripe_prices_schema rs"
  shows "sp_id x = sp_id new \<and> sp_active x = sp_active new \<and> sp_plan x = sp_plan new \<and>
    sp_customer_id x = sp_customer_id new \<and> (sp_customer_id new \<notin> sp_customer_id ` set rs \<longrightarrow> x = new)"
proof (cases "sp_customer_id new \<in> sp_customer_id ` set rs")
  case True
  then obtain old where "old \<in> set rs" "sp_customer_id old = sp_customer_id new" by auto
  then show ?thesis
    using price_upsert.upsert_old(1) [OF assms, of old] True by (simp add: merge_price_def)
next
  case False
  then have "x = new" by (intro price_upsert.upsert_new(1) [OF assms(1)]) auto
  with False show ?thesis by auto
qed

lemma store_with_price_Inr:
  assumes "dir_StoreSubscriptionWithPrice \<lparr>swp_Subscription = Some sp, swp_Price = Some pp, swp_WithTrial = trial\<rparr> c = (Inr s, c')"
    and "tables_wf (dbt c)"
  obtains r q srs prs s0 price where
    "tbl_upsert stripe_subscriptions_schema (\<lambda>r. [ss_customer_id r]) merge_subscription
       (new_subscription sp) (stripe_subscriptions (dbt c)) = Inr (r, srs)"
    "tbl_upsert stripe_prices_schema (\<lambda>r. [sp_customer_id r]) merge_price pp (stripe_prices (dbt c)) = Inr (q, prs)"
    "pgSubscriptionToPB r = Inr s0" "pgPriceToPB q = Inr price" "s = s0\<lparr>sub_price := Some price\<rparr>"
    "ss_latest_invoice r \<noteq> Null"
    "dbt c' = (dbt c)\<lparr>stripe_subscriptions := srs, stripe_prices := prs, customers :=
       if trial then map (\<lambda>r. if cu_customer_id r = stp_customer_id sp then r\<lparr>cu_trial_used := Val True\<rparr> else r)
         (customers (dbt c)) else customers (dbt c)\<rparr>"
    "tables_wf (dbt c')"
proof -
  from assms(1) obtain r c1 s0 q c2 price where
    r: "q_StoreSubscription sp c = (Inr r, c1)" and s0: "pgSubscriptionToPB r = Inr s0"
    and q: "q_StorePrice pp c1 = (Inr q, c2)" and price: "pgPriceToPB q = Inr price"
    and s: "s = s0\<lparr>sub_price := Some price\<rparr>"
    and trial: "(if trial then q_UseTrial (stp_customer_id sp) c2 else (Inr (), c2)) = (Inr (), c')"
    by (auto simp: dir_StoreSubscriptionWithPrice_def check_err_Inr)
  from q_StoreSubscription_Inr [OF r] obtain srs where srs:
    "tbl_upsert stripe_subscriptions_schema (\<lambda>r. [ss_customer_id r]) merge_subscription
       (new_subscription sp) (stripe_subscriptions (dbt c)) = Inr (r, srs)"
    "dbt c1 = (dbt c)\<lparr>stripe_subscriptions := srs\<rparr>" "ss_latest_invoice r \<noteq> Null" by blast
  from q_StorePrice_Inr [OF q] srs(2) obtain prs where prs:
    "tbl_upsert stripe_prices_schema (\<lambda>r. [sp_customer_id r]) merge_price pp (stripe_prices (dbt c)) = Inr (q, prs)"
    "dbt c2 = (dbt c1)\<lparr>stripe_prices := prs\<rparr>" by auto
  have wf1: "tables_wf (dbt c1)" using q_StoreSubscription_wf [OF assms(2), of sp] r by simp
  have wf2: "tables_wf (dbt c2)" using q_StorePrice_wf [OF wf1, of pp] q by simp
  have wf': "tables_wf (dbt c')" 
    using trial wf2 q_UseTrial_wf [OF wf2, of "stp_customer_id sp"] by (cases trial) auto
  have "dbt c' = (dbt c)\<lparr>stripe_subscriptions := srs, stripe_prices := prs, customers :=
       if trial then map (\<lambda>r. if cu_customer_id r = stp_customer_id sp then r\<lparr>cu_trial_used := Val True\<rparr> else r)
         (customers (dbt c)) else customers (dbt c)\<rparr>"
    using trial srs(2) prs(2) q_UseTrial_Inr [of "stp_customer_id sp" c2 "()" c'] by (cases trial) auto
  with srs prs s0 price s wf' show thesis by (intro that)
qed

text \<open>
  C40: storing a subscription with its price leaves the customer with exactly this one of each: the
  row has the new id, status and end of the period and the message returned carries both; the
  invoice and the user stay those of the customer's first subscription, if there was one. No
  other customer's rows change.
\<close>

theorem one_subscription_per_customer:
  assumes "tables_wf (dbt c)"
    and "dir_StoreSubscriptionWithPrice \<lparr>swp_Subscription = Some sp, swp_Price = Some pp, swp_WithTrial = trial\<rparr> c = (Inr s, c')"
  shows "\<exists>r q price. filter (\<lambda>r. ss_customer_id r = stp_customer_id sp) (stripe_subscriptions (dbt c')) = [r] \<and>
    filter (\<lambda>q. sp_customer_id q = sp_customer_id pp) (stripe_prices (dbt c')) = [q] \<and>
    ss_id r = stp_id sp \<and> ss_status r = stp_status sp \<and> ss_current_period_end r = stp_current_period_end sp \<and>
    sub_id s = stp_id sp \<and> sub_price s = Some price \<and> prc_id price = sp_id pp \<and>
    (\<forall>old \<in> set (stripe_subscriptions (dbt c)). ss_customer_id old = stp_customer_id sp \<longrightarrow>
      ss_latest_invoice r = ss_latest_invoice old \<and> ss_user_id r = ss_user_id old) \<and>
    filter (\<lambda>r. ss_customer_id r \<noteq> stp_customer_id sp) (stripe_subscriptions (dbt c')) =
      filter (\<lambda>r. ss_customer_id r \<noteq> stp_customer_id sp) (stripe_subscriptions (dbt c)) \<and>
    filter (\<lambda>q. sp_customer_id q \<noteq> sp_customer_id pp) (stripe_prices (dbt c')) =
      filter (\<lambda>q. sp_customer_id q \<noteq> sp_customer_id pp) (stripe_prices (dbt c)) \<and>
    tables_wf (dbt c')"
proof -
  obtain r q srs prs s0 price where
    u: "tbl_upsert stripe_subscriptions_schema (\<lambda>r. [ss_customer_id r]) merge_subscription
       (new_subscription sp) (stripe_subscriptions (dbt c)) = Inr (r, srs)"
    and p: "tbl_upsert stripe_prices_schema (\<lambda>r. [sp_customer_id r]) merge_price pp (stripe_prices (dbt c)) = Inr (q, prs)"
    and s: "pgSubscriptionToPB r = Inr s0" "pgPriceToPB q = Inr price" "s = s0\<lparr>sub_price := Some price\<rparr>"
    and c': "stripe_subscriptions (dbt c') = srs" "stripe_prices (dbt c') = prs" "tables_wf (dbt c')"
    by (rule store_with_price_Inr [OF assms(2,1)]) simp
  have wf: "tbl_wf stripe_subscriptions_schema (stripe_subscriptions (dbt c))"
    "tbl_wf stripe_prices_schema (stripe_prices (dbt c))"
    using assms(1) by (simp_all add: tables_wf_def)
  have new: "ss_customer_id (new_subscription sp) = stp_customer_id sp" "ss_id (new_subscription sp) = stp_id sp"
    "ss_status (new_subscription sp) = stp_status sp"
    "ss_current_period_end (new_subscription sp) = stp_current_period_end sp"
    by (simp_all add: new_subscription_def)
  have "sub_id s0 = ss_id r" "prc_id price = sp_id q"
    using s(1,2) by (auto simp: pgSubscriptionToPB_def pgPriceToPB_def split: sum.splits)
  with sub_upsert.upsert_row [OF u wf(1)] price_upsert.upsert_row [OF p wf(2)]
    sub_upsert_fields [OF u wf(1)] price_upsert_fields [OF p wf(2)] s(3) c' new
  show ?thesis by (intro exI [of _ r] exI [of _ q] exI [of _ price]) simp
qed

section \<open>What is stored at sign-up is read back\<close>

lemma q_CreateCustomer_Inr:
  assumes "q_CreateCustomer arg c = (Inr r, c')"
  shows "r = created_customer arg" and "dbt c' = (dbt c)\<lparr>customers := customers (dbt c) @ [created_customer arg]\<rparr>"
  using assms by (auto simp: q_CreateCustomer_def ok_simps dest!: exec_stmt_Inr tbl_insert_Inr)

lemma customers_ids_distinct: "tables_wf t \<Longrightarrow> distinct (map cu_id (customers t))"
  by (auto simp: tables_wf_def tbl_wf_def customers_schema_def keys_of_total distinct_map inj_on_def)

lemma list_all_filter_False: "list_all (\<lambda>x. \<not> P x) xs \<Longrightarrow> filter P xs = []"
  by (simp add: list_all_iff filter_empty_conv)

text \<open>
  A customer with one subscription, its price and no payment method, on a database that answers.
\<close>

lemma get_customer_up:
  assumes "up c" and "filter (\<lambda>r. cu_id r = u) (customers (dbt c)) = [cu]"
    and "filter (\<lambda>r. ss_user_id r = u) (stripe_subscriptions (dbt c)) = [r]" and "ss_latest_invoice r \<noteq> Null"
    and "filter (\<lambda>q. sp_user_id q = u) (stripe_prices (dbt c)) = [q]"
    and "filter (\<lambda>q. sp_customer_id q = cu_customer_id cu) (stripe_prices (dbt c)) = [q]"
    and "filter (\<lambda>m. pm_user_id m = u) (payment_methods (dbt c)) = []"
    and "cu_customer_id cu \<noteq> ''''" and "pgSubscriptionToPB r = Inr s" and "pgPriceToPB q = Inr price"
    and "pgCustomerToPB cu = Inr cus"
  shows "dir_GetCustomerByUserID u c = (Inr (cus\<lparr>cst_subscriptions := [s\<lparr>sub_price := Some price\<rparr>]\<rparr>), c)"
proof -
  have sub: "getPBSubscriptionByUserID u c = (Inr (s\<lparr>sub_price := Some price\<rparr>), c)"
    using assms by (simp add: getPBSubscriptionByUserID_def q_GetSubscriptionByUserID_def subscription_where_def
        exec_query_up q_GetPriceByUserID_def scan_subscription_Inr [THEN iffD2])
  have cus_id: "cst_customer_id cus = cu_customer_id cu"
    using assms(11) by (auto simp: pgCustomerToPB_def)
  have plan: "pgPlanToPB (sp_plan q) = Inr (prc_plan price)" "price = \<lparr>prc_id = sp_id q, prc_active = sp_active q, prc_plan = prc_plan price\<rparr>"
    using assms(10) by (auto simp: pgPriceToPB_def split: sum.splits)
  have price: "getPBPriceByCustomerID (cst_customer_id cus) c = (Inr price, c)"
    using assms plan by (simp add: getPBPriceByCustomerID_def cus_id exec_query_up q_GetPriceByCustomerID_def)
  have "filter (\<lambda>r. holds (and3 (Val (pm_user_id r = u)) (eq3 (pm_is_default r) (Val True)))) (payment_methods (dbt c)) = []"
    using assms(7) by (auto simp: filter_empty_conv)
  then have "getPBDefaultPMByUserID u c = (Inl (ErrSql NoRows), c)"
    using assms(1) by (simp add: getPBDefaultPMByUserID_def q_GetDefaultPMByUserID_def exec_query_up del: holds_and3 holds_eq3)
  with sub price assms show ?thesis
    by (simp add: dir_GetCustomerByUserID_def q_GetCustomerByUserID_def exec_query_up optional_row_def attach_subscription_def)
qed

text \<open>
  A customer created with a first subscription and price is read back with exactly those: the
  message has the names and ids given, the one subscription with its price, and no payment
  method. The account of the user must have no payment data from before.
\<close>

theorem stored_customer_reads_back:
  assumes "tables_wf (dbt c)" and "up c2"
    and create: "dir_CreateCustomer arg c = (Inr cus, c1)"
    and store: "dir_StoreSubscriptionWithPrice \<lparr>swp_Subscription = Some sp, swp_Price = Some pp, swp_WithTrial = trial\<rparr> c1 = (Inr s, c2)"
    and ids: "stp_user_id sp = crp_id arg" "stp_customer_id sp = crp_customer_id arg"
      "sp_user_id pp = crp_id arg" "sp_customer_id pp = crp_customer_id arg"
    and fresh: "list_all (\<lambda>r. ss_user_id r \<noteq> crp_id arg \<and> ss_customer_id r \<noteq> crp_customer_id arg) (stripe_subscriptions (dbt c))"
      "list_all (\<lambda>q. sp_user_id q \<noteq> crp_id arg \<and> sp_customer_id q \<noteq> crp_customer_id arg) (stripe_prices (dbt c))"
      "list_all (\<lambda>m. pm_user_id m \<noteq> crp_id arg) (payment_methods (dbt c))"
  shows "dir_GetCustomerByUserID (crp_id arg) c2 = (Inr (cus\<lparr>cst_subscriptions := [s]\<rparr>), c2) \<and>
    cst_customer_id cus = crp_customer_id arg \<and> cst_first_name cus = crp_first_name arg \<and> cst_last_name cus = crp_last_name arg"
proof -
  from create have q: "q_CreateCustomer arg c = (Inr (created_customer arg), c1)" and cid: "crp_customer_id arg \<noteq> ''''"
    and cus: "pgCustomerToPB (created_customer arg) = Inr cus"
    by (auto simp: dir_CreateCustomer_def ok_simps dest: q_CreateCustomer_Inr(1) split: if_splits)
  have c1: "dbt c1 = (dbt c)\<lparr>customers := customers (dbt c) @ [created_customer arg]\<rparr>"
    by (rule q_CreateCustomer_Inr(2) [OF q])
  have wf1: "tables_wf (dbt c1)" using q_CreateCustomer_wf [OF assms(1), of arg] q by simp
  obtain r p srs prs s0 price where
    up_s: "tbl_upsert stripe_subscriptions_schema (\<lambda>r. [ss_customer_id r]) merge_subscription
       (new_subscription sp) (stripe_subscriptions (dbt c1)) = Inr (r, srs)"
    and up_p: "tbl_upsert stripe_prices_schema (\<lambda>r. [sp_customer_id r]) merge_price pp (stripe_prices (dbt c1)) = Inr (p, prs)"
    and pb: "pgSubscriptionToPB r = Inr s0" "pgPriceToPB p = Inr price" "s = s0\<lparr>sub_price := Some price\<rparr>" "ss_latest_invoice r \<noteq> Null"
    and c2: "dbt c2 = (dbt c1)\<lparr>stripe_subscriptions := srs, stripe_prices := prs, customers :=
       if trial then map (\<lambda>r. if cu_customer_id r = stp_customer_id sp then r\<lparr>cu_trial_used := Val True\<rparr> else r)
         (customers (dbt c1)) else customers (dbt c1)\<rparr>"
    and wf2: "tables_wf (dbt c2)"
    by (rule store_with_price_Inr [OF store wf1])
  have "[ss_customer_id (new_subscription sp)] \<notin> (\<lambda>r. [ss_customer_id r]) ` set (stripe_subscriptions (dbt c1))"
    using fresh(1) ids c1 by (auto simp: new_subscription_def list_all_iff)
  from sub_upsert.upsert_new [OF up_s this] c1
  have "r = new_subscription sp" "srs = stripe_subscriptions (dbt c) @ [new_subscription sp]" by simp_all
  then have subs: "filter (\<lambda>r. ss_user_id r = crp_id arg) srs = [r]"
    using fresh(1) ids by (auto simp: new_subscription_def list_all_iff filter_empty_conv)
  have "[sp_customer_id pp] \<notin> (\<lambda>q. [sp_customer_id q]) ` set (stripe_prices (dbt c1))"
    using fresh(2) ids c1 by (auto simp: list_all_iff)
  from price_upsert.upsert_new [OF up_p this] c1
  have "p = pp" "prs = stripe_prices (dbt c) @ [pp]" by simp_all
  then have prices: "filter (\<lambda>q. sp_user_id q = crp_id arg) prs = [p]" "filter (\<lambda>q. sp_customer_id q = crp_customer_id arg) prs = [p]"
    using fresh(2) ids by (auto simp: list_all_iff filter_empty_conv)
  define cu where "cu = (if trial then (created_customer arg)\<lparr>cu_trial_used := Val True\<rparr> else created_customer arg)"
  have cu: "cu_id cu = crp_id arg" "cu_customer_id cu = crp_customer_id arg" "pgCustomerToPB cu = Inr cus"
    using cus by (auto simp: cu_def created_customer_def pgCustomerToPB_def)
  have "cu \<in> set (customers (dbt c2))"
    using ids by (simp add: c2 c1 cu_def created_customer_def)
  then have "filter (\<lambda>r. cu_id r = crp_id arg) (customers (dbt c2)) = [cu]"
    using filter_eq_single [OF customers_ids_distinct [OF wf2], of cu] cu(1) by simp
  moreover have "filter (\<lambda>m. pm_user_id m = crp_id arg) (payment_methods (dbt c2)) = []"
    using fresh(3) by (simp add: c2 c1 list_all_iff filter_empty_conv)
  ultimately have "dir_GetCustomerByUserID (crp_id arg) c2 = (Inr (cus\<lparr>cst_subscriptions := [s]\<rparr>), c2)"
    unfolding pb(3) using assms(2) subs prices pb cu cid
    by (intro get_customer_up [where cu = cu and q = p and r = r]) (simp_all add: c2)
  with cus show ?thesis by (auto simp: pgCustomerToPB_def created_customer_def)
qed

text \<open>
  A user who subscribes again to a room keeps the row of the first subscription: its id, its
  customer and its account stay, only the period, the status, the kind and the invoice are the
  new ones. So the id of the new Stripe subscription is not stored anywhere.
\<close>

theorem room_resubscription_keeps_first_id:
  assumes "tables_wf (dbt c)" and "dir_StoreRoomSubscription arg c = (Inr m, c')"
    and "old \<in> set (room_subscriptions (dbt c))" and "rs_user_id old = srp_user_id arg" and "rs_room_id old = srp_room_id arg"
  shows "rsb_id m = rs_id old \<and>
    filter (\<lambda>r. rs_user_id r = srp_user_id arg \<and> rs_room_id r = srp_room_id arg) (room_subscriptions (dbt c')) =
      [old\<lparr>rs_current_period_end := srp_current_period_end arg, rs_status := srp_status arg,
           rs_room_subscription_type := srp_room_subscription_type arg, rs_latest_invoice := Val (srp_latest_invoice arg)\<rparr>]"
proof -
  from assms(2) obtain r c1 where r: "q_StoreRoomSubscription arg c = (Inr r, c')" "pgRoomSubscriptionToPB r = Inr m"
    by (auto simp: dir_StoreRoomSubscription_def ok_simps)
  from q_StoreRoomSubscription_Inr [OF r(1)] obtain rs where rs:
    "tbl_upsert room_subscriptions_schema (\<lambda>r. [rs_user_id r, rs_room_id r]) merge_room_subscription
      (new_room_subscription arg) (room_subscriptions (dbt c)) = Inr (r, rs)"
    "dbt c' = (dbt c)\<lparr>room_subscriptions := rs\<rparr>" by blast
  have wf: "tbl_wf room_subscriptions_schema (room_subscriptions (dbt c))"
    using assms(1) by (simp add: tables_wf_def)
  have key: "[rs_user_id old, rs_room_id old] = [rs_user_id (new_room_subscription arg), rs_room_id (new_room_subscription arg)]"
    using assms(4,5) by (simp add: new_room_subscription_def)
  have "r = merge_room_subscription (new_room_subscription arg) old"
    by (rule room_upsert.upsert_old(1) [OF rs(1) wf assms(3) key])
  moreover have "rsb_id m = rs_id r"
    using r(2) by (auto simp: pgRoomSubscriptionToPB_def split: sum.splits)
  moreover have "filter (\<lambda>r. rs_user_id r = srp_user_id arg \<and> rs_room_id r = srp_room_id arg) rs = [r]"
    using room_upsert.upsert_row(1) [OF rs(1) wf] by (simp add: new_room_subscription_def)
  ultimately show ?thesis
    by (simp add: rs(2) merge_room_subscription_def new_room_subscription_def)
qed

section \<open>Examples\<close>

definition sample_customer :: create_customer_params where
  "sample_customer = \<lparr>crp_id = ''u1'', crp_customer_id = ''cus1'', crp_first_name = ''Ann'', crp_last_name = ''B'',
     crp_account_id = Null\<rparr>"

definition sample_subscription :: "string \<Rightarrow> json \<Rightarrow> store_subscription_params" where
  "sample_subscription i invoice = \<lparr>stp_id = i, stp_user_id = ''u1'', stp_customer_id = ''cus1'',
     stp_current_period_end = 5000000, stp_status = ''active'', stp_latest_invoice = invoice\<rparr>"

definition sample_price :: stripe_price_row where
  "sample_price = \<lparr>sp_customer_id = ''cus1'', sp_id = ''price1'', sp_user_id = ''u1'', sp_plan = ''free'', sp_active = True\<rparr>"

definition sample_store :: "string \<Rightarrow> json \<Rightarrow> store_subscription_with_price" where
  "sample_store i invoice = \<lparr>swp_Subscription = Some (sample_subscription i invoice), swp_Price = Some sample_price,
     swp_WithTrial = False\<rparr>"

definition sample_customer_tables :: tables where
  "sample_customer_tables = no_rows\<lparr>customers := [created_customer sample_customer]\<rparr>"

definition sample_subscribed_tables :: "string \<Rightarrow> tables" where
  "sample_subscribed_tables i = sample_customer_tables\<lparr>
     stripe_subscriptions := [(new_subscription (sample_subscription ''sub1'' JNull))\<lparr>ss_id := i\<rparr>],
     stripe_prices := [sample_price]\<rparr>"

lemmas customer_samples = sample_customer_def sample_subscription_def sample_price_def sample_store_def
  sample_customer_tables_def sample_subscribed_tables_def no_rows_def db_of_def

lemma sample_customer_created:
  "\<exists>cus. dir_CreateCustomer sample_customer (db_of no_rows) = (Inr cus, db_of sample_customer_tables)"
  by (simp add: dir_CreateCustomer_def q_CreateCustomer_def exec_stmt_def created_customer_def tbl_insert_def
      tbl_store_def customers_schema_def varchar_check_def returning_def put_def fk_violation_def
      pgCustomerToPB_def customer_samples)

lemma sample_stored:
  "\<exists>s. dir_StoreSubscriptionWithPrice (sample_store ''sub1'' JNull) (db_of sample_customer_tables) =
     (Inr s, db_of (sample_subscribed_tables ''sub1''))"
  by (simp add: dir_StoreSubscriptionWithPrice_def q_StoreSubscription_def q_StorePrice_def exec_stmt_def
      tbl_upsert_def tbl_insert_def tbl_store_def stripe_subscriptions_schema_def stripe_prices_schema_def
      varchar_check_def returning_row_def returning_def put_def fk_violation_def scan_subscription_def
      pgSubscriptionToPB_def pgSubscriptionStatusToPB_def customer_consts read_invoice_def pgPriceToPB_def pgPlanToPB_def
      new_subscription_def created_customer_def customer_samples)

lemma sample_stored_again:
  "\<exists>s. dir_StoreSubscriptionWithPrice (sample_store ''sub2'' (JObj [])) (db_of (sample_subscribed_tables ''sub1'')) =
     (Inr s, db_of (sample_subscribed_tables ''sub2''))"
  by (simp add: dir_StoreSubscriptionWithPrice_def q_StoreSubscription_def q_StorePrice_def exec_stmt_def
      tbl_upsert_def tbl_update_def tbl_store_def stripe_subscriptions_schema_def stripe_prices_schema_def
      varchar_check_def returning_row_def returning_def put_def fk_violation_def scan_subscription_def
      pgSubscriptionToPB_def pgSubscriptionStatusToPB_def customer_consts read_invoice_def pgPriceToPB_def pgPlanToPB_def
      new_subscription_def merge_subscription_def merge_price_def created_customer_def customer_samples)

lemma sample_customer_wf: "tables_wf sample_customer_tables" "tables_wf (sample_subscribed_tables ''sub1'')"
proof -
  obtain cus where created: "dir_CreateCustomer sample_customer (db_of no_rows) = (Inr cus, db_of sample_customer_tables)"
    using sample_customer_created by blast
  then have "q_CreateCustomer sample_customer (db_of no_rows) = (Inr (created_customer sample_customer), db_of sample_customer_tables)"
    by (auto simp: dir_CreateCustomer_def ok_simps dest: q_CreateCustomer_Inr(1) split: if_splits)
  with q_CreateCustomer_wf [of "db_of no_rows" sample_customer] tables_wf_no_rows
  show wf: "tables_wf sample_customer_tables" by (simp add: db_of_def)
  obtain s where "dir_StoreSubscriptionWithPrice (sample_store ''sub1'' JNull) (db_of sample_customer_tables) =
     (Inr s, db_of (sample_subscribed_tables ''sub1''))"
    using sample_stored by blast
  then show "tables_wf (sample_subscribed_tables ''sub1'')"
    unfolding sample_store_def using wf by (elim store_with_price_Inr) (simp_all add: db_of_def)
qed

lemma one_subscription_per_customer_witness:
  "\<exists>s c'. dir_StoreSubscriptionWithPrice (sample_store ''sub2'' (JObj [])) (db_of (sample_subscribed_tables ''sub1'')) = (Inr s, c') \<and>
     sub_id s = ''sub2'' \<and>
     (\<exists>r. filter (\<lambda>r. ss_customer_id r = ''cus1'') (stripe_subscriptions (dbt c')) = [r] \<and> ss_latest_invoice r = Val JNull)"
proof -
  obtain s where s: "dir_StoreSubscriptionWithPrice (sample_store ''sub2'' (JObj [])) (db_of (sample_subscribed_tables ''sub1'')) =
     (Inr s, db_of (sample_subscribed_tables ''sub2''))"
    using sample_stored_again by blast
  have "sub_id s = ''sub2'' \<and> (\<exists>r. filter (\<lambda>r. ss_customer_id r = ''cus1'')
      (stripe_subscriptions (dbt (db_of (sample_subscribed_tables ''sub2'')))) = [r] \<and> ss_latest_invoice r = Val JNull)"
    using one_subscription_per_customer [OF _ s [unfolded sample_store_def]] sample_customer_wf(2)
    by (simp add: customer_samples new_subscription_def)
  with s show ?thesis by blast
qed

lemma stored_customer_reads_back_witness:
  "\<exists>cus s. dir_CreateCustomer sample_customer (db_of no_rows) = (Inr cus, db_of sample_customer_tables) \<and>
     dir_StoreSubscriptionWithPrice (sample_store ''sub1'' JNull) (db_of sample_customer_tables) =
       (Inr s, db_of (sample_subscribed_tables ''sub1'')) \<and>
     fst (dir_GetCustomerByUserID ''u1'' (db_of (sample_subscribed_tables ''sub1''))) = Inr (cus\<lparr>cst_subscriptions := [s]\<rparr>)"
proof -
  obtain cus s where cus: "dir_CreateCustomer sample_customer (db_of no_rows) = (Inr cus, db_of sample_customer_tables)"
    and s: "dir_StoreSubscriptionWithPrice (sample_store ''sub1'' JNull) (db_of sample_customer_tables) =
       (Inr s, db_of (sample_subscribed_tables ''sub1''))"
    using sample_customer_created sample_stored by blast
  have "dir_GetCustomerByUserID (crp_id sample_customer) (db_of (sample_subscribed_tables ''sub1'')) =
      (Inr (cus\<lparr>cst_subscriptions := [s]\<rparr>), db_of (sample_subscribed_tables ''sub1''))"
    using stored_customer_reads_back [OF _ _ cus s [unfolded sample_store_def]] tables_wf_no_rows
    by (simp add: customer_samples up_def)
  with cus s show ?thesis by (simp add: sample_customer_def)
qed

definition sample_room_subscription :: "string \<Rightarrow> string \<Rightarrow> store_room_subscription_params" where
  "sample_room_subscription i st = \<lparr>srp_id = i, srp_user_id = ''u1'', srp_customer_id = ''cus1'',
     srp_connected_customer_id = ''con1'', srp_account_id = ''acct1'', srp_current_period_end = Val 5000000,
     srp_status = st, srp_room_id = ''room1'', srp_room_subscription_type = ''subscription_monthly'',
     srp_latest_invoice = JNull\<rparr>"

definition sample_room_tables :: "string \<Rightarrow> tables" where
  "sample_room_tables st = no_rows\<lparr>room_subscriptions := [new_room_subscription (sample_room_subscription ''sub1'' st)]\<rparr>"

lemma room_resubscription_keeps_first_id_witness:
  "\<exists>m. dir_StoreRoomSubscription (sample_room_subscription ''sub2'' ''active'') (db_of (sample_room_tables ''canceled'')) =
     (Inr m, db_of (sample_room_tables ''active'')) \<and> rsb_id m = ''sub1''"
proof -
  have "tables_wf (sample_room_tables ''canceled'')"
    by (simp add: tables_wf_def sample_room_tables_def no_rows_def tbl_wf_def room_subscriptions_schema_def varchar_check_def
        new_room_subscription_def sample_room_subscription_def fk_violation_def)
  moreover obtain m where m: "dir_StoreRoomSubscription (sample_room_subscription ''sub2'' ''active'') (db_of (sample_room_tables ''canceled'')) =
     (Inr m, db_of (sample_room_tables ''active''))"
    by (simp add: dir_StoreRoomSubscription_def q_StoreRoomSubscription_def exec_stmt_def tbl_upsert_def tbl_update_def
        tbl_store_def room_subscriptions_schema_def varchar_check_def returning_row_def returning_def put_def fk_violation_def
        scan_room_subscription_def pgRoomSubscriptionToPB_def pgSubscriptionStatusToPB_def pgRoomSubscriptionTypeToPB_def
        customer_consts read_invoice_def new_room_subscription_def merge_room_subscription_def sample_room_subscription_def
        sample_room_tables_def no_rows_def db_of_def)
  ultimately have "rsb_id m = ''sub1''"
    using room_resubscription_keeps_first_id [OF _ m, of "new_room_subscription (sample_room_subscription ''sub1'' ''canceled'')"]
    by (simp add: db_of_def sample_room_tables_def new_room_subscription_def sample_room_subscription_def)
  with m show ?thesis by blast
qed

end
