(* ===== verification/Stripe_Service.thy ===== *)
theory Stripe_Service
  imports Customers_Dir Server_State
begin

text \<open>
  Package \<^verbatim>\<open>backend/pkg/stripeservice\<close>. Stripe is a service outside the repository: the calls of
  \<^verbatim>\<open>stripe-go\<close> are a record of functions over the state of the outside services, the same state
  the commands of Redis work on, and its objects are records of the fields the code reads. A
  pointer that may be nil is an option. The fee in cents is worked out in float64 arithmetic,
  which is a parameter; so is the clock.
\<close>

section \<open>Objects of Stripe\<close>

record stripe_payment_intent =
  spi_ID :: string
  spi_ClientSecret :: string
  spi_Status :: string

record stripe_invoice =
  siv_ID :: string
  siv_Subtotal :: int
  siv_AmountDue :: int
  siv_PaymentIntent :: "stripe_payment_intent option"

record stripe_price =
  spr_ID :: string
  spr_Active :: bool

record stripe_item =
  sit_ID :: string
  sit_Price :: stripe_price

record stripe_subscription =
  ssn_ID :: string
  ssn_Customer :: string
  ssn_CurrentPeriodEnd :: int
  ssn_Status :: string
  ssn_Items :: "stripe_item list"
  ssn_PlanActive :: "bool option"
  ssn_LatestInvoice :: "stripe_invoice option"
  ssn_Metadata :: "(string \<times> string) list"

record stripe_customer =
  scu_ID :: string
  scu_Name :: string
  scu_Email :: string
  scu_DefaultPaymentMethod :: "string option"
  scu_Subscriptions :: "stripe_subscription list"

section \<open>Parameters of its calls\<close>

record customer_call =
  ccl_Account :: string
  ccl_Description :: "string option"
  ccl_Email :: "string option"
  ccl_Name :: "string option"
  ccl_PaymentMethod :: "string option"
  ccl_DefaultPaymentMethod :: "string option"

definition no_customer_call :: customer_call where
  "no_customer_call = \<lparr>ccl_Account = [], ccl_Description = None, ccl_Email = None, ccl_Name = None,
     ccl_PaymentMethod = None, ccl_DefaultPaymentMethod = None\<rparr>"

record item_call =
  icl_ID :: "string option"
  icl_Plan :: "string option"
  icl_Price :: "string option"
  icl_PriceData :: "(int \<times> string) option"

definition no_item_call :: item_call where
  "no_item_call = \<lparr>icl_ID = None, icl_Plan = None, icl_Price = None, icl_PriceData = None\<rparr>"

record 'f subscription_call =
  scl_Account :: string
  scl_Customer :: "string option"
  scl_Items :: "item_call list"
  scl_Metadata :: "(string \<times> string) list"
  scl_FeePercent :: "'f option"
  scl_TrialEnd :: "int option"
  scl_ProrationNone :: bool
  scl_Expand :: "string list"

definition no_subscription_call :: "'f subscription_call" where
  "no_subscription_call = \<lparr>scl_Account = [], scl_Customer = None, scl_Items = [], scl_Metadata = [],
     scl_FeePercent = None, scl_TrialEnd = None, scl_ProrationNone = False, scl_Expand = []\<rparr>"

record intent_call =
  pcl_Account :: string
  pcl_Customer :: string
  pcl_Amount :: int
  pcl_FeeAmount :: int
  pcl_PaymentMethod :: string
  pcl_Metadata :: "(string \<times> string) list"

record invoice_call =
  vcl_Customer :: string
  vcl_Subscription :: string
  vcl_Coupon :: string
  vcl_Item :: item_call

text \<open>\<open>'f\<close> is the type of float64, \<open>'r\<close> the state of the outside services.\<close>

record ('f, 'r) stripe_api =
  st_NewCustomer :: "customer_call \<Rightarrow> 'r \<Rightarrow> stripe_customer res \<times> 'r"
  st_GetCustomer :: "string \<Rightarrow> string \<Rightarrow> 'r \<Rightarrow> stripe_customer res \<times> 'r"
  st_UpdateCustomer :: "string \<Rightarrow> customer_call \<Rightarrow> 'r \<Rightarrow> stripe_customer res \<times> 'r"
  st_NewPaymentMethod :: "string \<Rightarrow> string \<Rightarrow> string \<Rightarrow> 'r \<Rightarrow> string res \<times> 'r"
  st_ListCards :: "string \<Rightarrow> string \<Rightarrow> 'r \<Rightarrow> string list \<times> 'r"
  st_DetachPaymentMethod :: "string \<Rightarrow> string \<Rightarrow> 'r \<Rightarrow> unit res \<times> 'r"
  st_AttachPaymentMethod :: "string \<Rightarrow> string \<Rightarrow> string \<Rightarrow> 'r \<Rightarrow> string res \<times> 'r"
  st_NewSubscription :: "'f subscription_call \<Rightarrow> 'r \<Rightarrow> stripe_subscription res \<times> 'r"
  st_UpdateSubscription :: "string \<Rightarrow> 'f subscription_call \<Rightarrow> 'r \<Rightarrow> stripe_subscription res \<times> 'r"
  st_GetSubscription :: "string \<Rightarrow> 'f subscription_call \<Rightarrow> 'r \<Rightarrow> stripe_subscription res \<times> 'r"
  st_NewPaymentIntent :: "intent_call \<Rightarrow> 'r \<Rightarrow> stripe_payment_intent res \<times> 'r"
  st_ConfirmPaymentIntent :: "string \<Rightarrow> string \<Rightarrow> string \<Rightarrow> 'r \<Rightarrow> stripe_payment_intent res \<times> 'r"
  st_NextInvoice :: "invoice_call \<Rightarrow> 'r \<Rightarrow> stripe_invoice res \<times> 'r"
  st_NewProduct :: "string \<Rightarrow> string \<Rightarrow> 'r \<Rightarrow> string res \<times> 'r"
  st_calcFeeAmount :: "int \<Rightarrow> 'f \<Rightarrow> int"

section \<open>Conversions (helpers.go)\<close>

text \<open>The statuses are the strings Stripe documents, which the constants of \<^verbatim>\<open>stripe-go\<close> name.\<close>

definition stripeSubscriptionStatusToPB :: "string \<Rightarrow> pb_subscription_status res" where
  "stripeSubscriptionStatusToPB st =
     (if st = ''active'' then Inr SubscriptionStatus_ACTIVE
      else if st = ''canceled'' then Inr SubscriptionStatus_CANCELED
      else if st = ''incomplete'' then Inr SubscriptionStatus_INCOMPLETE
      else if st = ''incomplete_expired'' then Inr SubscriptionStatus_INCOMPLETE_EXPIRED
      else if st = ''past_due'' then Inr SubscriptionStatus_PAST_DUE
      else if st = ''trialing'' then Inr SubscriptionStatus_TRIALING
      else if st = ''unpaid'' then Inr SubscriptionStatus_UNPAID
      else Inl (Errorf ''failed to convert stripe subscription status: %v'' []))"

definition StripePaymentIntentStatusToPB :: "string \<Rightarrow> pb_payment_intent_status res" where
  "StripePaymentIntentStatusToPB st =
     (if st = ''canceled'' then Inr PaymentIntentStatus_CANCELED
      else if st = ''processing'' then Inr PaymentIntentStatus_PROCESSING
      else if st = ''requires_action'' then Inr PaymentIntentStatus_REQUIRES_ACTION
      else if st = ''requires_capture'' then Inr PaymentIntentStatus_REQUIRES_CAPTURE
      else if st = ''requires_confirmation'' then Inr PaymentIntentStatus_REQUIRES_CONFIRMATION
      else if st = ''requires_payment_method'' then Inr PaymentIntentStatus_REQUIRES_PAYMENT_METHOD
      else if st = ''succeeded'' then Inr PaymentIntentStatus_SUCCEEDED
      else Inl (Errorf ''invalid stripe payment intent status: %v '' []))"

definition StripePaymentIntentToPB :: "stripe_payment_intent \<Rightarrow> pb_payment_intent res" where
  "StripePaymentIntentToPB p = (case StripePaymentIntentStatusToPB (spi_Status p) of
     Inl e \<Rightarrow> Inl e
   | Inr st \<Rightarrow> Inr \<lparr>pi_status = st, pi_client_secret = spi_ClientSecret p, pi_id = spi_ID p\<rparr>)"

fun pbPlanToPriceID :: "config \<Rightarrow> pb_plan \<Rightarrow> string res" where
  "pbPlanToPriceID cfg Plan_UNPAPER_FREE = Inr (cfg_PriceIDFree cfg)"
| "pbPlanToPriceID cfg Plan_UNPAPER_PLUS_MONTHLY = Inr (cfg_PriceIDPlusMonthly cfg)"
| "pbPlanToPriceID cfg Plan_UNPAPER_PLUS_YEARLY = Inr (cfg_PriceIDPlusYearly cfg)"
| "pbPlanToPriceID cfg (Plan_other n) = Inl (Errorf ''failed to convert PB plan to priceID: %q'' [])"

definition stripePriceIDToPBPlan :: "config \<Rightarrow> string \<Rightarrow> pb_plan res" where
  "stripePriceIDToPBPlan cfg i =
     (if i = cfg_PriceIDFree cfg then Inr Plan_UNPAPER_FREE
      else if i = cfg_PriceIDPlusMonthly cfg then Inr Plan_UNPAPER_PLUS_MONTHLY
      else if i = cfg_PriceIDPlusYearly cfg then Inr Plan_UNPAPER_PLUS_YEARLY
      else Inl (Errorf ''failed to convert stripe priceID to PB Plan: %q'' []))"

definition stripePriceIDToPGPlan :: "config \<Rightarrow> string \<Rightarrow> string res" where
  "stripePriceIDToPGPlan cfg i =
     (if i = cfg_PriceIDFree cfg then Inr SubscriptionPlanFree
      else if i = cfg_PriceIDPlusMonthly cfg then Inr SubscriptionPlanPlusMonthly
      else if i = cfg_PriceIDPlusYearly cfg then Inr SubscriptionPlanPlusYearly
      else Inl (Errorf ''failed to convert stripe priceID to PG Plan: %q'' []))"

definition stripeLatestInvoiceToPB :: "stripe_invoice option \<Rightarrow> pb_invoice option res" where
  "stripeLatestInvoiceToPB io = (case io of
     None \<Rightarrow> Inr None
   | Some i \<Rightarrow>
       (let inv = empty_invoice\<lparr>inv_id := siv_ID i\<rparr> in
        case siv_PaymentIntent i of
          None \<Rightarrow> Inr (Some inv)
        | Some p \<Rightarrow> (case StripePaymentIntentStatusToPB (spi_Status p) of
            Inl e \<Rightarrow> Inl e
          | Inr st \<Rightarrow> Inr (Some (inv\<lparr>inv_payment_intent := Some
              \<lparr>pi_status = st, pi_client_secret = spi_ClientSecret p, pi_id = spi_ID p\<rparr>\<rparr>)))))"

record subscription_options =
  sop_WithLatestInvoice :: bool
  sop_WithItems :: bool
  sop_WithPlan :: bool

definition StripeSubscriptionToPB :: "config \<Rightarrow> stripe_subscription \<Rightarrow> subscription_options \<Rightarrow> pb_subscription res" where
  "StripeSubscriptionToPB cfg s opts =
     (case stripeSubscriptionStatusToPB (ssn_Status s) of
        Inl e \<Rightarrow> Inl e
      | Inr st \<Rightarrow>
          (case ssn_Items s of
             [it] \<Rightarrow>
               (case (if sop_WithLatestInvoice opts then stripeLatestInvoiceToPB (ssn_LatestInvoice s) else Inr None) of
                  Inl e \<Rightarrow> Inl (Status Internal ''failed to convert stripe latest invoice to pb: %v'' [e])
                | Inr invoice \<Rightarrow>
                    (case (if sop_WithPlan opts then stripePriceIDToPBPlan cfg (spr_ID (sit_Price it)) else Inr Plan_UNPAPER_FREE) of
                       Inl e \<Rightarrow> Inl e
                     | Inr plan \<Rightarrow> Inr \<lparr>sub_id = ssn_ID s, sub_customer_id = ssn_Customer s,
                         sub_current_period_end = ssn_CurrentPeriodEnd s, sub_status = st,
                         sub_price = Some \<lparr>prc_id = spr_ID (sit_Price it), prc_active = spr_Active (sit_Price it),
                           prc_plan = plan\<rparr>,
                         sub_latest_invoice = invoice,
                         sub_items = (if sop_WithItems opts then [\<lparr>sit_id = sit_ID it\<rparr>] else [])\<rparr>))
           | _ \<Rightarrow> Inl (Errorf ''invalid subscription items length. got: %d, want: %d'' [])))"

section \<open>Customers\<close>

definition StripeMDUserID :: string where "StripeMDUserID = ''stripe_md_user_id''"
definition StripeMDPayForRoomAccess :: string where "StripeMDPayForRoomAccess = ''pay_for_room_access''"

definition trim_blanks :: "string \<Rightarrow> string" where
  "trim_blanks s = rev (dropWhile (\<lambda>c. c = CHR '' '') (rev (dropWhile (\<lambda>c. c = CHR '' '') s)))"

record stripe_customer_params =
  scp_UserID :: string
  scp_Email :: string
  scp_FamilyName :: string
  scp_GivenName :: string

definition ss_CreateCustomer ::
    "('f, 'r) stripe_api \<Rightarrow> stripe_customer_params \<Rightarrow> 'r world \<Rightarrow> stripe_customer res \<times> 'r world" where
  "ss_CreateCustomer A p w =
     check_err (on_rdb (st_NewCustomer A (no_customer_call\<lparr>ccl_Description := Some ''GogoCrowd platform customer'',
         ccl_Email := Some (scp_Email p),
         ccl_Name := Some (trim_blanks (scp_GivenName p @ '' '' @ scp_FamilyName p))\<rparr>)) w)
       (\<lambda>e. Status Internal ''Failed to create stripe customer: %q'' [e]) (\<lambda>c w. (Inr c, w))"

definition ss_CreateConnectedCustomer ::
    "('f, 'r) stripe_api \<Rightarrow> string \<Rightarrow> string \<Rightarrow> 'r world \<Rightarrow> stripe_customer res \<times> 'r world" where
  "ss_CreateConnectedCustomer A cus acct w =
     check_err (on_rdb (st_GetCustomer A cus '''') w) same_err (\<lambda>plat w.
     case scu_DefaultPaymentMethod plat of
       None \<Rightarrow> (Inl (Status Internal ''customer has no default payment method'' []), w)
     | Some pm0 \<Rightarrow>
         check_err (on_rdb (st_NewPaymentMethod A acct (scu_ID plat) pm0) w)
           (\<lambda>e. Status Internal ''failed to create payment method on connected account: %v'' [e]) (\<lambda>pm w.
         check_err (on_rdb (st_NewCustomer A (no_customer_call\<lparr>ccl_Account := acct, ccl_PaymentMethod := Some pm,
             ccl_Name := Some (scu_Name plat), ccl_Email := Some (scu_Email plat), ccl_DefaultPaymentMethod := Some pm\<rparr>)) w)
           (\<lambda>e. Status Internal ''failed to create connected customer: %v'' [e]) (\<lambda>c w. (Inr c, w))))"

text \<open>\<^verbatim>\<open>StoreCustomer\<close>: user id, given name and family name beside the Stripe customer.\<close>

definition ss_StoreCustomer ::
    "stripe_customer \<Rightarrow> string \<Rightarrow> string \<Rightarrow> string \<Rightarrow> 'r world \<Rightarrow> pb_customer res \<times> 'r world" where
  "ss_StoreCustomer cus user_id family given w =
     check_err (on_db (dir_CreateCustomer \<lparr>crp_id = user_id, crp_customer_id = scu_ID cus, crp_first_name = given,
         crp_last_name = family, crp_account_id = Null\<rparr>) w)
       (\<lambda>e. Status Internal ''failed to store customer: %v'' [e]) (\<lambda>c w. (Inr c, w))"

text \<open>
  \<^verbatim>\<open>GetOrCreateConnectedCustomerByUserID\<close>: the customer on the account of another user is looked
  up in the database and made with Stripe when it is not there.
\<close>

definition ss_GetOrCreateConnectedCustomerByUserID ::
    "('f, 'r) stripe_api \<Rightarrow> string \<Rightarrow> string \<Rightarrow> string \<Rightarrow> 'r world \<Rightarrow> pb_connected_customer res \<times> 'r world" where
  "ss_GetOrCreateConnectedCustomerByUserID A user_id cus acct w =
     (case on_db (dir_GetConnectedCustomerByUserID user_id acct) w of
        (Inr c, w) \<Rightarrow> (Inr c, w)
      | (Inl e, w) \<Rightarrow>
          if e \<noteq> ErrSql NoRows then (Inl (Status Internal ''failed to retrieve customer: %v'' [e]), w)
          else
            check_err (ss_CreateConnectedCustomer A cus acct w)
              (\<lambda>e. Status Internal ''failed to create connected customer: %v'' [e]) (\<lambda>con w.
            check_err (on_db (dir_StoreConnectedCustomer \<lparr>cc_user_id = user_id, cc_customer_id = cus,
                cc_connected_customer_id = scu_ID con, cc_account_id = acct\<rparr>) w)
              (\<lambda>_. Status Internal ''error storing connected customer'' []) (\<lambda>c w. (Inr c, w))))"

section \<open>Platform subscriptions\<close>

definition ss_CreatePlatformSubscription ::
    "('f, 'r) stripe_api \<Rightarrow> string \<Rightarrow> string \<Rightarrow> string \<Rightarrow> 'r world \<Rightarrow> stripe_subscription res \<times> 'r world" where
  "ss_CreatePlatformSubscription A cus user_id price =
     on_rdb (st_NewSubscription A (no_subscription_call\<lparr>scl_Customer := Some cus,
       scl_Items := [no_item_call\<lparr>icl_Plan := Some price\<rparr>], scl_Metadata := [(StripeMDUserID, user_id)]\<rparr>))"

definition nil_deref :: goerror where
  "nil_deref = Panic ''nil pointer dereference''"

definition ss_StoreSubscription :: "stripe_subscription \<Rightarrow> string \<Rightarrow> 'r world \<Rightarrow> pb_subscription res \<times> 'r world" where
  "ss_StoreSubscription s user_id w =
     (case ssn_Items s of
        [] \<Rightarrow> (Inl (Status Internal ''missing subscription items'' []), w)
      | it # _ \<Rightarrow>
          (case ssn_PlanActive s of
             None \<Rightarrow> (Inl nil_deref, w)
           | Some active \<Rightarrow>
               on_db (dir_StoreSubscriptionWithPrice \<lparr>
                 swp_Subscription = Some \<lparr>stp_id = ssn_ID s, stp_user_id = user_id, stp_customer_id = ssn_Customer s,
                   stp_current_period_end = ssn_CurrentPeriodEnd s * 1000000, stp_status = ssn_Status s,
                   stp_latest_invoice = JNull\<rparr>,
                 swp_Price = Some \<lparr>sp_customer_id = ssn_Customer s, sp_id = spr_ID (sit_Price it), sp_user_id = user_id,
                   sp_plan = SubscriptionPlanFree, sp_active = active\<rparr>,
                 swp_WithTrial = False\<rparr>) w))"

definition ss_StorePlatformSubscription :: "config \<Rightarrow> stripe_subscription \<Rightarrow> 'r world \<Rightarrow> pb_subscription res \<times> 'r world" where
  "ss_StorePlatformSubscription cfg s w =
     (case ssn_Items s of
        [it] \<Rightarrow>
          (case map_of (ssn_Metadata s) StripeMDUserID of
             None \<Rightarrow> (Inl (Status Internal ''failed to get userID from metadata'' []), w)
           | Some user_id \<Rightarrow>
               check_err (stripeLatestInvoiceToPB (ssn_LatestInvoice s), w)
                 (\<lambda>e. Status Internal ''failed to marshal latest invoice: %v'' [e]) (\<lambda>invoice w.
               check_err (stripePriceIDToPGPlan cfg (spr_ID (sit_Price it)), w) same_err (\<lambda>plan w.
               case ssn_PlanActive s of
                 None \<Rightarrow> (Inl nil_deref, w)
               | Some active \<Rightarrow>
                   check_err (on_db (dir_StoreSubscriptionWithPrice \<lparr>
                     swp_Subscription = Some \<lparr>stp_id = ssn_ID s, stp_user_id = user_id, stp_customer_id = ssn_Customer s,
                       stp_current_period_end = ssn_CurrentPeriodEnd s * 1000000, stp_status = ssn_Status s,
                       stp_latest_invoice = marshal_invoice invoice\<rparr>,
                     swp_Price = Some \<lparr>sp_customer_id = ssn_Customer s, sp_id = spr_ID (sit_Price it),
                       sp_user_id = user_id, sp_plan = plan, sp_active = active\<rparr>,
                     swp_WithTrial = True\<rparr>) w)
                   (\<lambda>e. Status Internal ''error saving subscription on db: %q'' [e]) (\<lambda>m w. (Inr m, w)))))
      | _ \<Rightarrow> (Inl (Status Internal ''wrong number of subscription items. got: %q, want: %q'' []), w))"

definition ss_UpdatePlatformSubscription ::
    "('f, 'r) stripe_api \<Rightarrow> config \<Rightarrow> int \<Rightarrow> pb_plan \<Rightarrow> stripe_customer \<Rightarrow> 'r world \<Rightarrow> stripe_subscription res \<times> 'r world" where
  "ss_UpdatePlatformSubscription A cfg now plan cus w =
     (case scu_Subscriptions cus of
        [s] \<Rightarrow>
          (case ssn_Items s of
             [it] \<Rightarrow>
               (case scu_DefaultPaymentMethod cus of
                  None \<Rightarrow> (Inl (Status Internal ''missing default payment method for stripe customer'' []), w)
                | Some _ \<Rightarrow>
                    check_err (on_db (dir_HasCustomerUsedTrial (scu_ID cus)) w) same_err (\<lambda>used w.
                    check_err (pbPlanToPriceID cfg plan, w) same_err (\<lambda>price w.
                    let call = no_subscription_call\<lparr>scl_Items := [no_item_call\<lparr>icl_ID := Some (sit_ID it), icl_Price := Some price\<rparr>],
                          scl_Expand := [''latest_invoice.payment_intent'']\<rparr>;
                        call = (if used then call else call\<lparr>scl_TrialEnd := Some (unix_seconds (now + 30 * 1000000)),
                          scl_ProrationNone := True\<rparr>) in
                    on_rdb (st_UpdateSubscription A (ssn_ID s) call) w)))
           | _ \<Rightarrow> (Inl (Status Internal ''user must have one active subscription item. current: %v'' []), w))
      | _ \<Rightarrow> (Inl (Status Internal ''user must have one active subscription. current: %v'' []), w))"

definition ss_GetPlatformInvoicePreview ::
    "('f, 'r) stripe_api \<Rightarrow> config \<Rightarrow> string \<Rightarrow> string \<Rightarrow> string \<Rightarrow> pb_plan \<Rightarrow> string \<Rightarrow> 'r world \<Rightarrow> pb_invoice res \<times> 'r world" where
  "ss_GetPlatformInvoicePreview A cfg cus sub item plan coupon w =
     check_err (pbPlanToPriceID cfg plan, w)
       (\<lambda>e. Status Internal ''error converting protobuf plan to price id: %q'' [e]) (\<lambda>price w.
     check_err (on_rdb (st_NextInvoice A \<lparr>vcl_Customer = cus, vcl_Subscription = sub, vcl_Coupon = coupon,
         vcl_Item = no_item_call\<lparr>icl_ID := Some item, icl_Price := Some price\<rparr>\<rparr>) w)
       (\<lambda>e. Status Internal ''failed to retrieve invoice preview: %q'' [e]) (\<lambda>i w.
     (Inr (empty_invoice\<lparr>inv_id := siv_ID i, inv_subtotal := siv_Subtotal i, inv_amount_due := siv_AmountDue i,
        inv_plan := plan\<rparr>), w)))"

section \<open>Room subscriptions and payments on connected accounts\<close>

record 'f connect_intent_params =
  cip_PlatformFeePercent :: 'f
  cip_SenderConnectCustomerID :: string
  cip_ReceiverAccountID :: string
  cip_Amount :: int
  cip_Metadata :: "(string \<times> string) list"

definition ss_CreatePaymentIntent ::
    "('f, 'r) stripe_api \<Rightarrow> 'f connect_intent_params \<Rightarrow> 'r world \<Rightarrow> stripe_payment_intent res \<times> 'r world" where
  "ss_CreatePaymentIntent A p w =
     (let fee = st_calcFeeAmount A (cip_Amount p) (cip_PlatformFeePercent p) in
      check_err (on_rdb (st_GetCustomer A (cip_SenderConnectCustomerID p) (cip_ReceiverAccountID p)) w) same_err (\<lambda>cus w.
      case scu_DefaultPaymentMethod cus of
        None \<Rightarrow> (Inl (Errorf ''connected customer has no default payment method'' []), w)
      | Some pm \<Rightarrow>
          on_rdb (st_NewPaymentIntent A \<lparr>pcl_Account = cip_ReceiverAccountID p, pcl_Customer = cip_SenderConnectCustomerID p,
            pcl_Amount = cip_Amount p, pcl_FeeAmount = fee, pcl_PaymentMethod = pm, pcl_Metadata = cip_Metadata p\<rparr>) w))"

record 'f room_subscription_params =
  rsp_SenderConnectedCustomerID :: string
  rsp_ReceiverAccountID :: string
  rsp_PlatformFeePct :: 'f
  rsp_Amount :: int
  rsp_ProductID :: string
  rsp_Metadata :: "(string \<times> string) list"

definition ss_CreateRoomSubscription ::
    "('f, 'r) stripe_api \<Rightarrow> int \<Rightarrow> 'f room_subscription_params \<Rightarrow> 'r world \<Rightarrow> stripe_subscription res \<times> 'r world" where
  "ss_CreateRoomSubscription A now p =
     on_rdb (st_NewSubscription A (no_subscription_call\<lparr>scl_Account := rsp_ReceiverAccountID p,
       scl_Customer := Some (rsp_SenderConnectedCustomerID p), scl_FeePercent := Some (rsp_PlatformFeePct p),
       scl_TrialEnd := Some (unix_seconds (now + 20 * 1000000)),
       scl_Items := [no_item_call\<lparr>icl_PriceData := Some (rsp_Amount p, rsp_ProductID p)\<rparr>],
       scl_Metadata := rsp_Metadata p, scl_Expand := [''latest_invoice.payment_intent'']\<rparr>))"

definition ss_StoreRoomSubscription ::
    "stripe_subscription \<Rightarrow> stripe_invoice option \<Rightarrow> string \<Rightarrow> string \<Rightarrow> 'r world \<Rightarrow> pb_room_subscription res \<times> 'r world" where
  "ss_StoreRoomSubscription s invoice room acct w =
     (case map_of (ssn_Metadata s) StripeMDUserID of
        None \<Rightarrow> (Inl (Status Internal ''missing user id in metadata'' []), w)
      | Some user_id \<Rightarrow>
          check_err (stripeLatestInvoiceToPB (case invoice of None \<Rightarrow> ssn_LatestInvoice s | Some i \<Rightarrow> Some i), w)
            (\<lambda>e. Status Internal ''failed to convert stripe latest invoice to pb: %v'' [e]) (\<lambda>inv w.
          check_err (on_db (dir_StoreRoomSubscription \<lparr>srp_id = ssn_ID s, srp_user_id = user_id,
              srp_customer_id = ssn_Customer s, srp_connected_customer_id = '''', srp_account_id = acct,
              srp_current_period_end = Val (ssn_CurrentPeriodEnd s * 1000000), srp_status = ssn_Status s,
              srp_room_id = room, srp_room_subscription_type = RoomSubscriptionTypeSubscriptionMonthly,
              srp_latest_invoice = marshal_invoice inv\<rparr>) w)
            (\<lambda>e. Status Internal ''error storing room subscription: %v'' [e]) (\<lambda>m w. (Inr m, w))))"

definition ss_GetRoomSubscriptionForUserID ::
    "('f, 'r) stripe_api \<Rightarrow> string \<Rightarrow> string \<Rightarrow> string \<Rightarrow> bool \<Rightarrow> 'r world \<Rightarrow> stripe_subscription res \<times> 'r world" where
  "ss_GetRoomSubscriptionForUserID A room user_id acct strict w =
     check_err (on_db (dir_GetRoomSubscriptionForUserID room user_id) w) same_err (\<lambda>m w.
     check_err (on_rdb (st_GetSubscription A (rsb_id m) (no_subscription_call\<lparr>scl_Account := acct,
         scl_Expand := [''latest_invoice.payment_intent'']\<rparr>)) w)
       (\<lambda>e. Status Internal ''error getting stripe subscription for id %q : %v'' [e]) (\<lambda>s w.
     if strict then
       (case ssn_LatestInvoice s of
          None \<Rightarrow> (Inl (Status Internal ''missing latest invoice on stripe subscription'' []), w)
        | Some i \<Rightarrow> (case siv_PaymentIntent i of
            None \<Rightarrow> (Inl (Status Internal ''missing payment intent on stripe subscription'' []), w)
          | Some _ \<Rightarrow> (Inr s, w)))
     else (Inr s, w)))"

definition ss_RetrieveAndStoreRoomSubscriptionForUserID ::
    "('f, 'r) stripe_api \<Rightarrow> string \<Rightarrow> string \<Rightarrow> string \<Rightarrow> bool \<Rightarrow> 'r world \<Rightarrow> pb_room_subscription res \<times> 'r world" where
  "ss_RetrieveAndStoreRoomSubscriptionForUserID A room user_id acct strict w =
     check_err (ss_GetRoomSubscriptionForUserID A room user_id acct strict w) same_err (\<lambda>s w.
       ss_StoreRoomSubscription s None room acct w)"

definition ss_CreateProduct :: "('f, 'r) stripe_api \<Rightarrow> string \<Rightarrow> string \<Rightarrow> 'r world \<Rightarrow> string res \<times> 'r world" where
  "ss_CreateProduct A name acct = on_rdb (st_NewProduct A name acct)"

text \<open>Detaching the cards the iterator yields, one after the other.\<close>

fun detach_loop :: "('f, 'r) stripe_api \<Rightarrow> string \<Rightarrow> string list \<Rightarrow> 'r \<Rightarrow> unit res \<times> 'r" where
  "detach_loop A acct [] s = (Inr (), s)"
| "detach_loop A acct (pm # pms) s =
     check_err (st_DetachPaymentMethod A pm acct s)
       (\<lambda>e. Status Internal ''error detaching payment method from connected customer: %q'' [e]) (\<lambda>_ s.
       detach_loop A acct pms s)"

definition ss_SyncConnectPaymentMethods ::
    "('f, 'r) stripe_api \<Rightarrow> string \<Rightarrow> string \<Rightarrow> string \<Rightarrow> 'r world \<Rightarrow> stripe_customer res \<times> 'r world" where
  "ss_SyncConnectPaymentMethods A cus con acct w =
     check_err (on_rdb (st_GetCustomer A cus '''') w) same_err (\<lambda>plat w.
     check_err (on_rdb (\<lambda>s. case st_ListCards A con acct s of (pms, s) \<Rightarrow> detach_loop A acct pms s) w) same_err (\<lambda>_ w.
     case scu_DefaultPaymentMethod plat of
       None \<Rightarrow> (Inl (Status Internal ''platform customer must have a default payment method'' []), w)
     | Some pm0 \<Rightarrow>
         check_err (on_rdb (st_NewPaymentMethod A acct (scu_ID plat) pm0) w)
           (\<lambda>e. Status Internal ''error creating payment method on connected account: %v'' [e]) (\<lambda>pm w.
         check_err (on_rdb (st_AttachPaymentMethod A pm con acct) w)
           (\<lambda>e. Status Internal ''error attaching payment method to the connected account: %v'' [e]) (\<lambda>new_pm w.
         check_err (on_rdb (st_UpdateCustomer A con (no_customer_call\<lparr>ccl_Account := acct,
             ccl_DefaultPaymentMethod := Some new_pm\<rparr>)) w)
           (\<lambda>e. Status Internal ''error setting default payment method id for customer: %q'' [e]) (\<lambda>c w. (Inr c, w))))))"

definition ss_ConfirmConnectPaymentIntent ::
    "('f, 'r) stripe_api \<Rightarrow> string \<Rightarrow> string \<Rightarrow> string \<Rightarrow> 'r world \<Rightarrow> stripe_payment_intent res \<times> 'r world" where
  "ss_ConfirmConnectPaymentIntent A intent acct cus w =
     check_err (on_rdb (st_GetCustomer A cus acct) w) (\<lambda>e. Status Internal ''customer not found: %v'' [e]) (\<lambda>c w.
     case scu_DefaultPaymentMethod c of
       None \<Rightarrow> (Inl (Status Internal ''customer does not have a default pm'' []), w)
     | Some pm \<Rightarrow>
         check_err (on_rdb (st_ConfirmPaymentIntent A intent pm acct) w)
           (\<lambda>e. Status Internal ''failed to confirm stripe payment intent: %v'' [e]) (\<lambda>p w. (Inr p, w)))"

section \<open>One connected customer per user\<close>

lemma connected_users_distinct: "tables_wf t \<Longrightarrow> distinct (map cc_user_id (connected_customers t))"
  by (auto simp: tables_wf_def tbl_wf_def connected_customers_schema_def keys_of_total distinct_map inj_on_def)

lemma get_connected_customer_up:
  assumes "up c"
  shows "dir_GetConnectedCustomerByUserID u a c =
    (case filter (\<lambda>r. cc_user_id r = u \<and> cc_account_id r = a) (connected_customers (dbt c)) of
       [] \<Rightarrow> (Inl (ErrSql NoRows), c)
     | r # _ \<Rightarrow> (Inr (pgConnectedCustomerToPB r), c))"
  using assms by (simp add: dir_GetConnectedCustomerByUserID_def q_GetConnectedCustomerByUserID_def exec_query_up
      split: list.split)

lemma q_StoreConnectedCustomer_Inr:
  assumes "q_StoreConnectedCustomer arg c = (Inr r, c')"
  shows "r = arg" and "connected_customers (dbt c') = connected_customers (dbt c) @ [arg]"
  using assms by (auto simp: q_StoreConnectedCustomer_def ok_simps dest!: exec_stmt_Inr tbl_insert_Inr)

lemma ss_CreateConnectedCustomer_db [simp]: "wd_db (snd (ss_CreateConnectedCustomer A cus acct w)) = wd_db w"
  unfolding ss_CreateConnectedCustomer_def
  by (intro check_err_inv [where P = "\<lambda>x. wd_db x = wd_db w"]; (simp split: option.split)?)
     (intro conjI allI impI check_err_inv [where P = "\<lambda>x. wd_db x = wd_db w"]; simp)

lemma ss_CreateConnectedCustomer_db_eq:
  "ss_CreateConnectedCustomer A cus acct w = (r, w1) \<Longrightarrow> wd_db w1 = wd_db w"
  using ss_CreateConnectedCustomer_db [of A cus acct w] by simp

text \<open>
  A user can be a customer on one connected account only: the table is keyed by the user alone.
  When a row for another account is there, every request for a customer on the new account
  fails and stores nothing, also after Stripe has made the customer, which then belongs to
  nobody.
\<close>

theorem second_connected_account_fails:
  assumes "up (wd_db w)" and "tables_wf (wd_tables w)" and "r \<in> set (connected_customers (wd_tables w))"
    and "cc_user_id r = u" and "cc_account_id r \<noteq> acct"
  shows "\<exists>e w'. ss_GetOrCreateConnectedCustomerByUserID A u cus acct w = (Inl e, w') \<and> wd_tables w' = wd_tables w \<and>
    wd_rdb w' = wd_rdb (snd (ss_CreateConnectedCustomer A cus acct w))"
proof -
  have none: "filter (\<lambda>r. cc_user_id r = u \<and> cc_account_id r = acct) (connected_customers (wd_tables w)) = []"
    using connected_users_distinct [OF assms(2)] assms(3-5)
    by (auto simp: filter_empty_conv distinct_map inj_on_def)
  have lookup: "on_db (dir_GetConnectedCustomerByUserID u acct) w = (Inl (ErrSql NoRows), w)"
    by (rule on_db_same) (simp add: get_connected_customer_up [OF assms(1)] none)
  obtain res w1 where made: "ss_CreateConnectedCustomer A cus acct w = (res, w1)" by fastforce
  have db1: "wd_db w1 = wd_db w" by (rule ss_CreateConnectedCustomer_db_eq [OF made])
  show ?thesis
  proof (cases res)
    case (Inl e)
    then show ?thesis
      using made db1 by (simp add: ss_GetOrCreateConnectedCustomerByUserID_def lookup)
  next
    case (Inr con)
    let ?new = "\<lparr>cc_user_id = u, cc_customer_id = cus, cc_connected_customer_id = scu_ID con, cc_account_id = acct\<rparr>"
    have no: "tbl_insert connected_customers_schema ?new (connected_customers (wd_tables w)) \<noteq> Inr rs" for rs
      using assms(3,4) by (auto simp: tbl_insert_def tbl_store_Inr connected_customers_schema_def set_keys_of)
    obtain e where e: "dir_StoreConnectedCustomer ?new (wd_db w) = (Inl e, wd_db w)"
    proof (cases "tbl_insert connected_customers_schema ?new (connected_customers (wd_tables w))")
      case (Inl e)
      then show thesis
        using assms(1) by (intro that [of "ErrSql e"])
          (simp add: dir_StoreConnectedCustomer_def q_StoreConnectedCustomer_def exec_stmt_up returning_def put_def)
    qed (simp add: no)
    have "on_db (dir_StoreConnectedCustomer ?new) w1 = (Inl e, w1)"
      by (rule on_db_same) (simp add: db1 e)
    then show ?thesis
      using made Inr db1 by (simp add: ss_GetOrCreateConnectedCustomerByUserID_def lookup)
  qed
qed

text \<open>A Stripe that grants every request, for the examples.\<close>

definition sample_stripe_customer :: "string \<Rightarrow> stripe_customer" where
  "sample_stripe_customer i = \<lparr>scu_ID = i, scu_Name = ''Ann'', scu_Email = ''ann@mail.com'',
     scu_DefaultPaymentMethod = Some ''pm1'', scu_Subscriptions = []\<rparr>"

definition sample_stripe_subscription :: "string \<Rightarrow> (string \<times> string) list \<Rightarrow> stripe_subscription" where
  "sample_stripe_subscription cus md = \<lparr>ssn_ID = ''sub1'', ssn_Customer = cus, ssn_CurrentPeriodEnd = 5,
     ssn_Status = ''active'', ssn_Items = [\<lparr>sit_ID = ''item1'', sit_Price = \<lparr>spr_ID = ''price1'', spr_Active = True\<rparr>\<rparr>],
     ssn_PlanActive = Some True, ssn_LatestInvoice = None, ssn_Metadata = md\<rparr>"

definition sample_intent :: stripe_payment_intent where
  "sample_intent = \<lparr>spi_ID = ''pi1'', spi_ClientSecret = ''secret'', spi_Status = ''succeeded''\<rparr>"

definition sample_stripe :: "(unit, 'r) stripe_api" where
  "sample_stripe = \<lparr>
     st_NewCustomer = (\<lambda>p s. (Inr (sample_stripe_customer (if ccl_Account p = [] then ''cus1'' else ''con1'')), s)),
     st_GetCustomer = (\<lambda>i acct s. (Inr (sample_stripe_customer i), s)),
     st_UpdateCustomer = (\<lambda>i p s. (Inr (sample_stripe_customer i), s)),
     st_NewPaymentMethod = (\<lambda>acct cus pm s. (Inr ''pm2'', s)), st_ListCards = (\<lambda>cus acct s. ([], s)),
     st_DetachPaymentMethod = (\<lambda>pm acct s. (Inr (), s)), st_AttachPaymentMethod = (\<lambda>pm cus acct s. (Inr pm, s)),
     st_NewSubscription = (\<lambda>p s. (Inr (sample_stripe_subscription (case scl_Customer p of None \<Rightarrow> '''' | Some c \<Rightarrow> c)
        (scl_Metadata p)), s)),
     st_UpdateSubscription = (\<lambda>i p s. (Inr (sample_stripe_subscription ''cus1'' []), s)),
     st_GetSubscription = (\<lambda>i p s. (Inr (sample_stripe_subscription ''cus1'' []), s)),
     st_NewPaymentIntent = (\<lambda>p s. (Inr sample_intent, s)), st_ConfirmPaymentIntent = (\<lambda>i pm acct s. (Inr sample_intent, s)),
     st_NextInvoice = (\<lambda>p s. (Inr \<lparr>siv_ID = ''in1'', siv_Subtotal = 0, siv_AmountDue = 0, siv_PaymentIntent = None\<rparr>, s)),
     st_NewProduct = (\<lambda>name acct s. (Inr ''prod1'', s)), st_calcFeeAmount = (\<lambda>n f. 0)\<rparr>"

definition sample_connected :: tables where
  "sample_connected = no_rows\<lparr>connected_customers := [\<lparr>cc_user_id = ''u1'', cc_customer_id = ''cus1'',
      cc_connected_customer_id = ''con1'', cc_account_id = ''a1''\<rparr>]\<rparr>"

lemma sample_connected_wf: "tables_wf sample_connected"
  by (simp add: sample_connected_def tables_wf_def no_rows_def tbl_wf_def connected_customers_schema_def
      varchar_check_def fk_violation_def)

lemma second_connected_account_fails_witness:
  "\<exists>e w'. ss_GetOrCreateConnectedCustomerByUserID sample_stripe ''u1'' ''cus1'' ''a2'' (world_of sample_connected ()) =
     (Inl e, w') \<and> wd_tables w' = sample_connected"
  using second_connected_account_fails [of "world_of sample_connected ()" _ "''u1''" "''a2''" sample_stripe "''cus1''"]
    sample_connected_wf
  by (fastforce simp: up_def db_of_def sample_connected_def)

text \<open>
  Looking a connected customer up or creating it is idempotent: once it was answered, the same
  request gives the same customer again without asking Stripe for anything.
\<close>

theorem connected_customer_created_once:
  assumes "up (wd_db w)" and "tables_wf (wd_tables w)"
    and "ss_GetOrCreateConnectedCustomerByUserID A u cus acct w = (Inr c, w1)"
  shows "ss_GetOrCreateConnectedCustomerByUserID A' u cus' acct w1 = (Inr c, w1) \<and>
    ccu_user_id c = u \<and> ccu_account_id c = acct"
proof -
  let ?P = "\<lambda>r. cc_user_id r = u \<and> cc_account_id r = acct"
  have again: "ss_GetOrCreateConnectedCustomerByUserID A' u cus' acct w1 = (Inr (pgConnectedCustomerToPB r), w1)"
    if "up (wd_db w1)" and "filter ?P (connected_customers (wd_tables w1)) = r # rs" for r rs
  proof -
    have "on_db (dir_GetConnectedCustomerByUserID u acct) w1 = (Inr (pgConnectedCustomerToPB r), w1)"
      by (rule on_db_same) (simp add: get_connected_customer_up that)
    then show ?thesis by (simp add: ss_GetOrCreateConnectedCustomerByUserID_def)
  qed
  show ?thesis
  proof (cases "filter ?P (connected_customers (wd_tables w))")
    case (Cons r rs)
    have "on_db (dir_GetConnectedCustomerByUserID u acct) w = (Inr (pgConnectedCustomerToPB r), w)"
      by (rule on_db_same) (simp add: get_connected_customer_up assms(1) Cons)
    then have "c = pgConnectedCustomerToPB r" "w1 = w"
      using assms(3) by (simp_all add: ss_GetOrCreateConnectedCustomerByUserID_def)
    moreover have "?P r" using filter_eq_ConsD [OF Cons] by blast
    ultimately show ?thesis using again [of r rs] Cons assms(1) by (simp add: pgConnectedCustomerToPB_def)
  next
    case Nil
    have "on_db (dir_GetConnectedCustomerByUserID u acct) w = (Inl (ErrSql NoRows), w)"
      by (rule on_db_same) (simp add: get_connected_customer_up assms(1) Nil)
    with assms(3) obtain con w0 where made: "ss_CreateConnectedCustomer A cus acct w = (Inr con, w0)"
      and stored: "on_db (dir_StoreConnectedCustomer \<lparr>cc_user_id = u, cc_customer_id = cus,
                cc_connected_customer_id = scu_ID con, cc_account_id = acct\<rparr>) w0 = (Inr c, w1)"
      by (auto simp: ss_GetOrCreateConnectedCustomerByUserID_def check_err_Inr)
    let ?new = "\<lparr>cc_user_id = u, cc_customer_id = cus, cc_connected_customer_id = scu_ID con, cc_account_id = acct\<rparr>"
    have db0: "wd_db w0 = wd_db w" by (rule ss_CreateConnectedCustomer_db_eq [OF made])
    from stored obtain d where d: "dir_StoreConnectedCustomer ?new (wd_db w) = (Inr c, d)" "wd_db w1 = d"
      by (auto simp: ok_simps db0)
    then obtain row where q: "q_StoreConnectedCustomer ?new (wd_db w) = (Inr row, d)" "c = pgConnectedCustomerToPB row"
      by (auto simp: dir_StoreConnectedCustomer_def ok_simps)
    from q_StoreConnectedCustomer_Inr [OF q(1)] q(2) have c: "c = pgConnectedCustomerToPB ?new"
      and rows: "connected_customers (dbt d) = connected_customers (wd_tables w) @ [?new]" by simp_all
    have "up (snd (q_StoreConnectedCustomer ?new (wd_db w)))"
      unfolding q_StoreConnectedCustomer_def by (rule up_exec_stmt [OF assms(1)])
    with q(1) have "up d" by simp
    have "filter ?P (connected_customers (wd_tables w1)) = [?new]"
      using Nil d(2) rows by simp
    with again [of ?new "[]"] \<open>up d\<close> d(2) c show ?thesis by (simp add: pgConnectedCustomerToPB_def)
  qed
qed

lemma connected_customer_created_once_witness:
  "\<exists>c w1. ss_GetOrCreateConnectedCustomerByUserID sample_stripe ''u1'' ''cus1'' ''a1'' (world_of no_rows ()) = (Inr c, w1) \<and>
     ss_GetOrCreateConnectedCustomerByUserID sample_stripe ''u1'' ''cus1'' ''a1'' w1 = (Inr c, w1) \<and>
     ccu_connected_customer_id c = ''con1''"
proof -
  have "fst (ss_GetOrCreateConnectedCustomerByUserID sample_stripe ''u1'' ''cus1'' ''a1'' (world_of no_rows ())) =
      Inr \<lparr>ccu_user_id = ''u1'', ccu_customer_id = ''cus1'', ccu_connected_customer_id = ''con1'', ccu_account_id = ''a1''\<rparr>"
    by code_simp
  then obtain w1 where first: "ss_GetOrCreateConnectedCustomerByUserID sample_stripe ''u1'' ''cus1'' ''a1'' (world_of no_rows ()) =
      (Inr \<lparr>ccu_user_id = ''u1'', ccu_customer_id = ''cus1'', ccu_connected_customer_id = ''con1'', ccu_account_id = ''a1''\<rparr>, w1)"
    by (metis prod.collapse)
  from connected_customer_created_once [OF _ _ first] first tables_wf_no_rows
  show ?thesis by (fastforce simp: up_def db_of_def)
qed

section \<open>The trial\<close>

lemma ss_StorePlatformSubscription_Inr:
  assumes "ss_StorePlatformSubscription cfg s w = (Inr m, w1)"
  obtains sp pp where
    "on_db (dir_StoreSubscriptionWithPrice \<lparr>swp_Subscription = Some sp, swp_Price = Some pp, swp_WithTrial = True\<rparr>) w = (Inr m, w1)"
    "stp_customer_id sp = ssn_Customer s"
proof -
  obtain it where it: "ssn_Items s = [it]"
    using assms by (auto simp: ss_StorePlatformSubscription_def split: list.splits)
  obtain u where u: "map_of (ssn_Metadata s) StripeMDUserID = Some u"
    using assms it by (auto simp: ss_StorePlatformSubscription_def split: option.splits)
  show thesis
    using assms it u that
    by (auto simp: ss_StorePlatformSubscription_def check_err_Inr split: option.splits)
qed

text \<open>
  A platform subscription whose storing succeeded uses the trial of its customer up, whatever its
  plan: a change of plan made from there asks Stripe for no trial and for the usual proration. The
  callers decide what follows when the storing failed.
\<close>

lemma stored_subscription_uses_trial:
  assumes "tables_wf (wd_tables w)" and "cu \<in> set (customers (wd_tables w))" and "cu_customer_id cu = ssn_Customer s"
    and store: "ss_StorePlatformSubscription cfg s w = (Inr m, w1)"
    and "up (wd_db w1)" and "scu_ID cus = ssn_Customer s"
    and update: "ss_UpdatePlatformSubscription A cfg now plan cus w1 = (Inr s', w2)"
  shows "\<exists>i call. on_rdb (st_UpdateSubscription A i call) w1 = (Inr s', w2) \<and>
    scl_TrialEnd call = None \<and> \<not> scl_ProrationNone call"
proof -
  obtain sp pp where st:
    "on_db (dir_StoreSubscriptionWithPrice \<lparr>swp_Subscription = Some sp, swp_Price = Some pp, swp_WithTrial = True\<rparr>) w = (Inr m, w1)"
    and cid: "stp_customer_id sp = ssn_Customer s"
    by (rule ss_StorePlatformSubscription_Inr [OF store])
  from st obtain c where c:
    "dir_StoreSubscriptionWithPrice \<lparr>swp_Subscription = Some sp, swp_Price = Some pp, swp_WithTrial = True\<rparr> (wd_db w) = (Inr m, c)"
    "wd_db w1 = c" by (auto simp: ok_simps)
  have rows: "customers (wd_tables w1) = map (\<lambda>r. if cu_customer_id r = ssn_Customer s
      then r\<lparr>cu_trial_used := Val True\<rparr> else r) (customers (wd_tables w))"
    by (rule store_with_price_Inr [OF c(1) assms(1)]) (simp add: c(2) cid)
  let ?mine = "filter (\<lambda>r. cu_customer_id r = scu_ID cus) (customers (wd_tables w1))"
  have "cu\<lparr>cu_trial_used := Val True\<rparr> \<in> set ?mine"
    using assms(2,3,6) by (auto simp: rows image_iff intro!: bexI [of _ cu])
  then obtain r rs where r: "?mine = r # rs" by (cases ?mine) auto
  then have "r \<in> set ?mine" by simp
  then have "cu_trial_used r = Val True"
    by (auto simp: rows assms(6) split: if_splits)
  then have "dir_HasCustomerUsedTrial (scu_ID cus) (wd_db w1) = (Inr True, wd_db w1)"
    using r assms(5) by (simp add: dir_HasCustomerUsedTrial_def q_HasCustomerUsedTrial_def exec_query_up)
  then have used: "on_db (dir_HasCustomerUsedTrial (scu_ID cus)) w1 = (Inr True, w1)"
    by (rule on_db_same)
  obtain sub where sub: "scu_Subscriptions cus = [sub]"
    using update by (auto simp: ss_UpdatePlatformSubscription_def split: list.splits)
  obtain it where it: "ssn_Items sub = [it]"
    using update sub by (auto simp: ss_UpdatePlatformSubscription_def split: list.splits)
  obtain pm where pm: "scu_DefaultPaymentMethod cus = Some pm"
    using update sub it by (auto simp: ss_UpdatePlatformSubscription_def split: option.splits)
  from update obtain price where
    "on_rdb (st_UpdateSubscription A (ssn_ID sub) (no_subscription_call\<lparr>
       scl_Items := [no_item_call\<lparr>icl_ID := Some (sit_ID it), icl_Price := Some price\<rparr>],
       scl_Expand := [''latest_invoice.payment_intent'']\<rparr>)) w1 = (Inr s', w2)"
    by (auto simp: ss_UpdatePlatformSubscription_def sub it pm used check_err_Inr)
  then show ?thesis by (intro exI conjI) (auto simp: no_subscription_call_def)
qed

definition sample_cfg :: config where
  "sample_cfg = (the (config_flags (\<lambda>_. ''1'') (\<lambda>_. None) None None))\<lparr>cfg_PriceIDFree := ''price1'', cfg_ClientDomain := ''localhost'',
     cfg_EnableStripe := True\<rparr>"

definition sample_trial :: tables where
  "sample_trial = no_rows\<lparr>customers := [created_customer sample_customer]\<rparr>"

lemma sample_trial_wf: "tables_wf sample_trial"
  by code_simp

lemma sample_trial_stored:
  "(case ss_StorePlatformSubscription sample_cfg (sample_stripe_subscription ''cus1'' [(StripeMDUserID, ''u1'')])
       (world_of sample_trial ()) of
      (Inr m, w1) \<Rightarrow> outcomes (wd_db w1) = [] \<and>
        (case ss_UpdatePlatformSubscription sample_stripe sample_cfg 0 Plan_UNPAPER_FREE
            ((sample_stripe_customer ''cus1'')\<lparr>scu_Subscriptions := [sample_stripe_subscription ''cus1'' []]\<rparr>) w1 of
           (Inr s, _) \<Rightarrow> True | _ \<Rightarrow> False)
    | _ \<Rightarrow> False)"
  by code_simp

lemma stored_subscription_uses_trial_witness:
  "\<exists>m w1 s' w2 i call.
     ss_StorePlatformSubscription sample_cfg (sample_stripe_subscription ''cus1'' [(StripeMDUserID, ''u1'')])
       (world_of sample_trial ()) = (Inr m, w1) \<and>
     ss_UpdatePlatformSubscription sample_stripe sample_cfg 0 Plan_UNPAPER_FREE
       ((sample_stripe_customer ''cus1'')\<lparr>scu_Subscriptions := [sample_stripe_subscription ''cus1'' []]\<rparr>) w1 = (Inr s', w2) \<and>
     on_rdb (st_UpdateSubscription sample_stripe i call) w1 = (Inr s', w2) \<and> scl_TrialEnd call = None"
proof -
  obtain m w1 s' w2 where st: "ss_StorePlatformSubscription sample_cfg (sample_stripe_subscription ''cus1'' [(StripeMDUserID, ''u1'')])
       (world_of sample_trial ()) = (Inr m, w1)" "up (wd_db w1)"
    "ss_UpdatePlatformSubscription sample_stripe sample_cfg 0 Plan_UNPAPER_FREE
       ((sample_stripe_customer ''cus1'')\<lparr>scu_Subscriptions := [sample_stripe_subscription ''cus1'' []]\<rparr>) w1 = (Inr s', w2)"
    using sample_trial_stored by (auto simp: up_def split: prod.splits sum.splits)
  have cu: "created_customer sample_customer \<in> set (customers (wd_tables (world_of sample_trial ())))"
    "cu_customer_id (created_customer sample_customer) = ssn_Customer (sample_stripe_subscription ''cus1'' [(StripeMDUserID, ''u1'')])"
    "scu_ID ((sample_stripe_customer ''cus1'')\<lparr>scu_Subscriptions := [sample_stripe_subscription ''cus1'' []]\<rparr>) =
       ssn_Customer (sample_stripe_subscription ''cus1'' [(StripeMDUserID, ''u1'')])"
    by (simp_all add: sample_trial_def db_of_def created_customer_def sample_customer_def sample_stripe_subscription_def
        sample_stripe_customer_def)
  have wf': "tables_wf (wd_tables (world_of sample_trial ()))" using sample_trial_wf by (simp add: db_of_def)
  from stored_subscription_uses_trial [OF wf' cu(1,2) st(1,2) cu(3) st(3)] st show ?thesis by blast
qed

end
