(* ===== verification/Service_Users.thy ===== *)
theory Service_Users
  imports Service_Posts Customers_Dir Users_Dir Follows_Dir
begin

text \<open>
  The handlers of \<^verbatim>\<open>backend/pkg/service/v1/auth.go\<close> and \<^verbatim>\<open>users.go\<close> about users themselves: what
  others see of a user, the name, the presence, and who follows whom.
\<close>

section \<open>External users\<close>

definition getExtUser :: "string \<Rightarrow> string \<Rightarrow> db \<Rightarrow> pb_user res \<times> db" where
  "getExtUser user_id username c =
     (if user_id \<noteq> '''' then dir_GetUser user_id c else dir_GetUserByUsername username c)"

definition fetchExtUserInfo ::
    "string \<Rightarrow> string \<Rightarrow> string \<Rightarrow> 'r world \<Rightarrow> pb_ext_user_info res \<times> 'r world" where
  "fetchExtUserInfo user_id ext_user_id ext_username w =
     check_err (on_db (getExtUser ext_user_id ext_username) w)
       (\<lambda>e. Status Internal ''failed to retrieve user: %v'' [e]) (\<lambda>u w.
     check_err (on_db (dir_IsFollowingUser user_id ext_user_id) w)
       (\<lambda>e. Status Internal ''failure retrieving is following user: %v'' [e]) (\<lambda>following w.
     (Inr \<lparr>eui_id = usr_id u, eui_email = usr_email u, eui_given_name = usr_given_name u,
        eui_family_name = usr_family_name u, eui_username = usr_username u, eui_is_followed = following\<rparr>, w)))"

definition sv_ExtUserInfo ::
    "call_context \<Rightarrow> string \<Rightarrow> string \<Rightarrow> 'r world \<Rightarrow> pb_ext_user_info res \<times> 'r world" where
  "sv_ExtUserInfo ctx ext_user_id ext_username = with_user ctx (\<lambda>user_id w.
     if ext_user_id = '''' \<and> ext_username = '''' then
       (Inl (Status InvalidArgument ''missing target user_id or username'' []), w)
     else fetchExtUserInfo user_id ext_user_id ext_username w)"

record pb_customer_info =
  cin_has_connected_account :: bool
  cin_account_id :: string

definition addCustomerInfo ::
    "pb_ext_user_info \<Rightarrow> 'r world \<Rightarrow> (pb_ext_user_info \<times> pb_customer_info) res \<times> 'r world" where
  "addCustomerInfo info w =
     check_err (on_db (dir_GetCustomerByUserID (eui_id info)) w)
       (\<lambda>e. Status Internal ''failed to retrieve customer: %v'' [e]) (\<lambda>c w.
     check_err (on_db (dir_ConnectedAccountExists (cst_account_id c)) w)
       (\<lambda>e. Status Internal ''failed to retrieve connected account: %v'' [e]) (\<lambda>has w.
     (Inr (info, \<lparr>cin_has_connected_account = has, cin_account_id = cst_account_id c\<rparr>), w)))"

definition sv_UserInfo :: "call_context \<Rightarrow> 'r world \<Rightarrow> pb_user res \<times> 'r world" where
  "sv_UserInfo ctx = check_ok (md_GetUserIDFromMD ctx) (Status InvalidArgument ''Missing userID'' []) (\<lambda>user_id w.
     check_err (on_db (dir_GetUser user_id) w)
       (\<lambda>e. Status Internal ''Failed to get userInfo on db: %v'' [e]) (\<lambda>u w. (Inr u, w)))"

definition sv_UpdateUsername :: "call_context \<Rightarrow> string \<Rightarrow> 'r world \<Rightarrow> pb_user res \<times> 'r world" where
  "sv_UpdateUsername ctx username = with_user ctx (\<lambda>user_id w.
     if username = '''' then (Inl (Status InvalidArgument ''username cannot be empty'' []), w)
     else if length username > 24 then
       (Inl (Status InvalidArgument ''Username cannot be more than 24 characters long'' []), w)
     else
       check_err (on_db (dir_UpdateUsername (Val username) user_id) w)
         (\<lambda>e. Status Internal ''Failed to update username: %v'' [e]) (\<lambda>u w. (Inr u, w)))"

section \<open>Presence\<close>

definition sv_SetUserOnline :: "'r server \<Rightarrow> call_context \<Rightarrow> 'r world \<Rightarrow> unit res \<times> 'r world" where
  "sv_SetUserOnline srv ctx = with_user ctx (\<lambda>user_id. on_rdb (us_Log (sv_usersession srv) user_id))"

definition sv_SetUserOffline :: "'r server \<Rightarrow> call_context \<Rightarrow> 'r world \<Rightarrow> unit res \<times> 'r world" where
  "sv_SetUserOffline srv ctx = with_user ctx (\<lambda>user_id. on_rdb (us_Unlog (sv_usersession srv) user_id))"

section \<open>Follows\<close>

definition toggleFollowUser ::
    "int \<Rightarrow> bool \<Rightarrow> string \<Rightarrow> string \<Rightarrow> db \<Rightarrow> pb_ext_user_info res \<times> db" where
  "toggleFollowUser now following user_id user_id_to_follow c =
     (if following then dir_UnfollowUser (Val now) user_id user_id_to_follow c
      else dir_FollowUser user_id user_id_to_follow now c)"

text \<open>The error of the notification is only logged.\<close>

definition sv_FollowUser ::
    "'r server \<Rightarrow> req_env \<Rightarrow> call_context \<Rightarrow> string \<Rightarrow> 'r world \<Rightarrow> pb_ext_user_info res \<times> 'r world" where
  "sv_FollowUser srv env ctx user_id_to_follow = with_user ctx (\<lambda>user_id w.
     check_err (on_db (dir_GetUser user_id) w)
       (\<lambda>e. Status Internal ''failed to retrieve is sender user: %v'' [e]) (\<lambda>sender w.
     check_err (on_db (dir_IsFollowingUser user_id user_id_to_follow) w)
       (\<lambda>e. Status Internal ''failed to retrieve is following user: %v'' [e]) (\<lambda>following w.
     check_err (on_db (toggleFollowUser (rq_now env) following user_id user_id_to_follow) w)
       (\<lambda>e. Status Internal ''failure occurred while following user: %v'' [e]) (\<lambda>info w.
     if eui_is_followed info then
       (case sv_Send srv (rq_notification_id env) (rq_now env) \<lparr>
            snp_ResendCondition = Some (ResendConditionAfter (rq_now env) five_minutes),
            snp_SenderUserID = user_id, snp_ReceiverUserID = user_id_to_follow,
            snp_TriggerID = usr_username sender, snp_EventID = EventIDFollow, snp_Content = ''''\<rparr> w of
          (_, w) \<Rightarrow> (Inr info, w))
     else (Inr info, w)))))"

definition getFollowTargetUserID :: "string \<Rightarrow> string \<Rightarrow> string" where
  "getFollowTargetUserID own_user_id ext_user_id = (if ext_user_id \<noteq> '''' then ext_user_id else own_user_id)"

definition sv_GetFollowers :: "call_context \<Rightarrow> string \<Rightarrow> 'r world \<Rightarrow> pb_ext_user_info list res \<times> 'r world" where
  "sv_GetFollowers ctx target = with_user ctx (\<lambda>user_id w.
     check_err (on_db (dir_GetFollowers (getFollowTargetUserID user_id target)) w)
       (\<lambda>e. Status Internal ''failed to retrieve followers: %v'' [e]) (\<lambda>us w. (Inr us, w)))"

definition sv_GetFollowing :: "call_context \<Rightarrow> string \<Rightarrow> 'r world \<Rightarrow> pb_ext_user_info list res \<times> 'r world" where
  "sv_GetFollowing ctx target = with_user ctx (\<lambda>user_id w.
     check_err (on_db (dir_GetFollowing (getFollowTargetUserID user_id target)) w)
       (\<lambda>e. Status Internal ''failed to retrieve followers: %v'' [e]) (\<lambda>us w. (Inr us, w)))"

definition sv_GetFollowersCount :: "call_context \<Rightarrow> string \<Rightarrow> 'r world \<Rightarrow> int res \<times> 'r world" where
  "sv_GetFollowersCount ctx target = with_user ctx (\<lambda>user_id w.
     check_err (on_db (dir_GetFollowersCount (getFollowTargetUserID user_id target)) w)
       (\<lambda>e. Status Internal ''failed to retrieve followers: %v'' [e]) (\<lambda>n w. (Inr n, w)))"

definition sv_GetFollowingCount :: "call_context \<Rightarrow> string \<Rightarrow> 'r world \<Rightarrow> int res \<times> 'r world" where
  "sv_GetFollowingCount ctx target = with_user ctx (\<lambda>user_id w.
     check_err (on_db (dir_GetFollowingCount (getFollowTargetUserID user_id target)) w)
       (\<lambda>e. Status Internal ''failed to retrieve followers: %v'' [e]) (\<lambda>n w. (Inr n, w)))"

section \<open>The toggle of a follow\<close>

lemma toggleFollowUser_up:
  assumes "tables_wf t" and "up c" and "dbt c = t" and "clock_after now t"
    and "a \<in> u_id ` set (users t)" and "b \<in> u_id ` set (users t)"
  obtains i t' where "toggleFollowUser now ((a, b) \<in> follow_graph t) a b c = (Inr i, c\<lparr>dbt := t'\<rparr>)"
    "t' = t\<lparr>follows := follows t'\<rparr>" "tables_wf t'" "eui_id i = b"
    "eui_is_followed i \<longleftrightarrow> (a, b) \<notin> follow_graph t"
    "follow_graph t' = (if (a, b) \<in> follow_graph t then follow_graph t - {(a, b)} else insert (a, b) (follow_graph t))"
proof (cases "(a, b) \<in> follow_graph t")
  case True
  obtain i t' where "dir_UnfollowUser (Val now) a b c = (Inr i, c\<lparr>dbt := t'\<rparr>)" "t' = t\<lparr>follows := follows t'\<rparr>"
    "tables_wf t'" "follow_graph t' = follow_graph t - {(a, b)}" "eui_id i = b" "\<not> eui_is_followed i"
    by (rule dir_UnfollowUser_up [OF assms(1-4) True])
  with True show thesis by (intro that [of i t']) (simp_all add: toggleFollowUser_def)
next
  case False
  obtain i t' where "dir_FollowUser a b now c = (Inr i, c\<lparr>dbt := t'\<rparr>)" "t' = t\<lparr>follows := follows t'\<rparr>"
    "tables_wf t'" "follow_graph t' = insert (a, b) (follow_graph t)" "eui_id i = b" "eui_is_followed i"
    by (rule dir_FollowUser_up [OF assms])
  with False show thesis by (intro that [of i t']) (simp_all add: toggleFollowUser_def)
qed

lemma IsFollowingUser_up:
  "up c \<Longrightarrow> dir_IsFollowingUser a b c = (Inr ((a, b) \<in> follow_graph (dbt c)), c)"
  by (simp add: dir_IsFollowingUser_def q_IsFollowingUser_graph exec_query_up)

lemma follow_graph_cong: "follows t' = follows t \<Longrightarrow> follow_graph t' = follow_graph t"
  by (simp add: follow_graph_def)


lemma sample_tables_users:
  "sample_user ''1'' ''anna'' \<in> set (users sample_tables)" "sample_user ''2'' ''bruno'' \<in> set (users sample_tables)"
  "user_readable (sample_user ''1'' ''anna'')" "user_readable (sample_user ''2'' ''bruno'')"
  by (simp_all add: sample_tables_def sample_user_def user_readable_def)

lemma sample_follow: "(''1'', ''2'') \<in> follow_graph sample_tables" "(''2'', ''1'') \<notin> follow_graph sample_tables"
  by (simp_all add: sample_tables_def in_follow_graph same_pair_def active_follow_def isFollowed_def)


section \<open>External users\<close>

text \<open>
  What a user sees of another one depends on how they ask: by the id, the answer says whether
  they follow the other one; by the name, it names the same user but never says they are followed,
  because the id that is looked up in the follows is the empty one of the request.
\<close>

theorem ext_user_info_by_name:
  assumes "up (wd_db w)" and "tables_wf (wd_tables w)" and "v \<in> set (users (wd_tables w))" and "user_readable v"
    and "u_username v = Val n" and "n \<noteq> ''''" and "u_id v \<noteq> ''''" and "'''' \<notin> u_id ` set (users (wd_tables w))"
  shows "\<exists>info. sv_ExtUserInfo (user_ctx u) (u_id v) any w = (Inr info, w) \<and>
    sv_ExtUserInfo (user_ctx u) '''' n w = (Inr (info\<lparr>eui_is_followed := False\<rparr>), w) \<and>
    eui_id info = u_id v \<and> (eui_is_followed info \<longleftrightarrow> (u, u_id v) \<in> follow_graph (wd_tables w))"
proof -
  obtain m where m: "userPostgresToProto v = Inr m" using assms(4) userPostgresToProto_Inr by blast
  have by_id: "on_db (getExtUser (u_id v) any) w = (Inr m, w)"
    by (rule on_db_same) (simp add: getExtUser_def assms(7) dir_GetUser_up [OF assms(1-3)] m)
  have by_name: "on_db (getExtUser '''' n) w = (Inr m, w)"
    by (rule on_db_same) (simp add: getExtUser_def dir_GetUserByUsername_up [OF assms(1-3,5)] m)
  have follows: "on_db (dir_IsFollowingUser u i) w = (Inr ((u, i) \<in> follow_graph (wd_tables w)), w)" for i
    by (rule on_db_same) (simp add: IsFollowingUser_up [OF assms(1)])
  have nobody: "(u, '''') \<notin> follow_graph (wd_tables w)"
    using fk_following [OF assms(2)] assms(8) by (force simp: follow_graph_def)
  show ?thesis
    by (intro exI [of _ "\<lparr>eui_id = usr_id m, eui_email = usr_email m, eui_given_name = usr_given_name m,
          eui_family_name = usr_family_name m, eui_username = usr_username m,
          eui_is_followed = (u, u_id v) \<in> follow_graph (wd_tables w)\<rparr>"])
       (simp add: sv_ExtUserInfo_def fetchExtUserInfo_def by_id by_name follows nobody assms(6,7)
         userPostgresToProto_columns [OF m])
qed

lemma ext_user_info_by_name_witness:
  "\<exists>info. sv_ExtUserInfo (user_ctx ''1'') ''2'' '''' (world_of sample_tables ()) = (Inr info, world_of sample_tables ()) \<and>
     eui_is_followed info \<and>
     sv_ExtUserInfo (user_ctx ''1'') '''' ''bruno'' (world_of sample_tables ()) =
       (Inr (info\<lparr>eui_is_followed := False\<rparr>), world_of sample_tables ())"
proof -
  have "'''' \<notin> u_id ` set (users sample_tables)" by (simp add: sample_tables_def sample_user_def)
  with ext_user_info_by_name [of "world_of sample_tables ()" "sample_user ''2'' ''bruno''" "''bruno''" "''1''" "''''"]
    sample_tables_wf sample_tables_users sample_follow
  show ?thesis by (fastforce simp: up_def db_of_def sample_user_def)
qed

end
