(* ===== verification/Tokens.thy ===== *)
theory Tokens
  imports Go_Lib
begin

text \<open>
  The tokens of \<^verbatim>\<open>backend/pkg/claims\<close> and \<^verbatim>\<open>extauth/pkg/claims\<close>. The library \<^verbatim>\<open>jwt-go\<close> is a
  parameter: signing, and parsing with the function that hands out the key. \<open>jwt_contract\<close> is
  what its documentation promises of a token it signed with HS256.
\<close>

section \<open>The library\<close>

text \<open>The method named in the header of a token, with its \<^verbatim>\<open>alg\<close>.\<close>

datatype signing_method = SigningMethodHMAC string | SigningMethodOther string

definition SigningMethodHS256 :: signing_method where
  "SigningMethodHS256 = SigningMethodHMAC ''HS256''"

record std_claims =
  clm_Subject :: string
  clm_Issuer :: string
  clm_ExpiresAt :: int
  clm_IssuedAt :: int

definition no_claims :: std_claims where
  "no_claims = \<lparr>clm_Subject = '''', clm_Issuer = '''', clm_ExpiresAt = 0, clm_IssuedAt = 0\<rparr>"

datatype jwt_error = ErrSignatureInvalid | ValidationError "32 word" string | OtherJwtError string

definition ValidationErrorExpired :: "32 word" where
  "ValidationErrorExpired = 16"

text \<open>The error as a Go value.\<close>

fun jwt_err :: "jwt_error \<Rightarrow> goerror" where
  "jwt_err ErrSignatureInvalid = ErrNew ''signature is invalid''"
| "jwt_err (ValidationError n m) = ErrNew m"
| "jwt_err (OtherJwtError m) = ErrNew m"

text \<open>
  What \<^verbatim>\<open>ParseWithClaims\<close> leaves: the claims written through the pointer, the error, and whether
  the token is valid.
\<close>

record parsed_token =
  ptk_Claims :: std_claims
  ptk_Error :: "jwt_error option"
  ptk_Valid :: bool

type_synonym key_func = "signing_method \<Rightarrow> string res"

record jwt_lib =
  jw_Sign :: "std_claims \<Rightarrow> string \<Rightarrow> string res"
  jw_Parse :: "int \<Rightarrow> key_func \<Rightarrow> string \<Rightarrow> std_claims \<Rightarrow> parsed_token"

text \<open>
  A token that is signed with a key: parsed with this key at \<open>now\<close> it gives the claims back, and
  from the time it was issued it is valid until the second it expires in.
\<close>

definition issued_by :: "int \<Rightarrow> std_claims \<Rightarrow> bool" where
  "issued_by now c \<longleftrightarrow> clm_IssuedAt c = 0 \<or> clm_IssuedAt c \<le> unix_seconds now"

definition signed_token :: "jwt_lib \<Rightarrow> std_claims \<Rightarrow> string \<Rightarrow> string \<Rightarrow> bool" where
  "signed_token J c secret tok \<longleftrightarrow>
     (\<forall>now kf. kf SigningMethodHS256 = Inr secret \<and> issued_by now c \<longrightarrow>
        jw_Parse J now kf tok no_claims =
          (if unix_seconds now \<le> clm_ExpiresAt c then \<lparr>ptk_Claims = c, ptk_Error = None, ptk_Valid = True\<rparr>
           else \<lparr>ptk_Claims = c, ptk_Error = Some (ValidationError ValidationErrorExpired ''Token is expired''),
                  ptk_Valid = False\<rparr>))"

definition jwt_contract :: "jwt_lib \<Rightarrow> bool" where
  "jwt_contract J \<longleftrightarrow>
     (\<forall>c secret tok. jw_Sign J c secret = Inr tok \<and> 0 < clm_ExpiresAt c \<longrightarrow> signed_token J c secret tok)"

lemma jwt_contract_sign:
  "jwt_contract J \<Longrightarrow> jw_Sign J c secret = Inr tok \<Longrightarrow> 0 < clm_ExpiresAt c \<Longrightarrow> signed_token J c secret tok"
  by (simp add: jwt_contract_def)

section \<open>backend/pkg/claims\<close>

text \<open>A week, in microseconds.\<close>

definition VerificationTknExpiry :: int where
  "VerificationTknExpiry = 24 * 3600 * 1000000 * 7"

text \<open>The function that hands out the key only for an HMAC method.\<close>

fun hmac_key :: "string \<Rightarrow> key_func" where
  "hmac_key secret (SigningMethodHMAC alg) = Inr secret"
| "hmac_key secret (SigningMethodOther alg) = Inl (Errorf ''Unexpected signing method: %v'' [ErrNew alg])"

definition cl_parseAndVerifyJWT ::
    "jwt_lib \<Rightarrow> int \<Rightarrow> string \<Rightarrow> string \<Rightarrow> bool \<Rightarrow> std_claims \<Rightarrow> std_claims res" where
  "cl_parseAndVerifyJWT J now access_token secret skip c =
     (let p = jw_Parse J now (hmac_key secret) access_token c in
      case ptk_Error p of
        None \<Rightarrow> Inr (ptk_Claims p)
      | Some ErrSignatureInvalid \<Rightarrow> Inl (Status Unauthenticated ''signature is invalid'' [])
      | Some (OtherJwtError m) \<Rightarrow> Inl (Panic ''nil pointer dereference'')
      | Some (ValidationError errors m) \<Rightarrow>
          if errors = ValidationErrorExpired then
            (if skip then Inr (ptk_Claims p) else Inl (Status Unauthenticated m []))
          else Inl (Status Internal m []))"

definition cl_ParseAndVerifyJWT ::
    "jwt_lib \<Rightarrow> int \<Rightarrow> string \<Rightarrow> string \<Rightarrow> bool \<Rightarrow> std_claims \<Rightarrow> std_claims res" where
  "cl_ParseAndVerifyJWT J now access_token secret skip c = cl_parseAndVerifyJWT J now access_token secret skip c"

definition cl_CreateJWTTokenStr :: "jwt_lib \<Rightarrow> std_claims \<Rightarrow> string \<Rightarrow> string res" where
  "cl_CreateJWTTokenStr J c secret = jw_Sign J c secret"

section \<open>extauth/pkg/claims\<close>

definition RefreshTknExpiry :: int where
  "RefreshTknExpiry = 24 * 3600 * 1000000 * 30"

definition AccessTknExpiry :: int where
  "AccessTknExpiry = 10 * 60 * 1000000"

definition ea_ErrTokenExpired :: goerror where
  "ea_ErrTokenExpired = ErrNew ''Token is expired''"

text \<open>The claims come back beside the error of an expired token, as in the code.\<close>

definition ea_parseAndVerifyJWT ::
    "jwt_lib \<Rightarrow> int \<Rightarrow> string \<Rightarrow> string \<Rightarrow> bool \<Rightarrow> std_claims option \<times> goerror option" where
  "ea_parseAndVerifyJWT J now token_str secret skip =
     (let p = jw_Parse J now (hmac_key secret) token_str no_claims in
      case ptk_Error p of
        None \<Rightarrow> (Some (ptk_Claims p), None)
      | Some (ValidationError errors m) \<Rightarrow>
          if errors = ValidationErrorExpired then
            (if skip then (Some (ptk_Claims p), None) else (Some (ptk_Claims p), Some ea_ErrTokenExpired))
          else (None, Some (ErrNew m))
      | Some e \<Rightarrow> (None, Some (Panic ''nil pointer dereference'')))"

definition ea_ParseAndVerifyJWT ::
    "jwt_lib \<Rightarrow> int \<Rightarrow> string \<Rightarrow> string \<Rightarrow> bool \<Rightarrow> std_claims option \<times> goerror option" where
  "ea_ParseAndVerifyJWT J now token_str secret skip = ea_parseAndVerifyJWT J now token_str secret skip"

definition ea_GetUserID :: "jwt_lib \<Rightarrow> int \<Rightarrow> string \<Rightarrow> string \<Rightarrow> string res" where
  "ea_GetUserID J now token_str secret =
     (case ea_parseAndVerifyJWT J now token_str secret True of
        (_, Some (Panic m)) \<Rightarrow> Inl (Panic m)
      | (_, Some e) \<Rightarrow> Inl (Errorf ''%v'' [e])
      | (Some c, None) \<Rightarrow> Inr (clm_Subject c)
      | (None, None) \<Rightarrow> Inl (Panic ''nil pointer dereference''))"

definition ea_CreateJWTTokenStr ::
    "jwt_lib \<Rightarrow> int \<Rightarrow> int \<Rightarrow> string \<Rightarrow> string \<Rightarrow> string \<Rightarrow> string res" where
  "ea_CreateJWTTokenStr J now expiry user_id secret iss =
     jw_Sign J \<lparr>clm_Subject = user_id, clm_Issuer = iss, clm_ExpiresAt = unix_seconds (now + expiry),
       clm_IssuedAt = unix_seconds now\<rparr> secret"

record ea_token =
  etk_TokenStr :: string
  etk_Expiry :: int

record token_pair =
  tkp_AccessToken :: ea_token
  tkp_RefreshToken :: ea_token

definition ea_GetTokenPair :: "jwt_lib \<Rightarrow> int \<Rightarrow> string \<Rightarrow> string \<Rightarrow> string \<Rightarrow> token_pair res" where
  "ea_GetTokenPair J now subject secret issuer =
     (case ea_CreateJWTTokenStr J now RefreshTknExpiry subject secret issuer of
        Inl e \<Rightarrow> Inl e
      | Inr refresh \<Rightarrow>
          (case ea_CreateJWTTokenStr J now AccessTknExpiry subject secret issuer of
             Inl e \<Rightarrow> Inl e
           | Inr access \<Rightarrow> Inr \<lparr>
               tkp_AccessToken = \<lparr>etk_TokenStr = access, etk_Expiry = now + AccessTknExpiry\<rparr>,
               tkp_RefreshToken = \<lparr>etk_TokenStr = refresh, etk_Expiry = now + RefreshTknExpiry\<rparr>\<rparr>))"

section \<open>A signed token is read back\<close>

lemma hmac_key_HS256 [simp]: "hmac_key secret SigningMethodHS256 = Inr secret"
  by (simp add: SigningMethodHS256_def)

text \<open>The answer to a signed token, for the function that hands out the key for HMAC and the one that does for all.\<close>

definition verified_token :: "std_claims \<Rightarrow> int \<Rightarrow> parsed_token" where
  "verified_token c now =
     (if unix_seconds now \<le> clm_ExpiresAt c then \<lparr>ptk_Claims = c, ptk_Error = None, ptk_Valid = True\<rparr>
      else \<lparr>ptk_Claims = c, ptk_Error = Some (ValidationError ValidationErrorExpired ''Token is expired''),
             ptk_Valid = False\<rparr>)"

lemma signed_token_parse:
  "signed_token J c secret tok \<Longrightarrow> issued_by now c \<Longrightarrow>
     jw_Parse J now (hmac_key secret) tok no_claims = verified_token c now"
  "signed_token J c secret tok \<Longrightarrow> issued_by now c \<Longrightarrow>
     jw_Parse J now (\<lambda>_. Inr secret) tok no_claims = verified_token c now"
  by (simp_all add: signed_token_def verified_token_def)

lemma verified_token_simps [simp]:
  "ptk_Claims (verified_token c now) = c"
  "ptk_Error (verified_token c now) = (if unix_seconds now \<le> clm_ExpiresAt c then None
     else Some (ValidationError ValidationErrorExpired ''Token is expired''))"
  "ptk_Valid (verified_token c now) \<longleftrightarrow> unix_seconds now \<le> clm_ExpiresAt c"
  by (simp_all add: verified_token_def)

lemma cl_parse_signed:
  assumes "signed_token J c secret tok" and "issued_by now c"
  shows "cl_ParseAndVerifyJWT J now tok secret skip no_claims =
    (if unix_seconds now \<le> clm_ExpiresAt c \<or> skip then Inr c else Inl (Status Unauthenticated ''Token is expired'' []))"
  by (simp add: cl_ParseAndVerifyJWT_def cl_parseAndVerifyJWT_def signed_token_parse [OF assms])

text \<open>The user id of a token of the pair is read from it for ever: the expiry is not looked at.\<close>

lemma ea_parse_signed:
  assumes "signed_token J c secret tok" and "issued_by now c"
  shows "ea_GetUserID J now tok secret = Inr (clm_Subject c)"
    and "snd (ea_ParseAndVerifyJWT J now tok secret False) = None \<longleftrightarrow> unix_seconds now \<le> clm_ExpiresAt c"
  by (simp_all add: ea_GetUserID_def ea_ParseAndVerifyJWT_def ea_parseAndVerifyJWT_def signed_token_parse [OF assms])

text \<open>
  The tokens of a pair are bound to their user and to the secret: the user id read from either,
  at any time after, is the subject they were made for, and the access token verifies for ten
  minutes and the refresh token for thirty days, to the second.
\<close>

theorem token_pair_reads_back:
  assumes "jwt_contract J" and "0 \<le> now"
    and "ea_GetTokenPair J now subject secret issuer = Inr p" and "now \<le> later"
  shows "ea_GetUserID J later (etk_TokenStr (tkp_AccessToken p)) secret = Inr subject \<and>
    ea_GetUserID J later (etk_TokenStr (tkp_RefreshToken p)) secret = Inr subject \<and>
    (snd (ea_ParseAndVerifyJWT J later (etk_TokenStr (tkp_AccessToken p)) secret False) = None \<longleftrightarrow>
      unix_seconds later \<le> unix_seconds now + 10 * 60) \<and>
    (snd (ea_ParseAndVerifyJWT J later (etk_TokenStr (tkp_RefreshToken p)) secret False) = None \<longleftrightarrow>
      unix_seconds later \<le> unix_seconds now + 30 * 24 * 3600)"
proof -
  let ?c = "\<lambda>d. \<lparr>clm_Subject = subject, clm_Issuer = issuer, clm_ExpiresAt = unix_seconds (now + d),
    clm_IssuedAt = unix_seconds now\<rparr>"
  have tokens: "signed_token J (?c AccessTknExpiry) secret (etk_TokenStr (tkp_AccessToken p))"
    "signed_token J (?c RefreshTknExpiry) secret (etk_TokenStr (tkp_RefreshToken p))"
    using assms by (auto simp: ea_GetTokenPair_def ea_CreateJWTTokenStr_def unix_seconds_def AccessTknExpiry_def
        RefreshTknExpiry_def split: sum.splits intro!: jwt_contract_sign)
  have issued: "issued_by later (?c d)" for d
    using assms(4) by (simp add: issued_by_def unix_seconds_def zdiv_mono1)
  have "unix_seconds (now + AccessTknExpiry) = unix_seconds now + 10 * 60"
    "unix_seconds (now + RefreshTknExpiry) = unix_seconds now + 30 * 24 * 3600"
    by (simp_all add: unix_seconds_def AccessTknExpiry_def RefreshTknExpiry_def)
  then show ?thesis
    using ea_parse_signed [OF tokens(1) issued] ea_parse_signed [OF tokens(2) issued] by simp
qed

text \<open>A library that signs the two tokens of one pair.\<close>

definition sample_claims :: "int \<Rightarrow> std_claims" where
  "sample_claims exp = \<lparr>clm_Subject = ''u1'', clm_Issuer = ''unpaper'', clm_ExpiresAt = exp, clm_IssuedAt = 0\<rparr>"

definition sample_token :: "int \<Rightarrow> string" where
  "sample_token exp = (if exp = 600 then ''a'' else if exp = 3600 then ''h'' else if exp = 604800 then ''w'' else ''r'')"

definition sample_expiry :: "string \<Rightarrow> int" where
  "sample_expiry tok = (if tok = ''a'' then 600 else if tok = ''h'' then 3600 else if tok = ''w'' then 604800 else 2592000)"

definition sample_jwt :: jwt_lib where
  "sample_jwt = \<lparr>
     jw_Sign = (\<lambda>c k. if k = ''key'' \<and> c = sample_claims (sample_expiry (sample_token (clm_ExpiresAt c)))
        then Inr (sample_token (clm_ExpiresAt c)) else Inl (ErrNew ''no'')),
     jw_Parse = (\<lambda>now kf tok c0. if kf SigningMethodHS256 = Inr ''key'' then verified_token (sample_claims (sample_expiry tok)) now
        else \<lparr>ptk_Claims = c0, ptk_Error = Some ErrSignatureInvalid, ptk_Valid = False\<rparr>)\<rparr>"

lemma sample_jwt_contract: "jwt_contract sample_jwt"
proof (unfold jwt_contract_def, intro allI impI)
  fix c secret tok
  assume "jw_Sign sample_jwt c secret = Inr tok \<and> 0 < clm_ExpiresAt c"
  then have "secret = ''key''" and tok: "tok = sample_token (clm_ExpiresAt c)" and c: "sample_claims (sample_expiry tok) = c"
    by (auto simp: sample_jwt_def split: if_splits)
  then show "signed_token sample_jwt c secret tok"
    by (simp add: signed_token_def sample_jwt_def verified_token_def)
qed

lemma token_pair_reads_back_witness:
  "\<exists>p. ea_GetTokenPair sample_jwt 0 ''u1'' ''key'' ''unpaper'' = Inr p \<and>
     ea_GetUserID sample_jwt 90000000000000 (etk_TokenStr (tkp_RefreshToken p)) ''key'' = Inr ''u1''"
proof -
  obtain p where p: "ea_GetTokenPair sample_jwt 0 ''u1'' ''key'' ''unpaper'' = Inr p"
    by (simp add: ea_GetTokenPair_def ea_CreateJWTTokenStr_def sample_jwt_def sample_claims_def sample_token_def
        sample_expiry_def unix_seconds_def AccessTknExpiry_def RefreshTknExpiry_def)
  from token_pair_reads_back [OF sample_jwt_contract _ p, of 90000000000000] p show ?thesis by simp
qed

end
