(* ===== verification/Service_Auth.thy ===== *)
theory Service_Auth
  imports Service_Posts Stripe_Service Users_Dir Follows_Dir Email_Check Cookies Tokens
begin

text \<open>
  The handlers of \<^verbatim>\<open>backend/pkg/service/v1/auth.go\<close> and \<^verbatim>\<open>users.go\<close>: signing up and in, addresses and
  passwords, external users and follows. What a request draws from outside is a record: the clock,
  a new id, the libraries \<^verbatim>\<open>jwt-go\<close> and \<^verbatim>\<open>bcrypt\<close>, the lookup of mail exchangers, Stripe and
  \<^verbatim>\<open>smtp.SendMail\<close>. Output to the console has no effect here.
\<close>

record smtp_mail =
  sml_Addr :: string
  sml_User :: string
  sml_Pass :: string
  sml_Host :: string
  sml_From :: string
  sml_To :: "string list"
  sml_Msg :: string

record ('f, 'r) auth_env =
  ae_now :: int
  ae_uuid :: string
  ae_jwt :: jwt_lib
  ae_GenerateFromPassword :: "string \<Rightarrow> string res"
  ae_CompareHashAndPassword :: "string \<Rightarrow> string \<Rightarrow> goerror option"
  ae_LookupMX :: mx_lookup
  ae_stripe :: "('f, 'r) stripe_api"
  ae_SendMail :: "smtp_mail \<Rightarrow> 'r \<Rightarrow> unit res \<times> 'r"
  ae_notification_id :: string

section \<open>Sessions\<close>

text \<open>
  The end of every handler that signs a user in: a session, its cookie, the header. The texts of
  the errors differ from handler to handler.
\<close>

definition start_session ::
    "'r server \<Rightarrow> string \<times> string \<times> string \<Rightarrow> string \<Rightarrow> 'r world \<Rightarrow> unit res \<times> 'r world" where
  "start_session srv texts user_id w = (case texts of (on_session, on_cookie, on_header) \<Rightarrow>
     check_err (on_rdb (si_SetNew (sv_sm srv) \<lparr>su_id = user_id\<rparr> session_lifetime) w)
       (\<lambda>e. Status Internal on_session [e]) (\<lambda>sid w.
     check_err (ck_GetValue (cfg_ClientDomain (sv_cfg srv)) session_cookie_name sid session_lifetime, w)
       (\<lambda>e. Status Internal on_cookie [e]) (\<lambda>cookie w.
     check_err (SendHeader ''Set-Cookie'' cookie w)
       (\<lambda>e. Status Internal on_header [e]) (\<lambda>_ w. (Inr (), w)))))"

definition signup_texts :: "string \<times> string \<times> string" where
  "signup_texts = (''error creating session: %v'', ''error creating session cookie: %v'',
     ''error sending grpc header: %v'')"

definition signin_texts :: "string \<times> string \<times> string" where
  "signin_texts = (''failed to create session: %v'', ''failed to create session cookie: %v'',
     ''failed to send grpc header: %v'')"

section \<open>Creating a user\<close>

record create_user_request =
  cur_userID :: string
  cur_email :: string
  cur_username :: string
  cur_givenName :: string
  cur_password :: string
  cur_isLocal :: bool

text \<open>What is asked of a user that signs up with a password; the result is the hash of it.\<close>

definition local_password ::
    "('f, 'r) auth_env \<Rightarrow> create_user_request \<Rightarrow> 'r world \<Rightarrow> string res \<times> 'r world" where
  "local_password env p w =
     (if length (cur_password p) < 8 then (Inl (Status InvalidArgument ''invalid password'' []), w)
      else if length (cur_username p) < 4 then (Inl (Status InvalidArgument ''invalid username'' []), w)
      else
        check_err (on_db (dir_UsernameExists (cur_username p)) w)
          (\<lambda>e. Status Internal ''error checking username existence: %v'' [e]) (\<lambda>ok w.
        if ok then (Inl (Status Internal ''username already exists'' []), w)
        else
          check_err (ae_GenerateFromPassword env (cur_password p), w)
            (\<lambda>e. Status Internal ''error hashing password: %v'' [e]) (\<lambda>h w. (Inr h, w))))"

text \<open>The checks before the insertion.\<close>

definition check_new_user ::
    "('f, 'r) auth_env \<Rightarrow> create_user_request \<Rightarrow> 'r world \<Rightarrow> string res \<times> 'r world" where
  "check_new_user env p w =
     check_err (if cur_isLocal p then local_password env p w else (Inr '''', w)) same_err (\<lambda>hashed w.
     check_err (hp_IsEmailValid (ae_LookupMX env) (cur_email p), w)
       (\<lambda>e. Status Internal ''error verifying email validity: %v'' [e]) (\<lambda>ok w.
     if \<not> ok then (Inl (Status Internal ''invalid email'' []), w)
     else
       check_err (on_db (dir_EmailExists (cur_email p)) w)
         (\<lambda>e. Status Internal ''error checking email existence: %v'' [e]) (\<lambda>ok w.
       if ok then (Inl (Status Internal ''email already exists'' []), w) else (Inr hashed, w))))"

definition new_user_params :: "create_user_request \<Rightarrow> string \<Rightarrow> create_user_params" where
  "new_user_params p hashed = \<lparr>cup_id = cur_userID p, cup_given_name = new_null_string (cur_givenName p),
     cup_family_name = Null, cup_email = cur_email p, cup_password = new_null_string hashed,
     cup_username = new_null_string (cur_username p)\<rparr>"

definition sv_createUser ::
    "('f, 'r) auth_env \<Rightarrow> create_user_request \<Rightarrow> 'r world \<Rightarrow> pb_user res \<times> 'r world" where
  "sv_createUser env p w =
     check_err (check_new_user env p w) same_err (\<lambda>hashed w.
     check_err (on_db (dir_CreateUser (new_user_params p hashed)) w)
       (\<lambda>e. Status Internal ''could not create user: %q'' [e]) (\<lambda>u w. (Inr u, w)))"

text \<open>A customer on Stripe with the free subscription, both stored.\<close>

definition new_customer ::
    "('f, 'r) auth_env \<Rightarrow> config \<Rightarrow> string \<Rightarrow> pb_user \<Rightarrow> 'r world \<Rightarrow> pb_customer res \<times> 'r world" where
  "new_customer env cfg user_id u w =
     check_err (ss_CreateCustomer (ae_stripe env) \<lparr>scp_UserID = user_id, scp_Email = usr_email u,
         scp_FamilyName = usr_family_name u, scp_GivenName = usr_given_name u\<rparr> w) same_err (\<lambda>cus w.
     check_err (ss_StoreCustomer cus user_id (usr_family_name u) (usr_given_name u) w) same_err (\<lambda>pb_cus w.
     check_err (ss_CreatePlatformSubscription (ae_stripe env) (cst_customer_id pb_cus) user_id (cfg_PriceIDFree cfg) w)
       same_err (\<lambda>sub w.
     check_err (ss_StoreSubscription sub user_id w) same_err (\<lambda>_ w. (Inr pb_cus, w)))))"

definition sv_createCustomer ::
    "('f, 'r) auth_env \<Rightarrow> config \<Rightarrow> pb_user \<Rightarrow> 'r world \<Rightarrow> pb_customer res \<times> 'r world" where
  "sv_createCustomer env cfg u w = new_customer env cfg (usr_id u) u w"

section \<open>Google\<close>

record google_login_response =
  glr_Api :: string
  glr_ConsentURL :: string
  glr_State :: string

text \<open>The error of \<^verbatim>\<open>SendHeader\<close> is dropped here.\<close>

definition sv_GoogleLogin :: "'r server \<Rightarrow> call_context \<Rightarrow> 'r world \<Rightarrow> google_login_response res \<times> 'r world" where
  "sv_GoogleLogin srv ctx =
     check_ok ctx (Status Internal ''failed to get metadata from request'' []) (\<lambda>md.
     check_ok (md_GetFirstMDValue md ''ConsentURL'') (Status InvalidArgument ''missing consent in metadata'' []) (\<lambda>url.
     check_ok (md_GetFirstMDValue md ''State'') (Status InvalidArgument ''missing state in metadata'' []) (\<lambda>state.
     check_ok (md_GetFirstMDValue md ''Code-Verifier'')
       (Status InvalidArgument ''missing code verifier in metadata'' []) (\<lambda>verifier w.
     check_err (ck_GetValue (cfg_ClientDomain (sv_cfg srv)) ''x-code-verifier'' verifier (seconds (5 * 60)), w)
       (\<lambda>e. Status Internal ''could not create x-code-verifier cookie: %v'' [e]) (\<lambda>cookie w.
     case SendHeader ''Set-Cookie'' cookie w of
       (_, w) \<Rightarrow> (Inr \<lparr>glr_Api = apiVersion, glr_ConsentURL = url, glr_State = state\<rparr>, w))))))"

definition google_sign_in :: "string \<Rightarrow> 'r world \<Rightarrow> pb_user res \<times> 'r world" where
  "google_sign_in user_id w =
     check_err (on_db (dir_GetUser user_id) w)
       (\<lambda>e. Status Internal ''could not retrieve user: %v'' [e]) (\<lambda>u w. (Inr u, w))"

definition google_sign_up ::
    "'r server \<Rightarrow> ('f, 'r) auth_env \<Rightarrow> string \<Rightarrow> string \<Rightarrow> string \<Rightarrow> 'r world \<Rightarrow> pb_user res \<times> 'r world" where
  "google_sign_up srv env user_id email name w =
     check_err (sv_createUser env \<lparr>cur_userID = user_id, cur_email = email, cur_username = '''',
         cur_givenName = name, cur_password = '''', cur_isLocal = False\<rparr> w)
       (\<lambda>e. Status Internal ''could not get user: %q'' [e]) (\<lambda>u w.
     if cfg_EnableStripe (sv_cfg srv) then
       check_err (new_customer env (sv_cfg srv) user_id u w) same_err (\<lambda>_ w. (Inr u, w))
     else (Inr u, w))"

definition sv_googleAuthentication ::
    "'r server \<Rightarrow> ('f, 'r) auth_env \<Rightarrow> call_context \<Rightarrow> 'r world \<Rightarrow> pb_user res \<times> 'r world" where
  "sv_googleAuthentication srv env ctx =
     check_ok ctx (Status InvalidArgument ''missing metadata in context'' []) (\<lambda>md.
     let name = (case md_GetFirstMDValue md ''x-user-name'' of None \<Rightarrow> '''' | Some n \<Rightarrow> n) in
     check_ok (md_GetFirstMDValue md ''x-user-id'') (Status InvalidArgument ''missing userID in metadata'' []) (\<lambda>user_id.
     check_ok (md_GetFirstMDValue md ''x-user-email'') (Status InvalidArgument ''missing email in metadata'' []) (\<lambda>email w.
     check_err (case on_db (dir_GetCustomerByUserID user_id) w of
         (Inr _, w) \<Rightarrow> google_sign_in user_id w
       | (Inl e, w) \<Rightarrow>
           if e \<noteq> ErrNoCustomer then (Inl (Status Internal ''failure occurred retrieving customer: %q'' [e]), w)
           else google_sign_up srv env user_id email name w) same_err (\<lambda>u w.
     check_err (start_session srv signup_texts user_id w) same_err (\<lambda>_ w. (Inr u, w))))))"

definition sv_GoogleCallback ::
    "'r server \<Rightarrow> ('f, 'r) auth_env \<Rightarrow> call_context \<Rightarrow> 'r world \<Rightarrow> pb_user res \<times> 'r world" where
  "sv_GoogleCallback srv env ctx = sv_googleAuthentication srv env ctx"

definition sv_GoogleOneTap ::
    "'r server \<Rightarrow> ('f, 'r) auth_env \<Rightarrow> call_context \<Rightarrow> 'r world \<Rightarrow> pb_user res \<times> 'r world" where
  "sv_GoogleOneTap srv env ctx = sv_googleAuthentication srv env ctx"

section \<open>Email and password\<close>

definition sv_createVerificationJWT :: "('f, 'r) auth_env \<Rightarrow> string \<Rightarrow> string \<Rightarrow> string res" where
  "sv_createVerificationJWT env user_id secret =
     (case cl_CreateJWTTokenStr (ae_jwt env) \<lparr>clm_Subject = user_id, clm_Issuer = ''unpaper'',
         clm_ExpiresAt = unix_seconds (ae_now env + VerificationTknExpiry), clm_IssuedAt = 0\<rparr> secret of
        Inl e \<Rightarrow> Inl (Status Internal (''error creating verification token: '' @ quoted ''%v'') [e])
      | Inr tok \<Rightarrow> Inr tok)"

definition crlf :: string where
  "crlf = [CHR 0x0D, CHR 0x0A]"

definition verification_mail :: "config \<Rightarrow> string \<Rightarrow> smtp_mail" where
  "verification_mail cfg tok = \<lparr>sml_Addr = cfg_SMTPDomain cfg @ '':'' @ cfg_SMTPPort cfg, sml_User = cfg_SMTPUser cfg,
     sml_Pass = cfg_SMTPPass cfg, sml_Host = cfg_SMTPDomain cfg, sml_From = ''unpaper@me.com'',
     sml_To = [''dontcare@gmail.com''],
     sml_Msg = ''To: '' @ ''dontcare@gmail.com'' @ crlf @ ''Subject: Verify your email'' @ crlf @ crlf @
       ''Click here to verify your email: https://localhost:3000/verify?code='' @ tok\<rparr>"

record email_signup_request =
  esu_Email :: string
  esu_Username :: string
  esu_Password :: string

definition signup_request :: "('f, 'r) auth_env \<Rightarrow> email_signup_request \<Rightarrow> create_user_request" where
  "signup_request env req = \<lparr>cur_userID = ae_uuid env, cur_email = esu_Email req, cur_username = esu_Username req,
     cur_givenName = '''', cur_password = esu_Password req, cur_isLocal = True\<rparr>"

text \<open>What follows the insertion of the user.\<close>

definition finish_signup ::
    "'r server \<Rightarrow> ('f, 'r) auth_env \<Rightarrow> pb_user \<Rightarrow> 'r world \<Rightarrow> pb_user res \<times> 'r world" where
  "finish_signup srv env u w =
     (let cfg = sv_cfg srv in
      check_err (if cfg_EnableStripe cfg
          then check_err (sv_createCustomer env cfg u w) same_err (\<lambda>_ w. (Inr (), w)) else (Inr (), w)) same_err (\<lambda>_ w.
      check_err (sv_createVerificationJWT env (usr_id u) (cfg_UnpaperClientSecret cfg), w) same_err (\<lambda>tok w.
      check_err (if cfg_Environment cfg = ''prod''
          then check_err (on_rdb (ae_SendMail env (verification_mail cfg tok)) w)
            (\<lambda>e. Status Internal (''could not send email: '' @ quoted ''%v'') [e]) (\<lambda>_ w. (Inr (), w))
          else (Inr (), w)) same_err (\<lambda>_ w.
      check_err (start_session srv signup_texts (usr_id u) w) same_err (\<lambda>_ w. (Inr u, w))))))"

definition sv_EmailSignup ::
    "'r server \<Rightarrow> ('f, 'r) auth_env \<Rightarrow> email_signup_request \<Rightarrow> 'r world \<Rightarrow> pb_user res \<times> 'r world" where
  "sv_EmailSignup srv env req w =
     check_err (sv_createUser env (signup_request env req) w) same_err (finish_signup srv env)"

text \<open>The user an address and its password stand for.\<close>

definition check_credentials ::
    "('f, 'r) auth_env \<Rightarrow> string \<Rightarrow> string \<Rightarrow> 'r world \<Rightarrow> string res \<times> 'r world" where
  "check_credentials env email password w =
     check_err (on_db (dir_GetUserIDFromEmail email) w)
       (\<lambda>e. Status Internal ''email %q is not associated to any user'' []) (\<lambda>user_id w.
     check_err (on_db (dir_GetPassword user_id) w)
       (\<lambda>e. Status Internal ''failure occurred during user retrieval'' []) (\<lambda>stored w.
     case ae_CompareHashAndPassword env stored password of
       Some e \<Rightarrow> (Inl (Status Internal ''wrong password inserted'' []), w)
     | None \<Rightarrow> (Inr user_id, w)))"

definition sv_EmailSignin ::
    "'r server \<Rightarrow> ('f, 'r) auth_env \<Rightarrow> string \<Rightarrow> string \<Rightarrow> 'r world \<Rightarrow> pb_user res \<times> 'r world" where
  "sv_EmailSignin srv env email password w =
     (if email = '''' \<or> password = '''' then (Inl (Status InvalidArgument ''missing email or password'' []), w)
      else
        check_err (check_credentials env email password w) same_err (\<lambda>user_id w.
        check_err (start_session srv signin_texts user_id w) same_err (\<lambda>_ w.
        check_err (on_db (dir_GetUser user_id) w)
          (\<lambda>e. Status Internal ''failed to get user from db: %v'' [e]) (\<lambda>u w. (Inr u, w)))))"

text \<open>The check in front of the service has deleted the session and the cookie.\<close>

definition sv_SignOut :: "call_context \<Rightarrow> 'r world \<Rightarrow> unit res \<times> 'r world" where
  "sv_SignOut ctx w = (Inr (), w)"

definition sv_Ping :: "'r world \<Rightarrow> pb_user res \<times> 'r world" where
  "sv_Ping w = (Inr \<lparr>usr_api = '''', usr_id = ''foo'', usr_email = ''bar'', usr_given_name = '''', usr_family_name = '''',
     usr_email_verified = False, usr_type = UserType_MEMBER, usr_username = ''''\<rparr>, w)"

definition sv_EmailVerify ::
    "'r server \<Rightarrow> ('f, 'r) auth_env \<Rightarrow> call_context \<Rightarrow> string \<Rightarrow> 'r world \<Rightarrow> unit res \<times> 'r world" where
  "sv_EmailVerify srv env ctx tok = with_user ctx (\<lambda>user_id w.
     let p = jw_Parse (ae_jwt env) (ae_now env) (hmac_key (cfg_UnpaperClientSecret (sv_cfg srv))) tok no_claims in
     case ptk_Error p of
       Some e \<Rightarrow> (Inl (Status Internal (''an error occurred verifying the verification token: '' @ quoted ''%v'') [jwt_err e]), w)
     | None \<Rightarrow>
         if clm_Subject (ptk_Claims p) \<noteq> user_id then
           (Inl (Status Internal ''verification code do not belong to this user'' []), w)
         else
           check_err (on_db (dir_VerifyEmail user_id) w)
             (\<lambda>e. Status Internal ''error verifying email on db: %v'' [e]) (\<lambda>_ w. (Inr (), w)))"

text \<open>A valid address is answered with a nil message, \<open>None\<close>, and no error.\<close>

definition sv_EmailCheck :: "('f, 'r) auth_env \<Rightarrow> string \<Rightarrow> 'r world \<Rightarrow> unit option res \<times> 'r world" where
  "sv_EmailCheck env email w =
     (if email = '''' then (Inl (Status InvalidArgument (''missing '' @ quoted ''email'' @ '' in request'') []), w)
      else
        check_err (hp_IsEmailValid (ae_LookupMX env) email, w)
          (\<lambda>e. Status Internal ''failed to exec regexp on the provided email: %q'' [e]) (\<lambda>ok w.
        if \<not> ok then (Inl (Status InvalidArgument (''the email provided is invalid: '' @ quoted ''%v'') []), w)
        else (Inr None, w)))"

record change_password_request =
  cpw_OldPassword :: string
  cpw_NewPassword :: string
  cpw_Repeat :: string

definition deleted_token_cookie :: string where
  "deleted_token_cookie =
     ''x-unpaper-token=deleted; Domain=localhost; Path=/; Expires=Thu, 01 Jan 1970 00:00:00 GMT; Secure; HttpOnly''"

text \<open>The address must be verified and the old password be right.\<close>

definition check_password_change ::
    "('f, 'r) auth_env \<Rightarrow> string \<Rightarrow> string \<Rightarrow> 'r world \<Rightarrow> unit res \<times> 'r world" where
  "check_password_change env user_id old_password w =
     check_err (on_db (dir_GetEmailVerified user_id) w)
       (\<lambda>e. Status Internal ''An error occurred retrieving email_verified: %v'' [e]) (\<lambda>verified w.
     if \<not> verified then
       (Inl (Status FailedPrecondition ''Your email should be verified in order to change password'' []), w)
     else
       check_err (on_db (dir_GetPassword user_id) w)
         (\<lambda>e. Status Internal ''Failed to get user password: %v'' [e]) (\<lambda>stored w.
       case ae_CompareHashAndPassword env stored old_password of
         Some e \<Rightarrow> (Inl (Status Internal (''The password you'' @ [CHR 0x27] @ ''ve entered is wrong: %v'') [e]), w)
       | None \<Rightarrow> (Inr (), w)))"

text \<open>The error of \<^verbatim>\<open>SendHeader\<close> is dropped.\<close>

definition sv_ChangePassword ::
    "('f, 'r) auth_env \<Rightarrow> call_context \<Rightarrow> change_password_request \<Rightarrow> 'r world \<Rightarrow> unit res \<times> 'r world" where
  "sv_ChangePassword env ctx req = with_user ctx (\<lambda>user_id w.
     if cpw_NewPassword req \<noteq> cpw_Repeat req then
       (Inl (Status FailedPrecondition ''Passwords should match'' []), w)
     else if length (cpw_NewPassword req) < 8 then
       (Inl (Status FailedPrecondition ''Password should have at least 8 characters'' []), w)
     else
       check_err (check_password_change env user_id (cpw_OldPassword req) w) same_err (\<lambda>_ w.
       check_err (ae_GenerateFromPassword env (cpw_NewPassword req), w) same_err (\<lambda>h w.
       check_err (on_db (dir_UpdatePassword (ae_now env) user_id h) w)
         (\<lambda>e. Status Internal ''Error storing new password on db: %v'' [e]) (\<lambda>_ w.
       case SendHeader ''Set-Cookie'' deleted_token_cookie w of (_, w) \<Rightarrow> (Inr (), w)))))"

text \<open>
  \<^verbatim>\<open>SendResetLink\<close> always answers with an empty message. The value here is the token it writes to
  the console, where the code has still to send it.
\<close>

definition reset_claims :: "('f, 'r) auth_env \<Rightarrow> string \<Rightarrow> std_claims" where
  "reset_claims env user_id = \<lparr>clm_Subject = user_id, clm_Issuer = ''unpaper'',
     clm_ExpiresAt = unix_seconds (ae_now env + 60 * 60 * 1000000), clm_IssuedAt = 0\<rparr>"

definition sv_SendResetLink ::
    "'r server \<Rightarrow> ('f, 'r) auth_env \<Rightarrow> string \<Rightarrow> 'r world \<Rightarrow> string option res \<times> 'r world" where
  "sv_SendResetLink srv env email w =
     (case sv_isEmailValid (ae_LookupMX env) email of
        Inl e \<Rightarrow> (Inr None, w)
      | Inr valid \<Rightarrow>
          if \<not> valid then (Inr None, w)
          else
            (case on_db (dir_EmailExists email) w of
               (Inl e, w) \<Rightarrow> (Inr None, w)
             | (Inr found, w) \<Rightarrow>
                 if \<not> found then (Inr None, w)
                 else
                   (case on_db (dir_GetUserIDFromEmail email) w of
                      (Inl e, w) \<Rightarrow> (Inr None, w)
                    | (Inr user_id, w) \<Rightarrow>
                        (case jw_Sign (ae_jwt env) (reset_claims env user_id) (cfg_UnpaperClientSecret (sv_cfg srv)) of
                           Inl e \<Rightarrow> (Inr None, w)
                         | Inr tok \<Rightarrow> (Inr (Some tok), w)))))"

definition sv_TokenError :: goerror where
  "sv_TokenError = Status Internal ''Oops, an error occurred'' []"

record reset_password_request =
  rpw_NewPassword :: string
  rpw_Repeat :: string
  rpw_VerificationToken :: string

text \<open>The key is handed out whatever the method of the token.\<close>

definition sv_ResetPassword ::
    "'r server \<Rightarrow> ('f, 'r) auth_env \<Rightarrow> reset_password_request \<Rightarrow> 'r world \<Rightarrow> unit res \<times> 'r world" where
  "sv_ResetPassword srv env req w =
     (if length (rpw_NewPassword req) < 8 then
        (Inl (Status FailedPrecondition ''Password should be at least 8 characters long'' []), w)
      else if rpw_NewPassword req \<noteq> rpw_Repeat req then
        (Inl (Status FailedPrecondition ''Passwords should match'' []), w)
      else
        let p = jw_Parse (ae_jwt env) (ae_now env) (\<lambda>_. Inr (cfg_UnpaperClientSecret (sv_cfg srv)))
              (rpw_VerificationToken req) no_claims in
        if ptk_Error p \<noteq> None then (Inl sv_TokenError, w)
        else if \<not> ptk_Valid p then (Inl sv_TokenError, w)
        else
          check_err (ae_GenerateFromPassword env (rpw_NewPassword req), w)
            (\<lambda>e. Status Internal ''failed to hash password: %v'' [e]) (\<lambda>h w.
          check_err (on_db (dir_UpdatePassword (ae_now env) (clm_Subject (ptk_Claims p)) h) w)
            (\<lambda>e. Status Internal ''failed to update password: %v'' [e]) (\<lambda>_ w. (Inr (), w))))"

section \<open>What a session start leaves\<close>

lemma start_session_db [simp]: "wd_db (snd (start_session srv texts u w)) = wd_db w"
  unfolding start_session_def
  by (cases texts) (simp, intro check_err_inv [where P = "\<lambda>x. wd_db x = wd_db w"]; simp)

lemma start_session_db_eq: "start_session srv texts u w = (r, w') \<Longrightarrow> wd_db w' = wd_db w"
  using start_session_db [of srv texts u w] by simp

lemma start_session_Inr:
  assumes "session_store (sv_sm srv) sess fresh" and "start_session srv texts u w = (Inr x, w')"
  obtains cookie where "sess (wd_rdb w') = (sess (wd_rdb w))(fresh \<mapsto> \<lparr>su_id = u\<rparr>)"
    "ck_GetValue (cfg_ClientDomain (sv_cfg srv)) session_cookie_name fresh session_lifetime = Inr cookie"
    "wd_headers w' = wd_headers w @ [(''Set-Cookie'', cookie)]" "wd_db w' = wd_db w"
proof -
  from assms(2) obtain sid s cookie where
    new: "si_SetNew (sv_sm srv) \<lparr>su_id = u\<rparr> session_lifetime (wd_rdb w) = (Inr sid, s)"
    and cookie: "ck_GetValue (cfg_ClientDomain (sv_cfg srv)) session_cookie_name sid session_lifetime = Inr cookie"
    and w': "w' = w\<lparr>wd_rdb := s, wd_headers := wd_headers w @ [(''Set-Cookie'', cookie)]\<rparr>"
    by (cases texts) (auto simp: start_session_def ok_simps)
  from session_store.set_new_ok [OF assms(1) new]
  have "sid = fresh" "sess s = (sess (wd_rdb w))(fresh \<mapsto> \<lparr>su_id = u\<rparr>)" by simp_all
  with cookie w' show thesis by (intro that) simp_all
qed

section \<open>Reading users on the way\<close>

lemma dir_GetUserIDFromEmail_Inr:
  "dir_GetUserIDFromEmail email c = (Inr i, c') \<Longrightarrow> dbt c' = dbt c \<and> (\<exists>u \<in> set (users (dbt c)). u_email u = email \<and> u_id u = i)"
  by (auto simp: dir_GetUserIDFromEmail_def q_GetUserIDFromEmail_def ok_simps one_row_Inr map_eq_Cons_conv filter_eq_Cons_iff
      dest!: exec_query_Inr)

lemma dir_GetPassword_Inr:
  assumes "dir_GetPassword i c = (Inr h, c')"
  shows "dbt c' = dbt c \<and> (\<exists>u \<in> set (users (dbt c)). u_id u = i \<and> u_password u = Val h)"
proof -
  obtain pw c1 where q: "q_GetPassword i c = (Inr pw, c1)"
    and pw: "(case pw of Null \<Rightarrow> (Inl (Errorf ''NULL user password'' []), c1) | Val p \<Rightarrow> (Inr p, c1)) = (Inr h, c')"
    using assms by (auto simp: dir_GetPassword_def check_err_Inr)
  then have "pw = Val h" "c1 = c'" by (cases pw; simp)+
  with q show ?thesis
    by (auto simp: q_GetPassword_def one_row_Inr map_eq_Cons_conv filter_eq_Cons_iff dest!: exec_query_Inr)
qed

lemma dir_GetUser_Inr:
  "dir_GetUser i c = (Inr m, c') \<Longrightarrow> dbt c' = dbt c \<and>
     (\<exists>u \<in> set (users (dbt c)). u_id u = i \<and> userPostgresToProto u = Inr m)"
  by (auto simp: dir_GetUser_def q_GetUser_def ok_simps one_row_Inr filter_eq_Cons_iff dest!: exec_query_Inr)

lemma dir_users_reads_tbl [simp]:
  "dbt (snd (dir_GetUserIDFromEmail email c)) = dbt c" "dbt (snd (dir_GetPassword i c)) = dbt c"
  "dbt (snd (dir_GetUser i c)) = dbt c" "dbt (snd (dir_GetEmailVerified i c)) = dbt c"
  "dbt (snd (dir_UsernameExists n c)) = dbt c" "dbt (snd (dir_EmailExists email c)) = dbt c"
  by (simp_all add: dir_GetUserIDFromEmail_def dir_GetUser_def dir_GetEmailVerified_def dir_UsernameExists_def
      dir_EmailExists_def dir_GetPassword_def check_err_inv [where P = "\<lambda>x. dbt x = dbt c"] split: nullable.split)

section \<open>Signing in\<close>

text \<open>The row of the address, when its password matches.\<close>

definition knows_password :: "('f, 'r) auth_env \<Rightarrow> string \<Rightarrow> string \<Rightarrow> tables \<Rightarrow> user_row \<Rightarrow> bool" where
  "knows_password env email password t u \<longleftrightarrow> u \<in> set (users t) \<and> u_email u = email \<and>
     (\<exists>h. u_password u = Val h \<and> ae_CompareHashAndPassword env h password = None)"

lemma users_id_unique:
  "tables_wf t \<Longrightarrow> u \<in> set (users t) \<Longrightarrow> v \<in> set (users t) \<Longrightarrow> u_id u = u_id v \<Longrightarrow> u = v"
  using users_ids_distinct by (auto simp: distinct_map inj_on_def)

lemma check_credentials_frame [simp]:
  "wd_rdb (snd (check_credentials env email password w)) = wd_rdb w"
  "wd_headers (snd (check_credentials env email password w)) = wd_headers w"
  "wd_tables (snd (check_credentials env email password w)) = wd_tables w"
  unfolding check_credentials_def
  by (rule check_err_inv [where P = "\<lambda>x. wd_rdb x = wd_rdb w"], simp,
      rule check_err_inv [where P = "\<lambda>x. wd_rdb x = wd_rdb w"], simp, simp split: option.split,
      rule check_err_inv [where P = "\<lambda>x. wd_headers x = wd_headers w"], simp,
      rule check_err_inv [where P = "\<lambda>x. wd_headers x = wd_headers w"], simp, simp split: option.split,
      rule check_err_inv [where P = "\<lambda>x. wd_tables x = wd_tables w"], simp,
      rule check_err_inv [where P = "\<lambda>x. wd_tables x = wd_tables w"], simp, simp split: option.split)

lemma check_credentials_Inr:
  assumes "tables_wf (wd_tables w)" and "check_credentials env email password w = (Inr i, w')"
  obtains u where "knows_password env email password (wd_tables w) u" "u_id u = i"
proof -
  obtain c1 c2 h where q1: "dir_GetUserIDFromEmail email (wd_db w) = (Inr i, c1)"
    and q2: "dir_GetPassword i c1 = (Inr h, c2)" and ok: "ae_CompareHashAndPassword env h password = None"
    using assms(2) by (auto simp: check_credentials_def ok_simps split: option.splits)
  from dir_GetUserIDFromEmail_Inr [OF q1] dir_GetPassword_Inr [OF q2]
  obtain u v where u: "u \<in> set (users (wd_tables w))" "u_email u = email" "u_id u = i"
    and v: "v \<in> set (users (wd_tables w))" "u_id v = i" "u_password v = Val h" by auto
  with users_id_unique [OF assms(1) u(1) v(1)] ok have "knows_password env email password (wd_tables w) u"
    by (auto simp: knows_password_def)
  with u(3) show thesis by (intro that)
qed

text \<open>
  C19: nobody is signed in without the password: whatever the database and Redis answer, a sign-in
  that changes Redis or sends a header, let alone returns, was for a stored user with this
  address whose stored hash matches the password. When it returns, it returns this user, their
  new session is the only change of the sessions, its cookie is the only header sent, and the
  tables are as they were.
\<close>

theorem sign_in_needs_password:
  assumes "session_store (sv_sm srv) sess fresh" and "tables_wf (wd_tables w)"
    and run: "sv_EmailSignin srv env email password w = (r, w')"
    and seen: "wd_rdb w' \<noteq> wd_rdb w \<or> wd_headers w' \<noteq> wd_headers w \<or> (\<exists>m. r = Inr m)"
  shows "\<exists>u cookie. knows_password env email password (wd_tables w) u \<and> wd_tables w' = wd_tables w \<and>
    (\<forall>m. r = Inr m \<longrightarrow> userPostgresToProto u = Inr m \<and>
      sess (wd_rdb w') = (sess (wd_rdb w))(fresh \<mapsto> \<lparr>su_id = u_id u\<rparr>) \<and>
      ck_GetValue (cfg_ClientDomain (sv_cfg srv)) session_cookie_name fresh session_lifetime = Inr cookie \<and>
      wd_headers w' = wd_headers w @ [(''Set-Cookie'', cookie)])"
proof -
  obtain cr w1 where cred: "check_credentials env email password w = (cr, w1)" by fastforce
  with check_credentials_frame [of env email password w]
  have w1: "wd_rdb w1 = wd_rdb w" "wd_headers w1 = wd_headers w" "wd_tables w1 = wd_tables w" by simp_all
  have filled: "email \<noteq> '''' \<and> password \<noteq> ''''"
    using run seen by (auto simp: sv_EmailSignin_def split: if_splits)
  obtain i where i: "cr = Inr i"
    using run seen filled cred w1 by (cases cr) (auto simp: sv_EmailSignin_def)
  obtain u where u: "knows_password env email password (wd_tables w) u" "u_id u = i"
    by (rule check_credentials_Inr [OF assms(2)]) (use cred i in auto)
  obtain sr w2 where st: "start_session srv signin_texts i w1 = (sr, w2)" by fastforce
  obtain gr c where get: "dir_GetUser i (wd_db w2) = (gr, c)" by fastforce
  have got: "on_db (dir_GetUser i) w2 = (gr, w2\<lparr>wd_db := c\<rparr>)" by (rule on_db_eq) (rule get)
  have db2: "wd_db w2 = wd_db w1" by (rule start_session_db_eq [OF st])
  have "dbt (snd (dir_GetUser i (wd_db w2))) = wd_tables w2" by (rule dir_users_reads_tbl)
  with get db2 w1 have c: "dbt c = wd_tables w" by (simp only: snd_conv)
  have "(r, w') = check_err (sr, w2) same_err (\<lambda>_ w. check_err (on_db (dir_GetUser i) w)
      (\<lambda>e. Status Internal ''failed to get user from db: %v'' [e]) (\<lambda>u w. (Inr u, w)))"
    using run filled by (simp add: sv_EmailSignin_def cred i st)
  then have run': "r = (case sr of Inl e \<Rightarrow> Inl e | Inr _ \<Rightarrow>
      (case gr of Inl e \<Rightarrow> Inl (Status Internal ''failed to get user from db: %v'' [e]) | Inr m \<Rightarrow> Inr m))"
    "w' = (case sr of Inl _ \<Rightarrow> w2 | Inr _ \<Rightarrow> w2\<lparr>wd_db := c\<rparr>)"
    by (cases sr; cases gr; simp add: got)+
  have tables: "wd_tables w' = wd_tables w"
    using run'(2) db2 w1 c by (simp split: sum.split)
  show ?thesis
  proof (cases "\<exists>m. r = Inr m")
    case False
    with u tables show ?thesis by blast
  next
    case True
    then obtain m where m: "r = Inr m" by blast
    with run' have ok: "sr = Inr ()" "gr = Inr m" "w' = w2\<lparr>wd_db := c\<rparr>" by (auto split: sum.splits)
    obtain cookie where "sess (wd_rdb w2) = (sess (wd_rdb w1))(fresh \<mapsto> \<lparr>su_id = i\<rparr>)"
      "ck_GetValue (cfg_ClientDomain (sv_cfg srv)) session_cookie_name fresh session_lifetime = Inr cookie"
      "wd_headers w2 = wd_headers w1 @ [(''Set-Cookie'', cookie)]"
      by (rule start_session_Inr [OF assms(1) st [unfolded ok]])
    moreover obtain v where "v \<in> set (users (wd_tables w))" "u_id v = i" "userPostgresToProto v = Inr m"
      using dir_GetUser_Inr [OF get [unfolded ok]] db2 w1 by auto
    then have "userPostgresToProto u = Inr m"
      using users_id_unique [OF assms(2), of u v] u by (auto simp: knows_password_def)
    ultimately show ?thesis using u tables m ok w1
      by (intro exI [of _ u] exI [of _ cookie]) simp
  qed
qed

end
