(* ===== verification/Accounts.thy ===== *)
theory Accounts
  imports Service_Auth
begin

text \<open>
  What the handlers of \<open>Service_Auth\<close> promise about accounts: who can be signed up, that names and
  addresses stay apart, what the tokens for addresses and passwords do, and signing in with what
  was signed up.
\<close>

section \<open>Creating a user\<close>

definition account_row :: "create_user_request \<Rightarrow> string \<Rightarrow> user_row" where
  "account_row p h = created_user (new_user_params p h)"

lemma account_row_columns [simp]:
  "u_id (account_row p h) = cur_userID p" "u_email (account_row p h) = cur_email p"
  "u_password (account_row p h) = new_null_string h" "u_username (account_row p h) = new_null_string (cur_username p)"
  "u_type (account_row p h) = ''member''"
  by (simp_all add: account_row_def new_user_params_def created_user_def)

text \<open>The name in lower case, as the index of taken names has it.\<close>

definition name_key :: "user_row \<Rightarrow> string option" where
  "name_key u = (case u_username u of Null \<Rightarrow> None | Val n \<Rightarrow> Some (to_lower n))"

definition accounts_distinct :: "tables \<Rightarrow> bool" where
  "accounts_distinct t \<longleftrightarrow> distinct (map (\<lambda>u. to_lower (u_email u)) (users t)) \<and> distinct (keys_of name_key (users t))"

lemma UsernameExists_Inr:
  "dir_UsernameExists n c = (Inr b, c') \<Longrightarrow> n \<noteq> '''' \<Longrightarrow>
     dbt c' = dbt c \<and> (b \<longleftrightarrow> (\<exists>u \<in> set (users (dbt c)). name_key u = Some (to_lower n)))"
  by (auto simp: dir_UsernameExists_def q_UsernameExists_def ok_simps list_ex_iff name_key_def
      dest!: exec_query_Inr split: nullable.splits)

lemma EmailExists_Inr:
  "dir_EmailExists e c = (Inr b, c') \<Longrightarrow>
     dbt c' = dbt c \<and> (b \<longleftrightarrow> (\<exists>u \<in> set (users (dbt c)). to_lower (u_email u) = to_lower e))"
  by (auto simp: dir_EmailExists_def q_EmailExists_def ok_simps list_ex_iff dest!: exec_query_Inr)

text \<open>What holds when the handler gets as far as the insertion.\<close>

definition may_sign_up :: "('f, 'r) auth_env \<Rightarrow> create_user_request \<Rightarrow> string \<Rightarrow> tables \<Rightarrow> bool" where
  "may_sign_up env p h t \<longleftrightarrow>
     (if cur_isLocal p then 8 \<le> length (cur_password p) \<and> 4 \<le> length (cur_username p) \<and>
        ae_GenerateFromPassword env (cur_password p) = Inr h \<and>
        (\<forall>u \<in> set (users t). name_key u \<noteq> Some (to_lower (cur_username p)))
      else h = '''') \<and>
     hp_IsEmailValid (ae_LookupMX env) (cur_email p) = Inr True \<and>
     (\<forall>u \<in> set (users t). to_lower (u_email u) \<noteq> to_lower (cur_email p))"

lemma createUser_insert:
  assumes "on_db (dir_CreateUser arg) w = (r, w')"
  shows "wd_rdb w' = wd_rdb w \<and> wd_headers w' = wd_headers w \<and>
    (wd_tables w' = wd_tables w \<or> wd_tables w' = (wd_tables w)\<lparr>users := users (wd_tables w) @ [created_user arg]\<rparr>) \<and>
    (\<forall>m. r = Inr m \<longrightarrow> userPostgresToProto (created_user arg) = Inr m \<and>
      wd_tables w' = (wd_tables w)\<lparr>users := users (wd_tables w) @ [created_user arg]\<rparr>)"
proof -
  obtain q c where q: "q_CreateUser arg (wd_db w) = (q, c)" by fastforce
  from exec_stmt_atomic [OF q [unfolded q_CreateUser_def]]
  have atomic: "dbt c = wd_tables w \<or> dbt c = (wd_tables w)\<lparr>users := users (wd_tables w) @ [created_user arg]\<rparr>"
    by (auto simp: ok_simps dest!: tbl_insert_Inr)
  show ?thesis
  proof (cases q)
    case (Inl e)
    with q atomic assms show ?thesis by (auto simp: on_db_def dir_CreateUser_def)
  next
    case (Inr u)
    with q_CreateUser_Inr(1,2) [of arg "wd_db w" u c] q
    have "u = created_user arg" "dbt c = (wd_tables w)\<lparr>users := users (wd_tables w) @ [created_user arg]\<rparr>" by simp_all
    with q Inr assms show ?thesis by (auto simp: on_db_def dir_CreateUser_def)
  qed
qed

lemma local_password_Inr:
  assumes "local_password env p w = (Inr h, w')"
  shows "8 \<le> length (cur_password p) \<and> 4 \<le> length (cur_username p) \<and>
    ae_GenerateFromPassword env (cur_password p) = Inr h \<and>
    (\<forall>u \<in> set (users (wd_tables w)). name_key u \<noteq> Some (to_lower (cur_username p)))"
proof -
  have len: "8 \<le> length (cur_password p)" "4 \<le> length (cur_username p)"
    using assms by (auto simp: local_password_def split: if_splits)
  with assms obtain c where e: "dir_UsernameExists (cur_username p) (wd_db w) = (Inr False, c)"
    and "ae_GenerateFromPassword env (cur_password p) = Inr h"
    by (auto simp: local_password_def check_err_Inr on_db_Inr split: if_splits)
  moreover have "cur_username p \<noteq> ''''" using len(2) by auto
  ultimately show ?thesis using UsernameExists_Inr [OF e] len by auto
qed

lemma local_password_frame [simp]:
  "wd_tables (snd (local_password env p w)) = wd_tables w" "wd_rdb (snd (local_password env p w)) = wd_rdb w"
  "wd_headers (snd (local_password env p w)) = wd_headers w"
  unfolding local_password_def
  by (simp, intro conjI impI;
      (intro check_err_inv [where P = "\<lambda>x. wd_tables x = wd_tables w"] check_err_inv [where P = "\<lambda>x. wd_rdb x = wd_rdb w"]
        check_err_inv [where P = "\<lambda>x. wd_headers x = wd_headers w"]; simp)?)+

lemma check_new_user_frame [simp]:
  "wd_tables (snd (check_new_user env p w)) = wd_tables w" "wd_rdb (snd (check_new_user env p w)) = wd_rdb w"
  "wd_headers (snd (check_new_user env p w)) = wd_headers w"
  unfolding check_new_user_def
  by (rule check_err_inv [where P = "\<lambda>x. wd_tables x = wd_tables w"], simp,
      rule check_err_inv [where P = "\<lambda>x. wd_tables x = wd_tables w"], simp, simp, intro impI,
      rule check_err_inv [where P = "\<lambda>x. wd_tables x = wd_tables w"], simp, simp,
      rule check_err_inv [where P = "\<lambda>x. wd_rdb x = wd_rdb w"], simp,
      rule check_err_inv [where P = "\<lambda>x. wd_rdb x = wd_rdb w"], simp, simp, intro impI,
      rule check_err_inv [where P = "\<lambda>x. wd_rdb x = wd_rdb w"], simp, simp,
      rule check_err_inv [where P = "\<lambda>x. wd_headers x = wd_headers w"], simp,
      rule check_err_inv [where P = "\<lambda>x. wd_headers x = wd_headers w"], simp, simp, intro impI,
      rule check_err_inv [where P = "\<lambda>x. wd_headers x = wd_headers w"], simp, simp)

lemma check_new_user_Inr:
  assumes "check_new_user env p w = (Inr h, w')"
  shows "may_sign_up env p h (wd_tables w)"
proof -
  obtain w1 c where pw: "(if cur_isLocal p then local_password env p w else (Inr '''', w)) = (Inr h, w1)"
    and valid: "hp_IsEmailValid (ae_LookupMX env) (cur_email p) = Inr True"
    and free: "dir_EmailExists (cur_email p) (wd_db w1) = (Inr False, c)"
    using assms by (auto simp: check_new_user_def check_err_Inr on_db_Inr split: if_splits)
  have "wd_tables w1 = wd_tables w"
    using pw by (metis local_password_frame(1) snd_conv)
  with EmailExists_Inr [OF free] have "\<forall>u \<in> set (users (wd_tables w)). to_lower (u_email u) \<noteq> to_lower (cur_email p)" by auto
  then show ?thesis
    using pw valid local_password_Inr [of env p w h w1] by (auto simp: may_sign_up_def split: if_splits)
qed

lemma createUser_cases:
  assumes "sv_createUser env p w = (r, w')"
  shows "wd_rdb w' = wd_rdb w \<and> wd_headers w' = wd_headers w \<and>
    (wd_tables w' = wd_tables w \<and> (\<forall>m. r \<noteq> Inr m) \<or>
     (\<exists>h. may_sign_up env p h (wd_tables w) \<and>
       wd_tables w' = (wd_tables w)\<lparr>users := users (wd_tables w) @ [account_row p h]\<rparr> \<and>
       (\<forall>m. r = Inr m \<longrightarrow> userPostgresToProto (account_row p h) = Inr m)))"
proof -
  obtain cr w1 where chk: "check_new_user env p w = (cr, w1)" by fastforce
  then have w1: "wd_tables w1 = wd_tables w" "wd_rdb w1 = wd_rdb w" "wd_headers w1 = wd_headers w"
    by (metis check_new_user_frame snd_conv)+
  show ?thesis
  proof (cases cr)
    case (Inl e)
    with assms chk w1 show ?thesis by (auto simp: sv_createUser_def)
  next
    case (Inr h)
    obtain ir w2 where ins: "on_db (dir_CreateUser (new_user_params p h)) w1 = (ir, w2)" by fastforce
    have "(r, w') = check_err (ir, w2) (\<lambda>e. Status Internal ''could not create user: %q'' [e]) (\<lambda>u w. (Inr u, w))"
      by (simp add: sv_createUser_def chk Inr ins flip: assms)
    then have "w' = w2 \<and> (\<forall>m. r = Inr m \<longleftrightarrow> ir = Inr m)" by (cases ir) auto
    then have run: "w' = w2" "\<forall>m. r = Inr m \<longleftrightarrow> ir = Inr m" by blast+
    have may: "may_sign_up env p h (wd_tables w)" using check_new_user_Inr chk Inr by simp
    from createUser_insert [OF ins, unfolded w1, folded run(1)]
    have frame: "wd_rdb w' = wd_rdb w" "wd_headers w' = wd_headers w"
      and stored: "ir = Inr m \<Longrightarrow> userPostgresToProto (account_row p h) = Inr m"
        "ir = Inr m \<Longrightarrow> wd_tables w' = (wd_tables w)\<lparr>users := users (wd_tables w) @ [account_row p h]\<rparr>"
      and tables: "wd_tables w' = wd_tables w \<or> wd_tables w' = (wd_tables w)\<lparr>users := users (wd_tables w) @ [account_row p h]\<rparr>" for m
      by (simp_all add: account_row_def)
    show ?thesis
    proof (cases ir)
      case (Inl e)
      then have "\<forall>m. r \<noteq> Inr m" using run(2) by simp
      then show ?thesis using frame tables may by (elim disjE) blast+
    next
      case (Inr m)
      then show ?thesis using frame stored [of m] may run(2) by auto
    qed
  qed
qed

section \<open>Names and addresses stay apart\<close>

lemma name_key_row [simp]:
  "name_key (account_row p h) = (if cur_username p = [] then None else Some (to_lower (cur_username p)))"
  by (simp add: name_key_def new_null_string_def)

lemma accounts_distinct_append:
  assumes "may_sign_up env p h t" and "accounts_distinct t" and "cur_isLocal p \<or> cur_username p = ''''"
  shows "accounts_distinct (t\<lparr>users := users t @ [account_row p h]\<rparr>)"
  using assms by (auto simp: accounts_distinct_def may_sign_up_def set_keys_of split: if_splits)

lemma accounts_distinct_cong: "users t' = users t \<Longrightarrow> accounts_distinct t' = accounts_distinct t"
  by (simp add: accounts_distinct_def)

lemma createUser_distinct:
  assumes "accounts_distinct (wd_tables w)" and "cur_isLocal p \<or> cur_username p = ''''"
  shows "accounts_distinct (wd_tables (snd (sv_createUser env p w)))"
  using createUser_cases [of env p w "fst (sv_createUser env p w)" "snd (sv_createUser env p w)"]
    accounts_distinct_append [OF _ assms] assms(1) by auto

text \<open>Making a customer touches no user.\<close>

lemma customer_stmts_users [simp]:
  "users (dbt (snd (q_CreateCustomer arg c))) = users (dbt c)"
  "users (dbt (snd (q_StoreSubscription sp c))) = users (dbt c)"
  "users (dbt (snd (q_StorePrice pp c))) = users (dbt c)"
  "users (dbt (snd (q_UseTrial i c))) = users (dbt c)"
  unfolding q_CreateCustomer_def q_StoreSubscription_def q_StorePrice_def q_UseTrial_def scanned_tbl
  by (rule exec_stmt_inv [where P = "\<lambda>t. users t = users (dbt c)"]; auto simp: ok_simps returning_row_def split: sum.splits)+

lemma dir_CreateCustomer_users [simp]: "users (dbt (snd (dir_CreateCustomer arg c))) = users (dbt c)"
  by (simp add: dir_CreateCustomer_def)

lemma dir_StoreSubscriptionWithPrice_users [simp]:
  "users (dbt (snd (dir_StoreSubscriptionWithPrice p c))) = users (dbt c)"
  unfolding dir_StoreSubscriptionWithPrice_def
  by (auto split: option.split intro!: check_err_inv [where P = "\<lambda>x. users (dbt x) = users (dbt c)"])

lemma on_db_users: "users (dbt (snd (f (wd_db w)))) = users (wd_tables w) \<Longrightarrow> users (wd_tables (snd (on_db f w))) = users (wd_tables w)"
  by simp

lemma ss_CreateCustomer_users [simp]: "users (wd_tables (snd (ss_CreateCustomer A p w))) = users (wd_tables w)"
  unfolding ss_CreateCustomer_def by (rule check_err_inv [where P = "\<lambda>x. users (wd_tables x) = users (wd_tables w)"]) simp_all

lemma ss_StoreCustomer_users [simp]: "users (wd_tables (snd (ss_StoreCustomer cus u f g w))) = users (wd_tables w)"
  unfolding ss_StoreCustomer_def by (rule check_err_inv [where P = "\<lambda>x. users (wd_tables x) = users (wd_tables w)"]) simp_all

lemma ss_StoreSubscription_users [simp]: "users (wd_tables (snd (ss_StoreSubscription s u w))) = users (wd_tables w)"
  by (simp add: ss_StoreSubscription_def split: list.split option.split)

lemma new_customer_users [simp]: "users (wd_tables (snd (new_customer env cfg u m w))) = users (wd_tables w)"
  unfolding new_customer_def
  by (intro check_err_inv [where P = "\<lambda>x. users (wd_tables x) = users (wd_tables w)"])
     (simp_all add: ss_CreatePlatformSubscription_def)

text \<open>After the insertion the rest of a sign-up leaves the users alone.\<close>

lemma finish_signup_users [simp]: "users (wd_tables (snd (finish_signup srv env u w))) = users (wd_tables w)"
  unfolding finish_signup_def Let_def
  by (intro check_err_inv [where P = "\<lambda>x. users (wd_tables x) = users (wd_tables w)"]
        if_inv [where P = "\<lambda>x. users (wd_tables x) = users (wd_tables w)"])
     (simp_all add: sv_createCustomer_def)

lemma EmailSignup_users:
  "users (wd_tables (snd (sv_EmailSignup srv env req w))) =
     users (wd_tables (snd (sv_createUser env (signup_request env req) w)))"
  unfolding sv_EmailSignup_def
  by (rule check_err_inv [where P = "\<lambda>x. users (wd_tables x) = users (wd_tables (snd (sv_createUser env (signup_request env req) w)))"])
     simp_all

lemma google_sign_up_users:
  "users (wd_tables (snd (google_sign_up srv env u e n w))) = users (wd_tables (snd (sv_createUser env
     \<lparr>cur_userID = u, cur_email = e, cur_username = '''', cur_givenName = n, cur_password = '''', cur_isLocal = False\<rparr> w)))"
  (is "_ = users (wd_tables (snd (sv_createUser env ?p w)))")
proof -
  obtain r w1 where c: "sv_createUser env ?p w = (r, w1)" by fastforce
  show ?thesis
  proof (cases r)
    case (Inr m)
    have "users (wd_tables (snd (check_err (new_customer env (sv_cfg srv) u m w1) same_err (\<lambda>_ w. (Inr m, w))))) = users (wd_tables w1)"
      by (rule check_err_inv [where P = "\<lambda>x. users (wd_tables x) = users (wd_tables w1)"]) simp_all
    with c Inr show ?thesis by (simp add: google_sign_up_def)
  qed (simp add: google_sign_up_def c)
qed

lemma customer_lookup_tbl [simp]: "dbt (snd (dir_GetCustomerByUserID u c)) = dbt c"
proof -
  let ?P = "\<lambda>x. dbt x = dbt c"
  have get: "dbt (snd (getPBPriceByCustomerID i d)) = dbt d" "dbt (snd (getPBSubscriptionByUserID i d)) = dbt d"
    "dbt (snd (getPBDefaultPMByUserID i d)) = dbt d" for i d
    unfolding getPBPriceByCustomerID_def getPBSubscriptionByUserID_def getPBDefaultPMByUserID_def
    by (auto intro!: check_err_inv [where P = "\<lambda>x. dbt x = dbt d"] split: sum.split)
  have opt: "snd (optional_row rc wrap) = snd rc" for rc :: "'b res \<times> db" and wrap
    by (simp add: optional_row_def split: prod.split sum.split)
  have att: "dbt (snd (attach_subscription s m d)) = dbt d" for s m d
    unfolding attach_subscription_def
    by (cases s) (simp_all add: check_err_inv [where P = "\<lambda>x. dbt x = dbt d"] get)
  show ?thesis
    unfolding dir_GetCustomerByUserID_def
    by (intro check_err_inv [where P = ?P]) (simp_all add: opt get att)
qed

lemma googleAuthentication_distinct:
  assumes "accounts_distinct (wd_tables w)"
  shows "accounts_distinct (wd_tables (snd (sv_googleAuthentication srv env ctx w)))"
proof -
  let ?P = "\<lambda>x. accounts_distinct (wd_tables x)"
  have up: "?P (snd (google_sign_up srv env u e n x))" if "?P x" for u e n x
    unfolding accounts_distinct_cong [OF google_sign_up_users [of srv env u e n x]]
    by (rule createUser_distinct [OF that]) simp
  have inn: "?P (snd (google_sign_in u x))" if "?P x" for u x
    using that unfolding google_sign_in_def by (intro check_err_inv [where P = ?P]) simp_all
  have main: "?P (snd (case on_db (dir_GetCustomerByUserID i) x of
      (Inr _, w) \<Rightarrow> google_sign_in i w
    | (Inl e, w) \<Rightarrow> if e \<noteq> ErrNoCustomer then (Inl (Status Internal ''failure occurred retrieving customer: %q'' [e]), w)
        else google_sign_up srv env i m n w))" if "?P x" for i m n x
  proof -
    obtain r y where y: "on_db (dir_GetCustomerByUserID i) x = (r, y)" by fastforce
    then have "wd_tables y = wd_tables x" by (metis on_db_proj(1) customer_lookup_tbl snd_conv)
    with that have "?P y" by simp
    then show ?thesis by (cases r) (simp_all add: y inn up)
  qed
  show ?thesis
    unfolding sv_googleAuthentication_def Let_def
    by (intro check_ok_inv [where P = ?P] check_err_inv [where P = ?P]) (use assms main in simp_all)
qed

text \<open>
  Names and addresses stay apart, whatever is in upper or lower case: no request to sign up,
  with a password or through Google, whatever fails on its way, makes two users of one address or
  one name up to case.
\<close>

theorem sign_up_keeps_accounts_apart:
  assumes "accounts_distinct (wd_tables w)"
  shows "accounts_distinct (wd_tables (snd (sv_EmailSignup srv env req w))) \<and>
    accounts_distinct (wd_tables (snd (sv_GoogleCallback srv env ctx w))) \<and>
    accounts_distinct (wd_tables (snd (sv_GoogleOneTap srv env ctx w)))"
proof -
  have "accounts_distinct (wd_tables (snd (sv_createUser env (signup_request env req) w)))"
    by (rule createUser_distinct [OF assms]) (simp add: signup_request_def)
  then show ?thesis
    using googleAuthentication_distinct [OF assms] accounts_distinct_cong [OF EmailSignup_users [of srv env req w]]
    by (simp add: sv_GoogleCallback_def sv_GoogleOneTap_def)
qed

section \<open>Signing in with what was signed up\<close>

lemma createUser_Inr:
  assumes "sv_createUser env p w = (Inr m, w')"
  obtains h where "may_sign_up env p h (wd_tables w)" "users (wd_tables w') = users (wd_tables w) @ [account_row p h]"
    "distinct (map u_id (users (wd_tables w')))" "userPostgresToProto (account_row p h) = Inr m"
    "wd_header_error w' = wd_header_error w"
proof -
  from assms obtain h w1 c where chk: "check_new_user env p w = (Inr h, w1)"
    and ins: "dir_CreateUser (new_user_params p h) (wd_db w1) = (Inr m, c)" and w': "w' = w1\<lparr>wd_db := c\<rparr>"
    by (auto simp: sv_createUser_def check_err_Inr on_db_Inr)
  from ins obtain u where q: "q_CreateUser (new_user_params p h) (wd_db w1) = (Inr u, c)" and m: "userPostgresToProto u = Inr m"
    by (auto simp: dir_CreateUser_def check_err_Inr)
  note q' = q_CreateUser_Inr [OF q]
  have t1: "wd_tables w1 = wd_tables w" using chk by (metis check_new_user_frame(1) snd_conv)
  have "wd_header_error (snd (check_new_user env p w)) = wd_header_error w"
    unfolding check_new_user_def local_password_def
    by (intro check_err_inv [where P = "\<lambda>x. wd_header_error x = wd_header_error w"]
        if_inv [where P = "\<lambda>x. wd_header_error x = wd_header_error w"]) (simp_all add: on_db_def split: prod.split)
  moreover have "distinct (map u_id (users (dbt c)))"
    using q'(4) by (auto simp: tbl_insert_def tbl_store_Inr users_schema_def keys_of_total distinct_map inj_on_def)
  ultimately show thesis
    using check_new_user_Inr [OF chk] q' m t1 w' chk by (intro that [of h]) (simp_all add: account_row_def)
qed

lemma start_session_headers:
  "start_session srv texts u w = (Inr x, w') \<Longrightarrow> wd_header_error w = None \<and> wd_header_error w' = None"
  by (cases texts) (auto simp: start_session_def ok_simps)

lemma EmailSignup_Inr:
  assumes "sv_EmailSignup srv env req w = (Inr m, w')"
  obtains h where "may_sign_up env (signup_request env req) h (wd_tables w)"
    "users (wd_tables w') = users (wd_tables w) @ [account_row (signup_request env req) h]"
    "distinct (map u_id (users (wd_tables w')))" "userPostgresToProto (account_row (signup_request env req) h) = Inr m"
    "wd_header_error w' = None"
proof -
  from assms obtain u w1 where c: "sv_createUser env (signup_request env req) w = (Inr u, w1)"
    and f: "finish_signup srv env u w1 = (Inr m, w')" by (auto simp: sv_EmailSignup_def check_err_Inr)
  from f have "u = m" "wd_header_error w' = None"
    by (auto simp: finish_signup_def Let_def check_err_Inr dest: start_session_headers)
  moreover have "users (wd_tables w') = users (wd_tables w1)"
    using finish_signup_users [of srv env u w1] by (simp only: f snd_conv)
  ultimately show thesis using createUser_Inr [OF c] that by metis
qed

text \<open>bcrypt: the hash of a password is not empty and matches it.\<close>

definition bcrypt_contract :: "('f, 'r) auth_env \<Rightarrow> ('g, 'q) auth_env \<Rightarrow> bool" where
  "bcrypt_contract env env' \<longleftrightarrow> (\<forall>p h. ae_GenerateFromPassword env p = Inr h \<longrightarrow>
     h \<noteq> '''' \<and> ae_CompareHashAndPassword env' h p = None)"

lemma email_not_empty: "hp_IsEmailValid lookup '''' \<noteq> Inr True"
proof -
  have "\<not> rx_match emailRegex ''''" by code_simp
  then show ?thesis by (simp add: hp_IsEmailValid_def)
qed

lemma check_credentials_up:
  assumes "up (wd_db w)" and "distinct (map u_id (users (wd_tables w)))" and "users (wd_tables w) = us @ [u]"
    and "\<forall>v \<in> set us. u_email v \<noteq> u_email u" and "u_password u = Val h" and "ae_CompareHashAndPassword env h pw = None"
  shows "check_credentials env (u_email u) pw w = (Inr (u_id u), w)"
proof -
  have "filter (\<lambda>v. u_email v = u_email u) (users (wd_tables w)) = [u]"
    using assms(3,4) by (auto simp: filter_empty_conv)
  then have id: "on_db (dir_GetUserIDFromEmail (u_email u)) w = (Inr (u_id u), w)"
    by (intro on_db_same) (simp add: dir_GetUserIDFromEmail_def q_GetUserIDFromEmail_def exec_query_up [OF assms(1)])
  have "filter (\<lambda>v. u_id v = u_id u) (users (wd_tables w)) = [u]"
    using filter_eq_single [OF assms(2), of u] assms(3) by simp
  then have "on_db (dir_GetPassword (u_id u)) w = (Inr h, w)"
    by (intro on_db_same) (simp add: dir_GetPassword_def q_GetPassword_def exec_query_up [OF assms(1)] assms(5))
  with id assms(6) show ?thesis by (simp add: check_credentials_def)
qed

lemma start_session_up:
  assumes "si_SetNew (sv_sm srv) \<lparr>su_id = u\<rparr> session_lifetime (wd_rdb w) = (Inr sid, s)" and "sid \<noteq> ''''"
    and "wd_header_error w = None"
  shows "\<exists>w'. start_session srv texts u w = (Inr (), w') \<and> wd_db w' = wd_db w \<and> wd_rdb w' = s"
  using assms by (cases texts) (simp add: start_session_def on_rdb_def ck_GetValue_def session_cookie_name_def SendHeader_def)

text \<open>
  C22: whoever signs up can sign in: when a sign-up with a password has answered with a user, the same
  address and password sign in to the same user, as long as the database and Redis answer, and
  the new session is this user's.
\<close>

theorem sign_in_after_sign_up:
  assumes "session_store (sv_sm srv') sess fresh" and "bcrypt_contract env env'"
    and signup: "sv_EmailSignup srv env req w = (Inr m, w1)" and "up (wd_db w1)"
    and redis: "si_SetNew (sv_sm srv') \<lparr>su_id = usr_id m\<rparr> session_lifetime (wd_rdb w1) = (Inr sid, s)" and "sid \<noteq> ''''"
  shows "\<exists>w2. sv_EmailSignin srv' env' (esu_Email req) (esu_Password req) w1 = (Inr m, w2) \<and>
    usr_id m = ae_uuid env \<and> usr_email m = esu_Email req \<and> usr_username m = esu_Username req \<and>
    sess (wd_rdb w2) = (sess (wd_rdb w1))(fresh \<mapsto> \<lparr>su_id = usr_id m\<rparr>)"
proof -
  let ?p = "signup_request env req"
  obtain h where may: "may_sign_up env ?p h (wd_tables w)"
    and users: "users (wd_tables w1) = users (wd_tables w) @ [account_row ?p h]"
    and ids: "distinct (map u_id (users (wd_tables w1)))" and m: "userPostgresToProto (account_row ?p h) = Inr m"
    and head: "wd_header_error w1 = None"
    by (rule EmailSignup_Inr [OF signup])
  have gen: "ae_GenerateFromPassword env (esu_Password req) = Inr h" and "8 \<le> length (esu_Password req)"
    and valid: "hp_IsEmailValid (ae_LookupMX env) (esu_Email req) = Inr True"
    and name: "esu_Username req \<noteq> ''''"
    and apart: "\<forall>v \<in> set (users (wd_tables w)). u_email v \<noteq> esu_Email req"
    using may by (auto simp: may_sign_up_def signup_request_def)
  then have filled: "esu_Email req \<noteq> ''''" "esu_Password req \<noteq> ''''"
    using email_not_empty by auto
  have cols: "u_email (account_row ?p h) = esu_Email req" "u_id (account_row ?p h) = ae_uuid env"
    by (simp_all add: signup_request_def)
  note mcols = userPostgresToProto_columns [OF m]
  have pw: "u_password (account_row ?p h) = Val h" "ae_CompareHashAndPassword env' h (esu_Password req) = None"
    using assms(2) gen by (auto simp: bcrypt_contract_def new_null_string_def)
  have cred: "check_credentials env' (esu_Email req) (esu_Password req) w1 = (Inr (usr_id m), w1)"
    using check_credentials_up [OF assms(4) ids users, of h env' "esu_Password req"] apart pw cols mcols(1) by simp
  obtain w2 where st: "start_session srv' signin_texts (usr_id m) w1 = (Inr (), w2)" and db: "wd_db w2 = wd_db w1"
    using start_session_up [OF redis assms(6) head] by blast
  have "filter (\<lambda>v. u_id v = usr_id m) (users (wd_tables w1)) = [account_row ?p h]"
    using filter_eq_single [OF ids, of "account_row ?p h"] users mcols(1) by simp
  then have get: "on_db (dir_GetUser (usr_id m)) w2 = (Inr m, w2)"
    using assms(4) db by (intro on_db_same) (simp add: dir_GetUser_def q_GetUser_def exec_query_up m)
  obtain cookie where "sess (wd_rdb w2) = (sess (wd_rdb w1))(fresh \<mapsto> \<lparr>su_id = usr_id m\<rparr>)"
    by (rule start_session_Inr [OF assms(1) st])
  then show ?thesis
    using filled cred st get mcols cols name
    by (intro exI [of _ w2]) (simp add: sv_EmailSignin_def signup_request_def new_null_string_def)
qed

section \<open>What the tokens do\<close>

definition set_users :: "(user_row \<Rightarrow> user_row) \<Rightarrow> string \<Rightarrow> 'r world \<Rightarrow> 'r world" where
  "set_users f i w = w\<lparr>wd_db := (wd_db w)\<lparr>dbt := (wd_tables w)\<lparr>users :=
     map (\<lambda>u. if u_id u = i then f u else u) (users (wd_tables w))\<rparr>\<rparr>\<rparr>"

lemma set_users_simps [simp]:
  "wd_rdb (set_users f i w) = wd_rdb w" "wd_headers (set_users f i w) = wd_headers w"
  "wd_tables (set_users f i w) = (wd_tables w)\<lparr>users := map (\<lambda>u. if u_id u = i then f u else u) (users (wd_tables w))\<rparr>"
  by (simp_all add: set_users_def)

lemma with_rows_up:
  assumes "up (wd_db w)" and "tables_wf (wd_tables w)"
    and "\<And>u. u \<in> set (users (wd_tables w)) \<Longrightarrow> u_id u = i \<Longrightarrow> row_check users_schema (f u) = None"
    and "\<And>u. u_id (f u) = u_id u \<and> u_email (f u) = u_email u \<and> u_username (f u) = u_username u"
  shows "exec_stmt (\<lambda>t. returning () (put (tbl_update users_schema (\<lambda>u. u_id u = i) f (users t)) (\<lambda>rs. t\<lparr>users := rs\<rparr>))) (wd_db w) =
    (Inr (), wd_db (set_users f i w))"
  unfolding set_users_def using user_update_ok [OF assms(2,1) refl assms(3,4)] by simp

lemma row_check_user: "tables_wf t \<Longrightarrow> u \<in> set (users t) \<Longrightarrow> row_check users_schema u = None"
  by (auto simp: tables_wf_def tbl_wf_def)

lemma VerifyEmail_up:
  assumes "up (wd_db w)" and "tables_wf (wd_tables w)"
  shows "on_db (dir_VerifyEmail i) w = (Inr (), set_users (\<lambda>u. u\<lparr>u_email_verified := Val True\<rparr>) i w)"
proof -
  have "dir_VerifyEmail i (wd_db w) = (Inr (), wd_db (set_users (\<lambda>u. u\<lparr>u_email_verified := Val True\<rparr>) i w))"
    unfolding dir_VerifyEmail_def q_VerifyEmail_def
    by (rule with_rows_up [OF assms]) (use row_check_user [OF assms(2)] in \<open>auto simp: users_schema_def\<close>)
  then have "on_db (dir_VerifyEmail i) w = (Inr (), w\<lparr>wd_db := wd_db (set_users (\<lambda>u. u\<lparr>u_email_verified := Val True\<rparr>) i w)\<rparr>)"
    by (rule on_db_eq)
  then show ?thesis by (simp add: set_users_def)
qed

text \<open>
  A verification token verifies the address of the one user it was made for, for a week: their
  request sets the flag of their row and no other, the request of anybody else is refused, and so
  is every request once the week is over, with nothing changed.
\<close>

theorem verification_token_verifies_its_user:
  assumes "jwt_contract (ae_jwt env)" and "ae_jwt env' = ae_jwt env" and "0 \<le> ae_now env" and "ae_now env \<le> ae_now env'"
    and tok: "sv_createVerificationJWT env u (cfg_UnpaperClientSecret (sv_cfg srv)) = Inr tok"
    and "up (wd_db w)" and "tables_wf (wd_tables w)"
  shows "if unix_seconds (ae_now env') \<le> unix_seconds (ae_now env) + 7 * 24 * 3600 then
      sv_EmailVerify srv env' (user_ctx u) tok w = (Inr (), set_users (\<lambda>r. r\<lparr>u_email_verified := Val True\<rparr>) u w) \<and>
      (\<forall>v. v \<noteq> u \<longrightarrow> (\<exists>e. sv_EmailVerify srv env' (user_ctx v) tok w = (Inl e, w)))
    else \<forall>v. \<exists>e. sv_EmailVerify srv env' (user_ctx v) tok w = (Inl e, w)"
proof -
  define c where "c = \<lparr>clm_Subject = u, clm_Issuer = ''unpaper'',
    clm_ExpiresAt = unix_seconds (ae_now env + VerificationTknExpiry), clm_IssuedAt = 0\<rparr>"
  have week: "unix_seconds (ae_now env + VerificationTknExpiry) = unix_seconds (ae_now env) + 7 * 24 * 3600"
    by (simp add: unix_seconds_def VerificationTknExpiry_def)
  have pos: "0 < clm_ExpiresAt c" using assms(3) 
    by (simp add: c_def unix_seconds_def VerificationTknExpiry_def pos_imp_zdiv_pos_iff)
  have "signed_token (ae_jwt env) c (cfg_UnpaperClientSecret (sv_cfg srv)) tok"
    by (rule jwt_contract_sign [OF assms(1) _ pos])
       (use tok in \<open>auto simp: sv_createVerificationJWT_def cl_CreateJWTTokenStr_def c_def split: sum.splits\<close>)
  from signed_token_parse(1) [OF this, of "ae_now env'"]
  have parse: "jw_Parse (ae_jwt env') (ae_now env') (hmac_key (cfg_UnpaperClientSecret (sv_cfg srv))) tok no_claims =
      verified_token c (ae_now env')"
    by (simp add: assms(2) issued_by_def c_def)
  have "clm_Subject c = u" "clm_ExpiresAt c = unix_seconds (ae_now env) + 7 * 24 * 3600"
    by (simp_all add: c_def week)
  then show ?thesis
    using VerifyEmail_up [OF assms(6,7), of u]
    by (simp add: sv_EmailVerify_def parse Let_def)
qed

text \<open>
  C20: a password is reset by any unexpired token signed with the secret of the service: nothing in the
  token says what it is for, so the token a user got to verify the address resets the password of its
  subject just as the one of a reset link does, the old password unknown. The subject's row gets
  the new hash and the time, no other row changes, and no session of the subject ends. A token past its
  last second is refused, and nothing changes.
\<close>

theorem unexpired_token_resets_password:
  assumes "signed_token (ae_jwt env) c (cfg_UnpaperClientSecret (sv_cfg srv)) (rpw_VerificationToken req)"
    and "issued_by (ae_now env) c"
    and "up (wd_db w)" and "tables_wf (wd_tables w)"
    and "8 \<le> length (rpw_NewPassword req)" and "rpw_Repeat req = rpw_NewPassword req"
    and "ae_GenerateFromPassword env (rpw_NewPassword req) = Inr h" and "length h \<le> 100"
  shows "(unix_seconds (ae_now env) \<le> clm_ExpiresAt c \<longrightarrow>
      (\<exists>w'. sv_ResetPassword srv env req w = (Inr (), w') \<and> wd_rdb w' = wd_rdb w \<and>
        wd_tables w' = (wd_tables w)\<lparr>users := map (\<lambda>u. if u_id u = clm_Subject c
          then u\<lparr>u_password := Val h, u_password_changed_at := Val (ae_now env)\<rparr> else u) (users (wd_tables w))\<rparr>)) \<and>
    (clm_ExpiresAt c < unix_seconds (ae_now env) \<longrightarrow> sv_ResetPassword srv env req w = (Inl sv_TokenError, w))"
proof -
  let ?i = "clm_Subject c"
  let ?f = "\<lambda>u. u\<lparr>u_password := Val h\<rparr>" and ?g = "\<lambda>u. u\<lparr>u_password_changed_at := Val (ae_now env)\<rparr>"
  have parse: "jw_Parse (ae_jwt env) (ae_now env) (\<lambda>_. Inr (cfg_UnpaperClientSecret (sv_cfg srv))) (rpw_VerificationToken req) no_claims =
      verified_token c (ae_now env)"
    by (rule signed_token_parse(2) [OF assms(1,2)])
  have rc: "row_check users_schema (?f u) = None" if "u \<in> set (users (wd_tables w))" for u
    using row_check_user [OF assms(4) that] assms(8)
    by (cases "u_password u") (auto simp: users_schema_def varchar_check_def split: if_splits)
  have one: "q_UpdatePassword ?i (Val h) (wd_db w) = (Inr (), wd_db (set_users ?f ?i w))"
    unfolding q_UpdatePassword_def
    by (rule with_rows_up [OF assms(3,4)]) (use rc in simp_all)
  have wf: "tables_wf (wd_tables (set_users ?f ?i w))"
    using q_UpdatePassword_wf [OF assms(4), of ?i "Val h"] by (simp only: one snd_conv)
  have up1: "up (wd_db (set_users ?f ?i w))" using assms(3) by (simp add: set_users_def)
  have same: "row_check users_schema (?g u) = row_check users_schema u" for u by (simp add: users_schema_def)
  have two: "q_UpdatePasswordChangedAt (Val (ae_now env)) ?i (wd_db (set_users ?f ?i w)) =
      (Inr (), wd_db (set_users ?g ?i (set_users ?f ?i w)))"
    unfolding q_UpdatePasswordChangedAt_def
    by (rule with_rows_up [OF up1 wf]) (simp_all only: same row_check_user [OF wf], simp_all)
  have upd: "on_db (dir_UpdatePassword (ae_now env) ?i h) w = (Inr (), w\<lparr>wd_db := wd_db (set_users ?g ?i (set_users ?f ?i w))\<rparr>)"
    by (rule on_db_eq) (simp add: dir_UpdatePassword_def one two)
  have rows: "map (\<lambda>u. if u_id u = ?i then ?g u else u) (map (\<lambda>u. if u_id u = ?i then ?f u else u) (users (wd_tables w))) =
    map (\<lambda>u. if u_id u = ?i then u\<lparr>u_password := Val h, u_password_changed_at := Val (ae_now env)\<rparr> else u) (users (wd_tables w))"
    by simp
  have "\<exists>w'. sv_ResetPassword srv env req w = (Inr (), w') \<and> wd_rdb w' = wd_rdb w \<and>
      wd_tables w' = (wd_tables w)\<lparr>users := map (\<lambda>u. if u_id u = ?i
        then u\<lparr>u_password := Val h, u_password_changed_at := Val (ae_now env)\<rparr> else u) (users (wd_tables w))\<rparr>"
    if "unix_seconds (ae_now env) \<le> clm_ExpiresAt c"
    using that assms(5-7) rows
    by (intro exI [of _ "w\<lparr>wd_db := wd_db (set_users ?g ?i (set_users ?f ?i w))\<rparr>"])
       (simp add: sv_ResetPassword_def parse Let_def upd)
  moreover have "sv_ResetPassword srv env req w = (Inl sv_TokenError, w)" if "clm_ExpiresAt c < unix_seconds (ae_now env)"
    using that assms(5,6) by (simp add: sv_ResetPassword_def parse Let_def)
  ultimately show ?thesis by blast
qed

section \<open>Changing the password\<close>

definition may_change_password :: "('f, 'r) auth_env \<Rightarrow> string \<Rightarrow> string \<Rightarrow> tables \<Rightarrow> bool" where
  "may_change_password env i old t \<longleftrightarrow> (\<exists>u \<in> set (users t). u_id u = i \<and> u_email_verified u = Val True \<and>
     (\<exists>h. u_password u = Val h \<and> ae_CompareHashAndPassword env h old = None))"

lemma GetEmailVerified_Inr:
  "dir_GetEmailVerified i c = (Inr True, c') \<Longrightarrow> dbt c' = dbt c \<and>
     (\<exists>u \<in> set (users (dbt c)). u_id u = i \<and> u_email_verified u = Val True)"
proof -
  assume "dir_GetEmailVerified i c = (Inr True, c')"
  then obtain b where q: "q_GetEmailVerified i c = (Inr b, c')" and "null_bool b"
    by (auto simp: dir_GetEmailVerified_def check_err_Inr)
  then have "b = Val True" by (cases b) auto
  with q show ?thesis
    by (auto simp: q_GetEmailVerified_def one_row_Inr map_eq_Cons_conv filter_eq_Cons_iff dest!: exec_query_Inr)
qed

lemma check_password_change_frame [simp]:
  "wd_rdb (snd (check_password_change env i old w)) = wd_rdb w"
  "wd_tables (snd (check_password_change env i old w)) = wd_tables w"
  unfolding check_password_change_def
  by (rule check_err_inv [where P = "\<lambda>x. wd_rdb x = wd_rdb w"], simp, simp, intro impI,
      rule check_err_inv [where P = "\<lambda>x. wd_rdb x = wd_rdb w"], simp, simp split: option.split,
      rule check_err_inv [where P = "\<lambda>x. wd_tables x = wd_tables w"], simp, simp, intro impI,
      rule check_err_inv [where P = "\<lambda>x. wd_tables x = wd_tables w"], simp, simp split: option.split)

lemma check_password_change_Inr:
  assumes "tables_wf (wd_tables w)" and "check_password_change env i old w = (Inr (), w')"
  shows "may_change_password env i old (wd_tables w)"
proof -
  obtain c1 c2 h where v: "dir_GetEmailVerified i (wd_db w) = (Inr True, c1)" and p: "dir_GetPassword i c1 = (Inr h, c2)"
    and ok: "ae_CompareHashAndPassword env h old = None"
    using assms(2) by (auto simp: check_password_change_def ok_simps split: if_splits option.splits)
  from GetEmailVerified_Inr [OF v] dir_GetPassword_Inr [OF p]
  obtain u x where u: "u \<in> set (users (wd_tables w))" "u_id u = i" "u_email_verified u = Val True"
    and x: "x \<in> set (users (wd_tables w))" "u_id x = i" "u_password x = Val h" by auto
  with users_id_unique [OF assms(1) u(1) x(1)] ok show ?thesis by (auto simp: may_change_password_def)
qed

text \<open>Whatever its outcome, the update writes to rows of the user only.\<close>

lemma UpdatePassword_others:
  "filter (\<lambda>u. u_id u \<noteq> i) (users (dbt (snd (dir_UpdatePassword now i h c)))) = filter (\<lambda>u. u_id u \<noteq> i) (users (dbt c))"
proof -
  let ?P = "\<lambda>t. filter (\<lambda>u. u_id u \<noteq> i) (users t) = filter (\<lambda>u. u_id u \<noteq> i) (users (dbt c))"
  have other: "filter (\<lambda>u. u_id u \<noteq> i) (map (\<lambda>u. if u_id u = i then f u else u) us) = filter (\<lambda>u. u_id u \<noteq> i) us"
    if "\<And>u. u_id (f u) = u_id u" for f us
    using that by (induction us) auto
  have q1: "?P (dbt (snd (q_UpdatePassword i (Val h) d)))" if "?P (dbt d)" for d
    unfolding q_UpdatePassword_def
    by (rule exec_stmt_inv [where P = ?P]) (use that in \<open>auto simp: ok_simps other dest!: tbl_update_Inr\<close>)
  have q2: "?P (dbt (snd (q_UpdatePasswordChangedAt (Val now) i d)))" if "?P (dbt d)" for d
    unfolding q_UpdatePasswordChangedAt_def
    by (rule exec_stmt_inv [where P = ?P]) (use that in \<open>auto simp: ok_simps other dest!: tbl_update_Inr\<close>)
  show ?thesis
    unfolding dir_UpdatePassword_def
    by (rule check_err_inv [where P = "\<lambda>c. ?P (dbt c)"]) (use q1 q2 in auto)
qed

text \<open>
  C21: a password is changed with the old one only: whatever fails on the way, a request that touches
  the tables, let alone succeeds, came from a user with a verified address who gave the
  old password and twice the same new one of at least eight characters; it touches no row of any
  other user. No session of the user ends by it.
\<close>

theorem change_password_needs_old_one:
  assumes "tables_wf (wd_tables w)" and "sv_ChangePassword env (user_ctx i) req w = (r, w')"
    and "users (wd_tables w') \<noteq> users (wd_tables w) \<or> r = Inr ()"
  shows "may_change_password env i (cpw_OldPassword req) (wd_tables w) \<and>
    cpw_NewPassword req = cpw_Repeat req \<and> 8 \<le> length (cpw_NewPassword req) \<and>
    filter (\<lambda>u. u_id u \<noteq> i) (users (wd_tables w')) = filter (\<lambda>u. u_id u \<noteq> i) (users (wd_tables w)) \<and>
    wd_rdb w' = wd_rdb w"
proof -
  obtain cr w1 where chk: "check_password_change env i (cpw_OldPassword req) w = (cr, w1)" by fastforce
  then have w1: "wd_tables w1 = wd_tables w" "wd_rdb w1 = wd_rdb w"
    by (metis check_password_change_frame snd_conv)+
  have new: "cpw_NewPassword req = cpw_Repeat req" "8 \<le> length (cpw_NewPassword req)"
    using assms(2,3) by (auto simp: sv_ChangePassword_def split: if_splits)
  have ok: "cr = Inr ()"
    using assms(2,3) chk w1 new by (cases cr) (auto simp: sv_ChangePassword_def)
  let ?rest = "check_err (ae_GenerateFromPassword env (cpw_NewPassword req), w1) same_err (\<lambda>h w.
       check_err (on_db (dir_UpdatePassword (ae_now env) i h) w)
         (\<lambda>e. Status Internal ''Error storing new password on db: %v'' [e]) (\<lambda>_ w.
       case SendHeader ''Set-Cookie'' deleted_token_cookie w of (_, w) \<Rightarrow> (Inr (), w)))"
  let ?P = "\<lambda>x. filter (\<lambda>u. u_id u \<noteq> i) (users (wd_tables x)) = filter (\<lambda>u. u_id u \<noteq> i) (users (wd_tables w1)) \<and>
    wd_rdb x = wd_rdb w1"
  have rest: "?rest = (r, w')"
    using assms(2) chk new ok by (simp add: sv_ChangePassword_def)
  have "?P (snd ?rest)"
    by (intro check_err_inv [where P = ?P])
       (simp_all add: UpdatePassword_others SendHeader_def split: option.split prod.split)
  then show ?thesis
    using rest w1 new check_password_change_Inr [OF assms(1)] chk ok by simp
qed

section \<open>Examples\<close>

definition sample_auth :: "(unit, mem_redis) auth_env" where
  "sample_auth = \<lparr>ae_now = 0, ae_uuid = ''u1'', ae_jwt = sample_jwt,
     ae_GenerateFromPassword = (\<lambda>p. Inr (CHR ''h'' # p)),
     ae_CompareHashAndPassword = (\<lambda>h p. if h = CHR ''h'' # p then None else Some (ErrNew ''mismatch'')),
     ae_LookupMX = (\<lambda>_. Inr [''mx'']), ae_stripe = sample_stripe, ae_SendMail = (\<lambda>m s. (Inr (), s)),
     ae_notification_id = ''n9''\<rparr>"

definition auth_server :: "string \<Rightarrow> mem_redis server" where
  "auth_server sid = NewUnpaperServiceServer (sample_cfg\<lparr>cfg_UnpaperClientSecret := ''key'', cfg_EnableStripe := False\<rparr>)
     mem_redis_cmds sample_gob sample_codec sid"

lemma auth_server_sessions: "session_store (sv_sm (auth_server sid)) (session_user sample_gob mem_strs) sid"
  by (simp add: auth_server_def NewUnpaperServiceServer_def mem_sm.manager.session_store_axioms)

definition sample_signup :: email_signup_request where
  "sample_signup = \<lparr>esu_Email = ''dan@x.io'', esu_Username = ''dann'', esu_Password = ''password''\<rparr>"

lemma sample_bcrypt: "bcrypt_contract sample_auth sample_auth"
  by (simp add: bcrypt_contract_def sample_auth_def)

definition signed_up :: "mem_redis world" where
  "signed_up = snd (sv_EmailSignup (auth_server ''sid1'') sample_auth sample_signup (world_of sample_tables mem_empty))"

definition sample_change :: change_password_request where
  "sample_change = \<lparr>cpw_OldPassword = ''secret'', cpw_NewPassword = ''sesame42'', cpw_Repeat = ''sesame42''\<rparr>"

text \<open>What the handlers answer here, by evaluation.\<close>

lemma sample_accounts:
  shows "case sv_EmailSignup (auth_server ''sid1'') sample_auth sample_signup (world_of sample_tables mem_empty) of
      (Inr m, w) \<Rightarrow> usr_id m = ''u1'' \<and> outcomes (wd_db w) = [] \<and>
        fst (si_SetNew (sv_sm (auth_server ''sid2'')) \<lparr>su_id = ''u1''\<rparr> session_lifetime (wd_rdb w)) = Inr ''sid2''
    | _ \<Rightarrow> False"
    and "accounts_distinct (wd_tables (world_of sample_tables mem_empty))"
    and "map (\<lambda>u. (u_id u, u_password u)) (users (wd_tables signed_up)) =
      [(''1'', Val ''secret''), (''2'', Val ''secret''), (''3'', Val ''secret''), (''u1'', Val ''hpassword'')]"
    and "tables_wf (wd_tables signed_up)"
    and "case fst (sv_EmailSignin (auth_server ''sid2'') sample_auth ''dan@x.io'' ''password'' signed_up) of
      Inr m \<Rightarrow> usr_id m = ''u1'' | Inl _ \<Rightarrow> False"
    and "fst (sv_ChangePassword (sample_auth\<lparr>ae_CompareHashAndPassword := (\<lambda>h p. if h = p then None else Some (ErrNew ''mismatch''))\<rparr>) (user_ctx ''1'') sample_change (world_of sample_tables mem_empty)) = Inr ()"
    and "sv_createVerificationJWT sample_auth ''u1'' (cfg_UnpaperClientSecret (sv_cfg (auth_server ''sid1''))) = Inr ''w''"
    and "jw_Sign (ae_jwt sample_auth) (sample_claims 604800) (cfg_UnpaperClientSecret (sv_cfg (auth_server ''sid1''))) = Inr ''w''"
    and "map u_email_verified (filter (\<lambda>u. u_id u = ''u1'') (users (wd_tables (set_users (\<lambda>r. r\<lparr>u_email_verified := Val True\<rparr>) ''u1'' signed_up)))) = [Val True]"
    and "map u_password (map (\<lambda>u. if u_id u = ''u1'' then u\<lparr>u_password := Val ''hsesame42'', u_password_changed_at := Val 0\<rparr> else u)
      (users (wd_tables signed_up))) = [Val ''secret'', Val ''secret'', Val ''secret'', Val ''hsesame42'']"
  by code_simp+

lemma sign_up_keeps_accounts_apart_witness:
  "accounts_distinct (wd_tables signed_up) \<and> length (users (wd_tables signed_up)) = 4"
proof -
  have "length (users (wd_tables signed_up)) = 4" using sample_accounts(3) [THEN arg_cong, of length] by simp
  then show ?thesis using sign_up_keeps_accounts_apart [OF sample_accounts(2)] unfolding signed_up_def by blast
qed

lemma signed_up_obtains:
  obtains m s where "sv_EmailSignup (auth_server ''sid1'') sample_auth sample_signup (world_of sample_tables mem_empty) = (Inr m, signed_up)"
    "usr_id m = ''u1''" "up (wd_db signed_up)"
    "si_SetNew (sv_sm (auth_server ''sid2'')) \<lparr>su_id = ''u1''\<rparr> session_lifetime (wd_rdb signed_up) = (Inr ''sid2'', s)"
proof -
  obtain r where r: "sv_EmailSignup (auth_server ''sid1'') sample_auth sample_signup (world_of sample_tables mem_empty) = (r, signed_up)"
    by (metis signed_up_def prod.collapse)
  obtain q s where q: "si_SetNew (sv_sm (auth_server ''sid2'')) \<lparr>su_id = ''u1''\<rparr> session_lifetime (wd_rdb signed_up) = (q, s)"
    by fastforce
  from sample_accounts(1) r q that show thesis by (cases r) (auto simp: up_def)
qed

lemma sign_in_after_sign_up_witness:
  "\<exists>m w2. sv_EmailSignin (auth_server ''sid2'') sample_auth ''dan@x.io'' ''password'' signed_up = (Inr m, w2) \<and>
     session_user sample_gob mem_strs (wd_rdb w2) ''sid2'' = Some \<lparr>su_id = ''u1''\<rparr>"
proof -
  obtain m s where run: "sv_EmailSignup (auth_server ''sid1'') sample_auth sample_signup (world_of sample_tables mem_empty) = (Inr m, signed_up)"
    and m: "usr_id m = ''u1''" and up: "up (wd_db signed_up)"
    and new: "si_SetNew (sv_sm (auth_server ''sid2'')) \<lparr>su_id = ''u1''\<rparr> session_lifetime (wd_rdb signed_up) = (Inr ''sid2'', s)"
    by (rule signed_up_obtains)
  have req: "esu_Email sample_signup = ''dan@x.io''" "esu_Password sample_signup = ''password''"
    by (simp_all add: sample_signup_def)
  from sign_in_after_sign_up [OF auth_server_sessions sample_bcrypt run up new [folded m], unfolded req m]
  show ?thesis by fastforce
qed

lemmas signed_up_wf = sample_accounts(4)

lemma sign_in_needs_password_witness:
  "\<exists>m u w'. sv_EmailSignin (auth_server ''sid2'') sample_auth ''dan@x.io'' ''password'' signed_up = (Inr m, w') \<and>
     knows_password sample_auth ''dan@x.io'' ''password'' (wd_tables signed_up) u \<and> u_id u = ''u1'' \<and>
     session_user sample_gob mem_strs (wd_rdb w') ''sid2'' = Some \<lparr>su_id = u_id u\<rparr>"
proof -
  from sample_accounts(5) obtain m w' where run: "sv_EmailSignin (auth_server ''sid2'') sample_auth ''dan@x.io'' ''password'' signed_up = (Inr m, w')"
    and m: "usr_id m = ''u1''"
    by (cases "sv_EmailSignin (auth_server ''sid2'') sample_auth ''dan@x.io'' ''password'' signed_up") (auto split: sum.splits)
  from sign_in_needs_password [OF auth_server_sessions signed_up_wf run] obtain u where
    u: "knows_password sample_auth ''dan@x.io'' ''password'' (wd_tables signed_up) u" "userPostgresToProto u = Inr m"
      "session_user sample_gob mem_strs (wd_rdb w') = (session_user sample_gob mem_strs (wd_rdb signed_up))(''sid2'' \<mapsto> \<lparr>su_id = u_id u\<rparr>)"
    by blast
  from userPostgresToProto_columns(1) [OF u(2)] m have "u_id u = ''u1''" by simp
  with run u(1,3) show ?thesis
    by (intro exI [of _ m] exI [of _ u] exI [of _ w']) simp
qed

lemmas sample_verification_token = sample_accounts(7)

text \<open>In the last second of the week, for the user who signed up and for another one.\<close>

lemma verification_token_verifies_its_user_witness:
  "(\<exists>w'. sv_EmailVerify (auth_server ''sid1'') (sample_auth\<lparr>ae_now := 604800 * 1000000\<rparr>) (user_ctx ''u1'') ''w'' signed_up = (Inr (), w') \<and>
     map u_email_verified (filter (\<lambda>u. u_id u = ''u1'') (users (wd_tables w'))) = [Val True]) \<and>
   (\<exists>e. sv_EmailVerify (auth_server ''sid1'') (sample_auth\<lparr>ae_now := 604800 * 1000000\<rparr>) (user_ctx ''1'') ''w'' signed_up = (Inl e, signed_up))"
proof -
  have now: "ae_now sample_auth = 0" "jwt_contract (ae_jwt sample_auth)"
    using sample_jwt_contract by (simp_all add: sample_auth_def)
  have up: "up (wd_db signed_up)" by (rule signed_up_obtains)
  note sample_accounts(9)
  moreover have "sv_EmailVerify (auth_server ''sid1'') (sample_auth\<lparr>ae_now := 604800 * 1000000\<rparr>) (user_ctx ''u1'') ''w'' signed_up =
      (Inr (), set_users (\<lambda>r. r\<lparr>u_email_verified := Val True\<rparr>) ''u1'' signed_up) \<and>
     (\<forall>v. v \<noteq> ''u1'' \<longrightarrow> (\<exists>e. sv_EmailVerify (auth_server ''sid1'') (sample_auth\<lparr>ae_now := 604800 * 1000000\<rparr>) (user_ctx v) ''w'' signed_up = (Inl e, signed_up)))"
    using verification_token_verifies_its_user [OF now(2) _ _ _ sample_verification_token up signed_up_wf,
        of "sample_auth\<lparr>ae_now := 604800 * 1000000\<rparr>"] now(1)
    by (simp add: unix_seconds_def)
  ultimately show ?thesis by auto
qed

lemma unexpired_token_resets_password_witness:
  "\<exists>w'. sv_ResetPassword (auth_server ''sid1'') sample_auth \<lparr>rpw_NewPassword = ''sesame42'', rpw_Repeat = ''sesame42'', rpw_VerificationToken = ''w''\<rparr> signed_up =
      (Inr (), w') \<and>
     map u_password (users (wd_tables w')) = [Val ''secret'', Val ''secret'', Val ''secret'', Val ''hsesame42'']"
proof -
  have tok: "signed_token (ae_jwt sample_auth) (sample_claims 604800) (cfg_UnpaperClientSecret (sv_cfg (auth_server ''sid1'')))
      (rpw_VerificationToken \<lparr>rpw_NewPassword = ''sesame42'', rpw_Repeat = ''sesame42'', rpw_VerificationToken = ''w''\<rparr>)"
  proof (rule jwt_contract_sign)
    show "jwt_contract (ae_jwt sample_auth)" using sample_jwt_contract by (simp add: sample_auth_def)
    show "jw_Sign (ae_jwt sample_auth) (sample_claims 604800) (cfg_UnpaperClientSecret (sv_cfg (auth_server ''sid1''))) =
        Inr (rpw_VerificationToken \<lparr>rpw_NewPassword = ''sesame42'', rpw_Repeat = ''sesame42'', rpw_VerificationToken = ''w''\<rparr>)"
      using sample_accounts(8) by simp
  qed (simp add: sample_claims_def)
  have up: "up (wd_db signed_up)" by (rule signed_up_obtains)
  from unexpired_token_resets_password [OF tok _ up signed_up_wf, of "''hsesame42''"] sample_accounts(10)
  show ?thesis by (fastforce simp: sample_auth_def issued_by_def sample_claims_def unix_seconds_def)
qed

lemma change_password_needs_old_one_witness:
  "may_change_password (sample_auth\<lparr>ae_CompareHashAndPassword := (\<lambda>h p. if h = p then None else Some (ErrNew ''mismatch''))\<rparr>)
     ''1'' ''secret'' sample_tables"
proof -
  let ?env = "sample_auth\<lparr>ae_CompareHashAndPassword := (\<lambda>h p. if h = p then None else Some (ErrNew ''mismatch''))\<rparr>"
  from sample_accounts(6)
  obtain w' where "sv_ChangePassword ?env (user_ctx ''1'') sample_change (world_of sample_tables mem_empty) = (Inr (), w')"
    by (metis prod.collapse)
  from change_password_needs_old_one [OF _ this] sample_tables_wf show ?thesis
    by (simp add: db_of_def sample_change_def)
qed

end
