(* ===== verification/Chat_Entities.thy ===== *)
theory Chat_Entities
  imports Users_Dir "HOL-Library.AList"
begin

text \<open>
  The data of the chat (\<^verbatim>\<open>backend/pkg/chat/message\<close>, \<^verbatim>\<open>conversation\<close>, \<^verbatim>\<open>user\<close>): messages,
  conversations, their forms in the API, and the keys they have in Redis. Times are nanoseconds. A
  Go map is the list of its pairs in the order one iteration visits them, with one pair per key.
  \<^verbatim>\<open>encoding/gob\<close> is a parameter: an encoder that may fail, and a decoder that returns its error
  beside the value it has filled in so far.
\<close>

definition unix :: "int \<Rightarrow> int" where
  "unix t = t div 1000000000"

text \<open>\<^verbatim>\<open>n++\<close> on an int64.\<close>

definition incr64 :: "int \<Rightarrow> int" where
  "incr64 n = (if n = 2 ^ 63 - 1 then - (2 ^ 63) else n + 1)"

record 'a gob =
  gb_enc :: "'a \<Rightarrow> byte list res"
  gb_dec :: "byte list \<Rightarrow> goerror option \<times> 'a"

text \<open>What \<^verbatim>\<open>gob\<close> documents for the values \<open>P\<close>: what was encoded decodes to the same value.\<close>

definition gob_contract :: "('a \<Rightarrow> bool) \<Rightarrow> 'a gob \<Rightarrow> bool" where
  "gob_contract P g \<longleftrightarrow> (\<forall>x bs. P x \<longrightarrow> gb_enc g x = Inr bs \<longrightarrow> gb_dec g bs = (None, x))"

definition encode64 :: "'a gob \<Rightarrow> 'a \<Rightarrow> string res" where
  "encode64 g x = (case gb_enc g x of Inl e \<Rightarrow> Inl e | Inr bs \<Rightarrow> Inr (b64_encode bs))"

definition decode64 :: "'a gob \<Rightarrow> 'a \<Rightarrow> string \<Rightarrow> goerror option \<times> 'a" where
  "decode64 g z str = (case b64_decode str of
     None \<Rightarrow> (Some (ErrNew ''illegal base64 data''), z)
   | Some p \<Rightarrow> gb_dec g p)"

section \<open>Messages\<close>

record chat_message =
  cm_ID :: string
  cm_Type :: string
  cm_UserID :: string
  cm_CreatedAt :: int
  cm_SenderUsername :: string
  cm_AwardID :: string
  cm_Content :: string
  cm_Amount :: int
  cm_Bytes :: "byte list option"

definition empty_message :: chat_message where
  "empty_message = \<lparr>cm_ID = [], cm_Type = [], cm_UserID = [], cm_CreatedAt = 0, cm_SenderUsername = [],
     cm_AwardID = [], cm_Content = [], cm_Amount = 0, cm_Bytes = None\<rparr>"

definition TypeText :: string where "TypeText = ''TEXT''"
definition TypeAward :: string where "TypeAward = ''AWARD''"
definition TypeDonation :: string where "TypeDonation = ''DONATION''"
definition TypeAudio :: string where "TypeAudio = ''AUDIO''"

datatype pb_message_type = MessageType_TEXT | MessageType_AWARD | MessageType_DONATION | MessageType_AUDIO

record pb_chat_message =
  pcm_id :: string
  pcm_user_id :: string
  pcm_username :: string
  pcm_created_at :: int
  pcm_type :: pb_message_type
  pcm_text :: "string option"
  pcm_award :: "string option"
  pcm_donation :: "int option"
  pcm_audio :: "byte list option"

definition msg_ToProtobuf :: "chat_message \<Rightarrow> pb_chat_message" where
  "msg_ToProtobuf m =
     (let r = \<lparr>pcm_id = cm_ID m, pcm_user_id = cm_UserID m, pcm_username = cm_SenderUsername m,
            pcm_created_at = cm_CreatedAt m, pcm_type = MessageType_TEXT, pcm_text = None, pcm_award = None,
            pcm_donation = None, pcm_audio = None\<rparr>;
          r = (if cm_Content m \<noteq> [] then r\<lparr>pcm_type := MessageType_TEXT, pcm_text := Some (cm_Content m)\<rparr> else r);
          r = (if cm_AwardID m \<noteq> [] then r\<lparr>pcm_type := MessageType_AWARD, pcm_award := Some (cm_AwardID m)\<rparr> else r);
          r = (if cm_Amount m \<noteq> 0 then r\<lparr>pcm_type := MessageType_DONATION, pcm_donation := Some (cm_Amount m)\<rparr> else r);
          r = (if cm_Bytes m \<noteq> None then r\<lparr>pcm_type := MessageType_AUDIO, pcm_audio := cm_Bytes m\<rparr> else r)
      in r)"

definition msg_EncodeBinary :: "chat_message gob \<Rightarrow> chat_message \<Rightarrow> string res" where
  "msg_EncodeBinary g m = encode64 g m"

definition msg_DecodeBinary :: "chat_message gob \<Rightarrow> string \<Rightarrow> goerror option \<times> chat_message" where
  "msg_DecodeBinary g str = decode64 g empty_message str"

definition msg_GetRaw :: "chat_message \<Rightarrow> chat_message" where
  "msg_GetRaw m = m"

text \<open>A gob leaves out an empty slice, which decodes to a nil one.\<close>

definition plain_message :: "chat_message \<Rightarrow> bool" where
  "plain_message m \<longleftrightarrow> cm_Bytes m \<noteq> Some []"

section \<open>Conversations\<close>

record participant =
  pt_UserID :: string
  pt_Username :: string
  pt_JoinedAt :: int

record conversation =
  cn_ID :: string
  cn_Participants :: "(string \<times> participant) list"
  cn_CreatedAt :: int
  cn_UnreadMessagesCount :: int
  cn_LastMessage :: "chat_message option"

definition empty_conversation :: conversation where
  "empty_conversation = \<lparr>cn_ID = [], cn_Participants = [], cn_CreatedAt = 0, cn_UnreadMessagesCount = 0,
     cn_LastMessage = None\<rparr>"

definition MessagesLimit :: int where "MessagesLimit = 10"
definition MaxChatMessages :: int where "MaxChatMessages = 1000"

text \<open>
  \<^verbatim>\<open>New\<close>: the clock is read once for every participant and once more for the conversation.
\<close>

fun add_participants :: "(nat \<Rightarrow> int) \<Rightarrow> nat \<Rightarrow> pb_user list \<Rightarrow> (string \<times> participant) list \<Rightarrow> (string \<times> participant) list" where
  "add_participants clock n [] p = p"
| "add_participants clock n (u # us) p =
     add_participants clock (Suc n) us (AList.update (usr_id u)
       \<lparr>pt_UserID = usr_id u, pt_Username = usr_username u, pt_JoinedAt = clock n\<rparr> p)"

definition conv_New :: "string \<Rightarrow> (nat \<Rightarrow> int) \<Rightarrow> pb_user list \<Rightarrow> conversation" where
  "conv_New uuid clock us = \<lparr>cn_ID = uuid, cn_Participants = add_participants clock 0 us [],
     cn_CreatedAt = clock (length us), cn_UnreadMessagesCount = 0, cn_LastMessage = None\<rparr>"

record pb_participant =
  ppt_user_id :: string
  ppt_username :: string
  ppt_joined_at :: int

record pb_conversation =
  pcn_id :: string
  pcn_participants :: "(string \<times> pb_participant) list"
  pcn_created_at :: int
  pcn_unread_messages_count :: int
  pcn_last_message :: "pb_chat_message option"

definition pt_ToProtobuf :: "participant \<Rightarrow> pb_participant" where
  "pt_ToProtobuf p = \<lparr>ppt_user_id = pt_UserID p, ppt_username = pt_Username p, ppt_joined_at = pt_JoinedAt p\<rparr>"

definition participantsMapToProtobuf :: "(string \<times> participant) list \<Rightarrow> (string \<times> pb_participant) list" where
  "participantsMapToProtobuf ps = map (\<lambda>(u, p). (u, pt_ToProtobuf p)) ps"

definition conv_ToProtobuf :: "conversation \<Rightarrow> pb_conversation" where
  "conv_ToProtobuf c = \<lparr>pcn_id = cn_ID c, pcn_participants = participantsMapToProtobuf (cn_Participants c),
     pcn_created_at = cn_CreatedAt c, pcn_unread_messages_count = cn_UnreadMessagesCount c,
     pcn_last_message = map_option msg_ToProtobuf (cn_LastMessage c)\<rparr>"

definition conv_EncodeBinary :: "conversation gob \<Rightarrow> conversation \<Rightarrow> string res" where
  "conv_EncodeBinary g c = encode64 g c"

definition conv_DecodeBinary :: "conversation gob \<Rightarrow> string \<Rightarrow> conversation res" where
  "conv_DecodeBinary g str = (case decode64 g empty_conversation str of (Some e, _) \<Rightarrow> Inl e | (None, c) \<Rightarrow> Inr c)"

definition conv_GetRaw :: "conversation \<Rightarrow> conversation" where
  "conv_GetRaw c = c"

definition GetUserConversationsKey :: "string \<Rightarrow> string" where
  "GetUserConversationsKey user_id = ''user:'' @ user_id @ ''conversations''"

definition GetConversationMessagesKey :: "string \<Rightarrow> string" where
  "GetConversationMessagesKey conversation_id = ''conversations:'' @ conversation_id @ '':messages''"

definition GetConversationPubSubKey :: "string \<Rightarrow> string" where
  "GetConversationPubSubKey conversation_id = ''conversation:pubsub:'' @ conversation_id"

definition GetUserConversationsLastReadKey :: "string \<Rightarrow> string" where
  "GetUserConversationsLastReadKey user_id = ''conversations:last_read:'' @ user_id"

definition GetActiveUserConversationIDKey :: "string \<Rightarrow> string" where
  "GetActiveUserConversationIDKey user_id = ''conversations:active'' @ user_id"

section \<open>Users of the chat\<close>

record chat_user =
  cu_ID :: string
  cu_Username :: string
  cu_ImageURL :: string

record pb_chat_user =
  pcu_id :: string
  pcu_username :: string
  pcu_image_url :: string

definition cuser_ToProtobuf :: "chat_user \<Rightarrow> pb_chat_user" where
  "cuser_ToProtobuf u = \<lparr>pcu_id = cu_ID u, pcu_username = cu_Username u, pcu_image_url = cu_ImageURL u\<rparr>"

definition cuser_EncodeBinary :: "chat_user gob \<Rightarrow> chat_user \<Rightarrow> string res" where
  "cuser_EncodeBinary g u = encode64 g u"

definition cuser_DecodeBinary :: "chat_user gob \<Rightarrow> string \<Rightarrow> goerror option \<times> chat_user" where
  "cuser_DecodeBinary g str = decode64 g \<lparr>cu_ID = [], cu_Username = [], cu_ImageURL = []\<rparr> str"

section \<open>Facts about keys and codecs\<close>

lemma keys_inject [simp]:
  "GetUserConversationsKey u = GetUserConversationsKey v \<longleftrightarrow> u = v"
  "GetConversationMessagesKey a = GetConversationMessagesKey b \<longleftrightarrow> a = b"
  "GetConversationPubSubKey a = GetConversationPubSubKey b \<longleftrightarrow> a = b"
  "GetActiveUserConversationIDKey u = GetActiveUserConversationIDKey v \<longleftrightarrow> u = v"
  by (simp_all add: GetUserConversationsKey_def GetConversationMessagesKey_def GetConversationPubSubKey_def
      GetActiveUserConversationIDKey_def)

lemma keys_apart [simp]:
  "GetUserConversationsKey u \<noteq> GetConversationMessagesKey a" "GetConversationMessagesKey a \<noteq> GetUserConversationsKey u"
  "GetUserConversationsKey u \<noteq> GetActiveUserConversationIDKey v" "GetActiveUserConversationIDKey v \<noteq> GetUserConversationsKey u"
  by (simp_all add: GetUserConversationsKey_def GetConversationMessagesKey_def GetActiveUserConversationIDKey_def)

lemma decode64_encode64:
  assumes "gob_contract P g" and "P x" and "encode64 g x = Inr str"
  shows "decode64 g z str = (None, x)"
  using assms by (auto simp: gob_contract_def encode64_def decode64_def split: sum.splits)

lemma conv_decode_encode:
  "gob_contract P g \<Longrightarrow> P c \<Longrightarrow> conv_EncodeBinary g c = Inr str \<Longrightarrow> conv_DecodeBinary g str = Inr c"
  by (simp add: conv_EncodeBinary_def conv_DecodeBinary_def decode64_encode64)

lemma msg_decode_encode:
  "gob_contract P g \<Longrightarrow> P m \<Longrightarrow> msg_EncodeBinary g m = Inr str \<Longrightarrow> msg_DecodeBinary g str = (None, m)"
  by (simp add: msg_EncodeBinary_def msg_DecodeBinary_def decode64_encode64)

lemma msg_encode_inj:
  "gob_contract P g \<Longrightarrow> P m \<Longrightarrow> P m' \<Longrightarrow> msg_EncodeBinary g m = Inr str \<Longrightarrow> msg_EncodeBinary g m' = Inr str \<Longrightarrow> m = m'"
  by (metis msg_decode_encode prod.inject)

lemma distinct_add_participants:
  "distinct (map fst p) \<Longrightarrow> distinct (map fst (add_participants clock n us p))"
  by (induction clock n us p rule: add_participants.induct) (simp_all add: distinct_update)

text \<open>A codec that knows the values of a table; the examples run on it.\<close>

definition table_gob :: "'a list \<Rightarrow> 'a gob" where
  "table_gob xs = \<lparr>
     gb_enc = (\<lambda>x. case filter (\<lambda>i. xs ! i = x) [0..<length xs] of [] \<Rightarrow> Inl (ErrNew ''gob'') | i # _ \<Rightarrow> Inr [of_nat i]),
     gb_dec = (\<lambda>bs. (None, xs ! unat (hd bs)))\<rparr>"

lemma table_gob_contract: "length xs \<le> 256 \<Longrightarrow> gob_contract P (table_gob xs)"
proof -
  assume len: "length xs \<le> 256"
  have "gb_dec (table_gob xs) bs = (None, x)" if enc: "gb_enc (table_gob xs) x = Inr bs" for x bs
  proof -
    from enc obtain i js where i: "filter (\<lambda>i. xs ! i = x) [0..<length xs] = i # js" and bs: "bs = [of_nat i]"
      by (auto simp: table_gob_def split: list.splits)
    have "i \<in> set (filter (\<lambda>i. xs ! i = x) [0..<length xs])" by (simp add: i)
    then have "i < length xs" "xs ! i = x" by auto
    with len bs show ?thesis by (simp add: table_gob_def unat_of_nat)
  qed
  then show ?thesis by (simp add: gob_contract_def)
qed

end
