(* ===== verification/Chat_Redis.thy ===== *)
theory Chat_Redis
  imports Redis_Store "HOL-Library.AList" "HOL-Library.Product_Lexorder" "HOL-Library.List_Lexorder" "HOL-Library.Char_ord"
begin

text \<open>
  The commands of Redis the chat uses: sorted sets, hashes, strings without expiry and
  publications. As in \<open>Redis_Store\<close> they are a record of functions over an arbitrary state; the
  locale \<open>chat_store\<close> states what the command reference promises of them over one observer, the
  \<open>chat_view\<close> of a state. A command that does not answer may have taken effect or not.

  A sorted set is the list of its entries in the order Redis keeps them: by score, and by the bytes
  of the member where the scores are equal. Scores are the seconds of a time stamp, which a float64
  holds exactly. A hash is the list of its fields; \<^verbatim>\<open>HGETALL\<close> returns them in some order.
\<close>

section \<open>What the commands do to a view\<close>

type_synonym zset = "(int \<times> string) list"

record chat_view =
  cv_zsets :: "string \<Rightarrow> zset"
  cv_hashes :: "string \<Rightarrow> (string \<times> string) list"
  cv_strs :: "string \<Rightarrow> string option"
  cv_published :: "(string \<times> string) list"

text \<open>Adding a member replaces the score of one that is there.\<close>

definition z_add :: "int \<Rightarrow> string \<Rightarrow> zset \<Rightarrow> zset" where
  "z_add score m zs = insort (score, m) (filter (\<lambda>x. snd x \<noteq> m) zs)"

text \<open>\<^verbatim>\<open>LIMIT offset count\<close>: nothing for a negative offset, everything for a negative count.\<close>

definition limit :: "int \<Rightarrow> int \<Rightarrow> 'a list \<Rightarrow> 'a list" where
  "limit offset n xs =
     (if offset < 0 then []
      else if n < 0 then drop (nat offset) xs
      else take (nat n) (drop (nat offset) xs))"

definition z_from :: "int \<Rightarrow> int \<Rightarrow> int \<Rightarrow> zset \<Rightarrow> string list" where
  "z_from lo offset n zs = map snd (limit offset n (filter (\<lambda>x. lo \<le> fst x) zs))"

definition z_last :: "zset \<Rightarrow> string list" where
  "z_last zs = map snd (take 1 (rev zs))"

definition view_zadd :: "string \<Rightarrow> int \<Rightarrow> string \<Rightarrow> chat_view \<Rightarrow> chat_view" where
  "view_zadd k score m v = v\<lparr>cv_zsets := (cv_zsets v)(k := z_add score m (cv_zsets v k))\<rparr>"

definition view_hset :: "string \<Rightarrow> string \<Rightarrow> string \<Rightarrow> chat_view \<Rightarrow> chat_view" where
  "view_hset k f x v = v\<lparr>cv_hashes := (cv_hashes v)(k := AList.update f x (cv_hashes v k))\<rparr>"

text \<open>SET replaces whatever the key held.\<close>

definition view_set :: "string \<Rightarrow> string \<Rightarrow> chat_view \<Rightarrow> chat_view" where
  "view_set k x v = v\<lparr>cv_zsets := (cv_zsets v)(k := []), cv_hashes := (cv_hashes v)(k := []),
     cv_strs := (cv_strs v)(k \<mapsto> x)\<rparr>"

definition view_getdel :: "string \<Rightarrow> chat_view \<Rightarrow> chat_view" where
  "view_getdel k v = v\<lparr>cv_strs := (cv_strs v)(k := None)\<rparr>"

definition view_publish :: "string \<Rightarrow> string \<Rightarrow> chat_view \<Rightarrow> chat_view" where
  "view_publish ch m v = v\<lparr>cv_published := cv_published v @ [(ch, m)]\<rparr>"

section \<open>The commands and their contract\<close>

record 'r chat_redis =
  cr_ZAdd :: "string \<Rightarrow> int \<Rightarrow> string \<Rightarrow> 'r \<Rightarrow> unit res \<times> 'r"
  cr_ZRangeByScore :: "string \<Rightarrow> int \<Rightarrow> int \<Rightarrow> int \<Rightarrow> 'r \<Rightarrow> string list res \<times> 'r"
  cr_ZRevRange0 :: "string \<Rightarrow> 'r \<Rightarrow> string list res \<times> 'r"
  cr_HSet :: "string \<Rightarrow> string \<Rightarrow> string \<Rightarrow> 'r \<Rightarrow> unit res \<times> 'r"
  cr_HGet :: "string \<Rightarrow> string \<Rightarrow> 'r \<Rightarrow> string res \<times> 'r"
  cr_HGetAll :: "string \<Rightarrow> 'r \<Rightarrow> (string \<times> string) list res \<times> 'r"
  cr_Get :: "string \<Rightarrow> 'r \<Rightarrow> string res \<times> 'r"
  cr_Set :: "string \<Rightarrow> string \<Rightarrow> 'r \<Rightarrow> unit res \<times> 'r"
  cr_GetDel :: "string \<Rightarrow> 'r \<Rightarrow> string res \<times> 'r"
  cr_Publish :: "string \<Rightarrow> string \<Rightarrow> 'r \<Rightarrow> unit res \<times> 'r"

text \<open>The state after a command that changes the view by \<open>f\<close>, answered or not.\<close>

definition written :: "'a res \<Rightarrow> ('v \<Rightarrow> 'v) \<Rightarrow> 'v \<Rightarrow> 'v \<Rightarrow> bool" where
  "written r f v v' \<longleftrightarrow> v' = f v \<or> \<not> answered r \<and> v' = v"

lemma written_Inr [simp]: "written (Inr x) f v v' \<longleftrightarrow> v' = f v"
  by (simp add: written_def)

lemma written_Inl [simp]: "written (Inl e) f v v' \<longleftrightarrow> v' = f v \<or> v' = v"
  by (simp add: written_def)

locale chat_store =
  fixes R :: "'r chat_redis" and view :: "'r \<Rightarrow> chat_view"
  assumes zadd: "cr_ZAdd R k sc m s = (r, s') \<Longrightarrow> written r (view_zadd k sc m) (view s) (view s')"
    and hset: "cr_HSet R k f x s = (r, s') \<Longrightarrow> written r (view_hset k f x) (view s) (view s')"
    and set_ok: "cr_Set R k x s = (r, s') \<Longrightarrow> written r (view_set k x) (view s) (view s')"
    and getdel: "cr_GetDel R k s = (q, s') \<Longrightarrow> written q (view_getdel k) (view s) (view s')"
    and publish: "cr_Publish R ch m s = (r, s') \<Longrightarrow> written r (view_publish ch m) (view s) (view s')"
    and zrange_frame: "cr_ZRangeByScore R k lo off n s = (l, s') \<Longrightarrow> view s' = view s"
    and zrange_ok: "cr_ZRangeByScore R k lo off n s = (Inr ms, s') \<Longrightarrow> ms = z_from lo off n (cv_zsets (view s) k)"
    and zrev_frame: "cr_ZRevRange0 R k s = (l, s') \<Longrightarrow> view s' = view s"
    and zrev_ok: "cr_ZRevRange0 R k s = (Inr ms, s') \<Longrightarrow> ms = z_last (cv_zsets (view s) k)"
    and hget_frame: "cr_HGet R k f s = (q, s') \<Longrightarrow> view s' = view s"
    and hget_ok: "cr_HGet R k f s = (Inr x, s') \<Longrightarrow> map_of (cv_hashes (view s) k) f = Some x"
    and hgetall_frame: "cr_HGetAll R k s = (h, s') \<Longrightarrow> view s' = view s"
    and hgetall_ok: "cr_HGetAll R k s = (Inr fs, s') \<Longrightarrow> mset fs = mset (cv_hashes (view s) k)"
    and get_frame: "cr_Get R k s = (q, s') \<Longrightarrow> view s' = view s"
    and get_ok: "cr_Get R k s = (Inr x, s') \<Longrightarrow> cv_strs (view s) k = Some x"
    and get_nil: "cr_Get R k s = (Inl ErrRedisNil, s') \<Longrightarrow> cv_strs (view s) k = None"
begin

lemma zadd_Inr: "cr_ZAdd R k sc m s = (Inr x, s') \<Longrightarrow> view s' = view_zadd k sc m (view s)"
  using zadd by fastforce

lemma hset_Inr: "cr_HSet R k f y s = (Inr x, s') \<Longrightarrow> view s' = view_hset k f y (view s)"
  using hset by fastforce

lemma set_Inr: "cr_Set R k y s = (Inr x, s') \<Longrightarrow> view s' = view_set k y (view s)"
  using set_ok by fastforce

lemma publish_Inr: "cr_Publish R ch m s = (Inr x, s') \<Longrightarrow> view s' = view_publish ch m (view s)"
  using publish by fastforce

end

text \<open>
  A server that is reached: reading a string that is stored gives it, and the commands of a send leave
  the server reached.
\<close>

locale answering_chat_store = chat_store R view for R :: "'r chat_redis" and view :: "'r \<Rightarrow> chat_view" +
  fixes alive :: "'r \<Rightarrow> bool"
  assumes get_answers: "alive s \<Longrightarrow> cv_strs (view s) k = Some x \<Longrightarrow> fst (cr_Get R k s) = Inr x"
    and get_alive: "alive s \<Longrightarrow> alive (snd (cr_Get R k s))"
    and hget_alive: "alive s \<Longrightarrow> alive (snd (cr_HGet R k f s))"
    and zadd_alive: "alive s \<Longrightarrow> alive (snd (cr_ZAdd R k sc m s))"
    and publish_alive: "alive s \<Longrightarrow> alive (snd (cr_Publish R ch m s))"

section \<open>Sorted sets\<close>

definition zset_wf :: "zset \<Rightarrow> bool" where
  "zset_wf zs \<longleftrightarrow> sorted zs \<and> distinct (map snd zs)"

lemma set_z_add: "set (z_add sc m zs) = insert (sc, m) {x \<in> set zs. snd x \<noteq> m}"
  by (auto simp: z_add_def set_insort_key)

lemma z_add_wf: "zset_wf zs \<Longrightarrow> zset_wf (z_add sc m zs)"
  unfolding zset_wf_def z_add_def
  by (auto simp: sorted_insort sorted_filter [of id, simplified] distinct_map_filter distinct_map
      distinct_insort inj_on_def set_insort_key)

lemma z_add_new: "m \<notin> snd ` set zs \<Longrightarrow> z_add sc m zs = insort (sc, m) zs"
proof -
  assume "m \<notin> snd ` set zs"
  then have "filter (\<lambda>x. snd x \<noteq> m) zs = zs" by (intro filter_True) force
  then show ?thesis by (simp add: z_add_def)
qed

lemma mset_z_add_new: "m \<notin> snd ` set zs \<Longrightarrow> mset (z_add sc m zs) = add_mset (sc, m) (mset zs)"
  by (simp add: z_add_new)

lemma z_from_all: "map snd (filter (\<lambda>x. lo \<le> fst x) zs) = z_from lo 0 (- 1) zs"
  by (simp add: z_from_def limit_def)

lemma set_z_from: "set (z_from lo off n zs) \<subseteq> snd ` {x \<in> set zs. lo \<le> fst x}"
  by (auto simp: z_from_def limit_def dest!: in_set_takeD in_set_dropD split: if_splits)

section \<open>A server in memory\<close>

text \<open>
  The server of the examples: a view, and the list of the commands that fail before (\<open>Some False\<close>)
  or after (\<open>Some True\<close>) they took effect. A command on a key of another type is refused.
\<close>

record mem_chat =
  mc_view :: chat_view
  mc_faults :: "bool option list"

definition empty_view :: chat_view where
  "empty_view = \<lparr>cv_zsets = \<lambda>_. [], cv_hashes = \<lambda>_. [], cv_strs = \<lambda>_. None, cv_published = []\<rparr>"

definition mem_chat_of :: "chat_view \<Rightarrow> mem_chat" where
  "mem_chat_of v = \<lparr>mc_view = v, mc_faults = []\<rparr>"

definition mc_run :: "(chat_view \<Rightarrow> 'a res \<times> chat_view) \<Rightarrow> mem_chat \<Rightarrow> 'a res \<times> mem_chat" where
  "mc_run f s = (case mc_faults s of
     Some acted # fs \<Rightarrow> (Inl (ErrRedis ''i/o timeout''), \<lparr>mc_view = (if acted then snd (f (mc_view s)) else mc_view s), mc_faults = fs\<rparr>)
   | _ \<Rightarrow> (case f (mc_view s) of (r, v) \<Rightarrow> (r, \<lparr>mc_view = v, mc_faults = tl (mc_faults s)\<rparr>)))"

definition mc_typed :: "bool \<Rightarrow> 'a res \<Rightarrow> (chat_view \<Rightarrow> chat_view) \<Rightarrow> chat_view \<Rightarrow> 'a res \<times> chat_view" where
  "mc_typed ok r f v = (if ok then (r, f v) else (Inl wrong_type, v))"

definition is_zset :: "chat_view \<Rightarrow> string \<Rightarrow> bool" where
  "is_zset v k \<longleftrightarrow> cv_hashes v k = [] \<and> cv_strs v k = None"

definition is_hash :: "chat_view \<Rightarrow> string \<Rightarrow> bool" where
  "is_hash v k \<longleftrightarrow> cv_zsets v k = [] \<and> cv_strs v k = None"

definition is_str :: "chat_view \<Rightarrow> string \<Rightarrow> bool" where
  "is_str v k \<longleftrightarrow> cv_zsets v k = [] \<and> cv_hashes v k = []"

definition or_nil :: "string option \<Rightarrow> string res" where
  "or_nil x = (case x of None \<Rightarrow> Inl ErrRedisNil | Some y \<Rightarrow> Inr y)"

definition mem_chat_cmds :: "mem_chat chat_redis" where
  "mem_chat_cmds = \<lparr>
     cr_ZAdd = (\<lambda>k sc m. mc_run (\<lambda>v. mc_typed (is_zset v k) (Inr ()) (view_zadd k sc m) v)),
     cr_ZRangeByScore = (\<lambda>k lo off n. mc_run (\<lambda>v. mc_typed (is_zset v k) (Inr (z_from lo off n (cv_zsets v k))) id v)),
     cr_ZRevRange0 = (\<lambda>k. mc_run (\<lambda>v. mc_typed (is_zset v k) (Inr (z_last (cv_zsets v k))) id v)),
     cr_HSet = (\<lambda>k f x. mc_run (\<lambda>v. mc_typed (is_hash v k) (Inr ()) (view_hset k f x) v)),
     cr_HGet = (\<lambda>k f. mc_run (\<lambda>v. mc_typed (is_hash v k) (or_nil (map_of (cv_hashes v k) f)) id v)),
     cr_HGetAll = (\<lambda>k. mc_run (\<lambda>v. mc_typed (is_hash v k) (Inr (cv_hashes v k)) id v)),
     cr_Get = (\<lambda>k. mc_run (\<lambda>v. mc_typed (is_str v k) (or_nil (cv_strs v k)) id v)),
     cr_Set = (\<lambda>k x. mc_run (\<lambda>v. (Inr (), view_set k x v))),
     cr_GetDel = (\<lambda>k. mc_run (\<lambda>v. mc_typed (is_str v k) (or_nil (cv_strs v k)) (view_getdel k) v)),
     cr_Publish = (\<lambda>ch m. mc_run (\<lambda>v. (Inr (), view_publish ch m v)))\<rparr>"

lemma mc_run_cases:
  assumes "mc_run f s = (r, s')"
  obtains "f (mc_view s) = (r, mc_view s')"
    | "r = Inl (ErrRedis ''i/o timeout'')" "mc_view s' = mc_view s \<or> mc_view s' = snd (f (mc_view s))"
  using assms by (auto simp: mc_run_def split: list.splits option.splits prod.splits if_splits)

lemma mc_typed_written:
  assumes "mc_run (\<lambda>v. mc_typed (P v) (q v) f v) s = (r, s')"
  shows "written r f (mc_view s) (mc_view s')"
  using assms by (rule mc_run_cases) (auto simp: mc_typed_def written_def split: if_splits sum.splits)

lemma mc_read_frame:
  assumes "mc_run (\<lambda>v. mc_typed (P v) (q v) id v) s = (r, s')"
  shows "mc_view s' = mc_view s"
  using assms by (rule mc_run_cases) (auto simp: mc_typed_def split: if_splits)

lemma mc_read_ok:
  assumes "mc_run (\<lambda>v. mc_typed (P v) (q v) id v) s = (Inr x, s')"
  shows "q (mc_view s) = Inr x"
  using assms by (rule mc_run_cases) (auto simp: mc_typed_def split: if_splits)

lemma mc_read_nil:
  assumes "mc_run (\<lambda>v. mc_typed (P v) (q v) id v) s = (Inl ErrRedisNil, s')"
  shows "q (mc_view s) = Inl ErrRedisNil"
  using assms by (rule mc_run_cases) (auto simp: mc_typed_def wrong_type_def split: if_splits)

lemma mc_run_written:
  assumes "mc_run (\<lambda>v. (Inr (), f v)) s = (r, s')"
  shows "written r f (mc_view s) (mc_view s')"
  using assms by (rule mc_run_cases) auto

lemma or_nil_Inr [simp]: "or_nil x = Inr y \<longleftrightarrow> x = Some y" "or_nil x = Inl e \<longleftrightarrow> x = None \<and> e = ErrRedisNil"
  by (auto simp: or_nil_def split: option.splits)

interpretation memc: chat_store mem_chat_cmds mc_view
proof
  note [simp] = mem_chat_cmds_def
  fix k f m x ch :: string and sc lo off n :: int and s s' :: mem_chat
  fix r :: "unit res" and l :: "string list res" and q :: "string res" and h :: "(string \<times> string) list res"
  show "cr_ZAdd mem_chat_cmds k sc m s = (r, s') \<Longrightarrow> written r (view_zadd k sc m) (mc_view s) (mc_view s')"
    by (simp add: mc_typed_written)
  show "cr_HSet mem_chat_cmds k f x s = (r, s') \<Longrightarrow> written r (view_hset k f x) (mc_view s) (mc_view s')"
    by (simp add: mc_typed_written)
  show "cr_Set mem_chat_cmds k x s = (r, s') \<Longrightarrow> written r (view_set k x) (mc_view s) (mc_view s')"
    by (simp add: mc_run_written)
  show "cr_GetDel mem_chat_cmds k s = (q, s') \<Longrightarrow> written q (view_getdel k) (mc_view s) (mc_view s')"
    by (auto simp: mc_typed_def written_def view_getdel_def fun_upd_idem elim!: mc_run_cases split: if_splits sum.splits)
  show "cr_Publish mem_chat_cmds ch m s = (r, s') \<Longrightarrow> written r (view_publish ch m) (mc_view s) (mc_view s')"
    by (simp add: mc_run_written)
  show "cr_ZRangeByScore mem_chat_cmds k lo off n s = (l, s') \<Longrightarrow> mc_view s' = mc_view s"
    by (simp add: mc_read_frame)
  show "cr_ZRangeByScore mem_chat_cmds k lo off n s = (Inr ms, s') \<Longrightarrow> ms = z_from lo off n (cv_zsets (mc_view s) k)" for ms
    by (auto dest: mc_read_ok)
  show "cr_ZRevRange0 mem_chat_cmds k s = (l, s') \<Longrightarrow> mc_view s' = mc_view s"
    by (simp add: mc_read_frame)
  show "cr_ZRevRange0 mem_chat_cmds k s = (Inr ms, s') \<Longrightarrow> ms = z_last (cv_zsets (mc_view s) k)" for ms
    by (auto dest: mc_read_ok)
  show "cr_HGet mem_chat_cmds k f s = (q, s') \<Longrightarrow> mc_view s' = mc_view s"
    by (simp add: mc_read_frame)
  show "cr_HGet mem_chat_cmds k f s = (Inr x, s') \<Longrightarrow> map_of (cv_hashes (mc_view s) k) f = Some x"
    by (auto dest: mc_read_ok)
  show "cr_HGetAll mem_chat_cmds k s = (h, s') \<Longrightarrow> mc_view s' = mc_view s"
    by (simp add: mc_read_frame)
  show "cr_HGetAll mem_chat_cmds k s = (Inr fs, s') \<Longrightarrow> mset fs = mset (cv_hashes (mc_view s) k)" for fs
    by (auto dest: mc_read_ok)
  show "cr_Get mem_chat_cmds k s = (q, s') \<Longrightarrow> mc_view s' = mc_view s"
    by (simp add: mc_read_frame)
  show "cr_Get mem_chat_cmds k s = (Inr x, s') \<Longrightarrow> cv_strs (mc_view s) k = Some x"
    by (auto dest: mc_read_ok)
  show "cr_Get mem_chat_cmds k s = (Inl ErrRedisNil, s') \<Longrightarrow> cv_strs (mc_view s) k = None"
    by (auto dest: mc_read_nil)
qed

text \<open>It is reached while no fault is to come and every key with a string holds nothing else.\<close>

definition mc_alive :: "mem_chat \<Rightarrow> bool" where
  "mc_alive s \<longleftrightarrow> mc_faults s = [] \<and> (\<forall>k. cv_strs (mc_view s) k \<noteq> None \<longrightarrow> is_str (mc_view s) k)"

interpretation memup: answering_chat_store mem_chat_cmds mc_view mc_alive
proof
  note [simp] = mem_chat_cmds_def mc_run_def mc_typed_def mc_alive_def
  fix k f m x ch :: string and sc :: int and s :: mem_chat
  show "mc_alive s \<Longrightarrow> cv_strs (mc_view s) k = Some x \<Longrightarrow> fst (cr_Get mem_chat_cmds k s) = Inr x"
    by (simp add: or_nil_def)
  show "mc_alive s \<Longrightarrow> mc_alive (snd (cr_Get mem_chat_cmds k s))"
    and "mc_alive s \<Longrightarrow> mc_alive (snd (cr_HGet mem_chat_cmds k f s))" by simp_all
  show "mc_alive s \<Longrightarrow> mc_alive (snd (cr_ZAdd mem_chat_cmds k sc m s))"
    by (auto simp: is_str_def is_zset_def view_zadd_def)
  show "mc_alive s \<Longrightarrow> mc_alive (snd (cr_Publish mem_chat_cmds ch m s))"
    by (simp add: is_str_def view_publish_def)
qed

end
