(* ===== verification/Chat.thy ===== *)
theory Chat
  imports Chat_Entities Chat_Redis
begin

text \<open>
  Packages \<^verbatim>\<open>backend/pkg/chat/usecase\<close> and \<^verbatim>\<open>controller\<close>. Every user keeps an own copy of each
  conversation, in a hash; the messages of a conversation are a sorted set; the conversation a
  user has open is a string. \<open>uc_X\<close> is the method \<^verbatim>\<open>ucs.X\<close>, \<open>ct_X\<close> the method \<^verbatim>\<open>ctrl.X\<close>. The two
  codecs are the arguments \<open>GM\<close> and \<open>GC\<close>. \<^verbatim>\<open>SendMessage\<close> takes and gives back a lock around its
  work and \<^verbatim>\<open>GetMessages\<close> one of another key; a request alone always gets them, and \<open>Chat_Threads\<close>
  has several at once.
\<close>

section \<open>usecase: messages\<close>

definition uc_SendMessage ::
    "chat_message gob \<Rightarrow> 'r chat_redis \<Rightarrow> string \<Rightarrow> chat_message \<Rightarrow> 'r \<Rightarrow> unit res \<times> 'r" where
  "uc_SendMessage GM R conversation_id m s =
     check_err (msg_EncodeBinary GM m, s) same_err (\<lambda>val s.
     check_err (cr_ZAdd R (GetConversationMessagesKey conversation_id) (unix (cm_CreatedAt (msg_GetRaw m))) val s)
       same_err (\<lambda>_ s.
     cr_Publish R (GetConversationPubSubKey conversation_id) val s))"

definition uc_getConversation ::
    "conversation gob \<Rightarrow> 'r chat_redis \<Rightarrow> string \<Rightarrow> string \<Rightarrow> 'r \<Rightarrow> conversation res \<times> 'r" where
  "uc_getConversation GC R user_id conversation_id s =
     check_err (cr_HGet R (GetUserConversationsKey user_id) conversation_id s) same_err (\<lambda>c s.
       (conv_DecodeBinary GC c, s))"

text \<open>The messages from the time the user joined; the error of decoding one is ignored.\<close>

definition uc_GetMessages ::
    "chat_message gob \<Rightarrow> conversation gob \<Rightarrow> 'r chat_redis \<Rightarrow> string \<Rightarrow> string \<Rightarrow> int \<Rightarrow> 'r \<Rightarrow> pb_chat_message list res \<times> 'r" where
  "uc_GetMessages GM GC R user_id conversation_id off s =
     check_err (uc_getConversation GC R user_id conversation_id s) same_err (\<lambda>conv s.
     check_ok (map_of (cn_Participants conv) user_id) (Errorf ''participant not found: %v'' []) (\<lambda>p s.
     check_err (cr_ZRangeByScore R (GetConversationMessagesKey conversation_id) (unix (pt_JoinedAt p)) off
         (MessagesLimit + 1) s) same_err (\<lambda>vals s.
     (Inr (map (\<lambda>v. msg_ToProtobuf (snd (msg_DecodeBinary GM v))) vals), s))) s)"

text \<open>
  \<^verbatim>\<open>Subscribe\<close>: the messages decoded from the payloads of the channel, up to the first that does not
  decode, where the channel of messages is closed.
\<close>

fun uc_Subscribe :: "chat_message gob \<Rightarrow> string list \<Rightarrow> chat_message list \<times> bool" where
  "uc_Subscribe GM [] = ([], False)"
| "uc_Subscribe GM (payload # payloads) =
     (case msg_DecodeBinary GM payload of
        (Some e, _) \<Rightarrow> ([], True)
      | (None, m) \<Rightarrow> (case uc_Subscribe GM payloads of (ms, closed) \<Rightarrow> (m # ms, closed)))"

section \<open>usecase: conversations\<close>

fun create_conversation_loop ::
    "conversation gob \<Rightarrow> 'r chat_redis \<Rightarrow> conversation \<Rightarrow> string list \<Rightarrow> 'r \<Rightarrow> unit res \<times> 'r" where
  "create_conversation_loop GC R c [] s = (Inr (), s)"
| "create_conversation_loop GC R c (u # us) s =
     check_err (conv_EncodeBinary GC c, s) same_err (\<lambda>b64 s.
     check_err (cr_HSet R (GetUserConversationsKey u) (cn_ID c) b64 s) same_err (\<lambda>_ s.
     create_conversation_loop GC R c us s))"

definition uc_CreateConversation :: "conversation gob \<Rightarrow> 'r chat_redis \<Rightarrow> conversation \<Rightarrow> 'r \<Rightarrow> unit res \<times> 'r" where
  "uc_CreateConversation GC R conv =
     create_conversation_loop GC R (conv_GetRaw conv) (map fst (cn_Participants (conv_GetRaw conv)))"

definition uc_SetActiveConversation :: "'r chat_redis \<Rightarrow> string \<Rightarrow> string \<Rightarrow> 'r \<Rightarrow> unit res \<times> 'r" where
  "uc_SetActiveConversation R user_id conversation_id =
     cr_Set R (GetActiveUserConversationIDKey user_id) conversation_id"

definition uc_DeleteActiveConversation :: "'r chat_redis \<Rightarrow> string \<Rightarrow> 'r \<Rightarrow> unit res \<times> 'r" where
  "uc_DeleteActiveConversation R user_id s =
     check_err (cr_GetDel R (GetActiveUserConversationIDKey user_id) s) same_err (\<lambda>_ s. (Inr (), s))"

text \<open>The last message of a conversation is read from the sorted set each time.\<close>

definition with_last_message ::
    "chat_message gob \<Rightarrow> 'r chat_redis \<Rightarrow> string \<Rightarrow> conversation \<Rightarrow> 'r \<Rightarrow> conversation res \<times> 'r" where
  "with_last_message GM R conversation_id conv s =
     check_err (cr_ZRevRange0 R (GetConversationMessagesKey conversation_id) s) same_err (\<lambda>ms s.
       (case ms of
          [] \<Rightarrow> (Inr conv, s)
        | v # _ \<Rightarrow> (case msg_DecodeBinary GM v of
            (Some e, _) \<Rightarrow> (Inl e, s)
          | (None, m) \<Rightarrow> (Inr (conv\<lparr>cn_LastMessage := Some m\<rparr>), s))))"

definition uc_GetConversation ::
    "chat_message gob \<Rightarrow> conversation gob \<Rightarrow> 'r chat_redis \<Rightarrow> string \<Rightarrow> string \<Rightarrow> 'r \<Rightarrow> pb_conversation res \<times> 'r" where
  "uc_GetConversation GM GC R user_id conversation_id s =
     check_err (uc_getConversation GC R user_id conversation_id s) same_err (\<lambda>conv s.
     check_err (with_last_message GM R conversation_id conv s) same_err (\<lambda>conv s. (Inr (conv_ToProtobuf conv), s)))"

definition uc_ReadConversationMessages ::
    "conversation gob \<Rightarrow> 'r chat_redis \<Rightarrow> string \<Rightarrow> string \<Rightarrow> 'r \<Rightarrow> pb_conversation res \<times> 'r" where
  "uc_ReadConversationMessages GC R user_id conversation_id s =
     check_err (uc_getConversation GC R user_id conversation_id s) same_err (\<lambda>conv s.
     let conv = conv\<lparr>cn_UnreadMessagesCount := 0\<rparr> in
     check_err (conv_EncodeBinary GC conv, s) same_err (\<lambda>b64 s.
     check_err (cr_HSet R (GetUserConversationsKey user_id) (cn_ID conv) b64 s) same_err (\<lambda>_ s.
     (Inr (conv_ToProtobuf conv), s))))"

text \<open>\<^verbatim>\<open>decodeConversation\<close>; the params are never nil. \<^verbatim>\<open>None\<close>: the user asked for is no participant.\<close>

definition uc_decodeConversation ::
    "chat_message gob \<Rightarrow> conversation gob \<Rightarrow> 'r chat_redis \<Rightarrow> string \<Rightarrow> string \<Rightarrow> 'r \<Rightarrow> conversation option res \<times> 'r" where
  "uc_decodeConversation GM GC R str must s =
     check_err (conv_DecodeBinary GC str, s) same_err (\<lambda>conv s.
     if must \<noteq> [] \<and> map_of (cn_Participants conv) must = None then (Inr None, s)
     else check_err (with_last_message GM R (cn_ID conv) conv s) same_err (\<lambda>conv s. (Inr (Some conv), s)))"

fun conversations_loop ::
    "chat_message gob \<Rightarrow> conversation gob \<Rightarrow> 'r chat_redis \<Rightarrow> string \<Rightarrow> string list \<Rightarrow> 'r \<Rightarrow> pb_conversation list res \<times> 'r" where
  "conversations_loop GM GC R must [] s = (Inr [], s)"
| "conversations_loop GM GC R must (str # strs) s =
     check_err (uc_decodeConversation GM GC R str must s) same_err (\<lambda>conv s.
     check_err (conversations_loop GM GC R must strs s) same_err (\<lambda>cs s.
     (Inr (case conv of None \<Rightarrow> cs | Some c \<Rightarrow> conv_ToProtobuf c # cs), s)))"

definition uc_GetConversations ::
    "chat_message gob \<Rightarrow> conversation gob \<Rightarrow> 'r chat_redis \<Rightarrow> string \<Rightarrow> 'r \<Rightarrow> pb_conversation list res \<times> 'r" where
  "uc_GetConversations GM GC R user_id s =
     check_err (cr_HGetAll R (GetUserConversationsKey user_id) s) same_err (\<lambda>c s.
       conversations_loop GM GC R '''' (map snd c) s)"

definition uc_GetConversationsWithUser ::
    "chat_message gob \<Rightarrow> conversation gob \<Rightarrow> 'r chat_redis \<Rightarrow> string \<Rightarrow> string \<Rightarrow> 'r \<Rightarrow> pb_conversation list res \<times> 'r" where
  "uc_GetConversationsWithUser GM GC R user_id target s =
     check_err (cr_HGetAll R (GetUserConversationsKey user_id) s) same_err (\<lambda>c s.
       conversations_loop GM GC R target (map snd c) s)"

section \<open>usecase: unread counts\<close>

text \<open>
  \<^verbatim>\<open>GetConversationInactiveUsers\<close>: the case for an error other than \<^verbatim>\<open>redis.Nil\<close> is never reached,
  because the value beside an error is empty and an empty value counts as inactive.
\<close>

definition is_inactive :: "'r chat_redis \<Rightarrow> string \<Rightarrow> participant \<Rightarrow> 'r \<Rightarrow> bool \<times> 'r" where
  "is_inactive R conversation_id p s = (case cr_Get R (GetActiveUserConversationIDKey (pt_UserID p)) s of
     (Inl e, s) \<Rightarrow> (True, s)
   | (Inr active, s) \<Rightarrow> (active = [] \<or> active \<noteq> conversation_id, s))"

fun inactive_loop :: "'r chat_redis \<Rightarrow> string \<Rightarrow> participant list \<Rightarrow> 'r \<Rightarrow> string list \<times> 'r" where
  "inactive_loop R conversation_id [] s = ([], s)"
| "inactive_loop R conversation_id (p # ps) s =
     (case is_inactive R conversation_id p s of (inactive, s) \<Rightarrow>
      case inactive_loop R conversation_id ps s of (us, s) \<Rightarrow>
        ((if inactive then pt_UserID p # us else us), s))"

definition uc_GetConversationInactiveUsers ::
    "conversation gob \<Rightarrow> 'r chat_redis \<Rightarrow> string \<Rightarrow> string \<Rightarrow> 'r \<Rightarrow> string list res \<times> 'r" where
  "uc_GetConversationInactiveUsers GC R sender conversation_id s =
     check_err (uc_getConversation GC R sender conversation_id s) same_err (\<lambda>conv s.
     case inactive_loop R conversation_id (map snd (cn_Participants conv)) s of (us, s) \<Rightarrow> (Inr us, s))"

definition uc_IncrementInactiveUserMsgsCount ::
    "conversation gob \<Rightarrow> 'r chat_redis \<Rightarrow> string \<Rightarrow> string \<Rightarrow> 'r \<Rightarrow> unit res \<times> 'r" where
  "uc_IncrementInactiveUserMsgsCount GC R user_id conversation_id s =
     check_err (uc_getConversation GC R user_id conversation_id s) same_err (\<lambda>conv s.
     let conv = conv\<lparr>cn_UnreadMessagesCount := incr64 (cn_UnreadMessagesCount conv)\<rparr> in
     check_err (conv_EncodeBinary GC conv, s) same_err (\<lambda>b64 s.
     cr_HSet R (GetUserConversationsKey user_id) (cn_ID conv) b64 s))"

section \<open>controller\<close>

fun increment_loop :: "conversation gob \<Rightarrow> 'r chat_redis \<Rightarrow> string \<Rightarrow> string list \<Rightarrow> 'r \<Rightarrow> unit res \<times> 'r" where
  "increment_loop GC R ch [] s = (Inr (), s)"
| "increment_loop GC R ch (u # us) s =
     check_err (uc_IncrementInactiveUserMsgsCount GC R u ch s) same_err (\<lambda>_ s. increment_loop GC R ch us s)"

definition ct_SendMessage ::
    "chat_message gob \<Rightarrow> conversation gob \<Rightarrow> 'r chat_redis \<Rightarrow> string \<Rightarrow> chat_message \<Rightarrow> 'r \<Rightarrow> unit res \<times> 'r" where
  "ct_SendMessage GM GC R ch m s =
     check_err (uc_SendMessage GM R ch m s) same_err (\<lambda>_ s.
     check_err (uc_GetConversationInactiveUsers GC R (cm_UserID (msg_GetRaw m)) ch s) same_err (\<lambda>us s.
     if 0 < length us then increment_loop GC R ch us s else (Inr (), s)))"

record pb_messages =
  pms_messages :: "pb_chat_message list"
  pms_has_more :: bool

definition ct_GetMessages ::
    "chat_message gob \<Rightarrow> conversation gob \<Rightarrow> 'r chat_redis \<Rightarrow> string \<Rightarrow> string \<Rightarrow> int \<Rightarrow> 'r \<Rightarrow> pb_messages res \<times> 'r" where
  "ct_GetMessages GM GC R user_id ch off s =
     check_err (uc_GetMessages GM GC R user_id ch off s) same_err (\<lambda>ms s.
     let has_more = int (length ms) > MessagesLimit in
     if has_more \<and> length ms \<noteq> 0 then (Inr \<lparr>pms_messages = take (length ms - 1) ms, pms_has_more = has_more\<rparr>, s)
     else (Inr \<lparr>pms_messages = ms, pms_has_more = has_more\<rparr>, s))"

text \<open>\<^verbatim>\<open>ListenForMessages\<close> hands on what \<^verbatim>\<open>Subscribe\<close> delivers, and closes when it closes.\<close>

definition ct_ListenForMessages :: "chat_message gob \<Rightarrow> string list \<Rightarrow> chat_message list \<times> bool" where
  "ct_ListenForMessages GM payloads = uc_Subscribe GM payloads"

definition ct_CreateConversation :: "conversation gob \<Rightarrow> 'r chat_redis \<Rightarrow> conversation \<Rightarrow> 'r \<Rightarrow> unit res \<times> 'r" where
  "ct_CreateConversation = uc_CreateConversation"

definition ct_SetActiveConversation :: "'r chat_redis \<Rightarrow> string \<Rightarrow> string \<Rightarrow> 'r \<Rightarrow> unit res \<times> 'r" where
  "ct_SetActiveConversation = uc_SetActiveConversation"

definition ct_DeleteActiveConversation :: "'r chat_redis \<Rightarrow> string \<Rightarrow> 'r \<Rightarrow> unit res \<times> 'r" where
  "ct_DeleteActiveConversation = uc_DeleteActiveConversation"

definition ct_GetConversation ::
    "chat_message gob \<Rightarrow> conversation gob \<Rightarrow> 'r chat_redis \<Rightarrow> string \<Rightarrow> string \<Rightarrow> 'r \<Rightarrow> pb_conversation res \<times> 'r" where
  "ct_GetConversation = uc_GetConversation"

definition ct_GetConversations ::
    "chat_message gob \<Rightarrow> conversation gob \<Rightarrow> 'r chat_redis \<Rightarrow> string \<Rightarrow> 'r \<Rightarrow> pb_conversation list res \<times> 'r" where
  "ct_GetConversations = uc_GetConversations"

definition ct_GetConversationsWithUser ::
    "chat_message gob \<Rightarrow> conversation gob \<Rightarrow> 'r chat_redis \<Rightarrow> string \<Rightarrow> string \<Rightarrow> 'r \<Rightarrow> pb_conversation list res \<times> 'r" where
  "ct_GetConversationsWithUser = uc_GetConversationsWithUser"

definition ct_ReadConversationMessages ::
    "conversation gob \<Rightarrow> 'r chat_redis \<Rightarrow> string \<Rightarrow> string \<Rightarrow> 'r \<Rightarrow> pb_conversation res \<times> 'r" where
  "ct_ReadConversationMessages = uc_ReadConversationMessages"

section \<open>The copies of a conversation\<close>

definition copy_of :: "conversation gob \<Rightarrow> chat_view \<Rightarrow> string \<Rightarrow> string \<Rightarrow> conversation option" where
  "copy_of GC v u c = (case map_of (cv_hashes v (GetUserConversationsKey u)) c of
     None \<Rightarrow> None
   | Some str \<Rightarrow> (case conv_DecodeBinary GC str of Inl _ \<Rightarrow> None | Inr conv \<Rightarrow> Some conv))"

definition active_of :: "chat_view \<Rightarrow> string \<Rightarrow> string option" where
  "active_of v u = cv_strs v (GetActiveUserConversationIDKey u)"

text \<open>What is stored of a conversation never has the last message in it.\<close>

definition stored_form :: "conversation \<Rightarrow> bool" where
  "stored_form c \<longleftrightarrow> cn_LastMessage c = None"

lemma copy_of_hset:
  assumes "gob_contract stored_form GC" and "stored_form conv" and "conv_EncodeBinary GC conv = Inr str"
  shows "copy_of GC (view_hset (GetUserConversationsKey u) c str v) u' c' =
    (if u' = u \<and> c' = c then Some conv else copy_of GC v u' c')"
  using conv_decode_encode [OF assms] by (auto simp: copy_of_def view_hset_def update_conv')

lemma view_hset_other [simp]:
  "cv_zsets (view_hset k f x v) = cv_zsets v" "cv_strs (view_hset k f x v) = cv_strs v"
  "cv_published (view_hset k f x v) = cv_published v" "active_of (view_hset k f x v) = active_of v"
  by (simp_all add: view_hset_def active_of_def fun_eq_iff)

lemma view_zadd_other [simp]:
  "cv_hashes (view_zadd k sc m v) = cv_hashes v" "cv_strs (view_zadd k sc m v) = cv_strs v"
  "copy_of GC (view_zadd k sc m v) = copy_of GC v" "active_of (view_zadd k sc m v) = active_of v"
  "cv_published (view_zadd k sc m v) = cv_published v"
  by (simp_all add: view_zadd_def active_of_def copy_of_def fun_eq_iff)

lemma view_publish_other [simp]:
  "cv_hashes (view_publish ch m v) = cv_hashes v" "cv_strs (view_publish ch m v) = cv_strs v"
  "cv_zsets (view_publish ch m v) = cv_zsets v" "copy_of GC (view_publish ch m v) = copy_of GC v"
  "active_of (view_publish ch m v) = active_of v"
  by (simp_all add: view_publish_def active_of_def copy_of_def fun_eq_iff)

context chat_store
begin

lemma getConversation_frame: "uc_getConversation GC R u c s = (r, s') \<Longrightarrow> view s' = view s"
  by (cases "cr_HGet R (GetUserConversationsKey u) c s"; cases "fst (cr_HGet R (GetUserConversationsKey u) c s)")
     (auto simp: uc_getConversation_def dest: hget_frame)

lemma getConversation_Inr:
  assumes "uc_getConversation GC R u c s = (Inr conv, s')"
  shows "copy_of GC (view s) u c = Some conv" and "view s' = view s"
  using assms getConversation_frame [OF assms]
  by (auto simp: uc_getConversation_def ok_simps copy_of_def dest!: hget_ok)

lemma SendMessage_Inr:
  assumes "uc_SendMessage GM R c m s = (Inr x, s')"
  obtains str where "msg_EncodeBinary GM m = Inr str"
    and "view s' = view_publish (GetConversationPubSubKey c) str
      (view_zadd (GetConversationMessagesKey c) (unix (cm_CreatedAt m)) str (view s))"
  using assms by (auto simp: uc_SendMessage_def ok_simps msg_GetRaw_def dest!: zadd_Inr publish_Inr)

lemma with_last_message_frame: "with_last_message GM R c conv s = (r, s') \<Longrightarrow> view s' = view s"
  by (cases "cr_ZRevRange0 R (GetConversationMessagesKey c) s"; cases "fst (cr_ZRevRange0 R (GetConversationMessagesKey c) s)")
     (auto simp: with_last_message_def dest: zrev_frame split: list.splits prod.splits option.splits)

lemma with_last_message_Inr:
  assumes "with_last_message GM R c conv s = (Inr conv', s')"
  shows "case z_last (cv_zsets (view s) (GetConversationMessagesKey c)) of
     [] \<Rightarrow> conv' = conv
   | v # _ \<Rightarrow> \<exists>m. msg_DecodeBinary GM v = (None, m) \<and> conv' = conv\<lparr>cn_LastMessage := Some m\<rparr>"
proof -
  from assms obtain ms s1 where "cr_ZRevRange0 R (GetConversationMessagesKey c) s = (Inr ms, s1)"
    and "(case ms of [] \<Rightarrow> (Inr conv, s1)
        | v # _ \<Rightarrow> (case msg_DecodeBinary GM v of
            (Some e, _) \<Rightarrow> (Inl e, s1) | (None, m) \<Rightarrow> (Inr (conv\<lparr>cn_LastMessage := Some m\<rparr>), s1))) = (Inr conv', s')"
    by (auto simp only: with_last_message_def check_err_Inr)
  with zrev_ok show ?thesis by (cases ms) (fastforce split: prod.splits option.splits)+
qed

lemma Increment_Inr:
  assumes "gob_contract stored_form GC" and "copy_of GC (view s) u c = Some conv" and "cn_ID conv = c" and "stored_form conv"
    and "uc_IncrementInactiveUserMsgsCount GC R u c s = (Inr x, s')"
  shows "copy_of GC (view s') u' c' = (if u' = u \<and> c' = c
      then Some (conv\<lparr>cn_UnreadMessagesCount := incr64 (cn_UnreadMessagesCount conv)\<rparr>) else copy_of GC (view s) u' c')"
    and "cv_zsets (view s') = cv_zsets (view s)" and "cv_strs (view s') = cv_strs (view s)"
    and "cv_published (view s') = cv_published (view s)"
proof -
  let ?conv = "conv\<lparr>cn_UnreadMessagesCount := incr64 (cn_UnreadMessagesCount conv)\<rparr>"
  from assms(5) obtain conv0 s1 str where get: "uc_getConversation GC R u c s = (Inr conv0, s1)"
    and enc: "conv_EncodeBinary GC (conv0\<lparr>cn_UnreadMessagesCount := incr64 (cn_UnreadMessagesCount conv0)\<rparr>) = Inr str"
    and hset: "cr_HSet R (GetUserConversationsKey u) (cn_ID conv0) str s1 = (Inr x, s')"
    by (auto simp: uc_IncrementInactiveUserMsgsCount_def Let_def ok_simps)
  from getConversation_Inr [OF get] assms(2) have [simp]: "conv0 = conv" and s1: "view s1 = view s" by simp_all
  have v': "view s' = view_hset (GetUserConversationsKey u) c str (view s)"
    using hset_Inr [OF hset] s1 assms(3) by simp
  have "stored_form ?conv" using assms(4) by (simp add: stored_form_def)
  with copy_of_hset [OF assms(1)] enc show "copy_of GC (view s') u' c' = (if u' = u \<and> c' = c
      then Some ?conv else copy_of GC (view s) u' c')" by (simp add: v')
  show "cv_zsets (view s') = cv_zsets (view s)" "cv_strs (view s') = cv_strs (view s)"
    "cv_published (view s') = cv_published (view s)" by (simp_all add: v')
qed

lemma is_inactive_view:
  assumes "is_inactive R c p s = (b, s')"
  shows "view s' = view s" and "active_of (view s) (pt_UserID p) \<noteq> Some c \<Longrightarrow> b"
proof -
  show "view s' = view s" "active_of (view s) (pt_UserID p) \<noteq> Some c \<Longrightarrow> b"
    using assms by (auto simp: is_inactive_def active_of_def dest: get_frame get_ok split: prod.splits sum.splits)
qed

lemma inactive_loop_view:
  assumes "inactive_loop R c ps s = (us, s')"
  shows "view s' = view s \<and> set us \<subseteq> pt_UserID ` set ps \<and>
    (\<forall>p \<in> set ps. active_of (view s) (pt_UserID p) \<noteq> Some c \<longrightarrow> pt_UserID p \<in> set us) \<and>
    (distinct (map pt_UserID ps) \<longrightarrow> distinct us)"
  using assms
proof (induction ps arbitrary: s us s')
  case (Cons p ps)
  obtain b s1 where b: "is_inactive R c p s = (b, s1)" by fastforce
  obtain us1 s2 where loop: "inactive_loop R c ps s1 = (us1, s2)" by fastforce
  from Cons.prems have us: "us = (if b then pt_UserID p # us1 else us1)" and "s' = s2" by (simp_all add: b loop)
  with is_inactive_view [OF b] Cons.IH [OF loop] show ?case by auto
qed simp

end

context answering_chat_store
begin

lemma is_inactive_alive:
  assumes "alive s" and "is_inactive R c p s = (b, s')"
  shows "alive s'" and "active_of (view s) (pt_UserID p) = Some c \<Longrightarrow> c \<noteq> '''' \<Longrightarrow> \<not> b"
proof -
  let ?r = "cr_Get R (GetActiveUserConversationIDKey (pt_UserID p)) s"
  show "alive s'"
    using get_alive [OF assms(1), of "GetActiveUserConversationIDKey (pt_UserID p)"] assms(2)
    by (cases ?r; cases "fst ?r") (auto simp: is_inactive_def)
  show "\<not> b" if "active_of (view s) (pt_UserID p) = Some c" "c \<noteq> ''''"
    using get_answers [OF assms(1) that(1) [unfolded active_of_def]] assms(2) that(2)
    by (cases ?r) (auto simp: is_inactive_def)
qed

lemma inactive_loop_alive:
  assumes "alive s" and "inactive_loop R c ps s = (us, s')" and "active_of (view s) u = Some c" and "c \<noteq> ''''"
  shows "u \<notin> set us"
  using assms
proof (induction ps arbitrary: s us s')
  case (Cons p ps)
  obtain b s1 where b: "is_inactive R c p s = (b, s1)" by fastforce
  obtain us1 s2 where loop: "inactive_loop R c ps s1 = (us1, s2)" by fastforce
  from Cons.prems(2) have us: "us = (if b then pt_UserID p # us1 else us1)" by (simp add: b loop)
  have "active_of (view s1) u = Some c" using is_inactive_view(1) [OF b] Cons.prems(3) by simp
  then have "u \<notin> set us1" using Cons.IH [OF is_inactive_alive(1) [OF Cons.prems(1) b] loop] Cons.prems(4) by simp
  moreover have "b \<Longrightarrow> pt_UserID p \<noteq> u" using is_inactive_alive(2) [OF Cons.prems(1) b] Cons.prems(3,4) by auto
  ultimately show ?case by (auto simp: us)
qed simp

lemma getConversation_alive: "alive s \<Longrightarrow> uc_getConversation GC R u c s = (r, s') \<Longrightarrow> alive s'"
  using hget_alive [of s "GetUserConversationsKey u" c]
  by (cases "cr_HGet R (GetUserConversationsKey u) c s"; cases "fst (cr_HGet R (GetUserConversationsKey u) c s)")
     (auto simp: uc_getConversation_def)

lemma SendMessage_alive: "alive s \<Longrightarrow> uc_SendMessage GM R c m s = (Inr x, s') \<Longrightarrow> alive s'"
  by (auto simp: uc_SendMessage_def ok_simps) (metis zadd_alive publish_alive snd_conv)

end

end
