(* ===== verification/Chat_Copies.thy ===== *)
theory Chat_Copies
  imports Chat
begin

text \<open>
  What holds of the copies of a conversation its participants keep: who has one more unread message
  after a message is sent, that the copies never disagree on who takes part, whatever commands fail,
  what a page of messages holds, and that what was created and sent is read back.
\<close>

section \<open>Unread counts\<close>

definition one_more_unread :: "conversation \<Rightarrow> conversation" where
  "one_more_unread conv = conv\<lparr>cn_UnreadMessagesCount := incr64 (cn_UnreadMessagesCount conv)\<rparr>"

lemma one_more_unread_simps [simp]:
  "cn_ID (one_more_unread conv) = cn_ID conv" "cn_Participants (one_more_unread conv) = cn_Participants conv"
  "cn_CreatedAt (one_more_unread conv) = cn_CreatedAt conv" "stored_form (one_more_unread conv) = stored_form conv"
  "cn_UnreadMessagesCount (one_more_unread conv) = incr64 (cn_UnreadMessagesCount conv)"
  by (simp_all add: one_more_unread_def stored_form_def)

text \<open>Every participant has a copy of the conversation, and the copies name the same participants.\<close>

definition shared_conversation :: "conversation gob \<Rightarrow> chat_view \<Rightarrow> string \<Rightarrow> (string \<times> participant) list \<Rightarrow> bool" where
  "shared_conversation GC v c ps \<longleftrightarrow> distinct (map fst ps) \<and> (\<forall>(u, p) \<in> set ps. pt_UserID p = u) \<and>
     (\<forall>u \<in> fst ` set ps. \<exists>conv. copy_of GC v u c = Some conv \<and> cn_ID conv = c \<and> stored_form conv \<and>
        cn_Participants conv = ps)"

lemma shared_user_ids: "shared_conversation GC v c ps \<Longrightarrow> map (pt_UserID \<circ> snd) ps = map fst ps"
  by (auto simp: shared_conversation_def)

lemma shared_copy:
  "shared_conversation GC v c ps \<Longrightarrow> u \<in> fst ` set ps \<Longrightarrow>
     \<exists>conv. copy_of GC v u c = Some conv \<and> cn_ID conv = c \<and> stored_form conv \<and> cn_Participants conv = ps"
  unfolding shared_conversation_def by blast

context chat_store
begin

lemma increment_loop_Inr:
  assumes "gob_contract stored_form GC" and "distinct us"
    and "\<forall>u \<in> set us. \<exists>conv. copy_of GC (view s) u c = Some conv \<and> cn_ID conv = c \<and> stored_form conv"
    and "increment_loop GC R c us s = (Inr x, s')"
  shows "(\<forall>u c'. copy_of GC (view s') u c' =
      (if u \<in> set us \<and> c' = c then map_option one_more_unread (copy_of GC (view s) u c) else copy_of GC (view s) u c')) \<and>
    cv_zsets (view s') = cv_zsets (view s) \<and> cv_strs (view s') = cv_strs (view s) \<and>
    cv_published (view s') = cv_published (view s)"
  using assms(2-)
proof (induction us arbitrary: s)
  case (Cons u us)
  from Cons.prems obtain conv where conv: "copy_of GC (view s) u c = Some conv" "cn_ID conv = c" "stored_form conv"
    by auto
  from Cons.prems(3) obtain y s1 where inc: "uc_IncrementInactiveUserMsgsCount GC R u c s = (Inr y, s1)"
    and loop: "increment_loop GC R c us s1 = (Inr x, s')"
    by (auto simp: ok_simps)
  note s1 = Increment_Inr [OF assms(1) conv inc, folded one_more_unread_def]
  have "\<forall>u' \<in> set us. \<exists>conv. copy_of GC (view s1) u' c = Some conv \<and> cn_ID conv = c \<and> stored_form conv"
    using Cons.prems(1,2) s1(1) by auto
  with Cons.IH [OF _ _ loop] Cons.prems(1) s1 conv(1) show ?case by auto
qed simp

lemma InactiveUsers_Inr:
  assumes "shared_conversation GC (view s) c ps" and "sender \<in> fst ` set ps"
    and "uc_GetConversationInactiveUsers GC R sender c s = (Inr us, s')"
  shows "view s' = view s" and "set us \<subseteq> fst ` set ps" and "distinct us"
    and "u \<in> fst ` set ps \<Longrightarrow> active_of (view s) u \<noteq> Some c \<Longrightarrow> u \<in> set us"
proof -
  obtain conv s1 where get: "uc_getConversation GC R sender c s = (Inr conv, s1)"
    and rest: "(case inactive_loop R c (map snd (cn_Participants conv)) s1 of (us, s) \<Rightarrow> (Inr us, s)) = (Inr us :: string list res, s')"
    using assms(3) unfolding uc_GetConversationInactiveUsers_def check_err_Inr by blast
  from rest have loop: "inactive_loop R c (map snd (cn_Participants conv)) s1 = (us, s')"
    by (simp split: prod.splits)
  have ps: "cn_Participants conv = ps" "view s1 = view s"
    using getConversation_Inr [OF get] assms(1,2) by (auto simp: shared_conversation_def)
  have ids: "map pt_UserID (map snd ps) = map fst ps"
    using shared_user_ids [OF assms(1)] by simp
  have users: "pt_UserID ` set (map snd ps) = fst ` set ps"
    using arg_cong [OF ids, of set] by (simp only: set_map)
  have "distinct (map pt_UserID (map snd ps))"
    unfolding ids using assms(1) unfolding shared_conversation_def by blast
  with inactive_loop_view [OF loop] ps users
  have v: "view s' = view s" "set us \<subseteq> fst ` set ps" "distinct us"
    and active: "\<forall>p \<in> set (map snd ps). active_of (view s) (pt_UserID p) \<noteq> Some c \<longrightarrow> pt_UserID p \<in> set us"
    by simp_all
  from v show "view s' = view s" "set us \<subseteq> fst ` set ps" "distinct us" .
  assume "u \<in> fst ` set ps" and "active_of (view s) u \<noteq> Some c"
  with active users show "u \<in> set us" by (metis imageE)
qed

lemma ct_SendMessage_Inr:
  assumes "gob_contract stored_form GC" and "shared_conversation GC (view s) c ps" and "cm_UserID m \<in> fst ` set ps"
    and "ct_SendMessage GM GC R c m s = (Inr x, s')"
  obtains str us where "msg_EncodeBinary GM m = Inr str"
    and "cv_zsets (view s') = (cv_zsets (view s))(GetConversationMessagesKey c :=
        z_add (unix (cm_CreatedAt m)) str (cv_zsets (view s) (GetConversationMessagesKey c)))"
    and "cv_published (view s') = cv_published (view s) @ [(GetConversationPubSubKey c, str)]"
    and "cv_strs (view s') = cv_strs (view s)"
    and "\<And>u. u \<in> fst ` set ps \<Longrightarrow> active_of (view s) u \<noteq> Some c \<Longrightarrow> u \<in> set us"
    and "\<And>u c'. copy_of GC (view s') u c' =
      (if u \<in> set us \<and> c' = c then map_option one_more_unread (copy_of GC (view s) u c) else copy_of GC (view s) u c')"
proof -
  from assms(4) obtain y s1 us s2 where send: "uc_SendMessage GM R c m s = (Inr y, s1)"
    and inactive: "uc_GetConversationInactiveUsers GC R (cm_UserID m) c s1 = (Inr us, s2)"
    and loop: "increment_loop GC R c us s2 = (Inr x, s')"
    by (cases x) (auto simp: ct_SendMessage_def ok_simps msg_GetRaw_def split: if_splits)
  from SendMessage_Inr [OF send] obtain str where enc: "msg_EncodeBinary GM m = Inr str"
    and s1: "view s1 = view_publish (GetConversationPubSubKey c) str
      (view_zadd (GetConversationMessagesKey c) (unix (cm_CreatedAt m)) str (view s))" .
  have shared: "shared_conversation GC (view s1) c ps" using assms(2) by (simp add: s1 shared_conversation_def)
  note us = InactiveUsers_Inr [OF shared assms(3) inactive]
  have "\<forall>u \<in> set us. \<exists>conv. copy_of GC (view s2) u c = Some conv \<and> cn_ID conv = c \<and> stored_form conv"
    using us(1,2) shared_copy [OF shared] by (metis subsetD)
  note final = increment_loop_Inr [OF assms(1) us(3) this loop]
  have s1_view: "copy_of GC (view s1) = copy_of GC (view s)" "active_of (view s1) = active_of (view s)"
    "cv_zsets (view s1) = (cv_zsets (view s))(GetConversationMessagesKey c :=
      z_add (unix (cm_CreatedAt m)) str (cv_zsets (view s) (GetConversationMessagesKey c)))"
    "cv_published (view s1) = cv_published (view s) @ [(GetConversationPubSubKey c, str)]"
    "cv_strs (view s1) = cv_strs (view s)"
    by (simp_all add: s1) (simp_all add: view_zadd_def view_publish_def)
  show thesis
  proof (rule that [OF enc, of us])
    show "u \<in> fst ` set ps \<Longrightarrow> active_of (view s) u \<noteq> Some c \<Longrightarrow> u \<in> set us" for u
      using us(4) s1_view(2) by simp
  qed (use final us(1) s1_view in simp_all)
qed

end

text \<open>A participant who has the conversation open is not counted for, on a server that is reached.\<close>

context answering_chat_store
begin

lemma ct_SendMessage_active:
  assumes "gob_contract stored_form GC" and "shared_conversation GC (view s) c ps" and "cm_UserID m \<in> fst ` set ps"
    and "ct_SendMessage GM GC R c m s = (Inr x, s')"
    and "alive s" and "active_of (view s) u = Some c" and "c \<noteq> ''''"
  shows "copy_of GC (view s') u c' = copy_of GC (view s) u c'"
proof -
  from assms(4) obtain y s1 us s2 where send: "uc_SendMessage GM R c m s = (Inr y, s1)"
    and inactive: "uc_GetConversationInactiveUsers GC R (cm_UserID m) c s1 = (Inr us, s2)"
    and loop: "increment_loop GC R c us s2 = (Inr x, s')"
    by (cases x) (auto simp: ct_SendMessage_def ok_simps msg_GetRaw_def split: if_splits)
  from SendMessage_Inr [OF send] obtain str where s1: "view s1 = view_publish (GetConversationPubSubKey c) str
      (view_zadd (GetConversationMessagesKey c) (unix (cm_CreatedAt m)) str (view s))" .
  have shared: "shared_conversation GC (view s1) c ps" using assms(2) by (simp add: s1 shared_conversation_def)
  note us = InactiveUsers_Inr [OF shared assms(3) inactive]
  from inactive obtain conv t where get: "uc_getConversation GC R (cm_UserID m) c s1 = (Inr conv, t)"
    and rest: "(case inactive_loop R c (map snd (cn_Participants conv)) t of (us, s) \<Rightarrow> (Inr us, s)) = (Inr us :: string list res, s2)"
    unfolding uc_GetConversationInactiveUsers_def check_err_Inr by blast
  from rest have ils: "inactive_loop R c (map snd (cn_Participants conv)) t = (us, s2)" by (simp split: prod.splits)
  have "alive t" by (rule getConversation_alive [OF SendMessage_alive [OF assms(5) send] get])
  moreover have "active_of (view t) u = Some c" using getConversation_Inr(2) [OF get] assms(6) by (simp add: s1)
  ultimately have "u \<notin> set us" using inactive_loop_alive [OF _ ils] assms(7) by blast
  have "\<forall>u \<in> set us. \<exists>conv. copy_of GC (view s2) u c = Some conv \<and> cn_ID conv = c \<and> stored_form conv"
    using us(1,2) shared_copy [OF shared] by (metis subsetD)
  from increment_loop_Inr [OF assms(1) us(3) this loop] \<open>u \<notin> set us\<close>
  have "copy_of GC (view s') u c' = copy_of GC (view s2) u c'" by simp
  then show ?thesis by (simp add: us(1) s1)
qed

end

section \<open>The copies agree\<close>

definition conversation_wf :: "conversation \<Rightarrow> bool" where
  "conversation_wf c \<longleftrightarrow> stored_form c \<and> distinct (map fst (cn_Participants c)) \<and>
     (\<forall>(u, p) \<in> set (cn_Participants c). pt_UserID p = u)"

definition same_conversation :: "conversation \<Rightarrow> conversation \<Rightarrow> bool" where
  "same_conversation c d \<longleftrightarrow> cn_Participants c = cn_Participants d \<and> cn_CreatedAt c = cn_CreatedAt d"

definition copies_agree :: "conversation gob \<Rightarrow> chat_view \<Rightarrow> bool" where
  "copies_agree GC v \<longleftrightarrow>
     (\<forall>u c conv. copy_of GC v u c = Some conv \<longrightarrow> cn_ID conv = c \<and> conversation_wf conv) \<and>
     (\<forall>u u' c conv conv'. copy_of GC v u c = Some conv \<longrightarrow> copy_of GC v u' c = Some conv' \<longrightarrow> same_conversation conv conv')"

lemma copies_agreeD:
  assumes "copies_agree GC v" and "copy_of GC v u c = Some conv"
  shows "cn_ID conv = c" and "conversation_wf conv" and "stored_form conv"
  using assms by (simp_all add: copies_agree_def conversation_wf_def)

lemma copies_agree_cong: "copy_of GC v' = copy_of GC v \<Longrightarrow> copies_agree GC v' \<longleftrightarrow> copies_agree GC v"
  by (simp add: copies_agree_def)

lemma copies_agree_hset:
  assumes "gob_contract stored_form GC" and "copies_agree GC v" and "conversation_wf conv"
    and "conv_EncodeBinary GC conv = Inr str"
    and "\<And>u x. copy_of GC v u (cn_ID conv) = Some x \<Longrightarrow> same_conversation x conv"
  shows "copies_agree GC (view_hset (GetUserConversationsKey u) (cn_ID conv) str v)"
proof -
  have "stored_form conv" using assms(3) by (simp add: conversation_wf_def)
  note copy = copy_of_hset [OF assms(1) this assms(4)]
  have sym: "same_conversation a b \<Longrightarrow> same_conversation b a" "same_conversation a a" for a b
    by (simp_all add: same_conversation_def)
  show ?thesis
    unfolding copies_agree_def copy
  proof (intro conjI allI impI)
    fix u' c x assume "(if u' = u \<and> c = cn_ID conv then Some conv else copy_of GC v u' c) = Some x"
    with assms(2,3) show "cn_ID x = c" "conversation_wf x" by (auto simp: copies_agree_def split: if_splits)
  next
    fix u' u'' c x y assume "(if u' = u \<and> c = cn_ID conv then Some conv else copy_of GC v u' c) = Some x"
      and "(if u'' = u \<and> c = cn_ID conv then Some conv else copy_of GC v u'' c) = Some y"
    then show "same_conversation x y"
      using assms(2,5) sym by (fastforce simp: copies_agree_def split: if_splits)
  qed
qed

lemma copy_of_view_set [simp]:
  "copy_of GC (view_set (GetActiveUserConversationIDKey w) x v) = copy_of GC v"
  "copy_of GC (view_getdel k v) = copy_of GC v"
  by (simp_all add: copy_of_def view_set_def view_getdel_def fun_eq_iff)

lemma add_participants_wf:
  "(\<forall>(u, p) \<in> set ps. pt_UserID p = u) \<Longrightarrow> \<forall>(u, p) \<in> set (add_participants clock n us ps). pt_UserID p = u"
proof (induction clock n us ps rule: add_participants.induct)
  case (2 clock n u us ps)
  let ?p = "\<lparr>pt_UserID = usr_id u, pt_Username = usr_username u, pt_JoinedAt = clock n\<rparr>"
  have "set (AList.update (usr_id u) ?p ps) \<subseteq> insert (usr_id u, ?p) (set ps)"
    by (induction ps) auto
  with 2(2) have "\<forall>(w, p) \<in> set (AList.update (usr_id u) ?p ps). pt_UserID p = w" by fastforce
  with 2(1) show ?case by simp
qed simp

lemma conv_New_wf: "conversation_wf (conv_New uuid clock us)"
  using add_participants_wf [of "[]" clock 0 us] distinct_add_participants [of "[]" clock 0 us]
  by (simp add: conversation_wf_def conv_New_def stored_form_def)

text \<open>Any sequence of operations of the controller; a new conversation gets an id not in use.\<close>

inductive chat_step ::
    "chat_message gob \<Rightarrow> conversation gob \<Rightarrow> 'r chat_redis \<Rightarrow> ('r \<Rightarrow> chat_view) \<Rightarrow> 'r \<Rightarrow> 'r \<Rightarrow> bool"
  for GM GC R view where
  send: "ct_SendMessage GM GC R c m s = (r, s') \<Longrightarrow> chat_step GM GC R view s s'"
| read: "ct_ReadConversationMessages GC R u c s = (r1, s') \<Longrightarrow> chat_step GM GC R view s s'"
| messages: "ct_GetMessages GM GC R u c off s = (r2, s') \<Longrightarrow> chat_step GM GC R view s s'"
| conversation: "ct_GetConversation GM GC R u c s = (r1, s') \<Longrightarrow> chat_step GM GC R view s s'"
| conversations: "ct_GetConversations GM GC R u s = (r3, s') \<Longrightarrow> chat_step GM GC R view s s'"
| with_user: "ct_GetConversationsWithUser GM GC R u v s = (r3, s') \<Longrightarrow> chat_step GM GC R view s s'"
| create: "ct_CreateConversation GC R (conv_New uuid clock us) s = (r, s') \<Longrightarrow>
    \<forall>u. copy_of GC (view s) u uuid = None \<Longrightarrow> chat_step GM GC R view s s'"
| activate: "ct_SetActiveConversation R u c s = (r, s') \<Longrightarrow> chat_step GM GC R view s s'"
| deactivate: "ct_DeleteActiveConversation R u s = (r, s') \<Longrightarrow> chat_step GM GC R view s s'"

context chat_store
begin

lemma hset_agree:
  assumes "gob_contract stored_form GC" and "copies_agree GC (view s)" and "conversation_wf conv"
    and "conv_EncodeBinary GC conv = Inr str"
    and "\<And>u x. copy_of GC (view s) u (cn_ID conv) = Some x \<Longrightarrow> same_conversation x conv"
  shows "copies_agree GC (view (snd (cr_HSet R (GetUserConversationsKey u) (cn_ID conv) str s)))"
proof -
  obtain r s' where h: "cr_HSet R (GetUserConversationsKey u) (cn_ID conv) str s = (r, s')" by fastforce
  from hset [OF h] consider "view s' = view_hset (GetUserConversationsKey u) (cn_ID conv) str (view s)" | "view s' = view s"
    by (auto simp: written_def)
  then have "copies_agree GC (view s')"
  proof cases
    case 1
    show ?thesis unfolding 1 by (rule copies_agree_hset [OF assms])
  qed (simp add: assms(2))
  then show ?thesis by (simp add: h)
qed

text \<open>Storing a copy again with another count.\<close>

lemma restore_copy_agree:
  assumes "gob_contract stored_form GC" and "copies_agree GC (view s)"
    and "uc_getConversation GC R u c s = (Inr conv, s1)"
    and "cn_ID conv' = cn_ID conv" and "same_conversation conv conv'" and "stored_form conv'"
    and "conv_EncodeBinary GC conv' = Inr str"
  shows "copies_agree GC (view (snd (cr_HSet R (GetUserConversationsKey u) (cn_ID conv') str s1)))"
proof (rule hset_agree [OF assms(1) _ _ assms(7)])
  note get = getConversation_Inr [OF assms(3)]
  then show "copies_agree GC (view s1)" using assms(2) by simp
  show "conversation_wf conv'"
    using copies_agreeD(2) [OF assms(2) get(1)] assms(5,6) by (simp add: conversation_wf_def same_conversation_def)
  fix w x assume "copy_of GC (view s1) w (cn_ID conv') = Some x"
  then have x: "copy_of GC (view s) w (cn_ID conv) = Some x" using assms(4) get(2) by simp
  with copies_agreeD(1) [OF assms(2) get(1)] get(1) assms(2) have "same_conversation x conv" unfolding copies_agree_def by blast
  with assms(5) show "same_conversation x conv'" by (simp add: same_conversation_def)
qed

lemma getConversation_agree: "copies_agree GC (view s) \<Longrightarrow> copies_agree GC (view (snd (uc_getConversation GC' R u c s)))"
  using getConversation_frame [of GC' u c s] by (cases "uc_getConversation GC' R u c s") simp

lemma Increment_agree:
  assumes "gob_contract stored_form GC" and "copies_agree GC (view s)"
  shows "copies_agree GC (view (snd (uc_IncrementInactiveUserMsgsCount GC R u c s)))"
proof (cases "uc_getConversation GC R u c s")
  case (Pair r s1)
  show ?thesis
  proof (cases r)
    case (Inl e)
    with Pair getConversation_agree [OF assms(2), of GC u c] show ?thesis
      by (simp add: uc_IncrementInactiveUserMsgsCount_def)
  next
    case (Inr conv)
    let ?conv = "conv\<lparr>cn_UnreadMessagesCount := incr64 (cn_UnreadMessagesCount conv)\<rparr>"
    have "stored_form ?conv"
      using copies_agreeD(3) [OF assms(2) getConversation_Inr(1) [OF Pair [unfolded Inr]]] by (simp add: stored_form_def)
    with restore_copy_agree [OF assms Pair [unfolded Inr], of ?conv] getConversation_agree [OF assms(2), of GC u c]
    show ?thesis
      by (cases "conv_EncodeBinary GC ?conv") (simp_all add: uc_IncrementInactiveUserMsgsCount_def Pair Inr same_conversation_def)
  qed
qed

lemma Read_agree:
  assumes "gob_contract stored_form GC" and "copies_agree GC (view s)"
  shows "copies_agree GC (view (snd (uc_ReadConversationMessages GC R u c s)))"
proof (cases "uc_getConversation GC R u c s")
  case (Pair r s1)
  show ?thesis
  proof (cases r)
    case (Inl e)
    with Pair getConversation_agree [OF assms(2), of GC u c] show ?thesis
      by (simp add: uc_ReadConversationMessages_def)
  next
    case (Inr conv)
    let ?conv = "conv\<lparr>cn_UnreadMessagesCount := 0\<rparr>"
    have "stored_form ?conv"
      using copies_agreeD(3) [OF assms(2) getConversation_Inr(1) [OF Pair [unfolded Inr]]] by (simp add: stored_form_def)
    with restore_copy_agree [OF assms Pair [unfolded Inr], of ?conv] getConversation_agree [OF assms(2), of GC u c]
    have "conv_EncodeBinary GC ?conv = Inr str \<Longrightarrow>
        copies_agree GC (view (snd (cr_HSet R (GetUserConversationsKey u) (cn_ID conv) str s1)))" for str
      by (simp add: same_conversation_def)
    with getConversation_agree [OF assms(2), of GC u c] show ?thesis
      by (cases "conv_EncodeBinary GC ?conv")
         (auto simp: uc_ReadConversationMessages_def Pair Inr intro!: check_err_inv [where P = "\<lambda>s. copies_agree GC (view s)"])
  qed
qed

end

context chat_store
begin

lemma increment_loop_agree:
  assumes "gob_contract stored_form GC" and "copies_agree GC (view s)"
  shows "copies_agree GC (view (snd (increment_loop GC R c us s)))"
  using assms(2)
proof (induction us arbitrary: s)
  case (Cons u us)
  show ?case
    unfolding increment_loop.simps
    by (rule check_err_inv [where P = "\<lambda>s. copies_agree GC (view s)"])
       (use Increment_agree [OF assms(1) Cons.prems] Cons.IH in auto)
qed simp

lemma uc_SendMessage_copies: "copy_of GC (view (snd (uc_SendMessage GM R c m s))) = copy_of GC (view s)"
proof -
  have zadd_copies: "copy_of GC (view (snd (cr_ZAdd R k sc str s))) = copy_of GC (view s)" for k sc str s
    using zadd [of k sc str s] by (cases "cr_ZAdd R k sc str s") (auto simp: written_def)
  have publish_copies: "copy_of GC (view (snd (cr_Publish R ch str s))) = copy_of GC (view s)" for ch str s
    using publish [of ch str s] by (cases "cr_Publish R ch str s") (auto simp: written_def)
  show ?thesis
    unfolding uc_SendMessage_def
    by (intro check_err_inv [where P = "\<lambda>s'. copy_of GC (view s') = copy_of GC (view s)"])
       (simp_all add: zadd_copies publish_copies)
qed

lemma inactive_users_view: "view (snd (uc_GetConversationInactiveUsers GC R u c s)) = view s"
proof -
  obtain r s1 where get: "uc_getConversation GC R u c s = (r, s1)" by fastforce
  have "view (snd (case inactive_loop R c ps s1 of (us, s) \<Rightarrow> (Inr us, s))) = view s1" for ps
    using inactive_loop_view [of c ps s1] by (cases "inactive_loop R c ps s1") simp
  with getConversation_frame [OF get] show ?thesis
    by (cases r) (simp_all add: uc_GetConversationInactiveUsers_def get)
qed

lemma SendMessage_agree:
  assumes "gob_contract stored_form GC" and "copies_agree GC (view s)"
  shows "copies_agree GC (view (snd (ct_SendMessage GM GC R c m s)))"
proof -
  have "copies_agree GC (view (snd (uc_SendMessage GM R c m s)))"
    using assms(2) copies_agree_cong [OF uc_SendMessage_copies] by blast
  then show ?thesis
    unfolding ct_SendMessage_def
    by (intro check_err_inv [where P = "\<lambda>s. copies_agree GC (view s)"] if_inv [where P = "\<lambda>s. copies_agree GC (view s)"])
       (auto simp: inactive_users_view increment_loop_agree [OF assms(1)])
qed

lemma create_loop_agree:
  assumes "gob_contract stored_form GC" and "conversation_wf conv"
    and "copies_agree GC (view s)" and "\<And>u x. copy_of GC (view s) u (cn_ID conv) = Some x \<Longrightarrow> same_conversation x conv"
  shows "copies_agree GC (view (snd (create_conversation_loop GC R conv us s)))"
  using assms(3,4)
proof (induction us arbitrary: s)
  case (Cons u us)
  show ?case
  proof (cases "conv_EncodeBinary GC conv")
    case (Inl e)
    then show ?thesis using Cons.prems(1) by simp
  next
    case (Inr str)
    obtain r s1 where h: "cr_HSet R (GetUserConversationsKey u) (cn_ID conv) str s = (r, s1)" by fastforce
    have agree: "copies_agree GC (view s1)"
      using hset_agree [OF assms(1) Cons.prems(1) assms(2) Inr Cons.prems(2), where u = u] by (simp add: h)
    have stored: "stored_form conv" using assms(2) by (simp add: conversation_wf_def)
    have "same_conversation x conv" if "copy_of GC (view s1) w (cn_ID conv) = Some x" for w x
      using that hset [OF h] Cons.prems(2)
      by (auto simp: written_def copy_of_hset [OF assms(1) stored Inr] same_conversation_def split: if_splits)
    with Cons.IH [OF agree] agree show ?thesis by (cases r) (simp_all add: Inr h)
  qed
qed simp

lemma create_loop_Inr:
  assumes "gob_contract stored_form GC" and "stored_form conv"
    and "create_conversation_loop GC R conv us s = (Inr x, s')"
  shows "cv_zsets (view s') = cv_zsets (view s) \<and>
    (\<forall>u c. copy_of GC (view s') u c = (if u \<in> set us \<and> c = cn_ID conv then Some conv else copy_of GC (view s) u c))"
  using assms(3)
proof (induction us arbitrary: s)
  case (Cons u us)
  then obtain str y s1 where enc: "conv_EncodeBinary GC conv = Inr str"
    and h: "cr_HSet R (GetUserConversationsKey u) (cn_ID conv) str s = (Inr y, s1)"
    and loop: "create_conversation_loop GC R conv us s1 = (Inr x, s')"
    by (auto simp: ok_simps)
  from Cons.IH [OF loop] hset_Inr [OF h] copy_of_hset [OF assms(1,2) enc] show ?case by auto
qed simp

end

section \<open>Operations that only read\<close>

context chat_store
begin

lemma get_conversation_view [simp]: "view (snd (uc_getConversation GC R u c s)) = view s"
  using getConversation_frame [of GC u c s] by (cases "uc_getConversation GC R u c s") simp

lemma last_message_view [simp]: "view (snd (with_last_message GM R c conv s)) = view s"
  using with_last_message_frame [of GM c conv s] by (cases "with_last_message GM R c conv s") simp

lemma hgetall_view [simp]: "view (snd (cr_HGetAll R k s)) = view s"
  using hgetall_frame [of k s] by (cases "cr_HGetAll R k s") simp

lemma zrange_view [simp]: "view (snd (cr_ZRangeByScore R k lo off n s)) = view s"
  using zrange_frame [of k lo off n s] by (cases "cr_ZRangeByScore R k lo off n s") simp

lemma GetMessages_view: "view (snd (ct_GetMessages GM GC R u c off s)) = view s"
proof -
  have "view (snd (uc_GetMessages GM GC R u c off s)) = view s"
    unfolding uc_GetMessages_def
    by (rule check_err_inv [where P = "\<lambda>t. view t = view s"], simp,
        rule check_ok_inv [where P = "\<lambda>t. view t = view s"], simp,
        rule check_err_inv [where P = "\<lambda>t. view t = view s"]) simp_all
  then show ?thesis
    unfolding ct_GetMessages_def Let_def
    by (intro check_err_inv [where P = "\<lambda>t. view t = view s"]) simp_all
qed

lemma GetConversation_view: "view (snd (ct_GetConversation GM GC R u c s)) = view s"
  unfolding ct_GetConversation_def uc_GetConversation_def
  by (intro check_err_inv [where P = "\<lambda>t. view t = view s"]) simp_all

lemma decodeConversation_view: "view (snd (uc_decodeConversation GM GC R str must s)) = view s"
  unfolding uc_decodeConversation_def
  by (intro check_err_inv [where P = "\<lambda>t. view t = view s"] if_inv [where P = "\<lambda>t. view t = view s"]) simp_all

lemma conversations_loop_view: "view (snd (conversations_loop GM GC R must strs s)) = view s"
proof (induction strs arbitrary: s)
  case (Cons str strs)
  have "view (snd (conversations_loop GM GC R must strs t)) = view s"
    if "uc_decodeConversation GM GC R str must s = (r, t)" for r t
    using Cons.IH [of t] decodeConversation_view [of GM GC str must s] that by simp
  then show ?case
    unfolding conversations_loop.simps
    by (intro check_err_inv [where P = "\<lambda>t. view t = view s"]) (auto simp: decodeConversation_view)
qed simp

lemma GetConversations_view:
  "view (snd (ct_GetConversations GM GC R u s)) = view s"
  "view (snd (ct_GetConversationsWithUser GM GC R u v s)) = view s"
  unfolding ct_GetConversations_def uc_GetConversations_def ct_GetConversationsWithUser_def uc_GetConversationsWithUser_def
  by (intro check_err_inv [where P = "\<lambda>t. view t = view s"]; simp add: conversations_loop_view)+

lemma SetActive_copies: "copy_of GC (view (snd (ct_SetActiveConversation R u c s))) = copy_of GC (view s)"
  using set_ok [of "GetActiveUserConversationIDKey u" c s]
  by (cases "cr_Set R (GetActiveUserConversationIDKey u) c s")
     (auto simp: ct_SetActiveConversation_def uc_SetActiveConversation_def written_def)

lemma DeleteActive_copies: "copy_of GC (view (snd (ct_DeleteActiveConversation R u s))) = copy_of GC (view s)"
proof -
  obtain q s1 where d: "cr_GetDel R (GetActiveUserConversationIDKey u) s = (q, s1)" by fastforce
  from getdel [OF d] have "copy_of GC (view s1) = copy_of GC (view s)" by (auto simp: written_def)
  then show ?thesis by (cases q) (simp_all add: ct_DeleteActiveConversation_def uc_DeleteActiveConversation_def d)
qed

lemma chat_step_agree:
  assumes "chat_step GM GC R view s s'" and "gob_contract stored_form GC" and "copies_agree GC (view s)"
  shows "copies_agree GC (view s')"
  using assms
proof (cases rule: chat_step.cases)
  case (send c m r)
  with SendMessage_agree [OF assms(2,3), of GM c m] show ?thesis by simp
next
  case (read u c r1)
  with Read_agree [OF assms(2,3), of u c] show ?thesis by (simp add: ct_ReadConversationMessages_def)
next
  case (messages u c off r2)
  with GetMessages_view [of GM GC u c off s] assms(3) show ?thesis by simp
next
  case (conversation u c r1)
  with GetConversation_view [of GM GC u c s] assms(3) show ?thesis by simp
next
  case (conversations u r3)
  with GetConversations_view(1) [of GM GC u s] assms(3) show ?thesis by simp
next
  case (with_user u v r3)
  with GetConversations_view(2) [of GM GC u v s] assms(3) show ?thesis by simp
next
  case (create uuid clock us r)
  let ?conv = "conv_New uuid clock us"
  have none: "copy_of GC (view s) u (cn_ID ?conv) = None" for u using create(2) by (simp add: conv_New_def)
  have "copies_agree GC (view (snd (create_conversation_loop GC R ?conv ws s)))" for ws
    by (rule create_loop_agree [OF assms(2) conv_New_wf assms(3)]) (simp add: none)
  with create(1) show ?thesis
    by (metis ct_CreateConversation_def uc_CreateConversation_def conv_GetRaw_def snd_conv)
next
  case (activate u c r)
  with copies_agree_cong [OF SetActive_copies, of GC u c s] assms(3) show ?thesis by simp
next
  case (deactivate u r)
  with copies_agree_cong [OF DeleteActive_copies, of GC u s] assms(3) show ?thesis by simp
qed

lemma chat_steps_agree:
  assumes "(chat_step GM GC R view)\<^sup>*\<^sup>* s s'" and "gob_contract stored_form GC" and "copies_agree GC (view s)"
  shows "copies_agree GC (view s')"
  using assms(1) by (induction rule: rtranclp_induct) (auto intro: assms(2,3) chat_step_agree)

end

section \<open>Reading a conversation\<close>

context chat_store
begin

lemma Read_Inr:
  assumes "gob_contract stored_form GC" and "copy_of GC (view s) u c = Some conv" and "cn_ID conv = c" and "stored_form conv"
    and "ct_ReadConversationMessages GC R u c s = (Inr r, s')"
  shows "copy_of GC (view s') u' c' = (if u' = u \<and> c' = c
      then Some (conv\<lparr>cn_UnreadMessagesCount := 0\<rparr>) else copy_of GC (view s) u' c')"
    and "active_of (view s') = active_of (view s)"
proof -
  let ?conv = "conv\<lparr>cn_UnreadMessagesCount := 0\<rparr>"
  from assms(5) obtain conv0 s1 str y where get: "uc_getConversation GC R u c s = (Inr conv0, s1)"
    and enc: "conv_EncodeBinary GC (conv0\<lparr>cn_UnreadMessagesCount := 0\<rparr>) = Inr str"
    and hset: "cr_HSet R (GetUserConversationsKey u) (cn_ID conv0) str s1 = (Inr y, s')"
    by (auto simp: ct_ReadConversationMessages_def uc_ReadConversationMessages_def Let_def ok_simps)
  from getConversation_Inr [OF get] assms(2) have [simp]: "conv0 = conv" and s1: "view s1 = view s" by simp_all
  have v': "view s' = view_hset (GetUserConversationsKey u) c str (view s)"
    using hset_Inr [OF hset] s1 assms(3) by simp
  have "stored_form ?conv" using assms(4) by (simp add: stored_form_def)
  with copy_of_hset [OF assms(1)] enc show "copy_of GC (view s') u' c' = (if u' = u \<and> c' = c
      then Some ?conv else copy_of GC (view s) u' c')" by (simp add: v')
  show "active_of (view s') = active_of (view s)" by (simp add: v')
qed

lemma SetActive_other:
  assumes "u \<noteq> v"
  shows "active_of (view (snd (ct_SetActiveConversation R v c s))) u = active_of (view s) u"
  using set_ok [of "GetActiveUserConversationIDKey v" c s] assms
  by (cases "cr_Set R (GetActiveUserConversationIDKey v) c s")
     (auto simp: ct_SetActiveConversation_def uc_SetActiveConversation_def written_def active_of_def view_set_def)

end

section \<open>Pages of messages and what is read back\<close>

text \<open>The messages a participant may read: those since the second they joined, in the order of the store.\<close>

definition history :: "chat_message gob \<Rightarrow> chat_view \<Rightarrow> string \<Rightarrow> participant \<Rightarrow> pb_chat_message list" where
  "history GM v c p = map (\<lambda>x. msg_ToProtobuf (snd (msg_DecodeBinary GM (snd x))))
     (filter (\<lambda>x. unix (pt_JoinedAt p) \<le> fst x) (cv_zsets v (GetConversationMessagesKey c)))"

lemma limit_map: "map f (limit off n xs) = limit off n (map f xs)"
  by (simp add: limit_def take_map drop_map)

lemma map_z_from:
  "map (\<lambda>v. msg_ToProtobuf (snd (msg_DecodeBinary GM v)))
     (z_from (unix (pt_JoinedAt p)) off n (cv_zsets v (GetConversationMessagesKey c))) = limit off n (history GM v c p)"
  by (simp add: z_from_def history_def limit_map comp_def)

lemma page_cut:
  "(if 10 < length (take 11 xs) then take (length (take 11 xs) - 1) (take 11 xs) else take 11 xs) = take 10 xs"
proof (cases "10 < length xs")
  case True
  then have "length (take 11 xs) = 11" by simp
  then show ?thesis by (simp add: min_def)
qed simp

context chat_store
begin

lemma uc_GetMessages_Inr:
  assumes "uc_GetMessages GM GC R u c off s = (Inr ms, s')"
  obtains conv p where "copy_of GC (view s) u c = Some conv" and "map_of (cn_Participants conv) u = Some p"
    and "ms = limit off (MessagesLimit + 1) (history GM (view s) c p)"
proof -
  from assms obtain conv s1 p vals where get: "uc_getConversation GC R u c s = (Inr conv, s1)"
    and p: "map_of (cn_Participants conv) u = Some p"
    and range: "cr_ZRangeByScore R (GetConversationMessagesKey c) (unix (pt_JoinedAt p)) off (MessagesLimit + 1) s1 = (Inr vals, s')"
    and ms: "ms = map (\<lambda>v. msg_ToProtobuf (snd (msg_DecodeBinary GM v))) vals"
    by (auto simp: uc_GetMessages_def ok_simps)
  note copy = getConversation_Inr [OF get]
  from zrange_ok [OF range] copy(2) have "ms = limit off (MessagesLimit + 1) (history GM (view s) c p)"
    by (simp add: ms map_z_from)
  with copy(1) p show thesis by (rule that)
qed

lemma ct_GetMessages_Inr:
  assumes "ct_GetMessages GM GC R u c off s = (Inr r, s')"
  obtains conv p where "copy_of GC (view s) u c = Some conv" and "map_of (cn_Participants conv) u = Some p"
    and "pms_messages r = limit off MessagesLimit (history GM (view s) c p)"
    and "pms_has_more r \<longleftrightarrow> 0 \<le> off \<and> nat off + 10 < length (history GM (view s) c p)"
proof -
  from assms obtain ms s1 where get: "uc_GetMessages GM GC R u c off s = (Inr ms, s1)"
    and r: "r = (let more = MessagesLimit < int (length ms) in
      \<lparr>pms_messages = (if more then take (length ms - 1) ms else ms), pms_has_more = more\<rparr>)"
    by (auto simp: ct_GetMessages_def ok_simps Let_def MessagesLimit_def split: if_splits)
  from uc_GetMessages_Inr [OF get] obtain conv p where conv: "copy_of GC (view s) u c = Some conv"
    "map_of (cn_Participants conv) u = Some p" and ms: "ms = limit off (MessagesLimit + 1) (history GM (view s) c p)" .
  show thesis
  proof (rule that [OF conv])
    let ?xs = "drop (nat off) (history GM (view s) c p)"
    have ms': "ms = (if off < 0 then [] else take 11 ?xs)" by (simp add: ms limit_def MessagesLimit_def)
    have "pms_messages r = (if 10 < length ms then take (length ms - 1) ms else ms)"
      by (simp add: r Let_def MessagesLimit_def)
    then show "pms_messages r = limit off MessagesLimit (history GM (view s) c p)"
      using page_cut [of ?xs] by (simp add: ms' limit_def MessagesLimit_def)
    have "pms_has_more r \<longleftrightarrow> 10 < length ms" by (auto simp: r Let_def MessagesLimit_def)
    then show "pms_has_more r \<longleftrightarrow> 0 \<le> off \<and> nat off + 10 < length (history GM (view s) c p)"
      by (auto simp: ms')
  qed
qed

end

text \<open>
  C12: paging through a conversation. A page at an offset holds the ten messages of the reader's
  history from there on, fewer only at its end, and says that there are more exactly when there
  are; so pages ten apart show each message once. A negative offset gives an empty page.
\<close>

theorem message_page_exact:
  assumes "chat_store R view" and "ct_GetMessages GM GC R u c off s = (Inr r, s')"
  shows "\<exists>conv p. copy_of GC (view s) u c = Some conv \<and> map_of (cn_Participants conv) u = Some p \<and>
    pms_messages r = (if off < 0 then [] else take 10 (drop (nat off) (history GM (view s) c p))) \<and>
    (pms_has_more r \<longleftrightarrow> 0 \<le> off \<and> nat off + 10 < length (history GM (view s) c p)) \<and> length (pms_messages r) \<le> 10"
  by (rule chat_store.ct_GetMessages_Inr [OF assms])
     (auto simp: limit_def MessagesLimit_def)

text \<open>
  C11: what a message does when it is sent. It is stored under the second it was sent in and
  published to the listeners; the copy of every participant who does not have the conversation
  open counts exactly one more unread message, the sender's too; the copy of one who has it open
  stays as it is, on a server that is reached (a failed read of what is open counts as nothing open);
  the copies of other conversations stay as they are.
\<close>

theorem send_counts_unread:
  assumes "answering_chat_store R view alive" and "gob_contract stored_form GC" and "shared_conversation GC (view s) c ps"
    and "cm_UserID m \<in> fst ` set ps" and "ct_SendMessage GM GC R c m s = (Inr x, s')"
    and "u \<in> fst ` set ps" and "copy_of GC (view s) u c = Some conv"
  shows "\<exists>str. msg_EncodeBinary GM m = Inr str \<and>
    (unix (cm_CreatedAt m), str) \<in> set (cv_zsets (view s') (GetConversationMessagesKey c)) \<and>
    cv_published (view s') = cv_published (view s) @ [(GetConversationPubSubKey c, str)] \<and>
    (active_of (view s) u \<noteq> Some c \<longrightarrow> copy_of GC (view s') u c = Some (one_more_unread conv)) \<and>
    (active_of (view s) u = Some c \<and> c \<noteq> '''' \<and> alive s \<longrightarrow> copy_of GC (view s') u c = Some conv) \<and>
    copy_of GC (view s') u c \<in> {Some conv, Some (one_more_unread conv)} \<and>
    (c' \<noteq> c \<longrightarrow> copy_of GC (view s') w c' = copy_of GC (view s) w c')"
proof -
  have store: "chat_store R view" using assms(1) by (rule answering_chat_store.axioms(1))
  have "copy_of GC (view s') u c = Some conv" if "active_of (view s) u = Some c" "c \<noteq> ''''" "alive s"
    using answering_chat_store.ct_SendMessage_active [OF assms(1-5) that(3,1,2)] assms(7) by simp
  then show ?thesis
    by (rule_tac chat_store.ct_SendMessage_Inr [OF store assms(2-5)]) (use assms(6,7) in \<open>auto simp: set_z_add\<close>)
qed

text \<open>
  C32: a message that was sent is on the first page of every participant who joined no later than
  that second, with the same content, as long as the history fits on the page.
\<close>

theorem sent_message_read_back:
  assumes "chat_store R view" and "gob_contract stored_form GC" and "gob_contract plain_message GM"
    and "shared_conversation GC (view s) c ps" and "cm_UserID m \<in> fst ` set ps" and "plain_message m"
    and "ct_SendMessage GM GC R c m s = (Inr x, s1)"
    and "(u, p) \<in> set ps" and "pt_JoinedAt p \<le> cm_CreatedAt m"
    and "ct_GetMessages GM GC R u c 0 s1 = (Inr r, s2)" and "\<not> pms_has_more r"
  shows "msg_ToProtobuf m \<in> set (pms_messages r)"
proof (rule chat_store.ct_SendMessage_Inr [OF assms(1,2,4,5,7)])
  fix str us assume enc: "msg_EncodeBinary GM m = Inr str"
    and z: "cv_zsets (view s1) = (cv_zsets (view s))(GetConversationMessagesKey c :=
        z_add (unix (cm_CreatedAt m)) str (cv_zsets (view s) (GetConversationMessagesKey c)))"
    and copies: "copy_of GC (view s1) w c' = (if w \<in> set us \<and> c' = c
        then map_option one_more_unread (copy_of GC (view s) w c) else copy_of GC (view s) w c')" for w c'
  from assms(8) have "u \<in> fst ` set ps" by force
  from shared_copy [OF assms(4) this] have parts: "copy_of GC (view s1) u c = Some conv' \<Longrightarrow> cn_Participants conv' = ps" for conv'
    by (auto simp: copies split: if_splits)
  have p: "map_of ps u = Some p" using assms(4,8) by (simp add: shared_conversation_def)
  have "unix (pt_JoinedAt p) \<le> unix (cm_CreatedAt m)" using assms(9) by (simp add: unix_def zdiv_mono1)
  then have "(unix (cm_CreatedAt m), str) \<in> set (filter (\<lambda>x. unix (pt_JoinedAt p) \<le> fst x)
      (cv_zsets (view s1) (GetConversationMessagesKey c)))"
    by (simp add: z set_z_add)
  then have hist: "msg_ToProtobuf m \<in> set (history GM (view s1) c p)"
    unfolding history_def using msg_decode_encode [OF assms(3,6) enc] by (force simp del: set_filter)
  obtain conv q where conv: "copy_of GC (view s1) u c = Some conv" "map_of (cn_Participants conv) u = Some q"
    and page: "pms_messages r = limit 0 MessagesLimit (history GM (view s1) c q)"
    and more: "pms_has_more r \<longleftrightarrow> (0 :: int) \<le> 0 \<and> nat 0 + 10 < length (history GM (view s1) c q)"
    by (rule chat_store.ct_GetMessages_Inr [OF assms(1,10)])
  have "q = p" using parts [OF conv(1)] conv(2) p by simp
  moreover have "pms_messages r = history GM (view s1) c q"
    using page more assms(11) by (simp add: limit_def MessagesLimit_def)
  ultimately show ?thesis using hist by simp
qed

text \<open>
  A conversation that was created is what each participant gets when they ask for it: the same
  participants, nothing unread, and no last message while none was sent.
\<close>

theorem created_conversation_read_back:
  assumes "chat_store R view" and "gob_contract stored_form GC" and "conv = conv_New uuid clock us"
    and "ct_CreateConversation GC R conv s = (Inr x, s1)" and "user \<in> set us"
    and "cv_zsets (view s) (GetConversationMessagesKey uuid) = []"
    and "ct_GetConversation GM GC R (usr_id user) uuid s1 = (Inr r, s2)"
  shows "r = conv_ToProtobuf conv \<and> pcn_unread_messages_count r = 0 \<and> pcn_last_message r = None \<and>
    fst ` set (pcn_participants r) = usr_id ` set us"
proof -
  have ids: "fst ` set (add_participants clock n us ps) = usr_id ` set us \<union> fst ` set ps" for n ps
    by (induction clock n us ps rule: add_participants.induct) (auto simp: dom_update)
  have parts: "fst ` set (cn_Participants conv) = usr_id ` set us"
    using ids [of 0 "[]"] by (simp add: assms(3) conv_New_def)
  have id: "cn_ID conv = uuid" "stored_form conv" by (simp_all add: assms(3) conv_New_def stored_form_def)
  have loop: "create_conversation_loop GC R conv (map fst (cn_Participants conv)) s = (Inr x, s1)"
    using assms(4) by (simp add: ct_CreateConversation_def uc_CreateConversation_def conv_GetRaw_def)
  have s1: "copy_of GC (view s1) (usr_id user) uuid = Some conv \<and> cv_zsets (view s1) = cv_zsets (view s)"
    using chat_store.create_loop_Inr [OF assms(1,2) id(2) loop] parts assms(5) id(1) by auto
  from assms(7) obtain c1 t1 where get: "uc_getConversation GC R (usr_id user) uuid s1 = (Inr c1, t1)"
    and rest: "check_err (with_last_message GM R uuid c1 t1) same_err (\<lambda>conv s. (Inr (conv_ToProtobuf conv), s)) = (Inr r, s2)"
    unfolding ct_GetConversation_def uc_GetConversation_def check_err_Inr [of "uc_getConversation GC R (usr_id user) uuid s1"]
    by blast
  note c1 = chat_store.getConversation_Inr [OF assms(1) get]
  from rest obtain c2 where last: "with_last_message GM R uuid c1 t1 = (Inr c2, s2)" and r: "r = conv_ToProtobuf c2"
    by (auto simp: ok_simps)
  have "z_last (cv_zsets (view t1) (GetConversationMessagesKey uuid)) = []"
    using s1 assms(6) by (simp add: c1(2) z_last_def)
  with chat_store.with_last_message_Inr [OF assms(1) last] s1 c1(1) have "c2 = conv" by simp
  then show ?thesis
    by (simp add: r) (simp add: assms(3) conv_New_def conv_ToProtobuf_def participantsMapToProtobuf_def ids [of 0 "[]", simplified]
        image_image split_beta)
qed

text \<open>
  C13: in a store that started without conversations, whatever was sent, read, opened and created
  since, and whatever commands failed or took effect unanswered, the copies of a conversation that
  its participants keep never disagree on who takes part or when it was made, and each is stored
  under its own id, with every participant listed once.
\<close>

theorem conversation_copies_agree:
  assumes "chat_store R view" and "gob_contract stored_form GC"
    and "\<And>u c. copy_of GC (view s) u c = None" and "(chat_step GM GC R view)\<^sup>*\<^sup>* s s'"
    and "copy_of GC (view s') u c = Some conv" and "copy_of GC (view s') w c = Some conv'"
  shows "cn_Participants conv = cn_Participants conv' \<and> cn_CreatedAt conv = cn_CreatedAt conv' \<and> cn_ID conv = c \<and>
    distinct (map fst (cn_Participants conv)) \<and> (\<forall>(v, p) \<in> set (cn_Participants conv). pt_UserID p = v)"
proof -
  have "copies_agree GC (view s)" using assms(3) by (simp add: copies_agree_def)
  from chat_store.chat_steps_agree [OF assms(1,4,2) this] have agree: "copies_agree GC (view s')" .
  with assms(5,6) have "same_conversation conv conv'" unfolding copies_agree_def by blast
  with copies_agreeD [OF agree assms(5)] show ?thesis
    by (simp add: conversation_wf_def same_conversation_def)
qed

section \<open>An example\<close>

definition chat_ana :: pb_user where
  "chat_ana = \<lparr>usr_api = ''v1'', usr_id = ''1'', usr_email = ''ana@x.io'', usr_given_name = [], usr_family_name = [],
     usr_email_verified = True, usr_type = UserType_MEMBER, usr_username = ''ana''\<rparr>"

definition chat_bo :: pb_user where
  "chat_bo = chat_ana\<lparr>usr_id := ''2'', usr_email := ''bo@x.io'', usr_username := ''bo''\<rparr>"

definition sample_conversation :: conversation where
  "sample_conversation = conv_New ''c1'' (\<lambda>n. int n * 1000000000) [chat_ana, chat_bo]"

definition sample_message :: chat_message where
  "sample_message = empty_message\<lparr>cm_ID := ''m1'', cm_UserID := ''1'', cm_CreatedAt := 5000000000,
     cm_SenderUsername := ''ana'', cm_Content := ''hi''\<rparr>"

definition sample_GC :: "conversation gob" where
  "sample_GC = table_gob [sample_conversation, one_more_unread sample_conversation]"

definition sample_GM :: "chat_message gob" where
  "sample_GM = table_gob [sample_message]"

lemma sample_gobs: "gob_contract stored_form sample_GC" "gob_contract plain_message sample_GM"
  by (simp_all add: sample_GC_def sample_GM_def table_gob_contract)

definition chat0 :: mem_chat where
  "chat0 = mem_chat_of empty_view"

definition chat1 :: mem_chat where
  "chat1 = snd (ct_CreateConversation sample_GC mem_chat_cmds sample_conversation chat0)"

definition chat2 :: mem_chat where
  "chat2 = snd (ct_SendMessage sample_GM sample_GC mem_chat_cmds ''c1'' sample_message chat1)"

lemma sample_created: "ct_CreateConversation sample_GC mem_chat_cmds sample_conversation chat0 = (Inr (), chat1)"
proof -
  have "fst (ct_CreateConversation sample_GC mem_chat_cmds sample_conversation chat0) = Inr ()" by code_simp
  then show ?thesis by (simp add: chat1_def prod_eq_iff)
qed

lemma sample_sent: "ct_SendMessage sample_GM sample_GC mem_chat_cmds ''c1'' sample_message chat1 = (Inr (), chat2)"
proof -
  have "fst (ct_SendMessage sample_GM sample_GC mem_chat_cmds ''c1'' sample_message chat1) = Inr ()" by code_simp
  then show ?thesis by (simp add: chat2_def prod_eq_iff)
qed

lemma sample_copies:
  "copy_of sample_GC (mc_view chat1) ''1'' ''c1'' = Some sample_conversation"
  "copy_of sample_GC (mc_view chat1) ''2'' ''c1'' = Some sample_conversation"
  "map_of (cn_Participants sample_conversation) ''1'' = Some \<lparr>pt_UserID = ''1'', pt_Username = ''ana'', pt_JoinedAt = 0\<rparr>"
  "map fst (cn_Participants sample_conversation) = [''1'', ''2'']"
  "active_of (mc_view chat1) ''2'' = None"
  by code_simp+

lemma sample_shared: "shared_conversation sample_GC (mc_view chat1) ''c1'' (cn_Participants sample_conversation)"
proof -
  have "cn_ID sample_conversation = ''c1''" "stored_form sample_conversation" by code_simp+
  moreover have "set (map fst (cn_Participants sample_conversation)) = {''1'', ''2''}"
    by (simp only: sample_copies(4)) simp
  moreover have "\<forall>(u, p) \<in> set (cn_Participants sample_conversation). pt_UserID p = u" by code_simp
  ultimately show ?thesis
    using sample_copies by (auto simp: shared_conversation_def simp flip: set_map)
qed

lemma sample_page: "ct_GetMessages sample_GM sample_GC mem_chat_cmds ''2'' ''c1'' 0 chat2 =
    (Inr \<lparr>pms_messages = [msg_ToProtobuf sample_message], pms_has_more = False\<rparr>, chat2)"
proof -
  let ?r = "ct_GetMessages sample_GM sample_GC mem_chat_cmds ''2'' ''c1'' 0 chat2"
  have "fst ?r = Inr \<lparr>pms_messages = [msg_ToProtobuf sample_message], pms_has_more = False\<rparr>"
    and "mc_faults (snd ?r) = []" and "mc_faults chat2 = []" by code_simp+
  moreover have "mc_view (snd ?r) = mc_view chat2"
    using memc.GetMessages_view [of sample_GM sample_GC "''2''" "''c1''" 0 chat2] by simp
  ultimately show ?thesis by (simp add: prod_eq_iff)
qed

lemma message_page_exact_witness:
  "\<exists>conv p. copy_of sample_GC (mc_view chat2) ''2'' ''c1'' = Some conv \<and> map_of (cn_Participants conv) ''2'' = Some p \<and>
     [msg_ToProtobuf sample_message] = take 10 (drop 0 (history sample_GM (mc_view chat2) ''c1'' p))"
  using message_page_exact [OF memc.chat_store_axioms sample_page] by auto

lemma send_counts_unread_witness:
  "copy_of sample_GC (mc_view chat2) ''2'' ''c1'' = Some (one_more_unread sample_conversation)"
proof -
  have "cm_UserID sample_message \<in> fst ` set (cn_Participants sample_conversation)"
    "''2'' \<in> fst ` set (cn_Participants sample_conversation)" by code_simp+
  with send_counts_unread [OF memup.answering_chat_store_axioms sample_gobs(1) sample_shared _ sample_sent, of "''2''" sample_conversation]
    sample_copies(2,5) show ?thesis by auto
qed

lemma sent_message_read_back_witness: "msg_ToProtobuf sample_message \<in> set [msg_ToProtobuf sample_message]"
proof -
  have "cm_UserID sample_message \<in> fst ` set (cn_Participants sample_conversation)" "plain_message sample_message"
    "(''2'', \<lparr>pt_UserID = ''2'', pt_Username = ''bo'', pt_JoinedAt = 1000000000\<rparr>) \<in> set (cn_Participants sample_conversation)"
    "(1000000000 :: int) \<le> cm_CreatedAt sample_message" by code_simp+
  with sent_message_read_back [OF memc.chat_store_axioms sample_gobs sample_shared _ _ sample_sent _ _ sample_page]
  show ?thesis by fastforce
qed

lemma created_conversation_read_back_witness:
  "\<exists>s2. ct_GetConversation sample_GM sample_GC mem_chat_cmds ''2'' ''c1'' chat1 = (Inr (conv_ToProtobuf sample_conversation), s2)"
proof -
  let ?r = "ct_GetConversation sample_GM sample_GC mem_chat_cmds ''2'' ''c1'' chat1"
  have "fst ?r = Inr (conv_ToProtobuf sample_conversation)" and z: "cv_zsets (mc_view chat0) (GetConversationMessagesKey ''c1'') = []"
    by code_simp+
  then obtain s2 where get: "?r = (Inr (conv_ToProtobuf sample_conversation), s2)" by (metis prod.collapse)
  have "usr_id chat_bo = ''2''" by code_simp
  with get have get': "ct_GetConversation sample_GM sample_GC mem_chat_cmds (usr_id chat_bo) ''c1'' chat1 =
    (Inr (conv_ToProtobuf sample_conversation), s2)" by simp
  have "conv_ToProtobuf sample_conversation = conv_ToProtobuf sample_conversation"
    by (rule created_conversation_read_back [OF memc.chat_store_axioms sample_gobs(1) sample_conversation_def sample_created
          _ z get', THEN conjunct1]) simp
  with get show ?thesis by blast
qed

lemma conversation_copies_agree_witness:
  "\<exists>conv conv'. copy_of sample_GC (mc_view chat2) ''1'' ''c1'' = Some conv \<and>
     copy_of sample_GC (mc_view chat2) ''2'' ''c1'' = Some conv' \<and> cn_Participants conv = cn_Participants conv'"
proof -
  have none: "copy_of sample_GC (mc_view chat0) u c = None" for u c
    by (simp add: copy_of_def chat0_def mem_chat_of_def empty_view_def)
  have "chat_step sample_GM sample_GC mem_chat_cmds mc_view chat0 chat1"
    using sample_created none by (intro chat_step.create) (simp_all add: sample_conversation_def)
  moreover have "chat_step sample_GM sample_GC mem_chat_cmds mc_view chat1 chat2" by (rule chat_step.send [OF sample_sent])
  ultimately have steps: "(chat_step sample_GM sample_GC mem_chat_cmds mc_view)\<^sup>*\<^sup>* chat0 chat2" by simp
  have "copy_of sample_GC (mc_view chat2) ''1'' ''c1'' = Some (one_more_unread sample_conversation)"
    "copy_of sample_GC (mc_view chat2) ''2'' ''c1'' = Some (one_more_unread sample_conversation)" by code_simp+
  with conversation_copies_agree [OF memc.chat_store_axioms sample_gobs(1) none steps] show ?thesis by blast
qed

end
