(* ===== verification/Locks.thy ===== *)
theory Locks
  imports Prelude
begin

text \<open>
  Package \<^verbatim>\<open>backend/pkg/lock\<close>: reader-writer mutexes under keys, kept in a \<^verbatim>\<open>sync.Map\<close> that only
  ever gets \<^verbatim>\<open>sync.RWMutex\<close> values, so the error for another type has no case here. Taking a lock
  that is not free is \<^verbatim>\<open>None\<close>: the goroutine waits. Giving back a lock nobody holds is \<^verbatim>\<open>None\<close> as
  well: the runtime ends the program.
\<close>

record rw_mutex =
  rw_writer :: bool
  rw_readers :: nat

definition free_mutex :: rw_mutex where
  "free_mutex = \<lparr>rw_writer = False, rw_readers = 0\<rparr>"

type_synonym locks = "(string \<times> rw_mutex) list"

definition lk_New :: locks where
  "lk_New = []"

definition lk_LoadOrStore :: "string \<Rightarrow> locks \<Rightarrow> rw_mutex \<times> locks" where
  "lk_LoadOrStore key ls = (case map_of ls key of
     Some m \<Rightarrow> (m, ls)
   | None \<Rightarrow> (free_mutex, (key, free_mutex) # ls))"

definition lk_store :: "string \<Rightarrow> rw_mutex \<Rightarrow> locks \<Rightarrow> locks" where
  "lk_store key m ls = (key, m) # ls"

definition lk_Lock :: "string \<Rightarrow> locks \<Rightarrow> locks option" where
  "lk_Lock key ls = (case lk_LoadOrStore key ls of (m, ls) \<Rightarrow>
     if rw_writer m \<or> 0 < rw_readers m then None else Some (lk_store key (m\<lparr>rw_writer := True\<rparr>) ls))"

definition lk_Unlock :: "string \<Rightarrow> locks \<Rightarrow> locks option" where
  "lk_Unlock key ls = (case lk_LoadOrStore key ls of (m, ls) \<Rightarrow>
     if rw_writer m then Some (lk_store key (m\<lparr>rw_writer := False\<rparr>) ls) else None)"

definition lk_RLock :: "string \<Rightarrow> locks \<Rightarrow> locks option" where
  "lk_RLock key ls = (case lk_LoadOrStore key ls of (m, ls) \<Rightarrow>
     if rw_writer m then None else Some (lk_store key (m\<lparr>rw_readers := Suc (rw_readers m)\<rparr>) ls))"

definition lk_RUnlock :: "string \<Rightarrow> locks \<Rightarrow> locks option" where
  "lk_RUnlock key ls = (case lk_LoadOrStore key ls of (m, ls) \<Rightarrow>
     if 0 < rw_readers m then Some (lk_store key (m\<lparr>rw_readers := rw_readers m - 1\<rparr>) ls) else None)"

section \<open>What the operations promise\<close>

definition mutex_of :: "locks \<Rightarrow> string \<Rightarrow> rw_mutex" where
  "mutex_of ls key = (case map_of ls key of None \<Rightarrow> free_mutex | Some m \<Rightarrow> m)"

lemma mutex_of_store [simp]: "mutex_of (lk_store k m ls) k' = (if k' = k then m else mutex_of ls k')"
  by (simp add: mutex_of_def lk_store_def)

lemma LoadOrStore_mutex:
  assumes "lk_LoadOrStore k ls = (m, ls')"
  shows "m = mutex_of ls k" and "mutex_of ls' = mutex_of ls"
  using assms by (auto simp: lk_LoadOrStore_def mutex_of_def fun_eq_iff split: option.splits if_splits)

text \<open>
  The interface \<^verbatim>\<open>Locker\<close> as its clients see it: who holds a key. A lock for writing is granted
  exactly when the key is free, and nobody else holds it then.
\<close>

locale locker =
  fixes lock unlock rlock runlock :: "string \<Rightarrow> 's \<Rightarrow> 's option"
    and held :: "'s \<Rightarrow> string \<Rightarrow> bool" and readers :: "'s \<Rightarrow> string \<Rightarrow> nat"
  assumes lock_iff: "(\<exists>s'. lock k s = Some s') \<longleftrightarrow> \<not> held s k \<and> readers s k = 0"
    and lock_held: "lock k s = Some s' \<Longrightarrow> held s' = (held s)(k := True) \<and> readers s' = readers s"
    and unlock_iff: "(\<exists>s'. unlock k s = Some s') \<longleftrightarrow> held s k"
    and unlock_held: "unlock k s = Some s' \<Longrightarrow> held s' = (held s)(k := False) \<and> readers s' = readers s"
    and rlock_iff: "(\<exists>s'. rlock k s = Some s') \<longleftrightarrow> \<not> held s k"
    and rlock_held: "rlock k s = Some s' \<Longrightarrow> held s' = held s \<and> readers s' = (readers s)(k := Suc (readers s k))"
    and runlock_iff: "(\<exists>s'. runlock k s = Some s') \<longleftrightarrow> 0 < readers s k"
    and runlock_held: "runlock k s = Some s' \<Longrightarrow> held s' = held s \<and> readers s' = (readers s)(k := readers s k - 1)"
begin

lemma lock_excludes:
  assumes "lock k s = Some s'"
  shows "lock k s' = None" and "rlock k s' = None" and "\<exists>s''. unlock k s' = Some s''"
  using lock_held [OF assms] lock_iff [of k s'] rlock_iff [of k s'] unlock_iff [of k s'] by auto

lemma lock_other_key:
  assumes "lock k s = Some s'" and "k' \<noteq> k"
  shows "(\<exists>s''. lock k' s' = Some s'') \<longleftrightarrow> (\<exists>s''. lock k' s = Some s'')"
    and "(\<exists>s''. rlock k' s' = Some s'') \<longleftrightarrow> (\<exists>s''. rlock k' s = Some s'')"
  using lock_held [OF assms(1)] lock_iff rlock_iff assms(2) by simp_all

lemma unlock_frees:
  assumes "unlock k s = Some s'" and "readers s k = 0"
  shows "\<exists>s''. lock k s' = Some s''"
  using unlock_held [OF assms(1)] lock_iff [of k s'] assms(2) by simp

end

interpretation lk: locker lk_Lock lk_Unlock lk_RLock lk_RUnlock
  "\<lambda>ls k. rw_writer (mutex_of ls k)" "\<lambda>ls k. rw_readers (mutex_of ls k)"
proof
  note defs = lk_Lock_def lk_Unlock_def lk_RLock_def lk_RUnlock_def
  fix k :: string and s s' :: locks
  obtain m ls where ls: "lk_LoadOrStore k s = (m, ls)" by fastforce
  note m = LoadOrStore_mutex [OF ls]
  show "(\<exists>s'. lk_Lock k s = Some s') \<longleftrightarrow> \<not> rw_writer (mutex_of s k) \<and> rw_readers (mutex_of s k) = 0"
    by (simp add: defs ls m(1))
  show "(\<exists>s'. lk_Unlock k s = Some s') \<longleftrightarrow> rw_writer (mutex_of s k)" by (simp add: defs ls m(1))
  show "(\<exists>s'. lk_RLock k s = Some s') \<longleftrightarrow> \<not> rw_writer (mutex_of s k)" by (simp add: defs ls m(1))
  show "(\<exists>s'. lk_RUnlock k s = Some s') \<longleftrightarrow> 0 < rw_readers (mutex_of s k)" by (simp add: defs ls m(1))
  show "(\<lambda>k. rw_writer (mutex_of s' k)) = (\<lambda>k. rw_writer (mutex_of s k))(k := True) \<and>
      (\<lambda>k. rw_readers (mutex_of s' k)) = (\<lambda>k. rw_readers (mutex_of s k))" if "lk_Lock k s = Some s'"
    using that by (auto simp: defs ls m fun_eq_iff split: if_splits)
  show "(\<lambda>k. rw_writer (mutex_of s' k)) = (\<lambda>k. rw_writer (mutex_of s k))(k := False) \<and>
      (\<lambda>k. rw_readers (mutex_of s' k)) = (\<lambda>k. rw_readers (mutex_of s k))" if "lk_Unlock k s = Some s'"
    using that by (auto simp: defs ls m fun_eq_iff split: if_splits)
  show "(\<lambda>k. rw_writer (mutex_of s' k)) = (\<lambda>k. rw_writer (mutex_of s k)) \<and>
      (\<lambda>k. rw_readers (mutex_of s' k)) = (\<lambda>k. rw_readers (mutex_of s k))(k := Suc (rw_readers (mutex_of s k)))"
    if "lk_RLock k s = Some s'"
    using that by (auto simp: defs ls m fun_eq_iff split: if_splits)
  show "(\<lambda>k. rw_writer (mutex_of s' k)) = (\<lambda>k. rw_writer (mutex_of s k)) \<and>
      (\<lambda>k. rw_readers (mutex_of s' k)) = (\<lambda>k. rw_readers (mutex_of s k))(k := rw_readers (mutex_of s k) - 1)"
    if "lk_RUnlock k s = Some s'"
    using that by (auto simp: defs ls m fun_eq_iff split: if_splits)
qed

end
