(* ===== verification/Chat_Threads.thy ===== *)
theory Chat_Threads
  imports Chat_Copies Locks "HOL-Library.Sublist"
begin

text \<open>
  \<^verbatim>\<open>SendMessage\<close> of the chat when several requests run at once. A request is a goroutine that takes
  the lock of its conversation, encodes its message and adds it to the sorted set, publishes it,
  and gives the lock back; a step of one goroutine is a command of Redis with the work around it.
  Beside the state the machine keeps, in order, the values whose \<^verbatim>\<open>ZADD\<close> was answered.
\<close>

datatype send_pc = Waiting | Inside | Stored string | Finished "unit res"

record 'r senders =
  sn_locks :: locks
  sn_store :: 'r
  sn_pc :: "send_pc list"
  sn_added :: "(string \<times> string) list"

type_synonym send_requests = "(string \<times> chat_message) list"

text \<open>The deferred \<^verbatim>\<open>unlock()\<close>; \<^verbatim>\<open>None\<close> where the runtime would end the program.\<close>

definition leave :: "nat \<Rightarrow> string \<Rightarrow> unit res \<Rightarrow> 'r senders \<Rightarrow> 'r senders option" where
  "leave i c r st = (case lk_Unlock (GetConversationMessagesKey c) (sn_locks st) of
     None \<Rightarrow> None
   | Some ls \<Rightarrow> Some (st\<lparr>sn_locks := ls, sn_pc := (sn_pc st)[i := Finished r]\<rparr>))"

definition send_step ::
    "chat_message gob \<Rightarrow> 'r chat_redis \<Rightarrow> send_requests \<Rightarrow> nat \<Rightarrow> 'r senders \<Rightarrow> 'r senders option" where
  "send_step GM R reqs i st =
     (if length reqs \<le> i then None else
      case reqs ! i of (c, m) \<Rightarrow>
      case sn_pc st ! i of
        Waiting \<Rightarrow> (case lk_Lock (GetConversationMessagesKey c) (sn_locks st) of
            None \<Rightarrow> None
          | Some ls \<Rightarrow> Some (st\<lparr>sn_locks := ls, sn_pc := (sn_pc st)[i := Inside]\<rparr>))
      | Inside \<Rightarrow> (case msg_EncodeBinary GM m of
            Inl e \<Rightarrow> leave i c (Inl e) st
          | Inr val \<Rightarrow>
              (case cr_ZAdd R (GetConversationMessagesKey c) (unix (cm_CreatedAt m)) val (sn_store st) of
                 (Inl e, s) \<Rightarrow> leave i c (Inl e) (st\<lparr>sn_store := s\<rparr>)
               | (Inr _, s) \<Rightarrow> Some (st\<lparr>sn_store := s, sn_pc := (sn_pc st)[i := Stored val],
                   sn_added := sn_added st @ [(c, val)]\<rparr>)))
      | Stored val \<Rightarrow> (case cr_Publish R (GetConversationPubSubKey c) val (sn_store st) of
            (r, s) \<Rightarrow> leave i c r (st\<lparr>sn_store := s\<rparr>))
      | Finished r \<Rightarrow> None)"

text \<open>A run is a schedule: the goroutine that makes each step.\<close>

fun run_sends ::
    "chat_message gob \<Rightarrow> 'r chat_redis \<Rightarrow> send_requests \<Rightarrow> nat list \<Rightarrow> 'r senders \<Rightarrow> 'r senders option" where
  "run_sends GM R reqs [] st = Some st"
| "run_sends GM R reqs (i # schedule) st =
     (case send_step GM R reqs i st of None \<Rightarrow> None | Some st' \<Rightarrow> run_sends GM R reqs schedule st')"

definition senders_start :: "send_requests \<Rightarrow> 'r \<Rightarrow> 'r senders" where
  "senders_start reqs s = \<lparr>sn_locks = lk_New, sn_store = s, sn_pc = replicate (length reqs) Waiting, sn_added = []\<rparr>"

section \<open>Who is inside\<close>

definition inside :: "send_pc \<Rightarrow> bool" where
  "inside pc \<longleftrightarrow> (case pc of Inside \<Rightarrow> True | Stored v \<Rightarrow> True | _ \<Rightarrow> False)"

lemma inside_simps [simp]: "\<not> inside Waiting" "inside Inside" "inside (Stored v)" "\<not> inside (Finished r)"
  by (simp_all add: inside_def)

definition locks_inv :: "send_requests \<Rightarrow> 'r senders \<Rightarrow> bool" where
  "locks_inv reqs st \<longleftrightarrow> length (sn_pc st) = length reqs \<and>
     (\<forall>k. rw_readers (mutex_of (sn_locks st) k) = 0) \<and>
     (\<forall>c. rw_writer (mutex_of (sn_locks st) (GetConversationMessagesKey c)) \<longleftrightarrow>
        (\<exists>i < length reqs. fst (reqs ! i) = c \<and> inside (sn_pc st ! i))) \<and>
     (\<forall>i < length reqs. \<forall>j < length reqs. inside (sn_pc st ! i) \<longrightarrow> inside (sn_pc st ! j) \<longrightarrow>
        fst (reqs ! i) = fst (reqs ! j) \<longrightarrow> i = j)"

lemma mutex_of_New [simp]: "mutex_of lk_New k = free_mutex"
  by (simp add: mutex_of_def lk_New_def)

lemma locks_inv_start: "locks_inv reqs (senders_start reqs s)"
  by (simp add: locks_inv_def senders_start_def free_mutex_def)

lemma locks_inv_enter:
  assumes inv: "locks_inv reqs st" and i: "i < length reqs" "sn_pc st ! i = Waiting"
    and lock: "lk_Lock (GetConversationMessagesKey (fst (reqs ! i))) (sn_locks st) = Some ls"
  shows "locks_inv reqs (st\<lparr>sn_locks := ls, sn_pc := (sn_pc st)[i := Inside]\<rparr>)"
proof -
  let ?k = "GetConversationMessagesKey (fst (reqs ! i))"
  note ls = lk.lock_held [OF lock]
  have free: "\<not> rw_writer (mutex_of (sn_locks st) ?k)" using lk.lock_iff lock by blast
  have w: "rw_writer (mutex_of ls k) \<longleftrightarrow> k = ?k \<or> rw_writer (mutex_of (sn_locks st) k)" for k
    using fun_cong [OF conjunct1 [OF ls], of k] by (simp split: if_splits)
  have r: "rw_readers (mutex_of ls k) = 0" for k
    using fun_cong [OF conjunct2 [OF ls], of k] inv by (simp add: locks_inv_def)
  have len: "length (sn_pc st) = length reqs" using inv by (simp add: locks_inv_def)
  have none: "\<not> inside (sn_pc st ! j)" if "j < length reqs" "fst (reqs ! j) = fst (reqs ! i)" for j
    using free that inv unfolding locks_inv_def by metis
  show ?thesis
    unfolding locks_inv_def
  proof (intro conjI allI impI)
    fix c
    show "rw_writer (mutex_of (sn_locks (st\<lparr>sn_locks := ls, sn_pc := (sn_pc st)[i := Inside]\<rparr>)) (GetConversationMessagesKey c)) \<longleftrightarrow>
      (\<exists>j < length reqs. fst (reqs ! j) = c \<and> inside (sn_pc (st\<lparr>sn_locks := ls, sn_pc := (sn_pc st)[i := Inside]\<rparr>) ! j))"
      using inv i len by (auto simp: w nth_list_update locks_inv_def)
  next
    fix j j' assume "j < length reqs" "j' < length reqs" "fst (reqs ! j) = fst (reqs ! j')"
      "inside (sn_pc (st\<lparr>sn_locks := ls, sn_pc := (sn_pc st)[i := Inside]\<rparr>) ! j)"
      "inside (sn_pc (st\<lparr>sn_locks := ls, sn_pc := (sn_pc st)[i := Inside]\<rparr>) ! j')"
    then show "j = j'"
      using inv i(1) len none by (auto simp: nth_list_update locks_inv_def split: if_splits)
  qed (use r len in simp_all)
qed

lemma locks_inv_stay:
  assumes "locks_inv reqs st" and "i < length reqs" and "inside (sn_pc st ! i)" and "inside pc"
  shows "locks_inv reqs (st\<lparr>sn_store := s, sn_pc := (sn_pc st)[i := pc], sn_added := xs\<rparr>)"
proof -
  have "inside ((sn_pc st)[i := pc] ! j) \<longleftrightarrow> inside (sn_pc st ! j)" for j
    using assms by (auto simp: nth_list_update locks_inv_def)
  with assms(1) show ?thesis by (simp add: locks_inv_def)
qed

lemma locks_inv_store: "locks_inv reqs (st\<lparr>sn_store := s\<rparr>) \<longleftrightarrow> locks_inv reqs st"
  by (simp add: locks_inv_def)

lemma locks_inv_leave:
  assumes inv: "locks_inv reqs st" and i: "i < length reqs" "inside (sn_pc st ! i)"
  shows "\<exists>st'. leave i (fst (reqs ! i)) r st = Some st' \<and> locks_inv reqs st'"
proof -
  let ?k = "GetConversationMessagesKey (fst (reqs ! i))"
  have "rw_writer (mutex_of (sn_locks st) ?k)" using inv i by (auto simp: locks_inv_def)
  then obtain ls where unlock: "lk_Unlock ?k (sn_locks st) = Some ls" using lk.unlock_iff by blast
  note ls = lk.unlock_held [OF unlock]
  have w: "rw_writer (mutex_of ls k) \<longleftrightarrow> k \<noteq> ?k \<and> rw_writer (mutex_of (sn_locks st) k)" for k
    using fun_cong [OF conjunct1 [OF ls], of k] by (simp split: if_splits)
  have r: "rw_readers (mutex_of ls k) = 0" for k
    using fun_cong [OF conjunct2 [OF ls], of k] inv by (simp add: locks_inv_def)
  have len: "length (sn_pc st) = length reqs" using inv by (simp add: locks_inv_def)
  have alone: "j = i" if "j < length reqs" "inside (sn_pc st ! j)" "fst (reqs ! j) = fst (reqs ! i)" for j
    using inv i that unfolding locks_inv_def by blast
  let ?st = "st\<lparr>sn_locks := ls, sn_pc := (sn_pc st)[i := Finished r]\<rparr>"
  have "locks_inv reqs ?st"
    unfolding locks_inv_def
  proof (intro conjI allI impI)
    fix c
    show "rw_writer (mutex_of (sn_locks ?st) (GetConversationMessagesKey c)) \<longleftrightarrow>
      (\<exists>j < length reqs. fst (reqs ! j) = c \<and> inside (sn_pc ?st ! j))"
      using inv i len alone by (auto simp: w nth_list_update locks_inv_def)
  next
    fix j j' assume "j < length reqs" "j' < length reqs" "fst (reqs ! j) = fst (reqs ! j')"
      "inside (sn_pc ?st ! j)" "inside (sn_pc ?st ! j')"
    then show "j = j'"
      using inv i(1) len by (auto simp: nth_list_update locks_inv_def split: if_splits)
  qed (use r len in simp_all)
  then show ?thesis by (simp add: leave_def unlock)
qed

section \<open>The cases of a step\<close>

lemma send_step_cases:
  assumes inv: "locks_inv reqs st" and step: "send_step GM R reqs i st = Some st'"
  obtains (enter) c m ls where "i < length reqs" "reqs ! i = (c, m)" "sn_pc st ! i = Waiting"
      "lk_Lock (GetConversationMessagesKey c) (sn_locks st) = Some ls"
      "st' = st\<lparr>sn_locks := ls, sn_pc := (sn_pc st)[i := Inside]\<rparr>"
    | (encode_error) c m e where "i < length reqs" "reqs ! i = (c, m)" "sn_pc st ! i = Inside"
      "msg_EncodeBinary GM m = Inl e" "leave i c (Inl e) st = Some st'"
    | (add_error) c m val e s where "i < length reqs" "reqs ! i = (c, m)" "sn_pc st ! i = Inside"
      "msg_EncodeBinary GM m = Inr val"
      "cr_ZAdd R (GetConversationMessagesKey c) (unix (cm_CreatedAt m)) val (sn_store st) = (Inl e, s)"
      "leave i c (Inl e) (st\<lparr>sn_store := s\<rparr>) = Some st'"
    | (added) c m val x s where "i < length reqs" "reqs ! i = (c, m)" "sn_pc st ! i = Inside"
      "msg_EncodeBinary GM m = Inr val"
      "cr_ZAdd R (GetConversationMessagesKey c) (unix (cm_CreatedAt m)) val (sn_store st) = (Inr x, s)"
      "st' = st\<lparr>sn_store := s, sn_pc := (sn_pc st)[i := Stored val], sn_added := sn_added st @ [(c, val)]\<rparr>"
    | (published) c m val r s where "i < length reqs" "reqs ! i = (c, m)" "sn_pc st ! i = Stored val"
      "cr_Publish R (GetConversationPubSubKey c) val (sn_store st) = (r, s)"
      "leave i c r (st\<lparr>sn_store := s\<rparr>) = Some st'"
proof -
  obtain c m where req: "reqs ! i = (c, m)" by fastforce
  from step have i: "i < length reqs" by (simp add: send_step_def split: if_splits)
  show thesis
  proof (cases "sn_pc st ! i")
    case pc: Waiting
    with step i req obtain ls where "lk_Lock (GetConversationMessagesKey c) (sn_locks st) = Some ls"
      "st' = st\<lparr>sn_locks := ls, sn_pc := (sn_pc st)[i := Inside]\<rparr>"
      by (auto simp: send_step_def split: option.splits)
    then show thesis by (rule enter [OF i req pc])
  next
    case pc: Inside
    show thesis
    proof (cases "msg_EncodeBinary GM m")
      case (Inl e)
      with step i req pc show thesis by (intro encode_error [OF i req pc Inl]) (simp add: send_step_def)
    next
      case (Inr val)
      obtain r s where z: "cr_ZAdd R (GetConversationMessagesKey c) (unix (cm_CreatedAt m)) val (sn_store st) = (r, s)"
        by fastforce
      with step i req pc Inr show thesis
        by (cases r) (auto simp: send_step_def intro: add_error [OF i req pc Inr] added [OF i req pc Inr])
    qed
  next
    case pc: (Stored val)
    obtain r s where p: "cr_Publish R (GetConversationPubSubKey c) val (sn_store st) = (r, s)" by fastforce
    with step i req pc show thesis by (intro published [OF i req pc p]) (simp add: send_step_def)
  next
    case (Finished r)
    with step i req show thesis by (simp add: send_step_def)
  qed
qed

lemma leave_Some:
  assumes "leave i c r st = Some st'"
  shows "sn_store st' = sn_store st" and "sn_pc st' = (sn_pc st)[i := Finished r]" and "sn_added st' = sn_added st"
  using assms by (auto simp: leave_def split: option.splits)

lemma leave_inv:
  assumes "locks_inv reqs st" and "i < length reqs" and "inside (sn_pc st ! i)" and "reqs ! i = (c, m)"
    and "leave i c r (st\<lparr>sn_store := s\<rparr>) = Some st'"
  shows "locks_inv reqs st'"
  using locks_inv_leave [of reqs "st\<lparr>sn_store := s\<rparr>" i r] assms by (simp add: locks_inv_store)

lemma send_step_locks:
  assumes inv: "locks_inv reqs st" and step: "send_step GM R reqs i st = Some st'"
  shows "locks_inv reqs st'"
  using inv step
proof (cases rule: send_step_cases)
  case (enter c m ls)
  with locks_inv_enter [OF inv, of i ls] show ?thesis by simp
next
  case (encode_error c m e)
  with leave_inv [OF inv, of i c m "Inl e" "sn_store st"] show ?thesis by simp
next
  case (add_error c m val e s)
  with leave_inv [OF inv, of i c m "Inl e" s] show ?thesis by simp
next
  case (added c m val x s)
  with locks_inv_stay [OF inv, where i = i and pc = "Stored val"] show ?thesis by simp
next
  case (published c m val r s)
  with leave_inv [OF inv, of i c m r s] show ?thesis by simp
qed

section \<open>Publications follow the store\<close>

definition pubs :: "chat_view \<Rightarrow> string \<Rightarrow> string list" where
  "pubs v c = map snd (filter (\<lambda>x. fst x = GetConversationPubSubKey c) (cv_published v))"

definition adds :: "(string \<times> string) list \<Rightarrow> string \<Rightarrow> string list" where
  "adds xs c = map snd (filter (\<lambda>x. fst x = c) xs)"

definition order_inv :: "('r \<Rightarrow> chat_view) \<Rightarrow> send_requests \<Rightarrow> 'r senders \<Rightarrow> bool" where
  "order_inv view reqs st \<longleftrightarrow> (\<forall>c.
     set (adds (sn_added st) c) \<subseteq> snd ` set (cv_zsets (view (sn_store st)) (GetConversationMessagesKey c)) \<and>
     subseq (pubs (view (sn_store st)) c) (adds (sn_added st) c) \<and>
     (\<forall>i < length reqs. \<forall>val. fst (reqs ! i) = c \<longrightarrow> sn_pc st ! i = Stored val \<longrightarrow>
        (\<exists>pre. adds (sn_added st) c = pre @ [val] \<and> subseq (pubs (view (sn_store st)) c) pre)))"

lemma pubs_simps [simp]:
  "pubs (view_zadd k sc m v) c = pubs v c"
  "pubs (view_publish (GetConversationPubSubKey c') m v) c = (if c' = c then pubs v c @ [m] else pubs v c)"
  by (auto simp: pubs_def view_publish_def)

lemma adds_snoc [simp]: "adds (xs @ [(c', val)]) c = (if c' = c then adds xs c @ [val] else adds xs c)"
  by (auto simp: adds_def)

lemma zadd_keeps_members:
  "snd ` set (cv_zsets v k') \<subseteq> snd ` set (cv_zsets (view_zadd k sc m v) k')"
  "m \<in> snd ` set (cv_zsets (view_zadd k sc m v) k)"
  by (auto simp: view_zadd_def set_z_add image_iff)

lemma order_inv_start: "cv_published (view s) = [] \<Longrightarrow> order_inv view reqs (senders_start reqs s)"
  by (auto simp: order_inv_def senders_start_def adds_def pubs_def)

lemma order_invD:
  assumes "order_inv view reqs st"
  shows "set (adds (sn_added st) c) \<subseteq> snd ` set (cv_zsets (view (sn_store st)) (GetConversationMessagesKey c))"
    and "subseq (pubs (view (sn_store st)) c) (adds (sn_added st) c)"
    and "i < length reqs \<Longrightarrow> fst (reqs ! i) = c \<Longrightarrow> sn_pc st ! i = Stored val \<Longrightarrow>
      \<exists>pre. adds (sn_added st) c = pre @ [val] \<and> subseq (pubs (view (sn_store st)) c) pre"
  using assms unfolding order_inv_def by blast+

text \<open>A step that publishes nothing, adds nothing and stores no value in a goroutine keeps the order.\<close>

lemma order_inv_quiet:
  assumes "order_inv view reqs st" and "sn_added st' = sn_added st"
    and "\<And>c. pubs (view (sn_store st')) c = pubs (view (sn_store st)) c"
    and "\<And>k. snd ` set (cv_zsets (view (sn_store st)) k) \<subseteq> snd ` set (cv_zsets (view (sn_store st')) k)"
    and "\<And>j val. j < length reqs \<Longrightarrow> sn_pc st' ! j = Stored val \<Longrightarrow> sn_pc st ! j = Stored val"
  shows "order_inv view reqs st'"
  unfolding order_inv_def assms(2,3)
  using order_invD [OF assms(1)] assms(4,5) by (meson subset_trans)

lemma subseq_snoc: "subseq xs ys \<Longrightarrow> subseq (xs @ [v]) (ys @ [v])"
  by (rule list_emb_append_mono) simp_all

context chat_store
begin

lemma zadd_cases:
  assumes "cr_ZAdd R k sc m s = (r, s')"
  shows "pubs (view s') c = pubs (view s) c" and "snd ` set (cv_zsets (view s) k') \<subseteq> snd ` set (cv_zsets (view s') k')"
proof -
  from zadd [OF assms] consider "view s' = view_zadd k sc m (view s)" | "view s' = view s" by (auto simp: written_def)
  then show "pubs (view s') c = pubs (view s) c" "snd ` set (cv_zsets (view s) k') \<subseteq> snd ` set (cv_zsets (view s') k')"
    by (cases; simp add: zadd_keeps_members(1))+
qed

lemma publish_cases:
  assumes "cr_Publish R (GetConversationPubSubKey c) val s = (r, s')"
  shows "cv_zsets (view s') = cv_zsets (view s)"
    and "c' \<noteq> c \<Longrightarrow> pubs (view s') c' = pubs (view s) c'"
    and "pubs (view s') c = pubs (view s) c \<or> pubs (view s') c = pubs (view s) c @ [val]"
  using publish [OF assms] by (auto simp: written_def)

lemma send_step_order:
  assumes locks: "locks_inv reqs st" and order: "order_inv view reqs st" and step: "send_step GM R reqs i st = Some st'"
  shows "order_inv view reqs st'"
  using locks step
proof (cases rule: send_step_cases)
  case (enter c m ls)
  with locks show ?thesis
    by (intro order_inv_quiet [OF order]) (auto simp: nth_list_update locks_inv_def split: if_splits)
next
  case (encode_error c m e)
  with leave_Some [OF encode_error(5)] locks show ?thesis
    by (intro order_inv_quiet [OF order]) (auto simp: nth_list_update locks_inv_def split: if_splits)
next
  case (add_error c m val e s)
  with leave_Some [OF add_error(6)] locks zadd_cases [OF add_error(5)] show ?thesis
    by (intro order_inv_quiet [OF order]) (auto simp: nth_list_update locks_inv_def split: if_splits)
next
  case (added c m val x s)
  note old = order_invD [OF order]
  have st': "sn_store st' = s" "sn_added st' = sn_added st @ [(c, val)]" "sn_pc st' = (sn_pc st)[i := Stored val]"
    using added(6) by simp_all
  have len: "length (sn_pc st) = length reqs" using locks by (simp add: locks_inv_def)
  have pubs: "pubs (view s) c' = pubs (view (sn_store st)) c'" for c' by (rule zadd_cases(1) [OF added(5)])
  have new: "val \<in> snd ` set (cv_zsets (view s) (GetConversationMessagesKey c))"
    using zadd_Inr [OF added(5)] zadd_keeps_members(2) by simp
  show ?thesis
    unfolding order_inv_def st' pubs
  proof (intro allI conjI impI)
    fix c'
    show "set (adds (sn_added st @ [(c, val)]) c') \<subseteq> snd ` set (cv_zsets (view s) (GetConversationMessagesKey c'))"
      using old(1) [of c'] zadd_cases(2) [OF added(5), of "GetConversationMessagesKey c'"] new by auto
    show "subseq (pubs (view (sn_store st)) c') (adds (sn_added st @ [(c, val)]) c')"
      using old(2) [of c'] by (simp add: list_emb_prefix)
    fix j w assume j: "j < length reqs" "fst (reqs ! j) = c'" "(sn_pc st)[i := Stored val] ! j = Stored w"
    show "\<exists>pre. adds (sn_added st @ [(c, val)]) c' = pre @ [w] \<and> subseq (pubs (view (sn_store st)) c') pre"
    proof (cases "c' = c")
      case True
      have "j = i"
      proof (rule ccontr)
        assume "j \<noteq> i"
        with j have "sn_pc st ! j = Stored w" by simp
        then have "inside (sn_pc st ! j)" "inside (sn_pc st ! i)" using added(3) by simp_all
        with j(1,2) added(1,2) True locks \<open>j \<noteq> i\<close> show False unfolding locks_inv_def by (metis fst_conv)
      qed
      with j(3) len added(1) have "w = val" by simp
      with True old(2) [of c] show ?thesis by auto
    next
      case False
      with j(2) added(2) have "j \<noteq> i" by auto
      with j old(3) False show ?thesis by simp
    qed
  qed
next
  case (published c m val r s)
  note old = order_invD [OF order] and leave = leave_Some [OF published(5)] and pub = publish_cases [OF published(4)]
  have len: "length (sn_pc st) = length reqs" using locks by (simp add: locks_inv_def)
  have st': "sn_store st' = s" "sn_added st' = sn_added st" "sn_pc st' = (sn_pc st)[i := Finished r]"
    using leave by simp_all
  from old(3) [of i c val] published(1-3) obtain pre
    where pre: "adds (sn_added st) c = pre @ [val]" "subseq (pubs (view (sn_store st)) c) pre" by auto
  show ?thesis
    unfolding order_inv_def st' pub(1)
  proof (intro allI conjI impI)
    fix c'
    show "set (adds (sn_added st) c') \<subseteq> snd ` set (cv_zsets (view (sn_store st)) (GetConversationMessagesKey c'))"
      by (rule old(1))
    show "subseq (pubs (view s) c') (adds (sn_added st) c')"
    proof (cases "c' = c")
      case True
      then show ?thesis using pub(3) pre subseq_snoc [OF pre(2)] list_emb_prefix [OF pre(2)] by auto
    qed (use pub(2) old(2) in simp)
    fix j w assume j: "j < length reqs" "fst (reqs ! j) = c'" "(sn_pc st)[i := Finished r] ! j = Stored w"
    then have "j \<noteq> i" using len by auto
    with j have jw: "sn_pc st ! j = Stored w" by simp
    have "inside (sn_pc st ! j)" "inside (sn_pc st ! i)" using jw published(3) by simp_all
    with \<open>j \<noteq> i\<close> j(1,2) published(1,2) locks have "c' \<noteq> c" unfolding locks_inv_def by (metis fst_conv)
    with pub(2) old(3) [OF j(1,2) jw] show "\<exists>pre. adds (sn_added st) c' = pre @ [w] \<and> subseq (pubs (view s) c') pre"
      by simp
  qed
qed

lemma run_sends_inv:
  assumes "run_sends GM R reqs schedule st = Some st'" and "locks_inv reqs st" and "order_inv view reqs st"
  shows "locks_inv reqs st' \<and> order_inv view reqs st'"
  using assms
proof (induction schedule arbitrary: st)
  case (Cons i schedule)
  then obtain st1 where "send_step GM R reqs i st = Some st1" "run_sends GM R reqs schedule st1 = Some st'"
    by (auto split: option.splits)
  with Cons send_step_locks send_step_order show ?case by blast
qed simp

end

section \<open>Every message arrives once\<close>

text \<open>The requests of a conversation that have returned, and those that answered without an error.\<close>

definition returned :: "send_requests \<Rightarrow> 'r senders \<Rightarrow> string \<Rightarrow> nat set" where
  "returned reqs st c = {i. i < length reqs \<and> fst (reqs ! i) = c \<and> (\<exists>r. sn_pc st ! i = Finished r)}"

definition answered_well :: "send_requests \<Rightarrow> 'r senders \<Rightarrow> string \<Rightarrow> nat set" where
  "answered_well reqs st c = {i. i < length reqs \<and> fst (reqs ! i) = c \<and> sn_pc st ! i = Finished (Inr ())}"

definition wire_text :: "chat_message gob \<Rightarrow> send_requests \<Rightarrow> nat \<Rightarrow> string" where
  "wire_text GM reqs i = (case msg_EncodeBinary GM (snd (reqs ! i)) of Inl e \<Rightarrow> '''' | Inr str \<Rightarrow> str)"

text \<open>
  What listeners of a conversation were sent is the text of each request of a set \<open>D\<close>, once: requests
  that have returned, all that answered without an error among them.
\<close>

definition published_once :: "chat_message gob \<Rightarrow> ('r \<Rightarrow> chat_view) \<Rightarrow> send_requests \<Rightarrow> 'r senders \<Rightarrow> string \<Rightarrow> bool" where
  "published_once GM view reqs st c \<longleftrightarrow>
     (\<exists>D. answered_well reqs st c \<subseteq> D \<and> D \<subseteq> returned reqs st c \<and>
        mset (pubs (view (sn_store st)) c) = image_mset (wire_text GM reqs) (mset_set D))"

text \<open>A request past its \<^verbatim>\<open>ZADD\<close>: its text is in the sorted set of its conversation, under its second.\<close>

definition stored_under_second :: "chat_message gob \<Rightarrow> ('r \<Rightarrow> chat_view) \<Rightarrow> send_requests \<Rightarrow> 'r senders \<Rightarrow> nat \<Rightarrow> bool" where
  "stored_under_second GM view reqs st i \<longleftrightarrow>
     msg_EncodeBinary GM (snd (reqs ! i)) = Inr (wire_text GM reqs i) \<and>
     (unix (cm_CreatedAt (snd (reqs ! i))), wire_text GM reqs i)
        \<in> set (cv_zsets (view (sn_store st)) (GetConversationMessagesKey (fst (reqs ! i))))"

definition once_inv :: "chat_message gob \<Rightarrow> ('r \<Rightarrow> chat_view) \<Rightarrow> send_requests \<Rightarrow> 'r senders \<Rightarrow> bool" where
  "once_inv GM view reqs st \<longleftrightarrow> (\<forall>c. published_once GM view reqs st c) \<and>
     (\<forall>i < length reqs. \<forall>val. sn_pc st ! i = Stored val \<longrightarrow> val = wire_text GM reqs i \<and> stored_under_second GM view reqs st i) \<and>
     (\<forall>i < length reqs. sn_pc st ! i = Finished (Inr ()) \<longrightarrow> stored_under_second GM view reqs st i)"

lemma finite_returned [simp]: "finite (returned reqs st c)"
  by (simp add: returned_def)

lemma once_inv_start: "cv_published (view s) = [] \<Longrightarrow> once_inv GM view reqs (senders_start reqs s)"
  unfolding once_inv_def published_once_def
  by (intro conjI allI exI [of _ "{}"])
     (simp_all add: senders_start_def answered_well_def returned_def pubs_def)

text \<open>A step that publishes nothing and lets no request answer without an error.\<close>

lemma published_once_quiet:
  assumes "published_once GM view reqs st c" and "pubs (view (sn_store st')) c = pubs (view (sn_store st)) c"
    and "answered_well reqs st' c = answered_well reqs st c" and "returned reqs st c \<subseteq> returned reqs st' c"
  shows "published_once GM view reqs st' c"
proof -
  from assms(1) obtain D where "answered_well reqs st c \<subseteq> D" "D \<subseteq> returned reqs st c"
    "mset (pubs (view (sn_store st)) c) = image_mset (wire_text GM reqs) (mset_set D)"
    unfolding published_once_def by blast
  then show ?thesis
    unfolding published_once_def assms(2,3) using assms(4) by (intro exI [of _ D]) blast
qed

lemma published_once_more:
  assumes "published_once GM view reqs st c" and "i \<in> returned reqs st' c" and "i \<notin> returned reqs st c"
    and "pubs (view (sn_store st')) c = pubs (view (sn_store st)) c @ [wire_text GM reqs i]"
    and "answered_well reqs st' c \<subseteq> insert i (answered_well reqs st c)" and "returned reqs st c \<subseteq> returned reqs st' c"
  shows "published_once GM view reqs st' c"
proof -
  from assms(1) obtain D where D: "answered_well reqs st c \<subseteq> D" "D \<subseteq> returned reqs st c"
    "mset (pubs (view (sn_store st)) c) = image_mset (wire_text GM reqs) (mset_set D)"
    unfolding published_once_def by blast
  have "finite D" using D(2) finite_subset by fastforce
  moreover have "i \<notin> D" using D(2) assms(3) by blast
  ultimately have "mset (pubs (view (sn_store st')) c) = image_mset (wire_text GM reqs) (mset_set (insert i D))"
    using D(3) assms(4) by simp
  then show ?thesis
    unfolding published_once_def using D(1,2) assms(2,5,6) by (intro exI [of _ "insert i D"]) blast
qed

text \<open>Adding a text again under another score would move it: two messages of one text are one message.\<close>

lemma stored_under_second_zadd:
  assumes "gob_contract plain_message GM" and "\<forall>i < length reqs. plain_message (snd (reqs ! i))"
    and "stored_under_second GM view reqs st j" and "i < length reqs" and "j < length reqs"
    and "msg_EncodeBinary GM (snd (reqs ! i)) = Inr val" and "GetConversationMessagesKey (fst (reqs ! i)) = k"
    and "view (sn_store st') = view_zadd k (unix (cm_CreatedAt (snd (reqs ! i)))) val (view (sn_store st))"
  shows "stored_under_second GM view reqs st' j"
proof -
  have "wire_text GM reqs j = val \<Longrightarrow> snd (reqs ! j) = snd (reqs ! i)"
    using msg_encode_inj [OF assms(1), of "snd (reqs ! j)" "snd (reqs ! i)"] assms(2-6)
    by (simp add: stored_under_second_def)
  then show ?thesis
    using assms(3) by (auto simp: stored_under_second_def assms(8) view_zadd_def set_z_add)
qed

lemma stored_under_second_cong:
  "cv_zsets (view (sn_store st')) = cv_zsets (view (sn_store st)) \<Longrightarrow>
     stored_under_second GM view reqs st' j \<longleftrightarrow> stored_under_second GM view reqs st j"
  by (simp add: stored_under_second_def)

text \<open>How the two sets change when goroutine \<open>i\<close>, which had not returned, goes on.\<close>

lemma returned_update:
  assumes "length (sn_pc st) = length reqs" and "i < length reqs" and "\<nexists>r. sn_pc st ! i = Finished r"
    and "sn_pc st' = (sn_pc st)[i := pc]"
  shows "i \<notin> returned reqs st c" and "returned reqs st c \<subseteq> returned reqs st' c"
    and "i \<in> returned reqs st' c \<longleftrightarrow> fst (reqs ! i) = c \<and> (\<exists>r. pc = Finished r)"
    and "answered_well reqs st' c =
      (if fst (reqs ! i) = c \<and> pc = Finished (Inr ()) then insert i (answered_well reqs st c) else answered_well reqs st c)"
  using assms by (auto simp: returned_def answered_well_def nth_list_update)

context chat_store
begin

lemma send_step_once:
  assumes gob: "gob_contract plain_message GM" and plain: "\<forall>i < length reqs. plain_message (snd (reqs ! i))"
    and locks: "locks_inv reqs st" and once: "once_inv GM view reqs st" and step: "send_step GM R reqs i st = Some st'"
  shows "once_inv GM view reqs st'"
proof -
  have len: "length (sn_pc st) = length reqs" using locks by (simp add: locks_inv_def)
  have pub: "published_once GM view reqs st c"
    and stored: "j < length reqs \<Longrightarrow> sn_pc st ! j = Stored val \<Longrightarrow> val = wire_text GM reqs j \<and> stored_under_second GM view reqs st j"
    and sent: "j < length reqs \<Longrightarrow> sn_pc st ! j = Finished (Inr ()) \<Longrightarrow> stored_under_second GM view reqs st j" for c j val
    using once by (simp_all add: once_inv_def)
  have rest: "once_inv GM view reqs st'"
    if i: "i < length reqs" "\<nexists>r. sn_pc st ! i = Finished r" and pc: "sn_pc st' = (sn_pc st)[i := p]"
      and pubs: "\<And>c. published_once GM view reqs st' c"
      and keep: "\<And>j. j < length reqs \<Longrightarrow> stored_under_second GM view reqs st j \<Longrightarrow> stored_under_second GM view reqs st' j"
      and new: "(\<exists>val. p = Stored val) \<or> p = Finished (Inr ()) \<Longrightarrow> stored_under_second GM view reqs st' i"
      and same: "\<And>val. p = Stored val \<Longrightarrow> val = wire_text GM reqs i" for p
    unfolding once_inv_def pc using pubs keep new same i(1) len stored sent by (auto simp: nth_list_update)
  from locks step show ?thesis
  proof (cases rule: send_step_cases)
    case (enter c m ls)
    then have pc: "sn_pc st' = (sn_pc st)[i := Inside]" by simp
    note upd = returned_update [OF len enter(1) _ pc]
    show ?thesis
      by (rule rest [OF enter(1) _ pc])
        (use enter upd in \<open>auto intro!: published_once_quiet [OF pub] simp: stored_under_second_def\<close>)
  next
    case (encode_error c m e)
    note pc = leave_Some(2) [OF encode_error(5)] and store = leave_Some(1) [OF encode_error(5)]
    note upd = returned_update [OF len encode_error(1) _ pc]
    show ?thesis
      by (rule rest [OF encode_error(1) _ pc])
        (use encode_error(3) upd store in \<open>auto intro!: published_once_quiet [OF pub] simp: stored_under_second_def\<close>)
  next
    case (add_error c m val e s)
    note pc = leave_Some(2) [OF add_error(6), simplified] and store = leave_Some(1) [OF add_error(6), simplified]
    note upd = returned_update [OF len add_error(1) _ pc]
    have view: "view (sn_store st') = view_zadd (GetConversationMessagesKey c) (unix (cm_CreatedAt m)) val (view (sn_store st)) \<or>
        view (sn_store st') = view (sn_store st)"
      using zadd [OF add_error(5)] by (auto simp: written_def store)
    have keep: "stored_under_second GM view reqs st' j" if "j < length reqs" "stored_under_second GM view reqs st j" for j
      using view
    proof
      assume "view (sn_store st') = view_zadd (GetConversationMessagesKey c) (unix (cm_CreatedAt m)) val (view (sn_store st))"
      with add_error show ?thesis
        by (intro stored_under_second_zadd [OF gob plain that(2) add_error(1) that(1)]) simp_all
    qed (use that in \<open>simp add: stored_under_second_def\<close>)
    show ?thesis
      by (rule rest [OF add_error(1) _ pc])
        (use add_error(3) upd zadd_cases(1) [OF add_error(5)] keep in \<open>auto intro!: published_once_quiet [OF pub] simp: store\<close>)
  next
    case (added c m val x s)
    then have pc: "sn_pc st' = (sn_pc st)[i := Stored val]" by simp
    note upd = returned_update [OF len added(1) _ pc]
    have val: "val = wire_text GM reqs i" using added(2,4) by (simp add: wire_text_def)
    have view: "view (sn_store st') = view_zadd (GetConversationMessagesKey c) (unix (cm_CreatedAt m)) val (view (sn_store st))"
      using zadd_Inr [OF added(5)] added(6) by simp
    have keep: "stored_under_second GM view reqs st' j" if "j < length reqs" "stored_under_second GM view reqs st j" for j
      using added view by (intro stored_under_second_zadd [OF gob plain that(2) added(1) that(1)]) simp_all
    have new: "stored_under_second GM view reqs st' i"
      using added(2,4) val by (simp add: stored_under_second_def view view_zadd_def set_z_add)
    show ?thesis
      by (rule rest [OF added(1) _ pc])
        (use added(3,6) upd zadd_cases(1) [OF added(5)] keep new val in \<open>auto intro!: published_once_quiet [OF pub]\<close>)
  next
    case (published c m val r s)
    note pc = leave_Some(2) [OF published(5), simplified] and store = leave_Some(1) [OF published(5), simplified]
    note pub_view = publish_cases [OF published(4)]
    have open_pc: "\<nexists>r. sn_pc st ! i = Finished r" using published(3) by simp
    note upd = returned_update [OF len published(1) open_pc pc]
    have old: "val = wire_text GM reqs i" "stored_under_second GM view reqs st i" using stored [OF published(1,3)] by simp_all
    have keep: "stored_under_second GM view reqs st' j \<longleftrightarrow> stored_under_second GM view reqs st j" for j
      using pub_view(1) by (intro stored_under_second_cong) (simp add: store)
    have "published_once GM view reqs st' c'" for c'
    proof (cases "c' = c \<and> pubs (view s) c = pubs (view (sn_store st)) c @ [val]")
      case True
      then show ?thesis
        using upd(3,4) [of c'] published(2) old(1)
        by (intro published_once_more [OF pub _ upd(1) _ _ upd(2)]) (auto simp: store)
    next
      case False
      then have "pubs (view s) c' = pubs (view (sn_store st)) c'" using pub_view(2,3) by (cases "c' = c") auto
      moreover have "c' = c \<Longrightarrow> r \<noteq> Inr ()"
        using False publish_Inr [of "GetConversationPubSubKey c" val "sn_store st" "()" s] published(4) by auto
      ultimately show ?thesis
        using upd(2,4) [of c'] published(2) by (intro published_once_quiet [OF pub]) (auto simp: store)
    qed
    then show ?thesis
      by (intro rest [OF published(1) open_pc pc]) (use keep old in auto)
  qed
qed

lemma run_sends_once:
  assumes "gob_contract plain_message GM" and "\<forall>i < length reqs. plain_message (snd (reqs ! i))"
    and "run_sends GM R reqs schedule st = Some st'" and "locks_inv reqs st" and "once_inv GM view reqs st"
  shows "once_inv GM view reqs st'"
  using assms(3-)
proof (induction schedule arbitrary: st)
  case (Cons i schedule)
  then obtain st1 where "send_step GM R reqs i st = Some st1" "run_sends GM R reqs schedule st1 = Some st'"
    by (auto split: option.splits)
  with Cons send_step_locks send_step_once [OF assms(1,2)] show ?case by blast
qed simp

end

section \<open>Every request returns\<close>

fun steps_left :: "send_pc \<Rightarrow> nat" where
  "steps_left Waiting = 3"
| "steps_left Inside = 2"
| "steps_left (Stored v) = 1"
| "steps_left (Finished r) = 0"

definition work_left :: "'r senders \<Rightarrow> nat" where
  "work_left st = sum_list (map steps_left (sn_pc st))"

lemma work_left_update:
  assumes "i < length pcs" and "steps_left pc < steps_left (pcs ! i)"
  shows "sum_list (map steps_left (pcs[i := pc])) < sum_list (map steps_left pcs)"
  using assms
proof (induction pcs arbitrary: i)
  case (Cons p pcs)
  then show ?case by (cases i) auto
qed simp

lemma send_step_work:
  assumes inv: "locks_inv reqs st" and step: "send_step GM R reqs i st = Some st'"
  shows "work_left st' < work_left st"
proof -
  have len: "length (sn_pc st) = length reqs" using inv by (simp add: locks_inv_def)
  have "\<exists>pc. sn_pc st' = (sn_pc st)[i := pc] \<and> i < length reqs \<and> steps_left pc < steps_left (sn_pc st ! i)"
    using inv step
  proof (cases rule: send_step_cases)
    case (encode_error c m e)
    then show ?thesis using leave_Some(2) by fastforce
  next
    case (add_error c m val e s)
    then show ?thesis using leave_Some(2) by fastforce
  next
    case (published c m val r s)
    then show ?thesis using leave_Some(2) by fastforce
  qed auto
  then show ?thesis using len by (auto simp: work_left_def work_left_update)
qed

lemma run_sends_work:
  assumes "run_sends GM R reqs schedule st = Some st'" and "locks_inv reqs st"
  shows "locks_inv reqs st'" and "length schedule + work_left st' \<le> work_left st"
  using assms
proof (induction schedule arbitrary: st)
  case (Cons i schedule)
  { case 1 then show ?case using Cons.IH(1) send_step_locks by (fastforce split: option.splits) }
  { case 2
    then obtain st1 where step: "send_step GM R reqs i st = Some st1" and run: "run_sends GM R reqs schedule st1 = Some st'"
      by (auto split: option.splits)
    from Cons.IH(2) [OF run send_step_locks [OF 2(2) step]] send_step_work [OF 2(2) step] show ?case by simp }
qed simp_all

text \<open>Some goroutine can go on as long as one has not returned.\<close>

lemma some_step:
  assumes inv: "locks_inv reqs st" and i: "i < length reqs" and unfinished: "\<nexists>r. sn_pc st ! i = Finished r"
  shows "\<exists>j st'. send_step GM R reqs j st = Some st'"
proof (cases "\<exists>j < length reqs. inside (sn_pc st ! j)")
  case True
  then obtain j where j: "j < length reqs" "inside (sn_pc st ! j)" by blast
  obtain c m where req: "reqs ! j = (c, m)" by fastforce
  have leave: "\<exists>st'. leave j c r (st\<lparr>sn_store := s\<rparr>) = Some st'" for r s
    using locks_inv_leave [of reqs "st\<lparr>sn_store := s\<rparr>" j r] inv j req by (auto simp: locks_inv_store)
  have leave': "\<exists>st'. leave j c r st = Some st'" for r
    using locks_inv_leave [OF inv j, of r] req by auto
  have "\<exists>st'. send_step GM R reqs j st = Some st'"
    using j leave leave' by (auto simp: send_step_def req split: send_pc.splits prod.splits sum.splits)
  then show ?thesis by blast
next
  case False
  obtain c m where req: "reqs ! i = (c, m)" by fastforce
  have "sn_pc st ! i = Waiting" using False i unfinished by (cases "sn_pc st ! i") auto
  moreover have "\<exists>ls. lk_Lock (GetConversationMessagesKey c) (sn_locks st) = Some ls"
    using inv False by (auto simp: lk.lock_iff locks_inv_def)
  ultimately have "\<exists>st'. send_step GM R reqs i st = Some st'"
    using i by (auto simp: send_step_def req)
  then show ?thesis by blast
qed

text \<open>
  C10: messages sent at the same time. However the requests interleave and whatever commands fail, at
  most one request of a conversation is between taking its lock and giving it back, what listeners
  of the conversation are sent keeps the order in which the messages were stored, and every message
  they are sent is stored.
\<close>

theorem publications_follow_the_store:
  assumes "chat_store R view" and "cv_published (view s) = []"
    and "run_sends GM R reqs schedule (senders_start reqs s) = Some st"
  shows "subseq (pubs (view (sn_store st)) c) (adds (sn_added st) c) \<and>
    set (pubs (view (sn_store st)) c) \<subseteq> snd ` set (cv_zsets (view (sn_store st)) (GetConversationMessagesKey c)) \<and>
    (\<forall>i < length reqs. \<forall>j < length reqs. inside (sn_pc st ! i) \<longrightarrow> inside (sn_pc st ! j) \<longrightarrow>
       fst (reqs ! i) = fst (reqs ! j) \<longrightarrow> i = j)"
proof -
  have "order_inv view reqs (senders_start reqs s)" by (rule order_inv_start) (rule assms(2))
  from chat_store.run_sends_inv [OF assms(1,3) locks_inv_start this]
  have inv: "locks_inv reqs st" "order_inv view reqs st" by simp_all
  note order = order_invD(1,2) [OF inv(2), of c]
  have sub: "set xs \<subseteq> set ys" if "subseq xs ys" for xs ys :: "string list"
    using that by (induction rule: list_emb.induct) auto
  have "\<forall>i < length reqs. \<forall>j < length reqs. inside (sn_pc st ! i) \<longrightarrow> inside (sn_pc st ! j) \<longrightarrow>
      fst (reqs ! i) = fst (reqs ! j) \<longrightarrow> i = j"
    using inv(1) unfolding locks_inv_def by (elim conjE)
  with order(2) subset_trans [OF sub [OF order(2)] order(1)] show ?thesis by (intro conjI)
qed


text \<open>
  C15: no request to send is ever stuck. A run of \<open>n\<close> requests makes at most \<open>3 n\<close> steps; in every state
  it can reach, some request can go on unless all have returned; and from every such state there is
  a way on in which all of them return.
\<close>

theorem every_send_returns:
  assumes "run_sends GM R reqs schedule (senders_start reqs s) = Some st"
  shows "length schedule \<le> 3 * length reqs \<and>
    ((\<forall>i < length reqs. \<exists>r. sn_pc st ! i = Finished r) \<or> (\<exists>j st'. send_step GM R reqs j st = Some st')) \<and>
    (\<exists>more st'. run_sends GM R reqs more st = Some st' \<and> (\<forall>i < length reqs. \<exists>r. sn_pc st' ! i = Finished r))"
proof -
  have finish: "\<exists>more st'. run_sends GM R reqs more t = Some st' \<and> (\<forall>i < length reqs. \<exists>r. sn_pc st' ! i = Finished r)"
    if "locks_inv reqs t" for t
    using that
  proof (induction "work_left t" arbitrary: t rule: less_induct)
    case less
    show ?case
    proof (cases "\<forall>i < length reqs. \<exists>r. sn_pc t ! i = Finished r")
      case True
      then show ?thesis by (intro exI [of _ "[]"]) simp
    next
      case False
      then obtain j t' where step: "send_step GM R reqs j t = Some t'" using some_step [OF less.prems] by blast
      from less.hyps [OF send_step_work [OF less.prems step] send_step_locks [OF less.prems step]]
      obtain more st' where "run_sends GM R reqs more t' = Some st'" "\<forall>i < length reqs. \<exists>r. sn_pc st' ! i = Finished r"
        by blast
      then show ?thesis by (intro exI [of _ "j # more"]) (simp add: step)
    qed
  qed
  note run = run_sends_work [OF assms locks_inv_start]
  have "work_left (senders_start reqs s) = 3 * length reqs"
    by (simp add: work_left_def senders_start_def sum_list_replicate)
  with run(2) have "length schedule \<le> 3 * length reqs" by simp
  moreover have "(\<forall>i < length reqs. \<exists>r. sn_pc st ! i = Finished r) \<or> (\<exists>j st'. send_step GM R reqs j st = Some st')"
    using some_step [OF run(1)] by blast
  ultimately show ?thesis using finish [OF run(1)] by blast
qed

text \<open>
  A request that has the server for itself does, step by step, what \<^verbatim>\<open>SendMessage\<close> does read as
  one piece: the same answer and the same store, on every path.
\<close>

theorem lone_send_is_SendMessage:
  assumes "run_sends GM R [(c, m)] schedule (senders_start [(c, m)] s) = Some st" and "sn_pc st ! 0 = Finished r"
  shows "uc_SendMessage GM R c m s = (r, sn_store st)"
proof -
  define ok where "ok st \<longleftrightarrow> (case sn_pc st ! 0 of
       Waiting \<Rightarrow> sn_store st = s
     | Inside \<Rightarrow> sn_store st = s
     | Stored val \<Rightarrow> msg_EncodeBinary GM m = Inr val \<and>
         (\<exists>x. cr_ZAdd R (GetConversationMessagesKey c) (unix (cm_CreatedAt m)) val s = (Inr x, sn_store st))
     | Finished r \<Rightarrow> uc_SendMessage GM R c m s = (r, sn_store st))" for st :: "'a senders"
  have step: "ok st'" if inv: "locks_inv [(c, m)] st" and st: "ok st" and go: "send_step GM R [(c, m)] i st = Some st'" for i st st'
    using inv go
  proof (cases rule: send_step_cases)
    case (enter c' m' ls)
    then show ?thesis using st inv by (auto simp: ok_def locks_inv_def)
  next
    case (encode_error c' m' e)
    then show ?thesis
      using st inv leave_Some [OF encode_error(5)] by (auto simp: ok_def locks_inv_def uc_SendMessage_def)
  next
    case (add_error c' m' val e s')
    then show ?thesis
      using st inv leave_Some [OF add_error(6)] by (auto simp: ok_def locks_inv_def uc_SendMessage_def msg_GetRaw_def)
  next
    case (added c' m' val x s')
    then show ?thesis using st inv by (auto simp: ok_def locks_inv_def)
  next
    case (published c' m' val r s')
    then show ?thesis
      using st inv leave_Some [OF published(5)] by (auto simp: ok_def locks_inv_def uc_SendMessage_def msg_GetRaw_def)
  qed
  have run: "ok st" if "run_sends GM R [(c, m)] schedule st0 = Some st" "locks_inv [(c, m)] st0" "ok st0" for schedule st0
    using that
  proof (induction schedule arbitrary: st0)
    case (Cons i schedule)
    then obtain st1 where "send_step GM R [(c, m)] i st0 = Some st1" "run_sends GM R [(c, m)] schedule st1 = Some st"
      by (auto split: option.splits)
    with Cons step send_step_locks show ?case by blast
  qed simp
  have "ok (senders_start [(c, m)] s)" by (simp add: ok_def senders_start_def)
  from run [OF assms(1) locks_inv_start this] assms(2) show ?thesis by (simp add: ok_def)
qed

section \<open>Two requests at once\<close>

definition second_message :: chat_message where
  "second_message = sample_message\<lparr>cm_ID := ''m2'', cm_UserID := ''2''\<rparr>"

definition sample_GM2 :: "chat_message gob" where
  "sample_GM2 = table_gob [sample_message, second_message]"

definition sample_requests :: send_requests where
  "sample_requests = [(''c1'', sample_message), (''c1'', second_message)]"

definition both_sent :: "mem_chat senders" where
  "both_sent = the (run_sends sample_GM2 mem_chat_cmds sample_requests [1, 1, 1, 0, 0, 0] (senders_start sample_requests chat1))"

lemma both_sent: "run_sends sample_GM2 mem_chat_cmds sample_requests [1, 1, 1, 0, 0, 0] (senders_start sample_requests chat1) =
    Some both_sent"
proof -
  have "run_sends sample_GM2 mem_chat_cmds sample_requests [1, 1, 1, 0, 0, 0] (senders_start sample_requests chat1) \<noteq> None"
    by code_simp
  then show ?thesis by (auto simp: both_sent_def)
qed

lemma publications_follow_the_store_witness:
  "length (pubs (mc_view (sn_store both_sent)) ''c1'') = 2 \<and>
   subseq (pubs (mc_view (sn_store both_sent)) ''c1'') (adds (sn_added both_sent) ''c1'')"
proof -
  have "length (pubs (mc_view (sn_store both_sent)) ''c1'') = 2" "cv_published (mc_view chat1) = []" by code_simp+
  with publications_follow_the_store [OF memc.chat_store_axioms _ both_sent] show ?thesis by blast
qed


lemma every_send_returns_witness: "length [1, 1, 1, 0, 0, 0 :: nat] \<le> 3 * length sample_requests"
  using every_send_returns [OF both_sent] by blast

lemma lone_send_is_SendMessage_witness:
  "\<exists>s. uc_SendMessage sample_GM2 mem_chat_cmds ''c1'' second_message chat1 = (Inr (), s)"
proof -
  let ?run = "run_sends sample_GM2 mem_chat_cmds [(''c1'', second_message)] [0, 0, 0] (senders_start [(''c1'', second_message)] chat1)"
  have "map_option (\<lambda>st. sn_pc st ! 0) ?run = Some (Finished (Inr ()))" by code_simp
  then obtain st where "?run = Some st" "sn_pc st ! 0 = Finished (Inr ())" by auto
  with lone_send_is_SendMessage [of sample_GM2 mem_chat_cmds "''c1''" second_message "[0, 0, 0]" chat1 st "Inr ()"]
  show ?thesis by blast
qed

end
