(* ===== verification/Service_Chat.thy ===== *)
theory Service_Chat
  imports Chat_Copies Server_State Lists_Dir Customers_Dir Comments_Dir
begin

text \<open>
  The handlers of \<^verbatim>\<open>backend/pkg/service/v1/chat.go\<close>: listening and sending, rooms, lists of users and
  conversations. A handler works on the state of a call; the chat's commands of Redis are \<open>R\<close>. The
  clock is in nanoseconds. An answer that is a nil pointer is \<^verbatim>\<open>None\<close>.
\<close>

section \<open>Slices with the same elements (helpers.SameStringSlice)\<close>

fun count_up :: "string list \<Rightarrow> (string \<times> int) list \<Rightarrow> (string \<times> int) list" where
  "count_up [] diff = diff"
| "count_up (x # xs) diff =
     count_up xs (AList.update x ((case map_of diff x of None \<Rightarrow> 0 | Some n \<Rightarrow> n) + 1) diff)"

fun count_down :: "string list \<Rightarrow> (string \<times> int) list \<Rightarrow> (string \<times> int) list option" where
  "count_down [] diff = Some diff"
| "count_down (y # ys) diff =
     (case map_of diff y of
        None \<Rightarrow> None
      | Some n \<Rightarrow>
          let diff = AList.update y (n - 1) diff in
          count_down ys (if n - 1 = 0 then AList.delete y diff else diff))"

definition SameStringSlice :: "string list \<Rightarrow> string list \<Rightarrow> bool" where
  "SameStringSlice x y =
     (if length x \<noteq> length y then False
      else (case count_down y (count_up x []) of None \<Rightarrow> False | Some diff \<Rightarrow> length diff = 0))"

section \<open>Listening\<close>

record chat_env =
  ce_now :: int
  ce_uuid :: string
  ce_clock :: "nat \<Rightarrow> int"

text \<open>
  What happens to the goroutine of a listener, in the order its \<^verbatim>\<open>select\<close> sees it: the call is
  cancelled, a payload arrives on the channel of Redis, or the subscription ends. The goroutine
  returns the messages it sent on, the error it leaves for the handler, and whether it returned.
\<close>

datatype listen_event = CtxDone | Delivered string | SubscriptionClosed

definition closed_msgs :: goerror where
  "closed_msgs = Errorf ''closed msgs channel'' []"

fun listen_loop ::
    "chat_message gob \<Rightarrow> (pb_chat_message \<Rightarrow> goerror option) \<Rightarrow> listen_event list \<Rightarrow> goerror option \<Rightarrow>
     pb_chat_message list \<times> goerror option \<times> bool" where
  "listen_loop GM send [] err = ([], err, False)"
| "listen_loop GM send (CtxDone # evs) err = ([], err, True)"
| "listen_loop GM send (SubscriptionClosed # evs) err = ([], Some closed_msgs, True)"
| "listen_loop GM send (Delivered payload # evs) err =
     (case msg_DecodeBinary GM payload of
        (Some e, _) \<Rightarrow> ([], Some closed_msgs, True)
      | (None, m) \<Rightarrow>
          (case listen_loop GM send evs (case send (msg_ToProtobuf m) of None \<Rightarrow> err | Some e \<Rightarrow> Some e) of
             (ms, err, ret) \<Rightarrow> (msg_ToProtobuf m # ms, err, ret)))"

text \<open>
  The first part of the handler: the messages so far are marked as read, and the active conversation
  is stored under the id of the channel. Its answer is the error the first left, if any; the
  second's is ignored.
\<close>

definition listen_begin ::
    "conversation gob \<Rightarrow> 'r chat_redis \<Rightarrow> string \<Rightarrow> string \<Rightarrow> 'r world \<Rightarrow> goerror option \<times> 'r world" where
  "listen_begin GC R user_id ch w =
     (case on_rdb (ct_ReadConversationMessages GC R user_id ch) w of (r, w) \<Rightarrow>
      case on_rdb (ct_SetActiveConversation R ch ch) w of (_, w) \<Rightarrow>
        (case r of Inl e \<Rightarrow> Some (Status Internal ''failed to read previous conversation messages'' []) | Inr _ \<Rightarrow> None, w))"

text \<open>
  \<open>lr_returned\<close> is what the handler returned with, \<open>None\<close> while it waits on \<^verbatim>\<open>done\<close>. When the messages
  could not be marked as read, \<^verbatim>\<open>done\<close> is closed before the goroutine starts: the handler returns
  after \<open>early\<close> events, and the goroutine closes the closed channel when it returns.
\<close>

record listen_result =
  lr_sent :: "pb_chat_message list"
  lr_returned :: "goerror option option"
  lr_panics :: bool

definition sv_ListenForMessages ::
    "chat_message gob \<Rightarrow> conversation gob \<Rightarrow> 'r chat_redis \<Rightarrow> (pb_chat_message \<Rightarrow> goerror option) \<Rightarrow>
     listen_event list \<Rightarrow> nat \<Rightarrow> call_context \<Rightarrow> string \<Rightarrow> 'r world \<Rightarrow> listen_result res \<times> 'r world" where
  "sv_ListenForMessages GM GC R send evs early ctx ch = with_user ctx (\<lambda>user_id w.
     if ch = [] then (Inl (Status InvalidArgument ''missing channel'' []), w)
     else
       (case listen_begin GC R user_id ch w of (read_err, w) \<Rightarrow>
        case listen_loop GM send evs read_err of (ms, err, ret) \<Rightarrow>
        let returned = (case read_err of
              Some e \<Rightarrow> Some (fst (snd (listen_loop GM send (take early evs) read_err)))
            | None \<Rightarrow> if ret then Some err else None);
            w = (if returned = None then w else snd (on_rdb (ct_DeleteActiveConversation R user_id) w)) in
        (Inr \<lparr>lr_sent = ms, lr_returned = returned, lr_panics = (read_err \<noteq> None \<and> ret)\<rparr>, w)))"

section \<open>Messages\<close>

definition sv_GetMessages ::
    "chat_message gob \<Rightarrow> conversation gob \<Rightarrow> 'r chat_redis \<Rightarrow> call_context \<Rightarrow> string \<Rightarrow> int \<Rightarrow> 'r world \<Rightarrow> pb_messages res \<times> 'r world" where
  "sv_GetMessages GM GC R ctx ch off = with_user ctx (\<lambda>user_id w.
     if ch = [] then (Inl (Status InvalidArgument ''missing channel'' []), w)
     else
       check_err (on_rdb (ct_GetMessages GM GC R user_id ch off) w)
         (\<lambda>e. Status Internal ''failed to retrieve chat messages: %v'' [e]) (\<lambda>ms w. (Inr ms, w)))"

text \<open>The part the four handlers that send share: the channel and the name are needed.\<close>

record send_message_request =
  smr_channel :: string
  smr_content :: string
  smr_username :: string

definition sv_SendMessage ::
    "chat_message gob \<Rightarrow> conversation gob \<Rightarrow> 'r chat_redis \<Rightarrow> chat_env \<Rightarrow> call_context \<Rightarrow> send_message_request \<Rightarrow> 'r world \<Rightarrow> unit res \<times> 'r world" where
  "sv_SendMessage GM GC R env ctx req = with_user ctx (\<lambda>user_id w.
     if smr_content req = [] then (Inl (Status InvalidArgument ''missing content'' []), w)
     else if smr_channel req = [] then (Inl (Status InvalidArgument ''missing channel'' []), w)
     else if smr_username req = [] then (Inl (Status InvalidArgument ''missing username'' []), w)
     else
       check_err (on_rdb (ct_SendMessage GM GC R (smr_channel req) (empty_message\<lparr>cm_ID := ce_uuid env,
           cm_UserID := user_id, cm_CreatedAt := ce_now env, cm_Content := smr_content req,
           cm_SenderUsername := smr_username req\<rparr>)) w)
         (\<lambda>e. Status Internal ''error sending message: %q'' [e]) (\<lambda>_ w. (Inr (), w)))"

record send_award_request =
  swr_channel :: string
  swr_award_id :: string
  swr_username :: string

definition sv_SendAward ::
    "chat_message gob \<Rightarrow> conversation gob \<Rightarrow> 'r chat_redis \<Rightarrow> chat_env \<Rightarrow> call_context \<Rightarrow> send_award_request \<Rightarrow> 'r world \<Rightarrow> unit res \<times> 'r world" where
  "sv_SendAward GM GC R env ctx req = with_user ctx (\<lambda>user_id w.
     if swr_award_id req = [] then (Inl (Status InvalidArgument ''missing content'' []), w)
     else if swr_channel req = [] then (Inl (Status InvalidArgument ''missing channel'' []), w)
     else if swr_username req = [] then (Inl (Status InvalidArgument ''missing username'' []), w)
     else
       check_err (on_rdb (ct_SendMessage GM GC R (swr_channel req) (empty_message\<lparr>cm_ID := ce_uuid env,
           cm_UserID := user_id, cm_CreatedAt := ce_now env, cm_AwardID := swr_award_id req,
           cm_SenderUsername := swr_username req\<rparr>)) w)
         (\<lambda>e. Status Internal ''error sending message: %q'' [e]) (\<lambda>_ w. (Inr (), w)))"

record send_donation_request =
  sdr_channel :: string
  sdr_amount :: int
  sdr_username :: string

definition sv_SendDonation ::
    "chat_message gob \<Rightarrow> conversation gob \<Rightarrow> 'r chat_redis \<Rightarrow> chat_env \<Rightarrow> call_context \<Rightarrow> send_donation_request \<Rightarrow> 'r world \<Rightarrow> unit res \<times> 'r world" where
  "sv_SendDonation GM GC R env ctx req = with_user ctx (\<lambda>user_id w.
     if sdr_channel req = [] then (Inl (Status InvalidArgument ''missing channel'' []), w)
     else if sdr_username req = [] then (Inl (Status InvalidArgument ''missing username'' []), w)
     else if sdr_amount req = 0 then (Inl (Status InvalidArgument ''cannot send zero amount donation'' []), w)
     else
       check_err (on_rdb (ct_SendMessage GM GC R (sdr_channel req) (empty_message\<lparr>cm_ID := ce_uuid env,
           cm_Type := TypeDonation, cm_UserID := user_id, cm_CreatedAt := ce_now env,
           cm_SenderUsername := sdr_username req, cm_Amount := sdr_amount req\<rparr>)) w)
         (\<lambda>_. Status InvalidArgument ''error sending donation'' []) (\<lambda>_ w. (Inr (), w)))"

record send_audio_request =
  sar_channel :: string
  sar_audio :: "byte list option"
  sar_username :: string

text \<open>An audio message has the type of a donation, as in the code.\<close>

definition sv_SendAudio ::
    "chat_message gob \<Rightarrow> conversation gob \<Rightarrow> 'r chat_redis \<Rightarrow> chat_env \<Rightarrow> call_context \<Rightarrow> send_audio_request \<Rightarrow> 'r world \<Rightarrow> unit res \<times> 'r world" where
  "sv_SendAudio GM GC R env ctx req = with_user ctx (\<lambda>user_id w.
     if sar_channel req = [] then (Inl (Status InvalidArgument ''missing channel'' []), w)
     else if sar_username req = [] then (Inl (Status InvalidArgument ''missing username'' []), w)
     else if sar_audio req = None then (Inl (Status InvalidArgument ''cannot send nil audio'' []), w)
     else
       check_err (on_rdb (ct_SendMessage GM GC R (sar_channel req) (empty_message\<lparr>cm_ID := ce_uuid env,
           cm_Type := TypeDonation, cm_UserID := user_id, cm_CreatedAt := ce_now env,
           cm_SenderUsername := sar_username req, cm_Bytes := sar_audio req\<rparr>)) w)
         (\<lambda>_. Status Internal ''failed to send chat audio'' []) (\<lambda>_ w. (Inr (), w)))"

section \<open>Rooms\<close>

datatype pb_room_authorization =
    RoomAuthorization_AUTHORIZED
  | RoomAuthorization_NEED_TO_PAY
  | RoomAuthorization_UNJOINABLE
  | RoomAuthorization_NEED_TO_SUBSCRIBE

text \<open>The body of the check is commented out; a nil answer is left.\<close>

definition sv_RoomAccessCheck :: "call_context \<Rightarrow> string \<Rightarrow> 'r world \<Rightarrow> pb_room_authorization option res \<times> 'r world" where
  "sv_RoomAccessCheck ctx room_id w = (Inr None, w)"

definition roomAccessCheckResponse :: "pb_room_authorization \<Rightarrow> pb_room_authorization res" where
  "roomAccessCheckResponse authorization = Inr authorization"

definition handleSubscriptionRoom :: "string \<Rightarrow> string \<Rightarrow> 'r world \<Rightarrow> pb_room_authorization res \<times> 'r world" where
  "handleSubscriptionRoom room_id user_id w =
     (case on_db (dir_GetRoomSubscriptionForUserID room_id user_id) w of
        (Inl e, w) \<Rightarrow>
          if e = ErrSql NoRows then (roomAccessCheckResponse RoomAuthorization_NEED_TO_SUBSCRIBE, w)
          else (roomAccessCheckResponse RoomAuthorization_UNJOINABLE, w)
      | (Inr m, w) \<Rightarrow>
          if rsb_status m = SubscriptionStatus_ACTIVE then (roomAccessCheckResponse RoomAuthorization_AUTHORIZED, w)
          else (roomAccessCheckResponse RoomAuthorization_NEED_TO_SUBSCRIBE, w))"

definition handlePaidRoom :: "string list \<Rightarrow> string \<Rightarrow> pb_room_authorization res" where
  "handlePaidRoom user_ids_who_paid user_id =
     (if StringSliceContains user_ids_who_paid user_id then roomAccessCheckResponse RoomAuthorization_AUTHORIZED
      else roomAccessCheckResponse RoomAuthorization_NEED_TO_PAY)"

text \<open>The error of reading a list is ignored, and the nil list beside it is used.\<close>

fun userInList :: "string list \<Rightarrow> string \<Rightarrow> 'r world \<Rightarrow> bool res \<times> 'r world" where
  "userInList [] user_id w = (Inr False, w)"
| "userInList (l # ls) user_id w =
     (case on_db (dir_GetListByID l) w of
        (Inl e, w) \<Rightarrow> (Inl (Panic ''invalid memory address or nil pointer dereference''), w)
      | (Inr m, w) \<Rightarrow>
          if map_of (case lst_allowed_users m of None \<Rightarrow> [] | Some kvs \<Rightarrow> kvs) user_id \<noteq> None then (Inr True, w)
          else userInList ls user_id w)"

section \<open>Lists\<close>

definition sv_CreateList :: "chat_env \<Rightarrow> call_context \<Rightarrow> string \<Rightarrow> string_map option \<Rightarrow> 'r world \<Rightarrow> pb_list res \<times> 'r world" where
  "sv_CreateList env ctx name allowed = with_user ctx (\<lambda>user_id w.
     if name = [] then (Inl (Status InvalidArgument ''missing room name'' []), w)
     else
       check_err (list_ToRawJSON (NewListFromMap allowed), w)
         (\<lambda>e. Status Internal ''failed to marshal listMap: %v'' [e]) (\<lambda>raw w.
       check_err (on_db (dir_CreateList \<lparr>clp_id = ce_uuid env, clp_name = name, clp_allowed_users = raw,
           clp_owner_user_id = user_id\<rparr>) w)
         (\<lambda>e. Status Internal ''failed to create list: %v'' [e]) (\<lambda>l w. (Inr l, w))))"

text \<open>\<^verbatim>\<open>reflect.DeepEqual\<close> on two maps that are not nil.\<close>

definition same_map :: "string_map option \<Rightarrow> string_map option \<Rightarrow> bool" where
  "same_map a b = (case (a, b) of
     (Some xs, Some ys) \<Rightarrow> length xs = length ys \<and> list_all (\<lambda>(k, v). map_of ys k = Some v) xs
   | (None, None) \<Rightarrow> True
   | _ \<Rightarrow> False)"

record update_list_request =
  ulr_id :: string
  ulr_name :: string
  ulr_allowed_users :: "string_map option"

definition update_list_name :: "update_list_request \<Rightarrow> pb_list \<Rightarrow> 'r world \<Rightarrow> pb_list option res \<times> 'r world" where
  "update_list_name req old w =
     (if ulr_name req \<noteq> lst_name old then
        check_err (on_db (dir_UpdateName (ulr_name req) (ulr_id req)) w)
          (\<lambda>e. Status Internal ''failed to update list name: %v'' [e]) (\<lambda>l w. (Inr (Some l), w))
      else (Inr None, w))"

definition sv_UpdateList :: "update_list_request \<Rightarrow> 'r world \<Rightarrow> pb_list option res \<times> 'r world" where
  "sv_UpdateList req w =
     (if ulr_name req = [] then (Inl (Status InvalidArgument ''list name cannot be empty'' []), w)
      else
        check_err (on_db (dir_GetListByID (ulr_id req)) w)
          (\<lambda>e. Status Internal ''failed to retrieve list: %v'' [e]) (\<lambda>old w.
        let allowed = NewListFromMap (lst_allowed_users old); new_allowed = NewListFromMap (ulr_allowed_users req) in
        check_err (update_list_name req old w) same_err (\<lambda>l w.
        check_err (list_ToRawJSON new_allowed, w)
          (\<lambda>e. Status Internal ''failed to marshal list: %v'' [e]) (\<lambda>raw w.
        check_err
          (if \<not> same_map new_allowed allowed then
             check_err (on_db (dir_UpdateAllowedUsers raw (ulr_id req)) w)
               (\<lambda>e. Status Internal ''failed to update allowed_users: %v'' [e]) (\<lambda>l w. (Inr (Some l), w))
           else (Inr l, w)) same_err (\<lambda>l w.
        if ulr_name req = lst_name old \<and> same_map new_allowed allowed then (Inr (Some old), w) else (Inr l, w))))))"

definition sv_GetUserSuggestions :: "string \<Rightarrow> 'r world \<Rightarrow> pb_user_suggestion list res \<times> 'r world" where
  "sv_GetUserSuggestions query w =
     (if query = [] then (Inr [], w)
      else
        check_err (on_db (dir_GetUserSuggestions query) w)
          (\<lambda>e. Status Internal ''failed to get users suggestions: %v'' [e]) (\<lambda>us w. (Inr us, w)))"

definition sv_GetAllLists :: "call_context \<Rightarrow> 'r world \<Rightarrow> pb_list list res \<times> 'r world" where
  "sv_GetAllLists ctx = with_user ctx (\<lambda>user_id w.
     check_err (on_db (dir_GetListsByOwnerID user_id) w)
       (\<lambda>e. Status Internal ''failed to get all lists: %v'' [e]) (\<lambda>ls w. (Inr ls, w)))"

definition sv_GetListByID :: "string \<Rightarrow> 'r world \<Rightarrow> pb_list res \<times> 'r world" where
  "sv_GetListByID i w =
     (if i = [] then (Inl (Status InvalidArgument ''missing list id'' []), w)
      else
        check_err (on_db (dir_GetListByID i) w)
          (\<lambda>e. Status Internal ''failed to get all lists: %v'' [e]) (\<lambda>l w. (Inr l, w)))"

section \<open>Conversations\<close>

definition ErrConversationNotFound :: goerror where
  "ErrConversationNotFound = Status Internal ''no conversation found'' []"

fun find_conversation :: "string \<Rightarrow> string \<Rightarrow> pb_conversation list \<Rightarrow> pb_conversation option" where
  "find_conversation user_id receiver [] = None"
| "find_conversation user_id receiver (c # cs) =
     (if length (pcn_participants c) \<noteq> 2 then find_conversation user_id receiver cs
      else if SameStringSlice (map fst (pcn_participants c)) [user_id, receiver] then Some c
      else find_conversation user_id receiver cs)"

definition getConversationWithUser ::
    "chat_message gob \<Rightarrow> conversation gob \<Rightarrow> 'r chat_redis \<Rightarrow> string \<Rightarrow> string \<Rightarrow> 'r world \<Rightarrow> pb_conversation res \<times> 'r world" where
  "getConversationWithUser GM GC R user_id receiver w =
     check_err (on_rdb (ct_GetConversationsWithUser GM GC R user_id receiver) w)
       (\<lambda>_. Status Internal ''failed to retrieve previous conversations with user'' []) (\<lambda>prev w.
     case find_conversation user_id receiver prev of
       Some c \<Rightarrow> (Inr c, w)
     | None \<Rightarrow> (Inl ErrConversationNotFound, w))"

text \<open>Whether there is a conversation already is looked up, and the answer is not used.\<close>

definition sv_CreateConversation ::
    "chat_message gob \<Rightarrow> conversation gob \<Rightarrow> 'r chat_redis \<Rightarrow> chat_env \<Rightarrow> call_context \<Rightarrow> string \<Rightarrow> 'r world \<Rightarrow> pb_conversation res \<times> 'r world" where
  "sv_CreateConversation GM GC R env ctx username = with_user ctx (\<lambda>user_id w.
     check_err (on_db (dir_GetUser user_id) w)
       (\<lambda>e. Status Internal ''failed to retrieve participant user: %v'' [e]) (\<lambda>sender w.
     check_err (on_db (dir_GetUserByUsername username) w)
       (\<lambda>e. Status Internal ''failed to retrieve participant user: %v'' [e]) (\<lambda>receiver w.
     case getConversationWithUser GM GC R user_id (usr_id receiver) w of (_, w) \<Rightarrow>
     let conv = conv_New (ce_uuid env) (ce_clock env) [sender, receiver] in
     check_err (on_rdb (ct_CreateConversation GC R conv) w)
       (\<lambda>e. Status Internal ''failed to save conversation: %v'' [e]) (\<lambda>_ w. (Inr (conv_ToProtobuf conv), w)))))"

definition sv_GetConversation ::
    "chat_message gob \<Rightarrow> conversation gob \<Rightarrow> 'r chat_redis \<Rightarrow> call_context \<Rightarrow> string \<Rightarrow> 'r world \<Rightarrow> pb_conversation res \<times> 'r world" where
  "sv_GetConversation GM GC R ctx conversation_id = with_user ctx (\<lambda>user_id w.
     check_err (on_rdb (ct_GetConversation GM GC R user_id conversation_id) w)
       (\<lambda>e. Status Internal ''failed to retrieve conversation: %v'' [e]) (\<lambda>c w. (Inr c, w)))"

definition sv_GetConversations ::
    "chat_message gob \<Rightarrow> conversation gob \<Rightarrow> 'r chat_redis \<Rightarrow> call_context \<Rightarrow> 'r world \<Rightarrow> pb_conversation list res \<times> 'r world" where
  "sv_GetConversations GM GC R ctx = with_user ctx (\<lambda>user_id w.
     check_err (on_rdb (ct_GetConversations GM GC R user_id) w)
       (\<lambda>e. Status Internal ''failed to retrieve conversation: %v'' [e]) (\<lambda>cs w. (Inr cs, w)))"

text \<open>A conversation that was not found is an answer, any other error is not.\<close>

definition sv_GetConversationWithParticipants ::
    "chat_message gob \<Rightarrow> conversation gob \<Rightarrow> 'r chat_redis \<Rightarrow> call_context \<Rightarrow> string list \<Rightarrow> 'r world \<Rightarrow>
     (pb_conversation option \<times> bool) res \<times> 'r world" where
  "sv_GetConversationWithParticipants GM GC R ctx user_ids = with_user ctx (\<lambda>user_id w.
     if length user_ids \<noteq> 1 then (Inl (Status InvalidArgument ''missing userids or wrong length provided'' []), w)
     else
       (case getConversationWithUser GM GC R user_id (user_ids ! 0) w of
          (Inl e, w) \<Rightarrow> if e = ErrConversationNotFound then (Inr (None, False), w) else (Inl e, w)
        | (Inr c, w) \<Rightarrow> (Inr (Some c, True), w)))"

section \<open>Counting the elements of a slice\<close>

definition counts :: "(string \<times> int) list \<Rightarrow> string multiset \<Rightarrow> bool" where
  "counts diff M \<longleftrightarrow> distinct (map fst diff) \<and>
     (\<forall>k. map_of diff k = (if k \<in># M then Some (int (count M k)) else None))"

lemma counts_empty: "counts diff M \<Longrightarrow> diff = [] \<longleftrightarrow> M = {#}"
proof -
  assume c: "counts diff M"
  have "diff = [] \<longleftrightarrow> (\<forall>k. map_of diff k = None)" by (cases diff) (auto split: if_splits)
  then show ?thesis using c by (auto simp: counts_def multiset_eq_iff)
qed

lemma counts_up: "counts diff M \<Longrightarrow> counts (count_up xs diff) (M + mset xs)"
proof (induction xs arbitrary: diff M)
  case (Cons x xs)
  have "counts (AList.update x ((case map_of diff x of None \<Rightarrow> 0 | Some n \<Rightarrow> n) + 1) diff) (add_mset x M)"
    using Cons.prems by (auto simp: counts_def distinct_update update_conv' not_in_iff)
  from Cons.IH [OF this] show ?case by simp
qed simp

lemma counts_down:
  "counts diff M \<Longrightarrow> case count_down ys diff of None \<Rightarrow> \<not> mset ys \<subseteq># M | Some d \<Rightarrow> mset ys \<subseteq># M \<and> counts d (M - mset ys)"
proof (induction ys arbitrary: diff M)
  case (Cons y ys)
  show ?case
  proof (cases "y \<in># M")
    case False
    with Cons.prems show ?thesis by (auto simp: counts_def mset_subset_eq_insertD)
  next
    case True
    let ?n = "int (count M y)"
    have y: "map_of diff y = Some ?n" using Cons.prems True by (simp add: counts_def)
    have d: "distinct (map fst diff)" using Cons.prems by (simp add: counts_def)
    let ?diff = "AList.update y (?n - 1) diff"
    let ?rest = "if ?n - 1 = 0 then AList.delete y ?diff else ?diff"
    have "counts ?rest (M - {#y#})"
    proof -
      have "map_of ?rest k = (if k \<in># M - {#y#} then Some (int (count (M - {#y#}) k)) else None)" for k
        using Cons.prems True
        by (cases "k = y") (auto simp: counts_def update_conv' delete_conv' in_diff_count of_nat_diff count_greater_zero_iff [symmetric]
            simp del: count_greater_zero_iff)
      then show ?thesis using d by (auto simp: counts_def distinct_update distinct_delete)
    qed
    from Cons.IH [OF this] have ih: "case count_down ys ?rest of None \<Rightarrow> \<not> mset ys \<subseteq># M - {#y#}
      | Some d \<Rightarrow> mset ys \<subseteq># M - {#y#} \<and> counts d (M - {#y#} - mset ys)" .
    have "mset (y # ys) \<subseteq># M \<longleftrightarrow> mset ys \<subseteq># M - {#y#}"
      using True by (metis insert_subset_eq_iff mset.simps(2))
    moreover have "count_down (y # ys) diff = count_down ys ?rest" by (simp only: count_down.simps y option.case Let_def)
    moreover have "M - mset (y # ys) = M - {#y#} - mset ys" by simp
    ultimately show ?thesis using ih by (simp only:)
  qed
qed simp

lemma same_string_slice_mset: "SameStringSlice x y \<longleftrightarrow> mset x = mset y"
proof -
  have "counts [] {#}" by (simp add: counts_def)
  then have up: "counts (count_up x []) (mset x)" using counts_up [of "[]" "{#}" x] by simp
  show ?thesis
  proof (cases "length x = length y")
    case False
    then show ?thesis by (auto simp: SameStringSlice_def dest: mset_eq_length)
  next
    case True
    then have size: "size (mset x) = size (mset y)" by simp
    show ?thesis
    proof (cases "count_down y (count_up x [])")
      case None
      with counts_down [OF up, of y] True show ?thesis by (auto simp: SameStringSlice_def)
    next
      case (Some d)
      with counts_down [OF up, of y] have sub: "mset y \<subseteq># mset x" and d: "counts d (mset x - mset y)" by simp_all
      have "mset x - mset y = {#} \<longleftrightarrow> mset x = mset y"
        using sub by (metis Diff_eq_empty_iff_mset subset_mset.antisym subset_mset.order_refl)
      with counts_empty [OF d] Some True show ?thesis by (auto simp: SameStringSlice_def)
    qed
  qed
qed

text \<open>
  C34: the comparison of two slices by counting agrees with its purpose: they hold the same elements
  the same number of times, whatever their order.
\<close>

theorem same_string_slice_iff: "SameStringSlice x y \<longleftrightarrow> mset x = mset y"
  by (rule same_string_slice_mset)

section \<open>Listeners\<close>

text \<open>
  C35: a user who listens to a conversation still collects unread messages. Listening marks the old
  messages as read, but stores the open conversation under the id of the channel, not of the user:
  so the next message someone sends counts as unread for the user who is just getting it.
\<close>

theorem listener_counts_unread:
  assumes "chat_store R view" and "gob_contract stored_form GC" and "shared_conversation GC (view (wd_rdb w)) c ps"
    and "u \<in> fst ` set ps" and "active_of (view (wd_rdb w)) u \<noteq> Some c" and "u \<noteq> c"
    and "listen_begin GC R u c w = (None, w1)"
    and "cm_UserID m \<in> fst ` set ps" and "ct_SendMessage GM GC R c m (wd_rdb w1) = (Inr x, s')"
  shows "\<exists>conv. copy_of GC (view s') u c = Some conv \<and> cn_UnreadMessagesCount conv = 1"
proof -
  let ?s = "wd_rdb w"
  from assms(7) obtain r s1 where read: "ct_ReadConversationMessages GC R u c ?s = (Inr r, s1)"
    and w1: "wd_rdb w1 = snd (ct_SetActiveConversation R c c s1)"
    by (auto simp: listen_begin_def on_rdb_def split: prod.splits sum.splits)
  obtain conv where conv: "copy_of GC (view ?s) u c = Some conv" "cn_ID conv = c" "stored_form conv" "cn_Participants conv = ps"
    using shared_copy [OF assms(3,4)] by blast
  note after_read = chat_store.Read_Inr [OF assms(1,2) conv(1-3) read]
  have copies: "copy_of GC (view (wd_rdb w1)) = copy_of GC (view s1)"
    using chat_store.SetActive_copies [OF assms(1), of GC c c s1] by (simp add: w1)
  have copy: "copy_of GC (view (wd_rdb w1)) u c = Some (conv\<lparr>cn_UnreadMessagesCount := 0\<rparr>)"
    by (simp add: copies after_read(1))
  have active: "active_of (view (wd_rdb w1)) u \<noteq> Some c"
    using chat_store.SetActive_other [OF assms(1,6), of c s1] assms(5) by (simp add: w1 after_read(2))
  have "shared_conversation GC (view (wd_rdb w1)) c ps"
    using assms(3) conv by (auto simp: shared_conversation_def copies after_read(1) stored_form_def)
  from chat_store.ct_SendMessage_Inr [OF assms(1,2) this assms(8,9)] copy active assms(4)
  have "copy_of GC (view s') u c = Some (one_more_unread (conv\<lparr>cn_UnreadMessagesCount := 0\<rparr>))"
    by (metis option.map(2))
  then show ?thesis by (simp add: incr64_def)
qed

lemma listener_counts_unread_witness:
  "\<exists>w1 s' conv. listen_begin sample_GC mem_chat_cmds ''2'' ''c1'' (world_of no_rows chat1) = (None, w1) \<and>
     ct_SendMessage sample_GM sample_GC mem_chat_cmds ''c1'' sample_message (wd_rdb w1) = (Inr (), s') \<and>
     copy_of sample_GC (mc_view s') ''2'' ''c1'' = Some conv \<and> cn_UnreadMessagesCount conv = 1"
proof -
  let ?b = "listen_begin sample_GC mem_chat_cmds ''2'' ''c1'' (world_of no_rows chat1)"
  have "fst ?b = None" by code_simp
  then obtain w1 where b: "?b = (None, w1)" by (metis prod.collapse)
  have "fst (ct_SendMessage sample_GM sample_GC mem_chat_cmds ''c1'' sample_message (wd_rdb (snd ?b))) = Inr ()" by code_simp
  then obtain s' where s': "ct_SendMessage sample_GM sample_GC mem_chat_cmds ''c1'' sample_message (wd_rdb w1) = (Inr (), s')"
    using b by (metis prod.collapse snd_conv)
  have u: "cm_UserID sample_message \<in> fst ` set (cn_Participants sample_conversation)"
    "''2'' \<in> fst ` set (cn_Participants sample_conversation)" by code_simp+
  have "\<exists>conv. copy_of sample_GC (mc_view s') ''2'' ''c1'' = Some conv \<and> cn_UnreadMessagesCount conv = 1"
    by (rule listener_counts_unread [OF memc.chat_store_axioms sample_gobs(1) _ u(2) _ _ b u(1) s'])
       (simp_all add: sample_shared sample_copies)
  with b s' show ?thesis by blast
qed

lemma listen_loop_returns: "CtxDone \<in> set evs \<Longrightarrow> snd (snd (listen_loop GM send evs err))"
proof (induction GM send evs err rule: listen_loop.induct)
  case (4 GM send payload evs err)
  then show ?case by (auto split: prod.splits option.splits)
qed simp_all

text \<open>
  A listener whose conversation cannot be marked as read, for instance because there is none for
  the channel, takes the server down: the handler returns its error at once, the call is
  cancelled, and the goroutine it left behind closes a channel that is closed already.
\<close>

theorem listen_failed_read_panics:
  assumes "ch \<noteq> []" and "fst (on_rdb (ct_ReadConversationMessages GC R u ch) w) = Inl e" and "CtxDone \<in> set evs"
  shows "\<exists>r err w'. sv_ListenForMessages GM GC R send evs early (user_ctx u) ch w = (Inr r, w') \<and>
    lr_returned r = Some err \<and> lr_panics r"
proof -
  obtain w0 where read: "on_rdb (ct_ReadConversationMessages GC R u ch) w = (Inl e, w0)"
    using assms(2) by (metis prod.collapse)
  obtain x w1 where "on_rdb (ct_SetActiveConversation R ch ch) w0 = (x, w1)" by fastforce
  with read have start: "listen_begin GC R u ch w = (Some (Status Internal ''failed to read previous conversation messages'' []), w1)"
    by (simp add: listen_begin_def)
  obtain ms err ret where loop:
    "listen_loop GM send evs (Some (Status Internal ''failed to read previous conversation messages'' [])) = (ms, err, ret)"
    by (metis prod.collapse)
  with listen_loop_returns [OF assms(3), of GM send "Some (Status Internal ''failed to read previous conversation messages'' [])"]
  have ret: ret by simp
  then show ?thesis by (simp add: sv_ListenForMessages_def assms(1) start loop Let_def)
qed

lemma listen_failed_read_panics_witness:
  "\<exists>r err w'. sv_ListenForMessages sample_GM sample_GC mem_chat_cmds (\<lambda>_. None) [CtxDone] 0 (user_ctx ''3'') ''c1''
     (world_of no_rows chat1) = (Inr r, w') \<and> lr_returned r = Some err \<and> lr_panics r"
proof -
  have "fst (on_rdb (ct_ReadConversationMessages sample_GC mem_chat_cmds ''3'' ''c1'') (world_of no_rows chat1)) = Inl ErrRedisNil"
    by code_simp
  from listen_failed_read_panics [OF _ this, of "[CtxDone]" sample_GM "\<lambda>_. None" 0] show ?thesis by simp
qed

section \<open>Looking for a conversation\<close>

lemma participants_keys [simp]: "map fst (participantsMapToProtobuf ps) = map fst ps"
  by (simp add: participantsMapToProtobuf_def comp_def split_beta)

context chat_store
begin

lemma with_last_message_participants:
  "with_last_message GM R c conv s = (Inr conv', s') \<Longrightarrow> cn_Participants conv' = cn_Participants conv"
  using with_last_message_Inr [of GM c conv s conv' s'] by (auto split: list.splits)

lemma conversations_loop_Inr:
  assumes "conversations_loop GM GC R must strs s = (Inr cs, s')" and "str \<in> set strs"
    and "conv_DecodeBinary GC str = Inr conv" and "must = [] \<or> map_of (cn_Participants conv) must \<noteq> None"
  shows "\<exists>c \<in> set cs. map fst (pcn_participants c) = map fst (cn_Participants conv)"
  using assms(1,2)
proof (induction strs arbitrary: s cs)
  case (Cons str' strs)
  from Cons.prems(1) obtain oc s1 cs1 where dec: "uc_decodeConversation GM GC R str' must s = (Inr oc, s1)"
    and loop: "conversations_loop GM GC R must strs s1 = (Inr cs1, s')"
    and cs: "cs = (case oc of None \<Rightarrow> cs1 | Some c \<Rightarrow> conv_ToProtobuf c # cs1)"
    by (auto simp: ok_simps)
  show ?case
  proof (cases "str' = str")
    case False
    with Cons.prems(2) Cons.IH [OF loop] cs show ?thesis by (auto split: option.splits)
  next
    case True
    with dec assms(3,4) obtain c1 t where "with_last_message GM R (cn_ID conv) conv s = (Inr c1, t)" and "oc = Some c1"
      by (auto simp: uc_decodeConversation_def ok_simps split: if_splits)
    with with_last_message_participants cs show ?thesis by (fastforce simp: conv_ToProtobuf_def)
  qed
qed simp

end

lemma find_conversation_Some:
  "find_conversation u v cs = Some c \<Longrightarrow> c \<in> set cs \<and> mset (map fst (pcn_participants c)) = {#u, v#}"
  by (induction cs) (auto simp: same_string_slice_mset split: if_splits)

lemma find_conversation_None:
  "find_conversation u v cs = None \<Longrightarrow> c \<in> set cs \<Longrightarrow> mset (map fst (pcn_participants c)) \<noteq> {#u, v#}"
proof (induction cs)
  case (Cons c' cs)
  have "mset (map fst (pcn_participants c)) = {#u, v#} \<Longrightarrow> length (pcn_participants c) = 2"
    by (metis length_map size_mset size_add_mset size_empty numeral_2_eq_2)
  with Cons show ?case by (auto simp: same_string_slice_mset split: if_splits)
qed simp

text \<open>
  C33: asking for the conversation with another user is right both ways: a conversation that is
  found is one of exactly the two, and when none is found, no copy the user holds is of such a
  conversation.
\<close>

theorem conversation_with_user_exact:
  assumes "chat_store R view"
    and "sv_GetConversationWithParticipants GM GC R (user_ctx u) [v] w = (Inr (found, b), w')"
  shows "b = (found \<noteq> None) \<and> (\<forall>c. found = Some c \<longrightarrow> mset (map fst (pcn_participants c)) = {#u, v#}) \<and>
    (found = None \<longrightarrow> (\<forall>i conv. copy_of GC (view (wd_rdb w)) u i = Some conv \<longrightarrow>
       mset (map fst (cn_Participants conv)) \<noteq> {#u, v#}))"
proof -
  obtain r w1 where got: "getConversationWithUser GM GC R u v w = (r, w1)" by fastforce
  have answer: "(found, b) = (case r of Inl e \<Rightarrow> (None, False) | Inr c \<Rightarrow> (Some c, True))" and "\<forall>e. r = Inl e \<longrightarrow> e = ErrConversationNotFound"
    using assms(2) by (auto simp: sv_GetConversationWithParticipants_def got split: sum.splits if_splits)
  then obtain prev s1 where prev: "ct_GetConversationsWithUser GM GC R u v (wd_rdb w) = (Inr prev, s1)"
    and found: "found = find_conversation u v prev" "b = (found \<noteq> None)"
    using got by (auto simp: getConversationWithUser_def check_err_def on_rdb_def ErrConversationNotFound_def
        split: prod.splits sum.splits option.splits)
  have "mset (map fst (cn_Participants conv)) \<noteq> {#u, v#}"
    if none: "found = None" and copy: "copy_of GC (view (wd_rdb w)) u i = Some conv" for i conv
  proof
    assume two: "mset (map fst (cn_Participants conv)) = {#u, v#}"
    from prev obtain c s0 where all: "cr_HGetAll R (GetUserConversationsKey u) (wd_rdb w) = (Inr c, s0)"
      and loop: "conversations_loop GM GC R v (map snd c) s0 = (Inr prev, s1)"
      by (auto simp: ct_GetConversationsWithUser_def uc_GetConversationsWithUser_def ok_simps)
    from copy obtain str where str: "map_of (cv_hashes (view (wd_rdb w)) (GetUserConversationsKey u)) i = Some str"
      and dec: "conv_DecodeBinary GC str = Inr conv"
      by (auto simp: copy_of_def split: option.splits sum.splits)
    have "str \<in> set (map snd c)"
      using map_of_SomeD [OF str] mset_eq_setD [OF chat_store.hgetall_ok [OF assms(1) all]] by force
    moreover have "v \<in> fst ` set (cn_Participants conv)"
      using two by (metis list.set_map set_mset_mset union_single_eq_member add_mset_commute)
    then have "map_of (cn_Participants conv) v \<noteq> None" by (simp add: map_of_eq_None_iff)
    ultimately obtain d where "d \<in> set prev" "map fst (pcn_participants d) = map fst (cn_Participants conv)"
      using chat_store.conversations_loop_Inr [OF assms(1) loop _ dec] by blast
    with find_conversation_None [of u v prev d] none found two show False by simp
  qed
  with found find_conversation_Some [of u v prev] show ?thesis by auto
qed

lemma conversation_with_user_exact_witness:
  "\<exists>c w'. sv_GetConversationWithParticipants sample_GM sample_GC mem_chat_cmds (user_ctx ''1'') [''2''] (world_of no_rows chat1) =
     (Inr (Some c, True), w') \<and> mset (map fst (pcn_participants c)) = {#''1'', ''2''#}"
proof -
  let ?r = "sv_GetConversationWithParticipants sample_GM sample_GC mem_chat_cmds (user_ctx ''1'') [''2''] (world_of no_rows chat1)"
  have "fst ?r = Inr (Some (conv_ToProtobuf sample_conversation), True)" by code_simp
  then obtain w' where r: "?r = (Inr (Some (conv_ToProtobuf sample_conversation), True), w')" by (metis prod.collapse)
  from conversation_with_user_exact [OF memc.chat_store_axioms r] r show ?thesis by blast
qed

section \<open>Updating a list\<close>

lemma dir_GetListByID_Inr:
  assumes "dir_GetListByID i c = (Inr m, c')"
  obtains r rs where "filter (\<lambda>r. l_id r = i) (lists (dbt c)) = r # rs" and "pgListToPB r = Inr m"
    and "lists (dbt c') = lists (dbt c)"
  using assms
  by (cases "filter (\<lambda>r. l_id r = i) (lists (dbt c))")
     (auto simp: dir_GetListByID_def q_GetListByID_def ok_simps one_row_def dest!: exec_query_Inr)

lemma list_update_Inr:
  assumes "list_update i f c = (Inr r', c')" and "\<And>r. l_id (f r) = l_id r"
  obtains r rs where "filter (\<lambda>r. l_id r = i) (lists (dbt c)) = r # rs" and "r' = f r"
    and "filter (\<lambda>r. l_id r = i) (lists (dbt c')) = f r # map f rs"
proof -
  from assms(1) have "returning_one (map f (filter (\<lambda>r. l_id r = i) (lists (dbt c))))
       (put (tbl_update lists_schema (\<lambda>r. l_id r = i) f (lists (dbt c))) (\<lambda>rs. (dbt c)\<lparr>lists := rs\<rparr>)) = Inr (r', dbt c')"
    by (auto simp: list_update_def ok_simps dest!: exec_stmt_Inr)
  then have m: "\<exists>rest. map f (filter (\<lambda>r. l_id r = i) (lists (dbt c))) = r' # rest"
    and p: "put (tbl_update lists_schema (\<lambda>r. l_id r = i) f (lists (dbt c))) (\<lambda>rs. (dbt c)\<lparr>lists := rs\<rparr>) = Inr (dbt c')"
    unfolding returning_one_Inr by (rule conjunct1, rule conjunct2)
  from m obtain r rs where rows: "filter (\<lambda>r. l_id r = i) (lists (dbt c)) = r # rs" and r': "r' = f r"
    by (cases "filter (\<lambda>r. l_id r = i) (lists (dbt c))") auto
  from p have t: "lists (dbt c') = map (\<lambda>r. if l_id r = i then f r else r) (lists (dbt c))"
    by (auto simp: put_Inr dest!: tbl_update_Inr)
  have "filter (\<lambda>r. l_id r = i) (map (\<lambda>r. if l_id r = i then f r else r) xs) = map f (filter (\<lambda>r. l_id r = i) xs)" for xs
    using assms(2) by (induction xs) auto
  then show thesis using that [OF rows r'] rows by (simp add: t)
qed

lemma returned_list_stored:
  assumes "list_update i f c = (Inr r', c')" and "\<And>r. l_id (f r) = l_id r"
    and "filter (\<lambda>r. l_id r = i) (lists (dbt c)) = r # rs"
  shows "r' = f r" and "filter (\<lambda>r. l_id r = i) (lists (dbt c')) = f r # map f rs"
  using list_update_Inr [OF assms(1,2)] assms(3) by (metis list.inject)+

lemma filtered_id: "filter (\<lambda>r. l_id r = i) rows = r # rs \<Longrightarrow> l_id r = i"
  by (metis (mono_tags, lifting) filter_eq_ConsD)

lemma pgListToPB_Inr:
  "pgListToPB r = Inr m \<Longrightarrow> lst_id m = l_id r \<and> lst_name m = l_name r"
  by (auto simp: pgListToPB_def split: sum.splits)

lemma pgListToPB_cong:
  "pgListToPB r = Inr m \<Longrightarrow> pgListToPB (r\<lparr>l_name := n\<rparr>) = Inr m' \<Longrightarrow> lst_allowed_users m' = lst_allowed_users m"
  by (auto simp: pgListToPB_def split: sum.splits)

lemma same_map_refl: "distinct (map fst kvs) \<Longrightarrow> same_map (Some kvs) (Some kvs)"
  by (auto simp: same_map_def list_all_iff)

lemma update_list_name_Inr:
  assumes "update_list_name req old w = (Inr l, w')" and "pgListToPB r = Inr old"
    and "filter (\<lambda>r. l_id r = ulr_id req) (lists (wd_tables w)) = r # rs"
  obtains r2 rs2 where "filter (\<lambda>r. l_id r = ulr_id req) (lists (wd_tables w')) = r2 # rs2"
    and "l_name r2 = ulr_name req" and "ulr_name req \<noteq> lst_name old \<longleftrightarrow> l \<noteq> None"
    and "\<And>m. l = Some m \<Longrightarrow> pgListToPB r2 = Inr m \<and> lst_allowed_users m = lst_allowed_users old"
proof (cases "ulr_name req = lst_name old")
  case True
  show thesis
    by (rule that [of r rs]) (use assms True pgListToPB_Inr [OF assms(2)] in \<open>auto simp: update_list_name_def\<close>)
next
  case False
  let ?f = "\<lambda>r. r\<lparr>l_name := ulr_name req\<rparr>"
  from assms(1) False obtain m r' c' where l: "l = Some m" and w': "w' = w\<lparr>wd_db := c'\<rparr>" and m: "pgListToPB r' = Inr m"
    and upd: "list_update (ulr_id req) ?f (wd_db w) = (Inr r', c')"
    by (auto simp: update_list_name_def dir_UpdateName_def q_UpdateName_def ok_simps)
  note st = returned_list_stored [OF upd _ assms(3)]
  show thesis
    by (rule that [of "?f r" "map ?f rs"])
      (use st m pgListToPB_cong [OF assms(2), of "ulr_name req" m] False in \<open>simp_all add: l w'\<close>)
qed

text \<open>
  C36: an update of a list that succeeds returns the list asked for with the name and the allowed
  users of the request, whichever of the two changed, and the row of the list then holds both.
\<close>

theorem list_update_takes_effect:
  assumes "sv_UpdateList req w = (Inr res, w')" and "distinct (map fst (case ulr_allowed_users req of None \<Rightarrow> [] | Some kvs \<Rightarrow> kvs))"
  shows "\<exists>l r rs. res = Some l \<and> lst_id l = ulr_id req \<and> lst_name l = ulr_name req \<and>
    same_map (NewListFromMap (ulr_allowed_users req)) (NewListFromMap (lst_allowed_users l)) \<and>
    filter (\<lambda>r. l_id r = ulr_id req) (lists (wd_tables w')) = r # rs \<and> pgListToPB r = Inr l"
proof -
  obtain kvs where new: "NewListFromMap (ulr_allowed_users req) = Some kvs" and dist: "distinct (map fst kvs)"
    using assms(2) by (cases "ulr_allowed_users req") (auto simp: NewListFromMap_def NewList_def)
  from assms(1) obtain old w1 l w2 raw where get: "on_db (dir_GetListByID (ulr_id req)) w = (Inr old, w1)"
    and name: "update_list_name req old w1 = (Inr l, w2)" and raw: "list_ToRawJSON (Some kvs) = Inr raw"
    and rest: "check_err
          (if \<not> same_map (Some kvs) (NewListFromMap (lst_allowed_users old)) then
             check_err (on_db (dir_UpdateAllowedUsers raw (ulr_id req)) w2)
               (\<lambda>e. Status Internal ''failed to update allowed_users: %v'' [e]) (\<lambda>l w. (Inr (Some l), w))
           else (Inr l, w2)) same_err (\<lambda>l w.
        if ulr_name req = lst_name old \<and> same_map (Some kvs) (NewListFromMap (lst_allowed_users old)) then (Inr (Some old), w)
        else (Inr l, w)) = (Inr res, w')"
    by (auto simp: sv_UpdateList_def Let_def new ok_simps split: if_splits)
  from get obtain c1 where g: "dir_GetListByID (ulr_id req) (wd_db w) = (Inr old, c1)" and w1: "w1 = w\<lparr>wd_db := c1\<rparr>"
    by (auto simp: ok_simps)
  obtain r rs where rows: "filter (\<lambda>r. l_id r = ulr_id req) (lists (wd_tables w1)) = r # rs" and old: "pgListToPB r = Inr old"
    by (rule dir_GetListByID_Inr [OF g]) (simp add: w1)
  from update_list_name_Inr [OF name old rows] obtain r2 rs2
    where rows2: "filter (\<lambda>r. l_id r = ulr_id req) (lists (wd_tables w2)) = r2 # rs2" and n2: "l_name r2 = ulr_name req"
      and l: "ulr_name req \<noteq> lst_name old \<longleftrightarrow> l \<noteq> None"
      and m: "\<And>m. l = Some m \<Longrightarrow> pgListToPB r2 = Inr m \<and> lst_allowed_users m = lst_allowed_users old" by blast
  show ?thesis
  proof (cases "same_map (Some kvs) (NewListFromMap (lst_allowed_users old))")
    case True
    show ?thesis
    proof (cases l)
      case None
      with name rest True l have w2: "w2 = w1" "w' = w2" "res = Some old" by (auto simp: update_list_name_def ok_simps)
      with rows old pgListToPB_Inr [OF old] filtered_id [OF rows] None l True show ?thesis by (auto simp: new)
    next
      case (Some m1)
      with rest True l have "w' = w2" "res = Some m1" by (auto simp: ok_simps)
      with Some m pgListToPB_Inr [of r2 m1] filtered_id [OF rows2] rows2 n2 True show ?thesis by (auto simp: new)
    qed
  next
    case False
    let ?f = "\<lambda>r. r\<lparr>l_allowed_users := Val raw\<rparr>"
    from rest False obtain r' c' m2 where upd: "list_update (ulr_id req) ?f (wd_db w2) = (Inr r', c')"
      and m2: "pgListToPB r' = Inr m2" and w': "w' = w2\<lparr>wd_db := c'\<rparr>" and res: "res = Some m2"
      by (auto simp: dir_UpdateAllowedUsers_def q_UpdateAllowedUsers_def ok_simps split: if_splits)
    note st = returned_list_stored [OF upd _ rows2]
    have "m2 = \<lparr>lst_id = ulr_id req, lst_name = ulr_name req, lst_owner_user_id = l_owner_user_id r2, lst_allowed_users = Some kvs\<rparr>"
      using pgListToPB_stored [OF dist raw, of "?f r2"] m2 st(1) filtered_id [OF rows2] n2 by simp
    moreover have "NewListFromMap (Some kvs) = Some kvs" by (simp add: NewListFromMap_def)
    ultimately show ?thesis using st m2 same_map_refl [OF dist] by (auto simp: res w' new)
  qed
qed

definition sample_list_update :: update_list_request where
  "sample_list_update = \<lparr>ulr_id = ''l1'', ulr_name = ''family'', ulr_allowed_users = Some [(''u2'', ''Bo'')]\<rparr>"

definition with_sample_list :: "unit world" where
  "with_sample_list = world_of (no_rows\<lparr>lists := [created_list sample_list]\<rparr>) ()"

lemma list_update_takes_effect_witness:
  "\<exists>l w'. sv_UpdateList sample_list_update with_sample_list = (Inr (Some l), w') \<and> lst_name l = ''family'' \<and>
     same_map (Some [(''u2'', ''Bo'')]) (NewListFromMap (lst_allowed_users l))"
proof -
  let ?r = "sv_UpdateList sample_list_update with_sample_list"
  let ?l = "\<lparr>lst_id = ''l1'', lst_name = ''family'', lst_owner_user_id = ''u1'', lst_allowed_users = Some [(''u2'', ''Bo'')]\<rparr>"
  have "fst ?r = Inr (Some ?l)" by code_simp
  then obtain w' where r: "?r = (Inr (Some ?l), w')" by (metis prod.collapse)
  from list_update_takes_effect [OF r] have "same_map (Some [(''u2'', ''Bo'')]) (NewListFromMap (lst_allowed_users ?l))"
    by (simp add: sample_list_update_def NewListFromMap_def)
  with r show ?thesis by (intro exI [of _ ?l] exI [of _ w']) simp
qed

end
