(* ===== verification/Service_Payment.thy ===== *)
theory Service_Payment
  imports Stripe_Service Users_Dir
begin

text \<open>
  The handlers of \<^verbatim>\<open>backend/pkg/service/v1/payment.go\<close>. The calls of \<^verbatim>\<open>stripe-go\<close> they make beside
  those of \<open>Stripe_Service\<close> are the further fields of \<open>payment_api\<close>; a payment method and an expanded
  customer keep the pointers that may be nil as options. Handlers whose body is commented out in
  the source answer with nil.
\<close>

section \<open>Calls of Stripe\<close>

record card =
  crd_Last4 :: string
  crd_ExpMonth :: int
  crd_ExpYear :: int

record payment_method =
  pmo_ID :: string
  pmo_Customer :: "string option"
  pmo_Card :: "card option"

text \<open>
  A customer with its subscriptions and default payment method expanded. The subscriptions are
  \<open>None\<close> when the answer has no list of them.
\<close>

record expanded_customer =
  xcu_Customer :: stripe_customer
  xcu_Subscriptions :: "stripe_subscription list option"
  xcu_DefaultPaymentMethod :: "payment_method option"

record account_call =
  acl_Type :: string
  acl_CardPayments :: bool

record link_call =
  lcl_Account :: string
  lcl_RefreshURL :: string
  lcl_ReturnURL :: string
  lcl_Type :: string

record ('f, 'r) payment_api =
  py_stripe :: "('f, 'r) stripe_api"
  py_AttachPaymentMethod :: "string \<Rightarrow> string \<Rightarrow> 'r \<Rightarrow> payment_method res \<times> 'r"
  py_UpdateCustomer :: "string \<Rightarrow> customer_call \<Rightarrow> 'r \<Rightarrow> expanded_customer res \<times> 'r"
  py_GetCustomer :: "string \<Rightarrow> 'r \<Rightarrow> expanded_customer res \<times> 'r"
  py_GetInvoice :: "string \<Rightarrow> 'r \<Rightarrow> stripe_invoice res \<times> 'r"
  py_NewSetupIntent :: "string list \<Rightarrow> 'r \<Rightarrow> (string \<times> string) res \<times> 'r"
  py_GetCoupon :: "string \<Rightarrow> 'r \<Rightarrow> bool res \<times> 'r"
  py_NewAccount :: "account_call \<Rightarrow> 'r \<Rightarrow> string res \<times> 'r"
  py_NewAccountLink :: "link_call \<Rightarrow> 'r \<Rightarrow> string res \<times> 'r"
  py_NewLoginLink :: "string \<Rightarrow> 'r \<Rightarrow> string res \<times> 'r"
  py_ListSubscriptions :: "string \<Rightarrow> string \<Rightarrow> 'r \<Rightarrow> stripe_subscription list \<times> 'r"
  py_ParseFloat :: "string \<Rightarrow> 'f res"

record payment_env =
  pe_cfg :: config
  pe_now :: int

text \<open>\<^verbatim>\<open>int32(x)\<close> of an unsigned value keeps its low 32 bits.\<close>

definition to_int32 :: "int \<Rightarrow> int" where
  "to_int32 x = (x + 2 ^ 31) mod 2 ^ 32 - 2 ^ 31"

text \<open>The answer of a call whose error is ignored; a panic in it is not.\<close>

definition ignore_err :: "'a res \<times> 'w \<Rightarrow> ('a option \<Rightarrow> 'w \<Rightarrow> 'b res \<times> 'w) \<Rightarrow> 'b res \<times> 'w" where
  "ignore_err rs k = (case rs of
     (Inr x, w) \<Rightarrow> k (Some x) w
   | (Inl e, w) \<Rightarrow> (case e of Panic p \<Rightarrow> (Inl e, w) | _ \<Rightarrow> k None w))"

text \<open>An error wrapped on the way out; a panic is not an error to wrap.\<close>

definition unless_panic :: "(goerror \<Rightarrow> goerror) \<Rightarrow> goerror \<Rightarrow> goerror" where
  "unless_panic f e = (case e of Panic p \<Rightarrow> e | _ \<Rightarrow> f e)"

section \<open>The platform subscription\<close>

text \<open>The user whose customer was never made: it is made with Stripe and stored.\<close>

definition recreate_customer ::
    "('f, 'r) payment_api \<Rightarrow> string \<Rightarrow> 'r world \<Rightarrow> unit res \<times> 'r world" where
  "recreate_customer P user_id w =
     check_err (on_db (dir_GetUser user_id) w) (\<lambda>e. Status Internal ''error getting user: %q'' [e]) (\<lambda>u w.
     check_err (ss_CreateCustomer (py_stripe P) \<lparr>scp_UserID = usr_id u, scp_Email = usr_email u,
         scp_FamilyName = usr_family_name u, scp_GivenName = usr_given_name u\<rparr> w) same_err (\<lambda>cus w.
     check_err (ss_StoreCustomer cus (usr_id u) (usr_family_name u) (usr_given_name u) w) same_err (\<lambda>_ w. (Inr (), w))))"

text \<open>The customer is \<open>None\<close>, the nil pointer, also after it was made anew.\<close>

definition customer_or_recreate ::
    "('f, 'r) payment_api \<Rightarrow> string \<Rightarrow> 'r world \<Rightarrow> pb_customer option res \<times> 'r world" where
  "customer_or_recreate P user_id w =
     (case on_db (dir_GetCustomerByUserID user_id) w of
        (Inr c, w) \<Rightarrow> (Inr (Some c), w)
      | (Inl e, w) \<Rightarrow>
          if e \<noteq> ErrNoCustomer then (Inl (Status Internal ''error retrieving customer: %q'' [e]), w)
          else check_err (recreate_customer P user_id w) same_err (\<lambda>_ w. (Inr None, w)))"

text \<open>The parameters of a payment method's row; nil pointers are followed.\<close>

definition store_payment_method ::
    "payment_method \<Rightarrow> string \<Rightarrow> 'r world \<Rightarrow> pb_payment_method res \<times> 'r world" where
  "store_payment_method pm user_id w =
     (case (pmo_Customer pm, pmo_Card pm) of
        (Some cus, Some c) \<Rightarrow>
          on_db (dir_StoreDefaultPM \<lparr>spm_id = pmo_ID pm, spm_user_id = user_id, spm_customer_id = cus,
            spm_last_four = crd_Last4 c, spm_exp_month = to_int32 (crd_ExpMonth c), spm_exp_year = to_int32 (crd_ExpYear c)\<rparr>) w
      | _ \<Rightarrow> (Inl nil_deref, w))"

definition default_pm_call :: "string \<Rightarrow> customer_call" where
  "default_pm_call i = no_customer_call\<lparr>ccl_DefaultPaymentMethod := Some i\<rparr>"

definition empty_customer :: pb_customer where
  "empty_customer = \<lparr>cst_id = [], cst_customer_id = [], cst_first_name = [], cst_last_name = [],
     cst_subscriptions = [], cst_default_payment_method = None, cst_account_id = []\<rparr>"

record subscribe_request =
  sbr_plan :: pb_plan
  sbr_payment_method_id :: string

text \<open>The part of \<^verbatim>\<open>SubscribeToPlan\<close> that has the customer.\<close>

definition subscribe_customer ::
    "('f, 'r) payment_api \<Rightarrow> payment_env \<Rightarrow> string \<Rightarrow> subscribe_request \<Rightarrow> string \<Rightarrow> 'r world \<Rightarrow> pb_customer res \<times> 'r world" where
  "subscribe_customer P env user_id req cus w =
     check_err (on_rdb (py_AttachPaymentMethod P (sbr_payment_method_id req) cus) w)
       (\<lambda>e. Status Internal ''error attaching payment method to customer: %q'' [e]) (\<lambda>pm w.
     check_err (on_rdb (py_UpdateCustomer P cus (default_pm_call (pmo_ID pm))) w)
       (\<lambda>e. Status Internal ''error updating customer: %q'' [e]) (\<lambda>x w.
     case xcu_Subscriptions x of
       None \<Rightarrow> (Inl (Status Internal ''customer has no subscriptions. No update can be made'' []), w)
     | Some subs \<Rightarrow>
         check_err (ss_UpdatePlatformSubscription (py_stripe P) (pe_cfg env) (pe_now env) (sbr_plan req)
             ((xcu_Customer x)\<lparr>scu_Subscriptions := subs\<rparr>) w)
           (\<lambda>e. Status Internal ''error updating subscription: %q'' [e]) (\<lambda>subsc w.
         check_err (ss_StorePlatformSubscription (pe_cfg env) subsc w)
           (unless_panic (\<lambda>e. Status Internal ''error storing subscription: %v'' [e])) (\<lambda>pb w.
         check_err (store_payment_method pm user_id w)
           (unless_panic (\<lambda>e. Status Internal ''failed to store payment method: %q'' [e])) (\<lambda>pbpm w.
         (Inr (empty_customer\<lparr>cst_id := user_id, cst_customer_id := ssn_Customer subsc, cst_subscriptions := [pb],
            cst_default_payment_method := Some pbpm\<rparr>), w))))))"

definition sv_SubscribeToPlan ::
    "('f, 'r) payment_api \<Rightarrow> payment_env \<Rightarrow> call_context \<Rightarrow> subscribe_request \<Rightarrow> 'r world \<Rightarrow> pb_customer res \<times> 'r world" where
  "sv_SubscribeToPlan P env ctx req w =
     (if sbr_payment_method_id req = [] then (Inl (Status InvalidArgument ''missing payment method ID'' []), w)
      else with_user ctx (\<lambda>user_id w.
        check_err (customer_or_recreate P user_id w) same_err (\<lambda>cus w.
        case cus of
          None \<Rightarrow> (Inl nil_deref, w)
        | Some c \<Rightarrow> subscribe_customer P env user_id req (cst_customer_id c) w)) w)"

definition ErrNilPaymentMethod :: goerror where
  "ErrNilPaymentMethod = Errorf ''stripe payment method is nil'' []"

definition stripePaymentMethodToPB :: "payment_method option \<Rightarrow> pb_payment_method res" where
  "stripePaymentMethodToPB pmo = (case pmo of
     None \<Rightarrow> Inl ErrNilPaymentMethod
   | Some pm \<Rightarrow> (case pmo_Card pm of
       None \<Rightarrow> Inl nil_deref
     | Some c \<Rightarrow> Inr \<lparr>pmd_id = pmo_ID pm, pmd_user_id = [], pmd_last_four = crd_Last4 c,
         pmd_exp_month = to_int32 (crd_ExpMonth c), pmd_exp_year = to_int32 (crd_ExpYear c), pmd_is_default = True\<rparr>))"

record update_subscription_request =
  usr_plan :: pb_plan
  usr_customer_id :: string

text \<open>
  The error of storing the subscription is overwritten before it is looked at: the answer then has
  a nil subscription in its list, which is \<open>None\<close> in the second component.
\<close>

definition sv_UpdateSubscription ::
    "('f, 'r) payment_api \<Rightarrow> payment_env \<Rightarrow> call_context \<Rightarrow> update_subscription_request \<Rightarrow> 'r world \<Rightarrow>
     (pb_customer \<times> pb_subscription option list) res \<times> 'r world" where
  "sv_UpdateSubscription P env ctx req w =
     (if usr_customer_id req = [] then (Inl (Status InvalidArgument ''missing customer ID'' []), w)
      else with_user ctx (\<lambda>user_id w.
        check_err (on_rdb (py_GetCustomer P (usr_customer_id req)) w)
          (\<lambda>e. Status Internal ''could not get customer from stripe: %q'' [e]) (\<lambda>x w.
        case xcu_Subscriptions x of
          None \<Rightarrow> (Inl nil_deref, w)
        | Some subs \<Rightarrow>
            check_err (ss_UpdatePlatformSubscription (py_stripe P) (pe_cfg env) (pe_now env) (usr_plan req)
                ((xcu_Customer x)\<lparr>scu_Subscriptions := subs\<rparr>) w)
              (\<lambda>e. Status Internal ''error updating subscription: %q'' [e]) (\<lambda>subsc w.
            ignore_err (ss_StorePlatformSubscription (pe_cfg env) subsc w) (\<lambda>pb w.
            check_err (stripePaymentMethodToPB (xcu_DefaultPaymentMethod x), w)
              (unless_panic (\<lambda>e. Status Internal ''error converting stripe default payment method to protobuf: %q'' [e])) (\<lambda>pm w.
            (Inr (empty_customer\<lparr>cst_id := user_id, cst_customer_id := ssn_Customer subsc,
               cst_default_payment_method := Some pm\<rparr>, [pb]), w)))))) w)"

definition sv_CustomerInfo :: "call_context \<Rightarrow> 'r world \<Rightarrow> pb_customer res \<times> 'r world" where
  "sv_CustomerInfo ctx = with_user ctx (\<lambda>user_id w.
     check_err (on_db (dir_GetCustomerByUserID user_id) w)
       (\<lambda>e. Status Internal ''error retrieving customer by user id: %q'' [e]) (\<lambda>cus w.
     case on_db (dir_GetSubscriptionByUserID user_id) w of
       (Inr s, w) \<Rightarrow> (Inr (cus\<lparr>cst_subscriptions := [s]\<rparr>), w)
     | (Inl e, w) \<Rightarrow>
         if e \<noteq> ErrSql NoRows then (Inl (Status Internal ''error retrieving subscription by user id: %q'' [e]), w)
         else (Inr cus, w)))"

section \<open>Invoices, subscriptions, cards\<close>

record retry_invoice_request =
  rir_customer_id :: string
  rir_payment_method_id :: string
  rir_invoice_id :: string

definition sv_RetryInvoice ::
    "('f, 'r) payment_api \<Rightarrow> retry_invoice_request \<Rightarrow> 'r world \<Rightarrow> pb_invoice res \<times> 'r world" where
  "sv_RetryInvoice P req w =
     (if rir_customer_id req = [] then (Inl (Status InvalidArgument ''missing customer id'' []), w)
      else if rir_invoice_id req = [] then (Inl (Status InvalidArgument ''missing invoice id'' []), w)
      else if rir_payment_method_id req = [] then (Inl (Status InvalidArgument ''missing payment method id'' []), w)
      else
        check_err (on_rdb (py_AttachPaymentMethod P (rir_payment_method_id req) (rir_customer_id req)) w)
          (\<lambda>e. Status Internal ''error occurred attaching payment method to customer: %q'' [e]) (\<lambda>pm w.
        check_err (on_rdb (st_UpdateCustomer (py_stripe P) (rir_customer_id req) (default_pm_call (pmo_ID pm))) w)
          (\<lambda>e. Status Internal ''error occurred updating customer: %q'' [e]) (\<lambda>_ w.
        check_err (on_rdb (py_GetInvoice P (rir_invoice_id req)) w)
          (\<lambda>e. Status Internal ''failed to retrieve invoice: %v'' [e]) (\<lambda>i w.
        case siv_PaymentIntent i of
          None \<Rightarrow> (Inl nil_deref, w)
        | Some p \<Rightarrow>
            check_err (StripePaymentIntentStatusToPB (spi_Status p), w)
              (\<lambda>e. Status Internal ''error converting payment intent status: %q'' [e]) (\<lambda>st w.
            (Inr (empty_invoice\<lparr>inv_id := siv_ID i, inv_subtotal := siv_Subtotal i, inv_amount_due := siv_AmountDue i,
               inv_payment_intent := Some (empty_payment_intent\<lparr>pi_status := st\<rparr>)\<rparr>), w))))))"

definition sv_GetSubscriptionByID ::
    "('f, 'r) payment_api \<Rightarrow> payment_env \<Rightarrow> string \<Rightarrow> 'r world \<Rightarrow> pb_subscription res \<times> 'r world" where
  "sv_GetSubscriptionByID P env i w =
     (if i = [] then (Inl (Status InvalidArgument ''missing subscription id'' []), w)
      else
        check_err (on_rdb (st_GetSubscription (py_stripe P) i
            (no_subscription_call\<lparr>scl_Expand := [''latest_invoice.payment_intent'']\<rparr>)) w)
          (\<lambda>e. Status Internal ''failed to retrieve subscription from stripe: %q'' [e]) (\<lambda>s w.
        check_err (StripeSubscriptionToPB (pe_cfg env) s
            \<lparr>sop_WithLatestInvoice = True, sop_WithItems = True, sop_WithPlan = True\<rparr>, w)
          (\<lambda>e. Status Internal ''failed to convert stripe subscription to PB: %q'' [e]) (\<lambda>pb w. (Inr pb, w))))"

text \<open>The id and the client secret of a setup intent.\<close>

definition sv_CreateSetupIntent :: "('f, 'r) payment_api \<Rightarrow> 'r world \<Rightarrow> (string \<times> string) res \<times> 'r world" where
  "sv_CreateSetupIntent P w =
     check_err (on_rdb (py_NewSetupIntent P [''card'']) w)
       (\<lambda>e. Status Internal ''Failed to create stripe setup intent: %q'' [e]) (\<lambda>si w. (Inr si, w))"

record attach_request =
  atr_customer_id :: string
  atr_payment_method_id :: string

fun detach_cards :: "('f, 'r) payment_api \<Rightarrow> string list \<Rightarrow> 'r \<Rightarrow> unit res \<times> 'r" where
  "detach_cards P [] s = (Inr (), s)"
| "detach_cards P (pm # pms) s =
     check_err (st_DetachPaymentMethod (py_stripe P) pm '''' s)
       (\<lambda>e. Status Internal ''error detaching payment method from customer: %q'' [e]) (\<lambda>_ s. detach_cards P pms s)"

text \<open>The part of \<^verbatim>\<open>AttachPaymentMethod\<close> that works on the database.\<close>

definition replace_payment_method ::
    "payment_method \<Rightarrow> string \<Rightarrow> 'r world \<Rightarrow> pb_payment_method res \<times> 'r world" where
  "replace_payment_method pm user_id w =
     (case pmo_Customer pm of
        None \<Rightarrow> (Inl nil_deref, w)
      | Some cus \<Rightarrow>
          check_err (on_db (dir_ClearCustomerPaymentMethods cus) w)
            (\<lambda>e. Status Internal ''error deleting customers payment methods: %q'' [e]) (\<lambda>_ w.
          check_err (store_payment_method pm user_id w)
            (unless_panic (\<lambda>e. Status Internal ''failed to store payment method %v'' [e])) (\<lambda>m w. (Inr m, w))))"

definition sv_AttachPaymentMethod ::
    "('f, 'r) payment_api \<Rightarrow> call_context \<Rightarrow> attach_request \<Rightarrow> 'r world \<Rightarrow> pb_payment_method res \<times> 'r world" where
  "sv_AttachPaymentMethod P ctx req = with_user ctx (\<lambda>user_id w.
     if atr_payment_method_id req = [] then (Inl (Status InvalidArgument ''missing payment method id'' []), w)
     else if atr_customer_id req = [] then (Inl (Status InvalidArgument ''missing customer id'' []), w)
     else
       check_err (on_rdb (\<lambda>s. case st_ListCards (py_stripe P) (atr_customer_id req) '''' s of (pms, s) \<Rightarrow> detach_cards P pms s) w)
         same_err (\<lambda>_ w.
       check_err (on_rdb (py_AttachPaymentMethod P (atr_payment_method_id req) (atr_customer_id req)) w)
         (\<lambda>e. Status Internal ''error attaching payment method to customer: %q'' [e]) (\<lambda>pm w.
       check_err (on_rdb (st_UpdateCustomer (py_stripe P) (atr_customer_id req) (default_pm_call (pmo_ID pm))) w)
         (\<lambda>e. Status Internal ''error setting default payment method id for customer: %q'' [e]) (\<lambda>_ w.
       replace_payment_method pm user_id w))))"

record preview_request =
  pvr_customer_id :: string
  pvr_subscription_id :: string
  pvr_subscription_item_id :: string
  pvr_plan :: pb_plan
  pvr_coupon :: string

definition sv_InvoicePreview ::
    "('f, 'r) payment_api \<Rightarrow> payment_env \<Rightarrow> preview_request \<Rightarrow> 'r world \<Rightarrow> pb_invoice res \<times> 'r world" where
  "sv_InvoicePreview P env req w =
     (if pvr_customer_id req = [] then (Inl (Status InvalidArgument ''missing customer id'' []), w)
      else if pvr_subscription_id req = [] then (Inl (Status InvalidArgument ''missing subscription id'' []), w)
      else if pvr_subscription_item_id req = [] then (Inl (Status InvalidArgument ''missing subscription item id'' []), w)
      else
        check_err (ss_GetPlatformInvoicePreview (py_stripe P) (pe_cfg env) (pvr_customer_id req) (pvr_subscription_id req)
            (pvr_subscription_item_id req) (pvr_plan req) (pvr_coupon req) w)
          (\<lambda>e. Status Internal ''failed to retrieve invoice preview: %q'' [e]) (\<lambda>i w. (Inr i, w)))"

definition sv_CouponCheck :: "('f, 'r) payment_api \<Rightarrow> string \<Rightarrow> 'r world \<Rightarrow> bool res \<times> 'r world" where
  "sv_CouponCheck P i w =
     (if i = [] then (Inl (Status InvalidArgument ''missing coupon id'' []), w)
      else
        check_err (on_rdb (py_GetCoupon P i) w) (\<lambda>e. Status Internal ''error retrieving coupon: %v'' [e]) (\<lambda>valid w.
        if \<not> valid then (Inl (Status Internal ''invalid coupon'' []), w) else (Inr True, w)))"

section \<open>Connected accounts\<close>

definition createStripeStandardAccount :: "('f, 'r) payment_api \<Rightarrow> 'r \<Rightarrow> string res \<times> 'r" where
  "createStripeStandardAccount P = py_NewAccount P \<lparr>acl_Type = ''standard'', acl_CardPayments = True\<rparr>"

text \<open>A column that is NULL cannot be scanned into a string.\<close>

definition scan_account_id :: "string nullable \<Rightarrow> string res" where
  "scan_account_id a = (case a of
     Null \<Rightarrow> Inl (ErrNew ''sql: Scan error on column account_id: converting NULL to string is unsupported'')
   | Val s \<Rightarrow> Inr s)"

definition sv_GetConnectAccountLink ::
    "('f, 'r) payment_api \<Rightarrow> call_context \<Rightarrow> 'r world \<Rightarrow> string res \<times> 'r world" where
  "sv_GetConnectAccountLink P ctx = with_user ctx (\<lambda>user_id w.
     check_err (check_err (on_db (exec_query (\<lambda>t. one_row (map cu_account_id (filter (\<lambda>c. cu_id c = user_id) (customers t))))) w)
         same_err (\<lambda>a w. (scan_account_id a, w)))
       (\<lambda>e. Status Internal ''error scanning account id: %v'' [e]) (\<lambda>acct w.
     check_err (on_rdb (py_NewAccountLink P \<lparr>lcl_Account = acct, lcl_RefreshURL = ''https://localhost:3000/refresh-connect-link'',
         lcl_ReturnURL = ''https://localhost:3000'', lcl_Type = ''account_onboarding''\<rparr>) w)
       (\<lambda>e. Status Internal ''failed to create account link: %v'' [e]) (\<lambda>url w. (Inr url, w))))"

record donation_request =
  dnr_receiver_user_id :: string
  dnr_amount :: int

record pb_connected_intent =
  pcx_payment_intent :: pb_payment_intent
  pcx_account_id :: string

text \<open>The part of \<^verbatim>\<open>MakeDonation\<close> that has the account of the receiver.\<close>

definition donate_to ::
    "('f, 'r) payment_api \<Rightarrow> payment_env \<Rightarrow> string \<Rightarrow> int \<Rightarrow> pb_connected_account \<Rightarrow> 'r world \<Rightarrow> pb_connected_intent res \<times> 'r world" where
  "donate_to P env user_id amount acct w =
     (if \<not> cac_can_receive_payments acct then (Inl (Status Internal ''connected account cannot receive donations'' []), w)
      else
        check_err (py_ParseFloat P (cfg_ApplicationFeePercent (pe_cfg env)), w)
          (\<lambda>e. Status Internal ''failed to convert env application fee amount to int: %v'' [e]) (\<lambda>fee w.
        check_err (on_db (dir_GetConnectedCustomerByUserID user_id (cac_account_id acct)) w)
          (\<lambda>e. Status Internal ''an error occurred: %v'' [e]) (\<lambda>cus w.
        check_err (ss_CreatePaymentIntent (py_stripe P) \<lparr>cip_PlatformFeePercent = fee,
            cip_SenderConnectCustomerID = ccu_connected_customer_id cus, cip_ReceiverAccountID = cac_account_id acct,
            cip_Amount = amount, cip_Metadata = []\<rparr> w)
          (\<lambda>e. Status Internal ''failed to create payment intent: %v'' [e]) (\<lambda>created w.
        check_err (ss_ConfirmConnectPaymentIntent (py_stripe P) (spi_ID created) (cac_account_id acct)
            (ccu_connected_customer_id cus) w)
          (\<lambda>e. Status Internal ''failed to confirm payment intent: %v'' [e]) (\<lambda>confirmed w.
        check_err (StripePaymentIntentStatusToPB (spi_Status confirmed), w)
          (\<lambda>e. Status Internal ''failed to convert stripe PI status to pb: %v'' [e]) (\<lambda>st w.
        (Inr \<lparr>pcx_payment_intent = \<lparr>pi_status = st, pi_client_secret = spi_ClientSecret confirmed, pi_id = spi_ID confirmed\<rparr>,
           pcx_account_id = cac_account_id acct\<rparr>, w)))))))"

text \<open>An error of the lookup other than no row is not handled, and the nil account is used.\<close>

definition sv_MakeDonation ::
    "('f, 'r) payment_api \<Rightarrow> payment_env \<Rightarrow> call_context \<Rightarrow> donation_request \<Rightarrow> 'r world \<Rightarrow> pb_connected_intent res \<times> 'r world" where
  "sv_MakeDonation P env ctx req = with_user ctx (\<lambda>user_id w.
     if dnr_amount req = 0 then (Inl (Status InvalidArgument ''amount cannot be zero'' []), w)
     else if dnr_receiver_user_id req = [] then (Inl (Status InvalidArgument ''receiver user id cannot be empty'' []), w)
     else
       (case on_db (dir_GetConnectedAccountByUserID (dnr_receiver_user_id req)) w of
          (Inl e, w) \<Rightarrow>
            if e = ErrSql NoRows then (Inl (Status Internal ''connected account not found: %v'' [e]), w)
            else (Inl nil_deref, w)
        | (Inr acct, w) \<Rightarrow> donate_to P env user_id (dnr_amount req) acct w))"

definition sv_CreateStripeAccount ::
    "('f, 'r) payment_api \<Rightarrow> call_context \<Rightarrow> 'r world \<Rightarrow> pb_customer res \<times> 'r world" where
  "sv_CreateStripeAccount P ctx = with_user ctx (\<lambda>user_id w.
     check_err (on_rdb (createStripeStandardAccount P) w)
       (\<lambda>e. Status Internal ''error creating stripe account: %q'' [e]) (\<lambda>acct w.
     check_err (on_db (dir_SetAccountIDFromUserID (Val acct) user_id) w)
       (\<lambda>_. Status Internal ''failed to update customer account id'' []) (\<lambda>cus w. (Inr cus, w))))"

definition sv_GetDashboardLink ::
    "('f, 'r) payment_api \<Rightarrow> call_context \<Rightarrow> 'r world \<Rightarrow> string res \<times> 'r world" where
  "sv_GetDashboardLink P ctx = with_user ctx (\<lambda>user_id w.
     check_err (on_db (dir_GetAccountIDFromUserID user_id) w)
       (\<lambda>e. Status Internal ''customer account_id not found: %v'' [e]) (\<lambda>acct w.
     check_err (on_rdb (py_NewLoginLink P acct) w)
       (\<lambda>e. Status Internal ''failed to generate login link: %v'' [e]) (\<lambda>url w. (Inr url, w))))"

definition sv_GetOwnConnectedAccount :: "call_context \<Rightarrow> 'r world \<Rightarrow> bool res \<times> 'r world" where
  "sv_GetOwnConnectedAccount ctx = with_user ctx (\<lambda>user_id w.
     check_err (on_db (dir_GetConnectedAccountByUserID user_id) w)
       (\<lambda>e. Status Internal ''error retrieving connected account: %v'' [e]) (\<lambda>a w. (Inr (cac_can_receive_payments a), w)))"

section \<open>Rooms\<close>

fun subscribed_loop :: "string \<Rightarrow> stripe_subscription list \<Rightarrow> bool" where
  "subscribed_loop room [] = False"
| "subscribed_loop room (s # ss) =
     (case map_of (ssn_Metadata s) StripeMDPayForRoomAccess of
        Some r \<Rightarrow> if r = room then True else subscribed_loop room ss
      | None \<Rightarrow> subscribed_loop room ss)"

definition isSubscribedToRoom ::
    "('f, 'r) payment_api \<Rightarrow> string \<Rightarrow> string \<Rightarrow> string \<Rightarrow> 'r \<Rightarrow> bool \<times> 'r" where
  "isSubscribedToRoom P cus acct room s =
     (case py_ListSubscriptions P cus acct s of (ss, s) \<Rightarrow> (subscribed_loop room ss, s))"

definition sv_GetRoomSubscriptions :: "call_context \<Rightarrow> 'r world \<Rightarrow> pb_room_subscription list res \<times> 'r world" where
  "sv_GetRoomSubscriptions ctx = with_user ctx (\<lambda>user_id w.
     check_err (on_db (dir_GetRoomSubscriptionsForUserID user_id) w)
       (\<lambda>e. Status Internal ''failed to get room subscriptions: %v'' [e]) (\<lambda>ss w. (Inr ss, w)))"

datatype pb_room_type = RoomType_FREE | RoomType_PAID | RoomType_SUBSCRIPTION_MONTHLY

fun roomTypeContains :: "pb_room_type list \<Rightarrow> pb_room_type \<Rightarrow> bool" where
  "roomTypeContains [] v = False"
| "roomTypeContains (t # ts) v = (if t = v then True else roomTypeContains ts v)"

text \<open>The handlers that are left answer with nil.\<close>

definition sv_PayRoomEntrance :: "call_context \<Rightarrow> string \<Rightarrow> 'r world \<Rightarrow> pb_connected_intent option res \<times> 'r world" where
  "sv_PayRoomEntrance ctx room w = (Inr None, w)"

definition sv_CheckRoomEntrancePI :: "call_context \<Rightarrow> string \<Rightarrow> 'r world \<Rightarrow> (bool \<times> pb_payment_intent_status) option res \<times> 'r world" where
  "sv_CheckRoomEntrancePI ctx room w = (Inr None, w)"

definition sv_SubscribeToRoom :: "call_context \<Rightarrow> string \<Rightarrow> 'r world \<Rightarrow> pb_room_subscription option res \<times> 'r world" where
  "sv_SubscribeToRoom ctx room w = (Inr None, w)"

definition sv_ConfirmRoomSubscription :: "call_context \<Rightarrow> string \<Rightarrow> 'r world \<Rightarrow> pb_room_subscription option res \<times> 'r world" where
  "sv_ConfirmRoomSubscription ctx room w = (Inr None, w)"

definition sv_RetryRoomSubscription :: "call_context \<Rightarrow> string \<Rightarrow> 'r world \<Rightarrow> pb_connected_intent option res \<times> 'r world" where
  "sv_RetryRoomSubscription ctx room w = (Inr None, w)"

definition sv_GetRoomSubscriptionByRoomID :: "call_context \<Rightarrow> string \<Rightarrow> 'r world \<Rightarrow> pb_room_subscription option res \<times> 'r world" where
  "sv_GetRoomSubscriptionByRoomID ctx room w = (Inr None, w)"

end
