(* ===== verification/Webhooks.thy ===== *)
theory Webhooks
  imports Service_Payment Service_Auth
begin

text \<open>
  The webhooks: \<^verbatim>\<open>service/v1/stripewebhook.go\<close> and package \<^verbatim>\<open>backend/pkg/webhook\<close>. Checking the
  signature of an event, reading one payment intent and decoding the objects an event carries are
  code of \<^verbatim>\<open>stripe-go\<close> and \<^verbatim>\<open>encoding/json\<close>, parameters of \<open>webhook_env\<close>; a JSON \<^verbatim>\<open>null\<close> decodes to
  a nil pointer, \<open>None\<close>.
\<close>

section \<open>Events and the objects they carry\<close>

record webhook_event =
  wev_Type :: string
  wev_Account :: string
  wev_Raw :: string

text \<open>\<open>sac_Requirements\<close>: the pointer, and the slice of what is due, nil or not.\<close>

record stripe_account =
  sac_ID :: string
  sac_Requirements :: "string list option option"
  sac_ChargesEnabled :: bool
  sac_DetailsSubmitted :: bool

record webhook_invoice =
  win_Invoice :: stripe_invoice
  win_Subscription :: "string option"
  win_PriceIDs :: "string list"
  win_PDF :: string

record webhook_intent =
  wpi_ID :: string
  wpi_Customer :: "string option"
  wpi_Metadata :: "(string \<times> string) list"

record ('f, 'r) webhook_env =
  wh_payment :: "('f, 'r) payment_api"
  wh_cfg :: config
  wh_now :: int
  wh_uuid :: string
  wh_ConstructEvent :: "string \<Rightarrow> string \<Rightarrow> string \<Rightarrow> webhook_event res"
  wh_GetPaymentIntent :: "string \<Rightarrow> string \<Rightarrow> 'r \<Rightarrow> stripe_payment_intent res \<times> 'r"
  wh_Account :: "string \<Rightarrow> stripe_account option res"
  wh_Invoice :: "string \<Rightarrow> webhook_invoice res"
  wh_Subscription :: "string \<Rightarrow> stripe_subscription option res"
  wh_PaymentMethod :: "string \<Rightarrow> payment_method option res"
  wh_PaymentIntent :: "string \<Rightarrow> webhook_intent option res"
  wh_SendMail :: "smtp_mail \<Rightarrow> 'r \<Rightarrow> unit res \<times> 'r"

abbreviation wh_stripe :: "('f, 'r) webhook_env \<Rightarrow> ('f, 'r) stripe_api" where
  "wh_stripe E \<equiv> py_stripe (wh_payment E)"

definition some_or_panic :: "'a option \<Rightarrow> 'a res" where
  "some_or_panic x = (case x of None \<Rightarrow> Inl nil_deref | Some y \<Rightarrow> Inr y)"

definition ErrMissingAcctID :: goerror where
  "ErrMissingAcctID = Status Internal ''service is missing account id'' []"

definition ErrMissingRoomID :: goerror where
  "ErrMissingRoomID = Status Internal ''a room subscription must contain room id in metadata'' []"

section \<open>Platform events (stripe.go)\<close>

record invoice_with_subscription =
  iws_Invoice :: webhook_invoice
  iws_Subscription :: "stripe_subscription option"

definition invoice_mail :: "config \<Rightarrow> string \<Rightarrow> smtp_mail" where
  "invoice_mail cfg pdf = \<lparr>sml_Addr = cfg_SMTPDomain cfg @ '':'' @ cfg_SMTPPort cfg, sml_User = cfg_SMTPUser cfg,
     sml_Pass = cfg_SMTPPass cfg, sml_Host = cfg_SMTPDomain cfg, sml_From = ''unpaper@me.com'',
     sml_To = [''dontcare@gmail.com''],
     sml_Msg = ''To: '' @ ''dontcare@gmail.com'' @ crlf @ ''Subject: Your invoice'' @ crlf @ crlf @
       ''Here you can find your invoice: '' @ pdf\<rparr>"

definition handlePlatformInvoice ::
    "('f, 'r) webhook_env \<Rightarrow> invoice_with_subscription \<Rightarrow> 'r world \<Rightarrow> unit res \<times> 'r world" where
  "handlePlatformInvoice E x w =
     check_err (some_or_panic (iws_Subscription x), w) same_err (\<lambda>s w.
     check_err (on_db (dir_UpdateSubscriptionStatus SubscriptionStatusActive (ssn_ID s)) w)
       (\<lambda>e. Errorf ''error updating subscription status on db: %q'' [e]) (\<lambda>_ w.
     if cfg_Environment (wh_cfg E) = ''dev'' then (Inr (), w)
     else (case win_PriceIDs (iws_Invoice x) of
         [] \<Rightarrow> (Inl (Panic ''index out of range''), w)
       | p # _ \<Rightarrow>
           if p = cfg_PriceIDFree (wh_cfg E) then (Inr (), w)
           else
             check_err (on_rdb (wh_SendMail E (invoice_mail (wh_cfg E) (win_PDF (iws_Invoice x)))) w)
               (\<lambda>e. Status Internal ''could not send email: '' [e]) (\<lambda>_ w. (Inr (), w)))))"

text \<open>The customer of the subscription comes as the pointer in it refers to it.\<close>

definition updatePlatformSubscription ::
    "('f, 'r) webhook_env \<Rightarrow> stripe_subscription \<Rightarrow> expanded_customer \<Rightarrow> 'r world \<Rightarrow> unit res \<times> 'r world" where
  "updatePlatformSubscription E s cus w =
     check_err
       (if ssn_Status s = ''canceled'' then
          check_err (some_or_panic (xcu_Subscriptions cus), w) same_err (\<lambda>subs w.
          check_err (ss_UpdatePlatformSubscription (wh_stripe E) (wh_cfg E) (wh_now E) Plan_UNPAPER_FREE
              ((xcu_Customer cus)\<lparr>scu_Subscriptions := subs\<rparr>) w)
            (\<lambda>e. Status Internal ''failed to revert to free subscription: %v'' [e]) (\<lambda>s w. (Inr s, w)))
        else (Inr s, w)) same_err (\<lambda>s w.
     check_err (ss_StorePlatformSubscription (wh_cfg E) s w) same_err (\<lambda>_ w. (Inr (), w)))"

definition wb_HandleSubscriptionDeleted ::
    "('f, 'r) webhook_env \<Rightarrow> string \<Rightarrow> 'r world \<Rightarrow> unit res \<times> 'r world" where
  "wb_HandleSubscriptionDeleted E data w =
     check_err (wh_Subscription E data, w)
       (\<lambda>e. Status Internal ''failed to unmarshal stripe webhook subscription: %q'' [e]) (\<lambda>so w.
     check_err (some_or_panic so, w) same_err (\<lambda>s w.
     check_ok (map_of (ssn_Metadata s) StripeMDUserID) (Status Internal ''missing userID in metadata'' []) (\<lambda>user_id w.
     check_err (ss_CreatePlatformSubscription (wh_stripe E) (ssn_Customer s) user_id (cfg_PriceIDFree (wh_cfg E)) w)
       (\<lambda>e. Status Internal ''failed to create free subscription: %v'' [e]) (\<lambda>free w.
     check_err (ss_StoreSubscription free user_id w)
       (unless_panic (\<lambda>e. Status Internal ''%v'' [e])) (\<lambda>_ w. (Inr (), w)))) w))"

text \<open>A failure to bring the card to one connected account does not stop the others.\<close>

fun sync_customers ::
    "('f, 'r) webhook_env \<Rightarrow> string \<Rightarrow> (string \<times> string) list \<Rightarrow> 'r world \<Rightarrow> 'r world" where
  "sync_customers E cus [] w = w"
| "sync_customers E cus ((acct, con) # cs) w =
     sync_customers E cus cs (snd (ss_SyncConnectPaymentMethods (wh_stripe E) cus con acct w))"

definition wb_HandlePMAttached :: "('f, 'r) webhook_env \<Rightarrow> string \<Rightarrow> 'r world \<Rightarrow> unit res \<times> 'r world" where
  "wb_HandlePMAttached E data w =
     check_err (wh_PaymentMethod E data, w)
       (\<lambda>e. Status Internal ''failed to unmarshal stripe webhook payment method: %q'' [e]) (\<lambda>po w.
     check_err (some_or_panic po, w) same_err (\<lambda>pm w.
     check_err (some_or_panic (pmo_Customer pm), w) same_err (\<lambda>cus w.
     check_err (on_db (dir_GetCustomerUserID cus) w)
       (\<lambda>e. Status Internal ''failed to get userid from customer id %q : %q'' [e]) (\<lambda>user_id w.
     check_err (store_payment_method pm user_id w)
       (unless_panic (\<lambda>e. Status Internal ''failed to update default pm: %q'' [e])) (\<lambda>_ w.
     case on_db (dir_GetAllConnectCustomers cus) w of
       (Inr cs, w) \<Rightarrow> (Inr (), sync_customers E cus cs w)
     | (Inl e, w) \<Rightarrow>
         if e \<noteq> ErrSql NoRows then (Inl (Status Internal ''error retrieving connected customers data: %v'' [e]), w)
         else (Inr (), w))))))"

section \<open>Events of connected accounts (stripeconnect.go)\<close>

definition canAccountReceivePayments :: "stripe_account \<Rightarrow> bool res" where
  "canAccountReceivePayments a = (case sac_Requirements a of
     None \<Rightarrow> Inl nil_deref
   | Some due \<Rightarrow> Inr (due = None \<and> sac_ChargesEnabled a \<and> sac_DetailsSubmitted a))"

definition wb_HandleAccountUpdate :: "('f, 'r) webhook_env \<Rightarrow> string \<Rightarrow> 'r world \<Rightarrow> unit res \<times> 'r world" where
  "wb_HandleAccountUpdate E data w =
     check_err (wh_Account E data, w)
       (\<lambda>e. Status Internal ''failed to unmarshal stripe webhook account: %q'' [e]) (\<lambda>ao w.
     check_err (some_or_panic ao, w) same_err (\<lambda>a w.
     check_err (canAccountReceivePayments a, w) same_err (\<lambda>can w.
     check_err (on_db (dir_UpdateConnectedAccountCanReceivePayments can (sac_ID a)) w)
       (\<lambda>e. Status Internal ''failed to update has_connected_account: %q'' [e]) (\<lambda>_ w. (Inr (), w)))))"

definition unmarshalInvoiceWithSubscription ::
    "('f, 'r) webhook_env \<Rightarrow> string \<Rightarrow> string \<Rightarrow> 'r world \<Rightarrow> invoice_with_subscription res \<times> 'r world" where
  "unmarshalInvoiceWithSubscription E raw acct w =
     check_err (wh_Invoice E raw, w) (\<lambda>e. Status Internal ''error unmarshaling invoice json: %q'' [e]) (\<lambda>i w.
     check_err
       (case siv_PaymentIntent (win_Invoice i) of
          None \<Rightarrow> (Inr i, w)
        | Some p \<Rightarrow>
            check_err (on_rdb (wh_GetPaymentIntent E (spi_ID p) acct) w) same_err (\<lambda>p w.
            (Inr (i\<lparr>win_Invoice := (win_Invoice i)\<lparr>siv_PaymentIntent := Some p\<rparr>\<rparr>), w))) same_err (\<lambda>i w.
     case win_Subscription i of
       None \<Rightarrow> (Inr \<lparr>iws_Invoice = i, iws_Subscription = None\<rparr>, w)
     | Some s \<Rightarrow>
         check_err (on_rdb (st_GetSubscription (wh_stripe E) s (no_subscription_call\<lparr>scl_Account := acct\<rparr>)) w)
           (\<lambda>e. Status Internal ''failed to retrieve subscription from webhook: %v'' [e]) (\<lambda>s w.
         (Inr \<lparr>iws_Invoice = i, iws_Subscription = Some s\<rparr>, w))))"

definition storeRoomInvoice ::
    "stripe_subscription \<Rightarrow> stripe_invoice option \<Rightarrow> string \<Rightarrow> string \<Rightarrow> 'r world \<Rightarrow> unit res \<times> 'r world" where
  "storeRoomInvoice s i room acct w =
     check_err (ss_StoreRoomSubscription s i room acct w)
       (\<lambda>e. Status Internal ''could not store room subscription on db: %v'' [e]) (\<lambda>_ w. (Inr (), w))"

text \<open>What the three invoice handlers do with the invoice; two of them ask for an account id first.\<close>

definition store_invoice_of ::
    "string \<Rightarrow> invoice_with_subscription \<Rightarrow> 'r world \<Rightarrow> unit res \<times> 'r world" where
  "store_invoice_of acct x w =
     (case iws_Subscription x of
        None \<Rightarrow> (Inr (), w)
      | Some s \<Rightarrow>
          check_ok (map_of (ssn_Metadata s) StripeMDPayForRoomAccess) ErrMissingRoomID (\<lambda>room w.
            storeRoomInvoice s (Some (win_Invoice (iws_Invoice x))) room acct w) w)"

definition wb_HandleInvoicePaid :: "('f, 'r) webhook_env \<Rightarrow> string \<Rightarrow> string \<Rightarrow> 'r world \<Rightarrow> unit res \<times> 'r world" where
  "wb_HandleInvoicePaid E acct data w =
     check_err (unmarshalInvoiceWithSubscription E data acct w) same_err (\<lambda>x w.
     if acct = [] then (Inl ErrMissingAcctID, w) else store_invoice_of acct x w)"

definition wb_HandleInvoicePaymentFailed :: "('f, 'r) webhook_env \<Rightarrow> string \<Rightarrow> string \<Rightarrow> 'r world \<Rightarrow> unit res \<times> 'r world" where
  "wb_HandleInvoicePaymentFailed E acct data w =
     check_err (unmarshalInvoiceWithSubscription E data acct w) same_err (\<lambda>x w.
     if acct = [] then (Inl ErrMissingAcctID, w) else store_invoice_of acct x w)"

definition wb_HandleInvoicePaymentActionRequired ::
    "('f, 'r) webhook_env \<Rightarrow> string \<Rightarrow> string \<Rightarrow> 'r world \<Rightarrow> unit res \<times> 'r world" where
  "wb_HandleInvoicePaymentActionRequired E acct data w =
     check_err (unmarshalInvoiceWithSubscription E data acct w) same_err (\<lambda>x w. store_invoice_of acct x w)"

text \<open>A missing room id is the empty string here.\<close>

definition updateRoomSubscription :: "stripe_subscription \<Rightarrow> string \<Rightarrow> 'r world \<Rightarrow> unit res \<times> 'r world" where
  "updateRoomSubscription s acct w =
     check_err (ss_StoreRoomSubscription s None
         (case map_of (ssn_Metadata s) StripeMDPayForRoomAccess of None \<Rightarrow> '''' | Some r \<Rightarrow> r) acct w)
       same_err (\<lambda>_ w. (Inr (), w))"

definition wb_HandlePaymentIntentFailed :: "('f, 'r) webhook_env \<Rightarrow> string \<Rightarrow> 'r world \<Rightarrow> unit res \<times> 'r world" where
  "wb_HandlePaymentIntentFailed E data w =
     check_err (wh_PaymentIntent E data, w)
       (\<lambda>e. Status Internal ''error unmarshaling payment intent: %q'' [e]) (\<lambda>_ w. (Inr (), w))"

definition wb_HandleSubscriptionUpdate :: "('f, 'r) webhook_env \<Rightarrow> string \<Rightarrow> string \<Rightarrow> 'r world \<Rightarrow> unit res \<times> 'r world" where
  "wb_HandleSubscriptionUpdate E acct data w =
     check_err (wh_Subscription E data, w)
       (\<lambda>e. Status Internal ''failed to unmarshal stripe webhook subscription: %q'' [e]) (\<lambda>so w.
     check_err (some_or_panic so, w) same_err (\<lambda>s w.
     check_ok (map_of (ssn_Metadata s) StripeMDPayForRoomAccess) ErrMissingRoomID (\<lambda>_ w.
       updateRoomSubscription s acct w) w))"

definition storeRoomPaymentIntent ::
    "('f, 'r) webhook_env \<Rightarrow> webhook_intent \<Rightarrow> string \<Rightarrow> string \<Rightarrow> 'r world \<Rightarrow> unit res \<times> 'r world" where
  "storeRoomPaymentIntent E p room acct w =
     check_ok (map_of (wpi_Metadata p) StripeMDUserID) (Status Internal ''missing user id'' []) (\<lambda>user_id w.
     check_err (some_or_panic (wpi_Customer p), w) same_err (\<lambda>cus w.
     check_err (on_db (dir_StoreRoomSubscription \<lparr>srp_id = wh_uuid E, srp_user_id = user_id, srp_customer_id = cus,
         srp_connected_customer_id = '''', srp_account_id = acct, srp_current_period_end = Null,
         srp_status = SubscriptionStatusActive, srp_room_id = room,
         srp_room_subscription_type = RoomSubscriptionTypeOneTime, srp_latest_invoice = JNull\<rparr>) w)
       (\<lambda>e. Status Internal ''failed to update user ids who paid: %v'' [e]) (\<lambda>_ w. (Inr (), w)))) w"

definition wb_HandlePaymentIntentSucceeded ::
    "('f, 'r) webhook_env \<Rightarrow> string \<Rightarrow> string \<Rightarrow> 'r world \<Rightarrow> unit res \<times> 'r world" where
  "wb_HandlePaymentIntentSucceeded E acct data w =
     check_err (wh_PaymentIntent E data, w)
       (\<lambda>e. Status Internal ''failed to unmarshal stripe webhook payment intent: %q'' [e]) (\<lambda>po w.
     check_err (some_or_panic po, w) same_err (\<lambda>p w.
     case map_of (wpi_Metadata p) StripeMDPayForRoomAccess of
       None \<Rightarrow> (Inr (), w)
     | Some room \<Rightarrow> storeRoomPaymentIntent E p room acct w))"

section \<open>The two endpoints (stripewebhook.go)\<close>

definition getSignatureFromCtx :: "call_context \<Rightarrow> string res" where
  "getSignatureFromCtx ctx = (case ctx of
     None \<Rightarrow> Inl (Status InvalidArgument ''missing metadata'' [])
   | Some md \<Rightarrow> (case md_GetFirstMDValue md ''stripe-signature'' of
       None \<Rightarrow> Inl (Status Internal ''missing stripe-signature in metadata'' [])
     | Some s \<Rightarrow> Inr s))"

definition endpointSecret :: string where
  "endpointSecret = ''my_stripe_webhook_secret''"

definition sv_StripeWebhook :: "('f, 'r) webhook_env \<Rightarrow> call_context \<Rightarrow> string \<Rightarrow> 'r world \<Rightarrow> unit res \<times> 'r world" where
  "sv_StripeWebhook E ctx raw w =
     check_err (getSignatureFromCtx ctx, w) same_err (\<lambda>sig w.
     check_err (wh_ConstructEvent E raw sig endpointSecret, w)
       (\<lambda>e. Status Internal ''error constructing webhook event: %v'' [e]) (\<lambda>ev w.
     if wev_Type ev = ''payment_method.attached'' then wb_HandlePMAttached E (wev_Raw ev) w
     else (Inr (), w)))"

definition connect_dispatch :: "('f, 'r) webhook_env \<Rightarrow> webhook_event \<Rightarrow> 'r world \<Rightarrow> unit res \<times> 'r world" where
  "connect_dispatch E ev w =
     (let ty = wev_Type ev; acct = wev_Account ev; data = wev_Raw ev in
      if ty = ''account.updated'' then wb_HandleAccountUpdate E data w
      else if ty = ''invoice.paid'' then wb_HandleInvoicePaid E acct data w
      else if ty = ''invoice.payment_failed'' then wb_HandleInvoicePaymentFailed E acct data w
      else if ty = ''invoice.payment_action_required'' then wb_HandleInvoicePaymentActionRequired E acct data w
      else if ty = ''customer.subscription.deleted'' then wb_HandleSubscriptionDeleted E data w
      else if ty = ''payment_intent.payment_failed'' then wb_HandlePaymentIntentFailed E data w
      else if ty = ''customer.subscription.updated'' then wb_HandleSubscriptionUpdate E acct data w
      else if ty = ''payment_intent.succeeded'' then wb_HandlePaymentIntentSucceeded E acct data w
      else (Inr (), w))"

definition sv_StripeConnectWebhook :: "('f, 'r) webhook_env \<Rightarrow> call_context \<Rightarrow> string \<Rightarrow> 'r world \<Rightarrow> unit res \<times> 'r world" where
  "sv_StripeConnectWebhook E ctx raw w =
     check_err (getSignatureFromCtx ctx, w) same_err (\<lambda>sig w.
     check_err (wh_ConstructEvent E raw sig endpointSecret, w)
       (\<lambda>e. Status Internal ''error constructing webhook event: %v'' [e]) (\<lambda>ev w. connect_dispatch E ev w))"

end
