(* ===== verification/Payments.thy ===== *)
theory Payments
  imports Webhooks Service_Chat
begin

text \<open>
  What holds of the payment handlers and the webhooks: who is asked for money and under which
  conditions, what the events of Stripe change, what a payment records, and when a trial is asked for.
\<close>

section \<open>Signed events\<close>

lemma getSignature_Inr [ok_simps]:
  "getSignatureFromCtx ctx = Inr sig \<longleftrightarrow> (\<exists>md. ctx = Some md \<and> md_GetFirstMDValue md ''stripe-signature'' = Some sig)"
  by (auto simp: getSignatureFromCtx_def split: option.splits)

text \<open>
  C18: the webhooks change nothing, in the database or outside, unless the call carries a signature
  that the library accepts for the payload and for the secret written in the code, and the event
  is of one of the kinds the endpoint handles.
\<close>

theorem webhooks_act_on_signed_events:
  assumes "sv_StripeWebhook E ctx raw w = (r1, w1)" and "sv_StripeConnectWebhook E ctx raw w = (r2, w2)"
    and "w1 \<noteq> w \<or> w2 \<noteq> w"
  shows "\<exists>md sig ev. ctx = Some md \<and> md_GetFirstMDValue md ''stripe-signature'' = Some sig \<and>
    wh_ConstructEvent E raw sig ''my_stripe_webhook_secret'' = Inr ev \<and>
    (w1 \<noteq> w \<longrightarrow> wev_Type ev = ''payment_method.attached'') \<and>
    (w2 \<noteq> w \<longrightarrow> wev_Type ev \<in> {''account.updated'', ''invoice.paid'', ''invoice.payment_failed'',
       ''invoice.payment_action_required'', ''customer.subscription.deleted'', ''customer.subscription.updated'',
       ''payment_intent.succeeded''})"
proof -
  have failed: "snd (wb_HandlePaymentIntentFailed E data w) = w" for data
    by (cases "wh_PaymentIntent E data") (simp_all add: wb_HandlePaymentIntentFailed_def)
  obtain sig where sig: "getSignatureFromCtx ctx = Inr sig"
    using assms by (cases "getSignatureFromCtx ctx") (auto simp: sv_StripeWebhook_def sv_StripeConnectWebhook_def)
  obtain ev where ev: "wh_ConstructEvent E raw sig endpointSecret = Inr ev"
    using assms sig
    by (cases "wh_ConstructEvent E raw sig endpointSecret") (auto simp: sv_StripeWebhook_def sv_StripeConnectWebhook_def)
  have "w1 \<noteq> w \<longrightarrow> wev_Type ev = ''payment_method.attached''"
    using assms(1) by (auto simp: sv_StripeWebhook_def sig ev split: if_splits)
  moreover have "w2 \<noteq> w \<longrightarrow> wev_Type ev \<in> {''account.updated'', ''invoice.paid'', ''invoice.payment_failed'',
       ''invoice.payment_action_required'', ''customer.subscription.deleted'', ''customer.subscription.updated'',
       ''payment_intent.succeeded''}"
    using assms(2) failed [of "wev_Raw ev"]
    by (simp add: sv_StripeConnectWebhook_def sig ev connect_dispatch_def Let_def split: if_splits)
  ultimately show ?thesis using sig ev by (auto simp: ok_simps endpointSecret_def)
qed

section \<open>A user without a customer\<close>

text \<open>
  C25: a user whose customer was not made at sign-up and who subscribes to a plan gets the customer
  made and stored now, and then the handler follows the nil customer of the failed lookup and panics.
\<close>

theorem subscribe_without_customer_panics:
  assumes "sbr_payment_method_id req \<noteq> []" and "on_db (dir_GetCustomerByUserID u) w = (Inl ErrNoCustomer, w1)"
    and "recreate_customer P u w1 = (Inr (), w2)"
  shows "sv_SubscribeToPlan P env (user_ctx u) req w = (Inl nil_deref, w2) \<and>
    (\<exists>r \<in> set (customers (wd_tables w2)). cu_id r = u)"
proof
  show "sv_SubscribeToPlan P env (user_ctx u) req w = (Inl nil_deref, w2)"
    using assms by (simp add: sv_SubscribeToPlan_def customer_or_recreate_def)
  from assms(3) obtain m v cus w3 c where get: "on_db (dir_GetUser u) w1 = (Inr m, v)"
    and store: "ss_StoreCustomer cus (usr_id m) (usr_family_name m) (usr_given_name m) w3 = (Inr c, w2)"
    by (auto simp: recreate_customer_def check_err_Inr)
  from get obtain x d where "q_GetUser u (wd_db w1) = (Inr x, d)" and m: "userPostgresToProto x = Inr m"
    by (auto simp: dir_GetUser_def ok_simps)
  then have "u_id x = u"
    by (auto simp: q_GetUser_def one_row_Inr filter_eq_Cons_iff dest!: exec_query_Inr)
  with m have id: "usr_id m = u" by (auto simp: userPostgresToProto_def split: sum.splits)
  from store obtain cc d where "q_CreateCustomer \<lparr>crp_id = u, crp_customer_id = scu_ID cus, crp_first_name = usr_given_name m,
         crp_last_name = usr_family_name m, crp_account_id = Null\<rparr> (wd_db w3) = (Inr cc, d)" and "wd_db w2 = d"
    by (auto simp: ss_StoreCustomer_def dir_CreateCustomer_def ok_simps id split: if_splits)
  then show "\<exists>r \<in> set (customers (wd_tables w2)). cu_id r = u"
    by (auto dest!: q_CreateCustomer_Inr simp: created_customer_def)
qed

section \<open>Paying for a room\<close>

lemma read_null_invoice: "\<exists>i. read_invoice (Val JNull) = Inr i"
proof -
  have "\<not> (case read_invoice (Val JNull) of Inl e \<Rightarrow> True | Inr i \<Rightarrow> False)" by code_simp
  then show ?thesis by (cases "read_invoice (Val JNull)") simp_all
qed

text \<open>What a succeeded payment for a room stores.\<close>

definition paid_room :: "string \<Rightarrow> string \<Rightarrow> string \<Rightarrow> string \<Rightarrow> string \<Rightarrow> store_room_subscription_params" where
  "paid_room i u cus acct room = \<lparr>srp_id = i, srp_user_id = u, srp_customer_id = cus, srp_connected_customer_id = '''',
     srp_account_id = acct, srp_current_period_end = Null, srp_status = SubscriptionStatusActive, srp_room_id = room,
     srp_room_subscription_type = RoomSubscriptionTypeOneTime, srp_latest_invoice = JNull\<rparr>"

lemma payment_succeeded_Inr:
  assumes "wb_HandlePaymentIntentSucceeded E acct data w = (Inr x, w')" and "wh_PaymentIntent E data = Inr (Some p)"
    and "map_of (wpi_Metadata p) StripeMDPayForRoomAccess = Some room" and "map_of (wpi_Metadata p) StripeMDUserID = Some u"
  obtains cus r rs where "wpi_Customer p = Some cus"
    and "tbl_upsert room_subscriptions_schema (\<lambda>r. [rs_user_id r, rs_room_id r]) merge_room_subscription
      (new_room_subscription (paid_room (wh_uuid E) u cus acct room)) (room_subscriptions (wd_tables w)) = Inr (r, rs)"
    and "wd_tables w' = (wd_tables w)\<lparr>room_subscriptions := rs\<rparr>"
proof -
  from assms obtain cus m c where cus: "wpi_Customer p = Some cus" and w': "wd_db w' = c"
    and "dir_StoreRoomSubscription (paid_room (wh_uuid E) u cus acct room) (wd_db w) = (Inr m, c)"
    by (cases "wpi_Customer p")
      (auto simp: wb_HandlePaymentIntentSucceeded_def storeRoomPaymentIntent_def some_or_panic_def paid_room_def ok_simps)
  then obtain r where "q_StoreRoomSubscription (paid_room (wh_uuid E) u cus acct room) (wd_db w) = (Inr r, c)"
    by (auto simp: dir_StoreRoomSubscription_def ok_simps)
  from q_StoreRoomSubscription_Inr [OF this] cus w' show thesis by (auto intro: that)
qed

lemma paid_room_row:
  assumes "tbl_upsert room_subscriptions_schema (\<lambda>r. [rs_user_id r, rs_room_id r]) merge_room_subscription
      (new_room_subscription (paid_room i u cus acct room)) rows = Inr (r, rs)" and "tbl_wf room_subscriptions_schema rows"
  shows "rs_user_id r = u \<and> rs_room_id r = room \<and> rs_status r = SubscriptionStatusActive \<and> rs_current_period_end r = Null \<and>
    rs_room_subscription_type r = RoomSubscriptionTypeOneTime \<and> rs_latest_invoice r = Val JNull"
proof (cases "[u, room] \<in> (\<lambda>r. [rs_user_id r, rs_room_id r]) ` set rows")
  case True
  then obtain old where "old \<in> set rows" "rs_user_id old = u" "rs_room_id old = room" by auto
  with room_upsert.upsert_old(1) [OF assms, of old] show ?thesis
    by (simp add: merge_room_subscription_def new_room_subscription_def paid_room_def)
next
  case False
  with room_upsert.upsert_new(1) [OF assms(1)] show ?thesis
    by (simp add: new_room_subscription_def paid_room_def)
qed

text \<open>
  C16: a payment for a room is recorded: after the event of the succeeded payment was handled, the user
  has exactly one subscription to the room, active and for a single payment, \<^verbatim>\<open>handleSubscriptionRoom\<close> reads it
  as an authorization, and no subscription of another user or room is touched. (The checks that would
  call this function are commented out in the source.)
\<close>

theorem room_payment_opens_room:
  assumes "tables_wf (wd_tables w)" and "wh_PaymentIntent E data = Inr (Some p)"
    and "map_of (wpi_Metadata p) StripeMDPayForRoomAccess = Some room" and "map_of (wpi_Metadata p) StripeMDUserID = Some u"
    and "wb_HandlePaymentIntentSucceeded E acct data w = (Inr (), w1)" and "up (wd_db w1)"
  shows "handleSubscriptionRoom room u w1 = (Inr RoomAuthorization_AUTHORIZED, w1) \<and>
    (\<exists>r. filter (\<lambda>r. rs_user_id r = u \<and> rs_room_id r = room) (room_subscriptions (wd_tables w1)) = [r] \<and>
      rs_status r = ''active'' \<and> rs_room_subscription_type r = ''one_time'') \<and>
    filter (\<lambda>r. \<not> (rs_user_id r = u \<and> rs_room_id r = room)) (room_subscriptions (wd_tables w1)) =
    filter (\<lambda>r. \<not> (rs_user_id r = u \<and> rs_room_id r = room)) (room_subscriptions (wd_tables w))"
proof -
  have wf: "tbl_wf room_subscriptions_schema (room_subscriptions (wd_tables w))" using assms(1) by (simp add: tables_wf_def)
  obtain cus r rs
    where up: "tbl_upsert room_subscriptions_schema (\<lambda>r. [rs_user_id r, rs_room_id r]) merge_room_subscription
      (new_room_subscription (paid_room (wh_uuid E) u cus acct room)) (room_subscriptions (wd_tables w)) = Inr (r, rs)"
      and w1: "wd_tables w1 = (wd_tables w)\<lparr>room_subscriptions := rs\<rparr>"
    by (rule payment_succeeded_Inr [OF assms(5,2,3,4)])
  note row = paid_room_row [OF up wf]
  have one: "filter (\<lambda>r. rs_user_id r = u \<and> rs_room_id r = room) rs = [r]"
    and others: "filter (\<lambda>r. \<not> (rs_user_id r = u \<and> rs_room_id r = room)) rs =
      filter (\<lambda>r. \<not> (rs_user_id r = u \<and> rs_room_id r = room)) (room_subscriptions (wd_tables w))"
    using room_upsert.upsert_row [OF up wf] by (simp_all add: new_room_subscription_def paid_room_def)
  obtain i where "read_invoice (Val JNull) = Inr i" using read_null_invoice by blast
  with row have pb: "\<exists>m. pgRoomSubscriptionToPB r = Inr m \<and> rsb_status m = SubscriptionStatus_ACTIVE"
    by (simp add: pgRoomSubscriptionToPB_def pgSubscriptionStatusToPB_def pgRoomSubscriptionTypeToPB_def customer_consts)
  have "filter (\<lambda>r. rs_room_id r = room \<and> rs_user_id r = u) rs = [r]"
    using one by (simp add: conj_commute)
  then have "q_GetRoomSubscriptionForUserID room u (wd_db w1) = (Inr r, wd_db w1)"
    using row by (simp add: q_GetRoomSubscriptionForUserID_def exec_query_up [OF assms(6)] w1 scan_room_subscription_def)
  with pb obtain m where "dir_GetRoomSubscriptionForUserID room u (wd_db w1) = (Inr m, wd_db w1)"
    and active: "rsb_status m = SubscriptionStatus_ACTIVE"
    by (auto simp: dir_GetRoomSubscriptionForUserID_def)
  then have "on_db (dir_GetRoomSubscriptionForUserID room u) w1 = (Inr m, w1)" by (intro on_db_same)
  moreover have "rs_status r = ''active'' \<and> rs_room_subscription_type r = ''one_time''"
    using row by (simp add: customer_consts)
  ultimately show ?thesis
    using others active one by (simp add: handleSubscriptionRoom_def roomAccessCheckResponse_def w1)
qed

text \<open>
  Stripe delivers an event again when it is in doubt. A second delivery of a payment for a room,
  under whatever new id, leaves the tables as the first one left them.
\<close>

theorem room_payment_delivered_twice:
  assumes "tables_wf (wd_tables w)" and "wh_PaymentIntent E data = Inr (Some p)"
    and "map_of (wpi_Metadata p) StripeMDPayForRoomAccess = Some room" and "map_of (wpi_Metadata p) StripeMDUserID = Some u"
    and "wb_HandlePaymentIntentSucceeded E acct data w = (Inr (), w1)"
    and "wb_HandlePaymentIntentSucceeded (E\<lparr>wh_uuid := i\<rparr>) acct data w1 = (Inr (), w2)"
  shows "wd_tables w2 = wd_tables w1"
proof -
  have wf: "tbl_wf room_subscriptions_schema (room_subscriptions (wd_tables w))" using assms(1) by (simp add: tables_wf_def)
  obtain cus r rs
    where cus: "wpi_Customer p = Some cus"
      and up: "tbl_upsert room_subscriptions_schema (\<lambda>r. [rs_user_id r, rs_room_id r]) merge_room_subscription
      (new_room_subscription (paid_room (wh_uuid E) u cus acct room)) (room_subscriptions (wd_tables w)) = Inr (r, rs)"
      and w1: "wd_tables w1 = (wd_tables w)\<lparr>room_subscriptions := rs\<rparr>"
    by (rule payment_succeeded_Inr [OF assms(5,2,3,4)])
  note row = paid_room_row [OF up wf]
  have wf1: "tbl_wf room_subscriptions_schema (room_subscriptions (wd_tables w1))"
    using room_upsert.upsert_wf [OF wf up] by (simp add: w1)
  have one: "filter (\<lambda>r. rs_user_id r = u \<and> rs_room_id r = room) (room_subscriptions (wd_tables w1)) = [r]"
    using room_upsert.upsert_row(1) [OF up wf] by (simp add: w1 new_room_subscription_def paid_room_def)
  have E': "wh_PaymentIntent (E\<lparr>wh_uuid := i\<rparr>) data = Inr (Some p)" using assms(2) by simp
  obtain cus2 r2 rs2
    where up2: "tbl_upsert room_subscriptions_schema (\<lambda>r. [rs_user_id r, rs_room_id r]) merge_room_subscription
      (new_room_subscription (paid_room (wh_uuid (E\<lparr>wh_uuid := i\<rparr>)) u cus2 acct room)) (room_subscriptions (wd_tables w1)) = Inr (r2, rs2)"
      and w2: "wd_tables w2 = (wd_tables w1)\<lparr>room_subscriptions := rs2\<rparr>"
    by (rule payment_succeeded_Inr [OF assms(6) E' assms(3,4)])
  have single: "x \<in> set (room_subscriptions (wd_tables w1)) \<and> rs_user_id x = u \<and> rs_room_id x = room \<longleftrightarrow> x = r" for x
    using arg_cong [OF one, of "\<lambda>xs. x \<in> set xs"] by simp
  have same: "merge_room_subscription (new_room_subscription (paid_room i u cus2 acct room)) r = r"
    using row by (simp add: merge_room_subscription_def new_room_subscription_def paid_room_def)
  have old: "r \<in> set (room_subscriptions (wd_tables w1))" "rs_user_id r = u" "rs_room_id r = room" using single [of r] by simp_all
  let ?new = "new_room_subscription (paid_room i u cus2 acct room)"
  have keys: "rs_user_id ?new = u" "rs_room_id ?new = room" by (simp_all add: new_room_subscription_def paid_room_def)
  have "rs2 = map (\<lambda>x. if rs_user_id x = u \<and> rs_room_id x = room then merge_room_subscription ?new x else x)
      (room_subscriptions (wd_tables w1))"
    using room_upsert.upsert_old(2) [OF up2 wf1 old(1)] by (simp add: keys old)
  also have "\<dots> = room_subscriptions (wd_tables w1)"
    using single same by (intro map_idI) (metis (full_types))
  finally have "rs2 = room_subscriptions (wd_tables w1)" .
  then show ?thesis by (simp add: w2)
qed

section \<open>Cards\<close>

lemma replace_payment_method_Inr:
  assumes "replace_payment_method pm u w = (Inr m, w')" and "tables_wf (wd_tables w)"
  obtains r where "pmo_Customer pm = Some (pm_customer_id r)" and "pm_id r = pmo_ID pm" and "pm_user_id r = u"
    and "pm_is_default r = Val True" and "pmd_id m = pm_id r"
    and "filter (\<lambda>x. pm_customer_id x = pm_customer_id r) (payment_methods (wd_tables w')) = [r]"
    and "filter (\<lambda>x. pm_customer_id x \<noteq> pm_customer_id r) (payment_methods (wd_tables w')) =
      filter (\<lambda>x. pm_customer_id x \<noteq> pm_customer_id r) (payment_methods (wd_tables w))"
proof -
  from assms(1) obtain cus where cus: "pmo_Customer pm = Some cus" by (cases "pmo_Customer pm") (auto simp: replace_payment_method_def)
  from assms(1) cus obtain c1 where clear: "dir_ClearCustomerPaymentMethods cus (wd_db w) = (Inr (), c1)"
    and store: "store_payment_method pm u (w\<lparr>wd_db := c1\<rparr>) = (Inr m, w')"
    by (auto simp: replace_payment_method_def ok_simps)
  from clear have c1: "dbt c1 = (dbt (wd_db w))\<lparr>payment_methods := filter (\<lambda>x. pm_customer_id x \<noteq> cus) (payment_methods (wd_tables w))\<rparr>"
    by (auto simp: dir_ClearCustomerPaymentMethods_def q_ClearCustomerPaymentMethods_def ok_simps tbl_delete_def dest!: exec_stmt_Inr)
  from store cus obtain crd where crd: "pmo_Card pm = Some crd" by (cases "pmo_Card pm") (auto simp: store_payment_method_def)
  let ?arg = "\<lparr>spm_id = pmo_ID pm, spm_user_id = u, spm_customer_id = cus, spm_last_four = crd_Last4 crd,
      spm_exp_month = to_int32 (crd_ExpMonth crd), spm_exp_year = to_int32 (crd_ExpYear crd)\<rparr>"
  from store obtain c2 x where "q_StoreDefaultPaymentMethod ?arg c1 = (Inr x, c2)" and m: "pgPaymentMethodToPB x = Inr m"
    and w': "wd_db w' = c2"
    by (auto simp: store_payment_method_def cus crd dir_StoreDefaultPM_def ok_simps)
  then obtain rs where up: "tbl_upsert payment_methods_schema (\<lambda>r. [pm_customer_id r]) merge_payment_method
        (new_payment_method ?arg) (payment_methods (dbt c1)) = Inr (x, rs)" and rs: "payment_methods (wd_tables w') = rs"
    by (auto simp: q_StoreDefaultPaymentMethod_def ok_simps dest!: exec_stmt_Inr)
  have x: "x = new_payment_method ?arg"
    by (rule pm_upsert.upsert_new(1) [OF up]) (auto simp: c1 new_payment_method_def)
  have "payment_methods (wd_tables w') = payment_methods (dbt c1) @ [x]"
    unfolding rs x by (rule pm_upsert.upsert_new(2) [OF up]) (auto simp: c1 new_payment_method_def)
  then show thesis
    using m by (intro that [of x]) (auto simp: cus x new_payment_method_def c1 pgPaymentMethodToPB_def filter_empty_conv)
qed

text \<open>
  C23: attaching a card to a customer leaves exactly one payment method stored for that customer: the
  card Stripe attached, as the default, in the name of the caller; the methods of other customers
  stay.
\<close>

theorem attached_card_is_the_only_one:
  assumes "tables_wf (wd_tables w)" and "sv_AttachPaymentMethod P (user_ctx u) req w = (Inr m, w')"
  shows "\<exists>pm s s' r. py_AttachPaymentMethod P (atr_payment_method_id req) (atr_customer_id req) s = (Inr pm, s') \<and>
    pmo_Customer pm = Some (pm_customer_id r) \<and> pm_id r = pmo_ID pm \<and> pm_user_id r = u \<and> pm_is_default r = Val True \<and>
    pmd_id m = pm_id r \<and>
    filter (\<lambda>x. pm_customer_id x = pm_customer_id r) (payment_methods (wd_tables w')) = [r] \<and>
    filter (\<lambda>x. pm_customer_id x \<noteq> pm_customer_id r) (payment_methods (wd_tables w')) =
      filter (\<lambda>x. pm_customer_id x \<noteq> pm_customer_id r) (payment_methods (wd_tables w))"
proof -
  from assms(2) obtain w1 pm w2 x w3
    where "on_rdb (\<lambda>s. case st_ListCards (py_stripe P) (atr_customer_id req) '''' s of (pms, s) \<Rightarrow> detach_cards P pms s) w = (Inr (), w1)"
      and attach: "on_rdb (py_AttachPaymentMethod P (atr_payment_method_id req) (atr_customer_id req)) w1 = (Inr pm, w2)"
      and "on_rdb (st_UpdateCustomer (py_stripe P) (atr_customer_id req) (default_pm_call (pmo_ID pm))) w2 = (Inr x, w3)"
      and replace: "replace_payment_method pm u w3 = (Inr m, w')"
    by (auto simp: sv_AttachPaymentMethod_def check_err_Inr split: if_splits)
  then have db: "wd_db w3 = wd_db w" by (auto simp: on_rdb_Inr)
  with assms(1) have "tables_wf (wd_tables w3)" by simp
  from replace_payment_method_Inr [OF replace this] obtain r where
    "pmo_Customer pm = Some (pm_customer_id r)" "pm_id r = pmo_ID pm" "pm_user_id r = u" "pm_is_default r = Val True" "pmd_id m = pm_id r"
    "filter (\<lambda>x. pm_customer_id x = pm_customer_id r) (payment_methods (wd_tables w')) = [r]"
    "filter (\<lambda>x. pm_customer_id x \<noteq> pm_customer_id r) (payment_methods (wd_tables w')) =
      filter (\<lambda>x. pm_customer_id x \<noteq> pm_customer_id r) (payment_methods (wd_tables w))" unfolding db by metis
  moreover from attach obtain s s' where "py_AttachPaymentMethod P (atr_payment_method_id req) (atr_customer_id req) s = (Inr pm, s')"
    by (auto simp: on_rdb_Inr)
  ultimately show ?thesis by blast
qed

section \<open>Donations\<close>

lemma CreatePaymentIntent_db [simp]: "wd_db (snd (ss_CreatePaymentIntent A p w)) = wd_db w"
  unfolding ss_CreatePaymentIntent_def Let_def
  by (rule check_err_inv [where P = "\<lambda>x. wd_db x = wd_db w"]) (simp_all split: option.split)

lemma ConfirmPaymentIntent_db [simp]: "wd_db (snd (ss_ConfirmConnectPaymentIntent A i acct cus w)) = wd_db w"
proof -
  have "wd_db (snd (check_err (on_rdb (st_ConfirmPaymentIntent A i pm acct) v) f (\<lambda>p w. (Inr p, w)))) = wd_db v" for pm v f
    by (rule check_err_inv [where P = "\<lambda>x. wd_db x = wd_db v"]) simp_all
  then show ?thesis
    unfolding ss_ConfirmConnectPaymentIntent_def
    by (intro check_err_inv [where P = "\<lambda>x. wd_db x = wd_db w"]) (simp_all split: option.split)
qed

lemma CreatePaymentIntent_Inr:
  assumes "ss_CreatePaymentIntent A p w = (Inr i, w')"
  obtains call s s' where "st_NewPaymentIntent A call s = (Inr i, s')" and "pcl_Account call = cip_ReceiverAccountID p"
    and "pcl_Customer call = cip_SenderConnectCustomerID p" and "pcl_Amount call = cip_Amount p"
  using assms
  by (fastforce simp: ss_CreatePaymentIntent_def ok_simps split: option.splits)

lemma donate_to_asks:
  assumes "donate_to P env u amount acct w = (res, w')" and "wd_rdb w' \<noteq> wd_rdb w"
  shows "cac_can_receive_payments acct \<and>
    (\<exists>cus c. dir_GetConnectedCustomerByUserID u (cac_account_id acct) (wd_db w) = (Inr cus, c) \<and> wd_db w' = c \<and>
      (\<forall>d. res = Inr d \<longrightarrow> pcx_account_id d = cac_account_id acct \<and>
        (\<exists>call i s s'. st_NewPaymentIntent (py_stripe P) call s = (Inr i, s') \<and> pcl_Account call = cac_account_id acct \<and>
          pcl_Customer call = ccu_connected_customer_id cus \<and> pcl_Amount call = amount)))"
proof -
  have can: "cac_can_receive_payments acct" using assms by (auto simp: donate_to_def split: if_splits)
  obtain fee where fee: "py_ParseFloat P (cfg_ApplicationFeePercent (pe_cfg env)) = Inr fee"
    using assms can by (cases "py_ParseFloat P (cfg_ApplicationFeePercent (pe_cfg env))") (auto simp: donate_to_def)
  obtain r c where look: "dir_GetConnectedCustomerByUserID u (cac_account_id acct) (wd_db w) = (r, c)" by fastforce
  then have on: "on_db (dir_GetConnectedCustomerByUserID u (cac_account_id acct)) w = (r, w\<lparr>wd_db := c\<rparr>)" by (rule on_db_eq)
  obtain cus where r: "r = Inr cus" using assms can fee on by (cases r) (auto simp: donate_to_def)
  let ?p = "\<lparr>cip_PlatformFeePercent = fee, cip_SenderConnectCustomerID = ccu_connected_customer_id cus,
      cip_ReceiverAccountID = cac_account_id acct, cip_Amount = amount, cip_Metadata = []\<rparr>"
  let ?rest = "\<lambda>created w. check_err (ss_ConfirmConnectPaymentIntent (py_stripe P) (spi_ID created) (cac_account_id acct)
            (ccu_connected_customer_id cus) w)
          (\<lambda>e. Status Internal ''failed to confirm payment intent: %v'' [e]) (\<lambda>confirmed w.
        check_err (StripePaymentIntentStatusToPB (spi_Status confirmed), w)
          (\<lambda>e. Status Internal ''failed to convert stripe PI status to pb: %v'' [e]) (\<lambda>st w.
        (Inr \<lparr>pcx_payment_intent = \<lparr>pi_status = st, pi_client_secret = spi_ClientSecret confirmed, pi_id = spi_ID confirmed\<rparr>,
           pcx_account_id = cac_account_id acct\<rparr>, w)))"
  have run: "check_err (ss_CreatePaymentIntent (py_stripe P) ?p (w\<lparr>wd_db := c\<rparr>))
      (\<lambda>e. Status Internal ''failed to create payment intent: %v'' [e]) ?rest = (res, w')"
    using assms(1) can fee on r by (simp add: donate_to_def)
  have "wd_db (snd (?rest created v)) = c" if "wd_db v = c" for created v
    using that by (intro check_err_inv [where P = "\<lambda>x. wd_db x = c"]) simp_all
  then have "wd_db (snd (check_err (ss_CreatePaymentIntent (py_stripe P) ?p (w\<lparr>wd_db := c\<rparr>))
      (\<lambda>e. Status Internal ''failed to create payment intent: %v'' [e]) ?rest)) = c"
    by (intro check_err_inv [where P = "\<lambda>x. wd_db x = c"]) simp_all
  then have "wd_db w' = c" using run by simp
  moreover have "pcx_account_id d = cac_account_id acct \<and>
        (\<exists>call i s s'. st_NewPaymentIntent (py_stripe P) call s = (Inr i, s') \<and> pcl_Account call = cac_account_id acct \<and>
          pcl_Customer call = ccu_connected_customer_id cus \<and> pcl_Amount call = amount)" if "res = Inr d" for d
  proof -
    from run that obtain i v where made: "ss_CreatePaymentIntent (py_stripe P) ?p (w\<lparr>wd_db := c\<rparr>) = (Inr i, v)"
      and rest: "?rest i v = (Inr d, w')" by (auto simp: check_err_Inr)
    from rest have "pcx_account_id d = cac_account_id acct" by (auto simp: check_err_Inr)
    moreover obtain call s s' where "st_NewPaymentIntent (py_stripe P) call s = (Inr i, s')" "pcl_Account call = cac_account_id acct"
      "pcl_Customer call = ccu_connected_customer_id cus" "pcl_Amount call = amount"
      by (rule CreatePaymentIntent_Inr [OF made]) simp
    ultimately show ?thesis by blast
  qed
  ultimately show ?thesis using can look r by blast
qed

lemma filter_ConsD: "filter P xs = x # ys \<Longrightarrow> x \<in> set xs \<and> P x"
  by (auto simp: filter_eq_Cons_iff)

lemma connected_account_Inr:
  assumes "dir_GetConnectedAccountByUserID v c = (Inr a, c')"
  obtains r where "r \<in> set (connected_accounts (dbt c))" and "ca_user_id r = v" and "a = pgConnectedAccountToPB r"
    and "dbt c' = dbt c"
  using assms
  by (auto simp: dir_GetConnectedAccountByUserID_def q_GetConnectedAccountByUserID_def ok_simps one_row_Inr
      dest!: exec_query_Inr filter_ConsD)

lemma connected_customer_Inr:
  assumes "dir_GetConnectedCustomerByUserID u acct c = (Inr m, c')"
  obtains r where "r \<in> set (connected_customers (dbt c))" and "cc_user_id r = u" and "cc_account_id r = acct"
    and "ccu_connected_customer_id m = cc_connected_customer_id r" and "dbt c' = dbt c"
  using assms
  by (auto simp: dir_GetConnectedCustomerByUserID_def q_GetConnectedCustomerByUserID_def ok_simps one_row_Inr
      pgConnectedCustomerToPB_def dest!: exec_query_Inr filter_ConsD)

text \<open>
  C17: whatever the database answers, a donation asks Stripe for anything only if the receiver has an
  account that can receive payments and the sender is a customer on it; the tables stay as they
  are, and a donation that succeeds is a payment of the amount asked for, between these two.
\<close>

theorem donation_needs_able_account:
  assumes "sv_MakeDonation P env (user_ctx u) req w = (res, w')" and "wd_rdb w' \<noteq> wd_rdb w"
  shows "\<exists>a \<in> set (connected_accounts (wd_tables w)). \<exists>c \<in> set (connected_customers (wd_tables w)).
    ca_user_id a = dnr_receiver_user_id req \<and> ca_can_receive_payments a \<and> dnr_amount req \<noteq> 0 \<and>
    cc_user_id c = u \<and> cc_account_id c = ca_account_id a \<and> wd_tables w' = wd_tables w \<and>
    (\<forall>d. res = Inr d \<longrightarrow> pcx_account_id d = ca_account_id a \<and>
      (\<exists>call i s s'. st_NewPaymentIntent (py_stripe P) call s = (Inr i, s') \<and> pcl_Account call = ca_account_id a \<and>
        pcl_Customer call = cc_connected_customer_id c \<and> pcl_Amount call = dnr_amount req))"
proof -
  have amount: "dnr_amount req \<noteq> 0" "dnr_receiver_user_id req \<noteq> []"
    using assms by (auto simp: sv_MakeDonation_def split: if_splits)
  obtain r c1 where look: "dir_GetConnectedAccountByUserID (dnr_receiver_user_id req) (wd_db w) = (r, c1)" by fastforce
  then have on: "on_db (dir_GetConnectedAccountByUserID (dnr_receiver_user_id req)) w = (r, w\<lparr>wd_db := c1\<rparr>)" by (rule on_db_eq)
  obtain acct where r: "r = Inr acct"
    using assms amount on by (cases r) (auto simp: sv_MakeDonation_def split: if_splits)
  have run: "donate_to P env u (dnr_amount req) acct (w\<lparr>wd_db := c1\<rparr>) = (res, w')"
    using assms(1) amount on r by (simp add: sv_MakeDonation_def)
  obtain a where a: "a \<in> set (connected_accounts (wd_tables w))" "ca_user_id a = dnr_receiver_user_id req"
    "acct = pgConnectedAccountToPB a" and c1: "dbt c1 = wd_tables w"
    by (rule connected_account_Inr [OF look [unfolded r]])
  have acct: "cac_account_id acct = ca_account_id a" "cac_can_receive_payments acct = ca_can_receive_payments a"
    by (simp_all add: a(3) pgConnectedAccountToPB_def)
  from donate_to_asks [OF run] assms(2) obtain cus c2 where can: "cac_can_receive_payments acct"
    and cus: "dir_GetConnectedCustomerByUserID u (cac_account_id acct) c1 = (Inr cus, c2)" and w': "wd_db w' = c2"
    and paid: "\<forall>d. res = Inr d \<longrightarrow> pcx_account_id d = cac_account_id acct \<and>
        (\<exists>call i s s'. st_NewPaymentIntent (py_stripe P) call s = (Inr i, s') \<and> pcl_Account call = cac_account_id acct \<and>
          pcl_Customer call = ccu_connected_customer_id cus \<and> pcl_Amount call = dnr_amount req)"
    by auto
  obtain c where c: "c \<in> set (connected_customers (wd_tables w))" "cc_user_id c = u" "cc_account_id c = ca_account_id a"
    "ccu_connected_customer_id cus = cc_connected_customer_id c" "dbt c2 = wd_tables w"
    by (rule connected_customer_Inr [OF cus]) (simp add: c1 acct)
  show ?thesis
    using can paid by (intro bexI [OF _ a(1)] bexI [OF _ c(1)]) (simp add: a(2) amount c w' acct)
qed

text \<open>
  C24: an account whose requirements are all met can still not be paid. The check asks for a nil list
  of what is due, and the list Stripe sends is empty, which is not nil: after the event the account
  is stored as unable, and every donation to its user is refused.
\<close>

theorem nothing_due_blocks_donations:
  assumes "tables_wf (wd_tables w)" and "wh_Account E data = Inr (Some a)" and "sac_Requirements a = Some (Some [])"
    and "wb_HandleAccountUpdate E data w = (Inr (), w1)" and "up (wd_db w1)"
    and "r \<in> set (connected_accounts (wd_tables w))" and "ca_account_id r = sac_ID a"
    and "dnr_receiver_user_id req = ca_user_id r" and "ca_user_id r \<noteq> []" and "dnr_amount req \<noteq> 0"
  shows "sv_MakeDonation P env (user_ctx u) req w1 = (Inl (Status Internal ''connected account cannot receive donations'' []), w1)"
proof -
  from assms(2-4) obtain m c where upd: "dir_UpdateConnectedAccountCanReceivePayments False (sac_ID a) (wd_db w) = (Inr m, c)"
    and w1: "w1 = w\<lparr>wd_db := c\<rparr>"
    by (auto simp: wb_HandleAccountUpdate_def canAccountReceivePayments_def some_or_panic_def ok_simps)
  have rows: "connected_accounts (dbt c) = map (\<lambda>r. if ca_account_id r = sac_ID a then r\<lparr>ca_can_receive_payments := False\<rparr> else r)
      (connected_accounts (wd_tables w))"
    using upd by (auto simp: dir_UpdateConnectedAccountCanReceivePayments_def q_UpdateConnectedAccountCanReceivePayments_def ok_simps
        dest!: exec_stmt_Inr tbl_update_Inr)
  have "tables_wf (dbt c)"
    using q_UpdateConnectedAccountCanReceivePayments_wf [OF assms(1), of False "sac_ID a"] upd
    by (auto simp: dir_UpdateConnectedAccountCanReceivePayments_def ok_simps)
  then have dist: "distinct (map ca_user_id (connected_accounts (dbt c)))"
    by (auto simp: tables_wf_def tbl_wf_def connected_accounts_schema_def keys_of_total distinct_map inj_on_def)
  let ?r = "r\<lparr>ca_can_receive_payments := False\<rparr>"
  have "?r \<in> set (connected_accounts (dbt c))" using assms(6,7) by (force simp: rows)
  from filter_eq_single [OF dist this] have "filter (\<lambda>x. ca_user_id x = ca_user_id r) (connected_accounts (dbt c)) = [?r]" by simp
  then have "dir_GetConnectedAccountByUserID (ca_user_id r) (wd_db w1) = (Inr (pgConnectedAccountToPB ?r), wd_db w1)"
    using assms(5) by (simp add: dir_GetConnectedAccountByUserID_def q_GetConnectedAccountByUserID_def exec_query_up w1)
  then have "on_db (dir_GetConnectedAccountByUserID (ca_user_id r)) w1 = (Inr (pgConnectedAccountToPB ?r), w1)" by (rule on_db_same)
  with assms(8-10) show ?thesis by (simp add: sv_MakeDonation_def donate_to_def pgConnectedAccountToPB_def)
qed

section \<open>The trial\<close>

lemma customers_distinct: "tables_wf t \<Longrightarrow> distinct (map cu_customer_id (customers t))"
  by (auto simp: tables_wf_def tbl_wf_def customers_schema_def keys_of_total distinct_map inj_on_def)

definition trial_recorded :: "string \<Rightarrow> customer_row list \<Rightarrow> customer_row list" where
  "trial_recorded i = map (\<lambda>r. if cu_customer_id r = i then r\<lparr>cu_trial_used := Val True\<rparr> else r)"

lemma subscription_stmts_customers [simp]:
  "customers (dbt (snd (q_StoreSubscription sp c))) = customers (dbt c)"
  "customers (dbt (snd (q_StorePrice pp c))) = customers (dbt c)"
  unfolding q_StoreSubscription_def q_StorePrice_def scanned_tbl
  by (rule exec_stmt_inv [where P = "\<lambda>t. customers t = customers (dbt c)"]; auto simp: ok_simps returning_row_def split: sum.splits)+

lemma q_UseTrial_customers:
  "customers (dbt (snd (q_UseTrial i c))) \<in> {customers (dbt c), trial_recorded i (customers (dbt c))}"
  unfolding q_UseTrial_def
  by (rule exec_stmt_inv [where P = "\<lambda>t. customers t \<in> {customers (dbt c), trial_recorded i (customers (dbt c))}"])
     (auto simp: ok_simps trial_recorded_def dest!: tbl_update_Inr)

lemma dir_StoreSubscriptionWithPrice_customers:
  "customers (dbt (snd (dir_StoreSubscriptionWithPrice \<lparr>swp_Subscription = Some sp, swp_Price = Some pp, swp_WithTrial = True\<rparr> c)))
     \<in> {customers (dbt c), trial_recorded (stp_customer_id sp) (customers (dbt c))}"
  (is "customers (dbt (snd ?run)) \<in> ?may")
proof -
  have kept: "customers (dbt c1) = customers (dbt c)" if "q_StoreSubscription sp c = (r, c1)" for r c1
    using subscription_stmts_customers(1) [of sp c] that by simp
  have kept2: "customers (dbt c2) = customers (dbt c1)" if "q_StorePrice pp c1 = (r, c2)" for r c1 c2
    using subscription_stmts_customers(2) [of pp c1] that by simp
  have used: "customers (dbt c3) \<in> {customers (dbt c2), trial_recorded (stp_customer_id sp) (customers (dbt c2))}"
    if "q_UseTrial (stp_customer_id sp) c2 = (r, c3)" for r c2 c3
    using q_UseTrial_customers [of "stp_customer_id sp" c2] that by simp
  show ?thesis
    unfolding dir_StoreSubscriptionWithPrice_def
    by (auto simp: check_err_def split: sum.splits prod.splits dest!: kept kept2 used)
qed

lemma ss_StorePlatformSubscription_customers:
  assumes "ss_StorePlatformSubscription cfg s w = (r, w1)"
  shows "customers (wd_tables w1) \<in> {customers (wd_tables w), trial_recorded (ssn_Customer s) (customers (wd_tables w))}"
proof -
  define P where "P x \<longleftrightarrow> customers (wd_tables x) \<in>
    {customers (wd_tables w), trial_recorded (ssn_Customer s) (customers (wd_tables w))}" for x :: "'a world"
  have base: "P w" by (simp add: P_def)
  have stored: "P (snd (on_db (dir_StoreSubscriptionWithPrice \<lparr>swp_Subscription = Some sp, swp_Price = Some pp, swp_WithTrial = True\<rparr>) w))"
    if "stp_customer_id sp = ssn_Customer s" for sp pp
    using dir_StoreSubscriptionWithPrice_customers [of sp pp "wd_db w"] that by (auto simp: P_def on_db_def split: prod.splits)
  have "P (snd (ss_StorePlatformSubscription cfg s w))"
    unfolding ss_StorePlatformSubscription_def
    by (auto split: list.split option.split intro!: check_err_inv [where P = P] stored base)
  then have "P w1" by (simp add: assms)
  then show ?thesis by (simp add: P_def)
qed

lemma ss_StorePlatformSubscription_unnamed:
  assumes "map_of (ssn_Metadata s) StripeMDUserID = None"
  shows "\<exists>e. ss_StorePlatformSubscription cfg s w = (Inl e, w)"
  using assms by (simp add: ss_StorePlatformSubscription_def split: list.splits)

lemma ignore_err_Inr:
  assumes "ignore_err rs k = (Inr y, w')"
  obtains r w where "rs = (r, w)" "k (case r of Inl e \<Rightarrow> None | Inr m \<Rightarrow> Some m) w = (Inr y, w')"
proof (cases rs)
  case (Pair r w)
  then show thesis
    using assms by (cases r) (auto simp: ignore_err_def intro: that split: goerror.splits)
qed

text \<open>What a change of plan asks of Stripe, read off the customer's record.\<close>

definition trial_as_recorded :: "int \<Rightarrow> customer_row \<Rightarrow> 'f subscription_call \<Rightarrow> bool" where
  "trial_as_recorded now cu call = (if cu_trial_used cu = Val True
     then scl_TrialEnd call = None \<and> \<not> scl_ProrationNone call
     else scl_TrialEnd call = Some (unix_seconds (now + 30 * 1000000)) \<and> scl_ProrationNone call)"

lemma UpdatePlatformSubscription_asks:
  assumes "tables_wf (wd_tables w)" and "cu \<in> set (customers (wd_tables w))" and "cu_customer_id cu = scu_ID cus"
    and "ss_UpdatePlatformSubscription A cfg now plan cus w = (Inr s', w')"
  shows "\<exists>i call s2. st_UpdateSubscription A i call (wd_rdb w) = (Inr s', s2) \<and> wd_rdb w' = s2 \<and>
    wd_tables w' = wd_tables w \<and> trial_as_recorded now cu call"
proof -
  obtain sub it pm where shape: "scu_Subscriptions cus = [sub]" "ssn_Items sub = [it]" "scu_DefaultPaymentMethod cus = Some pm"
    using assms(4) by (auto simp: ss_UpdatePlatformSubscription_def split: list.splits option.splits)
  let ?call = "\<lambda>price. no_subscription_call\<lparr>scl_Items := [no_item_call\<lparr>icl_ID := Some (sit_ID it), icl_Price := Some price\<rparr>],
      scl_Expand := [''latest_invoice.payment_intent'']\<rparr>"
  obtain used w1 price where read: "on_db (dir_HasCustomerUsedTrial (scu_ID cus)) w = (Inr used, w1)"
    and asked: "on_rdb (st_UpdateSubscription A (ssn_ID sub) (if used then ?call price else (?call price)\<lparr>
        scl_TrialEnd := Some (unix_seconds (now + 30 * 1000000)), scl_ProrationNone := True\<rparr>)) w1 = (Inr s', w')"
    using assms(4) by (auto simp: ss_UpdatePlatformSubscription_def shape check_err_Inr Let_def)
  have mine: "filter (\<lambda>r. cu_customer_id r = scu_ID cus) (customers (wd_tables w)) = [cu]"
    using filter_eq_single [OF customers_distinct [OF assms(1)] assms(2)] by (simp add: assms(3))
  from read have "null_bool (cu_trial_used cu) = used" "wd_tables w1 = wd_tables w" "wd_rdb w1 = wd_rdb w"
    by (auto simp: ok_simps dir_HasCustomerUsedTrial_def q_HasCustomerUsedTrial_def mine dest!: exec_query_Inr)
  moreover from this(1) have "used \<longleftrightarrow> cu_trial_used cu = Val True" by (cases "cu_trial_used cu") auto
  ultimately have "trial_as_recorded now cu (if used then ?call price else (?call price)\<lparr>
      scl_TrialEnd := Some (unix_seconds (now + 30 * 1000000)), scl_ProrationNone := True\<rparr>)"
    and "\<exists>s2. st_UpdateSubscription A (ssn_ID sub) (if used then ?call price else (?call price)\<lparr>
        scl_TrialEnd := Some (unix_seconds (now + 30 * 1000000)), scl_ProrationNone := True\<rparr>) (wd_rdb w) = (Inr s', s2) \<and>
      wd_rdb w' = s2 \<and> wd_tables w' = wd_tables w"
    using asked by (auto simp: ok_simps trial_as_recorded_def no_subscription_call_def)
  then show ?thesis by blast
qed

text \<open>
  C39: a change of plan asks Stripe for a trial exactly when the customer's record does not say that one
  was used. An answer that carries the stored subscription has recorded the trial as used; an
  answer without it, which the handler gives when the storing failed, may leave the record as it
  was, and does when the subscription names no user: the next change then asks for a trial again. No
  other column and no other customer's record changes either way.
\<close>

theorem trial_follows_the_record:
  assumes "tables_wf (wd_tables w)" and "cu \<in> set (customers (wd_tables w))"
    and "py_GetCustomer P (usr_customer_id req) (wd_rdb w) = (Inr x, s1)" and "cu_customer_id cu = scu_ID (xcu_Customer x)"
    and "sv_UpdateSubscription P env ctx req w = (Inr (cst, pbs), w')"
  shows "\<exists>i call sub' s2 pb. st_UpdateSubscription (py_stripe P) i call s1 = (Inr sub', s2) \<and>
    trial_as_recorded (pe_now env) cu call \<and> pbs = [pb] \<and>
    (pb \<noteq> None \<longrightarrow> customers (wd_tables w') = trial_recorded (ssn_Customer sub') (customers (wd_tables w))) \<and>
    (map_of (ssn_Metadata sub') StripeMDUserID = None \<longrightarrow> pb = None \<and> customers (wd_tables w') = customers (wd_tables w)) \<and>
    customers (wd_tables w') \<in> {customers (wd_tables w), trial_recorded (ssn_Customer sub') (customers (wd_tables w))}"
proof -
  let ?w1 = "w\<lparr>wd_rdb := s1\<rparr>"
  have get: "on_rdb (py_GetCustomer P (usr_customer_id req)) w = (Inr x, ?w1)" by (simp add: ok_simps assms(3))
  obtain u subs sub' w2 where
    upd: "ss_UpdatePlatformSubscription (py_stripe P) (pe_cfg env) (pe_now env) (usr_plan req)
      ((xcu_Customer x)\<lparr>scu_Subscriptions := subs\<rparr>) ?w1 = (Inr sub', w2)"
    and rest: "ignore_err (ss_StorePlatformSubscription (pe_cfg env) sub' w2) (\<lambda>pb w.
      check_err (stripePaymentMethodToPB (xcu_DefaultPaymentMethod x), w)
        (unless_panic (\<lambda>e. Status Internal ''error converting stripe default payment method to protobuf: %q'' [e])) (\<lambda>pm w.
      (Inr (empty_customer\<lparr>cst_id := u, cst_customer_id := ssn_Customer sub',
         cst_default_payment_method := Some pm\<rparr>, [pb]), w))) = (Inr (cst, pbs), w')"
    using assms(5)
    by (auto simp: sv_UpdateSubscription_def ok_simps get split: if_splits option.splits)
  from rest obtain r w3 where store: "ss_StorePlatformSubscription (pe_cfg env) sub' w2 = (r, w3)"
    and "check_err (stripePaymentMethodToPB (xcu_DefaultPaymentMethod x), w3)
        (unless_panic (\<lambda>e. Status Internal ''error converting stripe default payment method to protobuf: %q'' [e])) (\<lambda>pm w.
      (Inr (empty_customer\<lparr>cst_id := u, cst_customer_id := ssn_Customer sub', cst_default_payment_method := Some pm\<rparr>,
         [case r of Inl e \<Rightarrow> None | Inr m \<Rightarrow> Some m]), w)) = (Inr (cst, pbs), w')"
    by (rule ignore_err_Inr)
  then obtain pb where answered: "pbs = [pb]" "w' = w3" "pb = (case r of Inl e \<Rightarrow> None | Inr m \<Rightarrow> Some m)"
    by (auto simp: check_err_Inr)
  from UpdatePlatformSubscription_asks [OF _ _ _ upd, of cu] assms(1,2,4)
  obtain i call where call: "st_UpdateSubscription (py_stripe P) i call s1 = (Inr sub', wd_rdb w2)"
    "wd_tables w2 = wd_tables w" "trial_as_recorded (pe_now env) cu call" by auto
  have recorded: "customers (wd_tables w3) = trial_recorded (ssn_Customer sub') (customers (wd_tables w))" if "r = Inr m" for m
  proof -
    from store that have st: "ss_StorePlatformSubscription (pe_cfg env) sub' w2 = (Inr m, w3)" by simp
    obtain sp pp where "on_db (dir_StoreSubscriptionWithPrice \<lparr>swp_Subscription = Some sp, swp_Price = Some pp,
        swp_WithTrial = True\<rparr>) w2 = (Inr m, w3)" and cid: "stp_customer_id sp = ssn_Customer sub'"
      by (rule ss_StorePlatformSubscription_Inr [OF st])
    then obtain c where c: "dir_StoreSubscriptionWithPrice \<lparr>swp_Subscription = Some sp, swp_Price = Some pp,
        swp_WithTrial = True\<rparr> (wd_db w2) = (Inr m, c)" "wd_db w3 = c" by (auto simp: ok_simps)
    show ?thesis
      by (rule store_with_price_Inr [OF c(1)])
         (simp_all add: assms(1) call(2) c(2) cid trial_recorded_def)
  qed
  have unnamed: "pb = None \<and> w3 = w2" if "map_of (ssn_Metadata sub') StripeMDUserID = None"
    using ss_StorePlatformSubscription_unnamed [OF that, of "pe_cfg env" w2] store answered(3) by auto
  show ?thesis
    using call answered recorded unnamed ss_StorePlatformSubscription_customers [OF store]
    by (intro exI [of _ i] exI [of _ call] exI [of _ sub'] exI [of _ "wd_rdb w2"] exI [of _ pb])
       (cases r; fastforce)
qed

section \<open>Examples\<close>

text \<open>A Stripe that grants every request and counts the ones that move money or cards.\<close>

definition sample_method :: payment_method where
  "sample_method = \<lparr>pmo_ID = ''pm1'', pmo_Customer = Some ''cus1'',
     pmo_Card = Some \<lparr>crd_Last4 = ''4242'', crd_ExpMonth = 12, crd_ExpYear = 2030\<rparr>\<rparr>"

definition sample_payment :: "(unit, nat) payment_api" where
  "sample_payment = \<lparr>
     py_stripe = sample_stripe\<lparr>st_NewPaymentIntent := (\<lambda>p s. (Inr sample_intent, Suc s))\<rparr>,
     py_AttachPaymentMethod = (\<lambda>pm cus s. (Inr sample_method, Suc s)),
     py_UpdateCustomer = (\<lambda>i p s. (Inr \<lparr>xcu_Customer = sample_stripe_customer i, xcu_Subscriptions = None, xcu_DefaultPaymentMethod = None\<rparr>, s)),
     py_GetCustomer = (\<lambda>i s. (Inr \<lparr>xcu_Customer = sample_stripe_customer i, xcu_Subscriptions = None, xcu_DefaultPaymentMethod = None\<rparr>, s)),
     py_GetInvoice = (\<lambda>i s. (Inr \<lparr>siv_ID = i, siv_Subtotal = 0, siv_AmountDue = 0, siv_PaymentIntent = None\<rparr>, s)),
     py_NewSetupIntent = (\<lambda>types s. (Inr (''si1'', ''secret''), s)), py_GetCoupon = (\<lambda>i s. (Inr True, s)),
     py_NewAccount = (\<lambda>p s. (Inr ''a1'', s)), py_NewAccountLink = (\<lambda>p s. (Inr ''link'', s)),
     py_NewLoginLink = (\<lambda>a s. (Inr ''link'', s)), py_ListSubscriptions = (\<lambda>cus acct s. ([], s)),
     py_ParseFloat = (\<lambda>v. Inr ())\<rparr>"

text \<open>A Stripe that counts the trials asked for and answers with the metadata given.\<close>

definition trial_payment :: "(string \<times> string) list \<Rightarrow> (unit, nat) payment_api" where
  "trial_payment md = sample_payment\<lparr>
     py_stripe := sample_stripe\<lparr>st_UpdateSubscription := (\<lambda>i p s.
       (Inr (sample_stripe_subscription ''cus1'' md), if scl_TrialEnd p = None then s else Suc s))\<rparr>,
     py_GetCustomer := (\<lambda>i s. (Inr \<lparr>xcu_Customer = sample_stripe_customer i,
       xcu_Subscriptions = Some [sample_stripe_subscription i []], xcu_DefaultPaymentMethod = Some sample_method\<rparr>, s))\<rparr>"

abbreviation change_plan :: "(string \<times> string) list \<Rightarrow> nat world \<Rightarrow> (pb_customer \<times> pb_subscription option list) res \<times> nat world" where
  "change_plan md \<equiv> sv_UpdateSubscription (trial_payment md) \<lparr>pe_cfg = sample_cfg, pe_now = 0\<rparr> (user_ctx ''u1'')
     \<lparr>usr_plan = Plan_UNPAPER_FREE, usr_customer_id = ''cus1''\<rparr>"

definition sample_room_intent :: webhook_intent where
  "sample_room_intent = \<lparr>wpi_ID = ''pi1'', wpi_Customer = Some ''cus1'',
     wpi_Metadata = [(StripeMDPayForRoomAccess, ''room1''), (StripeMDUserID, ''u1'')]\<rparr>"

definition sample_account :: stripe_account where
  "sample_account = \<lparr>sac_ID = ''a1'', sac_Requirements = Some (Some []), sac_ChargesEnabled = True, sac_DetailsSubmitted = True\<rparr>"

definition sample_webhook :: "(unit, nat) webhook_env" where
  "sample_webhook = \<lparr>wh_payment = sample_payment, wh_cfg = sample_cfg, wh_now = 0, wh_uuid = ''id1'',
     wh_ConstructEvent = (\<lambda>raw sig secret.
       if sig = ''sig1'' then Inr \<lparr>wev_Type = ''payment_intent.succeeded'', wev_Account = ''a1'', wev_Raw = raw\<rparr> else Inl (ErrNew ''bad signature'')),
     wh_GetPaymentIntent = (\<lambda>i acct s. (Inr sample_intent, s)),
     wh_Account = (\<lambda>d. Inr (Some sample_account)),
     wh_Invoice = (\<lambda>d. Inl (ErrNew ''not an invoice'')), wh_Subscription = (\<lambda>d. Inr None), wh_PaymentMethod = (\<lambda>d. Inr (Some sample_method)),
     wh_PaymentIntent = (\<lambda>d. Inr (Some sample_room_intent)),
     wh_SendMail = (\<lambda>m s. (Inr (), s))\<rparr>"

definition sample_donors :: tables where
  "sample_donors = sample_connected\<lparr>connected_accounts := [\<lparr>ca_can_receive_payments = True, ca_user_id = ''u2'',
     ca_customer_id = ''cus2'', ca_account_id = ''a1''\<rparr>]\<rparr>"

definition sample_donation :: donation_request where
  "sample_donation = \<lparr>dnr_receiver_user_id = ''u2'', dnr_amount = 500\<rparr>"

lemma sample_donors_wf: "tables_wf sample_donors"
  using sample_connected_wf
  by (simp add: sample_donors_def tables_wf_def no_rows_def tbl_wf_def connected_accounts_schema_def sample_connected_def
      varchar_check_def fk_violation_def)

lemma up_db_of [simp]: "up (db_of t)"
  by (simp add: up_def db_of_def)

lemma dbt_db_of [simp]: "dbt (db_of t) = t"
  by (simp add: db_of_def)

lemma fst_Inr_prod: "fst p = r \<Longrightarrow> p = (r, snd p)"
  by (cases p) simp

definition sample_new_user :: "nat world" where
  "sample_new_user = world_of (no_rows\<lparr>users := [sample_user ''u1'' ''ann'']\<rparr>) 0"

abbreviation paid_once :: "nat world" where
  "paid_once \<equiv> snd (wb_HandlePaymentIntentSucceeded sample_webhook ''a1'' ''raw'' (world_of no_rows 0))"

text \<open>What the handlers answer here, by evaluation.\<close>

lemma sample_answers:
  shows "room_subscriptions (wd_tables (snd (sv_StripeConnectWebhook sample_webhook (Some [(''stripe-signature'', [''sig1''])]) ''raw'' (world_of no_rows 0)))) \<noteq> []"
    and "fst (on_db (dir_GetCustomerByUserID ''u1'') sample_new_user) = Inl ErrNoCustomer"
    and "fst (recreate_customer sample_payment ''u1'' (snd (on_db (dir_GetCustomerByUserID ''u1'') sample_new_user))) = Inr ()"
    and "fst (wb_HandlePaymentIntentSucceeded sample_webhook ''a1'' ''raw'' (world_of no_rows 0)) = Inr ()"
    and "outcomes (wd_db paid_once) = []"
    and "fst (wb_HandlePaymentIntentSucceeded (sample_webhook\<lparr>wh_uuid := ''id2''\<rparr>) ''a1'' ''raw'' paid_once) = Inr ()"
    and "fst (sv_AttachPaymentMethod sample_payment (user_ctx ''u1'') \<lparr>atr_customer_id = ''cus1'', atr_payment_method_id = ''pm1''\<rparr> (world_of no_rows 0)) =
      Inr \<lparr>pmd_id = ''pm1'', pmd_user_id = ''u1'', pmd_last_four = ''4242'', pmd_exp_month = 12, pmd_exp_year = 2030, pmd_is_default = True\<rparr>"
    and "\<not> isl (fst (sv_MakeDonation sample_payment \<lparr>pe_cfg = sample_cfg, pe_now = 0\<rparr> (user_ctx ''u1'') sample_donation (world_of sample_donors 0)))"
    and "wd_rdb (snd (sv_MakeDonation sample_payment \<lparr>pe_cfg = sample_cfg, pe_now = 0\<rparr> (user_ctx ''u1'') sample_donation (world_of sample_donors 0))) = 1"
    and "fst (wb_HandleAccountUpdate sample_webhook ''raw'' (world_of sample_donors 0)) = Inr ()"
    and "outcomes (wd_db (snd (wb_HandleAccountUpdate sample_webhook ''raw'' (world_of sample_donors 0)))) = []"
    and "map_sum id (\<lambda>(c, pbs). pbs \<noteq> [None]) (fst (change_plan [(StripeMDUserID, ''u1'')] (world_of sample_trial 0))) = Inr True"
    and "wd_rdb (snd (change_plan [(StripeMDUserID, ''u1'')] (snd (change_plan [(StripeMDUserID, ''u1'')] (world_of sample_trial 0))))) = 1"
    and "map_sum id (\<lambda>(c, pbs). pbs = [None]) (fst (change_plan [] (snd (change_plan [] (world_of sample_trial 0))))) = Inr True"
    and "wd_rdb (snd (change_plan [] (snd (change_plan [] (world_of sample_trial 0))))) = 2"
  by code_simp+

lemma webhooks_act_on_signed_events_witness:
  "\<exists>sig ev. md_GetFirstMDValue [(''stripe-signature'', [''sig1''])] ''stripe-signature'' = Some sig \<and>
     wh_ConstructEvent sample_webhook ''raw'' sig ''my_stripe_webhook_secret'' = Inr ev"
proof -
  let ?ctx = "Some [(''stripe-signature'', [''sig1''])]" and ?w = "world_of no_rows 0"
  have "room_subscriptions (wd_tables ?w) = []" by (simp add: db_of_def no_rows_def)
  with sample_answers(1) have "snd (sv_StripeConnectWebhook sample_webhook ?ctx ''raw'' ?w) \<noteq> ?w" by force
  from webhooks_act_on_signed_events [OF prod.collapse [symmetric] prod.collapse [symmetric] disjI2 [OF this]]
  show ?thesis by auto
qed

lemma subscribe_without_customer_panics_witness:
  "\<exists>w2. sv_SubscribeToPlan sample_payment \<lparr>pe_cfg = sample_cfg, pe_now = 0\<rparr> (user_ctx ''u1'')
      \<lparr>sbr_plan = Plan_UNPAPER_FREE, sbr_payment_method_id = ''pm1''\<rparr> sample_new_user = (Inl nil_deref, w2) \<and>
    (\<exists>r \<in> set (customers (wd_tables w2)). cu_id r = ''u1'')"
proof -
  show ?thesis
    using subscribe_without_customer_panics [OF _ fst_Inr_prod [OF sample_answers(2)] fst_Inr_prod [OF sample_answers(3)],
        of "\<lparr>sbr_plan = Plan_UNPAPER_FREE, sbr_payment_method_id = ''pm1''\<rparr>"] by auto
qed

lemma sample_intent_event:
  "wh_PaymentIntent sample_webhook d = Inr (Some sample_room_intent)"
  by (simp add: sample_webhook_def)

lemma sample_intent_keys:
  "map_of (wpi_Metadata sample_room_intent) StripeMDPayForRoomAccess = Some ''room1''"
  "map_of (wpi_Metadata sample_room_intent) StripeMDUserID = Some ''u1''"
  by (simp_all add: sample_room_intent_def StripeMDPayForRoomAccess_def StripeMDUserID_def)

lemma sample_paid_once: "wb_HandlePaymentIntentSucceeded sample_webhook ''a1'' ''raw'' (world_of no_rows 0) = (Inr (), paid_once)"
  by (rule fst_Inr_prod [OF sample_answers(4)])

lemma room_payment_opens_room_witness:
  "handleSubscriptionRoom ''room1'' ''u1'' paid_once = (Inr RoomAuthorization_AUTHORIZED, paid_once)"
proof -
  have "up (wd_db paid_once)" unfolding up_def by (rule sample_answers(5))
  from room_payment_opens_room [OF _ sample_intent_event sample_intent_keys sample_paid_once this] tables_wf_no_rows
  show ?thesis by simp
qed

lemma room_payment_delivered_twice_witness:
  "\<exists>w2. wb_HandlePaymentIntentSucceeded (sample_webhook\<lparr>wh_uuid := ''id2''\<rparr>) ''a1'' ''raw'' paid_once = (Inr (), w2) \<and>
     wd_tables w2 = wd_tables paid_once"
proof -
  note twice = fst_Inr_prod [OF sample_answers(6)]
  with room_payment_delivered_twice [OF _ sample_intent_event sample_intent_keys sample_paid_once twice] tables_wf_no_rows
  show ?thesis by auto
qed

lemma attached_card_is_the_only_one_witness:
  "\<exists>m w' r. sv_AttachPaymentMethod sample_payment (user_ctx ''u1'') \<lparr>atr_customer_id = ''cus1'', atr_payment_method_id = ''pm1''\<rparr>
      (world_of no_rows 0) = (Inr m, w') \<and>
    filter (\<lambda>x. pm_customer_id x = pm_customer_id r) (payment_methods (wd_tables w')) = [r] \<and> pm_user_id r = ''u1''"
proof -
  note run = fst_Inr_prod [OF sample_answers(7)]
  from attached_card_is_the_only_one [OF _ run] tables_wf_no_rows run show ?thesis by fastforce
qed

lemma donation_needs_able_account_witness:
  "\<exists>d w' call i s s'. sv_MakeDonation sample_payment \<lparr>pe_cfg = sample_cfg, pe_now = 0\<rparr> (user_ctx ''u1'') sample_donation
      (world_of sample_donors 0) = (Inr d, w') \<and>
    st_NewPaymentIntent (py_stripe sample_payment) call s = (Inr i, s') \<and> pcl_Amount call = 500"
proof -
  let ?run = "sv_MakeDonation sample_payment \<lparr>pe_cfg = sample_cfg, pe_now = 0\<rparr> (user_ctx ''u1'') sample_donation (world_of sample_donors 0)"
  obtain d w' where run: "?run = (Inr d, w')"
    using sample_answers(8) by (cases ?run; cases "fst ?run") auto
  have "wd_rdb w' \<noteq> wd_rdb (world_of sample_donors 0)" using sample_answers(9) by (simp add: run)
  from donation_needs_able_account [OF run this] run show ?thesis by (fastforce simp: sample_donation_def)
qed

lemma nothing_due_blocks_donations_witness:
  "\<exists>w1. wb_HandleAccountUpdate sample_webhook ''raw'' (world_of sample_donors 0) = (Inr (), w1) \<and>
    sv_MakeDonation sample_payment \<lparr>pe_cfg = sample_cfg, pe_now = 0\<rparr> (user_ctx ''u1'') sample_donation w1 =
      (Inl (Status Internal ''connected account cannot receive donations'' []), w1)"
proof -
  let ?run = "wb_HandleAccountUpdate sample_webhook ''raw'' (world_of sample_donors 0)"
  note run = fst_Inr_prod [OF sample_answers(10)]
  have up: "up (wd_db (snd ?run))" unfolding up_def by (rule sample_answers(11))
  have wf: "tables_wf (wd_tables (world_of sample_donors 0))" using sample_donors_wf by simp
  have account: "wh_Account sample_webhook ''raw'' = Inr (Some sample_account)" "sac_Requirements sample_account = Some (Some [])"
    by (simp_all add: sample_webhook_def sample_account_def)
  have row: "hd (connected_accounts sample_donors) \<in> set (connected_accounts (wd_tables (world_of sample_donors 0)))"
    by (simp add: sample_donors_def)
  have "sv_MakeDonation sample_payment \<lparr>pe_cfg = sample_cfg, pe_now = 0\<rparr> (user_ctx ''u1'') sample_donation (snd ?run) =
      (Inl (Status Internal ''connected account cannot receive donations'' []), snd ?run)"
    by (rule nothing_due_blocks_donations [OF wf account run up row])
      (simp_all add: sample_donation_def sample_donors_def sample_account_def)
  with run show ?thesis by blast
qed

text \<open>
  When the subscription names its user the second change asks for no trial; when it does not, both
  changes are answered as a success and both ask for one.
\<close>

lemma trial_asked_again:
  shows "wd_rdb (snd (change_plan [(StripeMDUserID, ''u1'')] (snd (change_plan [(StripeMDUserID, ''u1'')] (world_of sample_trial 0))))) = 1"
    and "\<not> isl (fst (change_plan [] (snd (change_plan [] (world_of sample_trial 0)))))"
    and "wd_rdb (snd (change_plan [] (snd (change_plan [] (world_of sample_trial 0))))) = 2"
  using sample_answers(13-15) by (auto simp: isl_def)

lemma trial_follows_the_record_witness:
  "\<exists>cst pb w' i call sub' s2. change_plan [(StripeMDUserID, ''u1'')] (world_of sample_trial 0) = (Inr (cst, [pb]), w') \<and>
     st_UpdateSubscription (py_stripe (trial_payment [(StripeMDUserID, ''u1'')])) i call 0 = (Inr sub', s2) \<and>
     scl_TrialEnd call = Some 30 \<and> map cu_trial_used (customers (wd_tables w')) = [Val True]"
proof -
  let ?run = "change_plan [(StripeMDUserID, ''u1'')] (world_of sample_trial 0)"
  let ?cu = "created_customer sample_customer"
  obtain cst pbs w' where run: "?run = (Inr (cst, pbs), w')" and stored: "pbs \<noteq> [None]"
    using sample_answers(12) by (cases ?run; cases "fst ?run") auto
  have get: "py_GetCustomer (trial_payment [(StripeMDUserID, ''u1'')])
      (usr_customer_id \<lparr>usr_plan = Plan_UNPAPER_FREE, usr_customer_id = ''cus1''\<rparr>) (wd_rdb (world_of sample_trial (0 :: nat))) =
    (Inr \<lparr>xcu_Customer = sample_stripe_customer ''cus1'', xcu_Subscriptions = Some [sample_stripe_subscription ''cus1'' []],
       xcu_DefaultPaymentMethod = Some sample_method\<rparr>, 0)"
    by (simp add: trial_payment_def)
  have wf: "tables_wf (wd_tables (world_of sample_trial (0 :: nat)))" using sample_trial_wf by simp
  have row: "?cu \<in> set (customers (wd_tables (world_of sample_trial (0 :: nat))))"
    by (simp add: sample_trial_def)
  have name: "cu_customer_id ?cu = scu_ID (xcu_Customer \<lparr>xcu_Customer = sample_stripe_customer ''cus1'',
      xcu_Subscriptions = Some [sample_stripe_subscription ''cus1'' []], xcu_DefaultPaymentMethod = Some sample_method\<rparr>)"
    by (simp add: created_customer_def sample_customer_def sample_stripe_customer_def)
  from trial_follows_the_record [OF wf row get name run] run stored show ?thesis
    by (fastforce simp: trial_as_recorded_def trial_recorded_def trial_payment_def sample_trial_def created_customer_def
        sample_customer_def sample_stripe_subscription_def unix_seconds_def)
qed

end
