(* ===== verification/Room_Access.thy ===== *)
theory Room_Access
  imports Payments
begin

text \<open>
  The events of connected accounts as a machine over the subscriptions to rooms. What they record is
  a map from rooms and users to statuses; every event either leaves this map as it is or enters the one
  status it reports, whatever the database answers. So a status at the end of a run of events can be
  traced back to the event that gave it.
\<close>

section \<open>The map of statuses\<close>

definition room_status :: "tables \<Rightarrow> string \<times> string \<Rightarrow> string option" where
  "room_status t k = (case filter (\<lambda>r. (rs_room_id r, rs_user_id r) = k) (room_subscriptions t) of
     [] \<Rightarrow> None
   | r # _ \<Rightarrow> Some (rs_status r))"

abbreviation rooms_wf :: "tables \<Rightarrow> bool" where
  "rooms_wf t \<equiv> tbl_wf room_subscriptions_schema (room_subscriptions t)"

lemma room_status_cong: "room_subscriptions t' = room_subscriptions t \<Longrightarrow> room_status t' = room_status t"
  by (simp add: room_status_def fun_eq_iff)

text \<open>A user has one row for a room, so the map holds its status.\<close>

lemma room_status_row:
  assumes "rooms_wf t" and "r \<in> set (room_subscriptions t)"
  shows "room_status t (rs_room_id r, rs_user_id r) = Some (rs_status r)"
proof -
  let ?same = "filter (\<lambda>x. (rs_room_id x, rs_user_id x) = (rs_room_id r, rs_user_id r)) (room_subscriptions t)"
  have "distinct (map (\<lambda>r. [rs_user_id r, rs_room_id r]) (room_subscriptions t))"
    using assms(1) by (simp add: tbl_wf_def room_subscriptions_schema_def keys_of_total)
  with assms(2) have "x = r" if "x \<in> set ?same" for x using that by (auto simp: distinct_map dest: inj_onD)
  moreover obtain x xs where "?same = x # xs"
    using assms(2) by (cases ?same) (auto simp: filter_empty_conv)
  ultimately have "?same = r # xs" by (metis list.set_intros(1))
  then show ?thesis by (simp add: room_status_def)
qed

lemma room_upsert_status:
  assumes "tbl_upsert room_subscriptions_schema (\<lambda>r. [rs_user_id r, rs_room_id r]) merge_room_subscription new
      (room_subscriptions t) = Inr (x, rs)" and "rooms_wf t" and "room_subscriptions t' = rs"
  shows "rooms_wf t' \<and> room_status t' = (room_status t)((rs_room_id new, rs_user_id new) \<mapsto> rs_status new)"
proof
  show "rooms_wf t'" using room_upsert.upsert_wf [OF assms(2,1)] assms(3) by simp
  have "rs_status x = rs_status new"
  proof (cases "[rs_user_id new, rs_room_id new] \<in> (\<lambda>r. [rs_user_id r, rs_room_id r]) ` set (room_subscriptions t)")
    case True
    then obtain old where old: "old \<in> set (room_subscriptions t)" "[rs_user_id old, rs_room_id old] = [rs_user_id new, rs_room_id new]"
      by auto
    from room_upsert.upsert_old(1) [OF assms(1,2) old] show ?thesis by (simp add: merge_room_subscription_def)
  next
    case False
    from room_upsert.upsert_new(1) [OF assms(1) False] show ?thesis by simp
  qed
  moreover have "filter (\<lambda>r. (rs_room_id r, rs_user_id r) = (rs_room_id new, rs_user_id new)) rs = [x]"
    using room_upsert.upsert_row(1) [OF assms(1,2)] by (simp add: conj_commute)
  moreover have "filter (\<lambda>r. (rs_room_id r, rs_user_id r) = k) rs = filter (\<lambda>r. (rs_room_id r, rs_user_id r) = k) (room_subscriptions t)"
    if "k \<noteq> (rs_room_id new, rs_user_id new)" for k
  proof -
    have "filter (\<lambda>r. (rs_room_id r, rs_user_id r) = k) (filter (\<lambda>r. [rs_user_id r, rs_room_id r] \<noteq> [rs_user_id new, rs_room_id new]) ys) =
        filter (\<lambda>r. (rs_room_id r, rs_user_id r) = k) ys" for ys
      using that by (auto simp: intro!: filter_cong)
    from this [of rs] this [of "room_subscriptions t"] room_upsert.upsert_row(2) [OF assms(1,2)] show ?thesis by metis
  qed
  ultimately show "room_status t' = (room_status t)((rs_room_id new, rs_user_id new) \<mapsto> rs_status new)"
    by (auto simp: room_status_def assms(3) fun_eq_iff)
qed

section \<open>One event\<close>

text \<open>What an event reports: the room and the user its metadata name, and the status.\<close>

definition room_report :: "stripe_subscription \<Rightarrow> ((string \<times> string) \<times> string) option" where
  "room_report s = (case (map_of (ssn_Metadata s) StripeMDPayForRoomAccess, map_of (ssn_Metadata s) StripeMDUserID) of
     (Some room, Some u) \<Rightarrow> Some ((room, u), ssn_Status s)
   | _ \<Rightarrow> None)"

definition reported :: "('f, 'r) webhook_env \<Rightarrow> webhook_event \<Rightarrow> 'r world \<Rightarrow> ((string \<times> string) \<times> string) option" where
  "reported E ev w =
     (if wev_Type ev \<in> {''invoice.paid'', ''invoice.payment_failed'', ''invoice.payment_action_required''} then
        (case fst (unmarshalInvoiceWithSubscription E (wev_Raw ev) (wev_Account ev) w) of
           Inr x \<Rightarrow> Option.bind (iws_Subscription x) room_report
         | Inl _ \<Rightarrow> None)
      else if wev_Type ev = ''customer.subscription.updated'' then
        (case wh_Subscription E (wev_Raw ev) of Inr (Some s) \<Rightarrow> room_report s | _ \<Rightarrow> None)
      else if wev_Type ev = ''payment_intent.succeeded'' then
        (case wh_PaymentIntent E (wev_Raw ev) of
           Inr (Some p) \<Rightarrow> (case (map_of (wpi_Metadata p) StripeMDPayForRoomAccess, map_of (wpi_Metadata p) StripeMDUserID) of
               (Some room, Some u) \<Rightarrow> Some ((room, u), SubscriptionStatusActive)
             | _ \<Rightarrow> None)
         | _ \<Rightarrow> None)
      else None)"

definition room_step :: "((string \<times> string) \<times> string) option \<Rightarrow> unit res \<Rightarrow> tables \<Rightarrow> tables \<Rightarrow> bool" where
  "room_step rep res t t' \<longleftrightarrow> (rooms_wf t \<longrightarrow> rooms_wf t' \<and>
     ((res = Inr () \<longrightarrow> rep = None) \<and> room_status t' = room_status t \<or>
      (\<exists>k st. rep = Some (k, st) \<and> room_status t' = (room_status t)(k \<mapsto> st))))"

lemma room_step_same:
  "room_subscriptions t' = room_subscriptions t \<Longrightarrow> res \<noteq> Inr () \<or> rep = None \<Longrightarrow> room_step rep res t t'"
  using room_status_cong [of t' t] by (auto simp: room_step_def)

lemma store_room_step:
  assumes "check_err (on_db (dir_StoreRoomSubscription arg) w) f (\<lambda>_ w. (Inr (), w)) = (res, w')"
  shows "room_step (Some ((srp_room_id arg, srp_user_id arg), srp_status arg)) res (wd_tables w) (wd_tables w')"
proof -
  let ?stmt = "exec_stmt (\<lambda>t.
     returning_row (tbl_upsert room_subscriptions_schema (\<lambda>r. [rs_user_id r, rs_room_id r]) merge_room_subscription
         (new_room_subscription arg) (room_subscriptions t)) (\<lambda>rs. t\<lparr>room_subscriptions := rs\<rparr>))"
  obtain r c where stmt: "?stmt (wd_db w) = (r, c)" by fastforce
  then have db: "wd_db w' = c" and err: "r = Inl e \<Longrightarrow> res \<noteq> Inr ()" for e
    using assms
    by (auto simp: dir_StoreRoomSubscription_def q_StoreRoomSubscription_def on_db_def check_err_def split: sum.splits prod.splits)
  from exec_stmt_atomic [OF stmt] show ?thesis
  proof
    assume same: "dbt c = wd_tables w"
    show ?thesis
    proof (cases r)
      case (Inl e)
      with same db err show ?thesis by (intro room_step_same) auto
    next
      case (Inr x)
      from exec_stmt_Inr [OF stmt [unfolded Inr]] have "\<exists>rs. tbl_upsert room_subscriptions_schema (\<lambda>r. [rs_user_id r, rs_room_id r])
          merge_room_subscription (new_room_subscription arg) (room_subscriptions (wd_tables w)) = Inr (x, rs) \<and>
          room_subscriptions (dbt c) = rs" by (auto simp: ok_simps)
      with room_upsert_status [of "new_room_subscription arg" "wd_tables w" x _ "dbt c"] db show ?thesis
        by (auto simp: room_step_def new_room_subscription_def)
    qed
  next
    assume "\<exists>x. returning_row (tbl_upsert room_subscriptions_schema (\<lambda>r. [rs_user_id r, rs_room_id r]) merge_room_subscription
         (new_room_subscription arg) (room_subscriptions (dbt (wd_db w)))) (\<lambda>rs. (dbt (wd_db w))\<lparr>room_subscriptions := rs\<rparr>) =
       Inr (x, dbt c)"
    then obtain x rs where "tbl_upsert room_subscriptions_schema (\<lambda>r. [rs_user_id r, rs_room_id r])
          merge_room_subscription (new_room_subscription arg) (room_subscriptions (wd_tables w)) = Inr (x, rs)"
      "room_subscriptions (dbt c) = rs" by (auto simp: ok_simps)
    with room_upsert_status [of "new_room_subscription arg" "wd_tables w" x _ "dbt c"] db show ?thesis
      by (auto simp: room_step_def new_room_subscription_def)
  qed
qed

lemma store_subscription_step:
  assumes "check_err (ss_StoreRoomSubscription s i room acct w) f (\<lambda>_ w. (Inr (), w)) = (res, w')"
    and "map_of (ssn_Metadata s) StripeMDPayForRoomAccess = Some room"
  shows "room_step (room_report s) res (wd_tables w) (wd_tables w')"
proof (cases "map_of (ssn_Metadata s) StripeMDUserID")
  case None
  with assms(1) show ?thesis by (auto simp: ss_StoreRoomSubscription_def intro!: room_step_same)
next
  case (Some u)
  let ?inv = "stripeLatestInvoiceToPB (case i of None \<Rightarrow> ssn_LatestInvoice s | Some i \<Rightarrow> Some i)"
  show ?thesis
  proof (cases ?inv)
    case (Inl e)
    with assms(1) Some show ?thesis by (auto simp: ss_StoreRoomSubscription_def intro!: room_step_same)
  next
    case (Inr inv)
    let ?arg = "\<lparr>srp_id = ssn_ID s, srp_user_id = u,
              srp_customer_id = ssn_Customer s, srp_connected_customer_id = '''', srp_account_id = acct,
              srp_current_period_end = Val (ssn_CurrentPeriodEnd s * 1000000), srp_status = ssn_Status s,
              srp_room_id = room, srp_room_subscription_type = RoomSubscriptionTypeSubscriptionMonthly,
              srp_latest_invoice = marshal_invoice inv\<rparr>"
    let ?g = "\<lambda>e. f (Status Internal ''error storing room subscription: %v'' [e])"
    have "check_err (on_db (dir_StoreRoomSubscription ?arg) w) ?g (\<lambda>_ w. (Inr (), w)) = (res, w')"
      using assms(1) Some Inr
      by (simp add: ss_StoreRoomSubscription_def) (simp add: check_err_def split: prod.splits sum.splits)
    from store_room_step [OF this] show ?thesis using Some assms(2) by (simp add: room_report_def)
  qed
qed

lemma storeRoomInvoice_step:
  assumes "store_invoice_of acct x w = (res, w')"
  shows "room_step (Option.bind (iws_Subscription x) room_report) res (wd_tables w) (wd_tables w')"
proof (cases "iws_Subscription x")
  case None
  with assms show ?thesis by (auto simp: store_invoice_of_def intro!: room_step_same)
next
  case (Some s)
  show ?thesis
  proof (cases "map_of (ssn_Metadata s) StripeMDPayForRoomAccess")
    case None
    with assms Some show ?thesis by (auto simp: store_invoice_of_def intro!: room_step_same)
  next
    case room: (Some room)
    with assms Some show ?thesis by (auto simp: store_invoice_of_def storeRoomInvoice_def intro: store_subscription_step)
  qed
qed

lemma unmarshalInvoice_db [simp]: "wd_db (snd (unmarshalInvoiceWithSubscription E raw acct w)) = wd_db w"
proof -
  have "wd_db (snd (case siv_PaymentIntent (win_Invoice i) of
          None \<Rightarrow> (Inr i, v)
        | Some p \<Rightarrow>
            check_err (on_rdb (wh_GetPaymentIntent E (spi_ID p) acct) v) same_err (\<lambda>p w.
            (Inr (i\<lparr>win_Invoice := (win_Invoice i)\<lparr>siv_PaymentIntent := Some p\<rparr>\<rparr>), w)))) = wd_db v" for i and v :: "'a world"
    by (auto split: option.split intro!: check_err_inv [where P = "\<lambda>x. wd_db x = wd_db v"])
  then show ?thesis
    unfolding unmarshalInvoiceWithSubscription_def
    by (intro check_err_inv [where P = "\<lambda>x. wd_db x = wd_db w"])
      (auto split: option.split intro!: check_err_inv [where P = "\<lambda>x. wd_db x = wd_db w"])
qed

lemma invoice_step:
  assumes "check_err (unmarshalInvoiceWithSubscription E raw acct w) same_err
      (\<lambda>x w. if b then (Inl e, w) else store_invoice_of acct x w) = (res, w')"
  shows "room_step (case fst (unmarshalInvoiceWithSubscription E raw acct w) of
      Inr x \<Rightarrow> Option.bind (iws_Subscription x) room_report | Inl _ \<Rightarrow> None) res (wd_tables w) (wd_tables w')"
proof -
  obtain r v where run: "unmarshalInvoiceWithSubscription E raw acct w = (r, v)" by fastforce
  have v: "wd_db v = wd_db w" using unmarshalInvoice_db [of E raw acct w] by (simp add: run)
  show ?thesis
  proof (cases r)
    case (Inl e)
    with assms run v show ?thesis by (auto intro!: room_step_same)
  next
    case (Inr x)
    show ?thesis
    proof (cases b)
      case True
      with assms run v Inr show ?thesis by (auto intro!: room_step_same)
    next
      case False
      with assms run Inr have "store_invoice_of acct x v = (res, w')" by simp
      from storeRoomInvoice_step [OF this] show ?thesis using v run Inr by simp
    qed
  qed
qed

text \<open>Events about accounts and platform subscriptions leave the rooms alone.\<close>

lemma platform_stmts_rooms [simp]:
  "room_subscriptions (dbt (snd (q_StoreSubscription sp c))) = room_subscriptions (dbt c)"
  "room_subscriptions (dbt (snd (q_StorePrice pp c))) = room_subscriptions (dbt c)"
  "room_subscriptions (dbt (snd (q_UseTrial i c))) = room_subscriptions (dbt c)"
  "room_subscriptions (dbt (snd (q_UpdateConnectedAccountCanReceivePayments b a c))) = room_subscriptions (dbt c)"
  unfolding q_StoreSubscription_def q_StorePrice_def q_UseTrial_def q_UpdateConnectedAccountCanReceivePayments_def scanned_tbl
  by (rule exec_stmt_inv [where P = "\<lambda>t. room_subscriptions t = room_subscriptions (dbt c)"];
      auto simp: ok_simps returning_row_def split: sum.splits)+

lemma dir_StoreSubscriptionWithPrice_rooms [simp]:
  "room_subscriptions (dbt (snd (dir_StoreSubscriptionWithPrice p c))) = room_subscriptions (dbt c)"
  unfolding dir_StoreSubscriptionWithPrice_def
  by (auto split: option.split intro!: check_err_inv [where P = "\<lambda>x. room_subscriptions (dbt x) = room_subscriptions (dbt c)"])

lemma ss_StoreSubscription_rooms [simp]:
  "room_subscriptions (wd_tables (snd (ss_StoreSubscription s u w))) = room_subscriptions (wd_tables w)"
  by (simp add: ss_StoreSubscription_def split: list.split option.split)

lemma HandleAccountUpdate_rooms:
  "room_subscriptions (wd_tables (snd (wb_HandleAccountUpdate E data w))) = room_subscriptions (wd_tables w)"
  unfolding wb_HandleAccountUpdate_def
  by (intro check_err_inv [where P = "\<lambda>x. room_subscriptions (wd_tables x) = room_subscriptions (wd_tables w)"])
    (simp_all add: dir_UpdateConnectedAccountCanReceivePayments_def)

lemma HandleSubscriptionDeleted_rooms:
  "room_subscriptions (wd_tables (snd (wb_HandleSubscriptionDeleted E data w))) = room_subscriptions (wd_tables w)"
  unfolding wb_HandleSubscriptionDeleted_def
  by (intro check_err_inv [where P = "\<lambda>x. room_subscriptions (wd_tables x) = room_subscriptions (wd_tables w)"]
      check_ok_inv [where P = "\<lambda>x. room_subscriptions (wd_tables x) = room_subscriptions (wd_tables w)"])
    (simp_all add: ss_CreatePlatformSubscription_def)

lemma subscription_update_step:
  assumes "wb_HandleSubscriptionUpdate E acct data w = (res, w')"
  shows "room_step (case wh_Subscription E data of Inr (Some s) \<Rightarrow> room_report s | _ \<Rightarrow> None) res (wd_tables w) (wd_tables w')"
proof (cases "\<exists>s room. wh_Subscription E data = Inr (Some s) \<and> map_of (ssn_Metadata s) StripeMDPayForRoomAccess = Some room")
  case True
  then obtain s room where s: "wh_Subscription E data = Inr (Some s)"
    and room: "map_of (ssn_Metadata s) StripeMDPayForRoomAccess = Some room" by blast
  with assms have "check_err (ss_StoreRoomSubscription s None room acct w) same_err (\<lambda>_ w. (Inr (), w)) = (res, w')"
    by (simp add: wb_HandleSubscriptionUpdate_def some_or_panic_def updateRoomSubscription_def)
  from store_subscription_step [OF this room] show ?thesis by (simp add: s)
next
  case False
  then have "res \<noteq> Inr () \<and> w' = w"
    using assms by (cases "wh_Subscription E data") (auto simp: wb_HandleSubscriptionUpdate_def some_or_panic_def split: option.splits)
  then show ?thesis by (intro room_step_same) simp_all
qed

text \<open>Whatever the event and whatever fails, an event enters at most the status it reports.\<close>

lemma connect_dispatch_step:
  assumes "connect_dispatch E ev w = (res, w')"
  shows "room_step (reported E ev w) res (wd_tables w) (wd_tables w')"
proof -
  have frame: "room_step (reported E ev w) res (wd_tables w) (wd_tables w')"
    if "room_subscriptions (wd_tables (snd (connect_dispatch E ev w))) = room_subscriptions (wd_tables w)" "reported E ev w = None"
    using that assms by (intro room_step_same) auto
  consider (invoice) "wev_Type ev \<in> {''invoice.paid'', ''invoice.payment_failed'', ''invoice.payment_action_required''}"
    | (updated) "wev_Type ev = ''customer.subscription.updated''" | (paid) "wev_Type ev = ''payment_intent.succeeded''"
    | (other) "wev_Type ev \<notin> {''invoice.paid'', ''invoice.payment_failed'', ''invoice.payment_action_required'',
        ''customer.subscription.updated'', ''payment_intent.succeeded''}" by blast
  then show ?thesis
  proof cases
    case invoice
    have "check_err (unmarshalInvoiceWithSubscription E (wev_Raw ev) (wev_Account ev) w) same_err
        (\<lambda>x w. if wev_Account ev = [] \<and> wev_Type ev \<noteq> ''invoice.payment_action_required''
          then (Inl ErrMissingAcctID, w) else store_invoice_of (wev_Account ev) x w) = (res, w')"
      using assms invoice
      by (auto simp: connect_dispatch_def Let_def wb_HandleInvoicePaid_def wb_HandleInvoicePaymentFailed_def
          wb_HandleInvoicePaymentActionRequired_def)
    from invoice_step [OF this] show ?thesis using invoice by (auto simp: reported_def)
  next
    case updated
    then have "wb_HandleSubscriptionUpdate E (wev_Account ev) (wev_Raw ev) w = (res, w')"
      using assms by (simp add: connect_dispatch_def)
    from subscription_update_step [OF this] show ?thesis using updated by (simp add: reported_def)
  next
    case paid
    then have run: "wb_HandlePaymentIntentSucceeded E (wev_Account ev) (wev_Raw ev) w = (res, w')"
      using assms by (simp add: connect_dispatch_def)
    show ?thesis using run paid
      by (auto simp: reported_def wb_HandlePaymentIntentSucceeded_def storeRoomPaymentIntent_def some_or_panic_def check_ok_def
          split: sum.splits option.splits intro: room_step_same dest!: store_room_step)
  next
    case other
    have failed: "snd (wb_HandlePaymentIntentFailed E data w) = w" for data
      by (cases "wh_PaymentIntent E data") (simp_all add: wb_HandlePaymentIntentFailed_def)
    show ?thesis using other
      by (intro frame) (simp_all add: reported_def connect_dispatch_def Let_def HandleAccountUpdate_rooms HandleSubscriptionDeleted_rooms failed)
  qed
qed

section \<open>Runs of events\<close>

fun deliver ::
    "('f, 'r) webhook_env \<Rightarrow> webhook_event list \<Rightarrow> 'r world \<Rightarrow> (((string \<times> string) \<times> string) option \<times> unit res) list \<times> 'r world" where
  "deliver E [] w = ([], w)"
| "deliver E (ev # evs) w =
     (case connect_dispatch E ev w of (res, w1) \<Rightarrow>
        case deliver E evs w1 of (log, w2) \<Rightarrow> ((reported E ev w, res) # log, w2))"

text \<open>No event of the log that was handled reported another status for the pair.\<close>

definition only_reported :: "(((string \<times> string) \<times> string) option \<times> unit res) list \<Rightarrow> string \<times> string \<Rightarrow> string \<Rightarrow> bool" where
  "only_reported log k st \<longleftrightarrow> (\<forall>st'. (Some (k, st'), Inr ()) \<in> set log \<longrightarrow> st' = st)"

text \<open>
  The same for any machine whose steps say which status they report: what is in the map at the end was
  there at the start, or some step reported it.
\<close>

fun run_steps :: "('e \<Rightarrow> 'w \<Rightarrow> 'l \<times> 'w) \<Rightarrow> 'e list \<Rightarrow> 'w \<Rightarrow> 'l list \<times> 'w" where
  "run_steps step [] w = ([], w)"
| "run_steps step (e # es) w =
     (case step e w of (l, w1) \<Rightarrow> case run_steps step es w1 of (log, w2) \<Rightarrow> (l # log, w2))"

locale room_machine =
  fixes step :: "'e \<Rightarrow> 'r world \<Rightarrow> (((string \<times> string) \<times> string) option \<times> unit res) \<times> 'r world"
    and good :: "tables \<Rightarrow> bool"
  assumes step_room: "good (wd_tables w) \<Longrightarrow> step e w = ((rep, res), w') \<Longrightarrow> room_step rep res (wd_tables w) (wd_tables w')"
    and step_good: "good (wd_tables w) \<Longrightarrow> step e w = (l, w') \<Longrightarrow> good (wd_tables w')"
begin

lemma status_traced:
  assumes "run_steps step es w = (log, w')" and "good (wd_tables w)" and "rooms_wf (wd_tables w)"
    and "room_status (wd_tables w') k = Some st"
  shows "(room_status (wd_tables w) k = Some st \<and> only_reported log k st) \<or>
    (\<exists>pre res post. log = pre @ (Some (k, st), res) # post \<and> only_reported post k st)"
  using assms
proof (induction es arbitrary: w log)
  case Nil
  then show ?case by (simp add: only_reported_def)
next
  case (Cons e es)
  from Cons.prems(1) obtain rep res w1 log1 where e: "step e w = ((rep, res), w1)"
    and rest: "run_steps step es w1 = (log1, w')" and log: "log = (rep, res) # log1"
    by (auto split: prod.splits)
  have s: "room_step rep res (wd_tables w) (wd_tables w1)" by (rule step_room [OF Cons.prems(2) e])
  with Cons.prems(3) have "rooms_wf (wd_tables w1)" by (simp add: room_step_def)
  from Cons.IH [OF rest step_good [OF Cons.prems(2) e] this Cons.prems(4)] show ?case
  proof
    assume "\<exists>pre res post. log1 = pre @ (Some (k, st), res) # post \<and> only_reported post k st"
    then show ?thesis unfolding log by (metis append_Cons)
  next
    assume now: "room_status (wd_tables w1) k = Some st \<and> only_reported log1 k st"
    show ?thesis
    proof (cases "rep = Some (k, st)")
      case True
      with now show ?thesis unfolding log by blast
    next
      case False
      with s now Cons.prems(3) show ?thesis
        unfolding log by (cases "\<exists>st'. rep = Some (k, st')") (auto simp: room_step_def only_reported_def)
    qed
  qed
qed

end

definition event_step ::
    "('f, 'r) webhook_env \<Rightarrow> webhook_event \<Rightarrow> 'r world \<Rightarrow> (((string \<times> string) \<times> string) option \<times> unit res) \<times> 'r world" where
  "event_step E ev w = (case connect_dispatch E ev w of (res, w1) \<Rightarrow> ((reported E ev w, res), w1))"

interpretation events: room_machine "event_step E" "\<lambda>_. True" for E
  by unfold_locales (auto simp: event_step_def intro: connect_dispatch_step split: prod.splits)

lemma deliver_run: "deliver E evs w = run_steps (event_step E) evs w"
  by (induction evs arbitrary: w) (simp_all add: event_step_def split: prod.split)

text \<open>The subscription \<^verbatim>\<open>handleSubscriptionRoom\<close> finds, when it authorizes the user.\<close>

lemma check_lets_in:
  assumes "handleSubscriptionRoom room u w = (Inr RoomAuthorization_AUTHORIZED, w')"
  shows "room_status (wd_tables w) (room, u) = Some ''active''"
proof -
  from assms obtain m c where look: "dir_GetRoomSubscriptionForUserID room u (wd_db w) = (Inr m, c)"
    and active: "rsb_status m = SubscriptionStatus_ACTIVE"
    by (auto simp: handleSubscriptionRoom_def roomAccessCheckResponse_def on_db_def split: prod.splits sum.splits if_splits)
  then obtain r rs where rows: "filter (\<lambda>r. rs_room_id r = room \<and> rs_user_id r = u) (room_subscriptions (wd_tables w)) = r # rs"
    and m: "pgRoomSubscriptionToPB r = Inr m"
    by (auto simp: dir_GetRoomSubscriptionForUserID_def q_GetRoomSubscriptionForUserID_def ok_simps one_row_Inr dest!: exec_query_Inr)
  have "rs_status r = ''active''"
    using m active by (auto simp: pgRoomSubscriptionToPB_def pgSubscriptionStatusToPB_def customer_consts split: sum.splits if_splits)
  with rows show ?thesis by (simp add: room_status_def)
qed

text \<open>
  Access to a room can be traced to an event. Start from tables in which a user has no subscription
  to a room and deliver any run of events, of which any may fail at any point. If \<^verbatim>\<open>handleSubscriptionRoom\<close>
  authorizes the user at the end, some event of the run reported for exactly this room and user that they
  are active, and no event handled after it reported anything else for them.
\<close>

theorem room_access_traces_to_event:
  assumes "tables_wf (wd_tables w)" and "\<forall>r \<in> set (room_subscriptions (wd_tables w)). \<not> (rs_room_id r = room \<and> rs_user_id r = u)"
    and "deliver E evs w = (log, w1)" and "handleSubscriptionRoom room u w1 = (Inr RoomAuthorization_AUTHORIZED, w2)"
  shows "\<exists>pre res post. log = pre @ (Some ((room, u), ''active''), res) # post \<and>
    (\<forall>st. (Some ((room, u), st), Inr ()) \<in> set post \<longrightarrow> st = ''active'')"
proof -
  have "room_status (wd_tables w1) (room, u) = Some ''active''" by (rule check_lets_in [OF assms(4)])
  moreover have "rooms_wf (wd_tables w)" using assms(1) by (simp add: tables_wf_def)
  moreover have "room_status (wd_tables w) (room, u) = None"
    using assms(2) by (auto simp: room_status_def filter_empty_conv split: list.split)
  ultimately have "\<exists>pre res post. log = pre @ (Some ((room, u), ''active''), res) # post \<and> only_reported post (room, u) ''active''"
    using events.status_traced [OF assms(3) [unfolded deliver_run], of "(room, u)" "''active''"] by (simp only: option.distinct) simp
  then show ?thesis unfolding only_reported_def .
qed

definition sample_events :: "webhook_event list" where
  "sample_events = [\<lparr>wev_Type = ''customer.subscription.updated'', wev_Account = ''a1'', wev_Raw = ''raw''\<rparr>,
     \<lparr>wev_Type = ''payment_intent.succeeded'', wev_Account = ''a1'', wev_Raw = ''raw''\<rparr>]"

lemma room_access_traces_to_event_witness:
  "\<exists>log w1 pre res post. deliver sample_webhook sample_events (world_of no_rows 0) = (log, w1) \<and>
     log = pre @ (Some ((''room1'', ''u1''), ''active''), res) # post"
proof -
  let ?run = "deliver sample_webhook sample_events (world_of no_rows 0)"
  have "fst (handleSubscriptionRoom ''room1'' ''u1'' (snd ?run)) = Inr RoomAuthorization_AUTHORIZED" by code_simp
  note open_room = fst_Inr_prod [OF this]
  have rows: "\<forall>r \<in> set (room_subscriptions (wd_tables (world_of no_rows 0))). \<not> (rs_room_id r = ''room1'' \<and> rs_user_id r = ''u1'')"
    by (simp add: no_rows_def)
  have wf: "tables_wf (wd_tables (world_of no_rows (0 :: nat)))" using tables_wf_no_rows by simp
  from room_access_traces_to_event [OF wf rows prod.collapse [symmetric] open_room]
  show ?thesis by (metis prod.collapse)
qed

end
