(* ===== verification/Frames.thy ===== *)
theory Frames
  imports Room_Access Accounts Service_Users Service_Mixes
begin

text \<open>
  What the handlers leave alone. Three tables matter to the service as a whole: the users, the posts
  and the subscriptions to rooms; the handlers that may write one of them are few. The locale
  \<open>table_part\<close> stands for any part of the tables that the other tables do not show in, and says once
  for every statement, directory and helper that it keeps the constraints and this part.
\<close>

named_theorems leaves_intros \<open>rules that follow a sequence of calls and keep a predicate on the state\<close>

section \<open>A predicate on the state after a call\<close>

definition leaves :: "('s \<Rightarrow> bool) \<Rightarrow> 'a \<times> 's \<Rightarrow> bool" where
  "leaves P p \<longleftrightarrow> P (snd p)"

lemma leavesD: "leaves P (r, s) \<Longrightarrow> P s"
  by (simp add: leaves_def)

lemma leaves_pair [leaves_intros]: "P s \<Longrightarrow> leaves P (r, s)"
  by (simp add: leaves_def)

lemma leaves_check_err [leaves_intros]:
  "leaves P p \<Longrightarrow> (\<And>x s. P s \<Longrightarrow> leaves P (k x s)) \<Longrightarrow> leaves P (check_err p f k)"
  by (cases p; cases "fst p") (auto simp: leaves_def)

lemma leaves_check_ok [leaves_intros]:
  "P s \<Longrightarrow> (\<And>y. leaves P (k y s)) \<Longrightarrow> leaves P (check_ok x e k s)"
  by (cases x) (auto simp: leaves_def)

lemma leaves_if [leaves_intros]: "leaves P p \<Longrightarrow> leaves P q \<Longrightarrow> leaves P (if b then p else q)"
  by simp

lemma leaves_Let [leaves_intros]: "(\<And>y. leaves P (f y)) \<Longrightarrow> leaves P (Let x f)"
  by simp

lemma leaves_Let_call [leaves_intros]: "(\<And>y. leaves P (f y s)) \<Longrightarrow> leaves P (Let x f s)"
  by simp

lemma leaves_case_option [leaves_intros]: "leaves P p \<Longrightarrow> (\<And>y. leaves P (f y)) \<Longrightarrow> leaves P (case_option p f x)"
  by (cases x) auto

lemma leaves_case_sum [leaves_intros]: "(\<And>y. leaves P (f y)) \<Longrightarrow> (\<And>y. leaves P (g y)) \<Longrightarrow> leaves P (case_sum f g x)"
  by (cases x) auto

lemma leaves_case_list [leaves_intros]: "leaves P p \<Longrightarrow> (\<And>y ys. leaves P (f y ys)) \<Longrightarrow> leaves P (case_list p f xs)"
  by (cases xs) auto

lemma leaves_case_nullable [leaves_intros]: "(\<And>y. leaves P (f y)) \<Longrightarrow> leaves P p \<Longrightarrow> leaves P (case_nullable f p x)"
  by (cases x) auto

lemma leaves_case_call [leaves_intros]:
  "leaves P p \<Longrightarrow> (\<And>r s. P s \<Longrightarrow> leaves P (f r s)) \<Longrightarrow> leaves P (case_prod f p)"
  by (cases p) (auto simp: leaves_def)

lemma leaves_case_values: "(\<And>a b. leaves P (f a b)) \<Longrightarrow> leaves P (case_prod f p)"
  by (cases p) auto

lemma leaves_with_user [leaves_intros]:
  "P w \<Longrightarrow> (\<And>u w. P w \<Longrightarrow> leaves P (k u w)) \<Longrightarrow> leaves P (with_user ctx k w)"
  by (auto simp: with_user_def leaves_def split: option.split)

lemma leaves_ignore_err [leaves_intros]:
  "leaves P p \<Longrightarrow> (\<And>x s. P s \<Longrightarrow> leaves P (k x s)) \<Longrightarrow> leaves P (ignore_err p k)"
  by (cases p; cases "fst p") (auto simp: ignore_err_def leaves_def split: goerror.splits)

lemma leaves_optional_row [leaves_intros]: "leaves P p \<Longrightarrow> leaves P (optional_row p wrap)"
  by (cases p; cases "fst p") (auto simp: optional_row_def leaves_def)

section \<open>A part of the tables\<close>

definition kept :: "(tables \<Rightarrow> 'p) \<Rightarrow> 'p \<Rightarrow> tables \<Rightarrow> bool" where
  "kept part x t \<longleftrightarrow> tables_wf t \<and> part t = x"

definition kept_db :: "(tables \<Rightarrow> 'p) \<Rightarrow> 'p \<Rightarrow> db \<Rightarrow> bool" where
  "kept_db part x c \<longleftrightarrow> kept part x (dbt c)"

definition kept_world :: "(tables \<Rightarrow> 'p) \<Rightarrow> 'p \<Rightarrow> 'r world \<Rightarrow> bool" where
  "kept_world part x w \<longleftrightarrow> kept_db part x (wd_db w)"

lemma leaves_on_db [leaves_intros]:
  "(\<And>c. kept_db part x c \<Longrightarrow> leaves (kept_db part x) (f c)) \<Longrightarrow> kept_world part x w \<Longrightarrow> leaves (kept_world part x) (on_db f w)"
  by (simp add: leaves_def kept_world_def)

lemma leaves_on_rdb [leaves_intros]: "kept_world part x w \<Longrightarrow> leaves (kept_world part x) (on_rdb f w)"
  by (simp add: leaves_def kept_world_def)

lemma leaves_SendHeader [leaves_intros]: "kept_world part x w \<Longrightarrow> leaves (kept_world part x) (SendHeader k v w)"
  by (simp add: leaves_def kept_world_def)

lemma leaves_exec_query [leaves_intros]: "kept_db part x c \<Longrightarrow> leaves (kept_db part x) (exec_query g c)"
  by (simp add: leaves_def kept_db_def)

lemma kept_snd [leaves_intros]: "leaves (kept_world part x) p \<Longrightarrow> kept_world part x (snd p)"
  by (simp add: leaves_def)

lemma kept_if [leaves_intros]:
  "kept_world part x w \<Longrightarrow> kept_world part x w' \<Longrightarrow> kept_world part x (if b then w else w')"
  by simp

lemma leaves_stmt:
  assumes "tables_wf (dbt c) \<Longrightarrow> tables_wf (dbt (snd p))" and "part (dbt (snd p)) = part (dbt c)"
  shows "kept_db part x c \<Longrightarrow> leaves (kept_db part x) p"
  using assms by (simp add: leaves_def kept_db_def kept_def)

text \<open>A part that does not show one of the three tables.\<close>

definition unseen_users :: "(tables \<Rightarrow> 'p) \<Rightarrow> bool" where
  "unseen_users part \<longleftrightarrow> (\<forall>t rs. part (t\<lparr>users := rs\<rparr>) = part t)"

definition unseen_posts :: "(tables \<Rightarrow> 'p) \<Rightarrow> bool" where
  "unseen_posts part \<longleftrightarrow> (\<forall>t rs. part (t\<lparr>posts := rs\<rparr>) = part t)"

definition unseen_rooms :: "(tables \<Rightarrow> 'p) \<Rightarrow> bool" where
  "unseen_rooms part \<longleftrightarrow> (\<forall>t rs. part (t\<lparr>room_subscriptions := rs\<rparr>) = part t)"

locale table_part =
  fixes part :: "tables \<Rightarrow> 'p"
  assumes part_comments: "part (t\<lparr>comments := a1\<rparr>) = part t"
    and part_connected_accounts: "part (t\<lparr>connected_accounts := a2\<rparr>) = part t"
    and part_connected_customers: "part (t\<lparr>connected_customers := a3\<rparr>) = part t"
    and part_customers: "part (t\<lparr>customers := a4\<rparr>) = part t"
    and part_follows: "part (t\<lparr>follows := a5\<rparr>) = part t"
    and part_lists: "part (t\<lparr>lists := a6\<rparr>) = part t"
    and part_mixes: "part (t\<lparr>mixes := a7\<rparr>) = part t"
    and part_notifications: "part (t\<lparr>notifications := a8\<rparr>) = part t"
    and part_payment_methods: "part (t\<lparr>payment_methods := a9\<rparr>) = part t"
    and part_subscriptions: "part (t\<lparr>stripe_subscriptions := a10\<rparr>) = part t"
    and part_prices: "part (t\<lparr>stripe_prices := a11\<rparr>) = part t"
begin

lemmas part_simps = part_comments part_connected_accounts part_connected_customers part_customers part_follows part_lists
  part_mixes part_notifications part_payment_methods part_subscriptions part_prices

lemma Send_call [leaves_intros]:
  "notifier (sv_Send srv) \<Longrightarrow> kept_world part x w \<Longrightarrow> leaves (kept_world part x) (sv_Send srv i now p w)"
proof (unfold leaves_def kept_world_def kept_db_def kept_def, elim conjE, intro conjI)
  assume n: "notifier (sv_Send srv)" and "tables_wf (wd_tables w)" and "part (wd_tables w) = x"
  from n show "tables_wf (wd_tables (snd (sv_Send srv i now p w)))" by (rule notifier.send_wf) fact
  obtain ns where "wd_tables (snd (sv_Send srv i now p w)) = (wd_tables w)\<lparr>notifications := notifications (wd_tables w) @ ns\<rparr>"
    using notifier.send_tables [OF n] by blast
  with \<open>part (wd_tables w) = x\<close> show "part (wd_tables (snd (sv_Send srv i now p w))) = x" by (simp add: part_notifications)
qed

lemmas unseen_simps = unseen_users_def unseen_posts_def unseen_rooms_def

lemma exec_stmt_part:
  "(\<And>y t. f (dbt c) = Inr (y, t) \<Longrightarrow> part t = part (dbt c)) \<Longrightarrow> part (dbt (snd (exec_stmt f c))) = part (dbt c)"
  by (rule exec_stmt_inv [where P = "\<lambda>t. part t = part (dbt c)"]) auto

abbreviation (input) db_call :: "(db \<Rightarrow> 'a \<times> db) \<Rightarrow> prop" where
  "db_call f \<equiv> (\<And>x c. kept_db part x c \<Longrightarrow> leaves (kept_db part x) (f c))"

abbreviation (input) world_call :: "('r world \<Rightarrow> 'a \<times> 'r world) \<Rightarrow> prop" where
  "world_call f \<equiv> (\<And>x w. kept_world part x w \<Longrightarrow> leaves (kept_world part x) (f w))"

subsection \<open>Users\<close>

lemma user_stmts [leaves_intros]:
  "unseen_users part \<Longrightarrow> PROP db_call (q_CreateUser p)"
  "unseen_users part \<Longrightarrow> PROP db_call (q_DeleteUser a)"
  "unseen_users part \<Longrightarrow> PROP db_call (q_UpdatePassword a q)"
  "unseen_users part \<Longrightarrow> PROP db_call (q_UpdatePasswordChangedAt r a)"
  "unseen_users part \<Longrightarrow> PROP db_call (q_UpdateUsername q a)"
  "unseen_users part \<Longrightarrow> PROP db_call (q_VerifyEmail a)"
  by (rule leaves_stmt; (assumption | rule q_CreateUser_wf q_DeleteUser_wf q_UpdatePassword_wf q_UpdatePasswordChangedAt_wf q_UpdateUsername_wf
      q_VerifyEmail_wf, assumption |
      simp add: q_CreateUser_def q_DeleteUser_def q_UpdatePassword_def q_UpdatePasswordChangedAt_def
        q_UpdateUsername_def q_VerifyEmail_def,
      rule exec_stmt_part, auto simp: ok_simps part_simps unseen_simps Let_def split: if_splits))+

lemma user_calls [leaves_intros]:
  "unseen_users part \<Longrightarrow> PROP db_call (dir_CreateUser p)"
  "PROP db_call (dir_GetUser a)"
  "PROP db_call (dir_GetUserByUsername a)"
  "unseen_users part \<Longrightarrow> PROP db_call (dir_DeleteUser a)"
  "unseen_users part \<Longrightarrow> PROP db_call (dir_VerifyEmail a)"
  "PROP db_call (dir_GetPassword a)"
  "PROP db_call (dir_GetEmail a)"
  "PROP db_call (dir_GetUserIDFromEmail a)"
  "PROP db_call (dir_EmailExists a)"
  "PROP db_call (dir_UsernameExists a)"
  "unseen_users part \<Longrightarrow> PROP db_call (dir_UpdatePassword now a b)"
  "PROP db_call (dir_GetEmailVerified a)"
  "unseen_users part \<Longrightarrow> PROP db_call (dir_UpdateUsername q a)"
  "PROP db_call (dir_GetUserSuggestions a)"
  unfolding dir_CreateUser_def dir_GetUser_def dir_GetUserByUsername_def dir_DeleteUser_def dir_VerifyEmail_def
    dir_GetPassword_def dir_GetEmail_def dir_GetUserIDFromEmail_def dir_EmailExists_def dir_UsernameExists_def
    dir_UpdatePassword_def dir_GetEmailVerified_def dir_UpdateUsername_def dir_GetUserSuggestions_def
    q_EmailExists_def q_GetEmail_def q_GetEmailVerified_def q_GetPassword_def q_GetUser_def q_GetUserByUsername_def
    q_GetUserIDFromEmail_def q_GetUserSuggestions_def q_UserIDExists_def q_UsernameExists_def
  by (rule leaves_intros | rule leaves_case_values | assumption)+

subsection \<open>Follows\<close>

lemma follow_stmts [leaves_intros]:
  "PROP db_call (q_FollowUser a b now)"
  "PROP db_call (q_UnfollowUser p a b)"
  by (rule leaves_stmt; (assumption | rule q_FollowUser_wf q_UnfollowUser_wf, assumption |
      simp add: q_FollowUser_def q_UnfollowUser_def,
      rule exec_stmt_part, auto simp: ok_simps part_simps unseen_simps Let_def split: if_splits))+

lemma follow_calls [leaves_intros]:
  "PROP db_call (dir_FollowUser a b now)"
  "PROP db_call (dir_UnfollowUser p a b)"
  "PROP db_call (dir_IsFollowingUser a b)"
  "PROP db_call (dir_GetFollowers a)"
  "PROP db_call (dir_GetFollowing a)"
  "PROP db_call (dir_GetFollowingCount a)"
  "PROP db_call (dir_GetFollowersCount a)"
  unfolding dir_FollowUser_def dir_UnfollowUser_def dir_IsFollowingUser_def dir_GetFollowers_def dir_GetFollowing_def
    dir_GetFollowingCount_def dir_GetFollowersCount_def q_GetFollowers_def q_GetFollowersCount_def q_GetFollowing_def
    q_GetFollowingCount_def q_IsFollowingUser_def
  by (rule leaves_intros | rule leaves_case_values | assumption)+

subsection \<open>Posts\<close>

lemma post_stmts [leaves_intros]:
  "unseen_posts part \<Longrightarrow> PROP db_call (q_CreatePost p)"
  "unseen_posts part \<Longrightarrow> PROP db_call (q_LikePost a b)"
  "unseen_posts part \<Longrightarrow> PROP db_call (q_RemoveLikeFromPost a b)"
  by (rule leaves_stmt; (assumption | rule q_CreatePost_wf q_LikePost_wf q_RemoveLikeFromPost_wf, assumption |
      simp add: q_CreatePost_def q_LikePost_def q_RemoveLikeFromPost_def,
      rule exec_stmt_part, auto simp: ok_simps part_simps unseen_simps Let_def split: if_splits))+

lemma post_calls [leaves_intros]:
  "unseen_posts part \<Longrightarrow> PROP db_call (dir_CreatePost p)"
  "PROP db_call (dir_GetPost a)"
  "PROP db_call dir_GetPosts"
  "unseen_posts part \<Longrightarrow> PROP db_call (dir_LikePost a b)"
  "unseen_posts part \<Longrightarrow> PROP db_call (dir_RemoveLikeFromPost a b)"
  "PROP db_call (dir_HasUserLikedPost a b)"
  "PROP db_call (dir_GetTrendingTodayPosts now q)"
  "PROP db_call (dir_GetTrendingTodayPostIDs now r)"
  unfolding dir_CreatePost_def dir_GetPost_def dir_GetPosts_def dir_LikePost_def dir_RemoveLikeFromPost_def
    dir_HasUserLikedPost_def dir_GetTrendingTodayPosts_def dir_GetTrendingTodayPostIDs_def q_GetPost_def
    q_GetPosts_def q_GetTrendingTodayPostIDs_def q_GetTrendingTodayPosts_def q_HasUserLikedPost_def
  by (rule leaves_intros | rule leaves_case_values | assumption)+

subsection \<open>Comments\<close>

lemma comment_stmts [leaves_intros]:
  "PROP db_call (q_CreateComment p)"
  "PROP db_call (q_LikeComment a b)"
  "PROP db_call (q_RemoveLikeFromComment a b)"
  by (rule leaves_stmt; (assumption | rule q_CreateComment_wf q_LikeComment_wf q_RemoveLikeFromComment_wf, assumption |
      simp add: q_CreateComment_def q_LikeComment_def q_RemoveLikeFromComment_def,
      rule exec_stmt_part, auto simp: ok_simps part_simps unseen_simps Let_def split: if_splits))+

lemma comment_calls [leaves_intros]:
  "PROP db_call (dir_CreateComment p)"
  "PROP db_call (dir_GetComments a b)"
  "PROP db_call (dir_LikeComment a b)"
  "PROP db_call (dir_RemoveLikeFromComment a b)"
  "PROP db_call (dir_HasUserLikedComment a b)"
  unfolding dir_CreateComment_def dir_GetComments_def dir_LikeComment_def dir_RemoveLikeFromComment_def
    dir_HasUserLikedComment_def q_GetComments_def q_HasUserLikedComment_def
  by (rule leaves_intros | rule leaves_case_values | assumption)+

subsection \<open>Notifications\<close>

lemma notification_stmts [leaves_intros]:
  "PROP db_call (q_CreateNotification p)"
  "PROP db_call (q_ReadNotification a)"
  by (rule leaves_stmt; (assumption | rule q_CreateNotification_wf q_ReadNotification_wf, assumption |
      simp add: q_CreateNotification_def q_ReadNotification_def,
      rule exec_stmt_part, auto simp: ok_simps part_simps unseen_simps Let_def split: if_splits))+

lemma notification_calls [leaves_intros]:
  "PROP db_call (dir_CreateNotification p)"
  "PROP db_call (dir_GetUnreadNotifications a)"
  "PROP db_call (dir_ReadNotification a)"
  "PROP db_call (dir_NotificationAlreadyExists a b q d)"
  "PROP db_call (dir_GetNotification a b q d)"
  "PROP db_call (dir_GetAllNotifications a)"
  unfolding dir_CreateNotification_def dir_GetUnreadNotifications_def dir_ReadNotification_def
    dir_NotificationAlreadyExists_def dir_GetNotification_def dir_GetAllNotifications_def q_GetAllNotifications_def
    q_GetNotification_def q_GetNotificationByID_def q_GetUnreadNotifications_def q_NotificationAlreadyExists_def
  by (rule leaves_intros | rule leaves_case_values | assumption)+

subsection \<open>Customers, payment methods and subscriptions\<close>

lemma customer_stmts [leaves_intros]:
  "PROP db_call (q_CreateCustomer p)"
  "PROP db_call (q_DeleteCustomer a)"
  "PROP db_call (q_SetAccountIDFromUserID q a)"
  "PROP db_call (q_UseTrial a)"
  "PROP db_call (q_StoreConnectedAccount r)"
  "PROP db_call (q_UpdateConnectedAccountCanReceivePayments s a)"
  "PROP db_call (q_StoreConnectedCustomer u)"
  "PROP db_call (q_ClearCustomerPaymentMethods a)"
  "PROP db_call (q_StoreDefaultPaymentMethod v)"
  "PROP db_call (q_StorePrice y)"
  "PROP db_call (q_StoreSubscription z)"
  "PROP db_call (q_UpdateSubscriptionStatus a b)"
  "unseen_rooms part \<Longrightarrow> PROP db_call (q_StoreRoomSubscription f)"
  by (rule leaves_stmt; (assumption | rule q_CreateCustomer_wf q_DeleteCustomer_wf q_SetAccountIDFromUserID_wf q_UseTrial_wf q_StoreConnectedAccount_wf
      q_UpdateConnectedAccountCanReceivePayments_wf q_StoreConnectedCustomer_wf q_ClearCustomerPaymentMethods_wf
      q_StoreDefaultPaymentMethod_wf q_StorePrice_wf q_StoreSubscription_wf q_UpdateSubscriptionStatus_wf
      q_StoreRoomSubscription_wf, assumption |
      simp add: q_CreateCustomer_def q_DeleteCustomer_def q_SetAccountIDFromUserID_def q_UseTrial_def
        q_StoreConnectedAccount_def q_UpdateConnectedAccountCanReceivePayments_def q_StoreConnectedCustomer_def
        q_ClearCustomerPaymentMethods_def q_StoreDefaultPaymentMethod_def q_StorePrice_def q_StoreSubscription_def
        q_UpdateSubscriptionStatus_def q_StoreRoomSubscription_def,
      rule exec_stmt_part, auto simp: ok_simps part_simps unseen_simps Let_def split: if_splits))+

lemma customer_calls [leaves_intros]:
  "PROP db_call (dir_CreateCustomer p)"
  "PROP db_call (dir_DeleteCustomer a)"
  "PROP db_call (dir_GetCustomerUserID a)"
  "PROP db_call (dir_StoreConnectedCustomer q)"
  "PROP db_call (dir_GetConnectedCustomerByUserID a b)"
  "PROP db_call (dir_GetConnectedCustomerByCustomerID a b)"
  "PROP db_call (dir_ConnectedCustomerExists a b)"
  "PROP db_call (dir_GetAllConnectCustomers a)"
  "PROP db_call (getPBPriceByCustomerID a)"
  "PROP db_call (getPBSubscriptionByUserID a)"
  "PROP db_call (getPBSubscriptionByCustomerID a)"
  "PROP db_call (getPBDefaultPMByUserID a)"
  "PROP db_call (attach_subscription r s)"
  "PROP db_call (dir_GetCustomerByUserID a)"
  "PROP db_call (dir_StoreSubscriptionWithPrice u)"
  "PROP db_call (dir_GetSubscriptionByID a)"
  "PROP db_call (dir_GetSubscriptionByUserID a)"
  "PROP db_call (dir_GetSubscriptionByCustomerID a)"
  "PROP db_call (dir_UpdateSubscriptionStatus a b)"
  "PROP db_call (dir_StoreDefaultPM v)"
  "PROP db_call (dir_ClearCustomerPaymentMethods a)"
  "PROP db_call (dir_HasCustomerUsedTrial a)"
  "PROP db_call (dir_StorePrice y)"
  "PROP db_call (dir_GetPriceByCustomerID a)"
  "PROP db_call (dir_GetConnectedAccount a)"
  "PROP db_call (dir_GetConnectedAccountByUserID a)"
  "PROP db_call (dir_StoreConnectedAccount z)"
  "PROP db_call (dir_ConnectedAccountExists a)"
  "PROP db_call (dir_UpdateConnectedAccountCanReceivePayments f a)"
  "PROP db_call (dir_GetAccountIDFromUserID a)"
  "PROP db_call (dir_SetAccountIDFromUserID g a)"
  "unseen_rooms part \<Longrightarrow> PROP db_call (dir_StoreRoomSubscription a1)"
  "PROP db_call (dir_GetRoomSubscriptionForUserID a b)"
  "PROP db_call (dir_GetRoomSubscriptionsForUserID a)"
  "PROP db_call (dir_GetUserIDsSubscribedToRoom a)"
  unfolding dir_CreateCustomer_def dir_DeleteCustomer_def dir_GetCustomerUserID_def dir_StoreConnectedCustomer_def
    dir_GetConnectedCustomerByUserID_def dir_GetConnectedCustomerByCustomerID_def dir_ConnectedCustomerExists_def
    dir_GetAllConnectCustomers_def getPBPriceByCustomerID_def getPBSubscriptionByUserID_def
    getPBSubscriptionByCustomerID_def getPBDefaultPMByUserID_def attach_subscription_def dir_GetCustomerByUserID_def
    dir_StoreSubscriptionWithPrice_def dir_GetSubscriptionByID_def dir_GetSubscriptionByUserID_def
    dir_GetSubscriptionByCustomerID_def dir_UpdateSubscriptionStatus_def dir_StoreDefaultPM_def
    dir_ClearCustomerPaymentMethods_def dir_HasCustomerUsedTrial_def dir_StorePrice_def dir_GetPriceByCustomerID_def
    dir_GetConnectedAccount_def dir_GetConnectedAccountByUserID_def dir_StoreConnectedAccount_def
    dir_ConnectedAccountExists_def dir_UpdateConnectedAccountCanReceivePayments_def dir_GetAccountIDFromUserID_def
    dir_SetAccountIDFromUserID_def dir_StoreRoomSubscription_def dir_GetRoomSubscriptionForUserID_def
    dir_GetRoomSubscriptionsForUserID_def dir_GetUserIDsSubscribedToRoom_def q_GetAccountIDFromUserID_def
    q_GetCustomerByUserID_def q_GetCustomerUserID_def q_HasCustomerUsedTrial_def q_ConnectedAccountExists_def
    q_GetConnectedAccount_def q_GetConnectedAccountByUserID_def q_ConnectedCustomerExists_def
    q_GetAllConnectCustomers_def q_GetConnectedCustomerByCustomerID_def q_GetConnectedCustomerByUserID_def
    q_GetDefaultPMByUserID_def q_GetPriceByCustomerID_def q_GetPriceByUserID_def subscription_where_def
    q_GetSubscription_def q_GetSubscriptionByCustomerID_def q_GetSubscriptionByUserID_def
    q_GetRoomSubscriptionForUserID_def q_GetRoomSubscriptionsForUserID_def q_GetUserIDsSubscribedToRoom_def
  by (rule leaves_intros | rule leaves_case_values | assumption)+

subsection \<open>Lists\<close>

lemma list_stmts [leaves_intros]:
  "PROP db_call (q_CreateList p)"
  "PROP db_call (list_update a q)"
  by (rule leaves_stmt; (assumption | rule q_CreateList_wf list_update_wf, assumption |
      simp add: q_CreateList_def list_update_def,
      rule exec_stmt_part, auto simp: ok_simps part_simps unseen_simps Let_def split: if_splits))+

lemma list_calls [leaves_intros]:
  "PROP db_call (dir_CreateList p)"
  "PROP db_call (dir_UpdateAllowedUsers q a)"
  "PROP db_call (dir_UpdateName a b)"
  "PROP db_call (dir_GetListsByOwnerID a)"
  "PROP db_call (dir_GetListByID a)"
  unfolding dir_CreateList_def dir_UpdateAllowedUsers_def dir_UpdateName_def dir_GetListsByOwnerID_def
    dir_GetListByID_def q_GetListByID_def q_GetListsByOwnerID_def q_UpdateAllowedUsers_def q_UpdateName_def
  by (rule leaves_intros | rule leaves_case_values | assumption)+

subsection \<open>Mixes\<close>

lemma mix_stmts [leaves_intros]:
  "PROP db_call (q_CreateUserMix p)"
  "PROP db_call (q_DeleteUserMixes a)"
  by (rule leaves_stmt; (assumption | rule q_CreateUserMix_wf q_DeleteUserMixes_wf, assumption |
      simp add: q_CreateUserMix_def q_DeleteUserMixes_def,
      rule exec_stmt_part, auto simp: ok_simps part_simps unseen_simps Let_def split: if_splits))+

lemma mix_calls [leaves_intros]:
  "PROP db_call (dir_CreateUserMix p)"
  "PROP db_call (dir_GetUserMixes a)"
  "PROP db_call (dir_DeleteUserMixes a)"
  unfolding dir_CreateUserMix_def dir_GetUserMixes_def dir_DeleteUserMixes_def q_GetUserMixes_def
  by (rule leaves_intros | rule leaves_case_values | assumption)+

subsection \<open>Sending notifications\<close>

lemma notify_calls1 [leaves_intros]:
  "PROP db_call (shouldSendNotification p)"
  "PROP db_call (createNotification a now p)"
  unfolding shouldSendNotification_def createNotification_def
  by (rule leaves_intros | rule leaves_case_values | assumption)+

lemma notify_calls2 [leaves_intros]:
  "PROP world_call (nm_Send p q r a now s)"
  unfolding nm_Send_def
  by (rule leaves_intros | rule leaves_case_values | assumption)+

subsection \<open>The calls on posts, comments and notifications\<close>

lemma service_posts_calls1 [leaves_intros]:
  "unseen_posts part \<Longrightarrow> PROP world_call (sv_CreatePost env ctx p)"
  "PROP world_call (liked_or_false a b)"
  "unseen_posts part \<Longrightarrow> PROP db_call (likeOrDislikePost a b q)"
  "notifier (sv_Send srv) \<Longrightarrow> PROP world_call (sv_CreateComment srv env ctx r)"
  "notifier (sv_Send srv) \<Longrightarrow> PROP world_call (sv_LikeComment srv env ctx a)"
  "PROP world_call (sv_GetAllNotifications ctx)"
  "PROP world_call (sv_ReadNotification ctx a)"
  unfolding sv_CreatePost_def liked_or_false_def likeOrDislikePost_def sv_CreateComment_def sv_LikeComment_def
    sv_GetAllNotifications_def sv_ReadNotification_def
  by (rule leaves_intros | rule leaves_case_values | assumption)+

lemma service_posts_calls2 [leaves_intros]:
  "PROP world_call (complete_post a p)"
  unfolding complete_post_def
  by (rule leaves_intros | rule leaves_case_values | assumption)+

lemma complete_posts_call [leaves_intros]:
  "kept_world part x w \<Longrightarrow> leaves (kept_world part x) (complete_posts u ps w)"
proof (induction ps arbitrary: w)
  case Nil
  then show ?case by (simp add: leaves_pair)
next
  case (Cons p ps)
  show ?case unfolding complete_posts.simps by (rule leaves_intros Cons.IH Cons.prems | assumption)+
qed

lemma service_posts_calls3 [leaves_intros]:
  "PROP world_call (fetchPost a b)"
  unfolding fetchPost_def
  by (rule leaves_intros | rule leaves_case_values | assumption)+

lemma service_posts_calls4 [leaves_intros]:
  "PROP world_call (sv_GetPosts ctx)"
  "PROP world_call (sv_GetPost ctx a)"
  "unseen_posts part \<Longrightarrow> notifier (sv_Send srv) \<Longrightarrow> PROP world_call (sv_LikePost srv env ctx a)"
  unfolding sv_GetPosts_def sv_GetPost_def sv_LikePost_def
  by (rule leaves_intros | rule leaves_case_values | assumption)+

subsection \<open>The mixes\<close>

lemma create_mixes_loop_call [leaves_intros]:
  "kept_db part x c \<Longrightarrow> leaves (kept_db part x) (create_mixes_loop env u k xs c)"
proof (induction xs arbitrary: c k)
  case Nil
  then show ?case by (simp add: leaves_pair)
next
  case (Cons x xs)
  show ?case unfolding create_mixes_loop.simps by (rule leaves_intros Cons.IH Cons.prems | assumption)+
qed

lemma service_mixes_calls2 [leaves_intros]:
  "PROP db_call (createMixes p a)"
  unfolding createMixes_def
  by (rule leaves_intros | rule leaves_case_values | assumption)+

lemma service_mixes_calls3 [leaves_intros]:
  "PROP db_call (createAndReturnGetMixesRes p a)"
  unfolding createAndReturnGetMixesRes_def
  by (rule leaves_intros | rule leaves_case_values | assumption)+

lemma service_mixes_calls4 [leaves_intros]:
  "PROP db_call (get_mixes p a)"
  unfolding get_mixes_def
  by (rule leaves_intros | rule leaves_case_values | assumption)+

lemma service_mixes_calls5 [leaves_intros]:
  "PROP world_call (sv_GetMixes p ctx)"
  unfolding sv_GetMixes_def
  by (rule leaves_intros | rule leaves_case_values | assumption)+

subsection \<open>The calls on Stripe\<close>

lemma stripe_service_calls1 [leaves_intros]:
  "PROP world_call (ss_CreateCustomer A p)"
  "PROP world_call (ss_CreateConnectedCustomer A a b)"
  "PROP world_call (ss_StoreCustomer q a b d)"
  "PROP world_call (ss_CreatePlatformSubscription A a b d)"
  "PROP world_call (ss_StoreSubscription r a)"
  "PROP world_call (ss_StorePlatformSubscription cfg r)"
  "PROP world_call (ss_UpdatePlatformSubscription A cfg now s q)"
  "PROP world_call (ss_GetPlatformInvoicePreview A cfg a b d s e)"
  "PROP world_call (ss_CreatePaymentIntent A u)"
  "PROP world_call (ss_CreateRoomSubscription A now v)"
  "unseen_rooms part \<Longrightarrow> PROP world_call (ss_StoreRoomSubscription r y a b)"
  "PROP world_call (ss_GetRoomSubscriptionForUserID A a b d z)"
  "PROP world_call (ss_CreateProduct A a b)"
  "PROP world_call (ss_SyncConnectPaymentMethods A a b d)"
  "PROP world_call (ss_ConfirmConnectPaymentIntent A a b d)"
  unfolding ss_CreateCustomer_def ss_CreateConnectedCustomer_def ss_StoreCustomer_def
    ss_CreatePlatformSubscription_def ss_StoreSubscription_def ss_StorePlatformSubscription_def
    ss_UpdatePlatformSubscription_def ss_GetPlatformInvoicePreview_def ss_CreatePaymentIntent_def
    ss_CreateRoomSubscription_def ss_StoreRoomSubscription_def ss_GetRoomSubscriptionForUserID_def
    ss_CreateProduct_def ss_SyncConnectPaymentMethods_def ss_ConfirmConnectPaymentIntent_def
  by (rule leaves_intros | rule leaves_case_values | assumption)+

lemma stripe_service_calls2 [leaves_intros]:
  "PROP world_call (ss_GetOrCreateConnectedCustomerByUserID A a b d)"
  "unseen_rooms part \<Longrightarrow> PROP world_call (ss_RetrieveAndStoreRoomSubscriptionForUserID A a b d p)"
  unfolding ss_GetOrCreateConnectedCustomerByUserID_def ss_RetrieveAndStoreRoomSubscriptionForUserID_def
  by (rule leaves_intros | rule leaves_case_values | assumption)+

subsection \<open>The calls on users and follows\<close>

lemma service_users_calls1 [leaves_intros]:
  "PROP db_call (getExtUser a b)"
  "PROP world_call (addCustomerInfo p)"
  "PROP world_call (sv_UserInfo ctx)"
  "unseen_users part \<Longrightarrow> PROP world_call (sv_UpdateUsername ctx a)"
  "PROP world_call (sv_SetUserOnline srv ctx)"
  "PROP world_call (sv_SetUserOffline srv ctx)"
  "PROP db_call (toggleFollowUser now q a b)"
  "PROP world_call (sv_GetFollowers ctx a)"
  "PROP world_call (sv_GetFollowing ctx a)"
  "PROP world_call (sv_GetFollowersCount ctx a)"
  "PROP world_call (sv_GetFollowingCount ctx a)"
  unfolding getExtUser_def addCustomerInfo_def sv_UserInfo_def sv_UpdateUsername_def sv_SetUserOnline_def
    sv_SetUserOffline_def toggleFollowUser_def sv_GetFollowers_def sv_GetFollowing_def sv_GetFollowersCount_def
    sv_GetFollowingCount_def
  by (rule leaves_intros | rule leaves_case_values | assumption)+

lemma service_users_calls2 [leaves_intros]:
  "PROP world_call (fetchExtUserInfo a b d)"
  "notifier (sv_Send srv) \<Longrightarrow> PROP world_call (sv_FollowUser srv env ctx a)"
  unfolding fetchExtUserInfo_def sv_FollowUser_def
  by (rule leaves_intros | rule leaves_case_values | assumption)+

lemma service_users_calls3 [leaves_intros]:
  "PROP world_call (sv_ExtUserInfo ctx a b)"
  unfolding sv_ExtUserInfo_def
  by (rule leaves_intros | rule leaves_case_values | assumption)+

subsection \<open>The calls on accounts\<close>

lemma service_auth_calls1 [leaves_intros]:
  "PROP world_call (start_session srv p a)"
  "PROP world_call (local_password env q)"
  "PROP world_call (new_customer env cfg a r)"
  "PROP world_call (sv_GoogleLogin srv ctx)"
  "PROP world_call (google_sign_in a)"
  "PROP world_call (check_credentials env a b)"
  "PROP world_call (sv_SignOut ctx)"
  "PROP world_call sv_Ping"
  "unseen_users part \<Longrightarrow> PROP world_call (sv_EmailVerify srv env ctx a)"
  "PROP world_call (sv_EmailCheck env a)"
  "PROP world_call (check_password_change env a b)"
  "PROP world_call (sv_SendResetLink srv env a)"
  "unseen_users part \<Longrightarrow> PROP world_call (sv_ResetPassword srv env s)"
  unfolding start_session_def local_password_def new_customer_def sv_GoogleLogin_def google_sign_in_def
    check_credentials_def sv_SignOut_def sv_Ping_def sv_EmailVerify_def sv_EmailCheck_def check_password_change_def
    sv_SendResetLink_def sv_ResetPassword_def
  by (rule leaves_intros | rule leaves_case_values | assumption)+

lemma service_auth_calls2 [leaves_intros]:
  "PROP world_call (check_new_user env p)"
  "PROP world_call (sv_createCustomer env cfg q)"
  "PROP world_call (sv_EmailSignin srv env a b)"
  "unseen_users part \<Longrightarrow> PROP world_call (sv_ChangePassword env ctx r)"
  unfolding check_new_user_def sv_createCustomer_def sv_EmailSignin_def sv_ChangePassword_def
  by (rule leaves_intros | rule leaves_case_values | assumption)+

lemma service_auth_calls3 [leaves_intros]:
  "unseen_users part \<Longrightarrow> PROP world_call (sv_createUser env p)"
  "PROP world_call (finish_signup srv env q)"
  unfolding sv_createUser_def finish_signup_def
  by (rule leaves_intros | rule leaves_case_values | assumption)+

lemma service_auth_calls4 [leaves_intros]:
  "unseen_users part \<Longrightarrow> PROP world_call (google_sign_up srv env a b d)"
  "unseen_users part \<Longrightarrow> PROP world_call (sv_EmailSignup srv env p)"
  unfolding google_sign_up_def sv_EmailSignup_def
  by (rule leaves_intros | rule leaves_case_values | assumption)+

lemma service_auth_calls5 [leaves_intros]:
  "unseen_users part \<Longrightarrow> PROP world_call (sv_googleAuthentication srv env ctx)"
  unfolding sv_googleAuthentication_def
  by (rule leaves_intros | rule leaves_case_values | assumption)+

lemma service_auth_calls6 [leaves_intros]:
  "unseen_users part \<Longrightarrow> PROP world_call (sv_GoogleCallback srv env ctx)"
  "unseen_users part \<Longrightarrow> PROP world_call (sv_GoogleOneTap srv env ctx)"
  unfolding sv_GoogleCallback_def sv_GoogleOneTap_def
  by (rule leaves_intros | rule leaves_case_values | assumption)+

subsection \<open>The calls of the chat and of lists\<close>

lemma userInList_call [leaves_intros]:
  "kept_world part x w \<Longrightarrow> leaves (kept_world part x) (userInList ls u w)"
proof (induction ls arbitrary: w)
  case Nil
  then show ?case by (simp add: leaves_pair)
next
  case (Cons l ls)
  show ?case unfolding userInList.simps by (rule leaves_intros Cons.IH Cons.prems | assumption)+
qed

lemma service_chat_calls1 [leaves_intros]:
  "PROP world_call (listen_begin GC R a b)"
  "PROP world_call (sv_GetMessages GM GC R ctx a now)"
  "PROP world_call (sv_SendMessage GM GC R env ctx p)"
  "PROP world_call (sv_SendAward GM GC R env ctx q)"
  "PROP world_call (sv_SendDonation GM GC R env ctx r)"
  "PROP world_call (sv_SendAudio GM GC R env ctx s)"
  "PROP world_call (sv_RoomAccessCheck ctx a)"
  "PROP world_call (handleSubscriptionRoom a b)"
  "PROP world_call (sv_CreateList env ctx a u)"
  "PROP world_call (update_list_name v y)"
  "PROP world_call (sv_GetUserSuggestions a)"
  "PROP world_call (sv_GetAllLists ctx)"
  "PROP world_call (sv_GetListByID a)"
  "PROP world_call (getConversationWithUser GM GC R a b)"
  "PROP world_call (sv_GetConversation GM GC R ctx a)"
  "PROP world_call (sv_GetConversations GM GC R ctx)"
  unfolding listen_begin_def sv_GetMessages_def sv_SendMessage_def sv_SendAward_def sv_SendDonation_def
    sv_SendAudio_def sv_RoomAccessCheck_def handleSubscriptionRoom_def sv_CreateList_def update_list_name_def
    sv_GetUserSuggestions_def sv_GetAllLists_def sv_GetListByID_def getConversationWithUser_def sv_GetConversation_def
    sv_GetConversations_def Let_def
  by (rule leaves_intros | rule leaves_case_values | assumption)+

lemma service_chat_calls2 [leaves_intros]:
  "PROP world_call (sv_ListenForMessages GM GC R p q r ctx a)"
  "PROP world_call (sv_UpdateList s)"
  "PROP world_call (sv_CreateConversation GM GC R env ctx a)"
  "PROP world_call (sv_GetConversationWithParticipants GM GC R ctx u)"
  unfolding sv_ListenForMessages_def sv_UpdateList_def sv_CreateConversation_def
    sv_GetConversationWithParticipants_def Let_def
  by (rule leaves_intros | rule leaves_case_values | assumption)+

subsection \<open>The calls on payments\<close>

lemma service_payment_calls1 [leaves_intros]:
  "PROP world_call (recreate_customer A a)"
  "PROP world_call (store_payment_method p a)"
  "PROP world_call (sv_UpdateSubscription A env ctx q)"
  "PROP world_call (sv_CustomerInfo ctx)"
  "PROP world_call (sv_RetryInvoice A r)"
  "PROP world_call (sv_GetSubscriptionByID A env a)"
  "PROP world_call (sv_CreateSetupIntent A)"
  "PROP world_call (sv_InvoicePreview A env s)"
  "PROP world_call (sv_CouponCheck A a)"
  "PROP world_call (sv_GetConnectAccountLink A ctx)"
  "PROP world_call (donate_to A env a now u)"
  "PROP world_call (sv_CreateStripeAccount A ctx)"
  "PROP world_call (sv_GetDashboardLink A ctx)"
  "PROP world_call (sv_GetOwnConnectedAccount ctx)"
  "PROP world_call (sv_GetRoomSubscriptions ctx)"
  "PROP world_call (sv_PayRoomEntrance ctx a)"
  "PROP world_call (sv_CheckRoomEntrancePI ctx a)"
  "PROP world_call (sv_SubscribeToRoom ctx a)"
  "PROP world_call (sv_ConfirmRoomSubscription ctx a)"
  "PROP world_call (sv_RetryRoomSubscription ctx a)"
  "PROP world_call (sv_GetRoomSubscriptionByRoomID ctx a)"
  unfolding recreate_customer_def store_payment_method_def sv_UpdateSubscription_def sv_CustomerInfo_def
    sv_RetryInvoice_def sv_GetSubscriptionByID_def sv_CreateSetupIntent_def sv_InvoicePreview_def sv_CouponCheck_def
    sv_GetConnectAccountLink_def donate_to_def sv_CreateStripeAccount_def sv_GetDashboardLink_def
    sv_GetOwnConnectedAccount_def sv_GetRoomSubscriptions_def sv_PayRoomEntrance_def sv_CheckRoomEntrancePI_def
    sv_SubscribeToRoom_def sv_ConfirmRoomSubscription_def sv_RetryRoomSubscription_def
    sv_GetRoomSubscriptionByRoomID_def
  by (rule leaves_intros | rule leaves_case_values | assumption)+

lemma service_payment_calls2 [leaves_intros]:
  "PROP world_call (customer_or_recreate A a)"
  "PROP world_call (subscribe_customer A env a p b)"
  "PROP world_call (replace_payment_method q a)"
  "PROP world_call (sv_MakeDonation A env ctx r)"
  unfolding customer_or_recreate_def subscribe_customer_def replace_payment_method_def sv_MakeDonation_def
  by (rule leaves_intros | rule leaves_case_values | assumption)+

lemma service_payment_calls3 [leaves_intros]:
  "PROP world_call (sv_SubscribeToPlan A env ctx p)"
  "PROP world_call (sv_AttachPaymentMethod A ctx q)"
  unfolding sv_SubscribeToPlan_def sv_AttachPaymentMethod_def
  by (rule leaves_intros | rule leaves_case_values | assumption)+

subsection \<open>The webhooks\<close>

lemma sync_customers_kept [leaves_intros]: "kept_world part x w \<Longrightarrow> kept_world part x (sync_customers E cus cs w)"
proof (induction E cus cs w rule: sync_customers.induct)
  case (2 E cus acct con cs w)
  have "leaves (kept_world part x) (ss_SyncConnectPaymentMethods (wh_stripe E) cus con acct w)"
    by (rule leaves_intros 2)+
  then show ?case unfolding sync_customers.simps by (intro 2 kept_snd)
qed simp

lemma webhooks_calls1 [leaves_intros]:
  "PROP world_call (handlePlatformInvoice env p)"
  "PROP world_call (updatePlatformSubscription env q r)"
  "PROP world_call (wb_HandleSubscriptionDeleted env a)"
  "PROP world_call (wb_HandlePMAttached env a)"
  "PROP world_call (wb_HandleAccountUpdate env a)"
  "PROP world_call (unmarshalInvoiceWithSubscription env a b)"
  "unseen_rooms part \<Longrightarrow> PROP world_call (storeRoomInvoice q s a b)"
  "unseen_rooms part \<Longrightarrow> PROP world_call (updateRoomSubscription q a)"
  "PROP world_call (wb_HandlePaymentIntentFailed env a)"
  "unseen_rooms part \<Longrightarrow> PROP world_call (storeRoomPaymentIntent env u a b)"
  unfolding handlePlatformInvoice_def updatePlatformSubscription_def wb_HandleSubscriptionDeleted_def
    wb_HandlePMAttached_def wb_HandleAccountUpdate_def unmarshalInvoiceWithSubscription_def storeRoomInvoice_def
    updateRoomSubscription_def wb_HandlePaymentIntentFailed_def storeRoomPaymentIntent_def
  by (rule leaves_intros | rule leaves_case_values | assumption)+

lemma webhooks_calls2 [leaves_intros]:
  "unseen_rooms part \<Longrightarrow> PROP world_call (store_invoice_of a p)"
  "unseen_rooms part \<Longrightarrow> PROP world_call (wb_HandleSubscriptionUpdate env a b)"
  "unseen_rooms part \<Longrightarrow> PROP world_call (wb_HandlePaymentIntentSucceeded env a b)"
  "PROP world_call (sv_StripeWebhook env ctx a)"
  unfolding store_invoice_of_def wb_HandleSubscriptionUpdate_def wb_HandlePaymentIntentSucceeded_def
    sv_StripeWebhook_def
  by (rule leaves_intros | rule leaves_case_values | assumption)+

lemma webhooks_calls3 [leaves_intros]:
  "unseen_rooms part \<Longrightarrow> PROP world_call (wb_HandleInvoicePaid env a b)"
  "unseen_rooms part \<Longrightarrow> PROP world_call (wb_HandleInvoicePaymentFailed env a b)"
  "unseen_rooms part \<Longrightarrow> PROP world_call (wb_HandleInvoicePaymentActionRequired env a b)"
  unfolding wb_HandleInvoicePaid_def wb_HandleInvoicePaymentFailed_def wb_HandleInvoicePaymentActionRequired_def
  by (rule leaves_intros | rule leaves_case_values | assumption)+

lemma webhooks_calls4 [leaves_intros]:
  "unseen_rooms part \<Longrightarrow> PROP world_call (connect_dispatch env p)"
  unfolding connect_dispatch_def
  by (rule leaves_intros | rule leaves_case_values | assumption)+

lemma webhooks_calls5 [leaves_intros]:
  "unseen_rooms part \<Longrightarrow> PROP world_call (sv_StripeConnectWebhook env ctx a)"
  unfolding sv_StripeConnectWebhook_def
  by (rule leaves_intros | rule leaves_case_values | assumption)+

end

end
