(* ===== verification/Service.thy ===== *)
theory Service
  imports Frames Ext_Auth
begin

text \<open>
  The service as a whole: one constructor for each call of its interface, what every call does to the
  tables and to Redis, and runs of calls. The properties here hold for every call of every kind, in
  every order, whatever the database, Redis, Stripe and the mail server answer: the handlers compose.
\<close>

section \<open>Calls\<close>

text \<open>
  The interface \<^verbatim>\<open>UnpaperServiceServer\<close>, in the groups it comes in, with the arguments of its methods
  as the handlers take them.
\<close>

datatype auth_call =
    Ping | GoogleLogin | GoogleCallback | GoogleOneTap | EmailSignup email_signup_request
    | EmailSignin string string | EmailVerify string | EmailCheck string | ChangePassword change_password_request
    | SendResetLink string | ResetPassword reset_password_request | UpdateUsername string | SignOut | SetUserOnline
    | SetUserOffline | FollowUser string | GetFollowers string | GetFollowing string | GetFollowingCount string
    | GetFollowersCount string

datatype info_call =
    UserInfo | ExtUserInfo string string | CustomerInfo

datatype stripe_call =
    StripeWebhook string | StripeConnectWebhook string | SubscribeToPlan subscribe_request
    | RetryInvoice retry_invoice_request | GetSubscriptionByID string | CreateSetupIntent
    | AttachPaymentMethod attach_request | UpdateSubscription update_subscription_request
    | InvoicePreview preview_request | CouponCheck string | GetConnectAccountLink | MakeDonation donation_request
    | PayRoomEntrance string | CreateStripeAccount | GetDashboardLink | CheckRoomEntrancePI string
    | SubscribeToRoom string | GetRoomSubscriptions | ConfirmRoomSubscription string | RetryRoomSubscription string
    | GetRoomSubscriptionByRoomID string | GetOwnConnectedAccount

datatype chat_call =
    GetMessages string int | ListenForMessages string | SendMessage send_message_request
    | SendAward send_award_request | SendDonation send_donation_request | SendAudio send_audio_request
    | CreateList string "string_map option" | UpdateList update_list_request | GetUserSuggestions string
    | GetAllLists | GetListByID string | RoomAccessCheck string | CreateConversation string
    | GetConversation string | GetConversations | GetConversationWithParticipants "string list"

datatype feed_call =
    ListenForNotifications | GetAllNotifications | ReadNotification string | GetMixes
    | CreatePost create_post_request | GetPost string | GetPosts | CreateComment create_comment_request
    | LikePost string | LikeComment string

datatype request = Auth auth_call | Info info_call | Stripe stripe_call | Chat chat_call | Feed feed_call

text \<open>
  A server as it was set up, and what one call gets from elsewhere: the ids and times it draws, the
  libraries and services it asks, what happens to the stream it listens on, and whether its headers
  can be sent.
\<close>

record 'r installation =
  in_cfg :: config
  in_redis :: "'r redis"
  in_gob :: gob_codec
  in_codec :: notification_codec
  in_messages :: "chat_message gob"
  in_conversations :: "conversation gob"
  in_chat :: "'r chat_redis"

record ('f, 'r) draws =
  dr_session_id :: string
  dr_auth :: "('f, 'r) auth_env"
  dr_req :: req_env
  dr_chat :: chat_env
  dr_mix :: mix_env
  dr_api :: "('f, 'r) payment_api"
  dr_pay :: payment_env
  dr_hook :: "('f, 'r) webhook_env"
  dr_send :: "pb_chat_message \<Rightarrow> goerror option"
  dr_events :: "listen_event list"
  dr_early :: nat
  dr_notify :: "pb_notification \<Rightarrow> goerror option"
  dr_payloads :: "string list"
  dr_header_error :: "goerror option"

definition in_server :: "'r installation \<Rightarrow> ('f, 'r) draws \<Rightarrow> 'r server" where
  "in_server I d = NewUnpaperServiceServer (in_cfg I) (in_redis I) (in_gob I) (in_codec I) (dr_session_id d)"

text \<open>
  The handler of a call, its answer reduced to whether it is an error. Decoding the request and the
  interceptors, which only write the log, are of the library: the generated \<^verbatim>\<open>_UnpaperService_X_Handler\<close>
  calls the method \<^verbatim>\<open>X\<close> of the registered server with the decoded request.
\<close>

definition answer :: "'a res \<times> 'w \<Rightarrow> unit res \<times> 'w" where
  "answer p = (map_sum id (\<lambda>_. ()) (fst p), snd p)"

primrec serve_auth ::
    "'r installation \<Rightarrow> ('f, 'r) draws \<Rightarrow> call_context \<Rightarrow> auth_call \<Rightarrow> 'r world \<Rightarrow> unit res \<times> 'r world" where
  "serve_auth I d ctx Ping w = answer (sv_Ping w)"
| "serve_auth I d ctx GoogleLogin w = answer (sv_GoogleLogin (in_server I d) ctx w)"
| "serve_auth I d ctx GoogleCallback w = answer (sv_GoogleCallback (in_server I d) (dr_auth d) ctx w)"
| "serve_auth I d ctx GoogleOneTap w = answer (sv_GoogleOneTap (in_server I d) (dr_auth d) ctx w)"
| "serve_auth I d ctx (EmailSignup req) w = answer (sv_EmailSignup (in_server I d) (dr_auth d) req w)"
| "serve_auth I d ctx (EmailSignin email password) w =
     answer (sv_EmailSignin (in_server I d) (dr_auth d) email password w)"
| "serve_auth I d ctx (EmailVerify token) w = answer (sv_EmailVerify (in_server I d) (dr_auth d) ctx token w)"
| "serve_auth I d ctx (EmailCheck email) w = answer (sv_EmailCheck (dr_auth d) email w)"
| "serve_auth I d ctx (ChangePassword req) w = answer (sv_ChangePassword (dr_auth d) ctx req w)"
| "serve_auth I d ctx (SendResetLink email) w = answer (sv_SendResetLink (in_server I d) (dr_auth d) email w)"
| "serve_auth I d ctx (ResetPassword req) w = answer (sv_ResetPassword (in_server I d) (dr_auth d) req w)"
| "serve_auth I d ctx (UpdateUsername name) w = answer (sv_UpdateUsername ctx name w)"
| "serve_auth I d ctx SignOut w = answer (sv_SignOut ctx w)"
| "serve_auth I d ctx SetUserOnline w = answer (sv_SetUserOnline (in_server I d) ctx w)"
| "serve_auth I d ctx SetUserOffline w = answer (sv_SetUserOffline (in_server I d) ctx w)"
| "serve_auth I d ctx (FollowUser u) w = answer (sv_FollowUser (in_server I d) (dr_req d) ctx u w)"
| "serve_auth I d ctx (GetFollowers u) w = answer (sv_GetFollowers ctx u w)"
| "serve_auth I d ctx (GetFollowing u) w = answer (sv_GetFollowing ctx u w)"
| "serve_auth I d ctx (GetFollowingCount u) w = answer (sv_GetFollowingCount ctx u w)"
| "serve_auth I d ctx (GetFollowersCount u) w = answer (sv_GetFollowersCount ctx u w)"

primrec serve_info ::
    "'r installation \<Rightarrow> ('f, 'r) draws \<Rightarrow> call_context \<Rightarrow> info_call \<Rightarrow> 'r world \<Rightarrow> unit res \<times> 'r world" where
  "serve_info I d ctx UserInfo w = answer (sv_UserInfo ctx w)"
| "serve_info I d ctx (ExtUserInfo u name) w = answer (sv_ExtUserInfo ctx u name w)"
| "serve_info I d ctx CustomerInfo w = answer (sv_CustomerInfo ctx w)"

primrec serve_stripe ::
    "'r installation \<Rightarrow> ('f, 'r) draws \<Rightarrow> call_context \<Rightarrow> stripe_call \<Rightarrow> 'r world \<Rightarrow> unit res \<times> 'r world" where
  "serve_stripe I d ctx (StripeWebhook raw) w = answer (sv_StripeWebhook (dr_hook d) ctx raw w)"
| "serve_stripe I d ctx (StripeConnectWebhook raw) w = answer (sv_StripeConnectWebhook (dr_hook d) ctx raw w)"
| "serve_stripe I d ctx (SubscribeToPlan req) w = answer (sv_SubscribeToPlan (dr_api d) (dr_pay d) ctx req w)"
| "serve_stripe I d ctx (RetryInvoice req) w = answer (sv_RetryInvoice (dr_api d) req w)"
| "serve_stripe I d ctx (GetSubscriptionByID i) w = answer (sv_GetSubscriptionByID (dr_api d) (dr_pay d) i w)"
| "serve_stripe I d ctx CreateSetupIntent w = answer (sv_CreateSetupIntent (dr_api d) w)"
| "serve_stripe I d ctx (AttachPaymentMethod req) w = answer (sv_AttachPaymentMethod (dr_api d) ctx req w)"
| "serve_stripe I d ctx (UpdateSubscription req) w = answer (sv_UpdateSubscription (dr_api d) (dr_pay d) ctx req w)"
| "serve_stripe I d ctx (InvoicePreview req) w = answer (sv_InvoicePreview (dr_api d) (dr_pay d) req w)"
| "serve_stripe I d ctx (CouponCheck coupon) w = answer (sv_CouponCheck (dr_api d) coupon w)"
| "serve_stripe I d ctx GetConnectAccountLink w = answer (sv_GetConnectAccountLink (dr_api d) ctx w)"
| "serve_stripe I d ctx (MakeDonation req) w = answer (sv_MakeDonation (dr_api d) (dr_pay d) ctx req w)"
| "serve_stripe I d ctx (PayRoomEntrance room) w = answer (sv_PayRoomEntrance ctx room w)"
| "serve_stripe I d ctx CreateStripeAccount w = answer (sv_CreateStripeAccount (dr_api d) ctx w)"
| "serve_stripe I d ctx GetDashboardLink w = answer (sv_GetDashboardLink (dr_api d) ctx w)"
| "serve_stripe I d ctx (CheckRoomEntrancePI i) w = answer (sv_CheckRoomEntrancePI ctx i w)"
| "serve_stripe I d ctx (SubscribeToRoom room) w = answer (sv_SubscribeToRoom ctx room w)"
| "serve_stripe I d ctx GetRoomSubscriptions w = answer (sv_GetRoomSubscriptions ctx w)"
| "serve_stripe I d ctx (ConfirmRoomSubscription room) w = answer (sv_ConfirmRoomSubscription ctx room w)"
| "serve_stripe I d ctx (RetryRoomSubscription room) w = answer (sv_RetryRoomSubscription ctx room w)"
| "serve_stripe I d ctx (GetRoomSubscriptionByRoomID room) w = answer (sv_GetRoomSubscriptionByRoomID ctx room w)"
| "serve_stripe I d ctx GetOwnConnectedAccount w = answer (sv_GetOwnConnectedAccount ctx w)"

primrec serve_chat ::
    "'r installation \<Rightarrow> ('f, 'r) draws \<Rightarrow> call_context \<Rightarrow> chat_call \<Rightarrow> 'r world \<Rightarrow> unit res \<times> 'r world" where
  "serve_chat I d ctx (GetMessages ch offset) w =
     answer (sv_GetMessages (in_messages I) (in_conversations I) (in_chat I) ctx ch offset w)"
| "serve_chat I d ctx (ListenForMessages ch) w =
     answer (sv_ListenForMessages (in_messages I) (in_conversations I) (in_chat I) (dr_send d) (dr_events d) (dr_early d) ctx ch w)"
| "serve_chat I d ctx (SendMessage req) w =
     answer (sv_SendMessage (in_messages I) (in_conversations I) (in_chat I) (dr_chat d) ctx req w)"
| "serve_chat I d ctx (SendAward req) w =
     answer (sv_SendAward (in_messages I) (in_conversations I) (in_chat I) (dr_chat d) ctx req w)"
| "serve_chat I d ctx (SendDonation req) w =
     answer (sv_SendDonation (in_messages I) (in_conversations I) (in_chat I) (dr_chat d) ctx req w)"
| "serve_chat I d ctx (SendAudio req) w =
     answer (sv_SendAudio (in_messages I) (in_conversations I) (in_chat I) (dr_chat d) ctx req w)"
| "serve_chat I d ctx (CreateList name allowed) w = answer (sv_CreateList (dr_chat d) ctx name allowed w)"
| "serve_chat I d ctx (UpdateList req) w = answer (sv_UpdateList req w)"
| "serve_chat I d ctx (GetUserSuggestions query) w = answer (sv_GetUserSuggestions query w)"
| "serve_chat I d ctx GetAllLists w = answer (sv_GetAllLists ctx w)"
| "serve_chat I d ctx (GetListByID i) w = answer (sv_GetListByID i w)"
| "serve_chat I d ctx (RoomAccessCheck room) w = answer (sv_RoomAccessCheck ctx room w)"
| "serve_chat I d ctx (CreateConversation name) w =
     answer (sv_CreateConversation (in_messages I) (in_conversations I) (in_chat I) (dr_chat d) ctx name w)"
| "serve_chat I d ctx (GetConversation i) w =
     answer (sv_GetConversation (in_messages I) (in_conversations I) (in_chat I) ctx i w)"
| "serve_chat I d ctx GetConversations w =
     answer (sv_GetConversations (in_messages I) (in_conversations I) (in_chat I) ctx w)"
| "serve_chat I d ctx (GetConversationWithParticipants us) w =
     answer (sv_GetConversationWithParticipants (in_messages I) (in_conversations I) (in_chat I) ctx us w)"

primrec serve_feed ::
    "'r installation \<Rightarrow> ('f, 'r) draws \<Rightarrow> call_context \<Rightarrow> feed_call \<Rightarrow> 'r world \<Rightarrow> unit res \<times> 'r world" where
  "serve_feed I d ctx ListenForNotifications w = (snd (sv_ListenForNotifications (in_server I d) ctx (dr_notify d) (dr_payloads d)), w)"
| "serve_feed I d ctx GetAllNotifications w = answer (sv_GetAllNotifications ctx w)"
| "serve_feed I d ctx (ReadNotification i) w = answer (sv_ReadNotification ctx i w)"
| "serve_feed I d ctx GetMixes w = answer (sv_GetMixes (dr_mix d) ctx w)"
| "serve_feed I d ctx (CreatePost req) w = answer (sv_CreatePost (dr_req d) ctx req w)"
| "serve_feed I d ctx (GetPost i) w = answer (sv_GetPost ctx i w)"
| "serve_feed I d ctx GetPosts w = answer (sv_GetPosts ctx w)"
| "serve_feed I d ctx (CreateComment req) w = answer (sv_CreateComment (in_server I d) (dr_req d) ctx req w)"
| "serve_feed I d ctx (LikePost i) w = answer (sv_LikePost (in_server I d) (dr_req d) ctx i w)"
| "serve_feed I d ctx (LikeComment i) w = answer (sv_LikeComment (in_server I d) (dr_req d) ctx i w)"

primrec serve ::
    "'r installation \<Rightarrow> ('f, 'r) draws \<Rightarrow> call_context \<Rightarrow> request \<Rightarrow> 'r world \<Rightarrow> unit res \<times> 'r world" where
  "serve I d ctx (Auth q) w = serve_auth I d ctx q w"
| "serve I d ctx (Info q) w = serve_info I d ctx q w"
| "serve I d ctx (Stripe q) w = serve_stripe I d ctx q w"
| "serve I d ctx (Chat q) w = serve_chat I d ctx q w"
| "serve I d ctx (Feed q) w = serve_feed I d ctx q w"

text \<open>The name of the method under which a call comes in, as the service is registered.\<close>

primrec auth_method :: "auth_call \<Rightarrow> string" where
  "auth_method Ping = ''Ping''"
| "auth_method GoogleLogin = ''GoogleLogin''"
| "auth_method GoogleCallback = ''GoogleCallback''"
| "auth_method GoogleOneTap = ''GoogleOneTap''"
| "auth_method (EmailSignup _) = ''EmailSignup''"
| "auth_method (EmailSignin _ _) = ''EmailSignin''"
| "auth_method (EmailVerify _) = ''EmailVerify''"
| "auth_method (EmailCheck _) = ''EmailCheck''"
| "auth_method (ChangePassword _) = ''ChangePassword''"
| "auth_method (SendResetLink _) = ''SendResetLink''"
| "auth_method (ResetPassword _) = ''ResetPassword''"
| "auth_method (UpdateUsername _) = ''UpdateUsername''"
| "auth_method SignOut = ''SignOut''"
| "auth_method SetUserOnline = ''SetUserOnline''"
| "auth_method SetUserOffline = ''SetUserOffline''"
| "auth_method (FollowUser _) = ''FollowUser''"
| "auth_method (GetFollowers _) = ''GetFollowers''"
| "auth_method (GetFollowing _) = ''GetFollowing''"
| "auth_method (GetFollowingCount _) = ''GetFollowingCount''"
| "auth_method (GetFollowersCount _) = ''GetFollowersCount''"

primrec info_method :: "info_call \<Rightarrow> string" where
  "info_method UserInfo = ''UserInfo''"
| "info_method (ExtUserInfo _ _) = ''ExtUserInfo''"
| "info_method CustomerInfo = ''CustomerInfo''"

primrec stripe_method :: "stripe_call \<Rightarrow> string" where
  "stripe_method (StripeWebhook _) = ''StripeWebhook''"
| "stripe_method (StripeConnectWebhook _) = ''StripeConnectWebhook''"
| "stripe_method (SubscribeToPlan _) = ''SubscribeToPlan''"
| "stripe_method (RetryInvoice _) = ''RetryInvoice''"
| "stripe_method (GetSubscriptionByID _) = ''GetSubscriptionByID''"
| "stripe_method CreateSetupIntent = ''CreateSetupIntent''"
| "stripe_method (AttachPaymentMethod _) = ''AttachPaymentMethod''"
| "stripe_method (UpdateSubscription _) = ''UpdateSubscription''"
| "stripe_method (InvoicePreview _) = ''InvoicePreview''"
| "stripe_method (CouponCheck _) = ''CouponCheck''"
| "stripe_method GetConnectAccountLink = ''GetConnectAccountLink''"
| "stripe_method (MakeDonation _) = ''MakeDonation''"
| "stripe_method (PayRoomEntrance _) = ''PayRoomEntrance''"
| "stripe_method CreateStripeAccount = ''CreateStripeAccount''"
| "stripe_method GetDashboardLink = ''GetDashboardLink''"
| "stripe_method (CheckRoomEntrancePI _) = ''CheckRoomEntrancePI''"
| "stripe_method (SubscribeToRoom _) = ''SubscribeToRoom''"
| "stripe_method GetRoomSubscriptions = ''GetRoomSubscriptions''"
| "stripe_method (ConfirmRoomSubscription _) = ''ConfirmRoomSubscription''"
| "stripe_method (RetryRoomSubscription _) = ''RetryRoomSubscription''"
| "stripe_method (GetRoomSubscriptionByRoomID _) = ''GetRoomSubscriptionByRoomID''"
| "stripe_method GetOwnConnectedAccount = ''GetOwnConnectedAccount''"

primrec chat_method :: "chat_call \<Rightarrow> string" where
  "chat_method (GetMessages _ _) = ''GetMessages''"
| "chat_method (ListenForMessages _) = ''ListenForMessages''"
| "chat_method (SendMessage _) = ''SendMessage''"
| "chat_method (SendAward _) = ''SendAward''"
| "chat_method (SendDonation _) = ''SendDonation''"
| "chat_method (SendAudio _) = ''SendAudio''"
| "chat_method (CreateList _ _) = ''CreateList''"
| "chat_method (UpdateList _) = ''UpdateList''"
| "chat_method (GetUserSuggestions _) = ''GetUserSuggestions''"
| "chat_method GetAllLists = ''GetAllLists''"
| "chat_method (GetListByID _) = ''GetListByID''"
| "chat_method (RoomAccessCheck _) = ''RoomAccessCheck''"
| "chat_method (CreateConversation _) = ''CreateConversation''"
| "chat_method (GetConversation _) = ''GetConversation''"
| "chat_method GetConversations = ''GetConversations''"
| "chat_method (GetConversationWithParticipants _) = ''GetConversationWithParticipants''"

primrec feed_method :: "feed_call \<Rightarrow> string" where
  "feed_method ListenForNotifications = ''ListenForNotifications''"
| "feed_method GetAllNotifications = ''GetAllNotifications''"
| "feed_method (ReadNotification _) = ''ReadNotification''"
| "feed_method GetMixes = ''GetMixes''"
| "feed_method (CreatePost _) = ''CreatePost''"
| "feed_method (GetPost _) = ''GetPost''"
| "feed_method GetPosts = ''GetPosts''"
| "feed_method (CreateComment _) = ''CreateComment''"
| "feed_method (LikePost _) = ''LikePost''"
| "feed_method (LikeComment _) = ''LikeComment''"

primrec method_name :: "request \<Rightarrow> string" where
  "method_name (Auth q) = auth_method q"
| "method_name (Info q) = info_method q"
| "method_name (Stripe q) = stripe_method q"
| "method_name (Chat q) = chat_method q"
| "method_name (Feed q) = feed_method q"

definition full_method :: "request \<Rightarrow> string" where
  "full_method q = ''/v1.UnpaperService/'' @ method_name q"

section \<open>Runs\<close>

text \<open>A call answers with headers of its own.\<close>

type_synonym ('f, 'r) call = "('f, 'r) draws \<times> call_context \<times> request"

definition handle :: "'r installation \<Rightarrow> ('f, 'r) call \<Rightarrow> 'r world \<Rightarrow> unit res \<times> 'r world" where
  "handle I a w = (case a of (d, ctx, q) \<Rightarrow>
     serve I d ctx q (w\<lparr>wd_headers := [], wd_header_error := dr_header_error d\<rparr>))"

fun run_service :: "'r installation \<Rightarrow> ('f, 'r) call list \<Rightarrow> 'r world \<Rightarrow> 'r world" where
  "run_service I [] w = w"
| "run_service I (a # as) w = run_service I as (snd (handle I a w))"

section \<open>What a call leaves alone\<close>

text \<open>The calls that may write one of the three tables.\<close>

inductive writes_users :: "request \<Rightarrow> bool" where
  "writes_users (Auth GoogleCallback)" | "writes_users (Auth GoogleOneTap)" | "writes_users (Auth (EmailSignup req))"
| "writes_users (Auth (EmailVerify token))" | "writes_users (Auth (ChangePassword cpw))"
| "writes_users (Auth (ResetPassword rpw))" | "writes_users (Auth (UpdateUsername name))"

inductive writes_posts :: "request \<Rightarrow> bool" where
  "writes_posts (Feed (CreatePost req))" | "writes_posts (Feed (LikePost i))"

inductive writes_rooms :: "request \<Rightarrow> bool" where
  "writes_rooms (Stripe (StripeConnectWebhook raw))"

inductive_cases writes_roomsE: "writes_rooms q"

lemmas writes_intros = writes_users.intros writes_posts.intros writes_rooms.intros

lemma leaves_answer [leaves_intros]: "leaves P p \<Longrightarrow> leaves P (answer p)"
  by (simp add: leaves_def answer_def)

lemma in_server_notifier: "notifier (sv_Send (in_server I d))"
  unfolding in_server_def by (rule NewUnpaperServiceServer_notifier)

context table_part
begin

lemma auth_leaves:
  assumes "writes_users (Auth q) \<Longrightarrow> unseen_users part" and "kept_world part x w"
  shows "leaves (kept_world part x) (serve_auth I d ctx q w)"
proof (cases q)
qed (simp only: serve_auth.simps, (rule leaves_intros in_server_notifier assms | simp only: writes_intros)+)+

lemma info_leaves:
  assumes "kept_world part x w"
  shows "leaves (kept_world part x) (serve_info I d ctx q w)"
proof (cases q)
qed (simp only: serve_info.simps, (rule leaves_intros assms)+)+

lemma stripe_leaves:
  assumes "writes_rooms (Stripe q) \<Longrightarrow> unseen_rooms part" and "kept_world part x w"
  shows "leaves (kept_world part x) (serve_stripe I d ctx q w)"
proof (cases q)
qed (simp only: serve_stripe.simps, (rule leaves_intros assms | simp only: writes_intros)+)+

lemma chat_leaves:
  assumes "kept_world part x w"
  shows "leaves (kept_world part x) (serve_chat I d ctx q w)"
proof (cases q)
qed (simp only: serve_chat.simps, (rule leaves_intros assms)+)+

lemma feed_leaves:
  assumes "writes_posts (Feed q) \<Longrightarrow> unseen_posts part" and "kept_world part x w"
  shows "leaves (kept_world part x) (serve_feed I d ctx q w)"
proof (cases q)
qed (simp only: serve_feed.simps, (rule leaves_intros in_server_notifier assms | simp only: writes_intros)+)+

lemma handle_leaves:
  assumes "writes_users q \<Longrightarrow> unseen_users part" and "writes_posts q \<Longrightarrow> unseen_posts part"
    and "writes_rooms q \<Longrightarrow> unseen_rooms part" and "kept_world part x w"
  shows "leaves (kept_world part x) (handle I (d, ctx, q) w)"
proof -
  have "kept_world part x (w\<lparr>wd_headers := [], wd_header_error := dr_header_error d\<rparr>)"
    using assms(4) by (simp add: kept_world_def)
  then show ?thesis
    using assms(1-3) unfolding handle_def
    by (cases q) (simp_all only: serve.simps prod.case auth_leaves info_leaves stripe_leaves chat_leaves feed_leaves)
qed

end

text \<open>All tables at once, and each of the three tables alone.\<close>

interpretation any_table: table_part "\<lambda>_. ()"
  by unfold_locales simp_all

interpretation users_table: table_part users
  by unfold_locales simp_all

interpretation rooms_table: table_part room_subscriptions
  by unfold_locales simp_all

lemma handle_wf: "tables_wf (wd_tables w) \<Longrightarrow> tables_wf (wd_tables (snd (handle I a w)))"
  using any_table.handle_leaves [of "snd (snd a)" "()" w I "fst a" "fst (snd a)"]
  by (simp add: leaves_def kept_world_def kept_db_def kept_def any_table.unseen_simps)

lemma handle_users:
  "tables_wf (wd_tables w) \<Longrightarrow> \<not> writes_users q \<Longrightarrow> users (wd_tables (snd (handle I (d, ctx, q) w))) = users (wd_tables w)"
  using users_table.handle_leaves [of q "users (wd_tables w)" w I d ctx]
  by (simp add: leaves_def kept_world_def kept_db_def kept_def any_table.unseen_simps)

lemma handle_rooms:
  "tables_wf (wd_tables w) \<Longrightarrow> \<not> writes_rooms q \<Longrightarrow>
     room_subscriptions (wd_tables (snd (handle I (d, ctx, q) w))) = room_subscriptions (wd_tables w)"
  using rooms_table.handle_leaves [of q "room_subscriptions (wd_tables w)" w I d ctx]
  by (simp add: leaves_def kept_world_def kept_db_def kept_def any_table.unseen_simps)

section \<open>The example service\<close>

text \<open>A Redis that keeps sessions but no chat, and a Stripe that grants what the webhooks ask for.\<close>

definition refused :: "'a res" where
  "refused = Inl (ErrNew ''refused'')"

definition no_chat :: "'r chat_redis" where
  "no_chat = \<lparr>cr_ZAdd = (\<lambda>k sc m s. (refused, s)), cr_ZRangeByScore = (\<lambda>k lo off n s. (refused, s)),
     cr_ZRevRange0 = (\<lambda>k s. (refused, s)), cr_HSet = (\<lambda>k f x s. (refused, s)), cr_HGet = (\<lambda>k f s. (refused, s)),
     cr_HGetAll = (\<lambda>k s. (refused, s)), cr_Get = (\<lambda>k s. (refused, s)), cr_Set = (\<lambda>k x s. (refused, s)),
     cr_GetDel = (\<lambda>k s. (refused, s)), cr_Publish = (\<lambda>ch m s. (refused, s))\<rparr>"

definition sample_api :: "(unit, 'r) payment_api" where
  "sample_api = \<lparr>py_stripe = sample_stripe, py_AttachPaymentMethod = (\<lambda>pm cus s. (refused, s)),
     py_UpdateCustomer = (\<lambda>i p s. (refused, s)), py_GetCustomer = (\<lambda>i s. (refused, s)), py_GetInvoice = (\<lambda>i s. (refused, s)),
     py_NewSetupIntent = (\<lambda>types s. (refused, s)), py_GetCoupon = (\<lambda>i s. (refused, s)), py_NewAccount = (\<lambda>p s. (refused, s)),
     py_NewAccountLink = (\<lambda>p s. (refused, s)), py_NewLoginLink = (\<lambda>a s. (refused, s)),
     py_ListSubscriptions = (\<lambda>cus acct s. ([], s)), py_ParseFloat = (\<lambda>v. Inr ())\<rparr>"

definition sample_hook :: "(unit, 'r) webhook_env" where
  "sample_hook = \<lparr>wh_payment = sample_api, wh_cfg = sample_cfg, wh_now = 0, wh_uuid = ''id1'',
     wh_ConstructEvent = (\<lambda>raw sig secret. if sig = ''sig1'' \<and> secret = endpointSecret
       then Inr \<lparr>wev_Type = ''payment_intent.succeeded'', wev_Account = ''a1'', wev_Raw = raw\<rparr> else refused),
     wh_GetPaymentIntent = (\<lambda>i acct s. (Inr sample_intent, s)), wh_Account = (\<lambda>d. refused), wh_Invoice = (\<lambda>d. refused),
     wh_Subscription = (\<lambda>d. refused), wh_PaymentMethod = (\<lambda>d. refused),
     wh_PaymentIntent = (\<lambda>d. Inr (Some sample_room_intent)), wh_SendMail = (\<lambda>m s. (Inr (), s))\<rparr>"

definition sample_draws :: "(unit, mem_redis) draws" where
  "sample_draws = \<lparr>dr_session_id = ''sid1'', dr_auth = sample_auth, dr_req = sample_env,
     dr_chat = \<lparr>ce_now = 0, ce_uuid = ''m1'', ce_clock = int\<rparr>, dr_mix = sample_mix_env, dr_api = sample_api,
     dr_pay = \<lparr>pe_cfg = sample_cfg, pe_now = 0\<rparr>, dr_hook = sample_hook, dr_send = (\<lambda>m. None), dr_events = [], dr_early = 0,
     dr_notify = (\<lambda>n. None), dr_payloads = [], dr_header_error = None\<rparr>"

definition sample_installation :: "mem_redis installation" where
  "sample_installation = \<lparr>in_cfg = sample_cfg\<lparr>cfg_UnpaperClientSecret := ''key'', cfg_EnableStripe := False\<rparr>,
     in_redis = mem_redis_cmds, in_gob = sample_gob, in_codec = sample_codec, in_messages = sample_GM,
     in_conversations = sample_GC, in_chat = no_chat\<rparr>"

definition sample_run :: "tables \<Rightarrow> (call_context \<times> request) list \<Rightarrow> tables" where
  "sample_run t cs = wd_tables (run_service sample_installation (map (Pair sample_draws) cs) (world_of t mem_empty))"

text \<open>To evaluate a run, its calls are unfolded to their handlers first.\<close>

lemmas run_eqs = sample_run_def run_service.simps handle_def prod.case list.map serve.simps serve_auth.simps
  serve_stripe.simps serve_feed.simps

end
