(* ===== verification/Service_Feed.thy ===== *)
theory Service_Feed
  imports Service
begin

text \<open>
  The tables under runs of the whole service: the constraints of the schema hold throughout, and every
  post stays readable, with a number of likes that is the number of users who like it.
\<close>

section \<open>Sound posts\<close>

definition posts_sound :: "tables \<Rightarrow> bool" where
  "posts_sound t \<longleftrightarrow> posts_balanced t \<and> (\<forall>p \<in> set (posts t). post_readable p)"

text \<open>The durations of a call are 32-bit integers.\<close>

definition call_typed :: "request \<Rightarrow> bool" where
  "call_typed q \<longleftrightarrow> (case q of
     Feed a \<Rightarrow> (case a of CreatePost req \<Rightarrow> int32_range (cpr_AudioDurationMs req) | _ \<Rightarrow> True)
   | _ \<Rightarrow> True)"

interpretation posts_table: table_part posts
  by unfold_locales simp_all

lemma handle_posts:
  "tables_wf (wd_tables w) \<Longrightarrow> \<not> writes_posts q \<Longrightarrow> posts (wd_tables (snd (handle I (d, ctx, q) w))) = posts (wd_tables w)"
  using posts_table.handle_leaves [of q "posts (wd_tables w)" w I d ctx]
  by (simp add: leaves_def kept_world_def kept_db_def kept_def any_table.unseen_simps)

lemma posts_sound_cong: "posts t' = posts t \<Longrightarrow> posts_sound t' = posts_sound t"
  by (simp add: posts_sound_def posts_balanced_def)

lemma CreatePost_sound:
  assumes "posts_sound (wd_tables w)" and "int32_range (cpr_AudioDurationMs req)"
  shows "posts_sound (wd_tables (snd (sv_CreatePost env ctx req w)))"
proof -
  let ?P = "\<lambda>x. posts_sound (wd_tables x)"
  have new: "?P (snd (on_db (dir_CreatePost arg) x))" if "?P x" "\<exists>a. AudioRawJSONToPB (cpp_audio arg) = Inr a" for arg x
  proof -
    have row: "post_readable (created_post arg)" "post_likes.balanced (created_post arg)"
      using that(2) by (auto simp: post_readable_def post_likes.balanced_def created_post_def)
    show ?thesis
      unfolding on_db_proj dir_CreatePost_def q_CreatePost_def
      by (rule check_err_inv [where P = "\<lambda>c. posts_sound (dbt c)"], rule exec_stmt_inv [where P = posts_sound])
         (use that(1) row in \<open>auto simp: ok_simps posts_sound_def posts_balanced_def dest!: tbl_insert_Inr\<close>)
  qed
  show ?thesis
    unfolding sv_CreatePost_def
  proof (rule with_user_inv [where P = ?P])
    fix u
    let ?a = "\<lparr>au_id = rq_uuid env 0, au_bytes = cpr_AudioBytes req, au_format = cpr_AudioFormat req, au_duration_ms = cpr_AudioDurationMs req\<rparr>"
    show "?P (snd (case NewAudioRawJSON (Some ?a) of
        Inl e \<Rightarrow> (Inl (Status Internal ''could not convert request audio to raw json: %v'' [e]), w)
      | Inr raw \<Rightarrow>
         check_err (on_db (dir_CreatePost \<lparr>cpp_id = rq_uuid env 1, cpp_author = u,
             cpp_message = cpr_Message req, cpp_audio = raw, cpp_created_at = Val (rq_now env)\<rparr>) w)
           (\<lambda>e. Status Internal ''error inserting post on db: %v'' [e]) (\<lambda>p w. (Inr p, w))))"
    proof (cases "NewAudioRawJSON (Some ?a)")
      case (Inr raw)
      then have "AudioRawJSONToPB raw = Inr ?a" using assms(2) by (intro audio_decode_encode) simp_all
      then show ?thesis
        unfolding Inr sum.case by (intro check_err_inv [where P = ?P] new assms(1)) auto
    qed (simp add: assms(1))
  qed (rule assms(1))
qed

text \<open>A like is stored or taken back by what the table held, also for ids longer than the column.\<close>

lemma HasUserLikedPost_Inr:
  assumes "dir_HasUserLikedPost i u c = (Inr b, c')"
  shows "dbt c' = dbt c" and "b \<longleftrightarrow> (\<exists>p \<in> set (posts (dbt c)). p_id p = i \<and> cast100 u \<in> set (map cast100 (p_user_ids_who_likes p)))"
  using assms by (auto simp: dir_HasUserLikedPost_def q_HasUserLikedPost_def ok_simps list_ex_iff dest!: exec_query_Inr)

lemma likeOrDislikePost_cast: "likeOrDislikePost i u b = likeOrDislikePost i (cast100 u) b"
  by (simp add: fun_eq_iff likeOrDislikePost_def dir_LikePost_def dir_RemoveLikeFromPost_def q_LikePost_def
      q_RemoveLikeFromPost_def cast100_def)

lemma post_id_unique:
  assumes "tables_wf t" and "q \<in> set (posts t)" and "p \<in> set (posts t)" and "p_id q = p_id p"
  shows "q = p"
  using posts_ids_distinct [OF assms(1)] assms(2-4) by (auto simp: distinct_map dest: inj_onD)

lemma likeOrDislike_sound:
  assumes "tables_wf (dbt c)" and "posts_sound (dbt c)"
    and b: "b \<longleftrightarrow> (\<exists>p \<in> set (posts (dbt c)). p_id p = i \<and> cast100 u \<in> set (map cast100 (p_user_ids_who_likes p)))"
  shows "posts_sound (dbt (snd (likeOrDislikePost i u b c)))"
proof -
  let ?u = "cast100 u"
  have short: "cast100 ?u = ?u" by (simp add: cast100_def)
  have toggle: "(if b then unlike_post ?u p else like_post ?u p) = post_likes.toggle ?u p"
    if "p \<in> set (posts (dbt c))" "p_id p = i" for p
  proof -
    have "q = p" if "q \<in> set (posts (dbt c))" "p_id q = i" for q
      by (rule post_id_unique [OF assms(1) that(1) \<open>p \<in> _\<close>]) (simp add: that(2) \<open>p_id p = i\<close>)
    then have "b \<longleftrightarrow> ?u \<in> set (map cast100 (p_user_ids_who_likes p))"
      using that unfolding b by blast
    then show ?thesis using post_likers_short [OF assms(1) that(1)] by (simp add: post_likes.toggle_def)
  qed
  have sound: "post_likes.balanced (post_likes.toggle ?u p) \<and> post_readable (post_likes.toggle ?u p)"
    if "p \<in> set (posts (dbt c))" for p
    using that assms(2) post_likes.balanced_toggle
    by (simp add: posts_sound_def posts_balanced_def post_readable_def post_likes.toggle_def like_post_def unlike_post_def)
  from likeOrDislikePost_tables [OF short, of i b c] show ?thesis
  proof
    assume "dbt (snd (likeOrDislikePost i ?u b c)) = dbt c"
    then show ?thesis using assms(2) by (simp only: likeOrDislikePost_cast [of i u])
  next
    assume t: "dbt (snd (likeOrDislikePost i ?u b c)) = (dbt c)\<lparr>posts := map (\<lambda>q. if p_id q = i
      then (if b then unlike_post ?u q else like_post ?u q) else q) (posts (dbt c))\<rparr>"
    show ?thesis
      unfolding likeOrDislikePost_cast [of i u] t
      using assms(2) sound toggle by (auto simp: posts_sound_def posts_balanced_def)
  qed
qed

lemma LikePost_sound:
  assumes "tables_wf (wd_tables w)" and "posts_sound (wd_tables w)" and "notifier (sv_Send srv)"
  shows "posts_sound (wd_tables (snd (sv_LikePost srv env ctx i w)))"
proof -
  let ?P = "\<lambda>x. posts_sound (wd_tables x)"
  let ?after = "\<lambda>u w. case fetchPost i u w of
       (Inl e, w) \<Rightarrow> (Inl (Panic ''nil pointer dereference''), w)
     | (Inr post, w) \<Rightarrow>
         (case sv_Send srv (rq_notification_id env) (rq_now env) \<lparr>
              snp_ResendCondition = Some (ResendConditionAfter (rq_now env) five_minutes),
              snp_SenderUserID = u, snp_ReceiverUserID = pst_author post,
              snp_TriggerID = pst_id post, snp_EventID = EventIDLikePost,
              snp_Content = pst_message post\<rparr> w of
            (_, w) \<Rightarrow> (Inr post, w))"
  have after: "?P (snd (?after u x))" if "tables_wf (wd_tables x)" "?P x" for u x
  proof -
    have now: "kept_world posts (posts (wd_tables x)) x" using that(1) by (simp add: kept_world_def kept_db_def kept_def)
    have "leaves (kept_world posts (posts (wd_tables x))) (?after u x)"
      by (rule leaves_intros assms(3) now | assumption)+
    then have "posts (wd_tables (snd (?after u x))) = posts (wd_tables x)"
      by (simp only: leaves_def kept_world_def kept_db_def kept_def)
    then show ?thesis using that(2) posts_sound_cong by blast
  qed
  have look: "dbt (snd (dir_HasUserLikedPost i u c)) = dbt c" for u c
    unfolding dir_HasUserLikedPost_def q_HasUserLikedPost_def
    by (rule check_err_inv [where P = "\<lambda>d. dbt d = dbt c"]) simp_all
  show ?thesis
    unfolding sv_LikePost_def
  proof (intro with_user_inv [where P = ?P] assms(2))
    fix u
    obtain r x where x: "on_db (dir_HasUserLikedPost i u) w = (r, x)" by fastforce
    then have same: "wd_tables x = wd_tables w" by (metis look on_db_proj(1) snd_conv)
    show "?P (snd (check_err (on_db (dir_HasUserLikedPost i u) w)
       (\<lambda>e. Status Internal (''could not retrieve '' @ quoted ''user has already liked post'' @ '': %v'') [e]) (\<lambda>liked w.
     check_err (on_db (likeOrDislikePost i u liked) w)
       (\<lambda>e. Status Internal ''could not toggle like post: %v'' [e]) (\<lambda>_ w. ?after u w))))"
    proof (cases r)
      case (Inl e)
      with x same assms(2) show ?thesis by simp
    next
      case (Inr b)
      with x obtain c where c: "dir_HasUserLikedPost i u (wd_db w) = (Inr b, c)" "x = w\<lparr>wd_db := c\<rparr>"
        by (auto simp: on_db_Inr)
      let ?y = "snd (on_db (likeOrDislikePost i u b) x)"
      have "tables_wf (wd_tables x)" "?P x" using assms(1,2) same by simp_all
      then have "tables_wf (wd_tables ?y)" "?P ?y"
        using likeOrDislike_sound [of "wd_db x" b i u] HasUserLikedPost_Inr [OF c(1)] same
        by (simp_all only: on_db_proj likeOrDislikePost_wf)
      then have "?P (snd (check_err (on_db (likeOrDislikePost i u b) x)
         (\<lambda>e. Status Internal ''could not toggle like post: %v'' [e]) (\<lambda>_ w. ?after u w)))"
        by (cases "on_db (likeOrDislikePost i u b) x"; cases "fst (on_db (likeOrDislikePost i u b) x)") (simp_all add: after)
      then show ?thesis by (simp only: x Inr check_err_simps)
    qed
  qed
qed

lemma handle_sound:
  assumes "tables_wf (wd_tables w)" and "posts_sound (wd_tables w)" and "call_typed q"
  shows "posts_sound (wd_tables (snd (handle I (d, ctx, q) w)))"
proof (cases "writes_posts q")
  case False
  with assms(1,2) show ?thesis using handle_posts posts_sound_cong by blast
next
  case True
  then show ?thesis
  proof cases
    case (1 req)
    with assms(2,3) show ?thesis
      using CreatePost_sound [of "w\<lparr>wd_headers := [], wd_header_error := dr_header_error d\<rparr>" req]
      by (simp add: handle_def answer_def call_typed_def)
  next
    case (2 i)
    with assms(1,2) show ?thesis
      using LikePost_sound [of "w\<lparr>wd_headers := [], wd_header_error := dr_header_error d\<rparr>", OF _ _ in_server_notifier]
      by (simp add: handle_def answer_def)
  qed
qed

section \<open>Properties\<close>

text \<open>
  C5: the tables stay well-typed: over any run of calls of any kind, whatever the database, Redis,
  Stripe and the mail server answer, every row keeps the widths, keys and references of the schema, and
  every post can be read back, its clip included, and counts as many likes as users who like it.
\<close>

theorem tables_stay_typed:
  assumes "tables_wf (wd_tables w)" and "posts_sound (wd_tables w)"
    and "\<forall>a \<in> set as. call_typed (snd (snd a))"
  shows "tables_wf (wd_tables (run_service I as w)) \<and> posts_sound (wd_tables (run_service I as w))"
  using assms
proof (induction as arbitrary: w)
  case (Cons a as)
  obtain d ctx q where a: "a = (d, ctx, q)" by (cases a)
  have "tables_wf (wd_tables (snd (handle I a w)))" using Cons.prems(1) by (rule handle_wf)
  moreover have "posts_sound (wd_tables (snd (handle I a w)))"
    using handle_sound [OF Cons.prems(1,2), of q I d ctx] Cons.prems(3) by (simp add: a)
  ultimately show ?case using Cons.IH Cons.prems(3) by simp
qed simp

definition sample_post_calls :: "(call_context \<times> request) list" where
  "sample_post_calls = [(user_ctx ''2'', Feed (CreatePost \<lparr>cpr_Message = ''hi'', cpr_AudioBytes = [1], cpr_AudioFormat = ''mp3'',
     cpr_AudioDurationMs = 10\<rparr>)), (user_ctx ''3'', Feed (LikePost ''a1''))]"

lemma tables_stay_typed_witness:
  "posts_sound (sample_run sample_tables sample_post_calls) \<and>
    map p_user_ids_who_likes (posts (sample_run sample_tables sample_post_calls)) = [[''3'']]"
proof -
  have "map p_user_ids_who_likes (posts (sample_run sample_tables sample_post_calls)) = [[''3'']]"
    unfolding sample_post_calls_def by (simp only: run_eqs) code_simp
  moreover have "tables_wf (wd_tables (world_of sample_tables mem_empty))" using sample_tables_wf by simp
  moreover have "posts_sound (wd_tables (world_of sample_tables mem_empty))"
    by (simp add: posts_sound_def posts_balanced_def sample_tables_def no_rows_def)
  moreover have "\<forall>a \<in> set (map (Pair sample_draws) sample_post_calls). call_typed (snd (snd a))"
    by (simp add: sample_post_calls_def call_typed_def int32_range_def)
  ultimately show ?thesis
    using tables_stay_typed [of "world_of sample_tables mem_empty" "map (Pair sample_draws) sample_post_calls" sample_installation]
    unfolding sample_run_def by blast
qed

end
