(* ===== verification/Service_Accounts.thy ===== *)
theory Service_Accounts
  imports Service
begin

text \<open>
  The users under runs of the whole service: what of an account may change, and which call changed it.
\<close>

section \<open>What a call may write of a user\<close>

datatype user_column = PasswordColumn | VerifiedColumn | UsernameColumn

definition differs :: "user_column \<Rightarrow> user_row \<Rightarrow> user_row \<Rightarrow> bool" where
  "differs col u v \<longleftrightarrow> (case col of
     PasswordColumn \<Rightarrow> u_password u \<noteq> u_password v
   | VerifiedColumn \<Rightarrow> u_email_verified u \<noteq> u_email_verified v
   | UsernameColumn \<Rightarrow> u_username u \<noteq> u_username v)"

text \<open>
  The grounds on which a call writes a column of the user \<open>i\<close>: the old password of a verified user, a
  token accepted for the user, or the user's own name.
\<close>

definition reset_token :: "'r installation \<Rightarrow> ('f, 'r) draws \<Rightarrow> string \<Rightarrow> string \<Rightarrow> bool" where
  "reset_token I d tok i \<longleftrightarrow>
     (let p = jw_Parse (ae_jwt (dr_auth d)) (ae_now (dr_auth d)) (\<lambda>_. Inr (cfg_UnpaperClientSecret (in_cfg I))) tok no_claims in
      ptk_Error p = None \<and> ptk_Valid p \<and> clm_Subject (ptk_Claims p) = i)"

definition address_token :: "'r installation \<Rightarrow> ('f, 'r) draws \<Rightarrow> string \<Rightarrow> string \<Rightarrow> bool" where
  "address_token I d tok i \<longleftrightarrow>
     (let p = jw_Parse (ae_jwt (dr_auth d)) (ae_now (dr_auth d)) (hmac_key (cfg_UnpaperClientSecret (in_cfg I))) tok no_claims in
      ptk_Error p = None \<and> clm_Subject (ptk_Claims p) = i)"

definition granted ::
    "'r installation \<Rightarrow> ('f, 'r) draws \<Rightarrow> call_context \<Rightarrow> request \<Rightarrow> tables \<Rightarrow> user_column \<Rightarrow> string \<Rightarrow> bool" where
  "granted I d ctx q t col i \<longleftrightarrow> (case q of
     Auth a \<Rightarrow> (case a of
       ChangePassword req \<Rightarrow> col = PasswordColumn \<and> md_GetUserIDFromMD ctx = Some i \<and>
         may_change_password (dr_auth d) i (cpw_OldPassword req) t
     | ResetPassword req \<Rightarrow> col = PasswordColumn \<and> reset_token I d (rpw_VerificationToken req) i
     | EmailVerify tok \<Rightarrow> col = VerifiedColumn \<and> md_GetUserIDFromMD ctx = Some i \<and> address_token I d tok i
     | UpdateUsername name \<Rightarrow> col = UsernameColumn \<and> md_GetUserIDFromMD ctx = Some i
     | _ \<Rightarrow> False)
   | _ \<Rightarrow> False)"

section \<open>How the users move\<close>

abbreviation email_keys :: "tables \<Rightarrow> string list" where
  "email_keys t \<equiv> map (\<lambda>u. to_lower (u_email u)) (users t)"

definition users_moved :: "(user_column \<Rightarrow> string \<Rightarrow> bool) \<Rightarrow> tables \<Rightarrow> tables \<Rightarrow> bool" where
  "users_moved ok t t' \<longleftrightarrow> (distinct (email_keys t) \<longrightarrow> distinct (email_keys t')) \<and>
     (\<exists>f new. users t' = map f (users t) @ new \<and>
        (\<forall>u \<in> set (users t). u_id (f u) = u_id u \<and> u_email (f u) = u_email u \<and>
           (\<forall>col. differs col (f u) u \<longrightarrow> ok col (u_id u))))"

lemma differs_refl [simp]: "\<not> differs col u u"
  by (simp add: differs_def split: user_column.split)

lemma differs_trans: "differs col u w \<Longrightarrow> differs col u v \<or> differs col v w"
  by (auto simp: differs_def split: user_column.splits)

lemma users_moved_same: "users t' = users t \<Longrightarrow> users_moved ok t t'"
  unfolding users_moved_def by (intro conjI exI [of _ id] exI [of _ "[]"]) simp_all

lemma users_moved_mono: "users_moved ok t t' \<Longrightarrow> (\<And>col i. ok col i \<Longrightarrow> ok' col i) \<Longrightarrow> users_moved ok' t t'"
  unfolding users_moved_def by blast

lemma users_moved_trans:
  assumes "users_moved ok t1 t2" and "users_moved ok t2 t3"
  shows "users_moved ok t1 t3"
proof -
  from assms(1) obtain f xs where f: "users t2 = map f (users t1) @ xs"
    "\<And>u. u \<in> set (users t1) \<Longrightarrow> u_id (f u) = u_id u \<and> u_email (f u) = u_email u \<and> (\<forall>col. differs col (f u) u \<longrightarrow> ok col (u_id u))"
    unfolding users_moved_def by blast
  from assms(2) obtain g ys where g: "users t3 = map g (users t2) @ ys"
    "\<And>u. u \<in> set (users t2) \<Longrightarrow> u_id (g u) = u_id u \<and> u_email (g u) = u_email u \<and> (\<forall>col. differs col (g u) u \<longrightarrow> ok col (u_id u))"
    unfolding users_moved_def by blast
  have "u_id (g (f u)) = u_id u \<and> u_email (g (f u)) = u_email u \<and> (\<forall>col. differs col (g (f u)) u \<longrightarrow> ok col (u_id u))"
    if "u \<in> set (users t1)" for u
    using f(2) [OF that] g(2) [of "f u"] that differs_trans [of _ "g (f u)" u "f u"] by (simp add: f(1)) metis
  moreover have "users t3 = map (g \<circ> f) (users t1) @ (map g xs @ ys)" by (simp add: f(1) g(1))
  ultimately show ?thesis
    using assms unfolding users_moved_def by (intro conjI exI [of _ "g \<circ> f"] exI [of _ "map g xs @ ys"]) auto
qed

text \<open>An update of one user's row, and a new row under a new address.\<close>

lemma users_moved_update:
  assumes "\<And>u. u_id (g u) = u_id u" and "\<And>u. u_email (g u) = u_email u" and "\<And>u col. differs col (g u) u \<Longrightarrow> ok col i"
    and "users t' = map (\<lambda>u. if u_id u = i then g u else u) (users t)"
  shows "users_moved ok t t'"
proof -
  have "email_keys t' = email_keys t" using assms(2,4) by simp
  moreover have "\<exists>f new. users t' = map f (users t) @ new \<and> (\<forall>u \<in> set (users t). u_id (f u) = u_id u \<and>
      u_email (f u) = u_email u \<and> (\<forall>col. differs col (f u) u \<longrightarrow> ok col (u_id u)))"
    using assms by (intro exI [of _ "\<lambda>u. if u_id u = i then g u else u"] exI [of _ "[]"]) auto
  ultimately show ?thesis unfolding users_moved_def by simp
qed

lemma users_moved_sign_up:
  assumes "may_sign_up env p h t" and "users t' = users t @ [account_row p h]"
  shows "users_moved ok t t'"
  using assms unfolding users_moved_def
  by (intro conjI exI [of _ id] exI [of _ "[account_row p h]"]) (auto simp: may_sign_up_def)

lemma users_moved_stmt:
  assumes "\<And>u. u_id (g u) = u_id u" and "\<And>u. u_email (g u) = u_email u" and "\<And>u col. differs col (g u) u \<Longrightarrow> ok col i"
    and "users_moved ok t (dbt c)"
    and "\<And>s x t'. stmt s = Inr (x, t') \<Longrightarrow> users t' = map (\<lambda>u. if u_id u = i then g u else u) (users s)"
  shows "users_moved ok t (dbt (snd (exec_stmt stmt c)))"
proof (rule exec_stmt_inv [where P = "users_moved ok t"])
  show "users_moved ok t (dbt c)" by fact
  fix x t' assume "stmt (dbt c) = Inr (x, t')"
  then have "users_moved ok (dbt c) t'"
    by (intro users_moved_update [where g = g and i = i]) (use assms in blast)+
  with assms(4) show "users_moved ok t t'" by (rule users_moved_trans)
qed

section \<open>The calls that write users\<close>

lemma users_rows: "put (tbl_update users_schema p g (users s)) (\<lambda>rs. s\<lparr>users := rs\<rparr>) = Inr t' \<Longrightarrow>
    users t' = map (\<lambda>u. if p u then g u else u) (users s)"
  by (auto simp: ok_simps dest: tbl_update_Inr)

lemma user_stmts_moved:
  assumes "users_moved ok t (dbt c)"
  shows "ok PasswordColumn i \<Longrightarrow> users_moved ok t (dbt (snd (q_UpdatePassword i pw c)))"
    and "users_moved ok t (dbt (snd (q_UpdatePasswordChangedAt at i c)))"
    and "ok VerifiedColumn i \<Longrightarrow> users_moved ok t (dbt (snd (q_VerifyEmail i c)))"
    and "ok UsernameColumn i \<Longrightarrow> users_moved ok t (dbt (snd (q_UpdateUsername name i c)))"
  unfolding q_UpdatePassword_def q_UpdatePasswordChangedAt_def q_VerifyEmail_def q_UpdateUsername_def
  by (rule users_moved_stmt [where i = i and g = "\<lambda>u. u\<lparr>u_password := pw\<rparr>"]
        users_moved_stmt [where i = i and g = "\<lambda>u. u\<lparr>u_password_changed_at := at\<rparr>"]
        users_moved_stmt [where i = i and g = "\<lambda>u. u\<lparr>u_email_verified := Val True\<rparr>"]
        users_moved_stmt [where i = i and g = "\<lambda>u. u\<lparr>u_username := name\<rparr>"];
      use assms in \<open>auto simp: differs_def ok_simps split: user_column.splits dest: tbl_update_Inr\<close>; fail)+

lemma UpdatePassword_moved:
  assumes "users_moved ok t (dbt c)" and "ok PasswordColumn i"
  shows "users_moved ok t (dbt (snd (dir_UpdatePassword now i h c)))"
  unfolding dir_UpdatePassword_def
  by (intro check_err_inv [where P = "\<lambda>c. users_moved ok t (dbt c)"] user_stmts_moved assms)

lemma googleAuthentication_moved:
  "users_moved ok (wd_tables w) (wd_tables (snd (sv_googleAuthentication srv env ctx w)))"
proof -
  let ?P = "\<lambda>x. users_moved ok (wd_tables w) (wd_tables x)"
  have up: "?P (snd (google_sign_up srv env u e n x))" if "wd_tables x = wd_tables w" for u e n x
  proof -
    let ?p = "\<lparr>cur_userID = u, cur_email = e, cur_username = [], cur_givenName = n, cur_password = [], cur_isLocal = False\<rparr>"
    show ?thesis
      using createUser_cases [OF prod.collapse [symmetric], of env ?p x] google_sign_up_users [of srv env u e n x] that
      by (auto intro: users_moved_sign_up users_moved_same)
  qed
  have inn: "?P (snd (google_sign_in u x))" if "wd_tables x = wd_tables w" for u x
    using that unfolding google_sign_in_def by (intro check_err_inv [where P = ?P]) (simp_all add: users_moved_same)
  have main: "?P (snd (case on_db (dir_GetCustomerByUserID i) w of
      (Inr _, w) \<Rightarrow> google_sign_in i w
    | (Inl e, w) \<Rightarrow> if e \<noteq> ErrNoCustomer then (Inl (Status Internal ''failure occurred retrieving customer: %q'' [e]), w)
        else google_sign_up srv env i m n w))" for i m n
  proof -
    obtain r y where y: "on_db (dir_GetCustomerByUserID i) w = (r, y)" by fastforce
    then have "wd_tables y = wd_tables w" by (metis on_db_proj(1) customer_lookup_tbl snd_conv)
    then show ?thesis by (cases r) (simp_all add: y inn up users_moved_same)
  qed
  show ?thesis
    unfolding sv_googleAuthentication_def Let_def
    by (intro check_ok_inv [where P = ?P] check_err_inv [where P = ?P]) (use main in \<open>simp_all add: users_moved_same\<close>)
qed

lemma EmailSignup_moved: "users_moved ok (wd_tables w) (wd_tables (snd (sv_EmailSignup srv env req w)))"
  using createUser_cases [OF prod.collapse [symmetric], of env "signup_request env req" w] EmailSignup_users [of srv env req w]
  by (auto intro: users_moved_sign_up users_moved_same)

lemma with_user_id_inv:
  "P w \<Longrightarrow> (\<And>u. md_GetUserIDFromMD ctx = Some u \<Longrightarrow> P (snd (k u w))) \<Longrightarrow> P (snd (with_user ctx k w))"
  by (auto simp: with_user_def split: option.split)

lemma UpdateUsername_moved:
  assumes "\<And>i. md_GetUserIDFromMD ctx = Some i \<Longrightarrow> ok UsernameColumn i"
  shows "users_moved ok (wd_tables w) (wd_tables (snd (sv_UpdateUsername ctx name w)))"
proof -
  let ?P = "\<lambda>x. users_moved ok (wd_tables w) (wd_tables x)"
  have "?P (snd (on_db (dir_UpdateUsername (Val name) u) w))" if "md_GetUserIDFromMD ctx = Some u" for u
    unfolding on_db_proj dir_UpdateUsername_def
    by (rule check_err_inv [where P = "\<lambda>c. users_moved ok (wd_tables w) (dbt c)"])
       (use user_stmts_moved(4) [of ok "wd_tables w" "wd_db w" u "Val name"] assms [OF that] in \<open>simp_all add: users_moved_same\<close>)
  then show ?thesis
    unfolding sv_UpdateUsername_def
    by (intro with_user_id_inv [where P = ?P] if_inv [where P = ?P] check_err_inv [where P = ?P]) (simp_all add: users_moved_same)
qed

lemma EmailVerify_moved:
  assumes "\<And>i. md_GetUserIDFromMD ctx = Some i \<Longrightarrow>
      address_token I d tok i \<Longrightarrow> ok VerifiedColumn i"
  shows "users_moved ok (wd_tables w) (wd_tables (snd (sv_EmailVerify (in_server I d) (dr_auth d) ctx tok w)))"
proof -
  let ?P = "\<lambda>x. users_moved ok (wd_tables w) (wd_tables x)"
  let ?p = "jw_Parse (ae_jwt (dr_auth d)) (ae_now (dr_auth d)) (hmac_key (cfg_UnpaperClientSecret (in_cfg I))) tok no_claims"
  have cfg: "sv_cfg (in_server I d) = in_cfg I" by (simp add: in_server_def NewUnpaperServiceServer_def)
  have upd: "?P (snd (on_db (dir_VerifyEmail u) w))"
    if "md_GetUserIDFromMD ctx = Some u" "ptk_Error ?p = None" "clm_Subject (ptk_Claims ?p) = u" for u
  proof -
    have "ok VerifiedColumn u" using assms [OF that(1)] that(2,3) by (simp add: address_token_def Let_def)
    then show ?thesis
      unfolding on_db_proj dir_VerifyEmail_def by (intro user_stmts_moved(3) users_moved_same [OF refl])
  qed
  show ?thesis
    unfolding sv_EmailVerify_def cfg Let_def
  proof (rule with_user_id_inv [where P = ?P])
    show "?P w" by (simp add: users_moved_same)
    fix u assume u: "md_GetUserIDFromMD ctx = Some u"
    show "?P (snd (case ptk_Error ?p of
        Some e \<Rightarrow> (Inl (Status Internal (''an error occurred verifying the verification token: '' @ quoted ''%v'') [jwt_err e]), w)
      | None \<Rightarrow> if clm_Subject (ptk_Claims ?p) \<noteq> u then
            (Inl (Status Internal ''verification code do not belong to this user'' []), w)
          else check_err (on_db (dir_VerifyEmail u) w)
             (\<lambda>e. Status Internal ''error verifying email on db: %v'' [e]) (\<lambda>_ w. (Inr (), w))))"
      using upd [OF u]
      by (cases "ptk_Error ?p") (auto simp: users_moved_same intro: check_err_inv [where P = ?P])
  qed
qed

lemma ResetPassword_moved:
  assumes "\<And>i. reset_token I d (rpw_VerificationToken req) i \<Longrightarrow> ok PasswordColumn i"
  shows "users_moved ok (wd_tables w) (wd_tables (snd (sv_ResetPassword (in_server I d) (dr_auth d) req w)))"
proof -
  let ?P = "\<lambda>x. users_moved ok (wd_tables w) (wd_tables x)"
  let ?p = "jw_Parse (ae_jwt (dr_auth d)) (ae_now (dr_auth d)) (\<lambda>_. Inr (cfg_UnpaperClientSecret (in_cfg I)))
    (rpw_VerificationToken req) no_claims"
  have cfg: "sv_cfg (in_server I d) = in_cfg I" by (simp add: in_server_def NewUnpaperServiceServer_def)
  have upd: "?P (snd (on_db (dir_UpdatePassword now (clm_Subject (ptk_Claims ?p)) h) x))"
    if "ptk_Error ?p = None" "ptk_Valid ?p" "?P x" for now h x
    unfolding on_db_proj
    by (rule UpdatePassword_moved [OF that(3)]) (use assms that in \<open>simp add: reset_token_def Let_def\<close>)
  show ?thesis
    unfolding sv_ResetPassword_def cfg Let_def
    by (intro if_inv [where P = ?P] check_err_inv [where P = ?P] upd) (simp_all add: users_moved_same)
qed

lemma ChangePassword_moved:
  assumes "tables_wf (wd_tables w)"
    and "\<And>i. md_GetUserIDFromMD ctx = Some i \<Longrightarrow> may_change_password env i (cpw_OldPassword req) (wd_tables w) \<Longrightarrow>
      ok PasswordColumn i"
  shows "users_moved ok (wd_tables w) (wd_tables (snd (sv_ChangePassword env ctx req w)))"
proof -
  let ?P = "\<lambda>x. users_moved ok (wd_tables w) (wd_tables x)"
  have "?P (snd (check_err (check_password_change env i (cpw_OldPassword req) w) same_err (\<lambda>_ w.
       check_err (ae_GenerateFromPassword env (cpw_NewPassword req), w) same_err (\<lambda>h w.
       check_err (on_db (dir_UpdatePassword (ae_now env) i h) w)
         (\<lambda>e. Status Internal ''Error storing new password on db: %v'' [e]) (\<lambda>_ w.
       case SendHeader ''Set-Cookie'' deleted_token_cookie w of (_, w) \<Rightarrow> (Inr (), w))))))"
    if u: "md_GetUserIDFromMD ctx = Some i" for i
  proof (rule check_err_inv [where P = ?P])
    show "?P (snd (check_password_change env i (cpw_OldPassword req) w))" by (simp add: users_moved_same)
    fix x s assume chk: "check_password_change env i (cpw_OldPassword req) w = (Inr x, s)" and s: "?P s"
    have set: "?P (snd (on_db (dir_UpdatePassword now i h) x))" if "ok PasswordColumn i" "?P x" for now h x
      unfolding on_db_proj by (rule UpdatePassword_moved [OF that(2,1)])
    have ok: "ok PasswordColumn i" using assms(2) [OF u] check_password_change_Inr [OF assms(1), of env i _ s] chk by simp
    show "?P (snd (check_err (ae_GenerateFromPassword env (cpw_NewPassword req), s) same_err (\<lambda>h w.
       check_err (on_db (dir_UpdatePassword (ae_now env) i h) w)
         (\<lambda>e. Status Internal ''Error storing new password on db: %v'' [e]) (\<lambda>_ w.
       case SendHeader ''Set-Cookie'' deleted_token_cookie w of (_, w) \<Rightarrow> (Inr (), w)))))"
      by (intro check_err_inv [where P = ?P] set ok) (use s in \<open>simp_all add: SendHeader_def split: option.split\<close>)
  qed
  then show ?thesis
    unfolding sv_ChangePassword_def
    by (intro with_user_id_inv [where P = ?P] if_inv [where P = ?P]) (simp_all add: users_moved_same)
qed

lemma handle_moved:
  assumes "tables_wf (wd_tables w)"
  shows "users_moved (granted I d ctx q (wd_tables w)) (wd_tables w) (wd_tables (snd (handle I (d, ctx, q) w)))"
proof (cases "writes_users q")
  case False
  with assms show ?thesis by (intro users_moved_same handle_users)
next
  case True
  let ?w = "w\<lparr>wd_headers := [], wd_header_error := dr_header_error d\<rparr>"
  let ?ok = "granted I d ctx q (wd_tables w)"
  have wf: "tables_wf (wd_tables ?w)" using assms by simp
  from True show ?thesis
  proof cases
    case 1
    then show ?thesis using googleAuthentication_moved [of ?ok ?w] by (simp add: handle_def answer_def sv_GoogleCallback_def)
  next
    case 2
    then show ?thesis using googleAuthentication_moved [of ?ok ?w] by (simp add: handle_def answer_def sv_GoogleOneTap_def)
  next
    case (3 req)
    then show ?thesis using EmailSignup_moved [of ?ok ?w] by (simp add: handle_def answer_def)
  next
    case (4 token)
    then show ?thesis using EmailVerify_moved [of ctx I d token ?ok ?w] by (simp add: handle_def answer_def granted_def)
  next
    case (5 cpw)
    then show ?thesis using ChangePassword_moved [OF wf, of ctx "dr_auth d" cpw ?ok] by (simp add: handle_def answer_def granted_def)
  next
    case (6 rpw)
    then show ?thesis using ResetPassword_moved [of I d rpw ?ok ?w] by (simp add: handle_def answer_def granted_def)
  next
    case (7 name)
    then show ?thesis using UpdateUsername_moved [of ctx ?ok ?w] by (simp add: handle_def answer_def granted_def)
  qed
qed

text \<open>Over a run, every change goes back to a call that had the grounds for it when it was made.\<close>

definition granted_in_run ::
    "'r installation \<Rightarrow> ('f, 'r) call list \<Rightarrow> 'r world \<Rightarrow> user_column \<Rightarrow> string \<Rightarrow> bool" where
  "granted_in_run I as w col i \<longleftrightarrow> (\<exists>pre d ctx q post. as = pre @ (d, ctx, q) # post \<and>
     granted I d ctx q (wd_tables (run_service I pre w)) col i)"

lemma granted_first: "granted I d ctx q (wd_tables w) col i \<Longrightarrow> granted_in_run I ((d, ctx, q) # as) w col i"
  unfolding granted_in_run_def by (intro exI [of _ "[]"] exI) simp

lemma granted_later:
  assumes "granted_in_run I as (snd (handle I a w)) col i"
  shows "granted_in_run I (a # as) w col i"
proof -
  from assms obtain pre d ctx q post where "as = pre @ (d, ctx, q) # post"
    "granted I d ctx q (wd_tables (run_service I pre (snd (handle I a w)))) col i"
    unfolding granted_in_run_def by blast
  then show ?thesis
    unfolding granted_in_run_def by (intro exI [of _ "a # pre"] exI [of _ d] exI [of _ ctx] exI [of _ q] exI [of _ post]) simp
qed

lemma run_service_moved:
  "tables_wf (wd_tables w) \<Longrightarrow> users_moved (granted_in_run I as w) (wd_tables w) (wd_tables (run_service I as w))"
proof (induction as arbitrary: w)
  case Nil
  then show ?case by (simp add: users_moved_same)
next
  case (Cons a as)
  obtain d ctx q where a: "a = (d, ctx, q)" by (cases a)
  let ?w = "snd (handle I a w)"
  have "users_moved (granted_in_run I (a # as) w) (wd_tables w) (wd_tables ?w)"
    using users_moved_mono [OF handle_moved [OF Cons.prems] granted_first] unfolding a .
  moreover have "users_moved (granted_in_run I (a # as) w) (wd_tables ?w) (wd_tables (run_service I as ?w))"
    by (rule users_moved_mono [OF Cons.IH [OF handle_wf [OF Cons.prems]] granted_later])
  ultimately show ?case by (simp add: users_moved_trans)
qed

section \<open>Properties\<close>

text \<open>
  C6: accounts are kept: over any run of calls of any kind, whatever fails in them, every user stays
  where they were in the table, with their id and address, only new users come behind them, and
  addresses that were distinct up to case stay so.
\<close>

theorem accounts_are_kept:
  assumes "tables_wf (wd_tables w)"
  shows "(\<exists>f new. users (wd_tables (run_service I as w)) = map f (users (wd_tables w)) @ new \<and>
      (\<forall>u. u \<in> set (users (wd_tables w)) \<longrightarrow> u_id (f u) = u_id u \<and> u_email (f u) = u_email u)) \<and>
    (distinct (email_keys (wd_tables w)) \<longrightarrow> distinct (email_keys (wd_tables (run_service I as w))))"
  using run_service_moved [OF assms, of I as] unfolding users_moved_def by blast

text \<open>
  C4: nobody else changes an account: if over a run of calls of any kind the password, the name or the
  verification of a user's address changed, the run has a call that had the grounds to change it when it
  came: for a password the old one, given by this user, verified, in ChangePassword, or a token accepted
  for this user in ResetPassword; for the verification a token of the user in EmailVerify; for the name
  the user's own UpdateUsername.
\<close>

theorem account_changes_have_grounds:
  assumes "tables_wf (wd_tables w)"
    and "u \<in> set (users (wd_tables w))" and "v \<in> set (users (wd_tables (run_service I as w)))"
    and "u_id v = u_id u" and "differs col v u"
  shows "\<exists>pre d ctx q post. as = pre @ (d, ctx, q) # post \<and>
    granted I d ctx q (wd_tables (run_service I pre w)) col (u_id u)"
proof -
  let ?t = "wd_tables w" and ?t' = "wd_tables (run_service I as w)"
  from run_service_moved [OF assms(1), of I as] obtain f new where rows: "users ?t' = map f (users ?t) @ new"
    and f: "\<And>x. x \<in> set (users ?t) \<Longrightarrow> u_id (f x) = u_id x \<and> (\<forall>col. differs col (f x) x \<longrightarrow> granted_in_run I as w col (u_id x))"
    unfolding users_moved_def by blast
  have "tables_wf ?t'" using assms(1) by (induction as arbitrary: w) (simp_all add: handle_wf)
  then have "distinct (map u_id (users ?t'))" by (rule users_ids_distinct)
  moreover have "f u \<in> set (users ?t')" "u_id (f u) = u_id v" using rows f assms(2,4) by auto
  ultimately have "v = f u" using assms(3) by (auto simp: distinct_map inj_on_def)
  with f [OF assms(2)] assms(5) have "granted_in_run I as w col (u_id u)" by blast
  then show ?thesis unfolding granted_in_run_def .
qed

definition sample_name_calls :: "(call_context \<times> request) list" where
  "sample_name_calls = [(None, Auth (EmailSignup sample_signup)), (user_ctx ''1'', Auth (UpdateUsername ''zoe''))]"

lemma sample_names:
  "map (\<lambda>u. (u_id u, u_username u)) (users (sample_run sample_tables sample_name_calls)) =
    [(''1'', Val ''zoe''), (''2'', Val ''bruno''), (''3'', Val ''carla''), (''u1'', Val ''dann'')]"
  unfolding sample_name_calls_def by (simp only: run_eqs) code_simp

lemma accounts_are_kept_witness:
  "\<exists>f new. users (sample_run sample_tables sample_name_calls) = map f (users sample_tables) @ new \<and> length new = 1"
proof -
  have "length (users (sample_run sample_tables sample_name_calls)) = 4"
    using sample_names [THEN arg_cong, of length] by simp
  moreover have "length (users sample_tables) = 3" by (simp add: sample_tables_def)
  moreover have "tables_wf (wd_tables (world_of sample_tables mem_empty))" using sample_tables_wf by simp
  from accounts_are_kept [OF this, of sample_installation "map (Pair sample_draws) sample_name_calls"]
  obtain f new where "users (sample_run sample_tables sample_name_calls) = map f (users sample_tables) @ new"
    unfolding sample_run_def by (auto simp: db_of_def)
  ultimately show ?thesis by (intro exI [of _ f] exI [of _ new]) simp
qed

lemma account_changes_have_grounds_witness:
  "\<exists>pre d ctx q post. map (Pair sample_draws) sample_name_calls = pre @ (d, ctx, q) # post \<and>
    granted sample_installation d ctx q (wd_tables (run_service sample_installation pre (world_of sample_tables mem_empty))) UsernameColumn ''1''"
proof -
  let ?u = "sample_user ''1'' ''anna''"
  have wf: "tables_wf (wd_tables (world_of sample_tables mem_empty))" using sample_tables_wf by simp
  have u: "?u \<in> set (users (wd_tables (world_of sample_tables mem_empty)))" by (simp add: db_of_def sample_tables_def)
  have "(''1'', Val ''zoe'') \<in> set (map (\<lambda>u. (u_id u, u_username u)) (users (sample_run sample_tables sample_name_calls)))"
    unfolding sample_names by simp
  then obtain v where v: "v \<in> set (users (sample_run sample_tables sample_name_calls))"
    "(''1'', Val ''zoe'') = (u_id v, u_username v)"
    unfolding set_map by (rule imageE)
  have d: "u_id v = u_id ?u" "differs UsernameColumn v ?u" using v(2) [symmetric] by (simp_all add: differs_def sample_user_def)
  from account_changes_have_grounds [OF wf u v(1) [unfolded sample_run_def] d] show ?thesis
    by (simp add: sample_user_def)
qed

end
