(* ===== verification/Service_Rooms.thy ===== *)
theory Service_Rooms
  imports Service
begin

text \<open>
  Subscriptions to rooms under runs of the whole service: only the webhook of connected accounts writes the
  subscriptions to rooms, and only with an event whose signature was accepted.
\<close>

section \<open>What a call reports of a room\<close>

text \<open>The status an accepted event reports, as the webhook takes it from the payload and its signature.\<close>

definition room_reported :: "('f, 'r) call \<Rightarrow> 'r world \<Rightarrow> ((string \<times> string) \<times> string) option" where
  "room_reported a w = (case a of (d, ctx, q) \<Rightarrow>
     (case q of
        Stripe x \<Rightarrow> (case x of
          StripeConnectWebhook raw \<Rightarrow>
            (case getSignatureFromCtx ctx of
               Inl e \<Rightarrow> None
             | Inr sig \<Rightarrow> (case wh_ConstructEvent (dr_hook d) raw sig endpointSecret of
                 Inl e \<Rightarrow> None
               | Inr ev \<Rightarrow> reported (dr_hook d) ev (w\<lparr>wd_headers := [], wd_header_error := dr_header_error d\<rparr>)))
        | _ \<Rightarrow> None)
      | _ \<Rightarrow> None))"

definition call_step ::
    "'r installation \<Rightarrow> ('f, 'r) call \<Rightarrow> 'r world \<Rightarrow> (((string \<times> string) \<times> string) option \<times> unit res) \<times> 'r world" where
  "call_step I a w = (case handle I a w of (res, w1) \<Rightarrow> ((room_reported a w, res), w1))"

lemma call_step_run: "snd (run_steps (call_step I) as w) = run_service I as w"
proof (induction as arbitrary: w)
  case (Cons a as)
  show ?case using Cons.IH [of "snd (handle I a w)"] by (simp add: call_step_def case_prod_beta)
qed simp

lemma call_room_step:
  assumes "tables_wf (wd_tables w)" and "handle I a w = (res, w')"
  shows "room_step (room_reported a w) res (wd_tables w) (wd_tables w')"
proof -
  obtain d ctx q where a: "a = (d, ctx, q)" by (cases a)
  show ?thesis
  proof (cases "writes_rooms q")
    case False
    then have "room_reported a w = None"
      unfolding a room_reported_def by (auto split: request.split stripe_call.split intro: writes_rooms.intros)
    moreover have "room_subscriptions (wd_tables w') = room_subscriptions (wd_tables w)"
      using handle_rooms [OF assms(1) False, of I d ctx] assms(2) by (simp add: a)
    ultimately show ?thesis by (intro room_step_same) simp_all
  next
    case True
    then obtain raw where q: "q = Stripe (StripeConnectWebhook raw)" by (rule writes_roomsE)
    let ?w = "w\<lparr>wd_headers := [], wd_header_error := dr_header_error d\<rparr>"
    obtain r where run: "sv_StripeConnectWebhook (dr_hook d) ctx raw ?w = (r, w')" and res: "res = map_sum id (\<lambda>_. ()) r"
      using assms(2) by (cases "sv_StripeConnectWebhook (dr_hook d) ctx raw ?w") (auto simp: a q handle_def answer_def)
    have "r = res" using res by (cases r) auto
    show ?thesis
    proof (cases "getSignatureFromCtx ctx")
      case (Inl e)
      with run \<open>r = res\<close> show ?thesis
        by (auto simp: a q room_reported_def sv_StripeConnectWebhook_def intro!: room_step_same)
    next
      case (Inr sig)
      show ?thesis
      proof (cases "wh_ConstructEvent (dr_hook d) raw sig endpointSecret")
        case (Inl e)
        with Inr run \<open>r = res\<close> show ?thesis
          by (auto simp: a q room_reported_def sv_StripeConnectWebhook_def intro!: room_step_same)
      next
        case ev: (Inr ev)
        from run Inr ev \<open>r = res\<close> have "connect_dispatch (dr_hook d) ev ?w = (res, w')"
          by (simp add: sv_StripeConnectWebhook_def)
        from connect_dispatch_step [OF this] show ?thesis by (simp add: a q room_reported_def Inr ev)
      qed
    qed
  qed
qed

interpretation calls: room_machine "call_step I" tables_wf for I
proof (unfold_locales, goal_cases)
  case (1 w a rep res w')
  then show ?case using call_room_step [of w I a] by (auto simp: call_step_def split: prod.splits)
next
  case (2 w a l w')
  then show ?case using handle_wf [of w I a] by (auto simp: call_step_def split: prod.splits)
qed

lemma run_steps_split:
  assumes "fst (run_steps step es w) = ls @ l # ms"
  obtains pre e post where "es = pre @ e # post" "l = fst (step e (snd (run_steps step pre w)))"
    "ms = fst (run_steps step post (snd (run_steps step (pre @ [e]) w)))"
  using assms
proof (induction es arbitrary: w ls thesis)
  case Nil
  then show ?case by simp
next
  case (Cons e es)
  obtain l1 w1 where e: "step e w = (l1, w1)" by fastforce
  show ?case
  proof (cases ls)
    case Nil
    with Cons.prems(2) e have "l = l1" "ms = fst (run_steps step es w1)" by (auto simp: case_prod_beta)
    then show ?thesis using Cons.prems(1) [of "[]" e es] e by simp
  next
    case (Cons l2 ls')
    with Cons.prems(2) e have "fst (run_steps step es w1) = ls' @ l # ms" by (auto simp: case_prod_beta)
    then obtain pre a post where "es = pre @ a # post" "l = fst (step a (snd (run_steps step pre w1)))"
      "ms = fst (run_steps step post (snd (run_steps step (pre @ [a]) w1)))" by (rule Cons.IH [rotated])
    then show ?thesis using Cons.prems(1) [of "e # pre" a post] e by (simp add: case_prod_beta)
  qed
qed

section \<open>Properties\<close>

text \<open>
  C3: a user is recorded as subscribed to a room by a signed event alone: start from tables that have no
  active subscription of the user to the room and serve any run of calls of any kind, of which any may
  fail at any point. If the tables have one at the end, the run has a call of the webhook of connected
  accounts whose signature was accepted for its payload under the secret of the service, with an event
  that reported exactly this user as active for this room; and no later call that was answered without
  an error reported anything else for them. (What the service does with the subscription, letting the
  user into the room, is commented out in the source.)
\<close>

theorem active_subscription_by_signed_event:
  assumes "tables_wf (wd_tables w)"
    and "\<forall>r \<in> set (room_subscriptions (wd_tables w)). \<not> (rs_room_id r = room \<and> rs_user_id r = u \<and> rs_status r = ''active'')"
    and "\<exists>r \<in> set (room_subscriptions (wd_tables (run_service I as w))). rs_room_id r = room \<and> rs_user_id r = u \<and> rs_status r = ''active''"
  shows "\<exists>pre d ctx raw post sig ev. as = pre @ (d, ctx, Stripe (StripeConnectWebhook raw)) # post \<and>
    getSignatureFromCtx ctx = Inr sig \<and> wh_ConstructEvent (dr_hook d) raw sig endpointSecret = Inr ev \<and>
    room_reported (d, ctx, Stripe (StripeConnectWebhook raw)) (run_service I pre w) = Some ((room, u), ''active'') \<and>
    (\<forall>st. (Some ((room, u), st), Inr ()) \<in> set (fst (run_steps (call_step I) post
       (run_service I (pre @ [(d, ctx, Stripe (StripeConnectWebhook raw))]) w))) \<longrightarrow> st = ''active'')"
proof -
  let ?run = "run_steps (call_step I) as w"
  have "tables_wf (wd_tables (run_service I as w))" using assms(1) by (induction as arbitrary: w) (simp_all add: handle_wf)
  then have "room_status (wd_tables (snd ?run)) (room, u) = Some ''active''"
    using assms(3) room_status_row unfolding call_step_run tables_wf_def by metis
  moreover have "rooms_wf (wd_tables w)" using assms(1) by (simp add: tables_wf_def)
  moreover have "room_status (wd_tables w) (room, u) \<noteq> Some ''active''"
    using assms(2) by (auto simp: room_status_def filter_eq_Cons_iff split: list.split)
  ultimately obtain ls res ms where "fst ?run = ls @ (Some ((room, u), ''active''), res) # ms" "only_reported ms (room, u) ''active''"
    using calls.status_traced [OF prod.collapse [symmetric] assms(1)] by blast
  then obtain pre a post where a: "as = pre @ a # post"
    "(Some ((room, u), ''active''), res) = fst (call_step I a (run_service I pre w))"
    and later: "only_reported (fst (run_steps (call_step I) post (run_service I (pre @ [a]) w))) (room, u) ''active''"
    by (auto elim!: run_steps_split simp: call_step_run)
  then have rep: "room_reported a (run_service I pre w) = Some ((room, u), ''active'')"
    by (auto simp: call_step_def split: prod.splits)
  then obtain d ctx raw sig ev where "a = (d, ctx, Stripe (StripeConnectWebhook raw))" "getSignatureFromCtx ctx = Inr sig"
    "wh_ConstructEvent (dr_hook d) raw sig endpointSecret = Inr ev"
    by (auto simp: room_reported_def split: prod.splits request.splits stripe_call.splits sum.splits)
  then show ?thesis using a(1) rep later unfolding only_reported_def by blast
qed

lemma active_subscription_by_signed_event_witness:
  "\<exists>sig ev. getSignatureFromCtx (Some [(''stripe-signature'', [''sig1''])]) = Inr sig \<and>
     wh_ConstructEvent (sample_hook :: (unit, mem_redis) webhook_env) ''raw'' sig endpointSecret = Inr ev"
proof -
  let ?calls = "[(Some [(''stripe-signature'', [''sig1''])], Stripe (StripeConnectWebhook ''raw''))]"
  let ?w = "run_service sample_installation (map (Pair sample_draws) ?calls) (world_of no_rows mem_empty)"
  have "map (\<lambda>r. (rs_room_id r, rs_user_id r, rs_status r)) (room_subscriptions (wd_tables ?w)) = [(''room1'', ''u1'', ''active'')]"
    by (simp only: run_eqs) code_simp
  then have active: "\<exists>r \<in> set (room_subscriptions (wd_tables ?w)). rs_room_id r = ''room1'' \<and> rs_user_id r = ''u1'' \<and> rs_status r = ''active''"
    by (cases "room_subscriptions (wd_tables ?w)") auto
  have rows: "\<forall>r \<in> set (room_subscriptions (wd_tables (world_of no_rows mem_empty))).
      \<not> (rs_room_id r = ''room1'' \<and> rs_user_id r = ''u1'' \<and> rs_status r = ''active'')"
    by (simp add: no_rows_def)
  have wf: "tables_wf (wd_tables (world_of no_rows mem_empty))" using tables_wf_no_rows by simp
  from active_subscription_by_signed_event [OF wf rows active] obtain pre d ctx raw post sig ev where
    a: "map (Pair sample_draws) ?calls = pre @ (d, ctx, Stripe (StripeConnectWebhook raw)) # post"
    and ev: "getSignatureFromCtx ctx = Inr sig" "wh_ConstructEvent (dr_hook d) raw sig endpointSecret = Inr ev" by blast
  from a have "d = sample_draws" "ctx = Some [(''stripe-signature'', [''sig1''])]" "raw = ''raw''"
    by (auto simp: Cons_eq_append_conv)
  with ev show ?thesis by (auto simp: sample_draws_def)
qed

end
