(* ===== verification/Service_Entrance.thy ===== *)
theory Service_Entrance
  imports Service
begin

text \<open>
  The authorization check in front of the service: whose user id a call carries when it reaches its
  handler. Between the two stands the proxy (Envoy), which sends a request it let through on with the
  headers of the check in place of the client's; it is a parameter here.
\<close>

section \<open>From the request to the call\<close>

definition handed_on :: "(headers \<Rightarrow> headers \<Rightarrow> metadata) \<Rightarrow> check_request \<Rightarrow> check_response \<Rightarrow> call_context" where
  "handed_on proxy req r = (case cr_Http r of
     OkResponse hs \<Rightarrow> Some (proxy (rq_Headers req) hs)
   | DeniedResponse _ _ \<Rightarrow> None)"

text \<open>What Envoy documents of the headers in the answer of a check: they replace those of the request.\<close>

definition replaces_headers :: "(headers \<Rightarrow> headers \<Rightarrow> metadata) \<Rightarrow> bool" where
  "replaces_headers proxy \<longleftrightarrow> (\<forall>orig hs v. map_of hs ''x-user-id'' = Some v \<longrightarrow> map_of (proxy orig hs) ''x-user-id'' = Some [v])"

definition google_user :: "('p, 'e, 't, 'i) google \<Rightarrow> string \<Rightarrow> bool" where
  "google_user G u \<longleftrightarrow> (\<exists>p client raw tok claims. gg_Verify G p client False raw = Inr tok \<and>
     gg_Claims G tok = Inr claims \<and> gc_Subject claims = u)"

lemma handed_on_user:
  assumes "replaces_headers proxy" and "let_through r" and "upstream r ''x-user-id'' = Some u"
  shows "md_GetUserIDFromMD (handed_on proxy req r) = Some u"
proof -
  have low: "to_lower ''x-user-id'' = ''x-user-id''" by (simp add: to_lower_def lower_char_def)
  obtain hs where hs: "cr_Http r = OkResponse hs" using assms(2) by (cases "cr_Http r") (auto simp: let_through_def)
  with assms(3) have "map_of hs ''x-user-id'' = Some u" by (simp add: upstream_def)
  with assms(1) have "map_of (proxy (rq_Headers req) hs) ''x-user-id'' = Some [u]" unfolding replaces_headers_def by blast
  then show ?thesis
    by (simp add: handed_on_def hs md_GetUserIDFromMD_def md_getMetadataFromCtx_def md_getFirstMDValue_def md_Get_def low)
qed

section \<open>Which calls are let through without a session\<close>

text \<open>The calls that never look at the user id, and the two that come with a token of Google.\<close>

inductive blind_call :: "request \<Rightarrow> bool" where
  "blind_call (Auth Ping)" | "blind_call (Auth GoogleLogin)" | "blind_call (Auth (EmailSignup req))"
| "blind_call (Auth (EmailSignin email password))" | "blind_call (Auth (EmailCheck email))"
| "blind_call (Auth (SendResetLink email))" | "blind_call (Auth (ResetPassword rpw))"

lemma blind_serve:
  assumes "blind_call q"
  shows "serve I d (Some ((''x-user-id'', us) # md)) q w = serve I d (Some md) q w"
proof -
  have other: "md_GetFirstMDValue ((''x-user-id'', us) # md) k = md_GetFirstMDValue md k"
    if "k \<in> {''ConsentURL'', ''State'', ''Code-Verifier''}" for k
  proof -
    have "to_lower k \<noteq> ''x-user-id''" using that by (auto simp: to_lower_def lower_char_def)
    then show ?thesis by (simp add: md_GetFirstMDValue_def md_getFirstMDValue_def md_Get_def)
  qed
  from assms show ?thesis
  proof cases
    case 2
    then show ?thesis by (simp only: serve.simps serve_auth.simps sv_GoogleLogin_def check_ok_simps other insert_iff simp_thms)
  qed simp_all
qed

lemma public_call:
  assumes "full_method q \<in> set public_paths"
  shows "blind_call q \<or> q = Auth GoogleCallback \<or> q = Auth GoogleOneTap"
proof (cases q)
  case (Auth a)
  with assms show ?thesis
    by (cases a) (simp_all add: full_method_def public_paths_def unauthPaths_def blind_call.intros)
next
  case (Info a)
  with assms show ?thesis by (cases a) (simp_all add: full_method_def public_paths_def unauthPaths_def)
next
  case (Stripe a)
  with assms show ?thesis by (cases a) (simp_all add: full_method_def public_paths_def unauthPaths_def)
next
  case (Chat a)
  with assms show ?thesis by (cases a) (simp_all add: full_method_def public_paths_def unauthPaths_def)
next
  case (Feed a)
  with assms show ?thesis by (cases a) (simp_all add: full_method_def public_paths_def unauthPaths_def)
qed

section \<open>What the check says of Google's users\<close>

lemma verified_token:
  "ag_VerifyRawIDToken G text n client raw False = Inr tok \<Longrightarrow> \<exists>p. gg_Verify G p client False raw = Inr tok"
  by (auto simp: ag_VerifyRawIDToken_def split: sum.splits if_splits)

lemma Google_user_id:
  assumes "ea_GoogleCallback a G req = Inr r \<or> ea_GoogleOneTap a G req = Inr r" and "let_through r"
  obtains u where "upstream r ''x-user-id'' = Some u" "google_user G u"
proof -
  from assms obtain client raw n tok claims where "ag_VerifyRawIDToken G (as_error_text a) n client raw False = Inr tok"
    and c: "gg_Claims G tok = Inr claims" and r: "r = response_OK (GetHeaderValueOptions (user_headers claims))"
    by (auto simp: ea_GoogleCallback_def ea_GoogleOneTap_def parseGoogleToken_def split: sum.splits option.splits)
  from verified_token [OF this(1)] obtain p where "gg_Verify G p client False raw = Inr tok" by blast
  with c have "google_user G (gc_Subject claims)" unfolding google_user_def by blast
  with r show thesis by (intro that [of "gc_Subject claims"]) (simp_all add: user_headers_def)
qed

lemma google_call_user:
  assumes "replaces_headers proxy" and "rq_Path req = full_method q" and "q = Auth GoogleCallback \<or> q = Auth GoogleOneTap"
    and "ea_Check a G rand16 source req s = Some (Inr r, s')" and "let_through r"
  obtains u where "md_GetUserIDFromMD (handed_on proxy req r) = Some u" "google_user G u"
proof -
  have "full_method (Auth GoogleCallback) = ''/v1.UnpaperService/GoogleCallback''"
    "full_method (Auth GoogleOneTap) = ''/v1.UnpaperService/GoogleOneTap''"
    by (simp_all add: full_method_def)
  with assms(2-4) have "ea_GoogleCallback a G req = Inr r \<or> ea_GoogleOneTap a G req = Inr r"
    by (auto simp: ea_Check_def unauthPaths_def)
  from Google_user_id [OF this assms(5)] obtain u where "upstream r ''x-user-id'' = Some u" "google_user G u" .
  with handed_on_user [OF assms(1,5)] that show thesis by blast
qed

text \<open>The rest passes the session check.\<close>

lemma protected_call_user:
  assumes "session_redis R strs members gob" and "replaces_headers proxy" and "rq_Path req = full_method q"
    and "ea_Check (NewAuthorizationServer R gob ksuid text cfg) G rand16 source req s = Some (Inr r, s')"
    and "let_through r" and "full_method q \<notin> set public_paths"
  obtains sid v where "ck_FindAttribute (header (rq_Headers req) ''cookie'') session_cookie_name = Some sid"
    "session_user gob strs s sid = Some v" "md_GetUserIDFromMD (handed_on proxy req r) = Some (su_id v)"
proof -
  let ?a = "NewAuthorizationServer R gob ksuid text cfg"
  note store = session_redis.manager_store [OF assms(1)]
  note ttl = session_redis.ttl_keeps [OF assms(1), of ?a, simplified]
  have auth: "authorize ?a (if rq_Path req = ''/v1.UnpaperService/SignOut'' then ea_SignOut ?a else ea_Default) req s = (Inr r, s')"
    using check_protected [of req ?a G rand16 source s] assms(3,4,6) by simp
  obtain sid v where "ck_FindAttribute (header (rq_Headers req) ''cookie'') session_cookie_name = Some sid"
    "session_user gob strs s sid = Some v" "upstream r ''x-user-id'' = Some (su_id v)"
  proof (cases "rq_Path req = ''/v1.UnpaperService/SignOut''")
    case True
    with auth have "authorize ?a (ea_SignOut ?a) req s = (Inr r, s')" by simp
    then show thesis
      by (rule session_store.signed_out_session [OF store NewAuthorizationServer_simps(2) ttl _ assms(5)]) (rule that)
  next
    case False
    with auth have "authorize ?a ea_Default req s = (Inr r, s')" by simp
    then show thesis
      by (rule session_store.authorized_session [OF store NewAuthorizationServer_simps(2) ttl _ assms(5)])
        (auto simp: ea_Default_def intro: that)
  qed
  with handed_on_user [OF assms(2,5), of "su_id v" req] that show thesis by blast
qed

section \<open>Properties\<close>

text \<open>
  C2: no user id reaches a handler that the check did not vouch for: when the check lets the request of a
  call through, and the proxy puts the headers of the check in place of the client's, either the handler
  of the call never looks at the user id, or the id it sees is that of the user of a live session named in
  the cookie, or, in the two sign-ins through Google, the subject of a token Google's library verified.
\<close>

theorem user_ids_are_vouched_for:
  assumes "session_redis R strs members gob" and "replaces_headers proxy" and "rq_Path req = full_method q"
    and "ea_Check (NewAuthorizationServer R gob ksuid text cfg) G rand16 source req s = Some (Inr r, s')"
    and "let_through r"
  shows "(\<forall>us md. serve I d (Some ((''x-user-id'', us) # md)) q w = serve I d (Some md) q w) \<or>
    (\<exists>u. md_GetUserIDFromMD (handed_on proxy req r) = Some u \<and>
      ((\<exists>sid v. ck_FindAttribute (header (rq_Headers req) ''cookie'') session_cookie_name = Some sid \<and>
          session_user gob strs s sid = Some v \<and> su_id v = u) \<or>
       (q = Auth GoogleCallback \<or> q = Auth GoogleOneTap) \<and> google_user G u))"
proof (cases "full_method q \<in> set public_paths")
  case True
  then consider "blind_call q" | "q = Auth GoogleCallback \<or> q = Auth GoogleOneTap" using public_call by blast
  then show ?thesis
  proof cases
    case 1
    then show ?thesis by (intro disjI1 allI blind_serve)
  next
    case 2
    with google_call_user [OF assms(2,3) 2 assms(4,5)] show ?thesis by metis
  qed
next
  case False
  from protected_call_user [OF assms False] show ?thesis by metis
qed

lemma user_ids_are_vouched_for_witness:
  "\<exists>v. session_user sample_gob mem_strs sample_session ''sid1'' = Some v \<and>
     md_GetUserIDFromMD (handed_on (\<lambda>orig hs. map (\<lambda>(k, v). (k, [v])) hs) (sample_request ''/v1.UnpaperService/UserInfo'')
       (response_OK [(''x-unpaper-sid'', ''sid1''), (''x-user-id'', ''1'')])) = Some (su_id v)"
proof -
  let ?proxy = "\<lambda>orig hs. map (\<lambda>(k, v). (k, [v])) hs" and ?q = "Info UserInfo"
  let ?req = "sample_request ''/v1.UnpaperService/UserInfo''"
  let ?r = "response_OK [(''x-unpaper-sid'', ''sid1''), (''x-user-id'', ''1'')]"
  let ?check = "ea_Check sample_server sample_google [] (\<lambda>_. Inr []) ?req sample_session"
  have "map_option fst ?check = Some (Inr ?r)" by code_simp
  then obtain s' where check: "?check = Some (Inr ?r, s')" by auto
  have proxy: "replaces_headers ?proxy" by (auto simp: replaces_headers_def map_of_map)
  have path: "rq_Path ?req = full_method ?q" by (simp add: sample_request_def full_method_def)
  have cookie: "ck_FindAttribute (header (rq_Headers ?req) ''cookie'') session_cookie_name = Some ''sid1''" by code_simp
  let ?w = "world_of sample_tables mem_empty"
  have "fst (serve sample_installation sample_draws (Some [(''x-user-id'', [''1''])]) ?q ?w) \<noteq>
      fst (serve sample_installation sample_draws (Some []) ?q ?w)"
    by (simp only: serve.simps serve_info.simps) code_simp
  then have "\<not> (\<forall>us md. serve sample_installation sample_draws (Some ((''x-user-id'', us) # md)) ?q ?w =
      serve sample_installation sample_draws (Some md) ?q ?w)" by metis
  then show ?thesis
    using user_ids_are_vouched_for [OF mem_session_redis proxy path check [unfolded sample_server_def],
        of sample_installation sample_draws ?w] cookie by auto
qed

end
