(* ===== verification/Spec2Isabelle.thy ===== *)
theory Spec2Isabelle
  imports Follows_Dir Ext_Auth Email_Check Service_Posts Lists_Dir Service_Mixes Stripe_Service
    Service_Users Accounts Chat_Threads Service_Chat Room_Access
    Service_Feed Service_Accounts Service_Rooms Service_Entrance
begin

text \<open>
  This development models the backend of unpaper, a social network for audio posts: an
  authorization check in front of the service (\<^verbatim>\<open>src/extauth\<close>), the service with its tables and
  its notifications (\<^verbatim>\<open>src/backend\<close>), and the library both share (\<^verbatim>\<open>src/core\<close>).

  How the parts interact. A request reaches the check of \<^verbatim>\<open>extauth/server\<close> first: it finds the
  session id in the cookie, asks the session manager (\<^verbatim>\<open>core/session\<close>, state in Redis) for its user,
  renews a session that is about to end, and hands the user id on in a header. The handlers of
  \<^verbatim>\<open>backend/pkg/service/v1\<close> read it back from the metadata of the call, use one directory per table
  (\<^verbatim>\<open>users\<close>, \<^verbatim>\<open>follows\<close>, \<^verbatim>\<open>posts\<close>, \<^verbatim>\<open>comments\<close>, \<^verbatim>\<open>notifications\<close>), each a layer over the generated
  \<^verbatim>\<open>queries.sql.go\<close>, and send notifications through \<^verbatim>\<open>pkg/notifications\<close>, which stores a row and
  publishes to the users that \<^verbatim>\<open>pkg/usersession\<close> has as online.

  Effects. An operation takes the state and returns its result beside the new state; the result is
  a sum, with the error on the left (type \<open>res\<close> of \<open>Prelude\<close>, a panic being an error of its own).
  The database (\<open>db\<close> of \<open>Sql_Engine\<close>) is the tables and a list of outcomes, one consumed by each
  statement: the statement is answered, refused, or takes effect with its answer lost. So every
  theorem about a failing database speaks of all the points of failure. The SQL texts of
  \<^verbatim>\<open>queries.sql.go\<close> are the code of a statement and are translated with three-valued logic.
  Redis is a record of commands over an arbitrary state type, a parameter; the locale
  \<open>session_redis\<close> and its part \<open>redis_store\<close> state what its commands do, also when they fail, and
  are interpreted on a concrete store. Time, random ids, the mail exchanger lookup, the codecs of
  \<^verbatim>\<open>encoding/gob\<close>, the OpenID provider and the environment are parameters as well.

  The theories.

  \<^item> \<open>Prelude\<close>, \<open>Go_Lib\<close>: results and errors, list and option lemmas, and the functions of the Go
    library the code uses on strings and numbers.
  \<^item> \<open>Sql_Engine\<close>, \<open>Schema\<close>: statements over tables, three-valued conditions; the rows of
    \<^verbatim>\<open>models.go\<close> and the constraints of \<^verbatim>\<open>core/db/migrations\<close>.
  \<^item> \<open>Users_Dir\<close>, \<open>Follows_Dir\<close>, \<open>Posts_Dir\<close>, \<open>Comments_Dir\<close>, \<open>Notifications_Dir\<close>, \<open>Db_Entities\<close>: one
    package each. \<open>q_X\<close> is the statement \<^verbatim>\<open>Queries.X\<close>, \<open>dir_X\<close> the method \<^verbatim>\<open>Directory.X\<close>.
    The lemmas say what each statement does to its table, that each keeps the
    constraints, and what the conversions to messages keep.
  \<^item> \<open>Redis_Store\<close>, \<open>Session_Manager\<close>: the commands and the session manager \<open>sm_X\<close>; it refines a map
    from session ids to users, and keeps every live session listed under its user.
  \<^item> \<open>Cookies\<close>, \<open>Code_Verifier\<close>, \<open>Core_Config\<close>: \<^verbatim>\<open>core/cookies\<close>, \<^verbatim>\<open>extauth/pkg/codeverifier\<close> (its loop
    over random bytes is a partial function, and it ends on every source that keeps giving
    usable bytes) and \<^verbatim>\<open>core/config\<close>.
  \<^item> \<open>Ext_Auth\<close>: the check with its handlers \<open>ea_X\<close>; what a request that is let through proves
    about the session store.
  \<^item> \<open>Email_Check\<close>: the two copies of the address check, with a matcher for the regular
    expressions it uses, against a direct description of the addresses.
  \<^item> \<open>Server_State\<close>, \<open>Notify_Manager\<close>, \<open>Service_Posts\<close>: the state of a call, \<^verbatim>\<open>pkg/notifications\<close>,
    \<^verbatim>\<open>pkg/usersession\<close> and the handlers \<open>sv_X\<close> of \<^verbatim>\<open>posts.go\<close> and \<^verbatim>\<open>notifications.go\<close>. Likes by
    several requests at once are a step relation, one statement a step.

  \<^item> \<open>Lists_Dir\<close>, \<open>Mixes_Dir\<close>, \<open>Service_Mixes\<close>: the packages \<^verbatim>\<open>lists\<close> and \<^verbatim>\<open>mixes\<close> and the handler of
    \<^verbatim>\<open>mixes.go\<close>; the lists of allowed users and the backgrounds are JSON columns.
  \<^item> \<open>Payment_Msgs\<close>, \<open>Customers_Dir\<close>: the messages of payments, and the package \<^verbatim>\<open>customers\<close> with its
    statements that insert or update on a conflict; the locale \<open>upsert_table\<close> of \<open>Sql_Engine\<close> says
    what such a statement keeps.
  \<^item> \<open>Stripe_Service\<close>: \<^verbatim>\<open>pkg/stripeservice\<close>, \<open>ss_X\<close> being the method \<^verbatim>\<open>Service.X\<close>. The calls of the Stripe
    library are a parameter \<open>stripe_api\<close>, over the state of the outside services.

  \<^item> \<open>Tokens\<close>: the tokens of \<^verbatim>\<open>backend/pkg/claims\<close> and \<^verbatim>\<open>extauth/pkg/claims\<close>; \<^verbatim>\<open>jwt-go\<close> is a parameter
    whose promise about a token it signed is \<open>jwt_contract\<close>.
  \<^item> \<open>Service_Auth\<close>, \<open>Accounts\<close>: the handlers of \<^verbatim>\<open>auth.go\<close> for accounts, and what holds of them: who
    can sign up and in, and what the tokens and passwords do. \<^verbatim>\<open>bcrypt\<close> is a parameter.
  \<^item> \<open>Service_Users\<close>: the handlers of \<^verbatim>\<open>auth.go\<close> and \<^verbatim>\<open>users.go\<close> for other users, presence and follows.

  \<^item> \<open>Chat_Redis\<close>, \<open>Locks\<close>: the commands of Redis the chat uses, over hashes, sorted sets, strings and
    published payloads, with the locale \<open>chat_store\<close> for what they do, also when they fail, its
    extension \<open>answering_chat_store\<close> for a server that is reached, and a store that does both; the
    locks by key of \<^verbatim>\<open>pkg/lock\<close>, with the locale \<open>locker\<close> for what they promise.
  \<^item> \<open>Chat_Entities\<close>, \<open>Chat\<close>: the entities of \<^verbatim>\<open>pkg/chat\<close>, \<^verbatim>\<open>usecase\<close> (\<open>uc_X\<close>) and \<^verbatim>\<open>controller\<close> (\<open>ct_X\<close>).
    Times are whole nanoseconds; what \<^verbatim>\<open>gob\<close> promises is \<open>gob_contract\<close>.
  \<^item> \<open>Chat_Copies\<close>: the copies of a conversation its participants keep, unread counts, pages of
    messages, and the invariant over all operations and failures.
  \<^item> \<open>Chat_Threads\<close>: several requests to send at once, as goroutines that make a command of Redis a
    step; order and exclusion, which messages arrive and how often, progress, and that a request alone
    does what \<open>uc_SendMessage\<close> does.
  \<^item> \<open>Service_Chat\<close>: the handlers of \<^verbatim>\<open>chat.go\<close>. A listener is given the events its \<^verbatim>\<open>select\<close> sees.

  \<^item> \<open>Service_Payment\<close>, \<open>Webhooks\<close>: the handlers of \<^verbatim>\<open>payment.go\<close>, over \<open>payment_api\<close>, the calls of Stripe
    that \<open>stripe_api\<close> does not have; both endpoints of \<^verbatim>\<open>stripewebhook.go\<close> and the handlers \<open>wb_X\<close> of
    \<^verbatim>\<open>pkg/webhook\<close>, where checking a signature and decoding an event are parameters of \<open>webhook_env\<close>.
  \<^item> \<open>Payments\<close>: who may be asked for money, what an event of Stripe can change, how a payment for a room
    is recorded, and when a trial is asked for.
  \<^item> \<open>Room_Access\<close>: runs of events, each of which may fail at any statement, over the map from rooms
    and users to statuses, and what a subscription recorded as active at the end says about the run; the locale \<open>room_machine\<close> has
    the argument for any steps that keep the map up to what they report.

  \<^item> \<open>Frames\<close>: for every statement, directory method and handler, which tables it leaves alone, over one
    part of the tables at a time (locale \<open>table_part\<close>).
  \<^item> \<open>Service\<close>: the interface \<^verbatim>\<open>UnpaperServiceServer\<close> as one type of calls, grouped as it is in the
    source, the dispatch of a call to its handler (\<open>serve\<close>), the full names of the methods, and runs of
    calls (\<open>run_service\<close>). A run is a list of calls one after the other, each with its own draws:
    ids, times, answers of Stripe, of the mail server and of Redis. The database may fail in all of them.
  \<^item> \<open>Service_Feed\<close>, \<open>Service_Accounts\<close>, \<open>Service_Rooms\<close>: what holds over every run of calls of all kinds:
    the tables stay well-typed, accounts stay and change on their grounds only, and an active subscription
    to a room is recorded by a signed event only.
  \<^item> \<open>Service_Entrance\<close>: the check and the service together. What the proxy between them does with the
    headers of the check is a parameter; \<open>replaces_headers\<close> is what its documentation says.

  Not modelled: the generated codecs, client stubs and HTTP gateway of \<^verbatim>\<open>pkg/api\<close>; process set-up and
  logging, which only call libraries; test helpers; the fees in floating point, which are parameters; and the bodies of
  handlers for paid rooms, which are commented out in the source and answer nil. So nothing in the
  service asks for the subscriptions to rooms it records: \<open>handleSubscriptionRoom\<close>, which is left of it,
  has no caller, and the theorems speak of what is recorded.
\<close>

end
